(* ===== verification/Identity_Base.thy ===== *)
theory Identity_Base
  imports Main "HOL-Library.Word" "HOL-Library.Char_ord" "HOL-Library.List_Lexorder"
begin

text \<open>
  The prelude of the development: the error values of the service, the result
  monad in which every fallible operation is written, the model of Go's
  \<^verbatim>\<open>time.Time\<close>, and the table operations to which the YQL statements of
  \<^verbatim>\<open>internal/store\<close> are translated.  The locale \<open>versioned_update\<close>
  states the contract of an optimistic (version-checked) row update once; the
  store theories interpret it for every such statement of the code.
\<close>

named_theorems store_defs \<open>definitions of store operations, unfolded together\<close>
named_theorems table_simps \<open>characteristic equations of the table operations\<close>

section \<open>Errors and results\<close>

text \<open>
  The four sentinel errors of \<^verbatim>\<open>internal/domain/errors.go\<close>, the credential
  errors of the two brokers, the typed rate-limit error of
  \<^verbatim>\<open>public_auth_limits.go\<close>, YDB's failure of an \<^verbatim>\<open>INSERT\<close> whose primary
  key exists, and \<open>ErrMessage\<close> for the untyped \<^verbatim>\<open>errors.New\<close> values.
\<close>

type_synonym time = int
type_synonym duration = int
type_synonym bytes = string
type_synonym uint64 = "64 word"

datatype error =
    ErrInvalid
  | ErrForbidden
  | ErrNotFound
  | ErrConflict
  | ErrInvalidCredential
  | ErrAccountCredential
  | PublicRateLimitError time
  | ErrKeyExists
  | ErrMessage string

type_synonym 'a result = "error + 'a"

definition rbind :: "'a result \<Rightarrow> ('a \<Rightarrow> 'b result) \<Rightarrow> 'b result" where
  "rbind m f = (case m of Inl e \<Rightarrow> Inl e | Inr x \<Rightarrow> f x)"

lemma rbind_simps [simp]:
  "rbind (Inl e) f = Inl e"
  "rbind (Inr x) f = f x"
  by (simp_all add: rbind_def)

lemma rbind_Inr_iff [simp]: "rbind m f = Inr y \<longleftrightarrow> (\<exists>x. m = Inr x \<and> f x = Inr y)"
  by (cases m) auto

lemma rbind_Inl_iff: "rbind m f = Inl e \<longleftrightarrow> m = Inl e \<or> (\<exists>x. m = Inr x \<and> f x = Inl e)"
  by (cases m) auto

lemma rbind_cong [fundef_cong]:
  "m = m' \<Longrightarrow> (\<And>x. m' = Inr x \<Longrightarrow> f x = f' x) \<Longrightarrow> rbind m f = rbind m' f'"
  by (cases m') auto

text \<open>A lookup that yields no row is reported as \<open>e\<close> (\<^verbatim>\<open>noRows\<close>, \<^verbatim>\<open>optimistic\<close>).\<close>

definition some_or :: "error \<Rightarrow> 'a option \<Rightarrow> 'a result" where
  "some_or e x = (case x of None \<Rightarrow> Inl e | Some y \<Rightarrow> Inr y)"

lemma some_or_simps [simp]:
  "some_or e None = Inl e"
  "some_or e (Some y) = Inr y"
  by (simp_all add: some_or_def)

lemma some_or_Inr [simp]: "some_or e x = Inr y \<longleftrightarrow> x = Some y"
  by (cases x) auto

text \<open>A Go loop whose body may return an error.\<close>

fun for_each :: "('a \<Rightarrow> 's \<Rightarrow> 's result) \<Rightarrow> 'a list \<Rightarrow> 's \<Rightarrow> 's result" where
  "for_each f [] s = Inr s"
| "for_each f (x # xs) s = rbind (f x s) (for_each f xs)"

lemma for_each_invariant:
  assumes "for_each f xs s = Inr s'"
    and "P s"
    and "\<And>x s s'. x \<in> set xs \<Longrightarrow> P s \<Longrightarrow> f x s = Inr s' \<Longrightarrow> P s'"
  shows "P s'"
  using assms
proof (induction xs arbitrary: s)
  case Nil
  then show ?case by simp
next
  case (Cons x xs)
  from Cons.prems(1) obtain u where u: "f x s = Inr u" "for_each f xs u = Inr s'"
    by auto
  from Cons.prems(3) [OF _ Cons.prems(2) u(1)] have "P u" by simp
  with u(2) show ?case using Cons.prems(3) by (intro Cons.IH) auto
qed

text \<open>
  The weakest precondition of a fallible computation: \<open>yields m P\<close> holds when every
  value that \<open>m\<close> returns satisfies \<open>P\<close>.
\<close>

definition yields :: "'a result \<Rightarrow> ('a \<Rightarrow> bool) \<Rightarrow> bool" where
  "yields m P \<longleftrightarrow> (\<forall>x. m = Inr x \<longrightarrow> P x)"

lemma yields_simps [simp]:
  "yields (Inl e) P"
  "yields (Inr x) P \<longleftrightarrow> P x"
  "yields (rbind m f) P \<longleftrightarrow> yields m (\<lambda>x. yields (f x) P)"
  "yields (some_or e y) P \<longleftrightarrow> (\<forall>x. y = Some x \<longrightarrow> P x)"
  by (auto simp: yields_def)

lemma yieldsD: "yields m P \<Longrightarrow> m = Inr x \<Longrightarrow> P x"
  by (simp add: yields_def)

lemma yields_weaken: "yields m Q \<Longrightarrow> (\<And>x. Q x \<Longrightarrow> P x) \<Longrightarrow> yields m P"
  by (simp add: yields_def)

lemma yields_any: "(\<And>x. P x) \<Longrightarrow> yields m P"
  by (simp add: yields_def)

lemma yields_for_each:
  assumes "I s" and "\<And>x s. x \<in> set xs \<Longrightarrow> I s \<Longrightarrow> yields (f x s) I" and "\<And>s. I s \<Longrightarrow> P s"
  shows "yields (for_each f xs s) P"
  unfolding yields_def
proof (intro allI impI)
  fix s' assume "for_each f xs s = Inr s'"
  from for_each_invariant [where P = I, OF this assms(1)] show "P s'"
    using assms(2,3) by (auto simp: yields_def)
qed

section \<open>Time\<close>

text \<open>
  A \<^verbatim>\<open>time.Time\<close> is the number of nanoseconds since the Unix epoch; Go's
  zero time is the first instant of year 1.  \<^verbatim>\<open>Truncate(time.Microsecond)\<close>
  and YDB's \<^verbatim>\<open>Timestamp\<close> column both keep whole microseconds.
\<close>

definition second :: duration where "second = 1000000000"
definition minute :: duration where "minute = 60 * second"
definition hour :: duration where "hour = 60 * minute"

lemmas duration_defs = second_def minute_def hour_def

lemma duration_pos [simp]: "0 < second" "0 < minute" "0 < hour"
  by (simp_all add: duration_defs)

definition zero_time :: time where "zero_time = - 62135596800 * second"

definition is_zero :: "time \<Rightarrow> bool" where "is_zero t \<longleftrightarrow> t = zero_time"

definition trunc_us :: "time \<Rightarrow> time" where "trunc_us t = t - t mod 1000"

definition unix :: "time \<Rightarrow> int" where "unix t = t div second"

lemma trunc_us_le: "trunc_us t \<le> t"
  by (simp add: trunc_us_def)

lemma trunc_us_gt: "t < trunc_us t + 1000"
  using pos_mod_bound [of 1000 t] by (simp add: trunc_us_def)

lemma trunc_us_idem [simp]: "trunc_us (trunc_us t) = trunc_us t"
  by (simp add: trunc_us_def minus_mod_eq_mult_div)

lemma trunc_us_mono: "s \<le> t \<Longrightarrow> trunc_us s \<le> trunc_us t"
  by (simp add: trunc_us_def minus_mod_eq_mult_div zdiv_mono1)

lemma trunc_us_add: "d mod 1000 = 0 \<Longrightarrow> trunc_us (t + d) = trunc_us t + d"
  by (simp add: trunc_us_def mod_add_eq [symmetric] flip: mod_add_eq [of t 1000 d])

end
