(* ===== verification/Tables.thy ===== *)
theory Tables
  imports Identity_Base
begin

text \<open>
  A YDB table is the list of its rows, in some order; a \<^verbatim>\<open>SELECT\<close> without
  \<^verbatim>\<open>ORDER BY\<close> returns them in that order, which no theorem depends on.
  \<open>key\<close> is the primary key of the row type.  \<open>uniq\<close> is the primary-key
  constraint: it is an invariant of every operation below, and under it a table
  implements the finite map \<open>\<lambda>k. tfind key k t\<close>.
\<close>

section \<open>Statements\<close>

definition uniq :: "('r \<Rightarrow> 'k) \<Rightarrow> 'r list \<Rightarrow> bool" where
  "uniq key t \<longleftrightarrow> distinct (map key t)"

definition tfind :: "('r \<Rightarrow> 'k) \<Rightarrow> 'k \<Rightarrow> 'r list \<Rightarrow> 'r option" where
  "tfind key k t = List.find (\<lambda>r. key r = k) t"

definition tbl_insert :: "('r \<Rightarrow> 'k) \<Rightarrow> 'r \<Rightarrow> 'r list \<Rightarrow> 'r list result" where
  "tbl_insert key r t = (if List.member (map key t) (key r) then Inl ErrKeyExists else Inr (t @ [r]))"

definition tbl_update :: "('r \<Rightarrow> bool) \<Rightarrow> ('r \<Rightarrow> 'r) \<Rightarrow> 'r list \<Rightarrow> 'r list" where
  "tbl_update P f t = map (\<lambda>r. if P r then f r else r) t"

definition tbl_delete :: "('r \<Rightarrow> bool) \<Rightarrow> 'r list \<Rightarrow> 'r list" where
  "tbl_delete P t = filter (\<lambda>r. \<not> P r) t"

definition tbl_upsert :: "('r \<Rightarrow> 'k) \<Rightarrow> 'r \<Rightarrow> 'r list \<Rightarrow> 'r list" where
  "tbl_upsert key r t =
     (if List.member (map key t) (key r) then tbl_update (\<lambda>x. key x = key r) (\<lambda>_. r) t
      else t @ [r])"

text \<open>
  \<^verbatim>\<open>UPDATE t SET \<dots>, version = version + 1 WHERE id = k AND version = v AND extra
  RETURNING version\<close>, followed by the check of the returned version: no row is a
  conflict (\<^verbatim>\<open>optimistic\<close>), and so is a returned version other than
  \<open>v + 1\<close> in 64-bit arithmetic.
\<close>

definition cas_update ::
  "('r \<Rightarrow> 'k) \<Rightarrow> ('r \<Rightarrow> uint64) \<Rightarrow> 'k \<Rightarrow> uint64 \<Rightarrow> ('r \<Rightarrow> bool) \<Rightarrow> ('r \<Rightarrow> 'r) \<Rightarrow> 'r list \<Rightarrow> 'r list result"
where
  "cas_update key ver k v extra f t =
     rbind (some_or ErrConflict (List.find (\<lambda>r. key r = k \<and> ver r = v \<and> extra r) t)) (\<lambda>r.
     if ver (f r) \<noteq> v + 1 then Inl ErrConflict
     else Inr (tbl_update (\<lambda>r. key r = k \<and> ver r = v \<and> extra r) f t))"

text \<open>\<^verbatim>\<open>checkPublicVersion\<close> also refuses the row whose version is exhausted.\<close>

definition cas_public ::
  "('r \<Rightarrow> 'k) \<Rightarrow> ('r \<Rightarrow> uint64) \<Rightarrow> 'k \<Rightarrow> uint64 \<Rightarrow> ('r \<Rightarrow> bool) \<Rightarrow> ('r \<Rightarrow> 'r) \<Rightarrow> 'r list \<Rightarrow> 'r list result"
where
  "cas_public key ver k v extra f t =
     rbind (cas_update key ver k v extra f t) (\<lambda>t'.
     if v = - 1 then Inl ErrConflict else Inr t')"

section \<open>Lookup equations\<close>

lemma find_Some_mem: "List.find P t = Some r \<Longrightarrow> r \<in> set t \<and> P r"
  by (auto simp: find_Some_iff)

lemma tfind_Some: "tfind key k t = Some r \<Longrightarrow> r \<in> set t \<and> key r = k"
  by (auto simp: tfind_def dest: find_Some_mem)

lemma tfind_None [table_simps]: "tfind key k t = None \<longleftrightarrow> k \<notin> key ` set t"
  by (auto simp: tfind_def find_None_iff)

lemmas tfind_mem = tfind_Some [THEN conjunct1]
  and tfind_key = tfind_Some [THEN conjunct2]

lemma tfind_self: "tfind key k t = Some r \<Longrightarrow> tfind key (key r) t = Some r"
  by (frule tfind_key) simp

lemma tfind_fresh: "k \<notin> key ` set t \<Longrightarrow> tfind key k t = None"
  by (simp add: tfind_None)

lemma tfind_Nil [simp]: "tfind key k [] = None"
  by (simp add: tfind_def)

lemma tfind_Cons [simp]: "tfind key k (r # t) = (if key r = k then Some r else tfind key k t)"
  by (simp add: tfind_def)

lemma tfind_append:
  "tfind key k (t @ u) = (case tfind key k t of None \<Rightarrow> tfind key k u | Some r \<Rightarrow> Some r)"
  by (induction t) auto

lemma uniq_simps [simp]:
  "uniq key []"
  "uniq key (r # t) \<longleftrightarrow> key r \<notin> key ` set t \<and> uniq key t"
  by (simp_all add: uniq_def)

lemma uniq_mem_tfind: "uniq key t \<Longrightarrow> r \<in> set t \<Longrightarrow> tfind key (key r) t = Some r"
  by (induction t) (auto simp: image_iff)

lemma uniq_tfind_iff: "uniq key t \<Longrightarrow> tfind key k t = Some r \<longleftrightarrow> r \<in> set t \<and> key r = k"
  using uniq_mem_tfind tfind_Some by fastforce

lemma uniq_inj: "uniq key t \<Longrightarrow> r \<in> set t \<Longrightarrow> s \<in> set t \<Longrightarrow> key r = key s \<Longrightarrow> r = s"
  by (metis uniq_mem_tfind option.inject)

lemma find_key_uniq:
  "uniq key t \<Longrightarrow>
   List.find (\<lambda>r. key r = k \<and> Q r) t = Some r \<longleftrightarrow> tfind key k t = Some r \<and> Q r"
proof (induction t)
  case (Cons a t)
  then have "k = key a \<Longrightarrow> tfind key k t = None" by (auto simp: tfind_None)
  with Cons show ?case by auto
qed simp

subsection \<open>INSERT\<close>

lemma tbl_insert_Inr_iff [table_simps]:
  "tbl_insert key r t = Inr t' \<longleftrightarrow> key r \<notin> key ` set t \<and> t' = t @ [r]"
  by (auto simp: tbl_insert_def)

lemma tfind_snoc: "key r \<notin> key ` set t \<Longrightarrow>
  tfind key k (t @ [r]) = (if k = key r then Some r else tfind key k t)"
  by (induction t) auto

lemma tfind_insert:
  "tbl_insert key r t = Inr t' \<Longrightarrow> tfind key k t' = (if k = key r then Some r else tfind key k t)"
  by (auto simp: tbl_insert_Inr_iff tfind_snoc)

lemma uniq_insert: "uniq key t \<Longrightarrow> tbl_insert key r t = Inr t' \<Longrightarrow> uniq key t'"
  by (auto simp: tbl_insert_Inr_iff uniq_def)

subsection \<open>UPDATE\<close>

lemma map_key_update: "(\<And>r. key (f r) = key r) \<Longrightarrow> map key (tbl_update P f t) = map key t"
  by (simp add: tbl_update_def)

lemma keys_update [table_simps]: "(\<And>r. key (f r) = key r) \<Longrightarrow> key ` set (tbl_update P f t) = key ` set t"
  by (metis list.set_map map_key_update)

lemma uniq_update [table_simps]: "(\<And>r. key (f r) = key r) \<Longrightarrow> uniq key (tbl_update P f t) = uniq key t"
  by (simp add: uniq_def map_key_update)

lemma tfind_update:
  "(\<And>r. key (f r) = key r) \<Longrightarrow>
   tfind key k (tbl_update P f t) = map_option (\<lambda>r. if P r then f r else r) (tfind key k t)"
  by (induction t) (auto simp: tbl_update_def)

lemma set_update: "set (tbl_update P f t) = {if P r then f r else r |r. r \<in> set t}"
  by (auto simp: tbl_update_def)

lemma length_update [simp]: "length (tbl_update P f t) = length t"
  by (simp add: tbl_update_def)

subsection \<open>DELETE\<close>

lemma set_delete [table_simps]: "set (tbl_delete P t) = {r \<in> set t. \<not> P r}"
  by (simp add: tbl_delete_def)

lemma uniq_delete [table_simps]: "uniq key t \<Longrightarrow> uniq key (tbl_delete P t)"
  by (simp add: tbl_delete_def uniq_def distinct_map_filter)

lemma tfind_delete:
  "uniq key t \<Longrightarrow> tfind key k (tbl_delete P t) =
     (case tfind key k t of None \<Rightarrow> None | Some r \<Rightarrow> if P r then None else Some r)"
proof (induction t)
  case (Cons r t)
  then have "k = key r \<Longrightarrow> tfind key k t = None" by (auto simp: tfind_None)
  with Cons show ?case by (auto simp: tbl_delete_def)
qed (simp add: tbl_delete_def)

lemma tbl_delete_none: "(\<And>r. r \<in> set t \<Longrightarrow> \<not> P r) \<Longrightarrow> tbl_delete P t = t"
  by (simp add: tbl_delete_def filter_id_conv)

subsection \<open>UPSERT\<close>

lemma tfind_replace:
  "tfind key k (tbl_update (\<lambda>x. key x = key r) (\<lambda>_. r) t) =
     (if k = key r \<and> key r \<in> key ` set t then Some r else tfind key k t)"
  by (induction t) (auto simp: tbl_update_def)

lemma tfind_upsert: "tfind key k (tbl_upsert key r t) = (if k = key r then Some r else tfind key k t)"
  by (auto simp: tbl_upsert_def tfind_replace tfind_snoc)

lemma set_upsert: "uniq key t \<Longrightarrow> set (tbl_upsert key r t) = insert r {x \<in> set t. key x \<noteq> key r}"
  by (auto simp: tbl_upsert_def set_update) (metis image_eqI)

lemma uniq_upsert: "uniq key t \<Longrightarrow> uniq key (tbl_upsert key r t)"
proof -
  assume u: "uniq key t"
  have "map key (tbl_update (\<lambda>x. key x = key r) (\<lambda>_. r) t) = map key t"
    by (simp add: tbl_update_def)
  with u show ?thesis by (auto simp: tbl_upsert_def uniq_def)
qed

section \<open>Optimistic updates\<close>

lemma cas_update_cases:
  "cas_update key ver k v extra f t = Inl ErrConflict \<or> (\<exists>t'. cas_update key ver k v extra f t = Inr t')"
  by (auto simp: cas_update_def rbind_def some_or_def split: option.splits)

text \<open>
  The contract that every version-checked \<^verbatim>\<open>UPDATE\<close> of the store shares: \<open>upd p\<close>
  is the row effect of the statement with parameters \<open>p\<close>, and it keeps the
  primary key and increments the version.
\<close>

locale versioned_update =
  fixes key :: "'r \<Rightarrow> 'k"
    and ver :: "'r \<Rightarrow> uint64"
    and upd :: "'p \<Rightarrow> 'r \<Rightarrow> 'r"
  assumes upd_key [simp]: "key (upd p r) = key r"
    and upd_ver [simp]: "ver (upd p r) = ver r + 1"
begin

lemma cas_success:
  assumes "uniq key t"
  shows "cas_update key ver k v extra (upd p) t = Inr t' \<longleftrightarrow>
    (\<exists>r. tfind key k t = Some r \<and> ver r = v \<and> extra r \<and>
         t' = tbl_update (\<lambda>x. key x = k) (upd p) t)"
proof -
  have eq: "tbl_update (\<lambda>x. key x = k \<and> ver x = v \<and> extra x) (upd p) t =
      tbl_update (\<lambda>x. key x = k) (upd p) t"
    if "tfind key k t = Some r" "ver r = v" "extra r" for r
    using that assms by (auto simp: tbl_update_def uniq_tfind_iff dest: uniq_inj)
  show ?thesis (is "?L \<longleftrightarrow> ?R")
  proof
    assume ?L
    then obtain r where r: "tfind key k t = Some r" "ver r = v" "extra r"
      and t': "t' = tbl_update (\<lambda>x. key x = k \<and> ver x = v \<and> extra x) (upd p) t"
      by (auto simp: cas_update_def find_key_uniq [OF assms] split: if_splits)
    from t' eq [OF r] r show ?R by metis
  next
    assume ?R
    then obtain r where r: "tfind key k t = Some r" "ver r = v" "extra r"
      and t': "t' = tbl_update (\<lambda>x. key x = k) (upd p) t" by auto
    from r have "List.find (\<lambda>r. key r = k \<and> ver r = v \<and> extra r) t = Some r"
      by (simp add: find_key_uniq [OF assms])
    then show ?L unfolding cas_update_def t' eq [OF r] by (simp add: r)
  qed
qed

lemma cas_uniq: "uniq key t \<Longrightarrow> cas_update key ver k v extra (upd p) t = Inr t' \<Longrightarrow> uniq key t'"
  by (auto simp: cas_success table_simps)

lemma cas_lookup:
  assumes "uniq key t" and "cas_update key ver k v extra (upd p) t = Inr t'"
  shows "tfind key j t' = (if j = k then map_option (upd p) (tfind key k t) else tfind key j t)"
proof -
  from assms have "t' = tbl_update (\<lambda>x. key x = k) (upd p) t" by (auto simp: cas_success)
  then show ?thesis
    by (cases "tfind key j t") (auto simp: tfind_update dest: tfind_Some)
qed

text \<open>
  Lost updates cannot happen: a second writer that read the same version finds
  no row and gets a conflict.
\<close>

lemma cas_second_writer:
  assumes "uniq key t" and "cas_update key ver k v extra (upd p) t = Inr t'"
  shows "cas_update key ver k v extra' (upd q) t' = Inl ErrConflict"
proof -
  have "uniq key t'" using assms by (rule cas_uniq)
  moreover have "tfind key k t' = Some r \<Longrightarrow> ver r \<noteq> v" for r
    using assms by (auto simp: cas_lookup [OF assms] cas_success [OF assms(1)])
  ultimately have "cas_update key ver k v extra' (upd q) t' \<noteq> Inr u" for u
    using cas_success by blast
  then show ?thesis using cas_update_cases by metis
qed

lemma cas_public_success:
  assumes "uniq key t"
  shows "cas_public key ver k v extra (upd p) t = Inr t' \<longleftrightarrow>
    v \<noteq> - 1 \<and> (\<exists>r. tfind key k t = Some r \<and> ver r = v \<and> extra r \<and>
         t' = tbl_update (\<lambda>x. key x = k) (upd p) t)"
  by (auto simp: cas_public_def cas_success [OF assms])

lemma cas_public_uniq: "uniq key t \<Longrightarrow> cas_public key ver k v extra (upd p) t = Inr t' \<Longrightarrow> uniq key t'"
  by (auto simp: cas_public_success table_simps)

lemma cas_public_lookup:
  assumes "uniq key t" and "cas_public key ver k v extra (upd p) t = Inr t'"
  shows "tfind key j t' = (if j = k then map_option (upd p) (tfind key k t) else tfind key j t)"
  using assms(2) by (auto simp: cas_public_def cas_lookup [OF assms(1)] split: if_splits)

end

end
