(* ===== verification/Domain_Rules.thy ===== *)
theory Domain_Rules
  imports Identity_Base "HOL-Library.Sublist"
begin

text \<open>
  The package \<^verbatim>\<open>internal/domain\<close>: identifier syntax, declared regions and the
  two state machines (public e-mail challenges and privacy requests), with the
  parts of Go's \<^verbatim>\<open>strings\<close>, \<^verbatim>\<open>unicode\<close> and \<^verbatim>\<open>unicode/utf8\<close> they call,
  on byte strings.
\<close>

section \<open>Byte strings\<close>

abbreviation code :: "char \<Rightarrow> nat" where "code c \<equiv> of_char c"

definition is_lower :: "char \<Rightarrow> bool" where "is_lower c \<longleftrightarrow> 97 \<le> code c \<and> code c \<le> 122"
definition is_upper :: "char \<Rightarrow> bool" where "is_upper c \<longleftrightarrow> 65 \<le> code c \<and> code c \<le> 90"
definition is_digit :: "char \<Rightarrow> bool" where "is_digit c \<longleftrightarrow> 48 \<le> code c \<and> code c \<le> 57"
definition is_alpha :: "char \<Rightarrow> bool" where "is_alpha c \<longleftrightarrow> is_lower c \<or> is_upper c"
definition is_lower_hex :: "char \<Rightarrow> bool" where
  "is_lower_hex c \<longleftrightarrow> is_digit c \<or> 97 \<le> code c \<and> code c \<le> 102"

lemmas char_class_defs = is_lower_def is_upper_def is_digit_def is_alpha_def is_lower_hex_def

text \<open>
  \<^verbatim>\<open>strings.ToLower\<close> and \<^verbatim>\<open>strings.ToUpper\<close>, used by the code only where the
  result is matched against, or has already matched, an ASCII pattern of letters
  that no other code point folds to.
\<close>

definition lower_char :: "char \<Rightarrow> char" where
  "lower_char c = (if is_upper c then char_of (code c + 32) else c)"

definition upper_char :: "char \<Rightarrow> char" where
  "upper_char c = (if is_lower c then char_of (code c - 32) else c)"

definition to_lower :: "string \<Rightarrow> string" where "to_lower s = map lower_char s"
definition to_upper :: "string \<Rightarrow> string" where "to_upper s = map upper_char s"

lemma code_lower_char: "code (lower_char c) = (if is_upper c then code c + 32 else code c)"
  by (simp add: lower_char_def is_upper_def of_char_of)

lemma code_upper_char: "code (upper_char c) = (if is_lower c then code c - 32 else code c)"
  by (auto simp: upper_char_def is_lower_def of_char_of)

lemma code_inject: "code c = code d \<longleftrightarrow> c = d"
  by (metis char_of_char)

lemma upper_char_idem [simp]: "upper_char (upper_char c) = upper_char c"
  by (auto simp: code_inject [symmetric] code_upper_char is_lower_def)

lemma lower_char_idem [simp]: "lower_char (lower_char c) = lower_char c"
  by (simp add: code_inject [symmetric] code_lower_char is_upper_def)

lemma to_upper_Nil [simp]: "to_upper s = [] \<longleftrightarrow> s = []"
  by (simp add: to_upper_def)

lemma to_upper_idem [simp]: "to_upper (to_upper s) = to_upper s"
  by (simp add: to_upper_def)

lemma to_lower_idem [simp]: "to_lower (to_lower s) = to_lower s"
  by (simp add: to_lower_def)

lemma is_alpha_upper_char [simp]: "is_alpha (upper_char c) = is_alpha c"
  by (auto simp: char_class_defs code_upper_char)

lemma is_digit_upper_char [simp]: "is_digit (upper_char c) = is_digit c"
  by (auto simp: char_class_defs code_upper_char)

text \<open>A regular expression that is a sequence of character classes.\<close>

definition matches :: "(char \<Rightarrow> bool) list \<Rightarrow> string \<Rightarrow> bool" where
  "matches ps s \<longleftrightarrow> list_all2 (\<lambda>p c. p c) ps s"

text \<open>
  \<^verbatim>\<open>strings.TrimSpace\<close>: the UTF-8 encodings of the code points with the
  property \<^verbatim>\<open>White_Space\<close> are stripped from both ends.
\<close>

definition space_runes :: "string list" where
  "space_runes =
     map (\<lambda>c. [c]) [CHR 0x09, CHR 0x0A, CHR 0x0B, CHR 0x0C, CHR 0x0D, CHR 0x20]
     @ [[CHR 0xC2, CHR 0x85], [CHR 0xC2, CHR 0xA0], [CHR 0xE1, CHR 0x9A, CHR 0x80]]
     @ map (\<lambda>n. [CHR 0xE2, CHR 0x80, char_of n]) ([128..<139] @ [168, 169, 175])
     @ [[CHR 0xE2, CHR 0x81, CHR 0x9F], [CHR 0xE3, CHR 0x80, CHR 0x80]]"

fun drop_runes :: "string list \<Rightarrow> nat \<Rightarrow> string \<Rightarrow> string" where
  "drop_runes rs 0 s = s"
| "drop_runes rs (Suc n) s =
     (case List.find (\<lambda>r. prefix r s) rs of
        None \<Rightarrow> s
      | Some r \<Rightarrow> drop_runes rs n (drop (length r) s))"

definition trim_left :: "string \<Rightarrow> string" where
  "trim_left s = drop_runes space_runes (length s) s"

definition trim_right :: "string \<Rightarrow> string" where
  "trim_right s = rev (drop_runes (map rev space_runes) (length s) (rev s))"

definition trim_space :: "string \<Rightarrow> string" where
  "trim_space s = trim_right (trim_left s)"

text \<open>Every space rune is non-empty, so the length of the string is enough fuel.\<close>

lemma drop_runes_stable:
  assumes "\<And>r. r \<in> set rs \<Longrightarrow> r \<noteq> []" and "length s \<le> n"
  shows "List.find (\<lambda>r. prefix r (drop_runes rs n s)) rs = None"
  using assms(2)
proof (induction n arbitrary: s)
  case 0
  with assms(1) show ?case by (auto simp: find_None_iff)
next
  case (Suc n)
  show ?case
  proof (cases "List.find (\<lambda>r. prefix r s) rs")
    case None
    then show ?thesis by simp
  next
    case (Some r)
    then have "r \<in> set rs" and "prefix r s" by (auto simp: find_Some_iff)
    with assms(1) have "1 \<le> length r" by (cases r) auto
    with Suc.prems have "length (drop (length r) s) \<le> n" by auto
    then show ?thesis using Some Suc.IH by simp
  qed
qed

lemma drop_runes_none: "List.find (\<lambda>r. prefix r s) rs = None \<Longrightarrow> drop_runes rs n s = s"
  by (cases n) auto

lemma space_runes_nonempty: "r \<in> set space_runes \<Longrightarrow> r \<noteq> []"
  by (auto simp: space_runes_def)

lemma space_rune_ends:
  "r \<in> set space_runes \<Longrightarrow>
   (code (hd r) < 128 \<longrightarrow> code (hd r) \<in> {9, 10, 11, 12, 13, 32}) \<and>
   (code (last r) < 128 \<longrightarrow> code (last r) \<in> {9, 10, 11, 12, 13, 32})"
  by (auto simp: space_runes_def of_char_of)

lemma trim_noop:
  assumes "s \<noteq> [] \<Longrightarrow> code (hd s) < 128 \<and> code (last s) < 128"
    and "\<And>c. c \<in> set s \<Longrightarrow> code c \<notin> {9, 10, 11, 12, 13, 32}"
  shows "trim_space s = s"
proof -
  have "\<not> prefix r s" and "\<not> prefix (rev r) (rev s)" if "r \<in> set space_runes" for r
  proof -
    note ends = space_rune_ends [OF that] space_runes_nonempty [OF that]
    show "\<not> prefix r s"
    proof
      assume "prefix r s"
      with ends have "hd r = hd s" "s \<noteq> []" by (auto elim!: prefixE)
      with ends assms show False by (metis hd_in_set)
    qed
    show "\<not> prefix (rev r) (rev s)"
    proof
      assume "prefix (rev r) (rev s)"
      then have "suffix r s" by (simp add: suffix_to_prefix)
      with ends have "last r = last s" "s \<noteq> []" by (auto elim!: suffixE)
      with ends assms show False by (metis last_in_set)
    qed
  qed
  then have l: "List.find (\<lambda>r. prefix r s) space_runes = None"
    and r: "List.find (\<lambda>r. prefix r (rev s)) (map rev space_runes) = None"
    by (auto simp: find_None_iff)
  show ?thesis
    by (simp add: trim_space_def trim_left_def trim_right_def drop_runes_none [OF l] drop_runes_none [OF r])
qed

text \<open>
  \<^verbatim>\<open>utf8.ValidString\<close>, and \<^verbatim>\<open>strings.IndexFunc(s, unicode.IsControl)\<close>: an ASCII
  control byte, DEL, or an encoding C2 80 .. C2 9F.
\<close>

definition cont_byte :: "char \<Rightarrow> bool" where "cont_byte c \<longleftrightarrow> 128 \<le> code c \<and> code c \<le> 191"

fun utf8_valid :: "string \<Rightarrow> bool" where
  "utf8_valid [] = True"
| "utf8_valid (a # s) =
     (if code a < 128 then utf8_valid s
      else (case s of [] \<Rightarrow> False | b # s1 \<Rightarrow>
        if 194 \<le> code a \<and> code a \<le> 223 then cont_byte b \<and> utf8_valid s1
        else (case s1 of [] \<Rightarrow> False | c # s2 \<Rightarrow>
          if 224 \<le> code a \<and> code a \<le> 239 then
            cont_byte b \<and> cont_byte c \<and> (code a = 224 \<longrightarrow> 160 \<le> code b) \<and>
            (code a = 237 \<longrightarrow> code b \<le> 159) \<and> utf8_valid s2
          else (case s2 of [] \<Rightarrow> False | d # s3 \<Rightarrow>
            240 \<le> code a \<and> code a \<le> 244 \<and> cont_byte b \<and> cont_byte c \<and> cont_byte d \<and>
            (code a = 240 \<longrightarrow> 144 \<le> code b) \<and> (code a = 244 \<longrightarrow> code b \<le> 143) \<and> utf8_valid s3))))"

fun has_control :: "string \<Rightarrow> bool" where
  "has_control [] = False"
| "has_control (a # s) =
     (code a < 32 \<or> code a = 127 \<or>
      (code a = 194 \<and> s \<noteq> [] \<and> 128 \<le> code (hd s) \<and> code (hd s) \<le> 159) \<or> has_control s)"

section \<open>Identifier syntax\<close>

definition ValidProductID :: "string \<Rightarrow> bool" where
  "ValidProductID s = (case s of [] \<Rightarrow> False | c # cs \<Rightarrow>
     is_lower c \<and> 1 \<le> length cs \<and> length cs \<le> 63 \<and>
     list_all (\<lambda>c. is_lower c \<or> is_digit c \<or> c = CHR ''_'' \<or> c = CHR ''-'') cs)"

definition uuid_pattern :: "(char \<Rightarrow> bool) list" where
  "uuid_pattern =
     replicate 8 is_lower_hex @ [\<lambda>c. c = CHR ''-''] @
     replicate 4 is_lower_hex @ [\<lambda>c. c = CHR ''-''] @
     [\<lambda>c. 49 \<le> code c \<and> code c \<le> 53] @ replicate 3 is_lower_hex @ [\<lambda>c. c = CHR ''-''] @
     [\<lambda>c. c \<in> set ''89ab''] @ replicate 3 is_lower_hex @ [\<lambda>c. c = CHR ''-''] @
     replicate 12 is_lower_hex"

definition ValidUUID :: "string \<Rightarrow> bool" where
  "ValidUUID s = matches uuid_pattern (to_lower s)"

definition TrimmedWithin :: "string \<Rightarrow> nat \<Rightarrow> nat \<Rightarrow> string \<times> bool" where
  "TrimmedWithin value low high =
     (let trimmed = trim_space value in (trimmed, low \<le> length trimmed \<and> length trimmed \<le> high))"

definition ValidHolderRole :: "string \<Rightarrow> bool" where
  "ValidHolderRole role \<longleftrightarrow> role = ''self'' \<or> role = ''representative''"

lemma ValidUUID_length: "ValidUUID s \<Longrightarrow> length s = 36"
  by (auto simp: ValidUUID_def matches_def to_lower_def uuid_pattern_def dest!: list_all2_lengthD)

lemma ValidUUID_nonempty [simp]: "\<not> ValidUUID []"
  by (auto dest: ValidUUID_length)

lemma ValidProductID_nonempty [simp]: "\<not> ValidProductID []"
  by (simp add: ValidProductID_def)

text \<open>The pattern is applied to the lower-cased value, so case does not matter.\<close>

lemma ValidUUID_to_lower [simp]: "ValidUUID (to_lower s) = ValidUUID s"
  by (simp add: ValidUUID_def)

section \<open>Declared regions\<close>

definition country_pattern :: "string \<Rightarrow> bool" where
  "country_pattern s = matches [is_alpha, is_alpha] s"

definition region_pattern :: "string \<Rightarrow> bool" where
  "region_pattern s \<longleftrightarrow>
     matches [is_alpha, is_alpha, \<lambda>c. c = CHR ''-''] (take 3 s) \<and>
     4 \<le> length s \<and> length s \<le> 6 \<and> list_all (\<lambda>c. is_alpha c \<or> is_digit c) (drop 3 s)"

definition NormalizeDeclaredRegion :: "string \<Rightarrow> string \<Rightarrow> (string \<times> string) result" where
  "NormalizeDeclaredRegion country0 region0 =
     (let country = trim_space country0; region = trim_space region0 in
      if country \<noteq> [] \<and> \<not> country_pattern country \<or> region \<noteq> [] \<and> \<not> region_pattern region
      then Inl ErrInvalid
      else
        let country = to_upper country; region = to_upper region in
        if region \<noteq> [] \<and> (country = [] \<or> \<not> prefix (country @ ''-'') region)
        then Inl ErrInvalid
        else Inr (country, region))"

section \<open>State machines\<close>

definition ValidPrivacyTransition :: "string \<Rightarrow> string \<Rightarrow> bool" where
  "ValidPrivacyTransition from to =
     (if from = ''requested'' then to = ''processing'' \<or> to = ''rejected'' \<or> to = ''cancelled''
      else if from = ''processing'' then to = ''completed'' \<or> to = ''rejected'' \<or> to = ''cancelled''
      else False)"

definition PublicEmailQueueTTL :: duration where "PublicEmailQueueTTL = 48 * hour"
definition PublicEmailCodeTTL :: duration where "PublicEmailCodeTTL = 10 * minute"

datatype PublicChallengeState =
    Requested | Delivering | Delivered | Verified | Consumed
  | DeliveryFailed | DeliveryUncertain | Expired | Locked | Cancelled

fun challenge_state_text :: "PublicChallengeState \<Rightarrow> string" where
  "challenge_state_text Requested = ''requested''"
| "challenge_state_text Delivering = ''delivering''"
| "challenge_state_text Delivered = ''delivered''"
| "challenge_state_text Verified = ''verified''"
| "challenge_state_text Consumed = ''consumed''"
| "challenge_state_text DeliveryFailed = ''delivery_failed''"
| "challenge_state_text DeliveryUncertain = ''delivery_uncertain''"
| "challenge_state_text Expired = ''expired''"
| "challenge_state_text Locked = ''locked''"
| "challenge_state_text Cancelled = ''cancelled''"

fun CanTransitionPublicChallenge :: "PublicChallengeState \<Rightarrow> PublicChallengeState \<Rightarrow> bool" where
  "CanTransitionPublicChallenge Requested to \<longleftrightarrow>
     to = Delivering \<or> to = Cancelled \<or> to = Expired"
| "CanTransitionPublicChallenge Delivering to \<longleftrightarrow>
     to = Delivered \<or> to = DeliveryFailed \<or> to = DeliveryUncertain \<or> to = Cancelled \<or>
     to = Expired \<or> to = Verified \<or> to = Locked"
| "CanTransitionPublicChallenge Delivered to \<longleftrightarrow>
     to = Verified \<or> to = Locked \<or> to = Cancelled \<or> to = Expired"
| "CanTransitionPublicChallenge DeliveryUncertain to \<longleftrightarrow>
     to = Verified \<or> to = Locked \<or> to = Cancelled \<or> to = Expired"
| "CanTransitionPublicChallenge Verified to \<longleftrightarrow> to = Consumed"
| "CanTransitionPublicChallenge _ to \<longleftrightarrow> False"

datatype PublicSessionState = SessionActive | SessionRevoked | SessionExpired

definition ValidPublicSession :: "time \<Rightarrow> time \<Rightarrow> PublicSessionState \<Rightarrow> bool" where
  "ValidPublicSession now expires status \<longleftrightarrow> status = SessionActive \<and> now < expires"

section \<open>Properties of the domain rules\<close>

lemma list_all2_pred_mem: "list_all2 (\<lambda>p c. p c) ps s \<Longrightarrow> c \<in> set s \<Longrightarrow> \<exists>p \<in> set ps. p c"
  by (induction ps s rule: list_all2_induct) auto

lemma country_pattern_upper: "country_pattern s \<Longrightarrow> country_pattern (to_upper s)"
  by (auto simp: country_pattern_def matches_def to_upper_def list_all2_Cons1)

lemma matches_upper_dash:
  "matches [is_alpha, is_alpha, \<lambda>c. c = CHR ''-''] s \<Longrightarrow>
   matches [is_alpha, is_alpha, \<lambda>c. c = CHR ''-''] (map upper_char s)"
  by (auto simp: matches_def list_all2_Cons1) (simp add: upper_char_def is_lower_def)

lemma region_pattern_upper: "region_pattern s \<Longrightarrow> region_pattern (to_upper s)"
  by (auto simp: region_pattern_def to_upper_def take_map drop_map list_all_iff
      intro!: matches_upper_dash)

lemma country_pattern_ascii:
  "country_pattern s \<Longrightarrow> c \<in> set s \<Longrightarrow> is_alpha c"
  unfolding country_pattern_def matches_def by (drule (1) list_all2_pred_mem) auto

lemma region_pattern_ascii:
  assumes "region_pattern s" and "c \<in> set s"
  shows "is_alpha c \<or> is_digit c \<or> c = CHR ''-''"
proof -
  from assms(2) have "c \<in> set (take 3 s) \<or> c \<in> set (drop 3 s)"
    by (metis Un_iff append_take_drop_id set_append)
  with assms(1) show ?thesis
    by (auto simp: region_pattern_def matches_def list_all_iff dest!: list_all2_pred_mem)
qed

lemma trim_ascii:
  assumes "\<And>c. c \<in> set s \<Longrightarrow> is_alpha c \<or> is_digit c \<or> c = CHR ''-''"
  shows "trim_space s = s"
proof (rule trim_noop)
  have "code c < 128 \<and> code c \<notin> {9, 10, 11, 12, 13, 32}" if "c \<in> set s" for c
    using assms [OF that] by (auto simp: char_class_defs)
  then show "s \<noteq> [] \<Longrightarrow> code (hd s) < 128 \<and> code (last s) < 128"
    and "\<And>c. c \<in> set s \<Longrightarrow> code c \<notin> {9, 10, 11, 12, 13, 32}" by auto
qed

lemma trim_country: "country_pattern s \<Longrightarrow> trim_space s = s"
  by (rule trim_ascii) (auto dest: country_pattern_ascii)

lemma trim_region: "region_pattern s \<Longrightarrow> trim_space s = s"
  by (rule trim_ascii) (auto dest: region_pattern_ascii)

lemma trim_space_Nil [simp]: "trim_space [] = []"
  by (rule trim_noop) auto

text \<open>
  A normalised declaration is a fixed point of the normalisation, its country
  is absent or two letters, and a region is always inside its country: what the
  profile stores never changes when it is declared again.
\<close>

theorem normalize_declared_region_stable:
  assumes "NormalizeDeclaredRegion country region = Inr (c, r)"
  shows "NormalizeDeclaredRegion c r = Inr (c, r) \<and> (c = [] \<or> country_pattern c) \<and>
    (r = [] \<or> region_pattern r \<and> prefix (c @ ''-'') r)"
proof -
  from assms have c: "c = [] \<or> country_pattern c" and cu: "to_upper c = c"
    and r: "r = [] \<or> region_pattern r" and ru: "to_upper r = r"
    and p: "r \<noteq> [] \<Longrightarrow> c \<noteq> [] \<and> prefix (c @ ''-'') r"
    by (auto simp: NormalizeDeclaredRegion_def Let_def
        dest: country_pattern_upper region_pattern_upper split: if_splits)
  then have "trim_space c = c" and "trim_space r = r"
    by (auto simp: trim_country trim_region)
  with c cu r ru p show ?thesis
    by (auto simp: NormalizeDeclaredRegion_def Let_def)
qed

theorem normalize_declared_region_stable_witness:
  "NormalizeDeclaredRegion ''ru'' ''RU-mow'' = Inr (''RU'', ''RU-MOW'') \<and>
   NormalizeDeclaredRegion ''RU'' ''RU-MOW'' = Inr (''RU'', ''RU-MOW'')"
proof -
  have p: "country_pattern ''ru''" "region_pattern ''RU-mow''"
    by (simp_all add: country_pattern_def region_pattern_def matches_def char_class_defs)
  have u: "to_upper ''ru'' = ''RU''" "to_upper ''RU-mow'' = ''RU-MOW''"
    by (simp_all add: to_upper_def upper_char_def is_lower_def char_of_def bit_0)
  have h: "NormalizeDeclaredRegion ''ru'' ''RU-mow'' = Inr (''RU'', ''RU-MOW'')"
    by (simp add: NormalizeDeclaredRegion_def p u trim_country [OF p(1)] trim_region [OF p(2)])
  with normalize_declared_region_stable [OF h] show ?thesis by simp
qed

text \<open>A measure that every permitted transition decreases.\<close>

fun challenge_rank :: "PublicChallengeState \<Rightarrow> nat" where
  "challenge_rank Requested = 4"
| "challenge_rank Delivering = 3"
| "challenge_rank Delivered = 2"
| "challenge_rank DeliveryUncertain = 2"
| "challenge_rank Verified = 1"
| "challenge_rank _ = 0"

lemma transition_rank: "CanTransitionPublicChallenge s t \<Longrightarrow> challenge_rank t < challenge_rank s"
  by (cases s) auto

lemma transition_path_rank:
  "successively CanTransitionPublicChallenge (s # ss) \<Longrightarrow> length ss \<le> challenge_rank s"
proof (induction ss arbitrary: s)
  case (Cons t ss)
  then have "challenge_rank t < challenge_rank s" and "length ss \<le> challenge_rank t"
    by (auto dest: transition_rank)
  then show ?case by simp
qed simp

lemma transition_path_consumed:
  "successively CanTransitionPublicChallenge (s # ss) \<Longrightarrow> last (s # ss) = Consumed \<Longrightarrow>
   s \<noteq> Consumed \<Longrightarrow> Verified \<in> set (s # ss)"
proof (induction ss arbitrary: s)
  case (Cons t ss)
  show ?case
  proof (cases "t = Consumed")
    case True
    with Cons.prems show ?thesis by (cases s) auto
  next
    case False
    with Cons show ?thesis by auto
  qed
qed simp

text \<open>
  The challenge life cycle is acyclic and short. A sequence of permitted
  transitions visits at most five states, and one that starts with a requested
  challenge and ends with a consumed one has passed through delivery and
  verification.
\<close>

theorem challenge_lifecycle:
  assumes "successively CanTransitionPublicChallenge (s # ss)"
  shows "length (s # ss) \<le> 5 \<and>
    (s = Requested \<and> last (s # ss) = Consumed \<longrightarrow> Delivering \<in> set ss \<and> Verified \<in> set ss)"
proof -
  have "challenge_rank s \<le> 4" by (cases s) auto
  with transition_path_rank [OF assms] have "length (s # ss) \<le> 5" by simp
  moreover have "Delivering \<in> set ss \<and> Verified \<in> set ss"
    if "s = Requested" and last: "last (s # ss) = Consumed"
  proof -
    from that obtain t ts where ss: "ss = t # ts" by (cases ss) auto
    with assms that have t: "t = Delivering"
      by (cases ts) auto
    with assms ss last have "Verified \<in> set (t # ts)"
      by (intro transition_path_consumed) auto
    with ss t show ?thesis by auto
  qed
  ultimately show ?thesis by blast
qed

theorem challenge_lifecycle_witness:
  "length [Requested, Delivering, Delivered, Verified, Consumed] \<le> 5 \<and>
   Verified \<in> set [Delivering, Delivered, Verified, Consumed]"
  using challenge_lifecycle [of Requested "[Delivering, Delivered, Verified, Consumed]"] by simp

end
