(* ===== verification/Id_Keys.thy ===== *)
theory Id_Keys
  imports Domain_Rules
begin

unbundle bit_operations_syntax

text \<open>
  Identifiers: random UUIDs (\<^verbatim>\<open>internal/ids\<close>), pairwise opaque subject keys
  (\<^verbatim>\<open>internal/pairwise\<close>), the deterministic installation identifier of
  \<^verbatim>\<open>installationbroker.registrationID\<close> and the blind indexes of
  \<^verbatim>\<open>internal/cryptokit/blind_index.go\<close>.  HMAC-SHA-256 is the parameter \<open>hmac\<close>
  (key, message); what the code relies on is that it returns 32 bytes.
\<close>

section \<open>Hexadecimal encoding\<close>

definition hex_digit :: "nat \<Rightarrow> char" where
  "hex_digit n = (if n < 10 then char_of (48 + n) else char_of (87 + n))"

definition hex_byte :: "char \<Rightarrow> string" where
  "hex_byte c = [hex_digit (code c div 16), hex_digit (code c mod 16)]"

definition hex_encode :: "bytes \<Rightarrow> string" where
  "hex_encode s = concat (map hex_byte s)"

definition hex_value :: "char \<Rightarrow> nat option" where
  "hex_value c =
     (if is_digit c then Some (code c - 48)
      else if 97 \<le> code c \<and> code c \<le> 102 then Some (code c - 87)
      else if 65 \<le> code c \<and> code c \<le> 70 then Some (code c - 55)
      else None)"

fun hex_decode :: "string \<Rightarrow> bytes option" where
  "hex_decode [] = Some []"
| "hex_decode [_] = None"
| "hex_decode (a # b # s) =
     (case (hex_value a, hex_value b) of
        (Some x, Some y) \<Rightarrow> map_option (\<lambda>t. char_of (16 * x + y) # t) (hex_decode s)
      | _ \<Rightarrow> None)"

lemma code_hex_digit: "n < 16 \<Longrightarrow> code (hex_digit n) = (if n < 10 then 48 + n else 87 + n)"
  by (simp add: hex_digit_def of_char_of)

lemma is_lower_hex_digit [simp]: "n < 16 \<Longrightarrow> is_lower_hex (hex_digit n)"
  by (simp add: char_class_defs code_hex_digit)

lemma lower_hex_digit [simp]: "n < 16 \<Longrightarrow> lower_char (hex_digit n) = hex_digit n"
  by (simp add: code_inject [symmetric] code_lower_char code_hex_digit is_upper_def)

lemma hex_value_digit: "n < 16 \<Longrightarrow> hex_value (hex_digit n) = Some n"
  by (auto simp: hex_value_def code_hex_digit is_digit_def)

lemma code_less [simp]: "code c < 256"
  using of_char_mod_256 [of c, where 'a = nat] by (metis mod_less_divisor zero_less_numeral)

lemma code_div_16 [simp]: "code c div 16 < 16"
  by (rule less_mult_imp_div_less) simp

lemma hex_encode_Nil [simp]: "hex_encode [] = []"
  by (simp add: hex_encode_def)

lemma hex_encode_Cons [simp]:
  "hex_encode (c # s) = hex_digit (code c div 16) # hex_digit (code c mod 16) # hex_encode s"
  by (simp add: hex_encode_def hex_byte_def)

lemma length_hex_encode [simp]: "length (hex_encode s) = 2 * length s"
  by (induction s) auto

lemma hex_encode_digits: "c \<in> set (hex_encode s) \<Longrightarrow> is_lower_hex c"
  by (induction s) auto

lemma hex_decode_encode [simp]: "hex_decode (hex_encode s) = Some s"
  by (induction s) (auto simp: hex_value_digit)

lemma hex_encode_inject [simp]: "hex_encode s = hex_encode t \<longleftrightarrow> s = t"
  by (metis hex_decode_encode option.inject)

lemma lower_hex_value:
  "is_lower_hex c \<Longrightarrow> \<exists>n<16. hex_value c = Some n \<and> hex_digit n = c"
proof -
  assume h: "is_lower_hex c"
  show ?thesis
  proof (cases "is_digit c")
    case True
    then show ?thesis
      by (intro exI [of _ "code c - 48"]) (auto simp: is_digit_def hex_value_def hex_digit_def)
  next
    case False
    with h show ?thesis
      by (intro exI [of _ "code c - 87"])
        (auto simp: is_digit_def is_lower_hex_def hex_value_def hex_digit_def)
  qed
qed

lemma hex_encode_decode:
  "even (length s) \<Longrightarrow> (\<And>c. c \<in> set s \<Longrightarrow> is_lower_hex c) \<Longrightarrow>
   \<exists>b. hex_decode s = Some b \<and> hex_encode b = s"
proof (induction s rule: induct_list012)
  case (3 a b s)
  from "3.IH"(1) "3.prems" obtain t where t: "hex_decode s = Some t" "hex_encode t = s" by auto
  from "3.prems"(2) have "is_lower_hex a" "is_lower_hex b" by auto
  then obtain x y where "hex_value a = Some x" "hex_digit x = a" "x < 16"
    "hex_value b = Some y" "hex_digit y = b" "y < 16"
    by (metis lower_hex_value)
  with t show ?case by (auto simp: of_char_of)
qed auto

section \<open>Random UUIDs\<close>

text \<open>\<^verbatim>\<open>ids.NewUUID\<close> on the 16 bytes read from \<^verbatim>\<open>crypto/rand\<close>.\<close>

definition NewUUID :: "bytes \<Rightarrow> string" where
  "NewUUID b0 =
     (let b = b0[6 := char_of ((code (b0 ! 6) AND 0x0f) OR 0x40),
                 8 := char_of ((code (b0 ! 8) AND 0x3f) OR 0x80)];
          part = (\<lambda>i n. hex_encode (take n (drop i b)))
      in part 0 4 @ ''-'' @ part 4 2 @ ''-'' @ part 6 2 @ ''-'' @ part 8 2 @ ''-'' @ part 10 6)"

lemma uuid_pattern_unfold:
  "uuid_pattern =
     (let h = is_lower_hex; d = (\<lambda>c. c = CHR ''-'') in
      [h, h, h, h, h, h, h, h, d, h, h, h, h, d, \<lambda>c. 49 \<le> code c \<and> code c \<le> 53, h, h, h, d,
       \<lambda>c. c \<in> set ''89ab'', h, h, h, d, h, h, h, h, h, h, h, h, h, h, h, h])"
proof -
  have "replicate 3 p = [p, p, p]" "replicate 4 p = [p, p, p, p]"
    "replicate 8 p = [p, p, p, p, p, p, p, p]"
    "replicate 12 p = [p, p, p, p, p, p, p, p, p, p, p, p]" for p :: "char \<Rightarrow> bool"
    by (simp_all add: numeral_eq_Suc)
  then show ?thesis by (simp add: uuid_pattern_def Let_def)
qed

abbreviation sample_uuid :: string where "sample_uuid \<equiv> ''00000000-0000-4000-8000-000000000000''"

lemma sample_uuid_valid [simp]: "ValidUUID sample_uuid"
  by (simp add: ValidUUID_def matches_def uuid_pattern_unfold to_lower_def lower_char_def char_class_defs Let_def)

lemma lower_char_fixed [simp]:
  "lower_char CHR ''-'' = CHR ''-''" "lower_char CHR ''4'' = CHR ''4''" "lower_char CHR ''8'' = CHR ''8''"
  by (simp_all add: lower_char_def is_upper_def)

lemma nibble_and: "n AND 15 = n mod (16 :: nat)" "n AND 63 = n mod (64 :: nat)"
  using take_bit_eq_mask [of 4 n] take_bit_eq_mask [of 6 n]
  by (simp_all add: take_bit_eq_mod mask_eq_exp_minus_1)

lemma or_exp: "m < 2 ^ k \<Longrightarrow> m OR 2 ^ k = m + (2 ^ k :: nat)"
proof -
  assume "m < 2 ^ k"
  then have "take_bit k m = m" by (simp add: take_bit_nat_eq_self)
  moreover have "take_bit k m AND 2 ^ k = 0"
    by (rule bit_eqI) (auto simp: bit_simps)
  ultimately have "m AND 2 ^ k = 0" by simp
  then show ?thesis using disjunctive_add_eq_or [of m "2 ^ k"] by simp
qed

lemma or_high: "m < 16 \<Longrightarrow> m OR 64 = m + (64 :: nat)" "m < 64 \<Longrightarrow> m OR 128 = m + (128 :: nat)"
  using or_exp [of m 6] or_exp [of m 7] by simp_all

lemma hex_digit_eval:
  "hex_digit 4 = CHR ''4''" "hex_digit 8 = CHR ''8''" "hex_digit 9 = CHR ''9''"
  "hex_digit 10 = CHR ''a''" "hex_digit 11 = CHR ''b''"
  by (simp_all add: hex_digit_def char_of_def bit_0)

lemma hex_digit_variant: "n \<in> {8, 9, 10, 11} \<Longrightarrow> hex_digit n \<in> set ''89ab''"
  by (elim insertE emptyE) (simp_all add: hex_digit_eval)

text \<open>
  C40: every identifier generated by \<^verbatim>\<open>ids.NewUUID\<close> passes the validation the
  store and the brokers apply, whatever the random bytes are, and carries the
  version nibble 4 that the public registration contract asks for.
\<close>

theorem NewUUID_valid:
  assumes "length b = 16"
  shows "ValidUUID (NewUUID b) \<and> NewUUID b ! 14 = CHR ''4''"
proof -
  from assms obtain b0 b1 b2 b3 b4 b5 b6 b7 b8 b9 b10 b11 b12 b13 b14 b15 where
    b: "b = [b0, b1, b2, b3, b4, b5, b6, b7, b8, b9, b10, b11, b12, b13, b14, b15]"
    by (auto simp: numeral_eq_Suc length_Suc_conv)
  let ?v = "code b6 mod 16 + 64" and ?w = "code b8 mod 64 + 128"
  have vd: "?v div 16 = 4" "?v mod 256 = ?v" by simp_all
  have "?w div 16 = code b8 mod 64 div 16 + 8" by simp
  moreover have "code b8 mod 64 div 16 < 4" by (rule less_mult_imp_div_less) simp
  ultimately have wd: "?w div 16 \<in> {8, 9, 10, 11}" "?w mod 256 = ?w" by auto
  have w: "hex_digit (?w div 16) \<in> set ''89ab''"
    using wd(1) by (rule hex_digit_variant)
  show ?thesis
    using w by (simp add: b NewUUID_def Let_def nibble_and or_high of_char_of vd wd hex_digit_eval
        ValidUUID_def matches_def uuid_pattern_unfold to_lower_def)
qed

theorem NewUUID_valid_witness:
  "length (replicate 16 (CHR 0xFF)) = 16 \<and> ValidUUID (NewUUID (replicate 16 (CHR 0xFF)))"
  using NewUUID_valid [of "replicate 16 (CHR 0xFF)"] by simp

section \<open>Pairwise subject keys\<close>

type_synonym hmac = "bytes \<Rightarrow> bytes \<Rightarrow> bytes"

abbreviation NUL :: char where "NUL \<equiv> CHR 0x00"

fun join_nul :: "string list \<Rightarrow> string" where
  "join_nul [] = []"
| "join_nul [x] = x"
| "join_nul (x # xs) = x @ NUL # join_nul xs"

record Generator =
  secret :: bytes

definition NewGenerator :: "bytes \<Rightarrow> Generator result" where
  "NewGenerator key =
     (if length key < 32 then Inl (ErrMessage ''pairwise ID secret must contain at least 32 bytes'')
      else Inr \<lparr>secret = key\<rparr>)"

definition subject_message :: "string \<Rightarrow> string \<Rightarrow> string \<Rightarrow> string \<Rightarrow> bytes" where
  "subject_message product audience subjectType rootID =
     ''linka-pairwise-subject-v1'' @ [NUL] @ product @ [NUL] @ audience @ [NUL] @ subjectType @ [NUL] @ rootID"

definition pairwise_Subject :: "hmac \<Rightarrow> Generator \<Rightarrow> string \<Rightarrow> string \<Rightarrow> string \<Rightarrow> string \<Rightarrow> string" where
  "pairwise_Subject hmac g product audience subjectType rootID =
     hex_encode (hmac (secret g) (subject_message product audience subjectType rootID))"

definition pairwise_Valid :: "string \<Rightarrow> bool" where
  "pairwise_Valid value =
     (if length value \<noteq> 64 then False
      else case hex_decode value of None \<Rightarrow> False | Some decoded \<Rightarrow> hex_encode decoded = value)"

text \<open>
  A value is accepted as an opaque key exactly when it consists of 64
  lower-case hexadecimal digits: every key has one spelling.
\<close>

theorem pairwise_Valid_iff:
  "pairwise_Valid v \<longleftrightarrow> length v = 64 \<and> list_all is_lower_hex v"
proof (cases "length v = 64")
  case True
  show ?thesis
  proof
    assume "pairwise_Valid v"
    then obtain d where "hex_encode d = v" by (auto simp: pairwise_Valid_def split: option.splits if_splits)
    then show "length v = 64 \<and> list_all is_lower_hex v"
      using True by (auto simp: list_all_iff dest: hex_encode_digits)
  next
    assume "length v = 64 \<and> list_all is_lower_hex v"
    then have "\<exists>b. hex_decode v = Some b \<and> hex_encode b = v"
      by (intro hex_encode_decode) (auto simp: list_all_iff)
    with True show "pairwise_Valid v" by (auto simp: pairwise_Valid_def)
  qed
qed (simp add: pairwise_Valid_def)

lemma append_sep_inject:
  "c \<notin> set x \<Longrightarrow> c \<notin> set y \<Longrightarrow> x @ c # s = y @ c # t \<longleftrightarrow> x = y \<and> s = t"
proof (induction x arbitrary: y)
  case Nil
  then show ?case by (cases y) auto
next
  case (Cons a x)
  then show ?case by (cases y) auto
qed

lemma subject_message_inject:
  assumes "NUL \<notin> set p \<union> set a \<union> set k" and "NUL \<notin> set p' \<union> set a' \<union> set k'"
  shows "subject_message p a k r = subject_message p' a' k' r' \<longleftrightarrow> p = p' \<and> a = a' \<and> k = k' \<and> r = r'"
  using assms by (simp add: subject_message_def append_sep_inject)

text \<open>
  Pairwise separation. The keyed message determines product, audience, subject
  type and root identifier, so two different subjects, or one subject seen by two
  products or audiences, share a key only if HMAC collides on two different
  messages; and every key the generator makes is a valid opaque key.
\<close>

theorem pairwise_Subject_separates:
  assumes len: "\<And>k m. length (hmac k m) = 32"
    and "NUL \<notin> set p \<union> set a \<union> set k" and "NUL \<notin> set p' \<union> set a' \<union> set k'"
  shows "pairwise_Valid (pairwise_Subject hmac g p a k r) \<and>
    (pairwise_Subject hmac g p a k r = pairwise_Subject hmac g p' a' k' r' \<longrightarrow>
     (p, a, k, r) = (p', a', k', r') \<or>
     (\<exists>m m'. m \<noteq> m' \<and> hmac (secret g) m = hmac (secret g) m'))"
proof -
  have "pairwise_Valid (pairwise_Subject hmac g p a k r)"
    by (simp add: pairwise_Subject_def pairwise_Valid_def len)
  moreover have "(p, a, k, r) = (p', a', k', r') \<or>
      (\<exists>m m'. m \<noteq> m' \<and> hmac (secret g) m = hmac (secret g) m')"
    if "pairwise_Subject hmac g p a k r = pairwise_Subject hmac g p' a' k' r'"
    using that subject_message_inject [OF assms(2,3), of r r'] by (auto simp: pairwise_Subject_def)
  ultimately show ?thesis by blast
qed

theorem pairwise_Subject_separates_witness:
  "pairwise_Valid (pairwise_Subject (\<lambda>k m. replicate 32 (CHR 0x01)) \<lparr>secret = ''s''\<rparr>
     ''looks'' ''metric'' ''account'' ''1'')"
  using pairwise_Subject_separates
    [of "\<lambda>k m. replicate 32 (CHR 0x01)" "''looks''" "''metric''" "''account''"
        "''looks''" "''metric''" "''installation''" "\<lparr>secret = ''s''\<rparr>" "''1''" "''1''"]
  by simp

section \<open>Blind indexes\<close>

record BlindIndex =
  bi_version :: int
  bi_value :: bytes

text \<open>The key map is an association list with distinct versions (a Go map).\<close>

record BlindIndexer =
  bx_current :: int
  bx_keys :: "(int \<times> bytes) list"

definition NewBlindIndexer :: "int \<Rightarrow> (int \<times> bytes) list \<Rightarrow> BlindIndexer result" where
  "NewBlindIndexer current keys =
     (if map_of keys current = None then Inl (ErrMessage ''current blind-index version has no key'')
      else if list_ex (\<lambda>(version, key). version < 1 \<or> length key < 32) keys
      then Inl (ErrMessage ''invalid blind-index key'')
      else Inr \<lparr>bx_current = current, bx_keys = keys\<rparr>)"

definition bx_digest :: "hmac \<Rightarrow> BlindIndexer \<Rightarrow> int \<Rightarrow> bytes \<Rightarrow> bytes" where
  "bx_digest hmac b version message =
     hmac (case map_of (bx_keys b) version of None \<Rightarrow> [] | Some k \<Rightarrow> k) message"

definition bx_Current :: "hmac \<Rightarrow> BlindIndexer \<Rightarrow> bytes \<Rightarrow> BlindIndex" where
  "bx_Current hmac b message =
     \<lparr>bi_version = bx_current b, bi_value = bx_digest hmac b (bx_current b) message\<rparr>"

definition bx_All :: "hmac \<Rightarrow> BlindIndexer \<Rightarrow> bytes \<Rightarrow> BlindIndex list" where
  "bx_All hmac b message =
     map (\<lambda>version. \<lparr>bi_version = version, bi_value = bx_digest hmac b version message\<rparr>)
       (sort (map fst (bx_keys b)))"

text \<open>
  An accepted key ring looks up every configured version exactly once, in
  increasing order, and its current index is always among those looked up.
\<close>

theorem bx_All_covers:
  assumes "NewBlindIndexer current keys = Inr b" and "distinct (map fst keys)"
  shows "bx_Current hmac b m \<in> set (bx_All hmac b m) \<and>
    sorted_wrt (<) (map bi_version (bx_All hmac b m)) \<and>
    set (map bi_version (bx_All hmac b m)) = fst ` set keys"
proof -
  from assms(1) have b: "b = \<lparr>bx_current = current, bx_keys = keys\<rparr>" and c: "current \<in> fst ` set keys"
    by (auto simp: NewBlindIndexer_def map_of_eq_None_iff split: if_splits)
  have v: "map bi_version (bx_All hmac b m) = sort (map fst keys)"
    by (simp add: bx_All_def b comp_def)
  have "sorted_wrt (<) (sort (map fst keys))"
    using assms(2) by (simp add: strict_sorted_iff)
  moreover have "bx_Current hmac b m \<in> set (bx_All hmac b m)"
    using c by (auto simp: bx_All_def bx_Current_def b)
  ultimately show ?thesis by (simp add: v del: map_map)
qed

theorem bx_All_covers_witness:
  "sorted_wrt (<) (map bi_version (bx_All (\<lambda>k m. m)
     \<lparr>bx_current = 1, bx_keys = [(2, replicate 32 (CHR ''a'')), (1, replicate 32 (CHR ''b''))]\<rparr> ''m''))"
  using bx_All_covers [of 1 "[(2, replicate 32 (CHR ''a'')), (1, replicate 32 (CHR ''b''))]" _ "\<lambda>k m. m" "''m''"]
  by (simp add: NewBlindIndexer_def)

end
