(* ===== verification/Store_Schema.thy ===== *)
theory Store_Schema
  imports Tables Id_Keys
begin

text \<open>
  The YDB schema of \<^verbatim>\<open>internal/schema\<close>: one record per table, in the order of the
  \<^verbatim>\<open>CREATE TABLE\<close> statements, with its primary key as a function, and the
  database as the record of all tables.  Nullable columns are options.  A JSON
  column holds the decoded object: the code only writes objects it has just
  encoded and only decodes the two fields of a receipt.  A stored timestamp is
  written through \<open>trunc_us\<close>, the precision of the column type.
\<close>

section \<open>Encrypted values\<close>

record Ciphertext =
  Algorithm :: string
  KeyID :: string
  WrappedDataKey :: bytes
  Nonce :: bytes
  Data :: bytes

definition empty_cipher :: Ciphertext where
  "empty_cipher = \<lparr>Algorithm = [], KeyID = [], WrappedDataKey = [], Nonce = [], Data = []\<rparr>"

section \<open>Identity tables\<close>

record person =
  p_id :: string
  p_age_category :: string
  p_guardian_relationship :: "string option"
  p_created_at :: time
  p_deleted_at :: "time option"
  p_version :: uint64

record email_identity =
  ei_id :: string
  ei_person_id :: string
  ei_product_id :: string
  ei_namespace :: string
  ei_linkage_scope :: string
  ei_scope_key :: string
  ei_email :: Ciphertext
  ei_verified_at :: time
  ei_created_at :: time
  ei_version :: uint64

record email_blind_index =
  eb_namespace :: string
  eb_linkage_scope :: string
  eb_scope_key :: string
  eb_version :: uint64
  eb_index :: bytes
  eb_identity_id :: string
  eb_created_at :: time

definition eb_key :: "email_blind_index \<Rightarrow> string \<times> string \<times> string \<times> uint64 \<times> bytes" where
  "eb_key r = (eb_namespace r, eb_linkage_scope r, eb_scope_key r, eb_version r, eb_index r)"

record account =
  a_id :: string
  a_person_id :: string
  a_status :: string
  a_created_at :: time
  a_last_authenticated_at :: "time option"
  a_version :: uint64

record account_by_person =
  ap_person_id :: string
  ap_account_id :: string

record product_installation =
  i_id :: string
  i_product_id :: string
  i_platform :: string
  i_person_id :: "string option"
  i_created_at :: time
  i_last_seen_at :: time
  i_disabled_at :: "time option"
  i_version :: uint64

record subject_alias =
  sa_opaque_key :: string
  sa_product_id :: string
  sa_audience :: string
  sa_subject_type :: string
  sa_subject_id :: string
  sa_person_id :: "string option"
  sa_created_at :: time

record subject_alias_key =
  sk_product_id :: string
  sk_audience :: string
  sk_subject_type :: string
  sk_subject_id :: string
  sk_opaque_key :: string

definition sk_key :: "subject_alias_key \<Rightarrow> string \<times> string \<times> string \<times> string" where
  "sk_key r = (sk_product_id r, sk_audience r, sk_subject_type r, sk_subject_id r)"

section \<open>Organisation tables\<close>

record organization =
  o_id :: string
  o_canonical_name :: string
  o_status :: string
  o_merged_into_id :: "string option"
  o_created_at :: time
  o_updated_at :: time
  o_version :: uint64

record organization_submission =
  os_id :: string
  os_person_id :: "string option"
  os_installation_id :: "string option"
  os_product_id :: string
  os_submitted_name :: string
  os_status :: string
  os_canonical_organization_id :: "string option"
  os_submitted_at :: time
  os_reviewed_at :: "time option"
  os_reviewed_by :: "string option"
  os_audit_note :: "string option"
  os_version :: uint64

record organization_merge =
  om_id :: string
  om_source_organization_id :: string
  om_target_organization_id :: string
  om_actor :: string
  om_reason :: string
  om_merged_at :: time

record membership =
  m_person_id :: string
  m_organization_id :: string
  m_product_id :: string
  m_id :: string
  m_role_label :: "string option"
  m_status :: string
  m_started_at :: "time option"
  m_ended_at :: "time option"
  m_created_at :: time
  m_version :: uint64

definition m_key :: "membership \<Rightarrow> string \<times> string \<times> string" where
  "m_key r = (m_person_id r, m_organization_id r, m_product_id r)"

section \<open>Consent, telemetry and privacy tables\<close>

record consent =
  c_id :: string
  c_subject_type :: string
  c_subject_id :: string
  c_product_id :: string
  c_consent_type :: string
  c_policy_version :: string
  c_status :: string
  c_recorded_at :: time
  c_created_at :: time

record telemetry_preference =
  tp_subject_type :: string
  tp_subject_id :: string
  tp_product_id :: string
  tp_id :: string
  tp_preference :: string
  tp_recorded_at :: time
  tp_updated_at :: time
  tp_version :: uint64

definition tp_key :: "telemetry_preference \<Rightarrow> string \<times> string \<times> string" where
  "tp_key r = (tp_subject_type r, tp_subject_id r, tp_product_id r)"

record privacy_request =
  pr_id :: string
  pr_subject_type :: string
  pr_subject_id :: string
  pr_request_type :: string
  pr_scope :: string
  pr_product_id :: "string option"
  pr_status :: string
  pr_requested_at :: time
  pr_completed_at :: "time option"
  pr_requested_by_workload :: string
  pr_idempotency_key :: string
  pr_request_fingerprint :: string
  pr_created_at :: time
  pr_updated_at :: time
  pr_version :: uint64

record privacy_idempotency =
  pi_workload :: string
  pi_idempotency_key :: string
  pi_request_id :: string
  pi_request_fingerprint :: string

definition pi_key :: "privacy_idempotency \<Rightarrow> string \<times> string" where
  "pi_key r = (pi_workload r, pi_idempotency_key r)"

text \<open>
  A delivery receipt as \<^verbatim>\<open>json.Unmarshal\<close> sees it: malformed, or an object with
  the two fields the code reads; and the receipt the erasure worker writes itself.
\<close>

datatype receipt =
    MalformedReceipt
  | DeliveryReceipt (rc_request_id: string) (rc_status: string)
  | YdbErased

record privacy_step =
  ps_id :: string
  ps_request_id :: string
  ps_step_type :: string
  ps_product_id :: "string option"
  ps_subject_key :: "string option"
  ps_status :: string
  ps_attempts :: uint64
  ps_available_at :: time
  ps_lease_until :: "time option"
  ps_receipt :: "receipt option"
  ps_last_error :: "string option"
  ps_completed_at :: "time option"
  ps_created_at :: time
  ps_updated_at :: time
  ps_version :: uint64

text \<open>The JSON payload of an outbox event (schema version 2).\<close>

record payload =
  pl_schema_version :: int
  pl_request_id :: string
  pl_product :: string
  pl_subject_key :: string
  pl_action :: string
  pl_requested_at :: time

record outbox_event =
  ob_id :: string
  ob_topic :: string
  ob_aggregate_type :: string
  ob_aggregate_id :: string
  ob_privacy_step_id :: "string option"
  ob_privacy_request_id :: "string option"
  ob_payload :: payload
  ob_status :: string
  ob_attempts :: uint64
  ob_poll_count :: uint64
  ob_available_at :: time
  ob_locked_at :: "time option"
  ob_delivered_at :: "time option"
  ob_last_error :: "string option"
  ob_delivery_receipt :: "receipt option"
  ob_created_at :: time
  ob_version :: uint64

record privacy_audit =
  pa_id :: string
  pa_request_id :: string
  pa_status :: string
  pa_actor :: string
  pa_audit_note :: string
  pa_changed_at :: time

section \<open>E-mail verification tables\<close>

record email_verification =
  ev_id :: string
  ev_product_id :: string
  ev_installation_id :: "string option"
  ev_namespace :: string
  ev_age_category :: string
  ev_guardian_relationship :: "string option"
  ev_link_across_products :: bool
  ev_blind_index_version :: uint64
  ev_blind_index :: bytes
  ev_email :: Ciphertext
  ev_expires_at :: time
  ev_verified_at :: "time option"
  ev_verified_by :: "string option"
  ev_evidence_id :: "string option"
  ev_processing_token :: "string option"
  ev_processing_at :: "time option"
  ev_created_at :: time
  ev_version :: uint64

record email_verification_audit =
  va_verification_id :: string
  va_person_id :: string
  va_installation_id :: "string option"
  va_product_id :: string
  va_verified_by :: string
  va_evidence_id :: string
  va_verified_at :: time
  va_consumed_at :: time

section \<open>Public account tables\<close>

record public_email_challenge =
  pc_id :: string
  pc_product_id :: string
  pc_installation_id :: string
  pc_purpose :: string
  pc_holder_role :: string
  pc_request_fingerprint :: bytes
  pc_nonce_hash :: bytes
  pc_code_hash :: bytes
  pc_otp_key_id :: string
  pc_code :: Ciphertext
  pc_blind_index_version :: uint64
  pc_blind_index :: bytes
  pc_state :: PublicChallengeState
  pc_attempts :: uint64
  pc_mail_attempts :: uint64
  pc_mail_available_at :: time
  pc_mail_claim_token :: "string option"
  pc_mail_claim_until :: "time option"
  pc_created_at :: time
  pc_updated_at :: time
  pc_expires_at :: time
  pc_verified_at :: "time option"
  pc_consumed_at :: "time option"
  pc_version :: uint64

record registration_flow =
  fl_product_id :: string
  fl_installation_id :: string
  fl_challenge_id :: string
  fl_session_id :: "string option"
  fl_updated_at :: time
  fl_version :: uint64

definition fl_key :: "registration_flow \<Rightarrow> string \<times> string" where
  "fl_key r = (fl_product_id r, fl_installation_id r)"

record product_account =
  pp_product_id :: string
  pp_account_id :: string
  pp_email_identity_id :: string
  pp_holder_role :: string
  pp_country :: string
  pp_region :: string
  pp_status :: string
  pp_verified_at :: time
  pp_created_at :: time
  pp_updated_at :: time
  pp_version :: uint64

definition pp_key :: "product_account \<Rightarrow> string \<times> string" where
  "pp_key r = (pp_product_id r, pp_account_id r)"

record account_session =
  se_id :: string
  se_product_id :: string
  se_account_id :: string
  se_installation_id :: string
  se_state :: PublicSessionState
  se_created_at :: time
  se_expires_at :: time
  se_revoked_at :: "time option"
  se_version :: uint64

record account_refresh =
  rt_hash :: bytes
  rt_session_id :: string
  rt_issued_at :: time
  rt_expires_at :: time
  rt_consumed_at :: "time option"
  rt_version :: uint64

record public_auth_event =
  ae_bucket :: string
  ae_created_at :: time
  ae_event_id :: string

definition ae_key :: "public_auth_event \<Rightarrow> string \<times> time \<times> string" where
  "ae_key r = (ae_bucket r, ae_created_at r, ae_event_id r)"

record public_account_audit =
  pu_id :: string
  pu_product_id :: string
  pu_session_id :: string
  pu_actor :: string
  pu_action :: string
  pu_entity_id :: string
  pu_created_at :: time

lemmas key_defs = eb_key_def sk_key_def m_key_def tp_key_def pi_key_def fl_key_def pp_key_def ae_key_def

section \<open>The database\<close>

record db =
  persons :: "person list"
  email_identities :: "email_identity list"
  email_blind_indexes :: "email_blind_index list"
  accounts :: "account list"
  accounts_by_person :: "account_by_person list"
  product_installations :: "product_installation list"
  subject_aliases :: "subject_alias list"
  subject_alias_keys :: "subject_alias_key list"
  organizations :: "organization list"
  organization_submissions :: "organization_submission list"
  organization_merge_audit :: "organization_merge list"
  memberships :: "membership list"
  consents :: "consent list"
  telemetry_preferences :: "telemetry_preference list"
  privacy_requests :: "privacy_request list"
  privacy_idempotencies :: "privacy_idempotency list"
  privacy_request_steps :: "privacy_step list"
  outbox_events :: "outbox_event list"
  privacy_request_status_audit :: "privacy_audit list"
  email_verifications :: "email_verification list"
  email_verification_audits :: "email_verification_audit list"
  public_email_challenges :: "public_email_challenge list"
  public_registration_flows :: "registration_flow list"
  product_accounts :: "product_account list"
  account_sessions :: "account_session list"
  account_refresh_tokens :: "account_refresh list"
  public_auth_events :: "public_auth_event list"
  public_account_audits :: "public_account_audit list"

definition empty_db :: db where
  "empty_db = \<lparr>persons = [], email_identities = [], email_blind_indexes = [], accounts = [],
     accounts_by_person = [], product_installations = [], subject_aliases = [], subject_alias_keys = [],
     organizations = [], organization_submissions = [], organization_merge_audit = [], memberships = [],
     consents = [], telemetry_preferences = [], privacy_requests = [], privacy_idempotencies = [],
     privacy_request_steps = [], outbox_events = [], privacy_request_status_audit = [],
     email_verifications = [], email_verification_audits = [], public_email_challenges = [],
     public_registration_flows = [], product_accounts = [], account_sessions = [],
     account_refresh_tokens = [], public_auth_events = [], public_account_audits = []\<rparr>"

text \<open>The primary-key constraints of all tables.\<close>

definition db_keys :: "db \<Rightarrow> bool" where
  "db_keys d \<longleftrightarrow>
     uniq p_id (persons d) \<and> uniq ei_id (email_identities d) \<and> uniq eb_key (email_blind_indexes d) \<and>
     uniq a_id (accounts d) \<and> uniq ap_person_id (accounts_by_person d) \<and>
     uniq i_id (product_installations d) \<and> uniq sa_opaque_key (subject_aliases d) \<and>
     uniq sk_key (subject_alias_keys d) \<and> uniq o_id (organizations d) \<and>
     uniq os_id (organization_submissions d) \<and> uniq om_id (organization_merge_audit d) \<and>
     uniq m_key (memberships d) \<and> uniq c_id (consents d) \<and> uniq tp_key (telemetry_preferences d) \<and>
     uniq pr_id (privacy_requests d) \<and> uniq pi_key (privacy_idempotencies d) \<and>
     uniq ps_id (privacy_request_steps d) \<and> uniq ob_id (outbox_events d) \<and>
     uniq pa_id (privacy_request_status_audit d) \<and> uniq ev_id (email_verifications d) \<and>
     uniq va_verification_id (email_verification_audits d) \<and> uniq pc_id (public_email_challenges d) \<and>
     uniq fl_key (public_registration_flows d) \<and> uniq pp_key (product_accounts d) \<and>
     uniq se_id (account_sessions d) \<and> uniq rt_hash (account_refresh_tokens d) \<and>
     uniq ae_key (public_auth_events d) \<and> uniq pu_id (public_account_audits d)"

lemma db_keys_empty: "db_keys empty_db"
  by (simp add: db_keys_def empty_db_def)

lemma db_keysD:
  assumes "db_keys d"
  shows "uniq i_id (product_installations d)" and "uniq pr_id (privacy_requests d)"
    and "uniq ps_id (privacy_request_steps d)" and "uniq ob_id (outbox_events d)"
    and "uniq ev_id (email_verifications d)" and "uniq pc_id (public_email_challenges d)"
    and "uniq fl_key (public_registration_flows d)" and "uniq pp_key (product_accounts d)"
    and "uniq se_id (account_sessions d)" and "uniq rt_hash (account_refresh_tokens d)"
    and "uniq tp_key (telemetry_preferences d)" and "uniq ei_id (email_identities d)"
    and "uniq a_id (accounts d)" and "uniq p_id (persons d)"
    and "uniq sa_opaque_key (subject_aliases d)" and "uniq sk_key (subject_alias_keys d)"
    and "uniq ap_person_id (accounts_by_person d)" and "uniq eb_key (email_blind_indexes d)"
  using assms by (simp_all add: db_keys_def)

text \<open>
  A serializable transaction (\<^verbatim>\<open>Store.serializable\<close>): the body runs on the current
  database; an error discards its writes.
\<close>

definition serializable :: "(db \<Rightarrow> ('a \<times> db) result) \<Rightarrow> db \<Rightarrow> 'a result \<times> db" where
  "serializable body d = (case body d of Inl e \<Rightarrow> (Inl e, d) | Inr (x, d') \<Rightarrow> (Inr x, d'))"

lemma serializable_error: "serializable body d = (Inl e, d') \<Longrightarrow> d' = d"
  by (auto simp: serializable_def split: sum.splits)

lemma serializable_ok: "serializable body d = (Inr x, d') \<longleftrightarrow> body d = Inr (x, d')"
  by (auto simp: serializable_def split: sum.splits)

end
