(* ===== verification/Auth_Limits.thy ===== *)
theory Auth_Limits
  imports Store_Schema
begin

text \<open>
  The sliding-window rate limits of \<^verbatim>\<open>internal/store/public_auth_limits.go\<close>:
  every accepted event is a row per bucket, and a request is refused while any of
  its buckets holds the maximal number of events inside its window.
\<close>

section \<open>Model\<close>

record publicAuthLimit =
  al_bucket :: string
  al_window :: duration
  al_max :: uint64

definition valid_limit :: "publicAuthLimit \<Rightarrow> bool" where
  "valid_limit l \<longleftrightarrow>
     1 \<le> length (al_bucket l) \<and> length (al_bucket l) \<le> 256 \<and> utf8_valid (al_bucket l) \<and>
     CHR ''@'' \<notin> set (al_bucket l) \<and> \<not> has_control (al_bucket l) \<and>
     trim_space (al_bucket l) = al_bucket l \<and>
     0 < al_window l \<and> al_window l \<le> 24 * hour \<and> 1 \<le> al_max l \<and> al_max l \<le> 10000"

fun limits_ok :: "publicAuthLimit list \<Rightarrow> bool" where
  "limits_ok [] = True"
| "limits_ok [l] = valid_limit l"
| "limits_ok (l # m # ls) = (valid_limit l \<and> al_bucket l \<noteq> al_bucket m \<and> limits_ok (m # ls))"

definition window_events :: "public_auth_event list \<Rightarrow> time \<Rightarrow> publicAuthLimit \<Rightarrow> public_auth_event list" where
  "window_events es now l =
     filter (\<lambda>e. ae_bucket e = al_bucket l \<and> trunc_us (now - al_window l) \<le> ae_created_at e) es"

definition exhausted :: "public_auth_event list \<Rightarrow> time \<Rightarrow> publicAuthLimit \<Rightarrow> bool" where
  "exhausted es now l \<longleftrightarrow> unat (al_max l) \<le> length (window_events es now l)"

definition next_slot :: "public_auth_event list \<Rightarrow> time \<Rightarrow> publicAuthLimit \<Rightarrow> time" where
  "next_slot es now l = min_list (map ae_created_at (window_events es now l)) + al_window l"

text \<open>The first loop: the latest instant at which an exhausted bucket loses its first event.\<close>

fun limits_retry :: "public_auth_event list \<Rightarrow> time \<Rightarrow> publicAuthLimit list \<Rightarrow> time \<Rightarrow> time" where
  "limits_retry es now [] retryAt = retryAt"
| "limits_retry es now (l # ls) retryAt =
     limits_retry es now ls
       (if exhausted es now l \<and> retryAt < next_slot es now l then next_slot es now l else retryAt)"

definition limit_event :: "time \<Rightarrow> string \<Rightarrow> publicAuthLimit \<Rightarrow> public_auth_event" where
  "limit_event now eventID l = \<lparr>ae_bucket = al_bucket l, ae_created_at = trunc_us now, ae_event_id = eventID\<rparr>"

definition insert_limit_event :: "time \<Rightarrow> string \<Rightarrow> publicAuthLimit \<Rightarrow> db \<Rightarrow> db result" where
  "insert_limit_event now eventID l d =
     rbind (tbl_insert ae_key (limit_event now eventID l) (public_auth_events d)) (\<lambda>es.
     Inr (d\<lparr>public_auth_events := es\<rparr>))"

definition consumePublicAuthLimits :: "time \<Rightarrow> string \<Rightarrow> publicAuthLimit list \<Rightarrow> db \<Rightarrow> db result" where
  "consumePublicAuthLimits now0 eventID limits0 d =
     (if is_zero now0 \<or> \<not> ValidUUID eventID \<or> length limits0 < 1 \<or> 8 < length limits0
      then Inl (ErrMessage ''invalid public account rate limit parameters'')
      else
        let limits = sort_key al_bucket limits0 in
        if \<not> limits_ok limits then Inl (ErrMessage ''invalid public account rate limit parameters'')
        else
          let now = trunc_us now0;
              retryAt = limits_retry (public_auth_events d) now limits zero_time in
          if \<not> is_zero retryAt then Inl (PublicRateLimitError retryAt)
          else for_each (insert_limit_event now eventID) limits d)"

section \<open>The effect of an accepted request\<close>

lemma limits_ok_valid: "limits_ok ls \<Longrightarrow> l \<in> set ls \<Longrightarrow> valid_limit l"
  by (induction ls rule: limits_ok.induct) auto

lemma limits_ok_distinct: "sorted (map al_bucket ls) \<Longrightarrow> limits_ok ls \<Longrightarrow> distinct (map al_bucket ls)"
proof (induction ls rule: limits_ok.induct)
  case (3 l m ls)
  then have "al_bucket l < al_bucket m" by (auto simp: order.strict_iff_order)
  moreover have "\<forall>k \<in> set ls. al_bucket m \<le> al_bucket k" using "3.prems"(1) by auto
  ultimately have "al_bucket l \<notin> set (map al_bucket (m # ls))" by (auto dest: less_le_trans)
  with 3 show ?case by auto
qed auto

lemma insert_events:
  "for_each (insert_limit_event now eid) ls d = Inr d' \<Longrightarrow>
   d' = d\<lparr>public_auth_events := public_auth_events d @ map (limit_event now eid) ls\<rparr>"
proof (induction ls arbitrary: d)
  case (Cons l ls)
  from Cons.prems obtain u where u: "insert_limit_event now eid l d = Inr u"
    and rest: "for_each (insert_limit_event now eid) ls u = Inr d'" by auto
  from u have "u = d\<lparr>public_auth_events := public_auth_events d @ [limit_event now eid l]\<rparr>"
    by (auto simp: insert_limit_event_def table_simps)
  with Cons.IH [OF rest] show ?case by simp
qed simp

lemma limits_retry_ge: "retryAt \<le> limits_retry es now ls retryAt"
  by (induction ls arbitrary: retryAt) (auto, meson order.strict_trans2 less_imp_le)

lemma limits_retry_ge_slot:
  "l \<in> set ls \<Longrightarrow> exhausted es now l \<Longrightarrow> next_slot es now l \<le> limits_retry es now ls retryAt"
proof (induction ls arbitrary: retryAt)
  case (Cons k ls)
  show ?case
  proof (cases "l = k")
    case True
    with Cons.prems have "next_slot es now l \<le>
        (if exhausted es now k \<and> retryAt < next_slot es now k then next_slot es now k else retryAt)"
      by auto
    also have "\<dots> \<le> limits_retry es now (k # ls) retryAt" by (simp add: limits_retry_ge)
    finally show ?thesis .
  next
    case False
    with Cons show ?thesis by simp
  qed
qed simp

lemma limits_retry_attained:
  "limits_retry es now ls retryAt = retryAt \<or>
   (\<exists>l \<in> set ls. exhausted es now l \<and> limits_retry es now ls retryAt = next_slot es now l)"
proof (induction ls arbitrary: retryAt)
  case (Cons k ls)
  let ?r = "if exhausted es now k \<and> retryAt < next_slot es now k then next_slot es now k else retryAt"
  from Cons.IH [of ?r] show ?case by (auto split: if_splits)
qed simp

lemma min_list_le: "x \<in> set xs \<Longrightarrow> min_list xs \<le> (x :: int)"
  using min_list_Min [of xs] by (cases "xs = []") auto

lemma min_list_mem: "xs \<noteq> [] \<Longrightarrow> min_list (xs :: int list) \<in> set xs"
  by (simp add: min_list_Min)

text \<open>A valid limit admits at least one event, so an exhausted window is not empty.\<close>

lemma exhausted_nonempty: "valid_limit l \<Longrightarrow> exhausted es now l \<Longrightarrow> window_events es now l \<noteq> []"
  by (auto simp: valid_limit_def exhausted_def word_le_nat_alt)

lemma window_mem: "e \<in> set (window_events es now l) \<longleftrightarrow>
  e \<in> set es \<and> ae_bucket e = al_bucket l \<and> trunc_us (now - al_window l) \<le> ae_created_at e"
  by (auto simp: window_events_def)

lemma not_exhausted_retry:
  assumes "\<And>l. l \<in> set ls \<Longrightarrow> \<not> exhausted es now l"
  shows "limits_retry es now ls r = r"
  using assms limits_retry_attained by metis

lemma consume_success:
  assumes "consumePublicAuthLimits now eid limits d = Inr d'"
  shows "d' = d\<lparr>public_auth_events := public_auth_events d @ map (limit_event now eid) (sort_key al_bucket limits)\<rparr>"
    and "limits_ok (sort_key al_bucket limits)"
    and "limits_retry (public_auth_events d) (trunc_us now) (sort_key al_bucket limits) zero_time = zero_time"
proof -
  from assms have e: "for_each (insert_limit_event (trunc_us now) eid) (sort_key al_bucket limits) d = Inr d'"
    and "limits_ok (sort_key al_bucket limits)"
    and "limits_retry (public_auth_events d) (trunc_us now) (sort_key al_bucket limits) zero_time = zero_time"
    by (auto simp: consumePublicAuthLimits_def Let_def is_zero_def split: if_splits)
  moreover have "limit_event (trunc_us now) eid = limit_event now eid"
    by (simp add: fun_eq_iff limit_event_def)
  ultimately show "d' = d\<lparr>public_auth_events := public_auth_events d @ map (limit_event now eid) (sort_key al_bucket limits)\<rparr>"
    and "limits_ok (sort_key al_bucket limits)"
    and "limits_retry (public_auth_events d) (trunc_us now) (sort_key al_bucket limits) zero_time = zero_time"
    using insert_events [OF e] by simp_all
qed

lemma single_bucket_event:
  assumes "distinct (map al_bucket ls)" and "l \<in> set ls"
  shows "length (filter (\<lambda>k. al_bucket k = al_bucket l) ls) = 1"
proof -
  from assms have "filter (\<lambda>k. al_bucket k = al_bucket l) ls = [l]"
  proof (induction ls)
    case (Cons k ks)
    show ?case
    proof (cases "k = l")
      case True
      with Cons.prems have "\<forall>j \<in> set ks. al_bucket j \<noteq> al_bucket l" by (auto simp: image_iff)
      with True show ?thesis by (simp add: filter_empty_conv)
    next
      case False
      with Cons.prems have "al_bucket k \<noteq> al_bucket l" by auto
      with False Cons show ?thesis by auto
    qed
  qed simp
  then show ?thesis by simp
qed

section \<open>Properties\<close>

text \<open>
  C39: an accepted request never over-fills a window. After it, every bucket it
  names holds, inside its own window, at most the configured maximum of events and
  exactly one more than before; no table but the event log is touched. The
  hypothesis that no bucket dates from the first instant of year 1 is Go's own use
  of the zero time for \<^verbatim>\<open>no retry needed\<close>.
\<close>

theorem consume_within_limits:
  assumes ok: "consumePublicAuthLimits now eid limits d = Inr d'"
    and l: "l \<in> set limits"
    and epoch: "\<And>e. e \<in> set (public_auth_events d) \<Longrightarrow> 0 \<le> ae_created_at e"
  shows "length (window_events (public_auth_events d') (trunc_us now) l) \<le> unat (al_max l) \<and>
    length (window_events (public_auth_events d') (trunc_us now) l) =
      Suc (length (window_events (public_auth_events d) (trunc_us now) l)) \<and>
    d' = d\<lparr>public_auth_events := public_auth_events d'\<rparr>"
proof -
  let ?ls = "sort_key al_bucket limits" and ?es = "public_auth_events d"
  note s = consume_success [OF ok]
  have v: "valid_limit l" using limits_ok_valid [OF s(2), of l] l by simp
  then have w: "0 < al_window l" by (simp add: valid_limit_def)
  have free: "\<not> exhausted ?es (trunc_us now) l"
  proof
    assume x: "exhausted ?es (trunc_us now) l"
    then have "window_events ?es (trunc_us now) l \<noteq> []" using v by (rule exhausted_nonempty [rotated])
    then have "min_list (map ae_created_at (window_events ?es (trunc_us now) l)) \<in>
        set (map ae_created_at (window_events ?es (trunc_us now) l))" by (intro min_list_mem) simp
    then have "0 \<le> min_list (map ae_created_at (window_events ?es (trunc_us now) l))"
      by (auto simp: window_events_def epoch)
    with w have "0 < next_slot ?es (trunc_us now) l" by (simp add: next_slot_def)
    moreover have "next_slot ?es (trunc_us now) l \<le> zero_time"
      using limits_retry_ge_slot [OF _ x, of ?ls zero_time] s(3) l by simp
    ultimately show False by (simp add: zero_time_def duration_defs)
  qed
  have "distinct (map al_bucket ?ls)" using s(2) by (intro limits_ok_distinct) auto
  then have one: "length (filter (\<lambda>k. al_bucket k = al_bucket l) ?ls) = 1"
    using l by (intro single_bucket_event) auto
  have "trunc_us (trunc_us now - al_window l) \<le> trunc_us now"
    using w trunc_us_le [of "trunc_us now - al_window l"] by linarith
  then have "length (window_events (public_auth_events d') (trunc_us now) l) =
      length (window_events ?es (trunc_us now) l) + length (filter (\<lambda>k. al_bucket k = al_bucket l) ?ls)"
    using s(1) by (simp add: window_events_def filter_map comp_def limit_event_def)
  with one free s(1) show ?thesis by (simp add: exhausted_def)
qed

lemma limit_eval: "trim_space ''b'' = ''b''" "utf8_valid ''b''" "\<not> has_control ''b''"
  by (rule trim_noop) simp_all

theorem consume_within_limits_witness:
  "length (window_events [limit_event (5 * second) sample_uuid \<lparr>al_bucket = ''b'', al_window = second, al_max = 1\<rparr>]
     (5 * second) \<lparr>al_bucket = ''b'', al_window = second, al_max = 1\<rparr>) \<le> 1"
proof -
  let ?l = "\<lparr>al_bucket = ''b'', al_window = second, al_max = 1 :: uint64\<rparr>"
  have ev: "consumePublicAuthLimits (5 * second) sample_uuid [?l] empty_db =
      Inr (empty_db\<lparr>public_auth_events := [limit_event (5 * second) sample_uuid ?l]\<rparr>)"
    by (simp add: consumePublicAuthLimits_def Let_def valid_limit_def limit_eval exhausted_def
        window_events_def insert_limit_event_def tbl_insert_def empty_db_def is_zero_def zero_time_def
        duration_defs limit_event_def trunc_us_def)
  show ?thesis
    using consume_within_limits [OF ev, of ?l]
    by (simp add: empty_db_def trunc_us_def duration_defs window_events_def)
qed

lemma insert_events_error:
  "for_each (insert_limit_event now eid) ls d = Inl e \<Longrightarrow> e = ErrKeyExists"
  by (induction ls arbitrary: d) (auto simp: rbind_Inl_iff insert_limit_event_def tbl_insert_def split: if_splits)

lemma insert_events_fresh:
  assumes "distinct (map al_bucket ls)"
    and "\<And>e. e \<in> set (public_auth_events d) \<Longrightarrow> ae_event_id e = eid \<Longrightarrow> ae_bucket e \<notin> al_bucket ` set ls"
  shows "\<exists>d'. for_each (insert_limit_event now eid) ls d = Inr d'"
  using assms
proof (induction ls arbitrary: d)
  case (Cons l ls)
  have "ae_key e \<noteq> ae_key (limit_event now eid l)" if "e \<in> set (public_auth_events d)" for e
    using Cons.prems(2) [OF that] by (auto simp: ae_key_def limit_event_def)
  then have "ae_key (limit_event now eid l) \<notin> ae_key ` set (public_auth_events d)"
    by (metis imageE)
  then have "insert_limit_event now eid l d =
      Inr (d\<lparr>public_auth_events := public_auth_events d @ [limit_event now eid l]\<rparr>)"
    by (simp add: insert_limit_event_def tbl_insert_def)
  moreover have "ae_bucket e \<notin> al_bucket ` set ls"
    if "e \<in> set (public_auth_events d @ [limit_event now eid l])" and "ae_event_id e = eid" for e
    using that Cons.prems by (cases "e = limit_event now eid l") (auto simp: limit_event_def)
  then have "\<exists>d'. for_each (insert_limit_event now eid) ls
      (d\<lparr>public_auth_events := public_auth_events d @ [limit_event now eid l]\<rparr>) = Inr d'"
    using Cons.prems(1) by (intro Cons.IH) simp_all
  ultimately show ?case by simp
qed simp

lemma window_filter_mono:
  "(\<And>e. e \<in> set (window_events es now l) \<Longrightarrow> trunc_us (now' - al_window l) \<le> ae_created_at e) \<Longrightarrow>
   length (window_events es now l) \<le> length (window_events es now' l)"
  unfolding window_events_def by (induction es) auto

lemma window_filter_strict:
  assumes "e \<in> set (window_events es now l)" and "e \<notin> set (window_events es now' l)"
    and "now \<le> now'"
  shows "length (window_events es now' l) < length (window_events es now l)"
proof -
  have sub: "window_events es now' l = filter (\<lambda>e. e \<in> set (window_events es now' l)) (window_events es now l)"
    using trunc_us_mono [of "now - al_window l" "now' - al_window l"] assms(3)
    by (auto simp: window_events_def intro!: filter_cong)
  then show ?thesis using assms(1,2) by (metis length_filter_less)
qed

lemma consume_rejected:
  assumes "consumePublicAuthLimits now eid limits d = Inl (PublicRateLimitError t)"
  shows "limits_ok (sort_key al_bucket limits)" "ValidUUID eid" "\<not> length limits < 1" "\<not> 8 < length limits"
    and "t = limits_retry (public_auth_events d) (trunc_us now) (sort_key al_bucket limits) zero_time"
    and "t \<noteq> zero_time"
  using assms
  by (auto simp: consumePublicAuthLimits_def Let_def is_zero_def split: if_splits dest!: insert_events_error)

text \<open>An exhausted bucket stays exhausted until its first event has left the window.\<close>

lemma exhausted_until_slot:
  assumes v: "valid_limit l" and x: "exhausted es now l" and le: "now' \<le> next_slot es now l"
  shows "exhausted es now' l"
proof -
  have "trunc_us (now' - al_window l) \<le> ae_created_at e" if e: "e \<in> set (window_events es now l)" for e
  proof -
    have "trunc_us (now' - al_window l) \<le> now' - al_window l" by (rule trunc_us_le)
    also have "\<dots> \<le> min_list (map ae_created_at (window_events es now l))"
      using le by (simp add: next_slot_def)
    also have "\<dots> \<le> ae_created_at e" using e by (intro min_list_le) simp
    finally show ?thesis .
  qed
  then have "length (window_events es now l) \<le> length (window_events es now' l)"
    by (rule window_filter_mono)
  with x show ?thesis by (simp add: exhausted_def)
qed

lemma not_exhausted_after_slot:
  assumes v: "valid_limit l" and full: "length (window_events es now l) \<le> unat (al_max l)"
    and us: "al_window l mod 1000 = 0" "trunc_us now' = now'"
    and gt: "exhausted es now l \<Longrightarrow> next_slot es now l < now'" and le: "now \<le> now'"
  shows "\<not> exhausted es now' l"
proof (cases "exhausted es now l")
  case True
  then have ne: "window_events es now l \<noteq> []" using v by (intro exhausted_nonempty)
  then obtain e where e: "e \<in> set (window_events es now l)"
    and m: "ae_created_at e = min_list (map ae_created_at (window_events es now l))"
    using min_list_mem [of "map ae_created_at (window_events es now l)"] by auto
  have "trunc_us (now' - al_window l) = now' - al_window l"
    using us trunc_us_add [of "- al_window l" now'] by (simp add: zmod_zminus1_eq_if)
  then have "e \<notin> set (window_events es now' l)"
    using gt [OF True] m by (simp add: window_mem next_slot_def)
  then have "length (window_events es now' l) < length (window_events es now l)"
    using e le by (intro window_filter_strict)
  with full show ?thesis by (simp add: exhausted_def)
next
  case False
  have "length (window_events es now' l) \<le> length (window_events es now l)"
    using trunc_us_mono [of "now - al_window l" "now' - al_window l"] le
    by (intro window_filter_mono) (auto simp: window_mem)
  with False show ?thesis by (simp add: exhausted_def)
qed

text \<open>
  The \<^verbatim>\<open>RetryAt\<close> of a refusal is tight. As long as no other event is logged,
  the same request is refused at every instant up to and including it, and, if no
  bucket holds more events than its maximum and the event identifier is new, it is
  accepted from the next microsecond on, which is why the delivery worker waits
  until one microsecond after \<^verbatim>\<open>RetryAt\<close>.
\<close>

theorem retry_at_tight:
  assumes rej: "consumePublicAuthLimits now eid limits d = Inl (PublicRateLimitError t)"
    and now: "0 \<le> now" "trunc_us now \<le> trunc_us now'"
    and full: "\<And>l. l \<in> set limits \<Longrightarrow>
      length (window_events (public_auth_events d) (trunc_us now) l) \<le> unat (al_max l) \<and> al_window l mod 1000 = 0"
    and fresh: "\<And>e. e \<in> set (public_auth_events d) \<Longrightarrow> ae_event_id e \<noteq> eid"
  shows "if trunc_us now' \<le> t
    then \<exists>t'. consumePublicAuthLimits now' eid limits d = Inl (PublicRateLimitError t')
    else \<exists>d'. consumePublicAuthLimits now' eid limits d = Inr d'"
proof -
  let ?ls = "sort_key al_bucket limits" and ?es = "public_auth_events d"
  note r = consume_rejected [OF rej]
  have nz: "\<not> is_zero now'"
    using now trunc_us_gt [of now] trunc_us_le [of now'] by (auto simp: is_zero_def zero_time_def duration_defs)
  show ?thesis
  proof (cases "trunc_us now' \<le> t")
    case True
    from limits_retry_attained [of ?es "trunc_us now" ?ls zero_time] r(5,6)
    obtain l where l: "l \<in> set ?ls" and x: "exhausted ?es (trunc_us now) l"
      and slot: "t = next_slot ?es (trunc_us now) l" by auto
    have v: "valid_limit l" using r(1) l by (rule limits_ok_valid)
    have x': "exhausted ?es (trunc_us now') l"
      using exhausted_until_slot [OF v x] True slot by simp
    then obtain e where "e \<in> set (window_events ?es (trunc_us now') l)"
      and m: "min_list (map ae_created_at (window_events ?es (trunc_us now') l)) = ae_created_at e"
      using exhausted_nonempty [OF v x'] min_list_mem [of "map ae_created_at (window_events ?es (trunc_us now') l)"]
      by auto
    then have "trunc_us (trunc_us now' - al_window l) \<le> ae_created_at e" by (simp add: window_mem)
    then have "zero_time < next_slot ?es (trunc_us now') l"
      using now trunc_us_gt [of now] trunc_us_gt [of "trunc_us now' - al_window l"] v m
      by (auto simp: next_slot_def zero_time_def duration_defs valid_limit_def)
    then have "limits_retry ?es (trunc_us now') ?ls zero_time \<noteq> zero_time"
      using limits_retry_ge_slot [OF l x', of zero_time] by simp
    with True r(1-4) nz show ?thesis
      by (simp add: consumePublicAuthLimits_def Let_def) (simp add: is_zero_def)
  next
    case False
    have "\<not> exhausted ?es (trunc_us now') l" if "l \<in> set ?ls" for l
      using limits_retry_ge_slot [OF that, of ?es "trunc_us now" zero_time] False r(5) that full now(2)
        limits_ok_valid [OF r(1) that]
      by (intro not_exhausted_after_slot [of l ?es "trunc_us now"]) auto
    then have "limits_retry ?es (trunc_us now') ?ls zero_time = zero_time"
      by (rule not_exhausted_retry)
    moreover have "\<exists>d'. for_each (insert_limit_event (trunc_us now') eid) ?ls d = Inr d'"
      using r(1) fresh by (intro insert_events_fresh limits_ok_distinct) auto
    ultimately show ?thesis using False r(1-4) nz
      by (simp add: consumePublicAuthLimits_def Let_def) (simp add: is_zero_def)
  qed
qed

theorem retry_at_tight_witness:
  "\<exists>d'. consumePublicAuthLimits (7 * second) sample_uuid [\<lparr>al_bucket = ''b'', al_window = second, al_max = 1\<rparr>]
    (empty_db\<lparr>public_auth_events := [\<lparr>ae_bucket = ''b'', ae_created_at = 5 * second, ae_event_id = ''e''\<rparr>]\<rparr>) = Inr d'"
proof -
  let ?l = "\<lparr>al_bucket = ''b'', al_window = second, al_max = 1 :: uint64\<rparr>"
  let ?d = "empty_db\<lparr>public_auth_events := [\<lparr>ae_bucket = ''b'', ae_created_at = 5 * second, ae_event_id = ''e''\<rparr>]\<rparr>"
  have rej: "consumePublicAuthLimits (5 * second) sample_uuid [?l] ?d = Inl (PublicRateLimitError (6 * second))"
    by (simp add: consumePublicAuthLimits_def Let_def valid_limit_def limit_eval exhausted_def next_slot_def
        window_events_def empty_db_def is_zero_def zero_time_def duration_defs trunc_us_def)
  show ?thesis
    using retry_at_tight [OF rej, of "7 * second"]
    by (simp add: window_events_def empty_db_def trunc_us_def duration_defs)
qed

end
