(* ===== verification/Table_Access.thy ===== *)
theory Table_Access
  imports Store_Schema
begin

text \<open>
  Statements on one table of the database.  A table is addressed by its field of
  the record \<open>db\<close>, the field's update function and its primary key.  The locale
  \<open>table\<close> states what the primary-key invariant \<open>db_keys\<close> needs of such an
  address; it is interpreted for every table of the schema, so that each
  statement of the store preserves \<open>db_keys\<close> by one introduction rule.
\<close>

named_theorems keys_intro \<open>preservation of the primary-key constraints\<close>
named_theorems row_wp \<open>weakest preconditions of the statements on one table\<close>
named_theorems row_ops \<open>characterisation of the statements on one table\<close>

type_synonym 'r tget = "db \<Rightarrow> 'r list"
type_synonym 'r tset = "('r list \<Rightarrow> 'r list) \<Rightarrow> db \<Rightarrow> db"

definition insert_row :: "'r tget \<Rightarrow> 'r tset \<Rightarrow> ('r \<Rightarrow> 'k) \<Rightarrow> 'r \<Rightarrow> db \<Rightarrow> db result" where
  "insert_row get put key r d = rbind (tbl_insert key r (get d)) (\<lambda>t. Inr (put (\<lambda>_. t) d))"

definition upsert_row :: "'r tset \<Rightarrow> ('r \<Rightarrow> 'k) \<Rightarrow> 'r \<Rightarrow> db \<Rightarrow> db" where
  "upsert_row put key r d = put (tbl_upsert key r) d"

definition update_rows :: "'r tset \<Rightarrow> ('r \<Rightarrow> bool) \<Rightarrow> ('r \<Rightarrow> 'r) \<Rightarrow> db \<Rightarrow> db" where
  "update_rows put P f d = put (tbl_update P f) d"

definition delete_rows :: "'r tset \<Rightarrow> ('r \<Rightarrow> bool) \<Rightarrow> db \<Rightarrow> db" where
  "delete_rows put P d = put (tbl_delete P) d"

text \<open>The version-checked update: \<open>cas_row\<close> with \<^verbatim>\<open>optimistic\<close>, \<open>cas_row_public\<close> with
  \<^verbatim>\<open>checkPublicVersion\<close>.\<close>

definition cas_row ::
  "'r tget \<Rightarrow> 'r tset \<Rightarrow> ('r \<Rightarrow> 'k) \<Rightarrow> ('r \<Rightarrow> uint64) \<Rightarrow> 'k \<Rightarrow> uint64 \<Rightarrow> ('r \<Rightarrow> bool) \<Rightarrow> ('r \<Rightarrow> 'r) \<Rightarrow> db \<Rightarrow> db result"
where
  "cas_row get put key ver k v extra f d =
     rbind (cas_update key ver k v extra f (get d)) (\<lambda>t. Inr (put (\<lambda>_. t) d))"

definition cas_row_public ::
  "'r tget \<Rightarrow> 'r tset \<Rightarrow> ('r \<Rightarrow> 'k) \<Rightarrow> ('r \<Rightarrow> uint64) \<Rightarrow> 'k \<Rightarrow> uint64 \<Rightarrow> ('r \<Rightarrow> bool) \<Rightarrow> ('r \<Rightarrow> 'r) \<Rightarrow> db \<Rightarrow> db result"
where
  "cas_row_public get put key ver k v extra f d =
     rbind (cas_public key ver k v extra f (get d)) (\<lambda>t. Inr (put (\<lambda>_. t) d))"

lemma insert_row_Inr [row_ops]:
  "insert_row get put key r d = Inr d' \<longleftrightarrow>
     key r \<notin> key ` set (get d) \<and> d' = put (\<lambda>_. get d @ [r]) d"
  by (auto simp: insert_row_def table_simps)

lemma insert_row_yields [row_wp]:
  "yields (insert_row get put key r d) P \<longleftrightarrow> (key r \<notin> key ` set (get d) \<longrightarrow> P (put (\<lambda>_. get d @ [r]) d))"
  by (auto simp: yields_def insert_row_Inr)

lemma insert_row_eval: "key r \<notin> key ` set (get d) \<Longrightarrow>
  insert_row get put key r d = Inr (put (\<lambda>_. get d @ [r]) d)"
  by (simp add: insert_row_Inr)

lemma insert_row_error: "insert_row get put key r d = Inl e \<Longrightarrow> e = ErrKeyExists"
  by (auto simp: insert_row_def tbl_insert_def split: if_splits)

lemma cas_row_public_Inr:
  "cas_row_public get put key ver k v extra f d = Inr d' \<longleftrightarrow>
     v \<noteq> - 1 \<and> cas_row get put key ver k v extra f d = Inr d'"
  by (auto simp: cas_row_public_def cas_row_def cas_public_def)

lemma cas_row_conflict: "cas_row get put key ver k v extra f d = Inl e \<Longrightarrow> e = ErrConflict"
  by (auto simp: cas_row_def cas_update_def rbind_Inl_iff some_or_def split: option.splits if_splits)

text \<open>On unique keys a successful version-checked update changes exactly the addressed row.\<close>

lemma cas_row_Inr:
  assumes u: "uniq key (get d)" and keep: "\<And>r. key (f r) = key r" "\<And>r. ver (f r) = ver r + 1"
  shows "cas_row get put key ver k v extra f d = Inr d' \<longleftrightarrow>
    (\<exists>r. tfind key k (get d) = Some r \<and> ver r = v \<and> extra r \<and>
         d' = put (\<lambda>_. tbl_update (\<lambda>x. key x = k) f (get d)) d)"
proof -
  have "versioned_update key ver (\<lambda>_ :: unit. f)" by unfold_locales (simp_all add: keep)
  from versioned_update.cas_success [OF this u] show ?thesis by (auto simp: cas_row_def)
qed

lemma cas_row_ok:
  assumes "uniq key (get d)" and "\<And>r. key (f r) = key r" and "\<And>r. ver (f r) = ver r + 1"
    and "tfind key k (get d) = Some r" and "extra r" and "v = ver r"
  shows "cas_row get put key ver k v extra f d = Inr (put (\<lambda>_. tbl_update (\<lambda>x. key x = k) f (get d)) d)"
  using assms cas_row_Inr [of key get d f ver put k v extra] by simp

section \<open>The interface of a table\<close>

locale table =
  fixes get :: "'r tget" and put :: "'r tset" and key :: "'r \<Rightarrow> 'k"
  assumes get_put: "get (put f d) = f (get d)"
    and keys_get: "db_keys d \<Longrightarrow> uniq key (get d)"
    and keys_put: "db_keys d \<Longrightarrow> uniq key (f (get d)) \<Longrightarrow> db_keys (put f d)"
begin

lemma insert_keys: "db_keys d \<Longrightarrow> (\<And>d'. db_keys d' \<Longrightarrow> P d') \<Longrightarrow> yields (insert_row get put key r d) P"
proof -
  assume d: "db_keys d" and P: "\<And>d'. db_keys d' \<Longrightarrow> P d'"
  have "db_keys (put (\<lambda>_. t) d)" if "tbl_insert key r (get d) = Inr t" for t
    using d uniq_insert [OF keys_get [OF d] that] by (rule keys_put)
  then show ?thesis by (auto simp: yields_def insert_row_def intro: P)
qed

lemma upsert_keys: "db_keys d \<Longrightarrow> db_keys (upsert_row put key r d)"
  by (auto simp: upsert_row_def intro: keys_put uniq_upsert keys_get)

lemma update_keys: "db_keys d \<Longrightarrow> (\<And>r. key (f r) = key r) \<Longrightarrow> db_keys (update_rows put P f d)"
  unfolding update_rows_def by (rule keys_put) (simp_all add: uniq_update keys_get)

lemma delete_keys: "db_keys d \<Longrightarrow> db_keys (delete_rows put P d)"
  by (auto simp: delete_rows_def intro: keys_put uniq_delete keys_get)

lemma cas_keys:
  assumes "db_keys d" and "\<And>r. key (f r) = key r" and "\<And>d'. db_keys d' \<Longrightarrow> P d'"
  shows "yields (cas_row get put key ver k v extra f d) P"
  using assms by (auto simp: yields_def cas_row_def cas_update_def uniq_update
      intro!: assms(3) keys_put keys_get split: if_splits)

lemma cas_public_keys:
  assumes "db_keys d" and "\<And>r. key (f r) = key r" and "\<And>d'. db_keys d' \<Longrightarrow> P d'"
  shows "yields (cas_row_public get put key ver k v extra f d) P"
proof -
  have "yields (cas_row get put key ver k v extra f d) P" by (rule cas_keys) (use assms in auto)
  then show ?thesis by (auto simp: yields_def cas_row_public_Inr)
qed

lemma insert_lookup:
  "insert_row get put key r d = Inr d' \<Longrightarrow>
   tfind key k (get d') = (if k = key r then Some r else tfind key k (get d))"
  by (auto simp: insert_row_Inr get_put tfind_snoc)

lemma cas_lookup:
  assumes "db_keys d" and "\<And>r. key (f r) = key r" "\<And>r. ver (f r) = ver r + 1"
    and "cas_row get put key ver k v extra f d = Inr d'"
  shows "tfind key j (get d') = (if j = k then map_option f (tfind key k (get d)) else tfind key j (get d))"
proof -
  from assms have "get d' = tbl_update (\<lambda>x. key x = k) f (get d)"
    by (auto simp: cas_row_Inr [OF keys_get] get_put)
  then show ?thesis
    using assms(2) by (cases "tfind key j (get d)") (auto simp: tfind_update dest: tfind_Some)
qed

end

section \<open>The tables of the schema\<close>

interpretation tb_persons: table persons persons_update p_id
  by unfold_locales (simp_all add: db_keys_def)

interpretation tb_email_identities: table email_identities email_identities_update ei_id
  by unfold_locales (simp_all add: db_keys_def)

interpretation tb_email_blind_indexes: table email_blind_indexes email_blind_indexes_update eb_key
  by unfold_locales (simp_all add: db_keys_def)

interpretation tb_accounts: table accounts accounts_update a_id
  by unfold_locales (simp_all add: db_keys_def)

interpretation tb_accounts_by_person: table accounts_by_person accounts_by_person_update ap_person_id
  by unfold_locales (simp_all add: db_keys_def)

interpretation tb_product_installations: table product_installations product_installations_update i_id
  by unfold_locales (simp_all add: db_keys_def)

interpretation tb_subject_aliases: table subject_aliases subject_aliases_update sa_opaque_key
  by unfold_locales (simp_all add: db_keys_def)

interpretation tb_subject_alias_keys: table subject_alias_keys subject_alias_keys_update sk_key
  by unfold_locales (simp_all add: db_keys_def)

interpretation tb_organizations: table organizations organizations_update o_id
  by unfold_locales (simp_all add: db_keys_def)

interpretation tb_organization_submissions: table organization_submissions organization_submissions_update os_id
  by unfold_locales (simp_all add: db_keys_def)

interpretation tb_organization_merge_audit: table organization_merge_audit organization_merge_audit_update om_id
  by unfold_locales (simp_all add: db_keys_def)

interpretation tb_memberships: table memberships memberships_update m_key
  by unfold_locales (simp_all add: db_keys_def)

interpretation tb_consents: table consents consents_update c_id
  by unfold_locales (simp_all add: db_keys_def)

interpretation tb_telemetry_preferences: table telemetry_preferences telemetry_preferences_update tp_key
  by unfold_locales (simp_all add: db_keys_def)

interpretation tb_privacy_requests: table privacy_requests privacy_requests_update pr_id
  by unfold_locales (simp_all add: db_keys_def)

interpretation tb_privacy_idempotencies: table privacy_idempotencies privacy_idempotencies_update pi_key
  by unfold_locales (simp_all add: db_keys_def)

interpretation tb_privacy_request_steps: table privacy_request_steps privacy_request_steps_update ps_id
  by unfold_locales (simp_all add: db_keys_def)

interpretation tb_outbox_events: table outbox_events outbox_events_update ob_id
  by unfold_locales (simp_all add: db_keys_def)

interpretation tb_privacy_request_status_audit: table privacy_request_status_audit privacy_request_status_audit_update pa_id
  by unfold_locales (simp_all add: db_keys_def)

interpretation tb_email_verifications: table email_verifications email_verifications_update ev_id
  by unfold_locales (simp_all add: db_keys_def)

interpretation tb_email_verification_audits: table email_verification_audits email_verification_audits_update va_verification_id
  by unfold_locales (simp_all add: db_keys_def)

interpretation tb_public_email_challenges: table public_email_challenges public_email_challenges_update pc_id
  by unfold_locales (simp_all add: db_keys_def)

interpretation tb_public_registration_flows: table public_registration_flows public_registration_flows_update fl_key
  by unfold_locales (simp_all add: db_keys_def)

interpretation tb_product_accounts: table product_accounts product_accounts_update pp_key
  by unfold_locales (simp_all add: db_keys_def)

interpretation tb_account_sessions: table account_sessions account_sessions_update se_id
  by unfold_locales (simp_all add: db_keys_def)

interpretation tb_account_refresh_tokens: table account_refresh_tokens account_refresh_tokens_update rt_hash
  by unfold_locales (simp_all add: db_keys_def)

interpretation tb_public_auth_events: table public_auth_events public_auth_events_update ae_key
  by unfold_locales (simp_all add: db_keys_def)

interpretation tb_public_account_audits: table public_account_audits public_account_audits_update pu_id
  by unfold_locales (simp_all add: db_keys_def)

lemmas table_insert_keys [keys_intro] =
  tb_persons.insert_keys
  tb_email_identities.insert_keys
  tb_email_blind_indexes.insert_keys
  tb_accounts.insert_keys
  tb_accounts_by_person.insert_keys
  tb_product_installations.insert_keys
  tb_subject_aliases.insert_keys
  tb_subject_alias_keys.insert_keys
  tb_organizations.insert_keys
  tb_organization_submissions.insert_keys
  tb_organization_merge_audit.insert_keys
  tb_memberships.insert_keys
  tb_consents.insert_keys
  tb_telemetry_preferences.insert_keys
  tb_privacy_requests.insert_keys
  tb_privacy_idempotencies.insert_keys
  tb_privacy_request_steps.insert_keys
  tb_outbox_events.insert_keys
  tb_privacy_request_status_audit.insert_keys
  tb_email_verifications.insert_keys
  tb_email_verification_audits.insert_keys
  tb_public_email_challenges.insert_keys
  tb_public_registration_flows.insert_keys
  tb_product_accounts.insert_keys
  tb_account_sessions.insert_keys
  tb_account_refresh_tokens.insert_keys
  tb_public_auth_events.insert_keys
  tb_public_account_audits.insert_keys

lemmas table_upsert_keys [keys_intro] =
  tb_persons.upsert_keys
  tb_email_identities.upsert_keys
  tb_email_blind_indexes.upsert_keys
  tb_accounts.upsert_keys
  tb_accounts_by_person.upsert_keys
  tb_product_installations.upsert_keys
  tb_subject_aliases.upsert_keys
  tb_subject_alias_keys.upsert_keys
  tb_organizations.upsert_keys
  tb_organization_submissions.upsert_keys
  tb_organization_merge_audit.upsert_keys
  tb_memberships.upsert_keys
  tb_consents.upsert_keys
  tb_telemetry_preferences.upsert_keys
  tb_privacy_requests.upsert_keys
  tb_privacy_idempotencies.upsert_keys
  tb_privacy_request_steps.upsert_keys
  tb_outbox_events.upsert_keys
  tb_privacy_request_status_audit.upsert_keys
  tb_email_verifications.upsert_keys
  tb_email_verification_audits.upsert_keys
  tb_public_email_challenges.upsert_keys
  tb_public_registration_flows.upsert_keys
  tb_product_accounts.upsert_keys
  tb_account_sessions.upsert_keys
  tb_account_refresh_tokens.upsert_keys
  tb_public_auth_events.upsert_keys
  tb_public_account_audits.upsert_keys

lemmas table_update_keys [keys_intro] =
  tb_persons.update_keys
  tb_email_identities.update_keys
  tb_email_blind_indexes.update_keys
  tb_accounts.update_keys
  tb_accounts_by_person.update_keys
  tb_product_installations.update_keys
  tb_subject_aliases.update_keys
  tb_subject_alias_keys.update_keys
  tb_organizations.update_keys
  tb_organization_submissions.update_keys
  tb_organization_merge_audit.update_keys
  tb_memberships.update_keys
  tb_consents.update_keys
  tb_telemetry_preferences.update_keys
  tb_privacy_requests.update_keys
  tb_privacy_idempotencies.update_keys
  tb_privacy_request_steps.update_keys
  tb_outbox_events.update_keys
  tb_privacy_request_status_audit.update_keys
  tb_email_verifications.update_keys
  tb_email_verification_audits.update_keys
  tb_public_email_challenges.update_keys
  tb_public_registration_flows.update_keys
  tb_product_accounts.update_keys
  tb_account_sessions.update_keys
  tb_account_refresh_tokens.update_keys
  tb_public_auth_events.update_keys
  tb_public_account_audits.update_keys

lemmas table_delete_keys [keys_intro] =
  tb_persons.delete_keys
  tb_email_identities.delete_keys
  tb_email_blind_indexes.delete_keys
  tb_accounts.delete_keys
  tb_accounts_by_person.delete_keys
  tb_product_installations.delete_keys
  tb_subject_aliases.delete_keys
  tb_subject_alias_keys.delete_keys
  tb_organizations.delete_keys
  tb_organization_submissions.delete_keys
  tb_organization_merge_audit.delete_keys
  tb_memberships.delete_keys
  tb_consents.delete_keys
  tb_telemetry_preferences.delete_keys
  tb_privacy_requests.delete_keys
  tb_privacy_idempotencies.delete_keys
  tb_privacy_request_steps.delete_keys
  tb_outbox_events.delete_keys
  tb_privacy_request_status_audit.delete_keys
  tb_email_verifications.delete_keys
  tb_email_verification_audits.delete_keys
  tb_public_email_challenges.delete_keys
  tb_public_registration_flows.delete_keys
  tb_product_accounts.delete_keys
  tb_account_sessions.delete_keys
  tb_account_refresh_tokens.delete_keys
  tb_public_auth_events.delete_keys
  tb_public_account_audits.delete_keys

lemmas table_cas_keys [keys_intro] =
  tb_persons.cas_keys
  tb_email_identities.cas_keys
  tb_email_blind_indexes.cas_keys
  tb_accounts.cas_keys
  tb_accounts_by_person.cas_keys
  tb_product_installations.cas_keys
  tb_subject_aliases.cas_keys
  tb_subject_alias_keys.cas_keys
  tb_organizations.cas_keys
  tb_organization_submissions.cas_keys
  tb_organization_merge_audit.cas_keys
  tb_memberships.cas_keys
  tb_consents.cas_keys
  tb_telemetry_preferences.cas_keys
  tb_privacy_requests.cas_keys
  tb_privacy_idempotencies.cas_keys
  tb_privacy_request_steps.cas_keys
  tb_outbox_events.cas_keys
  tb_privacy_request_status_audit.cas_keys
  tb_email_verifications.cas_keys
  tb_email_verification_audits.cas_keys
  tb_public_email_challenges.cas_keys
  tb_public_registration_flows.cas_keys
  tb_product_accounts.cas_keys
  tb_account_sessions.cas_keys
  tb_account_refresh_tokens.cas_keys
  tb_public_auth_events.cas_keys
  tb_public_account_audits.cas_keys

lemmas table_cas_public_keys [keys_intro] =
  tb_persons.cas_public_keys
  tb_email_identities.cas_public_keys
  tb_email_blind_indexes.cas_public_keys
  tb_accounts.cas_public_keys
  tb_accounts_by_person.cas_public_keys
  tb_product_installations.cas_public_keys
  tb_subject_aliases.cas_public_keys
  tb_subject_alias_keys.cas_public_keys
  tb_organizations.cas_public_keys
  tb_organization_submissions.cas_public_keys
  tb_organization_merge_audit.cas_public_keys
  tb_memberships.cas_public_keys
  tb_consents.cas_public_keys
  tb_telemetry_preferences.cas_public_keys
  tb_privacy_requests.cas_public_keys
  tb_privacy_idempotencies.cas_public_keys
  tb_privacy_request_steps.cas_public_keys
  tb_outbox_events.cas_public_keys
  tb_privacy_request_status_audit.cas_public_keys
  tb_email_verifications.cas_public_keys
  tb_email_verification_audits.cas_public_keys
  tb_public_email_challenges.cas_public_keys
  tb_public_registration_flows.cas_public_keys
  tb_product_accounts.cas_public_keys
  tb_account_sessions.cas_public_keys
  tb_account_refresh_tokens.cas_public_keys
  tb_public_auth_events.cas_public_keys
  tb_public_account_audits.cas_public_keys

lemmas table_uniq =
  tb_persons.keys_get
  tb_email_identities.keys_get
  tb_email_blind_indexes.keys_get
  tb_accounts.keys_get
  tb_accounts_by_person.keys_get
  tb_product_installations.keys_get
  tb_subject_aliases.keys_get
  tb_subject_alias_keys.keys_get
  tb_organizations.keys_get
  tb_organization_submissions.keys_get
  tb_organization_merge_audit.keys_get
  tb_memberships.keys_get
  tb_consents.keys_get
  tb_telemetry_preferences.keys_get
  tb_privacy_requests.keys_get
  tb_privacy_idempotencies.keys_get
  tb_privacy_request_steps.keys_get
  tb_outbox_events.keys_get
  tb_privacy_request_status_audit.keys_get
  tb_email_verifications.keys_get
  tb_email_verification_audits.keys_get
  tb_public_email_challenges.keys_get
  tb_public_registration_flows.keys_get
  tb_product_accounts.keys_get
  tb_account_sessions.keys_get
  tb_account_refresh_tokens.keys_get
  tb_public_auth_events.keys_get
  tb_public_account_audits.keys_get

lemmas keys_simps = table_upsert_keys table_update_keys table_delete_keys

lemmas row_defs = update_rows_def delete_rows_def upsert_row_def

end
