(* ===== verification/Subject_Store.thy ===== *)
theory Subject_Store
  imports Table_Access
begin

text \<open>
  Subjects of the store: \<^verbatim>\<open>validateSubjectWith\<close>, consents, telemetry preferences
  and outbox insertion (\<^verbatim>\<open>subject_records.go\<close>), installations
  (\<^verbatim>\<open>installations.go\<close>, \<^verbatim>\<open>public_installations.go\<close>) and pairwise aliases
  (\<^verbatim>\<open>aliases.go\<close>).  An operation that opens a serializable transaction is a
  function of the database that returns an error or the result with the new
  database; the clock is read once per transaction (\<open>now\<close>) and fresh identifiers
  are arguments.
\<close>

section \<open>Subjects\<close>

record Subject =
  su_Kind :: string
  su_ID :: string

definition validateSubjectWith :: "db \<Rightarrow> Subject \<Rightarrow> string \<Rightarrow> unit result" where
  "validateSubjectWith d subject productID =
     (if su_Kind subject = ''person'' then
        rbind (some_or ErrNotFound (tfind p_id (su_ID subject) (persons d))) (\<lambda>row.
        if p_deleted_at row \<noteq> None then Inl ErrNotFound else Inr ())
      else if su_Kind subject = ''installation'' then
        rbind (some_or ErrNotFound (tfind i_id (su_ID subject) (product_installations d))) (\<lambda>row.
        if i_disabled_at row \<noteq> None \<or> (productID \<noteq> '''' \<and> i_product_id row \<noteq> productID)
        then Inl ErrNotFound else Inr ())
      else Inl ErrNotFound)"

definition insertOutbox ::
  "string \<Rightarrow> string \<Rightarrow> string \<Rightarrow> string \<Rightarrow> string option \<Rightarrow> string option \<Rightarrow> payload \<Rightarrow> time \<Rightarrow> db \<Rightarrow> db result"
where
  "insertOutbox eventID topic aggregateType aggregateID privacyStepID privacyRequestID payload now =
     insert_row outbox_events outbox_events_update ob_id
       \<lparr>ob_id = eventID, ob_topic = topic, ob_aggregate_type = aggregateType, ob_aggregate_id = aggregateID,
        ob_privacy_step_id = privacyStepID, ob_privacy_request_id = privacyRequestID, ob_payload = payload,
        ob_status = ''pending'', ob_attempts = 0, ob_poll_count = 0, ob_available_at = trunc_us now,
        ob_locked_at = None, ob_delivered_at = None, ob_last_error = None, ob_delivery_receipt = None,
        ob_created_at = trunc_us now, ob_version = 1\<rparr>"

section \<open>Consents and telemetry preferences\<close>

record Consent =
  cs_ID :: string
  cs_Subject :: Subject
  cs_ProductID :: string
  cs_ConsentType :: string
  cs_PolicyVersion :: string
  cs_Status :: string
  cs_RecordedAt :: time

definition insertConsentWith :: "Consent \<Rightarrow> time \<Rightarrow> db \<Rightarrow> db result" where
  "insertConsentWith consent now =
     insert_row consents consents_update c_id
       \<lparr>c_id = cs_ID consent, c_subject_type = su_Kind (cs_Subject consent),
        c_subject_id = su_ID (cs_Subject consent), c_product_id = cs_ProductID consent,
        c_consent_type = cs_ConsentType consent, c_policy_version = cs_PolicyVersion consent,
        c_status = cs_Status consent, c_recorded_at = trunc_us (cs_RecordedAt consent),
        c_created_at = trunc_us now\<rparr>"

definition CreateConsent :: "time \<Rightarrow> Consent \<Rightarrow> db \<Rightarrow> db result" where
  "CreateConsent now consent d =
     rbind (validateSubjectWith d (cs_Subject consent) (cs_ProductID consent)) (\<lambda>_.
     insertConsentWith consent now d)"

definition preference_key :: "Subject \<Rightarrow> string \<Rightarrow> string \<times> string \<times> string" where
  "preference_key subject productID = (su_Kind subject, su_ID subject, productID)"

definition insertTelemetryPreferenceWith ::
  "Subject \<Rightarrow> string \<Rightarrow> string \<Rightarrow> string \<Rightarrow> time \<Rightarrow> time \<Rightarrow> db \<Rightarrow> db result"
where
  "insertTelemetryPreferenceWith subject productID preferenceID preference recordedAt now =
     insert_row telemetry_preferences telemetry_preferences_update tp_key
       \<lparr>tp_subject_type = su_Kind subject, tp_subject_id = su_ID subject, tp_product_id = productID,
        tp_id = preferenceID, tp_preference = preference, tp_recorded_at = trunc_us recordedAt,
        tp_updated_at = trunc_us now, tp_version = 1\<rparr>"

text \<open>The row effect of the two version-checked updates of a preference.\<close>

definition set_preference :: "string \<times> time \<times> time \<Rightarrow> telemetry_preference \<Rightarrow> telemetry_preference" where
  "set_preference p r = (case p of (preference, recordedAt, now) \<Rightarrow>
     r\<lparr>tp_preference := preference, tp_recorded_at := trunc_us recordedAt, tp_updated_at := trunc_us now,
       tp_version := tp_version r + 1\<rparr>)"

definition opt_out_payload :: "string \<Rightarrow> string \<Rightarrow> string \<Rightarrow> time \<Rightarrow> payload" where
  "opt_out_payload eventID productID subjectKey requestedAt =
     \<lparr>pl_schema_version = 2, pl_request_id = eventID, pl_product = productID, pl_subject_key = subjectKey,
      pl_action = ''opt_out'', pl_requested_at = requestedAt\<rparr>"

definition SetTelemetryPreference ::
  "string \<Rightarrow> string \<Rightarrow> time \<Rightarrow> Subject \<Rightarrow> string \<Rightarrow> string \<Rightarrow> string \<Rightarrow> time \<Rightarrow> time \<Rightarrow> db \<Rightarrow> db result"
where
  "SetTelemetryPreference newPreferenceID eventID now subject subjectKey productID preference recordedAt requestedAt d =
     rbind (validateSubjectWith d subject productID) (\<lambda>_.
     case tfind tp_key (preference_key subject productID) (telemetry_preferences d) of
       Some row \<Rightarrow>
         if recordedAt < tp_recorded_at row \<or> (recordedAt = tp_recorded_at row \<and> preference \<noteq> tp_preference row)
         then Inl ErrConflict
         else
           rbind (cas_row telemetry_preferences telemetry_preferences_update tp_key tp_version
                    (preference_key subject productID) (tp_version row) (\<lambda>_. True)
                    (set_preference (preference, recordedAt, now)) d) (\<lambda>d1.
           if preference = ''denied'' \<and> tp_preference row \<noteq> ''denied''
           then insertOutbox eventID ''telemetry.suppression.requested'' ''telemetry_preference'' (tp_id row)
                  None None (opt_out_payload eventID productID subjectKey requestedAt) now d1
           else Inr d1)
     | None \<Rightarrow>
         rbind (insertTelemetryPreferenceWith subject productID newPreferenceID preference recordedAt now d) (\<lambda>d1.
         if preference = ''denied''
         then insertOutbox eventID ''telemetry.suppression.requested'' ''telemetry_preference'' newPreferenceID
                None None (opt_out_payload eventID productID subjectKey requestedAt) now d1
         else Inr d1))"

record TelemetryPreference =
  tpv_Preference :: string
  tpv_RecordedAt :: time

definition GetTelemetryPreference :: "db \<Rightarrow> Subject \<Rightarrow> string \<Rightarrow> TelemetryPreference result" where
  "GetTelemetryPreference d subject productID =
     rbind (some_or ErrNotFound (tfind tp_key (preference_key subject productID) (telemetry_preferences d))) (\<lambda>row.
     Inr \<lparr>tpv_Preference = tp_preference row, tpv_RecordedAt = tp_recorded_at row\<rparr>)"

definition insertSuppressionWith ::
  "string \<Rightarrow> string \<Rightarrow> string \<Rightarrow> string \<Rightarrow> time \<Rightarrow> time \<Rightarrow> db \<Rightarrow> db result"
where
  "insertSuppressionWith eventID subjectKey productID aggregateID requestedAt now d =
     (if eventID = '''' then Inl (ErrMessage ''suppression event ID is required'')
      else insertOutbox eventID ''telemetry.suppression.requested'' ''telemetry_preference'' aggregateID
             None None (opt_out_payload eventID productID subjectKey requestedAt) now d)"

section \<open>Installations\<close>

record Installation =
  in_ID :: string
  in_ProductID :: string
  in_Platform :: string
  in_CreatedAt :: time

definition new_installation :: "Installation \<Rightarrow> time \<Rightarrow> product_installation" where
  "new_installation inst now =
     \<lparr>i_id = in_ID inst, i_product_id = in_ProductID inst, i_platform = in_Platform inst, i_person_id = None,
      i_created_at = trunc_us now, i_last_seen_at = trunc_us now, i_disabled_at = None, i_version = 1\<rparr>"

definition touch_installation :: "time \<Rightarrow> product_installation \<Rightarrow> product_installation" where
  "touch_installation now r = r\<lparr>i_last_seen_at := trunc_us now, i_version := i_version r + 1\<rparr>"

definition CreateInstallation :: "time \<Rightarrow> Installation \<Rightarrow> db \<Rightarrow> ((Installation \<times> bool) \<times> db) result" where
  "CreateInstallation now inst d =
     (case tfind i_id (in_ID inst) (product_installations d) of
        Some row \<Rightarrow>
          if i_disabled_at row \<noteq> None \<or> i_product_id row \<noteq> in_ProductID inst \<or> i_platform row \<noteq> in_Platform inst
          then Inl ErrConflict
          else
            rbind (cas_row product_installations product_installations_update i_id i_version
                     (in_ID inst) (i_version row) (\<lambda>_. True) (touch_installation now) d) (\<lambda>d1.
            Inr ((\<lparr>in_ID = in_ID inst, in_ProductID = i_product_id row, in_Platform = i_platform row,
                  in_CreatedAt = i_created_at row\<rparr>, False), d1))
      | None \<Rightarrow>
          rbind (insert_row product_installations product_installations_update i_id (new_installation inst now) d) (\<lambda>d1.
          Inr ((inst\<lparr>in_CreatedAt := now\<rparr>, True), d1)))"

definition ResolveTokenSubject :: "db \<Rightarrow> string \<Rightarrow> string \<Rightarrow> string \<Rightarrow> unit result" where
  "ResolveTokenSubject d productID subjectType subjectID =
     (if subjectType = ''installation'' then
        rbind (some_or ErrNotFound (tfind i_id subjectID (product_installations d))) (\<lambda>row.
        if i_product_id row \<noteq> productID \<or> i_disabled_at row \<noteq> None then Inl ErrNotFound else Inr ())
      else if subjectType = ''account'' then
        rbind (some_or ErrNotFound (tfind a_id subjectID (accounts d))) (\<lambda>row.
        if a_status row \<noteq> ''active'' then Inl ErrNotFound
        else if \<exists>e \<in> set (email_identities d).
                  ei_person_id e = a_person_id row \<and> ei_namespace e = ''account'' \<and>
                  (ei_product_id e = productID \<or> ei_linkage_scope e = ''global'')
        then Inr () else Inl ErrNotFound)
      else Inl ErrNotFound)"

section \<open>Public installations\<close>

record PublicInstallationRegistration =
  pir_Installation :: Installation
  pir_OpaqueKey :: string
  pir_Audience :: string
  pir_Consent :: Consent
  pir_Preference :: string
  pir_PreferenceAt :: time
  pir_SuppressionID :: string

definition empty_consent :: Consent where
  "empty_consent = \<lparr>cs_ID = '''', cs_Subject = \<lparr>su_Kind = '''', su_ID = ''''\<rparr>, cs_ProductID = '''',
     cs_ConsentType = '''', cs_PolicyVersion = '''', cs_Status = '''', cs_RecordedAt = zero_time\<rparr>"

definition validPublicInstallationConsent :: "PublicInstallationRegistration \<Rightarrow> bool" where
  "validPublicInstallationConsent input =
     (let inst = pir_Installation input; consent = pir_Consent input; preference = pir_Preference input in
      if \<not> ValidUUID (in_ID inst) \<or> \<not> ValidProductID (in_ProductID inst) \<or> is_zero (pir_PreferenceAt input) then False
      else if preference = ''unknown'' then consent = empty_consent \<and> pir_SuppressionID input = ''''
      else if preference = ''denied'' \<and> \<not> ValidUUID (pir_SuppressionID input) then False
      else if preference \<noteq> ''denied'' \<and> preference \<noteq> ''allowed'' then False
      else ValidUUID (cs_ID consent) \<and> cs_Subject consent = \<lparr>su_Kind = ''installation'', su_ID = in_ID inst\<rparr> \<and>
        cs_ProductID consent = in_ProductID inst \<and> cs_ConsentType consent = ''telemetry'' \<and>
        cs_Status consent = (if preference = ''denied'' then ''withdrawn'' else ''granted'') \<and>
        1 \<le> length (cs_PolicyVersion consent) \<and> length (cs_PolicyVersion consent) \<le> 100 \<and>
        cs_RecordedAt consent = pir_PreferenceAt input)"

definition insert_alias ::
  "string \<Rightarrow> string \<Rightarrow> string \<Rightarrow> string \<Rightarrow> string \<Rightarrow> string option \<Rightarrow> time \<Rightarrow> db \<Rightarrow> db result"
where
  "insert_alias opaqueKey productID audience subjectType subjectID personID now d =
     rbind (insert_row subject_aliases subject_aliases_update sa_opaque_key
              \<lparr>sa_opaque_key = opaqueKey, sa_product_id = productID, sa_audience = audience,
               sa_subject_type = subjectType, sa_subject_id = subjectID, sa_person_id = personID,
               sa_created_at = trunc_us now\<rparr> d) (\<lambda>d1.
     insert_row subject_alias_keys subject_alias_keys_update sk_key
       \<lparr>sk_product_id = productID, sk_audience = audience, sk_subject_type = subjectType,
        sk_subject_id = subjectID, sk_opaque_key = opaqueKey\<rparr> d1)"

definition create_public_installation :: "string \<Rightarrow> time \<Rightarrow> PublicInstallationRegistration \<Rightarrow> db \<Rightarrow> db result" where
  "create_public_installation preferenceID now input d =
     (let inst = pir_Installation input; subject = \<lparr>su_Kind = ''installation'', su_ID = in_ID inst\<rparr> in
      rbind (insert_row product_installations product_installations_update i_id (new_installation inst now) d) (\<lambda>d1.
      rbind (insert_alias (pir_OpaqueKey input) (in_ProductID inst) (pir_Audience input) ''installation''
               (in_ID inst) None now d1) (\<lambda>d2.
      rbind (if pir_Preference input \<noteq> ''unknown'' then insertConsentWith (pir_Consent input) now d2 else Inr d2) (\<lambda>d3.
      rbind (insertTelemetryPreferenceWith subject (in_ProductID inst) preferenceID (pir_Preference input)
               (pir_PreferenceAt input) now d3) (\<lambda>d4.
      if pir_Preference input = ''denied''
      then insertSuppressionWith (pir_SuppressionID input) (pir_OpaqueKey input) (in_ProductID inst)
             preferenceID (pir_PreferenceAt input) now d4
      else Inr d4)))))"

definition stamp_created :: "time \<Rightarrow> Installation \<Rightarrow> Installation" where
  "stamp_created now r = (if is_zero (in_CreatedAt r) then r\<lparr>in_CreatedAt := now\<rparr> else r)"

definition RegisterPublicInstallation ::
  "string \<Rightarrow> time \<Rightarrow> PublicInstallationRegistration \<Rightarrow> db \<Rightarrow> (Installation \<times> db) result"
where
  "RegisterPublicInstallation preferenceID now0 input d =
     (if \<not> validPublicInstallationConsent input then Inl ErrInvalid
      else
        let now = trunc_us now0; inst = pir_Installation input;
            subject = \<lparr>su_Kind = ''installation'', su_ID = in_ID inst\<rparr> in
        case tfind i_id (in_ID inst) (product_installations d) of
          Some row \<Rightarrow>
            if i_disabled_at row \<noteq> None \<or> i_product_id row \<noteq> in_ProductID inst \<or> i_platform row \<noteq> in_Platform inst
            then Inl ErrConflict
            else
              rbind (some_or ErrConflict
                 (tfind tp_key (preference_key subject (in_ProductID inst)) (telemetry_preferences d))) (\<lambda>pref.
              if tp_preference pref \<noteq> pir_Preference input \<or> tp_recorded_at pref \<noteq> pir_PreferenceAt input
              then Inl ErrConflict
              else Inr (stamp_created now (inst\<lparr>in_ProductID := i_product_id row, in_Platform := i_platform row,
                                    in_CreatedAt := i_created_at row\<rparr>), d))
        | None \<Rightarrow>
            rbind (create_public_installation preferenceID now input d) (\<lambda>d1.
            Inr (stamp_created now inst, d1)))"

record PublicTelemetryDenial =
  ptd_Subject :: Subject
  ptd_SubjectKey :: string
  ptd_ProductID :: string
  ptd_Consent :: Consent
  ptd_RecordedAt :: time
  ptd_SuppressionID :: string

definition DenyPublicInstallation :: "time \<Rightarrow> PublicTelemetryDenial \<Rightarrow> db \<Rightarrow> (time \<times> db) result" where
  "DenyPublicInstallation now input d =
     rbind (validateSubjectWith d (ptd_Subject input) (ptd_ProductID input)) (\<lambda>_.
     rbind (some_or ErrNotFound
        (tfind tp_key (preference_key (ptd_Subject input) (ptd_ProductID input)) (telemetry_preferences d))) (\<lambda>row.
     if ptd_RecordedAt input < tp_recorded_at row then Inl ErrConflict
     else if ptd_RecordedAt input = tp_recorded_at row \<and> tp_preference row \<noteq> ''denied'' then Inl ErrConflict
     else if tp_preference row = ''denied'' then Inr (tp_recorded_at row, d)
     else
       rbind (insertConsentWith (ptd_Consent input) now d) (\<lambda>d1.
       rbind (cas_row telemetry_preferences telemetry_preferences_update tp_key tp_version
                (preference_key (ptd_Subject input) (ptd_ProductID input)) (tp_version row) (\<lambda>_. True)
                (set_preference (''denied'', ptd_RecordedAt input, now)) d1) (\<lambda>d2.
       rbind (insertSuppressionWith (ptd_SuppressionID input) (ptd_SubjectKey input) (ptd_ProductID input)
                (tp_id row) (ptd_RecordedAt input) now d2) (\<lambda>d3.
       Inr (ptd_RecordedAt input, d3))))))"

section \<open>Subject aliases\<close>

record ResolvedAlias =
  ra_OpaqueKey :: string
  ra_SubjectType :: string
  ra_SubjectID :: string
  ra_PersonID :: string
  ra_ProductID :: string
  ra_Audience :: string

definition aliasPersonID :: "db \<Rightarrow> string \<Rightarrow> string \<Rightarrow> string option result" where
  "aliasPersonID d subjectType subjectID =
     (if subjectType = ''person'' then
        rbind (validateSubjectWith d \<lparr>su_Kind = ''person'', su_ID = subjectID\<rparr> '''') (\<lambda>_. Inr (Some subjectID))
      else if subjectType = ''account'' then
        rbind (some_or ErrNotFound (tfind a_id subjectID (accounts d))) (\<lambda>row.
        if a_status row \<noteq> ''active'' then Inl ErrNotFound else Inr (Some (a_person_id row)))
      else if subjectType = ''installation'' then
        rbind (some_or ErrNotFound (tfind i_id subjectID (product_installations d))) (\<lambda>row.
        if i_disabled_at row \<noteq> None then Inl ErrNotFound else Inr (i_person_id row))
      else Inl ErrNotFound)"

definition EnsureSubjectAlias :: "time \<Rightarrow> string \<Rightarrow> string \<Rightarrow> string \<Rightarrow> string \<Rightarrow> string \<Rightarrow> db \<Rightarrow> db result" where
  "EnsureSubjectAlias now opaqueKey productID audience subjectType subjectID d =
     rbind (aliasPersonID d subjectType subjectID) (\<lambda>personID.
     case tfind sa_opaque_key opaqueKey (subject_aliases d) of
       Some row \<Rightarrow>
         if sa_product_id row \<noteq> productID \<or> sa_audience row \<noteq> audience \<or>
            sa_subject_type row \<noteq> subjectType \<or> sa_subject_id row \<noteq> subjectID
         then Inl ErrConflict else Inr d
     | None \<Rightarrow>
         (case tfind sk_key (productID, audience, subjectType, subjectID) (subject_alias_keys d) of
            Some k \<Rightarrow> if sk_opaque_key k \<noteq> opaqueKey then Inl ErrConflict else Inr d
          | None \<Rightarrow> insert_alias opaqueKey productID audience subjectType subjectID personID now d))"

definition ResolveSubjectAlias :: "db \<Rightarrow> string \<Rightarrow> string \<Rightarrow> string \<Rightarrow> ResolvedAlias result" where
  "ResolveSubjectAlias d opaqueKey productID audience =
     rbind (some_or ErrNotFound (tfind sa_opaque_key opaqueKey (subject_aliases d))) (\<lambda>row.
     if sa_product_id row \<noteq> productID \<or> sa_audience row \<noteq> audience then Inl ErrNotFound
     else
       rbind (aliasPersonID d (sa_subject_type row) (sa_subject_id row)) (\<lambda>_.
       Inr \<lparr>ra_OpaqueKey = opaqueKey, ra_SubjectType = sa_subject_type row, ra_SubjectID = sa_subject_id row,
            ra_PersonID = (case sa_person_id row of None \<Rightarrow> '''' | Some p \<Rightarrow> p),
            ra_ProductID = sa_product_id row, ra_Audience = sa_audience row\<rparr>))"

text \<open>\<^verbatim>\<open>ORDER BY product_id, subject_type, opaque_key\<close>; the product is constant in the second form.\<close>

definition alias_order :: "subject_alias \<Rightarrow> string list" where
  "alias_order r = [sa_product_id r, sa_subject_type r, sa_opaque_key r]"

definition privacyFanoutAliases :: "db \<Rightarrow> string \<Rightarrow> string option \<Rightarrow> ResolvedAlias list result" where
  "privacyFanoutAliases d personID productID =
     (let rows = sort_key alias_order (filter (\<lambda>r. sa_person_id r = Some personID \<and>
                   (case productID of None \<Rightarrow> True | Some p \<Rightarrow> sa_product_id r = p)) (subject_aliases d));
          result = map (\<lambda>r. \<lparr>ra_OpaqueKey = sa_opaque_key r, ra_SubjectType = sa_subject_type r,
                     ra_SubjectID = sa_subject_id r, ra_PersonID = personID,
                     ra_ProductID = sa_product_id r, ra_Audience = sa_audience r\<rparr>) rows in
      if result = [] then Inl (ErrMessage ''privacy request has no product aliases'') else Inr result)"

section \<open>Laws of the statements\<close>

lemmas subject_record_defs =
  insertOutbox_def insertConsentWith_def insertTelemetryPreferenceWith_def insertSuppressionWith_def insert_alias_def

interpretation preference_update: versioned_update tp_key tp_version set_preference
  by unfold_locales (auto simp: set_preference_def tp_key_def split: prod.splits)

interpretation installation_touch: versioned_update i_id i_version touch_installation
  by unfold_locales (auto simp: touch_installation_def)

lemma set_preference_fields [simp]:
  "tp_preference (set_preference (p, t, n) r) = p"
  "tp_recorded_at (set_preference (p, t, n) r) = trunc_us t"
  "tp_id (set_preference (p, t, n) r) = tp_id r"
  by (simp_all add: set_preference_def)

lemma update_preference_Inr:
  "uniq tp_key (telemetry_preferences d) \<Longrightarrow>
   cas_row telemetry_preferences telemetry_preferences_update tp_key tp_version k v (\<lambda>_. True) (set_preference p) d = Inr d' \<longleftrightarrow>
   (\<exists>r. tfind tp_key k (telemetry_preferences d) = Some r \<and> tp_version r = v \<and>
     d' = telemetry_preferences_update (\<lambda>_. tbl_update (\<lambda>x. tp_key x = k) (set_preference p) (telemetry_preferences d)) d)"
  by (subst cas_row_Inr) (auto simp: table_uniq)

lemma tfind_set_preference:
  "tfind tp_key k (tbl_update (\<lambda>x. tp_key x = k) (set_preference p) t) =
   map_option (set_preference p) (tfind tp_key k t)"
  by (cases "tfind tp_key k t") (auto simp: tfind_update dest: tfind_Some)

lemma validateSubjectWith_yields [keys_intro]: "P () \<Longrightarrow> yields (validateSubjectWith d s p) P"
  by (simp add: yields_def)

lemma aliasPersonID_yields [keys_intro]: "(\<And>x. P x) \<Longrightarrow> yields (aliasPersonID d t i) P"
  by (rule yields_any)

lemma insertOutbox_keys [keys_intro]:
  "db_keys d \<Longrightarrow> (\<And>d'. db_keys d' \<Longrightarrow> P d') \<Longrightarrow> yields (insertOutbox i t a g s q p n d) P"
  by (auto simp: insertOutbox_def intro!: keys_intro)

lemma insertConsentWith_keys [keys_intro]:
  "db_keys d \<Longrightarrow> (\<And>d'. db_keys d' \<Longrightarrow> P d') \<Longrightarrow> yields (insertConsentWith c n d) P"
  by (auto simp: insertConsentWith_def intro!: keys_intro)

lemma insertSuppressionWith_keys [keys_intro]:
  "db_keys d \<Longrightarrow> (\<And>d'. db_keys d' \<Longrightarrow> P d') \<Longrightarrow> yields (insertSuppressionWith e k p a t n d) P"
  by (auto simp: insertSuppressionWith_def intro!: keys_intro)

lemma insertTelemetryPreferenceWith_keys [keys_intro]:
  "db_keys d \<Longrightarrow> (\<And>d'. db_keys d' \<Longrightarrow> P d') \<Longrightarrow> yields (insertTelemetryPreferenceWith s p i f t n d) P"
  by (auto simp: insertTelemetryPreferenceWith_def intro!: keys_intro)

lemma insert_alias_keys [keys_intro]:
  "db_keys d \<Longrightarrow> (\<And>d'. db_keys d' \<Longrightarrow> P d') \<Longrightarrow> yields (insert_alias k p a t i q n d) P"
  by (auto simp: insert_alias_def intro!: keys_intro)

lemma CreateInstallation_keys: "db_keys d \<Longrightarrow> yields (CreateInstallation now inst d) (\<lambda>(r, d'). db_keys d')"
  by (auto simp: CreateInstallation_def split: option.splits intro!: keys_intro)

lemma SetTelemetryPreference_keys:
  "db_keys d \<Longrightarrow> yields (SetTelemetryPreference pid eid now subject sk product p rec req d) db_keys"
  by (auto simp: SetTelemetryPreference_def split: option.splits intro!: keys_intro)

lemma create_public_installation_keys [keys_intro]:
  "db_keys d \<Longrightarrow> (\<And>d'. db_keys d' \<Longrightarrow> P d') \<Longrightarrow> yields (create_public_installation pid now input d) P"
  by (auto simp: create_public_installation_def Let_def intro!: keys_intro)

lemma RegisterPublicInstallation_keys:
  "db_keys d \<Longrightarrow> yields (RegisterPublicInstallation pid now input d) (\<lambda>(r, d'). db_keys d')"
  by (auto simp: RegisterPublicInstallation_def Let_def split: option.splits intro!: keys_intro)

lemma DenyPublicInstallation_keys: "db_keys d \<Longrightarrow> yields (DenyPublicInstallation now input d) (\<lambda>(t, d'). db_keys d')"
  by (auto simp: DenyPublicInstallation_def intro!: keys_intro)

lemma EnsureSubjectAlias_keys: "db_keys d \<Longrightarrow> yields (EnsureSubjectAlias now k p a t i d) db_keys"
  by (auto simp: EnsureSubjectAlias_def split: option.splits intro!: keys_intro)

lemma CreateConsent_keys: "db_keys d \<Longrightarrow> yields (CreateConsent now c d) db_keys"
  by (auto simp: CreateConsent_def intro!: keys_intro)

section \<open>Properties\<close>

abbreviation opt_out_event :: "string \<Rightarrow> string \<Rightarrow> string \<Rightarrow> string \<Rightarrow> time \<Rightarrow> time \<Rightarrow> outbox_event" where
  "opt_out_event eventID aggregateID productID subjectKey requestedAt now \<equiv>
     \<lparr>ob_id = eventID, ob_topic = ''telemetry.suppression.requested'', ob_aggregate_type = ''telemetry_preference'',
      ob_aggregate_id = aggregateID, ob_privacy_step_id = None, ob_privacy_request_id = None,
      ob_payload = opt_out_payload eventID productID subjectKey requestedAt,
      ob_status = ''pending'', ob_attempts = 0, ob_poll_count = 0, ob_available_at = trunc_us now,
      ob_locked_at = None, ob_delivered_at = None, ob_last_error = None, ob_delivery_receipt = None,
      ob_created_at = trunc_us now, ob_version = 1\<rparr>"

lemma GetTelemetryPreference_iff:
  "GetTelemetryPreference d s p = Inr v \<longleftrightarrow>
   (\<exists>r. tfind tp_key (preference_key s p) (telemetry_preferences d) = Some r \<and>
        v = \<lparr>tpv_Preference = tp_preference r, tpv_RecordedAt = tp_recorded_at r\<rparr>)"
  by (auto simp: GetTelemetryPreference_def)

text \<open>
  A successful \<^verbatim>\<open>SetTelemetryPreference\<close> is read back by
  \<^verbatim>\<open>GetTelemetryPreference\<close> (at the microsecond resolution of the column), never goes
  back in time, and enqueues exactly one pending \<^verbatim>\<open>opt_out\<close> event in the same
  transaction when the preference becomes \<^verbatim>\<open>denied\<close>, and none otherwise.
\<close>

theorem set_preference_effect:
  assumes ok: "SetTelemetryPreference pid eid now subject sk product pref rec req d = Inr d'"
    and keys: "db_keys d"
  shows "GetTelemetryPreference d' subject product = Inr \<lparr>tpv_Preference = pref, tpv_RecordedAt = trunc_us rec\<rparr> \<and>
    (\<forall>old. GetTelemetryPreference d subject product = Inr old \<longrightarrow> tpv_RecordedAt old \<le> rec) \<and>
    (if pref = ''denied'' \<and> (\<forall>old. GetTelemetryPreference d subject product = Inr old \<longrightarrow> tpv_Preference old \<noteq> ''denied'')
     then \<exists>aggregate. outbox_events d' = outbox_events d @ [opt_out_event eid aggregate product sk req now]
     else outbox_events d' = outbox_events d)"
proof (intro conjI allI impI)
  let ?k = "preference_key subject product" and ?t = "telemetry_preferences d"
  have u: "uniq tp_key ?t" using keys by (rule table_uniq)
  show "GetTelemetryPreference d subject product = Inr old \<Longrightarrow> tpv_RecordedAt old \<le> rec" for old
    using ok by (auto simp: SetTelemetryPreference_def GetTelemetryPreference_def split: if_splits)
  show "GetTelemetryPreference d' subject product = Inr \<lparr>tpv_Preference = pref, tpv_RecordedAt = trunc_us rec\<rparr>"
  proof (cases "tfind tp_key ?k ?t")
    case None
    with ok have "telemetry_preferences d' = ?t @ [\<lparr>tp_subject_type = su_Kind subject, tp_subject_id = su_ID subject,
        tp_product_id = product, tp_id = pid, tp_preference = pref, tp_recorded_at = trunc_us rec,
        tp_updated_at = trunc_us now, tp_version = 1\<rparr>]"
      by (auto simp: SetTelemetryPreference_def subject_record_defs row_ops split: if_splits)
    with None show ?thesis
      by (simp add: GetTelemetryPreference_def tfind_append tp_key_def preference_key_def)
  next
    case (Some r)
    with ok u have "telemetry_preferences d' = tbl_update (\<lambda>x. tp_key x = ?k) (set_preference (pref, rec, now)) ?t"
      by (auto simp: SetTelemetryPreference_def subject_record_defs row_ops update_preference_Inr split: if_splits)
    with Some show ?thesis by (simp add: GetTelemetryPreference_def tfind_set_preference)
  qed
  show "if pref = ''denied'' \<and> (\<forall>old. GetTelemetryPreference d subject product = Inr old \<longrightarrow> tpv_Preference old \<noteq> ''denied'')
      then \<exists>aggregate. outbox_events d' = outbox_events d @ [opt_out_event eid aggregate product sk req now]
      else outbox_events d' = outbox_events d"
    using ok u
    by (cases "tfind tp_key ?k ?t")
       (auto simp: SetTelemetryPreference_def GetTelemetryPreference_def subject_record_defs row_ops
         update_preference_Inr split: if_splits)
qed

text \<open>
  A successful denial of a public installation leaves the preference
  \<^verbatim>\<open>denied\<close> at the reported effective instant. Repeating an older denial
  changes nothing; a new denial records the consent withdrawal, the
  preference and the pending suppression event together.
\<close>

theorem deny_public_effect:
  assumes ok: "DenyPublicInstallation now input d = Inr (effectiveAt, d')"
    and keys: "db_keys d"
  shows "(d' = d \<and> GetTelemetryPreference d (ptd_Subject input) (ptd_ProductID input) =
        Inr \<lparr>tpv_Preference = ''denied'', tpv_RecordedAt = effectiveAt\<rparr>) \<or>
    (GetTelemetryPreference d' (ptd_Subject input) (ptd_ProductID input) =
        Inr \<lparr>tpv_Preference = ''denied'', tpv_RecordedAt = trunc_us effectiveAt\<rparr> \<and>
     effectiveAt = ptd_RecordedAt input \<and>
     (\<exists>c aggregate. consents d' = consents d @ [c] \<and> c_id c = cs_ID (ptd_Consent input) \<and>
        c_status c = cs_Status (ptd_Consent input) \<and>
        outbox_events d' = outbox_events d @ [opt_out_event (ptd_SuppressionID input) aggregate (ptd_ProductID input)
          (ptd_SubjectKey input) (ptd_RecordedAt input) now]))"
proof -
  let ?k = "preference_key (ptd_Subject input) (ptd_ProductID input)"
  have u: "uniq tp_key (telemetry_preferences d)" using keys by (rule table_uniq)
  from ok obtain row where row: "tfind tp_key ?k (telemetry_preferences d) = Some row"
    by (auto simp: DenyPublicInstallation_def)
  show ?thesis
  proof (cases "tp_preference row = ''denied''")
    case True
    with ok row show ?thesis by (auto simp: DenyPublicInstallation_def GetTelemetryPreference_def split: if_splits)
  next
    case False
    with ok row u show ?thesis
      by (auto simp: DenyPublicInstallation_def GetTelemetryPreference_def subject_record_defs row_ops
          update_preference_Inr tfind_set_preference split: if_splits)
  qed
qed

lemma create_public_installation_effect:
  "yields (create_public_installation pid now input d) (\<lambda>d'.
     product_installations d' = product_installations d @ [new_installation (pir_Installation input) now] \<and>
     telemetry_preferences d' = telemetry_preferences d @
      [\<lparr>tp_subject_type = ''installation'', tp_subject_id = in_ID (pir_Installation input),
        tp_product_id = in_ProductID (pir_Installation input), tp_id = pid, tp_preference = pir_Preference input,
        tp_recorded_at = trunc_us (pir_PreferenceAt input), tp_updated_at = trunc_us now, tp_version = 1\<rparr>] \<and>
     tfind tp_key (''installation'', in_ID (pir_Installation input), in_ProductID (pir_Installation input))
      (telemetry_preferences d) = None)"
  by (simp add: create_public_installation_def Let_def subject_record_defs row_wp tfind_None tp_key_def)

text \<open>
  Registering a public installation is idempotent. Repeating the same
  registration, with another clock and another fresh preference identifier, returns the same
  installation and changes nothing. The code compares the stored (microsecond)
  instant with the submitted one, so the submitted instant has to be in microseconds.
\<close>

theorem register_public_idempotent:
  assumes ok: "RegisterPublicInstallation pid now input d = Inr (inst, d')"
    and us: "trunc_us (pir_PreferenceAt input) = pir_PreferenceAt input"
    and created: "is_zero (in_CreatedAt (pir_Installation input))" "\<not> is_zero (in_CreatedAt inst)"
    and rows: "\<And>r. r \<in> set (product_installations d) \<Longrightarrow> \<not> is_zero (i_created_at r)"
  shows "RegisterPublicInstallation pid' now' input d' = Inr (inst, d')"
proof (cases "tfind i_id (in_ID (pir_Installation input)) (product_installations d)")
  case None
  let ?inst = "pir_Installation input"
  from ok None have v: "validPublicInstallationConsent input" and st: "inst = stamp_created (trunc_us now) ?inst"
    and c: "create_public_installation pid (trunc_us now) input d = Inr d'"
    by (auto simp: RegisterPublicInstallation_def Let_def split: if_splits)
  note new = yieldsD [OF create_public_installation_effect c]
  then have "tfind i_id (in_ID ?inst) (product_installations d') = Some (new_installation ?inst (trunc_us now))"
    using None by (simp add: tfind_append new_installation_def)
  moreover have "tfind tp_key (''installation'', in_ID ?inst, in_ProductID ?inst) (telemetry_preferences d') =
      Some \<lparr>tp_subject_type = ''installation'', tp_subject_id = in_ID ?inst, tp_product_id = in_ProductID ?inst, tp_id = pid,
        tp_preference = pir_Preference input, tp_recorded_at = pir_PreferenceAt input, tp_updated_at = trunc_us now, tp_version = 1\<rparr>"
    using new us by (simp add: tfind_append tp_key_def)
  ultimately show ?thesis
    using v st created
    by (simp add: RegisterPublicInstallation_def Let_def preference_key_def new_installation_def stamp_created_def)
next
  case (Some row)
  then have "\<not> is_zero (i_created_at row)" using rows [of row] by (auto dest: tfind_Some)
  with Some ok created show ?thesis
    by (auto simp: RegisterPublicInstallation_def Let_def stamp_created_def split: if_splits)
qed

text \<open>
  Every key row names an alias row of the same subject: \<^verbatim>\<open>EnsureSubjectAlias\<close> and
  \<^verbatim>\<open>RegisterPublicInstallation\<close> write the two tables together.
\<close>

definition alias_of :: "subject_alias_key \<Rightarrow> subject_alias \<Rightarrow> bool" where
  "alias_of k a \<longleftrightarrow> sa_opaque_key a = sk_opaque_key k \<and> sa_product_id a = sk_product_id k \<and>
     sa_audience a = sk_audience k \<and> sa_subject_type a = sk_subject_type k \<and> sa_subject_id a = sk_subject_id k"

definition alias_wf :: "db \<Rightarrow> bool" where
  "alias_wf d \<longleftrightarrow> (\<forall>k \<in> set (subject_alias_keys d). \<exists>a \<in> set (subject_aliases d). alias_of k a)"

lemma insert_alias_wf: "insert_alias k p a t i q n d = Inr d' \<Longrightarrow> alias_wf d \<Longrightarrow> alias_wf d'"
  by (auto simp: insert_alias_def row_ops alias_wf_def alias_of_def)

lemma ensure_alias_row:
  assumes ok: "EnsureSubjectAlias now k p a t i d = Inr d'" and keys: "db_keys d" and wf: "alias_wf d"
  shows "\<exists>row. tfind sa_opaque_key k (subject_aliases d') = Some row \<and> sa_product_id row = p \<and>
    sa_audience row = a \<and> sa_subject_type row = t \<and> sa_subject_id row = i"
proof (cases "tfind sa_opaque_key k (subject_aliases d)")
  case None
  have "tfind sk_key (p, a, t, i) (subject_alias_keys d) = None"
  proof (rule ccontr)
    assume "tfind sk_key (p, a, t, i) (subject_alias_keys d) \<noteq> None"
    then obtain r where r: "tfind sk_key (p, a, t, i) (subject_alias_keys d) = Some r" by blast
    with None ok have "sk_opaque_key r = k" by (auto simp: EnsureSubjectAlias_def split: if_splits)
    moreover from r have "r \<in> set (subject_alias_keys d)" by (auto dest: tfind_Some)
    ultimately have "\<exists>x \<in> set (subject_aliases d). sa_opaque_key x = k"
      using wf by (auto simp: alias_wf_def alias_of_def)
    with None show False by (auto simp: tfind_None)
  qed
  with None ok show ?thesis
    by (auto simp: EnsureSubjectAlias_def insert_alias_def row_ops tfind_append)
next
  case (Some row)
  with ok show ?thesis by (auto simp: EnsureSubjectAlias_def split: if_splits)
qed

text \<open>
  Once \<^verbatim>\<open>EnsureSubjectAlias\<close> has succeeded, \<^verbatim>\<open>ResolveSubjectAlias\<close> maps the
  opaque key back to exactly that subject for that product and audience, and the
  consistency of the two alias tables is kept.
\<close>

theorem ensure_then_resolve:
  assumes ok: "EnsureSubjectAlias now k p a t i d = Inr d'" and keys: "db_keys d" and wf: "alias_wf d"
  shows "(\<exists>r. ResolveSubjectAlias d' k p a = Inr r \<and> ra_OpaqueKey r = k \<and> ra_SubjectType r = t \<and> ra_SubjectID r = i) \<and>
    alias_wf d'"
proof
  from ok obtain q where q: "aliasPersonID d t i = Inr q" by (auto simp: EnsureSubjectAlias_def)
  have "persons d' = persons d \<and> accounts d' = accounts d \<and> product_installations d' = product_installations d"
    using ok by (auto simp: EnsureSubjectAlias_def insert_alias_def row_ops split: option.splits if_splits)
  then have "aliasPersonID d' t i = aliasPersonID d t i"
    by (simp add: aliasPersonID_def validateSubjectWith_def)
  with q have q': "aliasPersonID d' t i = Inr q" by simp
  obtain row where row: "tfind sa_opaque_key k (subject_aliases d') = Some row" "sa_product_id row = p"
      "sa_audience row = a" "sa_subject_type row = t" "sa_subject_id row = i"
    using ensure_alias_row [OF ok keys wf] by blast
  show "\<exists>r. ResolveSubjectAlias d' k p a = Inr r \<and> ra_OpaqueKey r = k \<and> ra_SubjectType r = t \<and> ra_SubjectID r = i"
    by (simp add: ResolveSubjectAlias_def row q')
  show "alias_wf d'"
    using ok wf by (auto simp: EnsureSubjectAlias_def split: option.splits if_splits intro: insert_alias_wf)
qed

section \<open>Witnesses\<close>

definition sample_installation :: Installation where
  "sample_installation = \<lparr>in_ID = sample_uuid, in_ProductID = ''pict'', in_Platform = ''android'', in_CreatedAt = zero_time\<rparr>"

definition sample_db :: db where
  "sample_db = empty_db\<lparr>product_installations := [new_installation sample_installation 0]\<rparr>"

abbreviation sample_subject :: Subject where
  "sample_subject \<equiv> \<lparr>su_Kind = ''installation'', su_ID = sample_uuid\<rparr>"

lemmas sample_defs = sample_db_def sample_installation_def new_installation_def empty_db_def

lemma sample_db_keys: "db_keys sample_db"
  by (simp add: sample_defs db_keys_def)

theorem set_preference_effect_witness:
  "\<exists>d'. SetTelemetryPreference ''p'' ''e'' 5000 sample_subject ''k'' ''pict'' ''denied'' 3000 4000 sample_db = Inr d' \<and>
     length (outbox_events d') = 1"
proof -
  have "\<exists>d'. SetTelemetryPreference ''p'' ''e'' 5000 sample_subject ''k'' ''pict'' ''denied'' 3000 4000 sample_db = Inr d'"
    by (simp add: SetTelemetryPreference_def validateSubjectWith_def sample_defs subject_record_defs insert_row_eval)
  then obtain d' where ok: "SetTelemetryPreference ''p'' ''e'' 5000 sample_subject ''k'' ''pict'' ''denied'' 3000 4000 sample_db = Inr d'" ..
  from set_preference_effect [OF ok sample_db_keys] have "\<exists>a. outbox_events d' = [opt_out_event ''e'' a ''pict'' ''k'' 4000 5000]"
    by (auto simp: GetTelemetryPreference_def sample_defs split: if_splits)
  with ok show ?thesis by auto
qed

definition sample_denial :: PublicTelemetryDenial where
  "sample_denial = \<lparr>ptd_Subject = sample_subject, ptd_SubjectKey = ''k'', ptd_ProductID = ''pict'',
     ptd_Consent = empty_consent\<lparr>cs_Status := ''withdrawn''\<rparr>, ptd_RecordedAt = 9000, ptd_SuppressionID = sample_uuid\<rparr>"

definition sample_pref_db :: db where
  "sample_pref_db = sample_db\<lparr>telemetry_preferences :=
     [\<lparr>tp_subject_type = ''installation'', tp_subject_id = sample_uuid, tp_product_id = ''pict'', tp_id = ''p'',
       tp_preference = ''allowed'', tp_recorded_at = 3000, tp_updated_at = 3000, tp_version = 1\<rparr>]\<rparr>"

theorem deny_public_effect_witness:
  "\<exists>d'. DenyPublicInstallation 9500 sample_denial sample_pref_db = Inr (9000, d') \<and> length (consents d') = 1"
proof -
  have keys: "db_keys sample_pref_db" by (simp add: sample_pref_db_def sample_defs db_keys_def)
  have "\<exists>d'. DenyPublicInstallation 9500 sample_denial sample_pref_db = Inr (9000, d')"
    by (simp add: DenyPublicInstallation_def validateSubjectWith_def sample_denial_def sample_pref_db_def sample_defs
        subject_record_defs insert_row_eval preference_key_def tp_key_def cas_row_def cas_update_def set_preference_def
        empty_consent_def)
  then obtain d' where ok: "DenyPublicInstallation 9500 sample_denial sample_pref_db = Inr (9000, d')" ..
  from deny_public_effect [OF ok keys] ok show ?thesis
    by (auto simp: GetTelemetryPreference_def sample_denial_def sample_pref_db_def sample_defs preference_key_def tp_key_def)
qed

definition sample_registration :: PublicInstallationRegistration where
  "sample_registration = \<lparr>pir_Installation = sample_installation, pir_OpaqueKey = ''k'', pir_Audience = ''metric'',
     pir_Consent = empty_consent, pir_Preference = ''unknown'', pir_PreferenceAt = 3000, pir_SuppressionID = ''''\<rparr>"

lemma sample_product_valid: "ValidProductID ''pict''"
  by (simp add: ValidProductID_def char_class_defs)

theorem register_public_idempotent_witness:
  "\<exists>d'. RegisterPublicInstallation ''q'' 9000 sample_registration d' =
     Inr (sample_installation\<lparr>in_CreatedAt := 5000\<rparr>, d')"
proof -
  have "\<exists>d'. RegisterPublicInstallation ''p'' 5000 sample_registration empty_db =
      Inr (sample_installation\<lparr>in_CreatedAt := 5000\<rparr>, d')"
    by (simp add: RegisterPublicInstallation_def validPublicInstallationConsent_def sample_registration_def
        create_public_installation_def stamp_created_def
        sample_installation_def new_installation_def empty_db_def subject_record_defs insert_row_eval Let_def
        is_zero_def zero_time_def duration_defs trunc_us_def sample_product_valid)
  then obtain d' where ok: "RegisterPublicInstallation ''p'' 5000 sample_registration empty_db =
      Inr (sample_installation\<lparr>in_CreatedAt := 5000\<rparr>, d')" ..
  from register_public_idempotent [OF ok] show ?thesis
    by (auto simp: sample_registration_def sample_installation_def empty_db_def is_zero_def zero_time_def
        duration_defs trunc_us_def)
qed

theorem ensure_then_resolve_witness:
  "\<exists>d' r. EnsureSubjectAlias 5000 ''k'' ''pict'' ''metric'' ''installation'' sample_uuid sample_db = Inr d' \<and>
     ResolveSubjectAlias d' ''k'' ''pict'' ''metric'' = Inr r \<and> ra_SubjectID r = sample_uuid"
proof -
  have wf: "alias_wf sample_db" by (simp add: alias_wf_def sample_defs)
  have "\<exists>d'. EnsureSubjectAlias 5000 ''k'' ''pict'' ''metric'' ''installation'' sample_uuid sample_db = Inr d'"
    by (simp add: EnsureSubjectAlias_def aliasPersonID_def insert_alias_def sample_defs insert_row_eval)
  then obtain d' where ok: "EnsureSubjectAlias 5000 ''k'' ''pict'' ''metric'' ''installation'' sample_uuid sample_db = Inr d'" ..
  from ensure_then_resolve [OF ok sample_db_keys wf] ok show ?thesis by auto
qed

end
