(* ===== verification/Identity_Store.thy ===== *)
theory Identity_Store
  imports Subject_Store
begin

text \<open>
  E-mail identities (\<^verbatim>\<open>internal/store/identity.go\<close>): a person is found by the
  blind indexes of the address under every configured key version, or created
  together with the identity, its current blind index, the account and the link of
  the installation, in one transaction.
\<close>

section \<open>Model\<close>

record EmailIdentity =
  er_IdentityID :: string
  er_PersonID :: string
  er_AccountID :: string
  er_MatchedBlindIndexVersion :: int

record NewEmailIdentity =
  ni_ID :: string
  ni_PersonID :: string
  ni_AccountID :: string
  ni_ProductID :: string
  ni_Namespace :: string
  ni_LinkageScope :: string
  ni_ScopeKey :: string
  ni_BlindIndexVersion :: int
  ni_BlindIndex :: bytes
  ni_EncryptedEmail :: Ciphertext
  ni_AgeCategory :: string
  ni_GuardianRelationship :: "string option"
  ni_VerifiedAt :: time
  ni_CreateAccount :: bool
  ni_InstallationID :: "string option"

text \<open>\<^verbatim>\<open>query.ErrNoRows\<close> where the code returns it unmapped.\<close>

definition ErrNoRows :: error where "ErrNoRows = ErrMessage ''no rows in result set''"

definition index_key :: "NewEmailIdentity \<Rightarrow> int \<Rightarrow> bytes \<Rightarrow> string \<times> string \<times> string \<times> uint64 \<times> bytes" where
  "index_key identity version value =
     (ni_Namespace identity, ni_LinkageScope identity, ni_ScopeKey identity, word_of_int version, value)"

definition insertBlindIndex :: "time \<Rightarrow> NewEmailIdentity \<Rightarrow> string \<Rightarrow> db \<Rightarrow> db result" where
  "insertBlindIndex now identity identityID =
     insert_row email_blind_indexes email_blind_indexes_update eb_key
       \<lparr>eb_namespace = ni_Namespace identity, eb_linkage_scope = ni_LinkageScope identity,
        eb_scope_key = ni_ScopeKey identity, eb_version = word_of_int (ni_BlindIndexVersion identity),
        eb_index = ni_BlindIndex identity, eb_identity_id = identityID, eb_created_at = trunc_us now\<rparr>"

definition findAccountByPerson :: "db \<Rightarrow> string \<Rightarrow> string option" where
  "findAccountByPerson d personID = map_option ap_account_id (tfind ap_person_id personID (accounts_by_person d))"

definition insertAccount :: "string \<Rightarrow> string \<Rightarrow> time \<Rightarrow> db \<Rightarrow> db result" where
  "insertAccount accountID personID now d =
     (if accountID = '''' then Inl (ErrMessage ''account ID is required'')
      else
        rbind (insert_row accounts accounts_update a_id
                 \<lparr>a_id = accountID, a_person_id = personID, a_status = ''active'', a_created_at = trunc_us now,
                  a_last_authenticated_at = None, a_version = 1\<rparr> d) (\<lambda>d1.
        insert_row accounts_by_person accounts_by_person_update ap_person_id
          \<lparr>ap_person_id = personID, ap_account_id = accountID\<rparr> d1))"

definition link_person :: "string \<times> time \<Rightarrow> product_installation \<Rightarrow> product_installation" where
  "link_person p r = r\<lparr>i_person_id := Some (fst p), i_last_seen_at := trunc_us (snd p), i_version := i_version r + 1\<rparr>"

definition linkInstallation :: "string \<Rightarrow> string \<Rightarrow> string \<Rightarrow> time \<Rightarrow> db \<Rightarrow> db result" where
  "linkInstallation installationID productID personID now d =
     rbind (some_or ErrNotFound (tfind i_id installationID (product_installations d))) (\<lambda>row.
     if i_product_id row \<noteq> productID \<or> i_disabled_at row \<noteq> None \<or>
        (i_person_id row \<noteq> None \<and> i_person_id row \<noteq> Some personID)
     then Inl ErrConflict
     else
       rbind (cas_row product_installations product_installations_update i_id i_version
                installationID (i_version row) (\<lambda>_. True) (link_person (personID, now)) d) (\<lambda>d1.
       Inr (update_rows subject_aliases_update
              (\<lambda>r. sa_subject_type r = ''installation'' \<and> sa_subject_id r = installationID)
              (\<lambda>r. r\<lparr>sa_person_id := Some personID\<rparr>) d1)))"

definition link_optional :: "NewEmailIdentity \<Rightarrow> string \<Rightarrow> time \<Rightarrow> db \<Rightarrow> db result" where
  "link_optional identity personID now d =
     (case ni_InstallationID identity of None \<Rightarrow> Inr d
      | Some installationID \<Rightarrow> linkInstallation installationID (ni_ProductID identity) personID now d)"

text \<open>The loop over the indexes stops at the first version under which the address is known.\<close>

fun match_index :: "db \<Rightarrow> NewEmailIdentity \<Rightarrow> BlindIndex list \<Rightarrow> (string \<times> int) option" where
  "match_index d identity [] = None"
| "match_index d identity (index # rest) =
     (case tfind eb_key (index_key identity (bi_version index) (bi_value index)) (email_blind_indexes d) of
        Some row \<Rightarrow> Some (eb_identity_id row, bi_version index)
      | None \<Rightarrow> match_index d identity rest)"

definition reuse_identity ::
  "time \<Rightarrow> NewEmailIdentity \<Rightarrow> string \<Rightarrow> int \<Rightarrow> db \<Rightarrow> ((EmailIdentity \<times> bool) \<times> db) result"
where
  "reuse_identity now identity identityID matched d =
     rbind (some_or ErrNoRows (tfind ei_id identityID (email_identities d))) (\<lambda>row.
     let personID = ei_person_id row;
         accountID = (case findAccountByPerson d personID of None \<Rightarrow> '''' | Some a \<Rightarrow> a) in
     rbind (if matched \<noteq> ni_BlindIndexVersion identity then insertBlindIndex now identity identityID d else Inr d) (\<lambda>d1.
     rbind (if ni_CreateAccount identity \<and> accountID = ''''
            then rbind (insertAccount (ni_AccountID identity) personID now d1) (\<lambda>d2. Inr (ni_AccountID identity, d2))
            else Inr (accountID, d1)) (\<lambda>(accountID', d2).
     rbind (link_optional identity personID now d2) (\<lambda>d3.
     Inr ((\<lparr>er_IdentityID = identityID, er_PersonID = personID, er_AccountID = accountID',
            er_MatchedBlindIndexVersion = matched\<rparr>, False), d3)))))"

definition create_identity :: "time \<Rightarrow> NewEmailIdentity \<Rightarrow> db \<Rightarrow> ((EmailIdentity \<times> bool) \<times> db) result" where
  "create_identity now identity d =
     rbind (insert_row persons persons_update p_id
              \<lparr>p_id = ni_PersonID identity, p_age_category = ni_AgeCategory identity,
               p_guardian_relationship = ni_GuardianRelationship identity, p_created_at = trunc_us now,
               p_deleted_at = None, p_version = 1\<rparr> d) (\<lambda>d1.
     rbind (insert_row email_identities email_identities_update ei_id
              \<lparr>ei_id = ni_ID identity, ei_person_id = ni_PersonID identity, ei_product_id = ni_ProductID identity,
               ei_namespace = ni_Namespace identity, ei_linkage_scope = ni_LinkageScope identity,
               ei_scope_key = ni_ScopeKey identity, ei_email = ni_EncryptedEmail identity,
               ei_verified_at = trunc_us (ni_VerifiedAt identity), ei_created_at = trunc_us now, ei_version = 1\<rparr> d1) (\<lambda>d2.
     rbind (insertBlindIndex now identity (ni_ID identity) d2) (\<lambda>d3.
     rbind (if ni_CreateAccount identity then insertAccount (ni_AccountID identity) (ni_PersonID identity) now d3
            else Inr d3) (\<lambda>d4.
     rbind (link_optional identity (ni_PersonID identity) now d4) (\<lambda>d5.
     Inr ((\<lparr>er_IdentityID = ni_ID identity, er_PersonID = ni_PersonID identity,
            er_AccountID = (if ni_CreateAccount identity then ni_AccountID identity else ''''),
            er_MatchedBlindIndexVersion = ni_BlindIndexVersion identity\<rparr>, True), d5))))))"

definition registerEmailIdentityTx ::
  "time \<Rightarrow> NewEmailIdentity \<Rightarrow> BlindIndex list \<Rightarrow> db \<Rightarrow> ((EmailIdentity \<times> bool) \<times> db) result"
where
  "registerEmailIdentityTx now identity indexes d =
     (case match_index d identity indexes of
        Some (identityID, matched) \<Rightarrow>
          if identityID \<noteq> '''' then reuse_identity now identity identityID matched d
          else create_identity now identity d
      | None \<Rightarrow> create_identity now identity d)"

definition RegisterEmailIdentity ::
  "time \<Rightarrow> NewEmailIdentity \<Rightarrow> BlindIndex list \<Rightarrow> db \<Rightarrow> (EmailIdentity \<times> bool) result \<times> db"
where
  "RegisterEmailIdentity now identity indexes = serializable (registerEmailIdentityTx now identity indexes)"

text \<open>
  The start-up checks of persisted key references: \<open>configured\<close> is the set of
  configured versions or aliases; the code converts the stored version to
  \<^verbatim>\<open>int\<close>.
\<close>

definition ValidateBlindIndexVersions :: "db \<Rightarrow> int list \<Rightarrow> unit result" where
  "ValidateBlindIndexVersions d configured =
     (if list_all (\<lambda>version. sint version \<in> set configured)
           (map eb_version (email_blind_indexes d) @ map ev_blind_index_version (email_verifications d) @
            map pc_blind_index_version (public_email_challenges d))
      then Inr ()
      else Inl (ErrMessage ''blind-index key version is still referenced by persisted rows''))"

definition ValidateEnvelopeKeyIDs :: "db \<Rightarrow> string list \<Rightarrow> unit result" where
  "ValidateEnvelopeKeyIDs d configured =
     (if list_all (\<lambda>keyID. keyID \<in> set configured)
           (map (KeyID \<circ> ei_email) (email_identities d) @ map (KeyID \<circ> ev_email) (email_verifications d) @
            filter (\<lambda>keyID. keyID \<noteq> '''') (map (KeyID \<circ> pc_code) (public_email_challenges d)))
      then Inr ()
      else Inl (ErrMessage ''envelope key alias is still referenced by persisted rows''))"

section \<open>Effects\<close>

interpretation installation_link: versioned_update i_id i_version link_person
  by unfold_locales (auto simp: link_person_def)

definition index_row :: "time \<Rightarrow> NewEmailIdentity \<Rightarrow> string \<Rightarrow> email_blind_index" where
  "index_row now identity identityID =
     \<lparr>eb_namespace = ni_Namespace identity, eb_linkage_scope = ni_LinkageScope identity,
      eb_scope_key = ni_ScopeKey identity, eb_version = word_of_int (ni_BlindIndexVersion identity),
      eb_index = ni_BlindIndex identity, eb_identity_id = identityID, eb_created_at = trunc_us now\<rparr>"

lemma index_row_simps [simp]:
  "eb_key (index_row now identity iid) = index_key identity (ni_BlindIndexVersion identity) (ni_BlindIndex identity)"
  "eb_identity_id (index_row now identity iid) = iid"
  by (simp_all add: index_row_def eb_key_def index_key_def)

lemma insertBlindIndex_row: "insertBlindIndex now identity iid =
  insert_row email_blind_indexes email_blind_indexes_update eb_key (index_row now identity iid)"
  by (simp add: insertBlindIndex_def index_row_def)

lemma linkInstallation_frame:
  assumes "\<And>f g. P (subject_aliases_update g (product_installations_update f d))"
  shows "yields (linkInstallation i p q now d) P"
  using assms by (auto simp: linkInstallation_def yields_def cas_row_def update_rows_def)

lemma link_optional_frame:
  assumes "\<And>f g. P (subject_aliases_update g (product_installations_update f d))"
  shows "yields (link_optional identity q now d) P"
proof -
  have "subject_aliases_update (\<lambda>x. x) (product_installations_update (\<lambda>x. x) d) = d" by (cases d) simp
  with assms [of "\<lambda>x. x" "\<lambda>x. x"] have "P d" by simp
  with assms show ?thesis
    by (auto simp: link_optional_def intro: linkInstallation_frame split: option.splits)
qed

lemma insertAccount_yields [row_wp]:
  "yields (insertAccount a p now d) P \<longleftrightarrow>
   (a \<noteq> '''' \<and> a \<notin> a_id ` set (accounts d) \<and> p \<notin> ap_person_id ` set (accounts_by_person d) \<longrightarrow>
    P (d\<lparr>accounts := accounts d @ [\<lparr>a_id = a, a_person_id = p, a_status = ''active'', a_created_at = trunc_us now,
           a_last_authenticated_at = None, a_version = 1\<rparr>],
         accounts_by_person := accounts_by_person d @ [\<lparr>ap_person_id = p, ap_account_id = a\<rparr>]\<rparr>))"
  by (auto simp: insertAccount_def row_wp)

lemma insertBlindIndex_yields [row_wp]:
  "yields (insertBlindIndex now identity iid d) P \<longleftrightarrow>
   (index_key identity (ni_BlindIndexVersion identity) (ni_BlindIndex identity) \<notin> eb_key ` set (email_blind_indexes d) \<longrightarrow>
    P (d\<lparr>email_blind_indexes := email_blind_indexes d @ [index_row now identity iid]\<rparr>))"
  by (simp add: insertBlindIndex_row row_wp)

lemma reuse_effect:
  "yields (reuse_identity now identity iid m d) (\<lambda>((r, c), d').
     \<not> c \<and> er_IdentityID r = iid \<and> er_MatchedBlindIndexVersion r = m \<and>
     (\<exists>row. tfind ei_id iid (email_identities d) = Some row \<and> er_PersonID r = ei_person_id row) \<and>
     email_blind_indexes d' = email_blind_indexes d @
       (if m \<noteq> ni_BlindIndexVersion identity then [index_row now identity iid] else []) \<and>
     email_identities d' = email_identities d \<and> persons d' = persons d \<and>
     (\<forall>a. findAccountByPerson d (er_PersonID r) = Some a \<longrightarrow> a \<noteq> '''' \<longrightarrow> er_AccountID r = a) \<and>
     (er_AccountID r \<noteq> '''' \<longrightarrow> findAccountByPerson d' (er_PersonID r) = Some (er_AccountID r)))"
proof (cases "tfind ei_id iid (email_identities d)")
  case (Some row)
  show ?thesis
    unfolding reuse_identity_def Some some_or_simps rbind_simps Let_def
    by (cases "tfind ap_person_id (ei_person_id row) (accounts_by_person d)";
        cases "m = ni_BlindIndexVersion identity"; cases "ni_CreateAccount identity")
       (auto simp: row_wp findAccountByPerson_def tfind_append tfind_fresh intro!: link_optional_frame split: if_splits)
qed (simp add: reuse_identity_def)

lemma create_effect:
  "yields (create_identity now identity d) (\<lambda>((r, c), d').
     c \<and> er_IdentityID r = ni_ID identity \<and> er_PersonID r = ni_PersonID identity \<and>
     er_MatchedBlindIndexVersion r = ni_BlindIndexVersion identity \<and>
     email_blind_indexes d' = email_blind_indexes d @ [index_row now identity (ni_ID identity)] \<and>
     (\<exists>row. tfind ei_id (ni_ID identity) (email_identities d') = Some row \<and> ei_person_id row = ni_PersonID identity) \<and>
     length (persons d') = Suc (length (persons d)) \<and>
     (er_AccountID r \<noteq> '''' \<longrightarrow> findAccountByPerson d' (er_PersonID r) = Some (er_AccountID r)))"
  by (auto simp: create_identity_def insertBlindIndex_row insertAccount_def row_wp findAccountByPerson_def
      tfind_append tfind_fresh intro!: link_optional_frame)

text \<open>A registration writes nothing but the identity, account, installation and alias tables.\<close>

definition identity_frame :: "db \<Rightarrow> db \<Rightarrow> bool" where
  "identity_frame d d' \<longleftrightarrow>
     subject_alias_keys d' = subject_alias_keys d \<and> organizations d' = organizations d \<and>
     organization_submissions d' = organization_submissions d \<and> organization_merge_audit d' = organization_merge_audit d \<and>
     memberships d' = memberships d \<and> consents d' = consents d \<and>
     telemetry_preferences d' = telemetry_preferences d \<and> privacy_requests d' = privacy_requests d \<and>
     privacy_idempotencies d' = privacy_idempotencies d \<and> privacy_request_steps d' = privacy_request_steps d \<and>
     outbox_events d' = outbox_events d \<and> privacy_request_status_audit d' = privacy_request_status_audit d \<and>
     email_verifications d' = email_verifications d \<and> email_verification_audits d' = email_verification_audits d \<and>
     public_email_challenges d' = public_email_challenges d \<and> public_registration_flows d' = public_registration_flows d \<and>
     product_accounts d' = product_accounts d \<and> account_sessions d' = account_sessions d \<and>
     account_refresh_tokens d' = account_refresh_tokens d \<and> public_auth_events d' = public_auth_events d \<and>
     public_account_audits d' = public_account_audits d"

lemma registerEmailIdentityTx_frame:
  "yields (registerEmailIdentityTx now identity ixs d) (\<lambda>(x, d'). identity_frame d d')"
proof -
  have "yields (reuse_identity now identity iid v d) (\<lambda>(x, d'). identity_frame d d')" for iid v
    by (auto simp: reuse_identity_def Let_def row_wp identity_frame_def intro!: link_optional_frame)
  moreover have "yields (create_identity now identity d) (\<lambda>(x, d'). identity_frame d d')"
    by (auto simp: create_identity_def row_wp identity_frame_def intro!: link_optional_frame)
  ultimately show ?thesis by (auto simp: registerEmailIdentityTx_def split: option.splits)
qed

subsection \<open>The lookup over key versions\<close>

lemma match_index_cong:
  assumes "ni_Namespace i = ni_Namespace j" "ni_LinkageScope i = ni_LinkageScope j" "ni_ScopeKey i = ni_ScopeKey j"
  shows "match_index d i ixs = match_index d j ixs"
  by (induction ixs) (auto simp: index_key_def assms split: option.splits)

lemma match_index_version: "match_index d identity ixs = Some (iid, v) \<Longrightarrow> v \<in> bi_version ` set ixs"
  by (induction ixs) (auto split: option.splits)

lemma match_index_grow:
  assumes "match_index d identity ixs = Some (iid, v)"
    and "email_blind_indexes d' = email_blind_indexes d @ rows"
    and "\<And>r. r \<in> set rows \<Longrightarrow> eb_identity_id r = iid"
    and "sorted_wrt (<) (map bi_version ixs)"
  shows "\<exists>u \<le> v. match_index d' identity ixs = Some (iid, u)"
  using assms(1,4)
proof (induction ixs)
  case (Cons ix ixs)
  let ?k = "index_key identity (bi_version ix) (bi_value ix)"
  show ?case
  proof (cases "tfind eb_key ?k (email_blind_indexes d)")
    case (Some row)
    with Cons.prems show ?thesis by (simp add: assms(2) tfind_append)
  next
    case None
    with Cons.prems have m: "match_index d identity ixs = Some (iid, v)" by simp
    from m have "bi_version ix < v" using Cons.prems(2) match_index_version by fastforce
    moreover have "\<exists>u \<le> v. match_index d' identity ixs = Some (iid, u)" using Cons.IH m Cons.prems(2) by simp
    ultimately show ?thesis
      using None assms(2,3) by (auto simp: tfind_append dest!: tfind_Some split: option.splits)
  qed
qed simp

lemma match_index_added:
  assumes "match_index d identity ixs = None"
    and "email_blind_indexes d' = email_blind_indexes d @ [row]"
    and "eb_key row = index_key identity (bi_version ix) (bi_value ix)" and "ix \<in> set ixs"
  shows "\<exists>u. match_index d' identity ixs = Some (eb_identity_id row, u)"
  using assms(1,4) by (induction ixs) (auto simp: assms(2,3) tfind_append split: option.splits)

definition same_address :: "NewEmailIdentity \<Rightarrow> NewEmailIdentity \<Rightarrow> bool" where
  "same_address i j \<longleftrightarrow> ni_Namespace i = ni_Namespace j \<and> ni_LinkageScope i = ni_LinkageScope j \<and>
     ni_ScopeKey i = ni_ScopeKey j \<and> ni_BlindIndexVersion i = ni_BlindIndexVersion j \<and> ni_BlindIndex i = ni_BlindIndex j"

text \<open>After any successful registration the address is known under the returned identity.\<close>

lemma register_known:
  assumes ok: "registerEmailIdentityTx now identity ixs d = Inr ((r, c), d')"
    and cur: "\<lparr>bi_version = ni_BlindIndexVersion identity, bi_value = ni_BlindIndex identity\<rparr> \<in> set ixs"
    and s: "sorted_wrt (<) (map bi_version ixs)" and nz: "\<And>b. b \<in> set (email_blind_indexes d) \<Longrightarrow> eb_identity_id b \<noteq> ''''"
    and "ni_ID identity \<noteq> ''''"
  shows "er_IdentityID r \<noteq> '''' \<and> (\<exists>u. u \<le> er_MatchedBlindIndexVersion r \<and> match_index d' identity ixs = Some (er_IdentityID r, u) \<or>
      c \<and> match_index d' identity ixs = Some (er_IdentityID r, u)) \<and>
    (\<exists>row. tfind ei_id (er_IdentityID r) (email_identities d') = Some row \<and> ei_person_id row = er_PersonID r)"
proof (cases "match_index d identity ixs")
  case None
  with ok have "create_identity now identity d = Inr ((r, c), d')" by (simp add: registerEmailIdentityTx_def)
  note e = yieldsD [OF create_effect this]
  then have "\<exists>u. match_index d' identity ixs = Some (eb_identity_id (index_row now identity (ni_ID identity)), u)"
    using cur by (intro match_index_added [OF None]) auto
  with e assms(5) show ?thesis by auto
next
  case (Some iv)
  then obtain iid v where m: "match_index d identity ixs = Some (iid, v)" by (cases iv) auto
  have "iid \<noteq> ''''"
    using m nz by (induction ixs) (auto dest!: tfind_Some split: option.splits)
  with m ok have "reuse_identity now identity iid v d = Inr ((r, c), d')" by (simp add: registerEmailIdentityTx_def)
  note e = yieldsD [OF reuse_effect this]
  then have "\<exists>u \<le> v. match_index d' identity ixs = Some (iid, u)"
    using m s by (intro match_index_grow [where rows = "if v \<noteq> ni_BlindIndexVersion identity then [index_row now identity iid] else []"]) auto
  with e \<open>iid \<noteq> ''''\<close> show ?thesis by auto
qed

section \<open>Properties\<close>


text \<open>
  The lookup in increasing key-version order breaks registration after a
  rotation. If an address was matched under an older version than the current one,
  which also wrote its row for the current version, then every later registration
  of that address under the same keys fails with YDB's existing-key error.
\<close>

theorem rotation_blocks_reregistration:
  assumes ok: "registerEmailIdentityTx now identity ixs d = Inr ((r, c), d')"
    and cur: "\<lparr>bi_version = ni_BlindIndexVersion identity, bi_value = ni_BlindIndex identity\<rparr> \<in> set ixs"
    and s: "sorted_wrt (<) (map bi_version ixs)" and nz: "\<And>b. b \<in> set (email_blind_indexes d) \<Longrightarrow> eb_identity_id b \<noteq> ''''"
    and id: "ni_ID identity \<noteq> ''''"
    and old: "er_MatchedBlindIndexVersion r < ni_BlindIndexVersion identity"
    and again: "same_address identity identity'"
  shows "registerEmailIdentityTx now' identity' ixs d' = Inl ErrKeyExists"
proof -
  have "\<not> c"
  proof
    assume c
    with ok have "create_identity now identity d = Inr ((r, c), d')"
      using yieldsD [OF reuse_effect] by (fastforce simp: registerEmailIdentityTx_def split: option.splits if_splits prod.splits)
    from yieldsD [OF create_effect this] old show False by simp
  qed
  with ok obtain iid v where re: "reuse_identity now identity iid v d = Inr ((r, c), d')"
    using yieldsD [OF create_effect] by (fastforce simp: registerEmailIdentityTx_def split: option.splits if_splits prod.splits)
  note e = yieldsD [OF reuse_effect re]
  from register_known [OF ok cur s nz id] \<open>\<not> c\<close> obtain u row where
    u: "match_index d' identity ixs = Some (er_IdentityID r, u)" "er_IdentityID r \<noteq> ''''" "u \<le> er_MatchedBlindIndexVersion r"
    and row: "tfind ei_id (er_IdentityID r) (email_identities d') = Some row" by blast
  have m: "match_index d' identity' ixs = Some (er_IdentityID r, u)"
    using u(1) match_index_cong [of identity' identity d' ixs] again(1) by (simp add: same_address_def)
  have "index_row now identity iid \<in> set (email_blind_indexes d')" using e old by auto
  moreover have "eb_key (index_row now' identity' j) = eb_key (index_row now identity iid)" for j
    using again by (simp add: same_address_def index_key_def)
  ultimately have "eb_key (index_row now' identity' j) \<in> eb_key ` set (email_blind_indexes d')" for j
    by (metis imageI)
  then have "insertBlindIndex now' identity' (er_IdentityID r) d' = Inl ErrKeyExists"
    by (simp add: insertBlindIndex_row insert_row_def tbl_insert_def del: index_row_simps)
  moreover have "u \<noteq> ni_BlindIndexVersion identity'" using u(3) old again by (simp add: same_address_def)
  ultimately show ?thesis using m u(2) row by (simp add: registerEmailIdentityTx_def reuse_identity_def Let_def)
qed

lemma linkInstallation_keys [keys_intro]:
  "db_keys d \<Longrightarrow> (\<And>d'. db_keys d' \<Longrightarrow> P d') \<Longrightarrow> yields (linkInstallation i p q now d) P"
  by (auto simp: linkInstallation_def keys_simps intro!: keys_intro)

lemma link_optional_keys [keys_intro]:
  "db_keys d \<Longrightarrow> (\<And>d'. db_keys d' \<Longrightarrow> P d') \<Longrightarrow> yields (link_optional identity q now d) P"
  by (auto simp: link_optional_def intro!: keys_intro split: option.splits)

lemma insertAccount_keys [keys_intro]:
  "db_keys d \<Longrightarrow> (\<And>d'. db_keys d' \<Longrightarrow> P d') \<Longrightarrow> yields (insertAccount a p now d) P"
  unfolding insertAccount_def by (auto intro!: keys_intro)

lemma insertBlindIndex_keys [keys_intro]:
  "db_keys d \<Longrightarrow> (\<And>d'. db_keys d' \<Longrightarrow> P d') \<Longrightarrow> yields (insertBlindIndex now identity iid d) P"
  unfolding insertBlindIndex_def by (auto intro!: keys_intro)

lemma reuse_identity_keys: "db_keys d \<Longrightarrow> yields (reuse_identity now identity iid v d) (\<lambda>(x, d'). db_keys d')"
  by (auto simp: reuse_identity_def Let_def intro!: keys_intro)

lemma create_identity_keys: "db_keys d \<Longrightarrow> yields (create_identity now identity d) (\<lambda>(x, d'). db_keys d')"
  by (auto simp: create_identity_def intro!: keys_intro)

lemma registerEmailIdentityTx_keys:
  "db_keys d \<Longrightarrow> yields (registerEmailIdentityTx now identity ixs d) (\<lambda>(x, d'). db_keys d')"
  by (auto simp: registerEmailIdentityTx_def intro: reuse_identity_keys create_identity_keys split: option.splits)

section \<open>Witnesses\<close>

definition sample_identity :: "string \<Rightarrow> NewEmailIdentity" where
  "sample_identity n = \<lparr>ni_ID = n, ni_PersonID = n, ni_AccountID = n, ni_ProductID = ''pict'', ni_Namespace = ''account'',
     ni_LinkageScope = ''product'', ni_ScopeKey = ''pict'', ni_BlindIndexVersion = 2, ni_BlindIndex = ''y'',
     ni_EncryptedEmail = empty_cipher, ni_AgeCategory = ''unknown'', ni_GuardianRelationship = None,
     ni_VerifiedAt = 1000, ni_CreateAccount = True, ni_InstallationID = None\<rparr>"

definition sample_indexes :: "BlindIndex list" where
  "sample_indexes = [\<lparr>bi_version = 1, bi_value = ''x''\<rparr>, \<lparr>bi_version = 2, bi_value = ''y''\<rparr>]"

definition rotated_db :: db where
  "rotated_db = empty_db\<lparr>
     email_identities := [\<lparr>ei_id = ''e'', ei_person_id = ''p'', ei_product_id = ''pict'', ei_namespace = ''account'',
       ei_linkage_scope = ''product'', ei_scope_key = ''pict'', ei_email = empty_cipher, ei_verified_at = 0,
       ei_created_at = 0, ei_version = 1\<rparr>],
     email_blind_indexes := [\<lparr>eb_namespace = ''account'', eb_linkage_scope = ''product'', eb_scope_key = ''pict'',
       eb_version = 1, eb_index = ''x'', eb_identity_id = ''e'', eb_created_at = 0\<rparr>],
     accounts_by_person := [\<lparr>ap_person_id = ''p'', ap_account_id = ''a''\<rparr>]\<rparr>"

lemmas identity_eval = registerEmailIdentityTx_def reuse_identity_def create_identity_def insertBlindIndex_def
  insertAccount_def link_optional_def findAccountByPerson_def index_key_def eb_key_def sample_identity_def
  sample_indexes_def rotated_db_def empty_db_def same_address_def Let_def

lemma sample_indexes_sorted: "sorted_wrt (<) (map bi_version sample_indexes)"
  by (simp add: sample_indexes_def)


theorem rotation_blocks_reregistration_witness:
  "\<exists>r c d1. registerEmailIdentityTx 5000 (sample_identity ''a'') sample_indexes rotated_db = Inr ((r, c), d1) \<and>
     registerEmailIdentityTx 6000 (sample_identity ''b'') sample_indexes d1 = Inl ErrKeyExists"
proof -
  obtain r c d1 where ok: "registerEmailIdentityTx 5000 (sample_identity ''a'') sample_indexes rotated_db = Inr ((r, c), d1)"
      and old: "er_MatchedBlindIndexVersion r < 2"
    by (auto simp: identity_eval insert_row_eval)
  have "same_address (sample_identity ''a'') (sample_identity ''b'')" by (simp add: same_address_def sample_identity_def)
  from rotation_blocks_reregistration [OF ok _ sample_indexes_sorted _ _ _ this] ok old show ?thesis
    by (auto simp: sample_identity_def sample_indexes_def rotated_db_def empty_db_def)
qed

end
