(* ===== verification/Email_Verification_Store.thy ===== *)
theory Email_Verification_Store
  imports Identity_Store
begin

text \<open>
  E-mail verifications (\<^verbatim>\<open>email_verifications.go\<close>, \<^verbatim>\<open>email_verification_read.go\<close>): a
  verification is created unverified, verified once by a workload, claimed under a
  lease by the request that completes it, and consumed in the transaction that
  registers the identity, which deletes it and leaves an audit row.
\<close>

section \<open>Model\<close>

definition EmailVerificationClaimLease :: duration where
  "EmailVerificationClaimLease = 5 * minute"

record EmailVerification =
  v_ID :: string
  v_ProductID :: string
  v_InstallationID :: "string option"
  v_Namespace :: string
  v_AgeCategory :: string
  v_GuardianRelationship :: "string option"
  v_LinkAcrossProducts :: bool
  v_BlindIndexVersion :: int
  v_BlindIndex :: bytes
  v_EncryptedEmail :: Ciphertext
  v_ExpiresAt :: time
  v_VerifiedAt :: "time option"
  v_ConsumedAt :: "time option"
  v_VerifiedBy :: "string option"
  v_EvidenceID :: "string option"
  v_ProcessingToken :: "string option"
  v_ProcessingAt :: "time option"
  v_Version :: uint64

definition new_verification :: "time \<Rightarrow> EmailVerification \<Rightarrow> email_verification" where
  "new_verification now v =
     \<lparr>ev_id = v_ID v, ev_product_id = v_ProductID v, ev_installation_id = v_InstallationID v,
      ev_namespace = v_Namespace v, ev_age_category = v_AgeCategory v,
      ev_guardian_relationship = v_GuardianRelationship v, ev_link_across_products = v_LinkAcrossProducts v,
      ev_blind_index_version = word_of_int (v_BlindIndexVersion v), ev_blind_index = v_BlindIndex v,
      ev_email = v_EncryptedEmail v, ev_expires_at = trunc_us (v_ExpiresAt v), ev_verified_at = None,
      ev_verified_by = None, ev_evidence_id = None, ev_processing_token = None, ev_processing_at = None,
      ev_created_at = trunc_us now, ev_version = 1\<rparr>"

definition createEmailVerificationTx :: "time \<Rightarrow> EmailVerification \<Rightarrow> db \<Rightarrow> db result" where
  "createEmailVerificationTx now v d =
     rbind (case v_InstallationID v of None \<Rightarrow> Inr ()
            | Some i \<Rightarrow> validateSubjectWith d \<lparr>su_Kind = ''installation'', su_ID = i\<rparr> (v_ProductID v)) (\<lambda>_.
     insert_row email_verifications email_verifications_update ev_id (new_verification now v) d)"

definition CreateEmailVerification :: "time \<Rightarrow> EmailVerification \<Rightarrow> db \<Rightarrow> db result" where
  "CreateEmailVerification now v d = createEmailVerificationTx now v d"

text \<open>The row effects of the three version-checked updates.\<close>

definition set_verified :: "time \<times> string \<times> string \<Rightarrow> email_verification \<Rightarrow> email_verification" where
  "set_verified p r = (case p of (now, verifier, evidence) \<Rightarrow>
     r\<lparr>ev_verified_at := Some (trunc_us now), ev_verified_by := Some verifier, ev_evidence_id := Some evidence,
       ev_version := ev_version r + 1\<rparr>)"

definition set_claim :: "(string \<times> time) option \<Rightarrow> email_verification \<Rightarrow> email_verification" where
  "set_claim p r =
     r\<lparr>ev_processing_token := map_option fst p, ev_processing_at := map_option (trunc_us \<circ> snd) p,
       ev_version := ev_version r + 1\<rparr>"

definition VerifyEmailOwnership :: "string \<Rightarrow> string \<Rightarrow> string \<Rightarrow> string \<Rightarrow> time \<Rightarrow> db \<Rightarrow> db result" where
  "VerifyEmailOwnership verificationID productID verifier evidenceID now d =
     rbind (some_or ErrNotFound (tfind ev_id verificationID (email_verifications d))) (\<lambda>row.
     if ev_product_id row \<noteq> productID \<or> ev_verified_at row \<noteq> None \<or> ev_processing_token row \<noteq> None \<or>
        \<not> now < ev_expires_at row
     then Inl ErrNotFound
     else cas_row email_verifications email_verifications_update ev_id ev_version verificationID (ev_version row)
            (\<lambda>_. True) (set_verified (now, verifier, evidenceID)) d)"

definition verification_of_row :: "email_verification \<Rightarrow> EmailVerification" where
  "verification_of_row row =
     \<lparr>v_ID = ev_id row, v_ProductID = ev_product_id row, v_InstallationID = ev_installation_id row,
      v_Namespace = ev_namespace row, v_AgeCategory = ev_age_category row,
      v_GuardianRelationship = ev_guardian_relationship row, v_LinkAcrossProducts = ev_link_across_products row,
      v_BlindIndexVersion = sint (ev_blind_index_version row), v_BlindIndex = ev_blind_index row,
      v_EncryptedEmail = ev_email row, v_ExpiresAt = ev_expires_at row, v_VerifiedAt = ev_verified_at row,
      v_ConsumedAt = None, v_VerifiedBy = ev_verified_by row, v_EvidenceID = ev_evidence_id row,
      v_ProcessingToken = ev_processing_token row, v_ProcessingAt = ev_processing_at row, v_Version = ev_version row\<rparr>"

definition ClaimVerifiedEmail ::
  "string \<Rightarrow> string \<Rightarrow> string \<Rightarrow> time \<Rightarrow> duration \<Rightarrow> db \<Rightarrow> (EmailVerification \<times> db) result"
where
  "ClaimVerifiedEmail verificationID productID claimToken now lease d =
     rbind (some_or ErrNotFound (tfind ev_id verificationID (email_verifications d))) (\<lambda>row.
     if ev_product_id row \<noteq> productID \<or> ev_verified_at row = None \<or> \<not> now < ev_expires_at row \<or>
        (case ev_processing_at row of None \<Rightarrow> False | Some t \<Rightarrow> now - lease < t)
     then Inl ErrNotFound
     else
       rbind (cas_row email_verifications email_verifications_update ev_id ev_version verificationID (ev_version row)
                (\<lambda>_. True) (set_claim (Some (claimToken, now))) d) (\<lambda>d1.
       Inr ((verification_of_row row)\<lparr>v_VerifiedBy := None, v_EvidenceID := None, v_ProcessingToken := None,
              v_ProcessingAt := None, v_Version := ev_version row + 1\<rparr>, d1)))"

definition consumeEmailVerificationTx :: "string \<Rightarrow> string \<Rightarrow> string \<Rightarrow> time \<Rightarrow> db \<Rightarrow> db result" where
  "consumeEmailVerificationTx verificationID claimToken personID now d =
     rbind (some_or ErrNotFound (tfind ev_id verificationID (email_verifications d))) (\<lambda>row.
     case (ev_processing_token row, ev_verified_at row, ev_verified_by row, ev_evidence_id row) of
       (Some storedClaim, Some verifiedAt, Some verifiedBy, Some evidenceID) \<Rightarrow>
         if storedClaim \<noteq> claimToken then Inl ErrNotFound
         else
           rbind (insert_row email_verification_audits email_verification_audits_update va_verification_id
                    \<lparr>va_verification_id = verificationID, va_person_id = personID,
                     va_installation_id = ev_installation_id row, va_product_id = ev_product_id row,
                     va_verified_by = verifiedBy, va_evidence_id = evidenceID,
                     va_verified_at = trunc_us verifiedAt, va_consumed_at = trunc_us now\<rparr> d) (\<lambda>d1.
           Inr (delete_rows email_verifications_update
                  (\<lambda>r. ev_id r = verificationID \<and> ev_version r = ev_version row) d1))
     | _ \<Rightarrow> Inl ErrNotFound)"

definition ConsumeEmailVerification :: "string \<Rightarrow> string \<Rightarrow> string \<Rightarrow> time \<Rightarrow> db \<Rightarrow> db result" where
  "ConsumeEmailVerification verificationID claimToken personID now d =
     consumeEmailVerificationTx verificationID claimToken personID now d"

definition equalOptionalText :: "string option \<Rightarrow> string option \<Rightarrow> bool" where
  "equalOptionalText a b =
     (case (a, b) of (None, None) \<Rightarrow> True | (Some x, Some y) \<Rightarrow> x = y | _ \<Rightarrow> False)"

text \<open>The loop over the submitted indexes, with its two flags and early returns.\<close>

fun indexes_match :: "int \<Rightarrow> bytes \<Rightarrow> int \<Rightarrow> bytes \<Rightarrow> BlindIndex list \<Rightarrow> bool \<Rightarrow> bool \<Rightarrow> bool" where
  "indexes_match vv vb cv cb [] verifiedIndex currentIndex = (verifiedIndex \<and> currentIndex)"
| "indexes_match vv vb cv cb (index # rest) verifiedIndex currentIndex =
     (if bi_version index = vv \<and> bi_value index \<noteq> vb then False
      else if bi_version index = cv \<and> bi_value index \<noteq> cb then False
      else indexes_match vv vb cv cb rest (verifiedIndex \<or> bi_version index = vv) (currentIndex \<or> bi_version index = cv))"

definition verifiedEmailIdentityMatches :: "EmailVerification \<Rightarrow> NewEmailIdentity \<Rightarrow> BlindIndex list \<Rightarrow> bool" where
  "verifiedEmailIdentityMatches v identity indexes =
     (if v_VerifiedAt v \<noteq> Some (ni_VerifiedAt identity) \<or> v_ProductID v \<noteq> ni_ProductID identity \<or>
         v_Namespace v \<noteq> ni_Namespace identity \<or> v_AgeCategory v \<noteq> ni_AgeCategory identity \<or>
         \<not> equalOptionalText (v_InstallationID v) (ni_InstallationID identity) \<or>
         \<not> equalOptionalText (v_GuardianRelationship v) (ni_GuardianRelationship identity)
      then False
      else
        let (scope, key) = (if v_Namespace v \<noteq> ''donation'' \<and> v_LinkAcrossProducts v then (''global'', ''global'')
                            else (''product'', v_ProductID v)) in
        if ni_LinkageScope identity \<noteq> scope \<or> ni_ScopeKey identity \<noteq> key then False
        else indexes_match (v_BlindIndexVersion v) (v_BlindIndex v) (ni_BlindIndexVersion identity)
               (ni_BlindIndex identity) indexes False False)"

definition RegisterVerifiedEmailIdentity ::
  "time \<Rightarrow> string \<Rightarrow> string \<Rightarrow> string \<Rightarrow> NewEmailIdentity \<Rightarrow> BlindIndex list \<Rightarrow> db \<Rightarrow>
   ((EmailIdentity \<times> bool) \<times> db) result"
where
  "RegisterVerifiedEmailIdentity now verificationID productID claimToken identity indexes d =
     rbind (some_or ErrNotFound (tfind ev_id verificationID (email_verifications d))) (\<lambda>row.
     if ev_product_id row \<noteq> productID \<or> ev_processing_token row \<noteq> Some claimToken \<or> claimToken = '''' \<or>
        (case ev_processing_at row of None \<Rightarrow> True | Some t \<Rightarrow> \<not> now < t + EmailVerificationClaimLease) \<or>
        \<not> now < ev_expires_at row \<or> \<not> verifiedEmailIdentityMatches (verification_of_row row) identity indexes
     then Inl ErrNotFound
     else
       rbind (registerEmailIdentityTx now identity indexes d) (\<lambda>((result, created), d1).
       rbind (consumeEmailVerificationTx verificationID claimToken (er_PersonID result) now d1) (\<lambda>d2.
       Inr ((result, created), d2))))"

definition ReleaseEmailVerification :: "string \<Rightarrow> string \<Rightarrow> db \<Rightarrow> db result" where
  "ReleaseEmailVerification verificationID claimToken d =
     (case tfind ev_id verificationID (email_verifications d) of
        None \<Rightarrow> Inr d
      | Some row \<Rightarrow>
          if ev_processing_token row \<noteq> Some claimToken then Inr d
          else cas_row email_verifications email_verifications_update ev_id ev_version verificationID (ev_version row)
                 (\<lambda>_. True) (set_claim None) d)"

definition expired_verifications :: "time \<Rightarrow> nat \<Rightarrow> db \<Rightarrow> email_verification list" where
  "expired_verifications now limit d =
     take limit (sort_key ev_expires_at (filter (\<lambda>r. ev_expires_at r \<le> trunc_us now \<and>
       (case ev_processing_at r of None \<Rightarrow> True | Some t \<Rightarrow> t < trunc_us (now - 5 * minute)))
       (email_verifications d)))"

definition DeleteExpiredEmailVerifications :: "time \<Rightarrow> int \<Rightarrow> db \<Rightarrow> (int \<times> db) result" where
  "DeleteExpiredEmailVerifications now limit d =
     (if limit < 1 \<or> 1000 < limit then Inl (ErrMessage ''invalid email verification cleanup limit'')
      else
        let rows = expired_verifications now (nat limit) d in
        Inr (int (length rows),
             fold (\<lambda>row. delete_rows email_verifications_update (\<lambda>r. ev_id r = ev_id row \<and> ev_version r = ev_version row))
               rows d))"

definition readEmailVerification :: "db \<Rightarrow> string \<Rightarrow> EmailVerification result" where
  "readEmailVerification d verificationID =
     rbind (some_or ErrNotFound (tfind ev_id verificationID (email_verifications d))) (\<lambda>row.
     if uint (ev_blind_index_version row) > 2 ^ 63 - 1 then Inl ErrInvalid
     else Inr (verification_of_row row))"

definition EmailVerification_read :: "db \<Rightarrow> string \<Rightarrow> EmailVerification result" where
  "EmailVerification_read d verificationID =
     (if \<not> ValidUUID verificationID then Inl ErrInvalid else readEmailVerification d verificationID)"

section \<open>Laws\<close>

interpretation verification_verify: versioned_update ev_id ev_version set_verified
  by unfold_locales (auto simp: set_verified_def split: prod.splits)

interpretation verification_claim: versioned_update ev_id ev_version set_claim
  by unfold_locales (auto simp: set_claim_def)

lemma set_claim_fields [simp]:
  "ev_processing_token (set_claim p r) = map_option fst p"
  "ev_processing_at (set_claim p r) = map_option (trunc_us \<circ> snd) p"
  "ev_product_id (set_claim p r) = ev_product_id r" "ev_verified_at (set_claim p r) = ev_verified_at r"
  "ev_expires_at (set_claim p r) = ev_expires_at r"
  by (simp_all add: set_claim_def)

lemma createEmailVerificationTx_keys [keys_intro]:
  "db_keys d \<Longrightarrow> (\<And>d'. db_keys d' \<Longrightarrow> P d') \<Longrightarrow> yields (createEmailVerificationTx now v d) P"
  by (auto simp: createEmailVerificationTx_def intro!: keys_intro split: option.splits)

lemma consumeEmailVerificationTx_keys [keys_intro]:
  "db_keys d \<Longrightarrow> (\<And>d'. db_keys d' \<Longrightarrow> P d') \<Longrightarrow> yields (consumeEmailVerificationTx v t p now d) P"
  by (auto simp: consumeEmailVerificationTx_def keys_simps intro!: keys_intro split: option.splits)

lemma VerifyEmailOwnership_keys: "db_keys d \<Longrightarrow> yields (VerifyEmailOwnership v p w e now d) db_keys"
  by (auto simp: VerifyEmailOwnership_def intro!: keys_intro)

lemma ClaimVerifiedEmail_keys: "db_keys d \<Longrightarrow> yields (ClaimVerifiedEmail v p t now lease d) (\<lambda>(x, d'). db_keys d')"
  by (auto simp: ClaimVerifiedEmail_def intro!: keys_intro)

lemma ReleaseEmailVerification_keys: "db_keys d \<Longrightarrow> yields (ReleaseEmailVerification v t d) db_keys"
  by (auto simp: ReleaseEmailVerification_def intro!: keys_intro split: option.splits)

lemma RegisterVerifiedEmailIdentity_keys:
  "db_keys d \<Longrightarrow> yields (RegisterVerifiedEmailIdentity now v p t identity ixs d) (\<lambda>(x, d'). db_keys d')"
  unfolding RegisterVerifiedEmailIdentity_def
  by (auto intro!: yields_weaken [OF registerEmailIdentityTx_keys] keys_intro)

lemma delete_fold:
  "fold (\<lambda>row. delete_rows email_verifications_update (Q row)) rows d =
   email_verifications_update (\<lambda>t. filter (\<lambda>r. \<forall>row \<in> set rows. \<not> Q row r) t) d"
proof (induction rows arbitrary: d)
  case Nil
  show ?case by (cases d) simp
next
  case (Cons row rows)
  have eq: "filter (\<lambda>r. \<forall>row \<in> set rows. \<not> Q row r) (tbl_delete (Q row) t) =
      filter (\<lambda>r. \<not> Q row r \<and> (\<forall>row \<in> set rows. \<not> Q row r)) t" for t
    by (simp add: tbl_delete_def)
  show ?case by (simp only: fold_simps Cons.IH) (simp add: delete_rows_def comp_def eq)
qed

lemma indexes_match_iff:
  "indexes_match vv vb cv cb ixs a b \<longleftrightarrow>
   (\<forall>ix \<in> set ixs. (bi_version ix = vv \<longrightarrow> bi_value ix = vb) \<and> (bi_version ix = cv \<longrightarrow> bi_value ix = cb)) \<and>
   (a \<or> (\<exists>ix \<in> set ixs. bi_version ix = vv)) \<and> (b \<or> (\<exists>ix \<in> set ixs. bi_version ix = cv))"
  by (induction ixs arbitrary: a b) auto

section \<open>Properties\<close>

text \<open>
  A claim is exclusive for its lease. After one request has claimed a verified
  e-mail, a claim by any other token is refused until the lease has elapsed since
  the recorded claim instant; and only a verified, unexpired verification of the
  product can be claimed at all.
\<close>

theorem claim_exclusive:
  assumes ok: "ClaimVerifiedEmail vid product token now lease d = Inr (v, d')" and keys: "db_keys d"
    and within: "now' - lease' < trunc_us now"
  shows "ClaimVerifiedEmail vid product' token' now' lease' d' = Inl ErrNotFound \<and>
    v_VerifiedAt v \<noteq> None \<and> now < v_ExpiresAt v \<and> v_ProductID v = product"
proof -
  from ok obtain row where row: "tfind ev_id vid (email_verifications d) = Some row"
    and c: "ev_product_id row = product" "ev_verified_at row \<noteq> None" "now < ev_expires_at row"
    and cas: "cas_row email_verifications email_verifications_update ev_id ev_version vid (ev_version row) (\<lambda>_. True)
        (set_claim (Some (token, now))) d = Inr d'"
    and v: "v = (verification_of_row row)\<lparr>v_VerifiedBy := None, v_EvidenceID := None, v_ProcessingToken := None,
              v_ProcessingAt := None, v_Version := ev_version row + 1\<rparr>"
    by (auto simp: ClaimVerifiedEmail_def split: if_splits)
  have "tfind ev_id vid (email_verifications d') = Some (set_claim (Some (token, now)) row)"
    using tb_email_verifications.cas_lookup [OF keys _ _ cas, of vid] row by simp
  with within c v show ?thesis by (simp add: ClaimVerifiedEmail_def verification_of_row_def)
qed


text \<open>
  The clean-up deletes at most \<^verbatim>\<open>limit\<close> verifications, only expired ones, and
  never one whose claim is younger than five minutes; everything else stays.
\<close>

theorem cleanup_only_expired:
  assumes ok: "DeleteExpiredEmailVerifications now limit d = Inr (n, d')" and keys: "db_keys d"
  shows "n \<le> limit \<and> d' = d\<lparr>email_verifications := email_verifications d'\<rparr> \<and>
    (\<forall>r \<in> set (email_verifications d).
      r \<in> set (email_verifications d') \<or>
      (ev_expires_at r \<le> now \<and> (\<forall>t. ev_processing_at r = Some t \<longrightarrow> t < now - 5 * minute))) \<and>
    set (email_verifications d') \<subseteq> set (email_verifications d)"
proof -
  let ?rows = "expired_verifications now (nat limit) d"
  from ok have lim: "1 \<le> limit" and n: "n = int (length ?rows)"
    and d': "d' = email_verifications_update (\<lambda>t. filter (\<lambda>r. \<forall>row \<in> set ?rows. \<not> (ev_id r = ev_id row \<and> ev_version r = ev_version row)) t) d"
    by (auto simp: DeleteExpiredEmailVerifications_def Let_def delete_fold split: if_splits)
  have "length ?rows \<le> nat limit" by (simp add: expired_verifications_def)
  with n lim have "n \<le> limit" by linarith
  have exp: "ev_expires_at s \<le> now \<and> (\<forall>t. ev_processing_at s = Some t \<longrightarrow> t < now - 5 * minute) \<and> s \<in> set (email_verifications d)"
    if "s \<in> set ?rows" for s
    using that trunc_us_le [of now] trunc_us_le [of "now - 5 * minute"]
    by (auto simp: expired_verifications_def dest!: in_set_takeD split: option.splits)
  have "r \<in> set (email_verifications d') \<or>
      (ev_expires_at r \<le> now \<and> (\<forall>t. ev_processing_at r = Some t \<longrightarrow> t < now - 5 * minute))"
    if r: "r \<in> set (email_verifications d)" for r
  proof (cases "r \<in> set (email_verifications d')")
    case False
    with r obtain row where row: "row \<in> set ?rows" "ev_id r = ev_id row" unfolding d' by auto
    with exp [of row] r have "r = row" using uniq_inj [OF tb_email_verifications.keys_get [OF keys]] by blast
    with exp row show ?thesis by blast
  qed simp
  moreover have "set (email_verifications d') \<subseteq> set (email_verifications d)" by (auto simp: d')
  ultimately show ?thesis using \<open>n \<le> limit\<close> by (simp add: d')
qed

section \<open>Witnesses\<close>

definition sample_verification :: EmailVerification where
  "sample_verification = \<lparr>v_ID = sample_uuid, v_ProductID = ''pict'', v_InstallationID = None, v_Namespace = ''account'',
     v_AgeCategory = ''unknown'', v_GuardianRelationship = None, v_LinkAcrossProducts = False, v_BlindIndexVersion = 2,
     v_BlindIndex = ''y'', v_EncryptedEmail = empty_cipher, v_ExpiresAt = 900 * second, v_VerifiedAt = None,
     v_ConsumedAt = None, v_VerifiedBy = None, v_EvidenceID = None, v_ProcessingToken = None, v_ProcessingAt = None,
     v_Version = 0\<rparr>"

definition verified_db :: db where
  "verified_db = empty_db\<lparr>email_verifications :=
     [set_verified (1000, ''worker'', ''evidence'') (new_verification 0 sample_verification)]\<rparr>"

definition claimed_db :: db where
  "claimed_db = empty_db\<lparr>email_verifications :=
     [set_claim (Some (''token'', 2000)) (set_verified (1000, ''worker'', ''evidence'') (new_verification 0 sample_verification))]\<rparr>"

lemmas verification_sample_defs = verified_db_def claimed_db_def empty_db_def new_verification_def sample_verification_def
  set_verified_def set_claim_def duration_defs trunc_us_def

lemma verification_sample_keys: "db_keys verified_db" "db_keys claimed_db"
  by (simp_all add: db_keys_def verified_db_def claimed_db_def empty_db_def)

theorem claim_exclusive_witness:
  "\<exists>v d'. ClaimVerifiedEmail sample_uuid ''pict'' ''token'' 2000 (5 * minute) verified_db = Inr (v, d') \<and>
     ClaimVerifiedEmail sample_uuid ''pict'' ''other'' 3000 (5 * minute) d' = Inl ErrNotFound"
proof -
  obtain v d' where ok: "ClaimVerifiedEmail sample_uuid ''pict'' ''token'' 2000 (5 * minute) verified_db = Inr (v, d')"
    by (auto simp: ClaimVerifiedEmail_def verification_sample_defs cas_row_def cas_update_def)
  from claim_exclusive [OF ok verification_sample_keys(1), of 3000 "5 * minute"] ok show ?thesis
    by (auto simp: duration_defs trunc_us_def)
qed


theorem cleanup_only_expired_witness:
  "\<exists>d'. DeleteExpiredEmailVerifications (1000 * second) 10 verified_db = Inr (1, d') \<and> email_verifications d' = []"
proof -
  obtain d' where ok: "DeleteExpiredEmailVerifications (1000 * second) 10 verified_db = Inr (1, d')"
    and e: "email_verifications d' = []"
    by (auto simp: DeleteExpiredEmailVerifications_def expired_verifications_def verification_sample_defs
        delete_rows_def tbl_delete_def)
  from cleanup_only_expired [OF ok verification_sample_keys(1)] ok e show ?thesis by auto
qed

end
