(* ===== verification/Challenge_Store.thy ===== *)
theory Challenge_Store
  imports Email_Verification_Store Auth_Limits
begin

text \<open>
  Public e-mail challenges (\<^verbatim>\<open>public_email_challenges.go\<close>): creation with the
  queue capacity, the per-contact budgets and the replacement of the installation's
  previous challenge, the shared terminal update \<^verbatim>\<open>finishPublicChallengeTx\<close> of
  \<^verbatim>\<open>public_email_completion.go\<close>, and the OTP-key rotation guard
  (\<^verbatim>\<open>public_otp_rotation.go\<close>).  The Go struct \<^verbatim>\<open>PublicEmailChallenge\<close> has the
  columns of the table and is the record \<open>public_email_challenge\<close>; its index version
  is an \<^verbatim>\<open>int\<close> on the Go side, the signed reading of the 64-bit column.
\<close>

section \<open>Reading\<close>

definition scanPublicChallenge :: "public_email_challenge \<Rightarrow> public_email_challenge result" where
  "scanPublicChallenge row =
     (if uint (pc_blind_index_version row) > 2 ^ 63 - 1 then Inl ErrInvalid else Inr row)"

definition readPublicChallenge :: "db \<Rightarrow> string \<Rightarrow> public_email_challenge result" where
  "readPublicChallenge d challengeID =
     rbind (some_or ErrNotFound (tfind pc_id challengeID (public_email_challenges d))) scanPublicChallenge"

definition PublicEmailChallenge_read :: "db \<Rightarrow> string \<Rightarrow> public_email_challenge result" where
  "PublicEmailChallenge_read d challengeID =
     (if \<not> ValidUUID challengeID then Inl ErrInvalid else readPublicChallenge d challengeID)"

section \<open>Writing\<close>

definition validCipher :: "Ciphertext \<Rightarrow> bool" where
  "validCipher c \<longleftrightarrow> Data c \<noteq> [] \<and> Nonce c \<noteq> [] \<and> WrappedDataKey c \<noteq> [] \<and> KeyID c \<noteq> '''' \<and> Algorithm c \<noteq> ''''"

definition validPublicChallengeInput :: "public_email_challenge \<Rightarrow> EmailVerification \<Rightarrow> bool" where
  "validPublicChallengeInput c v \<longleftrightarrow>
     ValidUUID (pc_id c) \<and> ValidUUID (pc_installation_id c) \<and> ValidProductID (pc_product_id c) \<and>
     pc_purpose c = ''product_registration'' \<and> ValidHolderRole (pc_holder_role c) \<and>
     length (pc_request_fingerprint c) = 32 \<and> length (pc_nonce_hash c) = 32 \<and> length (pc_code_hash c) = 32 \<and>
     1 \<le> length (pc_otp_key_id c) \<and> length (pc_otp_key_id c) \<le> 100 \<and>
     trim_space (pc_otp_key_id c) = pc_otp_key_id c \<and> \<not> has_control (pc_otp_key_id c) \<and>
     validCipher (pc_code c) \<and> validCipher (v_EncryptedEmail v) \<and> pc_state c = Requested \<and> pc_version c = 1 \<and>
     pc_attempts c = 0 \<and> pc_mail_attempts c = 0 \<and> pc_mail_claim_token c = None \<and> pc_mail_claim_until c = None \<and>
     pc_verified_at c = None \<and> pc_consumed_at c = None \<and>
     \<not> is_zero (pc_created_at c) \<and> pc_updated_at c = pc_created_at c \<and>
     \<not> pc_mail_available_at c < pc_created_at c \<and> pc_mail_available_at c < pc_expires_at c \<and>
     pc_expires_at c = v_ExpiresAt v \<and>
     pc_id c = v_ID v \<and> pc_product_id c = v_ProductID v \<and> v_InstallationID v = Some (pc_installation_id c) \<and>
     v_Namespace v = ''account'' \<and> v_AgeCategory v = ''unknown'' \<and> v_GuardianRelationship v = None \<and>
     \<not> v_LinkAcrossProducts v \<and> v_VerifiedAt v = None \<and> v_ConsumedAt v = None \<and>
     0 < sint (pc_blind_index_version c) \<and> sint (pc_blind_index_version c) = v_BlindIndexVersion v \<and>
     length (pc_blind_index c) = 32 \<and> pc_blind_index c = v_BlindIndex v"

definition new_challenge :: "public_email_challenge \<Rightarrow> public_email_challenge" where
  "new_challenge c = c\<lparr>pc_attempts := 0, pc_mail_attempts := 0, pc_mail_available_at := trunc_us (pc_mail_available_at c),
     pc_mail_claim_token := None, pc_mail_claim_until := None, pc_created_at := trunc_us (pc_created_at c),
     pc_updated_at := trunc_us (pc_updated_at c), pc_expires_at := trunc_us (pc_expires_at c),
     pc_verified_at := None, pc_consumed_at := None, pc_version := 1\<rparr>"

definition insertPublicChallenge :: "public_email_challenge \<Rightarrow> db \<Rightarrow> db result" where
  "insertPublicChallenge c = insert_row public_email_challenges public_email_challenges_update pc_id (new_challenge c)"

abbreviation update_challenge ::
  "string \<Rightarrow> uint64 \<Rightarrow> (public_email_challenge \<Rightarrow> bool) \<Rightarrow> (public_email_challenge \<Rightarrow> public_email_challenge) \<Rightarrow> db \<Rightarrow> db result"
where
  "update_challenge challengeID version extra f \<equiv>
     cas_row_public public_email_challenges public_email_challenges_update pc_id pc_version challengeID version extra f"

definition cancel_challenge :: "time \<Rightarrow> public_email_challenge \<Rightarrow> public_email_challenge" where
  "cancel_challenge now r = r\<lparr>pc_state := Cancelled, pc_code_hash := [], pc_code := empty_cipher,
     pc_mail_claim_token := None, pc_mail_claim_until := None, pc_updated_at := trunc_us now, pc_version := pc_version r + 1\<rparr>"

definition cancelPublicChallenge :: "public_email_challenge \<Rightarrow> time \<Rightarrow> db \<Rightarrow> db result" where
  "cancelPublicChallenge c now = update_challenge (pc_id c) (pc_version c) (\<lambda>_. True) (cancel_challenge now)"

record challenge_finish =
  cf_state :: PublicChallengeState
  cf_attempts :: uint64
  cf_verified :: "time option"
  cf_consumed :: "time option"
  cf_now :: time

definition finish_challenge :: "challenge_finish \<Rightarrow> public_email_challenge \<Rightarrow> public_email_challenge" where
  "finish_challenge p r = r\<lparr>pc_state := cf_state p, pc_attempts := cf_attempts p, pc_code_hash := [], pc_code := empty_cipher,
     pc_mail_claim_token := None, pc_mail_claim_until := None,
     pc_verified_at := map_option trunc_us (cf_verified p), pc_consumed_at := map_option trunc_us (cf_consumed p),
     pc_updated_at := trunc_us (cf_now p), pc_version := pc_version r + 1\<rparr>"

definition finishPublicChallengeTx ::
  "public_email_challenge \<Rightarrow> PublicChallengeState \<Rightarrow> time \<Rightarrow> time option \<Rightarrow> db \<Rightarrow> db result"
where
  "finishPublicChallengeTx c state now verifiedAt d =
     (let allowed = (if state = Consumed
                     then CanTransitionPublicChallenge (pc_state c) Verified \<and>
                          CanTransitionPublicChallenge Verified state \<and> verifiedAt \<noteq> None
                     else CanTransitionPublicChallenge (pc_state c) state) in
      if \<not> allowed \<or> pc_version c = - 1 then Inl ErrConflict
      else update_challenge (pc_id c) (pc_version c) (\<lambda>_. True)
             (finish_challenge \<lparr>cf_state = state, cf_attempts = pc_attempts c, cf_verified = verifiedAt,
                cf_consumed = (if state = Consumed then Some now else None), cf_now = now\<rparr>) d)"

definition appendPublicAccountAudit ::
  "string \<Rightarrow> string \<Rightarrow> string \<Rightarrow> string \<Rightarrow> string \<Rightarrow> string \<Rightarrow> time \<Rightarrow> db \<Rightarrow> db result"
where
  "appendPublicAccountAudit auditID product session actor action entity now =
     insert_row public_account_audits public_account_audits_update pu_id
       \<lparr>pu_id = auditID, pu_product_id = product, pu_session_id = session, pu_actor = actor, pu_action = action,
        pu_entity_id = entity, pu_created_at = trunc_us now\<rparr>"

section \<open>Creation\<close>

definition queued :: "time \<Rightarrow> public_email_challenge \<Rightarrow> bool" where
  "queued now c \<longleftrightarrow> (pc_state c = Requested \<or> pc_state c = Delivering) \<and> now < pc_expires_at c"

definition read_flow_previous ::
  "db \<Rightarrow> string \<Rightarrow> string \<Rightarrow> (public_email_challenge option \<times> string option \<times> uint64) result"
where
  "read_flow_previous d product installation =
     (case tfind fl_key (product, installation) (public_registration_flows d) of
        None \<Rightarrow> Inr (None, None, 0)
      | Some flow \<Rightarrow>
          (case readPublicChallenge d (fl_challenge_id flow) of
             Inr c \<Rightarrow> Inr (Some c, fl_session_id flow, fl_version flow)
           | Inl e \<Rightarrow> if e = ErrNotFound then Inr (None, fl_session_id flow, fl_version flow) else Inl e))"

definition can_cancel :: "public_email_challenge \<Rightarrow> public_email_challenge option \<Rightarrow> bool" where
  "can_cancel input previous =
     (case previous of None \<Rightarrow> False
      | Some p \<Rightarrow> pc_product_id p = pc_product_id input \<and> pc_installation_id p = pc_installation_id input \<and>
          CanTransitionPublicChallenge (pc_state p) Cancelled)"

definition pending_count :: "time \<Rightarrow> public_email_challenge \<Rightarrow> public_email_challenge option \<Rightarrow> db \<Rightarrow> nat" where
  "pending_count now input previous d =
     (let n = length (filter (queued now) (public_email_challenges d)) in
      if can_cancel input previous \<and> queued now (the previous) \<and> 0 < n then n - 1 else n)"

definition contact_limits :: "public_email_challenge \<Rightarrow> publicAuthLimit list" where
  "contact_limits input =
     (let contact = pc_product_id input @ '':'' @ hex_encode (pc_blind_index input) in
      [\<lparr>al_bucket = ''otp-request:contact:'' @ contact, al_window = 15 * minute, al_max = 6\<rparr>,
       \<lparr>al_bucket = ''otp-resend:'' @ contact, al_window = minute, al_max = 1\<rparr>])"

definition store_challenge ::
  "time \<Rightarrow> public_email_challenge \<Rightarrow> EmailVerification \<Rightarrow> public_email_challenge option \<Rightarrow> string option \<Rightarrow> uint64 \<Rightarrow>
   db \<Rightarrow> db result"
where
  "store_challenge now0 input v previous sessionID flowVersion d =
     (let now = trunc_us now0 in
      rbind (consumePublicAuthLimits now (pc_id input) (contact_limits input) d) (\<lambda>d1.
      rbind (if can_cancel input previous then cancelPublicChallenge (the previous) now d1 else Inr d1) (\<lambda>d2.
      if flowVersion = - 1 then Inl ErrConflict
      else
        rbind (createEmailVerificationTx now0 v d2) (\<lambda>d3.
        rbind (insertPublicChallenge input d3) (\<lambda>d4.
        appendPublicAccountAudit (pc_id input @ ''-requested'') (pc_product_id input) '''' ''installation''
          ''email.requested'' (pc_id input) now
          (upsert_row public_registration_flows_update fl_key
             \<lparr>fl_product_id = pc_product_id input, fl_installation_id = pc_installation_id input,
              fl_challenge_id = pc_id input, fl_session_id = sessionID, fl_updated_at = trunc_us now,
              fl_version = flowVersion + 1\<rparr> d4))))))"

definition CreatePublicEmailChallenge ::
  "time \<Rightarrow> public_email_challenge \<Rightarrow> EmailVerification \<Rightarrow> uint64 \<Rightarrow> db \<Rightarrow>
   ((public_email_challenge \<times> bool) \<times> db) result"
where
  "CreatePublicEmailChallenge now0 input v dailyLimit d =
     (if \<not> validPublicChallengeInput input v \<or> dailyLimit = 0 \<or> 10000 < dailyLimit then Inl ErrInvalid
      else
        case readPublicChallenge d (pc_id input) of
          Inr existing \<Rightarrow>
            if pc_product_id existing \<noteq> pc_product_id input \<or> pc_installation_id existing \<noteq> pc_installation_id input \<or>
               pc_request_fingerprint existing \<noteq> pc_request_fingerprint input
            then Inl ErrConflict else Inr ((existing, False), d)
        | Inl e \<Rightarrow>
            if e \<noteq> ErrNotFound then Inl e
            else
              let now = trunc_us now0 in
              if \<not> now < pc_expires_at input \<or> now + PublicEmailQueueTTL < pc_expires_at input \<or>
                 pc_created_at input + PublicEmailQueueTTL < pc_expires_at input
              then Inl ErrInvalid
              else
                rbind (read_flow_previous d (pc_product_id input) (pc_installation_id input)) (\<lambda>(previous, sessionID, flowVersion).
                if unat dailyLimit \<le> pending_count now input previous d
                then Inl (PublicRateLimitError (now + minute))
                else
                  rbind (store_challenge now0 input v previous sessionID flowVersion d) (\<lambda>d1.
                  Inr ((input, True), d1))))"

section \<open>Rotation of the OTP key\<close>

definition live_proof :: "PublicChallengeState \<Rightarrow> bool" where
  "live_proof s \<longleftrightarrow> s = Requested \<or> s = Delivering \<or> s = Delivered \<or> s = DeliveryUncertain"

definition ValidatePublicOTPKeyID :: "db \<Rightarrow> string \<Rightarrow> time \<Rightarrow> unit result" where
  "ValidatePublicOTPKeyID d key now =
     (if key = '''' \<or> is_zero now then Inl ErrInvalid
      else if list_ex (\<lambda>c. pc_otp_key_id c \<noteq> key \<and> trunc_us now < pc_expires_at c \<and> live_proof (pc_state c))
                (public_email_challenges d)
      then Inl (ErrMessage ''a live public email challenge still references a different OTP key'')
      else Inr ())"

section \<open>Laws of the updates\<close>

interpretation challenge_cancel: versioned_update pc_id pc_version cancel_challenge
  by unfold_locales (simp_all add: cancel_challenge_def)

interpretation challenge_finish: versioned_update pc_id pc_version finish_challenge
  by unfold_locales (simp_all add: finish_challenge_def)

lemma readPublicChallenge_Inr:
  "readPublicChallenge d i = Inr c \<longleftrightarrow>
   tfind pc_id i (public_email_challenges d) = Some c \<and> uint (pc_blind_index_version c) \<le> 2 ^ 63 - 1"
  by (cases "tfind pc_id i (public_email_challenges d)")
     (auto simp: readPublicChallenge_def scanPublicChallenge_def)

lemma readPublicChallenge_NotFound:
  "readPublicChallenge d i = Inl ErrNotFound \<longleftrightarrow> tfind pc_id i (public_email_challenges d) = None"
  by (auto simp: readPublicChallenge_def scanPublicChallenge_def rbind_Inl_iff some_or_def split: option.splits if_splits)

lemma update_challenge_Inr:
  assumes "uniq pc_id (public_email_challenges d)" and "\<And>r. pc_id (f r) = pc_id r" "\<And>r. pc_version (f r) = pc_version r + 1"
  shows "update_challenge i v extra f d = Inr d' \<longleftrightarrow> v \<noteq> - 1 \<and>
    (\<exists>r. tfind pc_id i (public_email_challenges d) = Some r \<and> pc_version r = v \<and> extra r \<and>
      d' = d\<lparr>public_email_challenges := tbl_update (\<lambda>x. pc_id x = i) f (public_email_challenges d)\<rparr>)"
  using assms by (auto simp: cas_row_public_Inr cas_row_Inr)

lemma consume_limits_keys [keys_intro]:
  "db_keys d \<Longrightarrow> (\<And>d'. db_keys d' \<Longrightarrow> P d') \<Longrightarrow> yields (consumePublicAuthLimits now e ls d) P"
proof -
  assume d: "db_keys d" and P: "\<And>d'. db_keys d' \<Longrightarrow> P d'"
  have "insert_limit_event now e l = insert_row public_auth_events public_auth_events_update ae_key (limit_event now e l)" for now l
    by (simp add: fun_eq_iff insert_limit_event_def insert_row_def)
  then have "yields (for_each (insert_limit_event n e) xs d) P" for n xs
    using d P by (intro yields_for_each [where I = db_keys]) (auto intro!: keys_intro)
  then show ?thesis by (auto simp: consumePublicAuthLimits_def Let_def)
qed

lemma cancelPublicChallenge_keys [keys_intro]:
  "db_keys d \<Longrightarrow> (\<And>d'. db_keys d' \<Longrightarrow> P d') \<Longrightarrow> yields (cancelPublicChallenge c now d) P"
  by (auto simp: cancelPublicChallenge_def intro!: keys_intro)

lemma finishPublicChallengeTx_keys [keys_intro]:
  "db_keys d \<Longrightarrow> (\<And>d'. db_keys d' \<Longrightarrow> P d') \<Longrightarrow> yields (finishPublicChallengeTx c s now v d) P"
  by (auto simp: finishPublicChallengeTx_def Let_def intro!: keys_intro)

lemma insertPublicChallenge_keys [keys_intro]:
  "db_keys d \<Longrightarrow> (\<And>d'. db_keys d' \<Longrightarrow> P d') \<Longrightarrow> yields (insertPublicChallenge c d) P"
  by (auto simp: insertPublicChallenge_def intro!: keys_intro)

lemma appendPublicAccountAudit_keys [keys_intro]:
  "db_keys d \<Longrightarrow> (\<And>d'. db_keys d' \<Longrightarrow> P d') \<Longrightarrow> yields (appendPublicAccountAudit i p s a c e now d) P"
  by (auto simp: appendPublicAccountAudit_def intro!: keys_intro)

lemma read_flow_previous_yields [keys_intro]: "(\<And>x. P x) \<Longrightarrow> yields (read_flow_previous d p i) P"
  by (rule yields_any)

lemma store_challenge_keys [keys_intro]:
  "db_keys d \<Longrightarrow> (\<And>d'. db_keys d' \<Longrightarrow> P d') \<Longrightarrow> yields (store_challenge now input v p s f d) P"
  by (auto simp: store_challenge_def Let_def keys_simps intro!: keys_intro)

lemma CreatePublicEmailChallenge_keys:
  "db_keys d \<Longrightarrow> yields (CreatePublicEmailChallenge now input v lim d) (\<lambda>(x, d'). db_keys d')"
  by (auto simp: CreatePublicEmailChallenge_def Let_def keys_simps intro!: keys_intro split: sum.splits)

section \<open>The effect of a creation\<close>

definition new_flow :: "time \<Rightarrow> public_email_challenge \<Rightarrow> string option \<Rightarrow> uint64 \<Rightarrow> registration_flow" where
  "new_flow now input sessionID version =
     \<lparr>fl_product_id = pc_product_id input, fl_installation_id = pc_installation_id input,
      fl_challenge_id = pc_id input, fl_session_id = sessionID, fl_updated_at = trunc_us now, fl_version = version\<rparr>"

text \<open>The challenges after a creation: the replaced one cancelled, the new one appended.\<close>

definition challenges_after ::
  "time \<Rightarrow> public_email_challenge \<Rightarrow> public_email_challenge option \<Rightarrow> public_email_challenge list \<Rightarrow> public_email_challenge list"
where
  "challenges_after now input previous cs =
     (if can_cancel input previous then tbl_update (\<lambda>x. pc_id x = pc_id (the previous)) (cancel_challenge now) cs else cs)
     @ [new_challenge input]"

lemma consume_limits_frame:
  "(\<And>es. P (d\<lparr>public_auth_events := es\<rparr>)) \<Longrightarrow> yields (consumePublicAuthLimits now e ls d) P"
  by (auto simp: yields_def dest: consume_success(1))

lemma cancel_frame:
  "uniq pc_id (public_email_challenges d) \<Longrightarrow>
   P (d\<lparr>public_email_challenges := tbl_update (\<lambda>x. pc_id x = pc_id c) (cancel_challenge now) (public_email_challenges d)\<rparr>) \<Longrightarrow>
   yields (cancelPublicChallenge c now d) P"
  by (auto simp: yields_def cancelPublicChallenge_def update_challenge_Inr)

lemma createEmailVerificationTx_frame:
  "P (d\<lparr>email_verifications := email_verifications d @ [new_verification now v]\<rparr>) \<Longrightarrow>
   yields (createEmailVerificationTx now v d) P"
  by (auto simp: createEmailVerificationTx_def row_wp intro!: keys_intro split: option.splits)

lemma store_challenge_effect:
  assumes "uniq pc_id (public_email_challenges d)"
  shows "yields (store_challenge now0 input v previous sessionID flowVersion d) (\<lambda>d'.
    public_email_challenges d' = challenges_after (trunc_us now0) input previous (public_email_challenges d) \<and>
    public_registration_flows d' =
      tbl_upsert fl_key (new_flow (trunc_us now0) input sessionID (flowVersion + 1)) (public_registration_flows d) \<and>
    email_verifications d' = email_verifications d @ [new_verification now0 v])"
  using assms
  by (auto simp: store_challenge_def Let_def challenges_after_def insertPublicChallenge_def appendPublicAccountAudit_def
      new_flow_def row_wp upsert_row_def
      intro!: consume_limits_frame cancel_frame createEmailVerificationTx_frame)

lemma create_challenge_new:
  assumes ok: "CreatePublicEmailChallenge now0 input v lim d = Inr ((c, True), d')" and keys: "db_keys d"
  obtains previous sessionID flowVersion where
    "validPublicChallengeInput input v" and "c = input"
    and "read_flow_previous d (pc_product_id input) (pc_installation_id input) = Inr (previous, sessionID, flowVersion)"
    and "pending_count (trunc_us now0) input previous d < unat lim"
    and "public_email_challenges d' = challenges_after (trunc_us now0) input previous (public_email_challenges d)"
    and "public_registration_flows d' =
      tbl_upsert fl_key (new_flow (trunc_us now0) input sessionID (flowVersion + 1)) (public_registration_flows d)"
    and "email_verifications d' = email_verifications d @ [new_verification now0 v]"
    and "tfind pc_id (pc_id input) (public_email_challenges d) = None"
proof -
  from ok obtain previous sessionID flowVersion where
    valid: "validPublicChallengeInput input v" and c: "c = input"
    and fresh: "readPublicChallenge d (pc_id input) = Inl ErrNotFound"
    and flow: "read_flow_previous d (pc_product_id input) (pc_installation_id input) = Inr (previous, sessionID, flowVersion)"
    and cap: "\<not> unat lim \<le> pending_count (trunc_us now0) input previous d"
    and st: "store_challenge now0 input v previous sessionID flowVersion d = Inr d'"
    by (auto simp: CreatePublicEmailChallenge_def Let_def split: sum.splits if_splits)
  show thesis
    by (rule that [OF valid c flow])
       (use cap fresh yieldsD [OF store_challenge_effect [OF db_keysD(6) [OF keys]] st] in
         \<open>simp_all add: readPublicChallenge_NotFound\<close>)
qed

lemma read_flow_previous_mem:
  "read_flow_previous d p i = Inr (Some c, s, v) \<Longrightarrow> tfind pc_id (pc_id c) (public_email_challenges d) = Some c"
  by (auto simp: read_flow_previous_def readPublicChallenge_Inr split: option.splits sum.splits if_splits dest: tfind_self)

lemma count_without:
  assumes "p \<in> set cs" and "Q p"
  shows "length (filter (\<lambda>c. Q c \<and> pc_id c \<noteq> pc_id p) cs) < length (filter Q cs)"
proof -
  have "filter (\<lambda>c. Q c \<and> pc_id c \<noteq> pc_id p) cs = filter (\<lambda>c. pc_id c \<noteq> pc_id p) (filter Q cs)"
    by (simp add: conj_commute)
  moreover have "p \<in> set (filter Q cs)" using assms by simp
  ultimately show ?thesis using length_filter_less [of p "filter Q cs" "\<lambda>c. pc_id c \<noteq> pc_id p"] by simp
qed

lemma length_filter_mono: "length (filter (\<lambda>c. Q c \<and> R c) cs) \<le> length (filter Q cs)"
  by (induction cs) auto

lemma count_cancelled:
  "length (filter (queued now) (tbl_update (\<lambda>x. pc_id x = i) (cancel_challenge t) cs)) =
   length (filter (\<lambda>c. queued now c \<and> pc_id c \<noteq> i) cs)"
  by (induction cs) (auto simp: tbl_update_def queued_def cancel_challenge_def)

lemma uint_le_of_sint_pos: "0 < sint (w :: uint64) \<Longrightarrow> uint w \<le> 2 ^ 63 - 1"
proof -
  assume pos: "0 < sint w"
  have eq: "sint w = uint w - 2 ^ 64 * of_bool (bit (uint w) 63)"
    using take_bit_int_eq_self [of "uint w" 64] uint_lt2p [of w]
    by (simp add: sint_uint signed_take_bit_eq_take_bit_minus)
  moreover have "uint w < 2 ^ 64" using uint_lt2p [of w] by simp
  ultimately have "sint w = uint w" using pos by (cases "bit (uint w) 63") auto
  with sint_lt [of w] show ?thesis by simp
qed

section \<open>Properties\<close>

text \<open>
  The queue of undelivered challenges never exceeds its capacity. After a
  creation, at most \<^verbatim>\<open>dailyLimit\<close> challenges are queued and unexpired, also when
  the creation replaces the installation's own queued challenge.
\<close>

theorem challenge_queue_capacity:
  assumes ok: "CreatePublicEmailChallenge now input v lim d = Inr ((c, True), d')" and keys: "db_keys d"
  shows "length (filter (queued (trunc_us now)) (public_email_challenges d')) \<le> unat lim"
proof -
  let ?now = "trunc_us now" and ?cs = "public_email_challenges d"
  from create_challenge_new [OF ok keys] obtain previous sessionID flowVersion where
    flow: "read_flow_previous d (pc_product_id input) (pc_installation_id input) = Inr (previous, sessionID, flowVersion)"
    and cap: "pending_count ?now input previous d < unat lim"
    and cs: "public_email_challenges d' = challenges_after ?now input previous ?cs" by metis
  have "length (filter (queued ?now) (public_email_challenges d')) \<le> Suc (pending_count ?now input previous d)"
  proof (cases "can_cancel input previous")
    case True
    then obtain p where p: "previous = Some p" by (cases previous) (auto simp: can_cancel_def)
    have mem: "p \<in> set ?cs" using read_flow_previous_mem [OF flow [unfolded p]] by (rule tfind_mem)
    let ?rest = "filter (\<lambda>c. queued ?now c \<and> pc_id c \<noteq> pc_id p) ?cs"
    have "length ?rest \<le> length (filter (queued ?now) ?cs)" by (rule length_filter_mono)
    moreover have "queued ?now p \<Longrightarrow> length ?rest < length (filter (queued ?now) ?cs)" using mem by (rule count_without)
    ultimately have "length ?rest \<le> pending_count ?now input previous d"
      using True p by (auto simp: pending_count_def Let_def)
    then show ?thesis using True p by (simp add: cs challenges_after_def count_cancelled)
  next
    case False
    then show ?thesis by (simp add: cs challenges_after_def pending_count_def Let_def)
  qed
  with cap show ?thesis by linarith
qed

text \<open>
  Creating a challenge replaces the installation's flow. The new challenge is
  stored as requested with a clean attempt counter, the flow names it, its
  verification is stored unverified, and the challenge the flow named before, if it
  could still be cancelled, is cancelled with its code hash and ciphertext erased.
\<close>

theorem create_challenge_replaces:
  assumes ok: "CreatePublicEmailChallenge now input v lim d = Inr ((c, True), d')" and keys: "db_keys d"
  shows "tfind pc_id (pc_id input) (public_email_challenges d') = Some (new_challenge input) \<and>
    pc_state (new_challenge input) = Requested \<and> pc_attempts (new_challenge input) = 0 \<and>
    (\<exists>flow. tfind fl_key (pc_product_id input, pc_installation_id input) (public_registration_flows d') = Some flow \<and>
      fl_challenge_id flow = pc_id input) \<and>
    (\<exists>row. tfind ev_id (pc_id input) (email_verifications d') = Some row \<and> ev_verified_at row = None) \<and>
    (\<forall>flow p. tfind fl_key (pc_product_id input, pc_installation_id input) (public_registration_flows d) = Some flow \<longrightarrow>
      tfind pc_id (fl_challenge_id flow) (public_email_challenges d) = Some p \<longrightarrow> can_cancel input (Some p) \<longrightarrow>
      (\<exists>p'. tfind pc_id (pc_id p) (public_email_challenges d') = Some p' \<and> pc_state p' = Cancelled \<and>
        pc_code_hash p' = [] \<and> pc_code p' = empty_cipher))"
proof -
  let ?now = "trunc_us now" and ?cs = "public_email_challenges d"
  from create_challenge_new [OF ok keys] obtain previous sessionID flowVersion where
    valid: "validPublicChallengeInput input v"
    and flow: "read_flow_previous d (pc_product_id input) (pc_installation_id input) = Inr (previous, sessionID, flowVersion)"
    and cs: "public_email_challenges d' = challenges_after ?now input previous ?cs"
    and fl: "public_registration_flows d' = tbl_upsert fl_key (new_flow ?now input sessionID (flowVersion + 1)) (public_registration_flows d)"
    and ev: "email_verifications d' = email_verifications d @ [new_verification now v]"
    and fresh: "tfind pc_id (pc_id input) ?cs = None" by metis
  have i: "v_ID v = pc_id input" "pc_state input = Requested" using valid by (simp_all add: validPublicChallengeInput_def)
  have ev': "db_keys d'" using yieldsD [OF CreatePublicEmailChallenge_keys [OF keys] ok] by simp
  have "new_verification now v \<in> set (email_verifications d')" by (simp add: ev)
  then have v': "tfind ev_id (pc_id input) (email_verifications d') = Some (new_verification now v)"
    using uniq_mem_tfind [OF db_keysD(5) [OF ev']] i(1) by (force simp: new_verification_def)
  have prev: "\<exists>p'. tfind pc_id (pc_id p) (public_email_challenges d') = Some p' \<and> pc_state p' = Cancelled \<and>
        pc_code_hash p' = [] \<and> pc_code p' = empty_cipher"
    if f: "tfind fl_key (pc_product_id input, pc_installation_id input) (public_registration_flows d) = Some flow"
      and p: "tfind pc_id (fl_challenge_id flow) ?cs = Some p" and c: "can_cancel input (Some p)" for flow p
  proof -
    from f p flow have "previous = Some p"
      by (auto simp: read_flow_previous_def readPublicChallenge_def scanPublicChallenge_def split: sum.splits if_splits)
    moreover from p have "tfind pc_id (pc_id p) ?cs = Some p" by (rule tfind_self)
    ultimately show ?thesis
      using c by (simp add: cs challenges_after_def tfind_append tfind_update) (simp add: cancel_challenge_def)
  qed
  have "tfind pc_id (pc_id input) (public_email_challenges d') = Some (new_challenge input)"
    using fresh by (simp add: cs challenges_after_def tfind_append tfind_update) (simp add: new_challenge_def)
  with v' prev i show ?thesis
    by (simp add: fl tfind_upsert new_challenge_def new_verification_def) (simp add: fl_key_def new_flow_def)
qed

text \<open>
  Creating a challenge is idempotent in its identifier. Repeating a successful
  request, at any later time and whatever the limits, returns the stored challenge
  and changes nothing, unless the fingerprint differs.
\<close>

theorem create_challenge_idempotent:
  assumes ok: "CreatePublicEmailChallenge now input v lim d = Inr ((c, True), d')" and keys: "db_keys d"
    and again: "validPublicChallengeInput input' v'" "0 < lim'" "lim' \<le> 10000" "pc_id input' = pc_id input"
      "pc_product_id input' = pc_product_id input" "pc_installation_id input' = pc_installation_id input"
  shows "CreatePublicEmailChallenge now' input' v' lim' d' =
    (if pc_request_fingerprint input' = pc_request_fingerprint input then Inr ((new_challenge input, False), d')
     else Inl ErrConflict)"
proof -
  from create_challenge_new [OF ok keys] obtain previous where valid: "validPublicChallengeInput input v"
    and cs: "public_email_challenges d' = challenges_after (trunc_us now) input previous (public_email_challenges d)"
    and fresh: "tfind pc_id (pc_id input) (public_email_challenges d) = None" by metis
  have "tfind pc_id (pc_id input) (public_email_challenges d') = Some (new_challenge input)"
    using fresh by (simp add: cs challenges_after_def tfind_append tfind_update) (simp add: new_challenge_def)
  moreover have "uint (pc_blind_index_version (new_challenge input)) \<le> 2 ^ 63 - 1"
    using valid uint_le_of_sint_pos [of "pc_blind_index_version input"]
    by (simp add: validPublicChallengeInput_def new_challenge_def)
  ultimately have r: "readPublicChallenge d' (pc_id input) = Inr (new_challenge input)"
    by (simp add: readPublicChallenge_Inr)
  show ?thesis
    using again by (simp add: CreatePublicEmailChallenge_def r) (auto simp: new_challenge_def)
qed

text \<open>
  The OTP key cannot be replaced under a live proof. If the start-up check
  accepts a key identifier, every unexpired challenge that can still be completed or
  delivered was made with that key.
\<close>

theorem otp_rotation_guard:
  assumes "ValidatePublicOTPKeyID d key now = Inr ()" and "c \<in> set (public_email_challenges d)"
    and "now < pc_expires_at c" and "live_proof (pc_state c)"
  shows "pc_otp_key_id c = key"
  using assms trunc_us_le [of now]
  by (auto simp: ValidatePublicOTPKeyID_def list_ex_iff split: if_splits)

section \<open>Witnesses\<close>

lemma printable_clean:
  assumes "\<And>c. c \<in> set s \<Longrightarrow> 33 \<le> code c \<and> code c \<le> 126"
  shows "utf8_valid s" "\<not> has_control s" "trim_space s = s"
proof -
  show "utf8_valid s" and "\<not> has_control s"
    using assms by (induction s) (auto, fastforce+)
  show "trim_space s = s"
  proof (cases "s = []")
    case False
    then have "hd s \<in> set s" "last s \<in> set s" by auto
    with assms have "33 \<le> code (hd s) \<and> code (hd s) \<le> 126" "33 \<le> code (last s) \<and> code (last s) \<le> 126" by auto
    moreover have "code c \<notin> {9, 10, 11, 12, 13, 32}" if "c \<in> set s" for c using assms [OF that] by auto
    ultimately show ?thesis by (intro trim_noop) auto
  qed simp
qed

definition sample_cipher :: Ciphertext where
  "sample_cipher = \<lparr>Algorithm = ''a'', KeyID = ''k'', WrappedDataKey = ''w'', Nonce = ''n'', Data = ''d''\<rparr>"

definition sample_challenge :: public_email_challenge where
  "sample_challenge = \<lparr>pc_id = sample_uuid, pc_product_id = ''pict'', pc_installation_id = sample_uuid,
     pc_purpose = ''product_registration'', pc_holder_role = ''self'', pc_request_fingerprint = replicate 32 CHR ''f'',
     pc_nonce_hash = replicate 32 CHR ''n'', pc_code_hash = replicate 32 CHR ''c'', pc_otp_key_id = ''otp'',
     pc_code = sample_cipher, pc_blind_index_version = 1, pc_blind_index = replicate 32 CHR ''x'', pc_state = Requested,
     pc_attempts = 0, pc_mail_attempts = 0, pc_mail_available_at = second, pc_mail_claim_token = None,
     pc_mail_claim_until = None, pc_created_at = second, pc_updated_at = second, pc_expires_at = 900 * second,
     pc_verified_at = None, pc_consumed_at = None, pc_version = 1\<rparr>"

definition challenge_verification :: EmailVerification where
  "challenge_verification = sample_verification\<lparr>v_InstallationID := Some sample_uuid, v_BlindIndexVersion := 1,
     v_BlindIndex := replicate 32 CHR ''x'', v_EncryptedEmail := sample_cipher\<rparr>"

lemma sample_challenge_valid: "validPublicChallengeInput sample_challenge challenge_verification"
proof -
  have "trim_space ''otp'' = ''otp''" by (rule printable_clean) auto
  moreover have "\<not> has_control ''otp''" by (rule printable_clean) auto
  ultimately show ?thesis
    by (simp add: validPublicChallengeInput_def sample_challenge_def challenge_verification_def sample_verification_def
        sample_product_valid ValidHolderRole_def validCipher_def sample_cipher_def is_zero_def zero_time_def duration_defs)
qed

lemma sample_contact_limits: "limits_ok (sort_key al_bucket (contact_limits sample_challenge))"
proof -
  have hex: "33 \<le> code c \<and> code c \<le> 126 \<and> c \<noteq> CHR ''@''" if "c \<in> set (hex_encode s)" for c s
    using hex_encode_digits [OF that] by (auto simp: char_class_defs)
  have bucket: "33 \<le> code c \<and> code c \<le> 126 \<and> c \<noteq> CHR ''@''"
    if "l \<in> set (contact_limits sample_challenge)" "c \<in> set (al_bucket l)" for l c
    using that hex [of c "replicate 32 CHR ''x''"]
    by (simp add: contact_limits_def sample_challenge_def Let_def) (elim disjE; force)
  have "valid_limit l" if "l \<in> set (contact_limits sample_challenge)" for l
  proof -
    have "CHR ''@'' \<notin> set (al_bucket l)" using bucket [OF that] by blast
    moreover have "utf8_valid (al_bucket l) \<and> \<not> has_control (al_bucket l) \<and> trim_space (al_bucket l) = al_bucket l"
      using printable_clean [of "al_bucket l"] bucket [OF that] by blast
    moreover have "1 \<le> length (al_bucket l) \<and> length (al_bucket l) \<le> 256 \<and> 0 < al_window l \<and> al_window l \<le> 24 * hour \<and>
        1 \<le> al_max l \<and> al_max l \<le> 10000"
      using that by (auto simp: contact_limits_def sample_challenge_def Let_def duration_defs)
    ultimately show ?thesis by (simp add: valid_limit_def)
  qed
  then show ?thesis by (simp add: contact_limits_def Let_def)
qed

lemma consume_first:
  assumes "public_auth_events d = []" "\<not> is_zero now" "ValidUUID e" "ls \<noteq> []" "length ls \<le> 8"
    and ok: "limits_ok (sort_key al_bucket ls)"
  shows "\<exists>es. consumePublicAuthLimits now e ls d = Inr (d\<lparr>public_auth_events := es\<rparr>)"
proof -
  have "\<not> exhausted [] t l" if "l \<in> set (sort_key al_bucket ls)" for t l
    using limits_ok_valid [OF ok that] by (auto simp: exhausted_def window_events_def valid_limit_def word_le_nat_alt)
  then have "limits_retry [] t (sort_key al_bucket ls) zero_time = zero_time" for t by (rule not_exhausted_retry)
  moreover have "\<exists>d'. for_each (insert_limit_event (trunc_us now) e) (sort_key al_bucket ls) d = Inr d'"
    by (rule insert_events_fresh) (use limits_ok_distinct [OF _ ok] assms(1) in auto)
  ultimately have "\<exists>d'. consumePublicAuthLimits now e ls d = Inr d'"
    using assms by (auto simp: consumePublicAuthLimits_def Let_def is_zero_def Suc_le_eq)
  then show ?thesis using consume_success(1) by blast
qed

lemma sample_create:
  "\<exists>d'. CreatePublicEmailChallenge (2 * second) sample_challenge challenge_verification 5 sample_db =
     Inr ((sample_challenge, True), d')"
proof -
  have "\<exists>es. consumePublicAuthLimits (trunc_us (2 * second)) (pc_id sample_challenge) (contact_limits sample_challenge) sample_db =
      Inr (sample_db\<lparr>public_auth_events := es\<rparr>)"
    using sample_contact_limits
    by (intro consume_first) (auto simp: sample_defs sample_challenge_def is_zero_def zero_time_def duration_defs
        trunc_us_def contact_limits_def Let_def)
  then obtain es where es: "consumePublicAuthLimits (trunc_us (2 * second)) (pc_id sample_challenge) (contact_limits sample_challenge) sample_db =
      Inr (sample_db\<lparr>public_auth_events := es\<rparr>)" ..
  have "\<exists>d'. store_challenge (2 * second) sample_challenge challenge_verification None None 0 sample_db = Inr d'"
    unfolding store_challenge_def es Let_def rbind_simps
    by (simp add: can_cancel_def createEmailVerificationTx_def validateSubjectWith_def challenge_verification_def
        sample_verification_def sample_defs insert_row_eval insertPublicChallenge_def appendPublicAccountAudit_def
        upsert_row_def)
  then show ?thesis using sample_challenge_valid
    by (auto simp: CreatePublicEmailChallenge_def readPublicChallenge_def read_flow_previous_def pending_count_def
        can_cancel_def sample_defs PublicEmailQueueTTL_def sample_challenge_def duration_defs trunc_us_def)
qed

theorem challenge_queue_capacity_witness:
  "\<exists>d'. CreatePublicEmailChallenge (2 * second) sample_challenge challenge_verification 5 sample_db =
       Inr ((sample_challenge, True), d') \<and>
     length (filter (queued (trunc_us (2 * second))) (public_email_challenges d')) \<le> 5"
proof -
  obtain d' where ok: "CreatePublicEmailChallenge (2 * second) sample_challenge challenge_verification 5 sample_db =
       Inr ((sample_challenge, True), d')" using sample_create ..
  from challenge_queue_capacity [OF ok sample_db_keys] ok show ?thesis by auto
qed

theorem create_challenge_replaces_witness:
  "\<exists>d'. CreatePublicEmailChallenge (2 * second) sample_challenge challenge_verification 5 sample_db =
       Inr ((sample_challenge, True), d') \<and>
     tfind pc_id sample_uuid (public_email_challenges d') = Some (new_challenge sample_challenge)"
proof -
  obtain d' where ok: "CreatePublicEmailChallenge (2 * second) sample_challenge challenge_verification 5 sample_db =
       Inr ((sample_challenge, True), d')" using sample_create ..
  from create_challenge_replaces [OF ok sample_db_keys] ok show ?thesis by (auto simp: sample_challenge_def)
qed

theorem create_challenge_idempotent_witness:
  "\<exists>d'. CreatePublicEmailChallenge (9 * second) sample_challenge challenge_verification 5 d' =
       Inr ((new_challenge sample_challenge, False), d')"
proof -
  obtain d' where ok: "CreatePublicEmailChallenge (2 * second) sample_challenge challenge_verification 5 sample_db =
       Inr ((sample_challenge, True), d')" using sample_create ..
  from create_challenge_idempotent [OF ok sample_db_keys sample_challenge_valid, of 5 "9 * second"] show ?thesis by auto
qed

theorem otp_rotation_guard_witness:
  "ValidatePublicOTPKeyID (empty_db\<lparr>public_email_challenges := [sample_challenge]\<rparr>) ''otp'' second = Inr () \<and>
   pc_otp_key_id sample_challenge = ''otp''"
proof -
  have ok: "ValidatePublicOTPKeyID (empty_db\<lparr>public_email_challenges := [sample_challenge]\<rparr>) ''otp'' second = Inr ()"
    by (simp add: ValidatePublicOTPKeyID_def sample_challenge_def is_zero_def zero_time_def duration_defs)
  from otp_rotation_guard [OF ok, of sample_challenge] ok show ?thesis
    by (simp add: sample_challenge_def duration_defs live_proof_def)
qed

end
