(* ===== verification/Session_Store.thy ===== *)
theory Session_Store
  imports Challenge_Store
begin

text \<open>
  Public account sessions (\<^verbatim>\<open>public_account_sessions.go\<close>) and the privacy barrier
  (\<^verbatim>\<open>public_account_privacy_barrier.go\<close>).  A session is a device's refresh family:
  a refresh token is consumed by its rotation, and presenting a consumed token again
  revokes the session.  The Go structs \<^verbatim>\<open>AccountSession\<close>, \<^verbatim>\<open>AccountRefresh\<close> and
  \<^verbatim>\<open>ProductAccount\<close> have the columns of their tables and are the table records.
\<close>

section \<open>Model\<close>

text \<open>\<^verbatim>\<open>strconv.FormatUint(v, 10)\<close>.\<close>

fun decimal :: "nat \<Rightarrow> string" where
  "decimal n = (if n < 10 then [char_of (48 + n)] else decimal (n div 10) @ [char_of (48 + n mod 10)])"

declare decimal.simps [simp del]

definition FormatUint :: "uint64 \<Rightarrow> string" where
  "FormatUint v = decimal (unat v)"

text \<open>
  A transaction that may commit and still report a rejection: \<open>None\<close> is the
  \<^verbatim>\<open>rejected\<close> or \<^verbatim>\<open>replay\<close> flag of the code, reported as \<^verbatim>\<open>ErrNotFound\<close> after the
  commit.
\<close>

definition commit_or_reject :: "(db \<Rightarrow> ('a option \<times> db) result) \<Rightarrow> db \<Rightarrow> 'a result \<times> db" where
  "commit_or_reject body d =
     (case body d of Inl e \<Rightarrow> (Inl e, d) | Inr (None, d') \<Rightarrow> (Inl ErrNotFound, d') | Inr (Some x, d') \<Rightarrow> (Inr x, d'))"

definition deletion_pending_row :: "string \<Rightarrow> string \<Rightarrow> string \<Rightarrow> privacy_request \<Rightarrow> bool" where
  "deletion_pending_row person installation product r \<longleftrightarrow>
     pr_request_type r = ''deletion'' \<and> pr_status r \<notin> {''cancelled'', ''rejected'', ''completed''} \<and>
     (pr_scope r = ''all'' \<or> pr_product_id r = Some product) \<and>
     (pr_subject_type r = ''person'' \<and> pr_subject_id r = person \<or>
      pr_subject_type r = ''installation'' \<and> pr_subject_id r = installation)"

definition publicAccountDeletionPending :: "db \<Rightarrow> string \<Rightarrow> string \<Rightarrow> string \<Rightarrow> bool result" where
  "publicAccountDeletionPending d person installation product =
     (case List.find (deletion_pending_row person installation product) (privacy_requests d) of
        None \<Rightarrow> Inr False
      | Some r \<Rightarrow> if \<not> ValidUUID (pr_id r) then Inl ErrInvalid else Inr True)"

definition readAccountSession :: "db \<Rightarrow> string \<Rightarrow> account_session result" where
  "readAccountSession d sessionID = some_or ErrNotFound (tfind se_id sessionID (account_sessions d))"

definition readProductAccount :: "db \<Rightarrow> string \<Rightarrow> string \<Rightarrow> product_account result" where
  "readProductAccount d product account = some_or ErrNotFound (tfind pp_key (product, account) (product_accounts d))"

definition insertAccountSession :: "account_session \<Rightarrow> db \<Rightarrow> db result" where
  "insertAccountSession s d =
     (if \<not> ValidUUID (se_id s) \<or> \<not> ValidProductID (se_product_id s) \<or> \<not> ValidUUID (se_account_id s) \<or>
         \<not> ValidUUID (se_installation_id s) \<or> se_state s \<noteq> SessionActive \<or> se_revoked_at s \<noteq> None \<or> se_version s \<noteq> 1 \<or>
         is_zero (se_created_at s) \<or> \<not> se_created_at s < se_expires_at s
      then Inl ErrInvalid
      else insert_row account_sessions account_sessions_update se_id
             (s\<lparr>se_state := SessionActive, se_created_at := trunc_us (se_created_at s),
                se_expires_at := trunc_us (se_expires_at s), se_revoked_at := None, se_version := 1\<rparr>) d)"

definition insertAccountRefresh :: "account_refresh \<Rightarrow> db \<Rightarrow> db result" where
  "insertAccountRefresh r d =
     (if length (rt_hash r) \<noteq> 32 \<or> \<not> ValidUUID (rt_session_id r) \<or> rt_version r \<noteq> 1 \<or> rt_consumed_at r \<noteq> None \<or>
         is_zero (rt_issued_at r) \<or> \<not> rt_issued_at r < rt_expires_at r
      then Inl ErrInvalid
      else insert_row account_refresh_tokens account_refresh_tokens_update rt_hash
             (r\<lparr>rt_issued_at := trunc_us (rt_issued_at r), rt_expires_at := trunc_us (rt_expires_at r),
                rt_consumed_at := None, rt_version := 1\<rparr>) d)"

definition revoke_session :: "time \<Rightarrow> account_session \<Rightarrow> account_session" where
  "revoke_session now r =
     r\<lparr>se_state := SessionRevoked, se_revoked_at := Some (trunc_us now), se_version := se_version r + 1\<rparr>"

definition revokeAccountSessionTx :: "account_session \<Rightarrow> time \<Rightarrow> string \<Rightarrow> string \<Rightarrow> db \<Rightarrow> db result" where
  "revokeAccountSessionTx s now actor reason d =
     (if reason \<notin> {''reauthentication'', ''self'', ''refresh_replay'', ''privacy_deletion''} then Inl ErrInvalid
      else if se_state s \<noteq> SessionActive then Inr d
      else if se_version s = - 1 then Inl ErrConflict
      else
        rbind (cas_row_public account_sessions account_sessions_update se_id se_version (se_id s) (se_version s)
                 (\<lambda>_. True) (revoke_session now) d) (\<lambda>d1.
        appendPublicAccountAudit (''revoke-'' @ se_id s @ ''-'' @ FormatUint (se_version s)) (se_product_id s) (se_id s)
          actor (''session.revoked.'' @ reason) (se_id s) now d1))"

definition account_person :: "db \<Rightarrow> string \<Rightarrow> string option" where
  "account_person d account =
     map_option a_person_id (List.find (\<lambda>a. a_id a = account \<and> a_status a = ''active'' \<and>
       list_ex (\<lambda>p. p_id p = a_person_id a \<and> p_deleted_at p = None) (persons d)) (accounts d))"

definition linked_identity :: "db \<Rightarrow> string \<Rightarrow> string \<Rightarrow> string \<Rightarrow> string \<Rightarrow> string \<Rightarrow> email_identity option" where
  "linked_identity d person email product installation session =
     List.find (\<lambda>e. ei_person_id e = person \<and> ei_id e = email \<and> ei_namespace e = ''account'' \<and>
         ei_linkage_scope e = ''product'' \<and> ei_product_id e = product \<and> ei_scope_key e = product \<and>
         list_ex (\<lambda>i. i_person_id i = Some (ei_person_id e) \<and> i_id i = installation \<and> i_product_id i = product \<and>
             i_disabled_at i = None \<and>
             list_ex (\<lambda>f. fl_product_id f = i_product_id i \<and> fl_installation_id f = i_id i \<and>
                 fl_session_id f = Some session) (public_registration_flows d)) (product_installations d))
       (email_identities d)"

definition authorizedPublicAccountSession ::
  "db \<Rightarrow> string \<Rightarrow> string \<Rightarrow> time \<Rightarrow> (account_session \<times> product_account) result"
where
  "authorizedPublicAccountSession d sessionID product now =
     rbind (readAccountSession d sessionID) (\<lambda>s.
     if se_product_id s \<noteq> product \<or> \<not> ValidPublicSession now (se_expires_at s) (se_state s) \<or> se_revoked_at s \<noteq> None
     then Inl ErrNotFound
     else
       rbind (some_or ErrNotFound (account_person d (se_account_id s))) (\<lambda>person.
       rbind (publicAccountDeletionPending d person (se_installation_id s) product) (\<lambda>pending.
       if pending then Inl ErrNotFound
       else
         rbind (readProductAccount d product (se_account_id s)) (\<lambda>p.
         if pp_status p \<noteq> ''active'' \<or> unix (pp_verified_at p) \<le> 0 then Inl ErrNotFound
         else
           rbind (some_or ErrNotFound (linked_identity d person (pp_email_identity_id p) product
                    (se_installation_id s) (se_id s))) (\<lambda>e.
           if unix (ei_verified_at e) \<le> 0 then Inl ErrNotFound else Inr (s, p))))))"

definition AuthorizedPublicAccountSession :: "db \<Rightarrow> string \<Rightarrow> string \<Rightarrow> time \<Rightarrow> (account_session \<times> product_account) result" where
  "AuthorizedPublicAccountSession d sessionID product now =
     (if \<not> ValidUUID sessionID \<or> \<not> ValidProductID product then Inl ErrInvalid
      else authorizedPublicAccountSession d sessionID product now)"

definition consume_refresh :: "time \<Rightarrow> account_refresh \<Rightarrow> account_refresh" where
  "consume_refresh now r = r\<lparr>rt_consumed_at := Some (trunc_us now), rt_version := rt_version r + 1\<rparr>"

definition bump_session :: "unit \<Rightarrow> account_session \<Rightarrow> account_session" where
  "bump_session _ r = r\<lparr>se_version := se_version r + 1\<rparr>"

definition rotate_refresh ::
  "time \<Rightarrow> bytes \<Rightarrow> bytes \<Rightarrow> db \<Rightarrow> ((account_session \<times> product_account) option \<times> db) result"
where
  "rotate_refresh now oldHash newHash d =
     rbind (some_or ErrNotFound (tfind rt_hash oldHash (account_refresh_tokens d))) (\<lambda>r.
     if \<not> now < rt_expires_at r then Inl ErrNotFound
     else
       rbind (readAccountSession d (rt_session_id r)) (\<lambda>stored.
       if rt_consumed_at r \<noteq> None then
         rbind (revokeAccountSessionTx stored now ''backend'' ''refresh_replay'' d) (\<lambda>d1. Inr (None, d1))
       else
         rbind (authorizedPublicAccountSession d (se_id stored) (se_product_id stored) now) (\<lambda>(session, profile).
         if rt_version r = - 1 \<or> se_version session = - 1 then Inl ErrConflict
         else
           rbind (cas_row_public account_refresh_tokens account_refresh_tokens_update rt_hash rt_version oldHash
                    (rt_version r) (\<lambda>x. rt_consumed_at x = None) (consume_refresh now) d) (\<lambda>d1.
           rbind (insertAccountRefresh \<lparr>rt_hash = newHash, rt_session_id = se_id session, rt_issued_at = now,
                    rt_expires_at = se_expires_at session, rt_consumed_at = None, rt_version = 1\<rparr> d1) (\<lambda>d2.
           rbind (cas_row_public account_sessions account_sessions_update se_id se_version (se_id session)
                    (se_version session) (\<lambda>_. True) (bump_session ()) d2) (\<lambda>d3.
           rbind (appendPublicAccountAudit (''refresh-'' @ hex_encode newHash) (se_product_id session) (se_id session)
                    ''backend'' ''session.refreshed'' (se_id session) now d3) (\<lambda>d4.
           Inr (Some (session\<lparr>se_version := se_version session + 1\<rparr>, profile), d4))))))))"

definition RotatePublicAccountRefresh ::
  "time \<Rightarrow> bytes \<Rightarrow> bytes \<Rightarrow> db \<Rightarrow> (account_session \<times> product_account) result \<times> db"
where
  "RotatePublicAccountRefresh now oldHash newHash d =
     (if length oldHash \<noteq> 32 \<or> length newHash \<noteq> 32 \<or> oldHash = newHash then (Inl ErrInvalid, d)
      else commit_or_reject (rotate_refresh now oldHash newHash) d)"

definition RevokePublicAccountSession :: "time \<Rightarrow> string \<Rightarrow> string \<Rightarrow> db \<Rightarrow> db result" where
  "RevokePublicAccountSession now sessionID product d =
     (if \<not> ValidUUID sessionID \<or> \<not> ValidProductID product then Inl ErrInvalid
      else
        rbind (readAccountSession d sessionID) (\<lambda>session.
        if se_product_id session \<noteq> product then Inl ErrNotFound
        else revokeAccountSessionTx session now ''backend'' ''self'' d))"

definition set_profile :: "string \<times> string \<times> string \<times> time \<Rightarrow> product_account \<Rightarrow> product_account" where
  "set_profile p r = (case p of (holder, country, region, now) \<Rightarrow>
     r\<lparr>pp_holder_role := holder, pp_country := country, pp_region := region, pp_updated_at := trunc_us now,
       pp_version := pp_version r + 1\<rparr>)"

definition UpdatePublicAccountProfile ::
  "time \<Rightarrow> string \<Rightarrow> string \<Rightarrow> uint64 \<Rightarrow> string \<Rightarrow> string \<Rightarrow> string \<Rightarrow> db \<Rightarrow> (product_account \<times> db) result"
where
  "UpdatePublicAccountProfile now0 sessionID product expectedVersion holder country0 region0 d =
     (if \<not> ValidUUID sessionID \<or> \<not> ValidProductID product \<or> expectedVersion = - 1 \<or> \<not> ValidHolderRole holder
      then Inl ErrInvalid
      else
        rbind (NormalizeDeclaredRegion country0 region0) (\<lambda>(country, region).
        let now = trunc_us now0 in
        rbind (authorizedPublicAccountSession d sessionID product now) (\<lambda>(_, p).
        if pp_version p \<noteq> expectedVersion then Inl ErrConflict
        else
          rbind (cas_row_public product_accounts product_accounts_update pp_key pp_version (product, pp_account_id p)
                   expectedVersion (\<lambda>_. True) (set_profile (holder, country, region, now)) d) (\<lambda>d1.
          rbind (appendPublicAccountAudit (''profile-'' @ product @ ''-'' @ pp_account_id p @ ''-'' @ FormatUint (pp_version p + 1))
                   product sessionID ''backend'' ''profile.updated'' (pp_account_id p) now d1) (\<lambda>d2.
          Inr (set_profile (holder, country, region, now) p, d2))))))"

section \<open>Laws\<close>

interpretation session_revoke: versioned_update se_id se_version revoke_session
  by unfold_locales (simp_all add: revoke_session_def)

interpretation session_bump: versioned_update se_id se_version bump_session
  by unfold_locales (simp_all add: bump_session_def)

interpretation refresh_consume: versioned_update rt_hash rt_version consume_refresh
  by unfold_locales (simp_all add: consume_refresh_def)

interpretation profile_update: versioned_update pp_key pp_version set_profile
  by unfold_locales (auto simp: set_profile_def pp_key_def split: prod.splits)

text \<open>Weakest preconditions of the version-checked updates, on unique keys.\<close>

lemma cas_row_public_yields:
  assumes "uniq key (get d)" and "\<And>r. key (f r) = key r" and "\<And>r. ver (f r) = ver r + 1"
    and "\<And>r. v \<noteq> - 1 \<Longrightarrow> tfind key k (get d) = Some r \<Longrightarrow> ver r = v \<Longrightarrow> extra r \<Longrightarrow>
      P (put (\<lambda>_. tbl_update (\<lambda>x. key x = k) f (get d)) d)"
  shows "yields (cas_row_public get put key ver k v extra f d) P"
  using assms by (auto simp: yields_def cas_row_public_Inr cas_row_Inr)

lemma tfind_update_at:
  "(\<And>r. key (f r) = key r) \<Longrightarrow>
   tfind key j (tbl_update (\<lambda>x. key x = k) f t) = (if j = k then map_option f (tfind key k t) else tfind key j t)"
  by (cases "tfind key j t") (auto simp: tfind_update dest: tfind_key)

lemma readAccountSession_Inr [simp]: "readAccountSession d i = Inr s \<longleftrightarrow> tfind se_id i (account_sessions d) = Some s"
  by (simp add: readAccountSession_def)

lemma insertAccountSession_keys [keys_intro]:
  "db_keys d \<Longrightarrow> (\<And>d'. db_keys d' \<Longrightarrow> P d') \<Longrightarrow> yields (insertAccountSession s d) P"
  by (auto simp: insertAccountSession_def intro!: keys_intro)

lemma insertAccountRefresh_keys [keys_intro]:
  "db_keys d \<Longrightarrow> (\<And>d'. db_keys d' \<Longrightarrow> P d') \<Longrightarrow> yields (insertAccountRefresh r d) P"
  by (auto simp: insertAccountRefresh_def intro!: keys_intro)

lemma revokeAccountSessionTx_keys [keys_intro]:
  "db_keys d \<Longrightarrow> (\<And>d'. db_keys d' \<Longrightarrow> P d') \<Longrightarrow> yields (revokeAccountSessionTx s now a r d) P"
  by (auto simp: revokeAccountSessionTx_def intro!: keys_intro)

lemma session_read_yields [keys_intro]:
  "(\<And>x. P x) \<Longrightarrow> yields (readAccountSession d i) P"
  "(\<And>x. Q x) \<Longrightarrow> yields (authorizedPublicAccountSession d i p now) Q"
  by (auto intro: yields_any)

lemma rotate_refresh_keys: "db_keys d \<Longrightarrow> yields (rotate_refresh now old new d) (\<lambda>(x, d'). db_keys d')"
  by (auto simp: rotate_refresh_def intro!: keys_intro)

lemma commit_or_reject_keys:
  "yields (body d) (\<lambda>(x, d'). db_keys d') \<Longrightarrow> db_keys d \<Longrightarrow> db_keys (snd (commit_or_reject body d))"
  by (auto simp: commit_or_reject_def yields_def split: sum.splits prod.splits option.splits)

lemma UpdatePublicAccountProfile_keys:
  "db_keys d \<Longrightarrow> yields (UpdatePublicAccountProfile now s p v h c r d) (\<lambda>(x, d'). db_keys d')"
  by (auto simp: UpdatePublicAccountProfile_def Let_def intro!: keys_intro yields_any [of _ "NormalizeDeclaredRegion c r"])

section \<open>Revocation\<close>

text \<open>A revocation makes the session inactive and touches nothing but it and the audit trail.\<close>

lemma revoke_effect:
  assumes u: "uniq se_id (account_sessions d)" and s: "tfind se_id i (account_sessions d) = Some s"
  shows "yields (revokeAccountSessionTx s now actor reason d) (\<lambda>d'.
    (\<exists>s'. tfind se_id i (account_sessions d') = Some s' \<and> se_state s' \<noteq> SessionActive) \<and>
    (se_state s \<noteq> SessionActive \<longrightarrow> d' = d) \<and>
    d' = d\<lparr>account_sessions := account_sessions d', public_account_audits := public_account_audits d'\<rparr>)"
proof -
  have i: "se_id s = i" using s by (rule tfind_key)
  show ?thesis
  proof (cases "se_state s = SessionActive")
    case True
    with s i u show ?thesis
      by (auto simp: revokeAccountSessionTx_def appendPublicAccountAudit_def row_wp tfind_update_at revoke_session_def
          intro!: cas_row_public_yields)
  next
    case False
    with s show ?thesis by (auto simp: revokeAccountSessionTx_def)
  qed
qed

lemma revoke_product:
  assumes "uniq se_id (account_sessions d)" and "tfind se_id i (account_sessions d) = Some s"
  shows "yields (revokeAccountSessionTx s now actor reason d) (\<lambda>d'.
    map_option se_product_id (tfind se_id i (account_sessions d')) = Some (se_product_id s))"
  using assms tfind_key [OF assms(2)]
  by (auto simp: revokeAccountSessionTx_def appendPublicAccountAudit_def row_wp tfind_update_at revoke_session_def
      intro!: cas_row_public_yields)

lemma inactive_unauthorized:
  assumes "tfind se_id i (account_sessions d) = Some s" and "se_state s \<noteq> SessionActive"
  shows "authorizedPublicAccountSession d i product now = Inl ErrNotFound"
  using assms by (simp add: authorizedPublicAccountSession_def readAccountSession_def ValidPublicSession_def)

lemma authorized_session_facts:
  assumes "authorizedPublicAccountSession d sid product now = Inr (s, p)"
  shows "tfind se_id sid (account_sessions d) = Some s" "se_id s = sid" "se_state s = SessionActive" "now < se_expires_at s"
    "tfind pp_key (product, se_account_id s) (product_accounts d) = Some p"
  using assms
  by (auto simp: authorizedPublicAccountSession_def ValidPublicSession_def readProductAccount_def dest: tfind_key split: if_splits)

section \<open>Properties\<close>

text \<open>
  C9: an authorised session is backed by everything the service requires, all read
  in one snapshot: an active, unexpired, unrevoked session of the product, an
  active account of an undeleted person with no pending deletion for the person or
  the installation, an active product profile, and an enabled installation linked
  to the same person whose registration flow names exactly this session.
\<close>

theorem authorized_session_sound:
  assumes "authorizedPublicAccountSession d sid product now = Inr (s, p)"
  shows "tfind se_id sid (account_sessions d) = Some s \<and> se_state s = SessionActive \<and> now < se_expires_at s \<and>
    se_revoked_at s = None \<and> se_product_id s = product \<and>
    tfind pp_key (product, se_account_id s) (product_accounts d) = Some p \<and> pp_status p = ''active'' \<and>
    (\<exists>a \<in> set (accounts d). \<exists>person \<in> set (persons d). \<exists>i \<in> set (product_installations d). \<exists>f \<in> set (public_registration_flows d).
      a_id a = se_account_id s \<and> a_status a = ''active'' \<and> p_id person = a_person_id a \<and> p_deleted_at person = None \<and>
      (\<forall>r \<in> set (privacy_requests d). \<not> deletion_pending_row (a_person_id a) (se_installation_id s) product r) \<and>
      i_id i = se_installation_id s \<and> i_person_id i = Some (a_person_id a) \<and> i_disabled_at i = None \<and>
      fl_key f = (product, i_id i) \<and> fl_session_id f = Some sid)"
proof -
  from assms obtain person e where s: "tfind se_id sid (account_sessions d) = Some s" "se_product_id s = product"
      "ValidPublicSession now (se_expires_at s) (se_state s)" "se_revoked_at s = None"
    and person: "account_person d (se_account_id s) = Some person"
    and pending: "publicAccountDeletionPending d person (se_installation_id s) product = Inr False"
    and p: "readProductAccount d product (se_account_id s) = Inr p" "pp_status p = ''active''"
    and e: "linked_identity d person (pp_email_identity_id p) product (se_installation_id s) (se_id s) = Some e"
    by (auto simp: authorizedPublicAccountSession_def split: if_splits)
  from person obtain a pr where a: "a \<in> set (accounts d)" "a_id a = se_account_id s" "a_status a = ''active''" "a_person_id a = person"
    and pr: "pr \<in> set (persons d)" "p_id pr = person" "p_deleted_at pr = None"
    by (auto simp: account_person_def list_ex_iff dest!: find_Some_mem)
  from e obtain i f where i: "i \<in> set (product_installations d)" "i_id i = se_installation_id s" "i_person_id i = Some person"
      "i_disabled_at i = None" "i_product_id i = product"
    and f: "f \<in> set (public_registration_flows d)" "fl_product_id f = product" "fl_installation_id f = i_id i"
      "fl_session_id f = Some (se_id s)"
    by (auto simp: linked_identity_def list_ex_iff dest!: find_Some_mem)
  have "\<not> deletion_pending_row person (se_installation_id s) product r" if "r \<in> set (privacy_requests d)" for r
    using pending that by (auto simp: publicAccountDeletionPending_def find_None_iff split: option.splits if_splits)
  moreover have "se_id s = sid" using s(1) by (rule tfind_key)
  ultimately show ?thesis
    using s p a pr i f
    by (auto simp: ValidPublicSession_def readProductAccount_def fl_key_def intro!: bexI [of _ a] bexI [of _ pr] bexI [of _ i] bexI [of _ f])
qed

text \<open>
  C6: presenting a consumed refresh token revokes its family. If the token was
  consumed and has not expired, the request is rejected, the session is no longer
  active in the committed state, and no later request is authorised for it.
\<close>

theorem replay_revokes_family:
  assumes keys: "db_keys d" and hashes: "length old = 32" "length new = 32" "old \<noteq> new"
    and token: "tfind rt_hash old (account_refresh_tokens d) = Some r" "rt_consumed_at r \<noteq> None" "now < rt_expires_at r"
    and session: "tfind se_id (rt_session_id r) (account_sessions d) = Some s" "se_version s \<noteq> - 1"
    and audit: "''revoke-'' @ se_id s @ ''-'' @ FormatUint (se_version s) \<notin> pu_id ` set (public_account_audits d)"
  shows "\<exists>d'. RotatePublicAccountRefresh now old new d = (Inl ErrNotFound, d') \<and>
    (\<exists>s'. tfind se_id (se_id s) (account_sessions d') = Some s' \<and> se_state s' \<noteq> SessionActive) \<and>
    (\<forall>product now'. authorizedPublicAccountSession d' (se_id s) product now' = Inl ErrNotFound) \<and>
    account_refresh_tokens d' = account_refresh_tokens d"
proof -
  have sid: "se_id s = rt_session_id r" using session(1) by (rule tfind_key)
  have u: "uniq se_id (account_sessions d)" using keys by (rule table_uniq)
  have "\<exists>d'. revokeAccountSessionTx s now ''backend'' ''refresh_replay'' d = Inr d'"
  proof (cases "se_state s = SessionActive")
    case True
    have "cas_row account_sessions account_sessions_update se_id se_version (se_id s) (se_version s) (\<lambda>_. True) (revoke_session now) d =
        Inr (account_sessions_update (\<lambda>_. tbl_update (\<lambda>x. se_id x = se_id s) (revoke_session now) (account_sessions d)) d)"
      using u session(1) sid by (intro cas_row_ok) simp_all
    then have cas: "cas_row_public account_sessions account_sessions_update se_id se_version (se_id s) (se_version s) (\<lambda>_. True) (revoke_session now) d =
        Inr (account_sessions_update (\<lambda>_. tbl_update (\<lambda>x. se_id x = se_id s) (revoke_session now) (account_sessions d)) d)"
      using session(2) by (simp add: cas_row_public_Inr)
    show ?thesis
      using True session(2) audit by (simp add: revokeAccountSessionTx_def cas appendPublicAccountAudit_def insert_row_eval)
  next
    case False
    then show ?thesis by (simp add: revokeAccountSessionTx_def)
  qed
  then obtain d' where rev: "revokeAccountSessionTx s now ''backend'' ''refresh_replay'' d = Inr d'" ..
  note eff = yieldsD [OF revoke_effect [OF u session(1)] rev]
  have "RotatePublicAccountRefresh now old new d = (Inl ErrNotFound, d')"
    using hashes token session(1) rev
    by (simp add: RotatePublicAccountRefresh_def commit_or_reject_def rotate_refresh_def readAccountSession_def)
  moreover have "account_refresh_tokens d' = account_refresh_tokens d"
    using eff by (metis db.select_convs(26) db.surjective db.update_convs(25) db.update_convs(28))
  moreover from eff obtain s' where "tfind se_id (se_id s) (account_sessions d') = Some s'" "se_state s' \<noteq> SessionActive"
    unfolding sid by blast
  ultimately show ?thesis using inactive_unauthorized by blast
qed


text \<open>
  Revoking a session is final and idempotent. After a successful revocation no
  request is authorised for the session, and revoking it again succeeds without
  changing anything.
\<close>

theorem revoke_final:
  assumes ok: "RevokePublicAccountSession now sid product d = Inr d'" and keys: "db_keys d"
  shows "authorizedPublicAccountSession d' sid product' now' = Inl ErrNotFound \<and>
    RevokePublicAccountSession now'' sid product d' = Inr d'"
proof -
  from ok obtain s where v: "ValidUUID sid" "ValidProductID product"
    and s: "tfind se_id sid (account_sessions d) = Some s" "se_product_id s = product"
    and rev: "revokeAccountSessionTx s now ''backend'' ''self'' d = Inr d'"
    by (auto simp: RevokePublicAccountSession_def split: if_splits)
  have u: "uniq se_id (account_sessions d)" using keys by (rule table_uniq)
  from yieldsD [OF revoke_effect [OF u s(1)] rev] obtain s' where
    s': "tfind se_id sid (account_sessions d') = Some s'" "se_state s' \<noteq> SessionActive" by blast
  have "se_product_id s' = product"
    using yieldsD [OF revoke_product [OF u s(1)] rev] s s'(1) by simp
  with v s' show ?thesis
    by (simp add: inactive_unauthorized RevokePublicAccountSession_def readAccountSession_def revokeAccountSessionTx_def)
qed

text \<open>
  Profile updates are optimistic. A successful update stores and returns the
  profile with the declared role, the normalised region and the next version, and a
  second update through the same session that names the same expected version fails.
\<close>

theorem profile_update_optimistic:
  assumes ok: "UpdatePublicAccountProfile now sid product v holder country region d = Inr (p, d')" and keys: "db_keys d"
  shows "readProductAccount d' product (pp_account_id p) = Inr p \<and> pp_version p = v + 1 \<and> pp_holder_role p = holder \<and>
    NormalizeDeclaredRegion country region = Inr (pp_country p, pp_region p) \<and>
    UpdatePublicAccountProfile now' sid product v holder' country' region' d' \<noteq> Inr y"
proof -
  have u: "uniq pp_key (product_accounts d)" using keys by (rule table_uniq)
  from ok obtain c r s q where nr: "NormalizeDeclaredRegion country region = Inr (c, r)"
    and auth: "authorizedPublicAccountSession d sid product (trunc_us now) = Inr (s, q)"
    and q: "pp_version q = v" and p: "p = set_profile (holder, c, r, trunc_us now) q"
    by (auto simp: UpdatePublicAccountProfile_def Let_def split: if_splits)
  note a = authorized_session_facts [OF auth]
  have k: "pp_product_id q = product" "pp_account_id q = se_account_id s"
    using tfind_key [OF a(5)] by (simp_all add: pp_key_def)
  have eff: "yields (UpdatePublicAccountProfile now sid product v holder country region d) (\<lambda>(x, d').
      product_accounts d' = tbl_update (\<lambda>x. pp_key x = (product, se_account_id s)) (set_profile (holder, c, r, trunc_us now)) (product_accounts d) \<and>
      account_sessions d' = account_sessions d)"
    using nr auth u k
    by (auto simp: UpdatePublicAccountProfile_def Let_def appendPublicAccountAudit_def row_wp intro!: cas_row_public_yields)
  note e = yieldsD [OF eff ok, simplified]
  have stored: "tfind pp_key (product, se_account_id s) (product_accounts d') = Some p"
    using e a(5) p by (simp add: tfind_update_at)
  have ver: "pp_version p = v + 1" using q by (simp add: p set_profile_def)
  have "pp_version q' = v + 1"
    if "authorizedPublicAccountSession d' sid product t = Inr (s', q')" for t s' q'
    using authorized_session_facts [OF that] e a(1) stored ver by simp
  then have "UpdatePublicAccountProfile now' sid product v holder' country' region' d' \<noteq> Inr y"
    by (auto simp: UpdatePublicAccountProfile_def Let_def split: if_splits)
  with stored ver nr k p show ?thesis by (simp add: readProductAccount_def set_profile_def)
qed

section \<open>Witnesses\<close>

definition sample_session :: account_session where
  "sample_session = \<lparr>se_id = sample_uuid, se_product_id = ''pict'', se_account_id = ''a'', se_installation_id = sample_uuid,
     se_state = SessionActive, se_created_at = second, se_expires_at = 900 * second, se_revoked_at = None, se_version = 1\<rparr>"

definition sample_refresh :: account_refresh where
  "sample_refresh = \<lparr>rt_hash = replicate 32 CHR ''r'', rt_session_id = sample_uuid, rt_issued_at = second,
     rt_expires_at = 900 * second, rt_consumed_at = None, rt_version = 1\<rparr>"

definition sample_profile :: product_account where
  "sample_profile = \<lparr>pp_product_id = ''pict'', pp_account_id = ''a'', pp_email_identity_id = ''e'', pp_holder_role = ''self'',
     pp_country = '''', pp_region = '''', pp_status = ''active'', pp_verified_at = second, pp_created_at = second,
     pp_updated_at = second, pp_version = 1\<rparr>"

definition session_db :: db where
  "session_db = empty_db\<lparr>
     persons := [\<lparr>p_id = ''p'', p_age_category = ''unknown'', p_guardian_relationship = None, p_created_at = 0,
       p_deleted_at = None, p_version = 1\<rparr>],
     email_identities := [\<lparr>ei_id = ''e'', ei_person_id = ''p'', ei_product_id = ''pict'', ei_namespace = ''account'',
       ei_linkage_scope = ''product'', ei_scope_key = ''pict'', ei_email = empty_cipher, ei_verified_at = second,
       ei_created_at = 0, ei_version = 1\<rparr>],
     accounts := [\<lparr>a_id = ''a'', a_person_id = ''p'', a_status = ''active'', a_created_at = 0,
       a_last_authenticated_at = None, a_version = 1\<rparr>],
     product_installations := [(new_installation sample_installation 0)\<lparr>i_person_id := Some ''p''\<rparr>],
     public_registration_flows := [\<lparr>fl_product_id = ''pict'', fl_installation_id = sample_uuid, fl_challenge_id = ''c'',
       fl_session_id = Some sample_uuid, fl_updated_at = 0, fl_version = 1\<rparr>],
     product_accounts := [sample_profile], account_sessions := [sample_session],
     account_refresh_tokens := [sample_refresh]\<rparr>"

lemmas session_sample_defs = session_db_def sample_session_def sample_refresh_def sample_profile_def sample_installation_def
  new_installation_def empty_db_def duration_defs

lemma session_db_keys: "db_keys session_db"
  by (simp add: db_keys_def session_db_def empty_db_def)

lemma session_db_authorized:
  "authorizedPublicAccountSession session_db sample_uuid ''pict'' (2 * second) = Inr (sample_session, sample_profile)"
  by (simp add: authorizedPublicAccountSession_def readAccountSession_def ValidPublicSession_def account_person_def
      publicAccountDeletionPending_def readProductAccount_def linked_identity_def pp_key_def unix_def session_sample_defs)

theorem authorized_session_sound_witness: "se_state sample_session = SessionActive \<and> 2 * second < se_expires_at sample_session"
  using authorized_session_sound [OF session_db_authorized] by simp

definition replayed_db :: db where
  "replayed_db = session_db\<lparr>account_refresh_tokens := [consume_refresh second sample_refresh]\<rparr>"

theorem replay_revokes_family_witness:
  "\<exists>d'. RotatePublicAccountRefresh (2 * second) (replicate 32 CHR ''r'') (replicate 32 CHR ''n'') replayed_db = (Inl ErrNotFound, d') \<and>
     authorizedPublicAccountSession d' sample_uuid ''pict'' (3 * second) = Inl ErrNotFound"
proof -
  have keys: "db_keys replayed_db" by (simp add: db_keys_def replayed_db_def session_db_def empty_db_def)
  have t: "tfind rt_hash (replicate 32 CHR ''r'') (account_refresh_tokens replayed_db) = Some (consume_refresh second sample_refresh)"
    by (simp add: replayed_db_def sample_refresh_def)
  have s: "tfind se_id (rt_session_id (consume_refresh second sample_refresh)) (account_sessions replayed_db) = Some sample_session"
    by (simp add: replayed_db_def session_db_def sample_session_def sample_refresh_def consume_refresh_def)
  have "\<exists>d'. RotatePublicAccountRefresh (2 * second) (replicate 32 CHR ''r'') (replicate 32 CHR ''n'') replayed_db = (Inl ErrNotFound, d') \<and>
    (\<exists>s'. tfind se_id (se_id sample_session) (account_sessions d') = Some s' \<and> se_state s' \<noteq> SessionActive) \<and>
    (\<forall>product now'. authorizedPublicAccountSession d' (se_id sample_session) product now' = Inl ErrNotFound) \<and>
    account_refresh_tokens d' = account_refresh_tokens replayed_db"
    by (rule replay_revokes_family [OF keys _ _ _ t _ _ s])
       (simp_all add: consume_refresh_def replayed_db_def session_sample_defs replicate_eqI)
  then show ?thesis by (auto simp: sample_session_def)
qed


theorem revoke_final_witness:
  "\<exists>d'. RevokePublicAccountSession (2 * second) sample_uuid ''pict'' session_db = Inr d' \<and>
     authorizedPublicAccountSession d' sample_uuid ''pict'' (3 * second) = Inl ErrNotFound"
proof -
  have "\<exists>d'. RevokePublicAccountSession (2 * second) sample_uuid ''pict'' session_db = Inr d'"
    by (simp add: RevokePublicAccountSession_def readAccountSession_def revokeAccountSessionTx_def session_sample_defs
        sample_product_valid cas_row_public_def cas_public_def cas_update_def revoke_session_def appendPublicAccountAudit_def insert_row_eval)
  then obtain d' where ok: "RevokePublicAccountSession (2 * second) sample_uuid ''pict'' session_db = Inr d'" ..
  from revoke_final [OF ok session_db_keys] ok show ?thesis by blast
qed

theorem profile_update_optimistic_witness:
  "\<exists>p d'. UpdatePublicAccountProfile (2 * second) sample_uuid ''pict'' 1 ''representative'' '''' '''' session_db = Inr (p, d') \<and>
     readProductAccount d' ''pict'' (pp_account_id p) = Inr p"
proof -
  have "trunc_us (2 * second) = 2 * second" by (simp add: trunc_us_def duration_defs)
  then have "\<exists>p d'. UpdatePublicAccountProfile (2 * second) sample_uuid ''pict'' 1 ''representative'' '''' '''' session_db = Inr (p, d')"
    using session_db_authorized
    by (simp add: UpdatePublicAccountProfile_def sample_product_valid ValidHolderRole_def NormalizeDeclaredRegion_def to_upper_def Let_def)
       (simp add: session_sample_defs cas_row_public_def cas_public_def cas_update_def set_profile_def appendPublicAccountAudit_def
         insert_row_eval pp_key_def)
  then obtain p d' where ok: "UpdatePublicAccountProfile (2 * second) sample_uuid ''pict'' 1 ''representative'' '''' '''' session_db = Inr (p, d')"
    by blast
  from profile_update_optimistic [OF ok session_db_keys] ok show ?thesis by blast
qed

end
