(* ===== verification/Delivery_Store.thy ===== *)
theory Delivery_Store
  imports Session_Store
begin

text \<open>
  Delivery of challenge e-mails (\<^verbatim>\<open>public_email_delivery.go\<close>): a sender claims the
  oldest due challenge under a lease, and finishes it as delivered, failed or
  uncertain, or defers it after a definite rejection.  An expired lease is never
  retried: its challenge becomes uncertain.  \<^verbatim>\<open>publicEmailDeliveryError\<close> wraps an
  error without changing what \<^verbatim>\<open>errors.Is\<close> sees and is left out.
\<close>

section \<open>Model\<close>

definition validPublicEmailDeliveryProducts :: "string \<Rightarrow> string list \<Rightarrow> unit result" where
  "validPublicEmailDeliveryProducts owner products =
     (if \<not> ValidUUID owner \<or> 100 < length products then Inl ErrInvalid
      else if \<not> list_all ValidProductID products \<or> \<not> distinct products then Inl ErrInvalid
      else if products = [] then Inl ErrNotFound
      else Inr ())"

definition validPublicEmailDeliveryBinding :: "public_email_challenge \<Rightarrow> EmailVerification \<Rightarrow> bool" where
  "validPublicEmailDeliveryBinding c v \<longleftrightarrow>
     pc_id c = v_ID v \<and> pc_product_id c = v_ProductID v \<and> v_InstallationID v = Some (pc_installation_id c) \<and>
     pc_purpose c = ''product_registration'' \<and> v_Namespace v = ''account'' \<and> v_AgeCategory v = ''unknown'' \<and>
     v_GuardianRelationship v = None \<and> \<not> v_LinkAcrossProducts v \<and>
     v_VerifiedAt v = None \<and> v_VerifiedBy v = None \<and> v_ConsumedAt v = None \<and> v_ProcessingToken v = None \<and>
     v_ProcessingAt v = None \<and>
     0 < sint (pc_blind_index_version c) \<and> sint (pc_blind_index_version c) = v_BlindIndexVersion v \<and>
     length (pc_blind_index c) = 32 \<and> pc_blind_index c = v_BlindIndex v \<and>
     length (pc_code_hash c) = 32 \<and> validCipher (pc_code c) \<and> validCipher (v_EncryptedEmail v)"

definition validPublicEmailDeliveryOutcome :: "PublicChallengeState \<Rightarrow> bool" where
  "validPublicEmailDeliveryOutcome s \<longleftrightarrow> s = Delivered \<or> s = DeliveryFailed \<or> s = DeliveryUncertain"

definition publicEmailDeliveryAcknowledged :: "PublicChallengeState \<Rightarrow> bool" where
  "publicEmailDeliveryAcknowledged s \<longleftrightarrow>
     s = Consumed \<or> s = Locked \<or> s = Cancelled \<or> s = Expired \<or> s = Delivered \<or> s = DeliveryFailed \<or> s = DeliveryUncertain"

text \<open>The row effects.\<close>

definition claim_delivery :: "string \<times> time \<Rightarrow> public_email_challenge \<Rightarrow> public_email_challenge" where
  "claim_delivery p r = (case p of (owner, now) \<Rightarrow>
     r\<lparr>pc_state := Delivering, pc_mail_attempts := pc_mail_attempts r + 1, pc_mail_claim_token := Some owner,
       pc_mail_claim_until := Some (trunc_us (now + 90 * second)), pc_expires_at := trunc_us (now + PublicEmailCodeTTL),
       pc_updated_at := trunc_us now, pc_version := pc_version r + 1\<rparr>)"

definition defer_delivery :: "time \<times> time \<times> time \<Rightarrow> public_email_challenge \<Rightarrow> public_email_challenge" where
  "defer_delivery p r = (case p of (retryAt, deadline, now) \<Rightarrow>
     r\<lparr>pc_state := Requested, pc_mail_available_at := trunc_us retryAt, pc_expires_at := trunc_us deadline,
       pc_mail_claim_token := None, pc_mail_claim_until := None, pc_updated_at := trunc_us now, pc_version := pc_version r + 1\<rparr>)"

definition finish_delivery :: "PublicChallengeState \<times> bytes \<times> time \<Rightarrow> public_email_challenge \<Rightarrow> public_email_challenge" where
  "finish_delivery p r = (case p of (outcome, hash, now) \<Rightarrow>
     r\<lparr>pc_state := outcome, pc_code_hash := hash, pc_code := empty_cipher, pc_mail_claim_token := None,
       pc_mail_claim_until := None, pc_updated_at := trunc_us now, pc_version := pc_version r + 1\<rparr>)"

definition set_expiry :: "time \<Rightarrow> email_verification \<Rightarrow> email_verification" where
  "set_expiry expires r = r\<lparr>ev_expires_at := trunc_us expires, ev_version := ev_version r + 1\<rparr>"

definition setPublicDeliveryVerificationExpiry :: "EmailVerification \<Rightarrow> time \<Rightarrow> db \<Rightarrow> db result" where
  "setPublicDeliveryVerificationExpiry v expires d =
     (if v_Version v = - 1 then Inl ErrConflict
      else cas_row_public email_verifications email_verifications_update ev_id ev_version (v_ID v) (v_Version v)
             (\<lambda>r. ev_verified_at r = None \<and> ev_verified_by r = None \<and> ev_processing_token r = None \<and> ev_processing_at r = None)
             (set_expiry expires) d)"

definition finishPublicEmailDeliveryTx :: "public_email_challenge \<Rightarrow> PublicChallengeState \<Rightarrow> time \<Rightarrow> db \<Rightarrow> db result" where
  "finishPublicEmailDeliveryTx c outcome now d =
     (if \<not> validPublicEmailDeliveryOutcome outcome \<or> \<not> CanTransitionPublicChallenge (pc_state c) outcome then Inl ErrConflict
      else
        rbind (update_challenge (pc_id c) (pc_version c) (\<lambda>_. True)
                 (finish_delivery (outcome, if outcome = DeliveryFailed then [] else pc_code_hash c, now)) d) (\<lambda>d1.
        appendPublicAccountAudit (pc_id c @ ''-mail-'' @ FormatUint (pc_mail_attempts c)) (pc_product_id c) '''' ''sender''
          (''email.'' @ challenge_state_text outcome) (pc_id c) now d1))"

text \<open>\<^verbatim>\<open>ORDER BY created_at, id LIMIT 1\<close>, by two stable sorts.\<close>

definition queue_head :: "public_email_challenge list \<Rightarrow> public_email_challenge option" where
  "queue_head rows = (case sort_key pc_created_at (sort_key pc_id rows) of [] \<Rightarrow> None | c # _ \<Rightarrow> Some c)"

definition stale_claims :: "string list \<Rightarrow> time \<Rightarrow> db \<Rightarrow> public_email_challenge list" where
  "stale_claims products now d =
     filter (\<lambda>c. pc_state c = Delivering \<and> pc_product_id c \<in> set products \<and>
       (case pc_mail_claim_until c of None \<Rightarrow> True | Some t \<Rightarrow> t \<le> now)) (public_email_challenges d)"

definition due_requests :: "string list \<Rightarrow> time \<Rightarrow> db \<Rightarrow> public_email_challenge list" where
  "due_requests products now d =
     filter (\<lambda>c. pc_state c = Requested \<and> pc_product_id c \<in> set products \<and> pc_mail_available_at c \<le> now)
       (public_email_challenges d)"

definition finish_and_read ::
  "public_email_challenge \<Rightarrow> PublicChallengeState \<Rightarrow> time \<Rightarrow> db \<Rightarrow>
   ((public_email_challenge \<times> EmailVerification option) \<times> db) result"
where
  "finish_and_read c state now d =
     rbind (finishPublicChallengeTx c state now None d) (\<lambda>d1.
     rbind (readPublicChallenge d1 (pc_id c)) (\<lambda>saved. Inr ((saved, None), d1)))"

definition send_limits :: "uint64 \<Rightarrow> publicAuthLimit list" where
  "send_limits dailyLimit =
     [\<lparr>al_bucket = ''otp-send:daily'', al_window = 24 * hour, al_max = dailyLimit\<rparr>,
      \<lparr>al_bucket = ''otp-send:global'', al_window = second, al_max = 1\<rparr>]"

definition lease_challenge ::
  "time \<Rightarrow> string \<Rightarrow> uint64 \<Rightarrow> public_email_challenge \<Rightarrow> EmailVerification \<Rightarrow> db \<Rightarrow>
   ((public_email_challenge \<times> EmailVerification option) \<times> db) result"
where
  "lease_challenge now owner dailyLimit c v d =
     rbind (consumePublicAuthLimits now owner (send_limits dailyLimit) d) (\<lambda>d1.
     rbind (setPublicDeliveryVerificationExpiry v (now + PublicEmailCodeTTL) d1) (\<lambda>d2.
     rbind (update_challenge (pc_id c) (pc_version c) (\<lambda>_. True) (claim_delivery (owner, now)) d2) (\<lambda>d3.
     rbind (readPublicChallenge d3 (pc_id c)) (\<lambda>saved.
     Inr ((saved, Some (v\<lparr>v_ExpiresAt := now + PublicEmailCodeTTL, v_Version := v_Version v + 1\<rparr>)), d3)))))"

definition begin_delivery ::
  "time \<Rightarrow> string \<Rightarrow> uint64 \<Rightarrow> public_email_challenge \<Rightarrow> db \<Rightarrow>
   ((public_email_challenge \<times> EmailVerification option) \<times> db) result"
where
  "begin_delivery now owner dailyLimit c d =
     (case tfind fl_key (pc_product_id c, pc_installation_id c) (public_registration_flows d) of
        None \<Rightarrow> finish_and_read c Cancelled now d
      | Some flow \<Rightarrow>
          if fl_challenge_id flow \<noteq> pc_id c then finish_and_read c Cancelled now d
          else
            case validateSubjectWith d \<lparr>su_Kind = ''installation'', su_ID = pc_installation_id c\<rparr> (pc_product_id c) of
              Inl e \<Rightarrow> if e = ErrNotFound then finish_and_read c Cancelled now d else Inl e
            | Inr _ \<Rightarrow>
                if \<not> now < pc_expires_at c then finish_and_read c Expired now d
                else
                  (case readEmailVerification d (pc_id c) of
                     Inl e \<Rightarrow> if e = ErrNotFound then finish_and_read c Cancelled now d else Inl e
                   | Inr v \<Rightarrow>
                       if \<not> now < v_ExpiresAt v then finish_and_read c Expired now d
                       else if \<not> validPublicEmailDeliveryBinding c v \<or> pc_mail_attempts c = - 1 then Inl ErrConflict
                       else lease_challenge now owner dailyLimit c v d))"

definition ClaimPublicEmailDelivery ::
  "time \<Rightarrow> string \<Rightarrow> string list \<Rightarrow> uint64 \<Rightarrow> db \<Rightarrow>
   ((public_email_challenge \<times> EmailVerification option) \<times> db) result"
where
  "ClaimPublicEmailDelivery now0 owner products dailyLimit d =
     (if dailyLimit = 0 \<or> 10000 < dailyLimit then Inl ErrInvalid
      else
        rbind (validPublicEmailDeliveryProducts owner products) (\<lambda>_.
        let now = trunc_us now0 in
        case queue_head (stale_claims products now d) of
          Some row \<Rightarrow>
            rbind (scanPublicChallenge row) (\<lambda>c.
            rbind (finishPublicEmailDeliveryTx c DeliveryUncertain now d) (\<lambda>d1.
            rbind (readPublicChallenge d1 (pc_id c)) (\<lambda>saved. Inr ((saved, None), d1))))
        | None \<Rightarrow>
            rbind (some_or ErrNotFound (queue_head (due_requests products now d))) (\<lambda>row.
            rbind (scanPublicChallenge row) (\<lambda>c. begin_delivery now owner dailyLimit c d))))"

definition DeferPublicEmailDelivery :: "time \<Rightarrow> string \<Rightarrow> string \<Rightarrow> time \<Rightarrow> db \<Rightarrow> db result" where
  "DeferPublicEmailDelivery now0 challengeID owner retryAt d =
     (if \<not> ValidUUID challengeID \<or> \<not> ValidUUID owner then Inl ErrInvalid
      else
        let now = trunc_us now0 in
        if \<not> now < retryAt \<or> now + 24 * hour < retryAt then Inl ErrInvalid
        else
          rbind (readPublicChallenge d challengeID) (\<lambda>c.
          if publicEmailDeliveryAcknowledged (pc_state c) then Inr d
          else if pc_state c \<noteq> Delivering \<or> pc_mail_claim_token c \<noteq> Some owner then Inl ErrConflict
          else
            rbind (readEmailVerification d (pc_id c)) (\<lambda>v.
            if \<not> validPublicEmailDeliveryBinding c v then Inl ErrConflict
            else
              let deadline = pc_created_at c + PublicEmailQueueTTL in
              if \<not> now < deadline \<or> \<not> retryAt < deadline then finishPublicChallengeTx c Expired now None d
              else
                rbind (setPublicDeliveryVerificationExpiry v deadline d) (\<lambda>d1.
                rbind (update_challenge (pc_id c) (pc_version c)
                         (\<lambda>r. pc_state r = Delivering \<and> pc_mail_claim_token r = Some owner)
                         (defer_delivery (retryAt, deadline, now)) d1) (\<lambda>d2.
                appendPublicAccountAudit (pc_id c @ ''-deferred-'' @ FormatUint (pc_mail_attempts c)) (pc_product_id c) ''''
                  ''sender'' ''email.delivery_deferred'' (pc_id c) now d2)))))"

definition FinishPublicEmailDelivery :: "time \<Rightarrow> string \<Rightarrow> string \<Rightarrow> PublicChallengeState \<Rightarrow> db \<Rightarrow> db result" where
  "FinishPublicEmailDelivery now challengeID owner outcome d =
     (if \<not> ValidUUID challengeID \<or> \<not> ValidUUID owner \<or> \<not> validPublicEmailDeliveryOutcome outcome then Inl ErrInvalid
      else
        rbind (readPublicChallenge d challengeID) (\<lambda>c.
        if publicEmailDeliveryAcknowledged (pc_state c) then Inr d
        else if pc_state c \<noteq> Delivering \<or> pc_mail_claim_token c \<noteq> Some owner then Inl ErrConflict
        else finishPublicEmailDeliveryTx c outcome (trunc_us now) d))"

section \<open>Laws\<close>

interpretation delivery_claim: versioned_update pc_id pc_version claim_delivery
  by unfold_locales (auto simp: claim_delivery_def split: prod.splits)

interpretation delivery_defer: versioned_update pc_id pc_version defer_delivery
  by unfold_locales (auto simp: defer_delivery_def split: prod.splits)

interpretation delivery_finish: versioned_update pc_id pc_version finish_delivery
  by unfold_locales (auto simp: finish_delivery_def split: prod.splits)

interpretation verification_expiry: versioned_update ev_id ev_version set_expiry
  by unfold_locales (simp_all add: set_expiry_def)

lemma setPublicDeliveryVerificationExpiry_keys [keys_intro]:
  "db_keys d \<Longrightarrow> (\<And>d'. db_keys d' \<Longrightarrow> P d') \<Longrightarrow> yields (setPublicDeliveryVerificationExpiry v t d) P"
  by (auto simp: setPublicDeliveryVerificationExpiry_def intro!: keys_intro)

lemma finishPublicEmailDeliveryTx_keys [keys_intro]:
  "db_keys d \<Longrightarrow> (\<And>d'. db_keys d' \<Longrightarrow> P d') \<Longrightarrow> yields (finishPublicEmailDeliveryTx c s now d) P"
  by (auto simp: finishPublicEmailDeliveryTx_def intro!: keys_intro)

lemma delivery_read_yields [keys_intro]:
  "(\<And>x. P x) \<Longrightarrow> yields (readPublicChallenge d i) P"
  "(\<And>x. Q x) \<Longrightarrow> yields (readEmailVerification d i) Q"
  "(\<And>x. R x) \<Longrightarrow> yields (scanPublicChallenge row) R"
  "(\<And>x. S x) \<Longrightarrow> yields (validPublicEmailDeliveryProducts owner ps) S"
  by (auto intro: yields_any)

lemma finish_and_read_keys: "db_keys d \<Longrightarrow> yields (finish_and_read c s now d) (\<lambda>(x, d'). db_keys d')"
  by (auto simp: finish_and_read_def intro!: keys_intro)

lemma lease_challenge_keys: "db_keys d \<Longrightarrow> yields (lease_challenge now owner lim c v d) (\<lambda>(x, d'). db_keys d')"
  by (auto simp: lease_challenge_def intro!: keys_intro)

lemma begin_delivery_keys: "db_keys d \<Longrightarrow> yields (begin_delivery now owner lim c d) (\<lambda>(x, d'). db_keys d')"
  by (auto simp: begin_delivery_def intro: finish_and_read_keys lease_challenge_keys split: option.splits sum.splits)

lemma ClaimPublicEmailDelivery_keys:
  "db_keys d \<Longrightarrow> yields (ClaimPublicEmailDelivery now owner ps lim d) (\<lambda>(x, d'). db_keys d')"
  by (auto simp: ClaimPublicEmailDelivery_def Let_def intro!: keys_intro begin_delivery_keys split: option.splits)

lemma DeferPublicEmailDelivery_keys: "db_keys d \<Longrightarrow> yields (DeferPublicEmailDelivery now i owner t d) db_keys"
  by (auto simp: DeferPublicEmailDelivery_def Let_def intro!: keys_intro)

lemma FinishPublicEmailDelivery_keys: "db_keys d \<Longrightarrow> yields (FinishPublicEmailDelivery now i owner s d) db_keys"
  by (auto simp: FinishPublicEmailDelivery_def intro!: keys_intro)

lemma queue_head_mem: "queue_head rows = Some c \<Longrightarrow> c \<in> set rows"
proof -
  assume "queue_head rows = Some c"
  then obtain cs where "sort_key pc_created_at (sort_key pc_id rows) = c # cs"
    by (auto simp: queue_head_def split: list.splits)
  then have "c \<in> set (sort_key pc_created_at (sort_key pc_id rows))" by (metis list.set_intros(1))
  then show ?thesis by simp
qed

lemma queue_head_None: "queue_head rows = None \<longleftrightarrow> rows = []"
proof -
  have "sort_key pc_created_at (sort_key pc_id rows) = [] \<longleftrightarrow> rows = []"
    by (metis length_0_conv length_sort)
  then show ?thesis by (auto simp: queue_head_def split: list.splits)
qed

lemma scanPublicChallenge_Inr: "scanPublicChallenge row = Inr c \<Longrightarrow> c = row"
  by (auto simp: scanPublicChallenge_def split: if_splits)

lemma read_challenge_yields:
  "(\<And>x. readPublicChallenge d i = Inr x \<Longrightarrow> P x) \<Longrightarrow> yields (readPublicChallenge d i) P"
  by (auto simp: yields_def)

text \<open>The read-back after an update returns the updated row.\<close>

lemma read_updated:
  assumes "readPublicChallenge d' i = Inr saved" and "tfind pc_id i cs = Some c" and "\<And>r. pc_id (f r) = pc_id r"
    and "public_email_challenges d' = tbl_update (\<lambda>x. pc_id x = i) f cs"
  shows "saved = f c"
  using assms by (simp add: readPublicChallenge_Inr tfind_update_at)

lemma lease_effect:
  assumes u: "uniq pc_id (public_email_challenges d)" "uniq ev_id (email_verifications d)"
  shows "yields (lease_challenge now owner lim c v d) (\<lambda>((saved, v'), d').
    public_email_challenges d' = tbl_update (\<lambda>x. pc_id x = pc_id c) (claim_delivery (owner, now)) (public_email_challenges d) \<and>
    readPublicChallenge d' (pc_id c) = Inr saved)"
  unfolding lease_challenge_def setPublicDeliveryVerificationExpiry_def
  using u by (auto intro!: consume_limits_frame cas_row_public_yields read_challenge_yields)

lemma begin_delivery_leases:
  assumes "begin_delivery now owner lim c d = Inr ((saved, Some v), d')"
  obtains flow w where "tfind fl_key (pc_product_id c, pc_installation_id c) (public_registration_flows d) = Some flow"
    and "fl_challenge_id flow = pc_id c" and "now < pc_expires_at c"
    and "validPublicEmailDeliveryBinding c w" and "readEmailVerification d (pc_id c) = Inr w" and "now < v_ExpiresAt w"
    and "lease_challenge now owner lim c w d = Inr ((saved, Some v), d')"
  using assms
  by (auto simp: begin_delivery_def finish_and_read_def split: option.splits sum.splits if_splits)

text \<open>What a claim that hands out a challenge has found and done.\<close>

lemma claim_leases:
  assumes ok: "ClaimPublicEmailDelivery now owner products lim d = Inr ((c, Some v), d')" and keys: "db_keys d"
  obtains c0 flow w where "stale_claims products (trunc_us now) d = []"
    and "tfind pc_id (pc_id c0) (public_email_challenges d) = Some c0" and "pc_state c0 = Requested" and "pc_product_id c0 \<in> set products"
    and "trunc_us now < pc_expires_at c0"
    and "tfind fl_key (pc_product_id c0, pc_installation_id c0) (public_registration_flows d) = Some flow" and "fl_challenge_id flow = pc_id c0"
    and "readEmailVerification d (pc_id c0) = Inr w" and "validPublicEmailDeliveryBinding c0 w"
    and "c = claim_delivery (owner, trunc_us now) c0"
    and "v = w\<lparr>v_ExpiresAt := trunc_us now + PublicEmailCodeTTL, v_Version := v_Version w + 1\<rparr>"
    and "\<forall>j. tfind pc_id j (public_email_challenges d') = (if j = pc_id c0 then Some c else tfind pc_id j (public_email_challenges d))"
    and "readPublicChallenge d' (pc_id c0) = Inr c"
proof -
  let ?now = "trunc_us now"
  have u: "uniq pc_id (public_email_challenges d)" "uniq ev_id (email_verifications d)" using keys by (rule table_uniq)+
  from ok obtain c0 where none: "queue_head (stale_claims products ?now d) = None"
    and c0: "queue_head (due_requests products ?now d) = Some c0"
    and b: "begin_delivery ?now owner lim c0 d = Inr ((c, Some v), d')"
    by (auto simp: ClaimPublicEmailDelivery_def Let_def dest!: scanPublicChallenge_Inr split: option.splits if_splits)
  from queue_head_mem [OF c0] have m: "c0 \<in> set (public_email_challenges d)" "pc_state c0 = Requested" "pc_product_id c0 \<in> set products"
    by (auto simp: due_requests_def)
  have f: "tfind pc_id (pc_id c0) (public_email_challenges d) = Some c0" using u(1) m(1) by (rule uniq_mem_tfind)
  from b obtain flow w where flow: "tfind fl_key (pc_product_id c0, pc_installation_id c0) (public_registration_flows d) = Some flow"
      "fl_challenge_id flow = pc_id c0" and exp: "?now < pc_expires_at c0" and bind: "validPublicEmailDeliveryBinding c0 w"
    and w: "readEmailVerification d (pc_id c0) = Inr w"
    and lease: "lease_challenge ?now owner lim c0 w d = Inr ((c, Some v), d')"
    by (rule begin_delivery_leases)
  note e = yieldsD [OF lease_effect [OF u] lease, simplified]
  have c: "c = claim_delivery (owner, ?now) c0"
    using e f by (intro read_updated [where d' = d' and i = "pc_id c0"]) auto
  have v: "v = w\<lparr>v_ExpiresAt := ?now + PublicEmailCodeTTL, v_Version := v_Version w + 1\<rparr>" using lease by (auto simp: lease_challenge_def)
  have rows: "\<forall>j. tfind pc_id j (public_email_challenges d') = (if j = pc_id c0 then Some c else tfind pc_id j (public_email_challenges d))"
    using e f by (simp add: tfind_update_at c)
  show thesis by (rule that [OF _ f m(2,3) exp flow w bind c v rows]) (use none e in \<open>simp_all add: queue_head_None\<close>)
qed

section \<open>Properties\<close>


text \<open>
  A delivery whose lease has expired is closed as uncertain. If any such
  delivery of the sender's products exists, a claim hands out nothing to send: the
  returned challenge is uncertain, keeps its code hash so that a received code still
  works, and has its sealed code erased.
\<close>

theorem stale_claim_uncertain:
  assumes ok: "ClaimPublicEmailDelivery now owner products lim d = Inr ((c, v), d')" and keys: "db_keys d"
    and stale: "stale_claims products (trunc_us now) d \<noteq> []"
  shows "v = None \<and> pc_state c = DeliveryUncertain \<and> pc_code c = empty_cipher \<and> pc_mail_claim_token c = None \<and>
    (\<exists>c0 \<in> set (stale_claims products (trunc_us now) d). pc_id c = pc_id c0 \<and> pc_code_hash c = pc_code_hash c0) \<and>
    tfind pc_id (pc_id c) (public_email_challenges d') = Some c"
proof -
  let ?now = "trunc_us now"
  have u: "uniq pc_id (public_email_challenges d)" using keys by (rule table_uniq)
  from ok stale obtain c0 where c0: "queue_head (stale_claims products ?now d) = Some c0" and v: "v = None"
    and fin: "finishPublicEmailDeliveryTx c0 DeliveryUncertain ?now d = Inr d'" and rd: "readPublicChallenge d' (pc_id c0) = Inr c"
    by (auto simp: ClaimPublicEmailDelivery_def Let_def queue_head_None dest!: scanPublicChallenge_Inr split: option.splits if_splits)
  note m = queue_head_mem [OF c0]
  then have mem: "c0 \<in> set (public_email_challenges d)" by (simp add: stale_claims_def)
  have f: "tfind pc_id (pc_id c0) (public_email_challenges d) = Some c0" using u mem by (rule uniq_mem_tfind)
  have cs: "public_email_challenges d' =
      tbl_update (\<lambda>x. pc_id x = pc_id c0) (finish_delivery (DeliveryUncertain, pc_code_hash c0, ?now)) (public_email_challenges d)"
    using fin u by (auto simp: finishPublicEmailDeliveryTx_def update_challenge_Inr appendPublicAccountAudit_def row_ops split: if_splits)
  have c: "c = finish_delivery (DeliveryUncertain, pc_code_hash c0, ?now) c0"
    using rd f cs by (intro read_updated [where d' = d' and i = "pc_id c0"]) auto
  from rd have "tfind pc_id (pc_id c0) (public_email_challenges d') = Some c" by (simp add: readPublicChallenge_Inr)
  with v m c show ?thesis by (auto simp: finish_delivery_def)
qed

text \<open>
  Only the lease holder finishes a delivery, and finishing is idempotent. A
  successful call either found the delivery already acknowledged and changed
  nothing, or moved its own claimed delivery to the outcome, erasing the sealed code
  (and, after a definite failure, the code hash); repeating it changes nothing.
\<close>

theorem finish_delivery_idempotent:
  assumes ok: "FinishPublicEmailDelivery now i owner outcome d = Inr d'" and keys: "db_keys d"
  shows "(\<exists>c. tfind pc_id i (public_email_challenges d) = Some c \<and>
      (publicEmailDeliveryAcknowledged (pc_state c) \<and> d' = d \<or>
       pc_state c = Delivering \<and> pc_mail_claim_token c = Some owner \<and>
       tfind pc_id i (public_email_challenges d') =
         Some (finish_delivery (outcome, if outcome = DeliveryFailed then [] else pc_code_hash c, trunc_us now) c))) \<and>
    FinishPublicEmailDelivery now' i owner' outcome' d' = (if ValidUUID owner' \<and> validPublicEmailDeliveryOutcome outcome' then Inr d' else Inl ErrInvalid)"
proof -
  have u: "uniq pc_id (public_email_challenges d)" using keys by (rule table_uniq)
  from ok obtain c where v: "ValidUUID i" "validPublicEmailDeliveryOutcome outcome"
    and c: "tfind pc_id i (public_email_challenges d) = Some c" "uint (pc_blind_index_version c) \<le> 2 ^ 63 - 1"
    and cs: "publicEmailDeliveryAcknowledged (pc_state c) \<and> d' = d \<or>
      pc_state c = Delivering \<and> pc_mail_claim_token c = Some owner \<and> finishPublicEmailDeliveryTx c outcome (trunc_us now) d = Inr d'"
    by (auto simp: FinishPublicEmailDelivery_def readPublicChallenge_Inr split: if_splits)
  have i: "pc_id c = i" using c(1) by (rule tfind_key)
  let ?f = "finish_delivery (outcome, if outcome = DeliveryFailed then [] else pc_code_hash c, trunc_us now)"
  have fin: "tfind pc_id i (public_email_challenges d') = Some (?f c)"
    if "finishPublicEmailDeliveryTx c outcome (trunc_us now) d = Inr d'"
    using that u c(1) i
    by (auto simp: finishPublicEmailDeliveryTx_def update_challenge_Inr appendPublicAccountAudit_def row_ops tfind_update_at split: if_splits)
  have "publicEmailDeliveryAcknowledged (pc_state (?f c))" "pc_blind_index_version (?f c) = pc_blind_index_version c"
    using v(2) by (auto simp: finish_delivery_def validPublicEmailDeliveryOutcome_def publicEmailDeliveryAcknowledged_def)
  with cs c fin obtain c' where "readPublicChallenge d' i = Inr c'" "publicEmailDeliveryAcknowledged (pc_state c')"
    by (auto simp: readPublicChallenge_Inr)
  then have "FinishPublicEmailDelivery now' i owner' outcome' d' =
      (if ValidUUID owner' \<and> validPublicEmailDeliveryOutcome outcome' then Inr d' else Inl ErrInvalid)"
    using v(1) by (simp add: FinishPublicEmailDelivery_def)
  with c cs fin show ?thesis by blast
qed

section \<open>Witnesses\<close>

definition delivery_db :: "public_email_challenge \<Rightarrow> db" where
  "delivery_db c = sample_db\<lparr>public_email_challenges := [c],
     public_registration_flows := [new_flow second sample_challenge None 1],
     email_verifications := [new_verification second challenge_verification]\<rparr>"

lemma delivery_db_keys: "db_keys (delivery_db c)"
  by (simp add: db_keys_def delivery_db_def sample_db_def empty_db_def)

lemma send_limits_ok: "limits_ok (sort_key al_bucket (send_limits 5))"
proof -
  have "valid_limit l" if "l \<in> set (send_limits 5)" for l
  proof -
    have p: "33 \<le> code c \<and> code c \<le> 126 \<and> c \<noteq> CHR ''@''" if "c \<in> set (al_bucket l)" for c
      using that \<open>l \<in> set (send_limits 5)\<close> by (auto simp: send_limits_def)
    then have "utf8_valid (al_bucket l)" "\<not> has_control (al_bucket l)" "trim_space (al_bucket l) = al_bucket l"
      using printable_clean [of "al_bucket l"] by blast+
    moreover have "CHR ''@'' \<notin> set (al_bucket l)" using p by blast
    ultimately show ?thesis using that by (auto simp: valid_limit_def send_limits_def duration_defs)
  qed
  then show ?thesis by (simp add: send_limits_def)
qed

lemma sample_sint: "sint (1 :: uint64) = 1"
  by simp

lemma delivery_binding:
  "readEmailVerification (delivery_db c) sample_uuid = Inr (verification_of_row (new_verification second challenge_verification))"
  "validPublicEmailDeliveryBinding sample_challenge (verification_of_row (new_verification second challenge_verification))"
  by (simp_all add: readEmailVerification_def delivery_db_def new_verification_def challenge_verification_def
      sample_verification_def validPublicEmailDeliveryBinding_def verification_of_row_def sample_challenge_def
      validCipher_def sample_cipher_def)

lemma delivery_lease:
  "\<exists>c v d'. lease_challenge (2 * second) sample_uuid 5 sample_challenge
     (verification_of_row (new_verification second challenge_verification)) (delivery_db sample_challenge) = Inr ((c, Some v), d')"
proof -
  have "\<exists>es. consumePublicAuthLimits (2 * second) sample_uuid (send_limits 5) (delivery_db sample_challenge) =
      Inr ((delivery_db sample_challenge)\<lparr>public_auth_events := es\<rparr>)"
    by (rule consume_first [OF _ _ _ _ _ send_limits_ok])
       (simp_all add: delivery_db_def sample_db_def empty_db_def is_zero_def zero_time_def duration_defs send_limits_def)
  then obtain es where es: "consumePublicAuthLimits (2 * second) sample_uuid (send_limits 5) (delivery_db sample_challenge) =
      Inr ((delivery_db sample_challenge)\<lparr>public_auth_events := es\<rparr>)" ..
  show ?thesis
    unfolding lease_challenge_def es rbind_simps
    by (simp add: setPublicDeliveryVerificationExpiry_def cas_row_public_def cas_public_def cas_update_def delivery_db_def
        verification_of_row_def new_verification_def challenge_verification_def sample_verification_def set_expiry_def
        sample_challenge_def claim_delivery_def readPublicChallenge_def scanPublicChallenge_def tbl_update_def)
qed


definition leased_challenge :: public_email_challenge where
  "leased_challenge = claim_delivery (sample_uuid, 2 * second) sample_challenge"

theorem stale_claim_uncertain_witness:
  "\<exists>c v d'. ClaimPublicEmailDelivery (200 * second) sample_uuid [''pict''] 5 (delivery_db leased_challenge) = Inr ((c, v), d') \<and>
     pc_state c = DeliveryUncertain"
proof -
  have st: "stale_claims [''pict''] (trunc_us (200 * second)) (delivery_db leased_challenge) = [leased_challenge]"
    by (simp add: stale_claims_def delivery_db_def leased_challenge_def claim_delivery_def sample_challenge_def duration_defs trunc_us_def)
  have "\<exists>c v d'. ClaimPublicEmailDelivery (200 * second) sample_uuid [''pict''] 5 (delivery_db leased_challenge) = Inr ((c, v), d')"
    by (simp add: ClaimPublicEmailDelivery_def st validPublicEmailDeliveryProducts_def sample_product_valid queue_head_def)
       (simp add: scanPublicChallenge_def finishPublicEmailDeliveryTx_def validPublicEmailDeliveryOutcome_def delivery_db_def
         leased_challenge_def claim_delivery_def sample_challenge_def cas_row_public_def cas_public_def cas_update_def
         finish_delivery_def appendPublicAccountAudit_def insert_row_eval sample_db_def empty_db_def readPublicChallenge_def tbl_update_def)
  then obtain c v d' where ok: "ClaimPublicEmailDelivery (200 * second) sample_uuid [''pict''] 5 (delivery_db leased_challenge) = Inr ((c, v), d')"
    by blast
  from stale_claim_uncertain [OF ok delivery_db_keys] st ok show ?thesis by auto
qed

theorem finish_delivery_idempotent_witness:
  "\<exists>d'. FinishPublicEmailDelivery (3 * second) sample_uuid sample_uuid Delivered (delivery_db leased_challenge) = Inr d' \<and>
     FinishPublicEmailDelivery (4 * second) sample_uuid sample_uuid DeliveryFailed d' = Inr d'"
proof -
  have "\<exists>d'. FinishPublicEmailDelivery (3 * second) sample_uuid sample_uuid Delivered (delivery_db leased_challenge) = Inr d'"
    by (simp add: FinishPublicEmailDelivery_def scanPublicChallenge_def finishPublicEmailDeliveryTx_def validPublicEmailDeliveryOutcome_def
         publicEmailDeliveryAcknowledged_def delivery_db_def leased_challenge_def claim_delivery_def sample_challenge_def
         cas_row_public_def cas_public_def cas_update_def finish_delivery_def appendPublicAccountAudit_def insert_row_eval
         sample_db_def empty_db_def readPublicChallenge_def)
  then obtain d' where ok: "FinishPublicEmailDelivery (3 * second) sample_uuid sample_uuid Delivered (delivery_db leased_challenge) = Inr d'" ..
  from finish_delivery_idempotent [OF ok delivery_db_keys, of "4 * second" sample_uuid DeliveryFailed] ok show ?thesis
    by (auto simp: validPublicEmailDeliveryOutcome_def)
qed

end
