(* ===== verification/Completion_Store.thy ===== *)
theory Completion_Store
  imports Delivery_Store
begin

text \<open>
  Completion of a challenge (\<^verbatim>\<open>public_email_completion.go\<close>): the proof of the code,
  the registration of the identity, the product profile, the device session with its
  first refresh token and the consumption of the challenge commit in one
  transaction; a rejected code commits only the bounded attempt counter.  Also the
  bounded clean-up of transient state (\<^verbatim>\<open>public_account_cleanup.go\<close>).
\<close>

section \<open>Model\<close>

record PublicEmailCompletion =
  cm_ChallengeID :: string
  cm_ProductID :: string
  cm_InstallationID :: string
  cm_OTPKeyID :: string
  cm_NonceHash :: bytes
  cm_CodeHash :: bytes
  cm_Identity :: NewEmailIdentity
  cm_Indexes :: "BlindIndex list"
  cm_SessionID :: string
  cm_RefreshHash :: bytes
  cm_RefreshExpiresAt :: time

record PublicEmailRegistration =
  rg_Identity :: EmailIdentity
  rg_Account :: product_account
  rg_Session :: account_session

definition registerPublicProductAccount ::
  "public_email_challenge \<Rightarrow> EmailIdentity \<Rightarrow> time \<Rightarrow> time \<Rightarrow> db \<Rightarrow> (product_account \<times> db) result"
where
  "registerPublicProductAccount c identity verifiedAt now d =
     rbind (case readProductAccount d (pc_product_id c) (er_AccountID identity) of
        Inl e \<Rightarrow>
          if e \<noteq> ErrNotFound then Inl e
          else Inr \<lparr>pp_product_id = pc_product_id c, pp_account_id = er_AccountID identity,
                    pp_email_identity_id = er_IdentityID identity, pp_holder_role = pc_holder_role c, pp_country = '''',
                    pp_region = '''', pp_status = ''active'', pp_verified_at = verifiedAt, pp_created_at = now,
                    pp_updated_at = now, pp_version = 1\<rparr>
      | Inr profile \<Rightarrow>
          if pp_status profile \<noteq> ''active'' \<or> pp_email_identity_id profile \<noteq> er_IdentityID identity \<or> pp_version profile = - 1
          then Inl ErrNotFound
          else Inr (profile\<lparr>pp_holder_role := pc_holder_role c, pp_verified_at := verifiedAt, pp_updated_at := now,
                            pp_version := pp_version profile + 1\<rparr>)) (\<lambda>profile.
     Inr (profile, upsert_row product_accounts_update pp_key
            (profile\<lparr>pp_verified_at := trunc_us (pp_verified_at profile), pp_created_at := trunc_us (pp_created_at profile),
                     pp_updated_at := trunc_us (pp_updated_at profile)\<rparr>) d))"

text \<open>The proof: the verification is marked verified and claimed by the new session, and the identity registered.\<close>

definition set_proof :: "time \<times> string \<times> string \<times> time \<Rightarrow> email_verification \<Rightarrow> email_verification" where
  "set_proof p r = (case p of (verifiedAt, challengeID, claim, now) \<Rightarrow>
     r\<lparr>ev_verified_at := Some (trunc_us verifiedAt), ev_verified_by := Some ''public-email-otp'',
       ev_evidence_id := Some challengeID, ev_processing_token := Some claim, ev_processing_at := Some (trunc_us now),
       ev_version := ev_version r + 1\<rparr>)"

definition prove_email ::
  "time \<Rightarrow> PublicEmailCompletion \<Rightarrow> public_email_challenge \<Rightarrow> db \<Rightarrow> (EmailIdentity \<times> db) result"
where
  "prove_email now0 input c d =
     (let now = trunc_us now0; identity = cm_Identity input in
      if \<not> ValidUUID (cm_SessionID input) \<or> length (cm_RefreshHash input) \<noteq> 32 \<or> \<not> now < cm_RefreshExpiresAt input \<or>
         now + 90 * 24 * hour < cm_RefreshExpiresAt input \<or> \<not> ValidUUID (ni_ID identity) \<or> \<not> ValidUUID (ni_PersonID identity) \<or>
         \<not> ValidUUID (ni_AccountID identity) \<or> \<not> ni_CreateAccount identity \<or> is_zero (ni_VerifiedAt identity) \<or>
         ni_VerifiedAt identity < pc_created_at c \<or> now < ni_VerifiedAt identity
      then Inl ErrInvalid
      else
        rbind (readEmailVerification d (pc_id c)) (\<lambda>v.
        if v_Namespace v \<noteq> ''account'' \<or> v_AgeCategory v \<noteq> ''unknown'' \<or> v_GuardianRelationship v \<noteq> None \<or>
           v_LinkAcrossProducts v \<or> \<not> now < v_ExpiresAt v \<or> v_BlindIndexVersion v \<noteq> sint (pc_blind_index_version c) \<or>
           v_BlindIndex v \<noteq> pc_blind_index c \<or> v_Version v = - 1
        then Inl ErrNotFound
        else if \<not> verifiedEmailIdentityMatches (v\<lparr>v_VerifiedAt := Some (ni_VerifiedAt identity)\<rparr>) identity (cm_Indexes input)
        then Inl ErrNotFound
        else
          rbind (cas_row_public email_verifications email_verifications_update ev_id ev_version (pc_id c) (v_Version v)
                   (\<lambda>_. True) (set_proof (ni_VerifiedAt identity, pc_id c, cm_SessionID input, now)) d) (\<lambda>d1.
          rbind (registerEmailIdentityTx now0 identity (cm_Indexes input) d1) (\<lambda>((registered, _), d2).
          Inr (registered, d2)))))"

definition account_state :: "db \<Rightarrow> string \<Rightarrow> string \<Rightarrow> (string \<times> time option) option" where
  "account_state d account person =
     (case List.find (\<lambda>a. a_id a = account \<and> a_person_id a = person) (accounts d) of
        None \<Rightarrow> None
      | Some a \<Rightarrow> map_option (\<lambda>p. (a_status a, p_deleted_at p)) (tfind p_id (a_person_id a) (persons d)))"

definition revoke_previous ::
  "time \<Rightarrow> PublicEmailCompletion \<Rightarrow> public_email_challenge \<Rightarrow> EmailIdentity \<Rightarrow> string option \<Rightarrow> db \<Rightarrow> db result"
where
  "revoke_previous now input c registered previousSession d =
     (case previousSession of
        None \<Rightarrow> Inr d
      | Some sid \<Rightarrow>
          (case readAccountSession d sid of
             Inl e \<Rightarrow> if e \<noteq> ErrNotFound then Inl e else Inr d
           | Inr previous \<Rightarrow>
               if se_product_id previous \<noteq> pc_product_id c \<or> se_installation_id previous \<noteq> pc_installation_id c \<or>
                  se_account_id previous \<noteq> er_AccountID registered \<or> se_id previous = cm_SessionID input
               then Inl ErrConflict
               else revokeAccountSessionTx previous now ''installation'' ''reauthentication'' d))"

definition set_flow_session :: "string \<times> time \<Rightarrow> registration_flow \<Rightarrow> registration_flow" where
  "set_flow_session p r = r\<lparr>fl_session_id := Some (fst p), fl_updated_at := trunc_us (snd p), fl_version := fl_version r + 1\<rparr>"

definition open_session ::
  "time \<Rightarrow> PublicEmailCompletion \<Rightarrow> public_email_challenge \<Rightarrow> registration_flow \<Rightarrow> EmailIdentity \<Rightarrow> db \<Rightarrow>
   ((product_account \<times> account_session) \<times> db) result"
where
  "open_session now input c flow registered d =
     rbind (some_or ErrNotFound (account_state d (er_AccountID registered) (er_PersonID registered))) (\<lambda>(status, deletedAt).
     if status \<noteq> ''active'' \<or> deletedAt \<noteq> None then Inl ErrNotFound
     else
       rbind (publicAccountDeletionPending d (er_PersonID registered) (pc_installation_id c) (pc_product_id c)) (\<lambda>pending.
       if pending then Inl ErrNotFound
       else
         rbind (registerPublicProductAccount c registered (ni_VerifiedAt (cm_Identity input)) now d) (\<lambda>(profile, d1).
         rbind (revoke_previous now input c registered (fl_session_id flow) d1) (\<lambda>d2.
         let session = \<lparr>se_id = cm_SessionID input, se_product_id = pc_product_id c, se_account_id = er_AccountID registered,
               se_installation_id = pc_installation_id c, se_state = SessionActive, se_created_at = now,
               se_expires_at = cm_RefreshExpiresAt input, se_revoked_at = None, se_version = 1\<rparr> in
         rbind (insertAccountSession session d2) (\<lambda>d3.
         rbind (insertAccountRefresh \<lparr>rt_hash = cm_RefreshHash input, rt_session_id = se_id session, rt_issued_at = now,
                  rt_expires_at = se_expires_at session, rt_consumed_at = None, rt_version = 1\<rparr> d3) (\<lambda>d4.
         rbind (cas_row_public public_registration_flows public_registration_flows_update fl_key fl_version
                  (pc_product_id c, pc_installation_id c) (fl_version flow) (\<lambda>_. True)
                  (set_flow_session (se_id session, now)) d4) (\<lambda>d5.
         Inr ((profile, session), d5))))))))"

definition register_proof ::
  "time \<Rightarrow> PublicEmailCompletion \<Rightarrow> public_email_challenge \<Rightarrow> registration_flow \<Rightarrow> db \<Rightarrow> (PublicEmailRegistration \<times> db) result"
where
  "register_proof now0 input c flow d =
     (let now = trunc_us now0 in
      rbind (prove_email now0 input c d) (\<lambda>(registered, d1).
      rbind (open_session now input c flow registered d1) (\<lambda>((profile, session), d2).
      rbind (consumeEmailVerificationTx (pc_id c) (cm_SessionID input) (er_PersonID registered) now d2) (\<lambda>d3.
      rbind (finishPublicChallengeTx c Consumed now (Some (ni_VerifiedAt (cm_Identity input))) d3) (\<lambda>d4.
      rbind (appendPublicAccountAudit (se_id session @ ''-registered'') (pc_product_id c) (se_id session) ''installation''
               ''registration.verified'' (er_AccountID registered) now d4) (\<lambda>d5.
      Inr (\<lparr>rg_Identity = registered, rg_Account = profile, rg_Session = session\<rparr>, d5)))))))"

definition wrong_code :: "uint64 \<times> time \<Rightarrow> public_email_challenge \<Rightarrow> public_email_challenge" where
  "wrong_code p r = r\<lparr>pc_attempts := fst p, pc_updated_at := trunc_us (snd p), pc_version := pc_version r + 1\<rparr>"

definition reject_code :: "time \<Rightarrow> public_email_challenge \<Rightarrow> db \<Rightarrow> db result" where
  "reject_code now c0 d =
     (let c = c0\<lparr>pc_attempts := pc_attempts c0 + 1\<rparr> in
      if pc_attempts c = 5 then finishPublicChallengeTx c Locked now None d
      else update_challenge (pc_id c) (pc_version c) (\<lambda>_. True) (wrong_code (pc_attempts c, now)) d)"

text \<open>Everything the code checks before it looks at the submitted code.\<close>

definition challenge_open :: "PublicEmailCompletion \<Rightarrow> public_email_challenge \<Rightarrow> bool" where
  "challenge_open input c \<longleftrightarrow>
     pc_product_id c = cm_ProductID input \<and> pc_installation_id c = cm_InstallationID input \<and>
     pc_purpose c = ''product_registration'' \<and> pc_otp_key_id c = cm_OTPKeyID input \<and>
     pc_nonce_hash c = cm_NonceHash input \<and> \<not> 5 \<le> pc_attempts c \<and>
     (pc_state c = Delivering \<or> pc_state c = Delivered \<or> pc_state c = DeliveryUncertain)"

definition complete_challenge ::
  "time \<Rightarrow> PublicEmailCompletion \<Rightarrow> db \<Rightarrow> (PublicEmailRegistration option \<times> db) result"
where
  "complete_challenge now0 input d =
     (let now = trunc_us now0 in
      rbind (readPublicChallenge d (cm_ChallengeID input)) (\<lambda>c.
      if \<not> challenge_open input c then Inl ErrNotFound
      else
        rbind (some_or ErrNotFound (tfind fl_key (cm_ProductID input, cm_InstallationID input) (public_registration_flows d))) (\<lambda>flow.
        if fl_challenge_id flow \<noteq> pc_id c \<or> fl_version flow = - 1 then Inl ErrNotFound
        else
          rbind (validateSubjectWith d \<lparr>su_Kind = ''installation'', su_ID = cm_InstallationID input\<rparr> (cm_ProductID input)) (\<lambda>_.
          if \<not> now < pc_expires_at c then
            rbind (finishPublicChallengeTx c Expired now None d) (\<lambda>d1. Inr (None, d1))
          else if pc_code_hash c \<noteq> cm_CodeHash input then
            rbind (reject_code now c d) (\<lambda>d1. Inr (None, d1))
          else
            rbind (register_proof now0 input c flow d) (\<lambda>(result, d1). Inr (Some result, d1))))))"

definition CompletePublicEmailChallenge ::
  "time \<Rightarrow> PublicEmailCompletion \<Rightarrow> db \<Rightarrow> PublicEmailRegistration result \<times> db"
where
  "CompletePublicEmailChallenge now input d =
     (if \<not> ValidUUID (cm_ChallengeID input) \<or> \<not> ValidUUID (cm_InstallationID input) \<or> \<not> ValidProductID (cm_ProductID input) \<or>
         length (cm_NonceHash input) \<noteq> 32 \<or> length (cm_CodeHash input) \<noteq> 32 \<or> cm_OTPKeyID input = ''''
      then (Inl ErrInvalid, d)
      else commit_or_reject (complete_challenge now input) d)"

section \<open>Clean-up\<close>

definition oldest :: "('r \<Rightarrow> 'a :: linorder) \<Rightarrow> ('r \<Rightarrow> time) \<Rightarrow> nat \<Rightarrow> 'r list \<Rightarrow> 'r list" where
  "oldest tie stamp limit rows = take limit (sort_key stamp (sort_key tie rows))"

definition expire_challenge :: "time \<Rightarrow> string \<Rightarrow> db \<Rightarrow> db result" where
  "expire_challenge now challengeID d =
     rbind (readPublicChallenge d challengeID) (\<lambda>c. finishPublicChallengeTx c Expired now None d)"

definition purge_challenges :: "time \<Rightarrow> nat \<Rightarrow> db \<Rightarrow> db" where
  "purge_challenges before limit d =
     (let challenges = oldest pc_id pc_expires_at limit (filter (\<lambda>c. pc_expires_at c < before) (public_email_challenges d));
          d1 = delete_rows email_verifications_update (\<lambda>v. ev_id v \<in> pc_id ` set challenges) d;
          d2 = delete_rows public_registration_flows_update (\<lambda>f. fl_session_id f = None \<and>
                 (\<exists>c \<in> set challenges. fl_product_id f = pc_product_id c \<and> fl_installation_id f = pc_installation_id c \<and>
                    fl_challenge_id f = pc_id c)) d1 in
      delete_rows public_email_challenges_update (\<lambda>c. pc_id c \<in> pc_id ` set challenges) d2)"

definition purge_refresh :: "time \<Rightarrow> nat \<Rightarrow> db \<Rightarrow> db" where
  "purge_refresh now limit d =
     (let refresh = oldest rt_hash rt_expires_at limit (filter (\<lambda>r. rt_expires_at r \<le> now) (account_refresh_tokens d)) in
      delete_rows account_refresh_tokens_update (\<lambda>r. rt_hash r \<in> rt_hash ` set refresh) d)"

definition purge_sessions :: "time \<Rightarrow> nat \<Rightarrow> db \<Rightarrow> db" where
  "purge_sessions now limit d =
     (let sessions = oldest se_id se_expires_at limit (filter (\<lambda>s. se_expires_at s \<le> now) (account_sessions d));
          d1 = update_rows public_registration_flows_update (\<lambda>f. fl_session_id f \<in> Some ` se_id ` set sessions)
                 (\<lambda>f. f\<lparr>fl_session_id := None\<rparr>) d in
      delete_rows account_sessions_update (\<lambda>s. se_id s \<in> se_id ` set sessions) d1)"

definition purge_orphan_flows :: "nat \<Rightarrow> db \<Rightarrow> db" where
  "purge_orphan_flows limit d =
     (let orphans = take limit (sort_key fl_product_id (sort_key fl_installation_id (filter (\<lambda>f. fl_session_id f = None \<and>
                      tfind pc_id (fl_challenge_id f) (public_email_challenges d) = None) (public_registration_flows d)))) in
      delete_rows public_registration_flows_update (\<lambda>f. fl_key f \<in> fl_key ` set orphans) d)"

definition purge_auth_events :: "time \<Rightarrow> nat \<Rightarrow> db \<Rightarrow> db" where
  "purge_auth_events before limit d =
     (let events = take limit (sort_key ae_created_at (sort_key ae_bucket (sort_key ae_event_id
                     (filter (\<lambda>e. ae_created_at e < before) (public_auth_events d))))) in
      delete_rows public_auth_events_update (\<lambda>e. ae_key e \<in> ae_key ` set events) d)"

definition purge_public_state :: "time \<Rightarrow> nat \<Rightarrow> db \<Rightarrow> db" where
  "purge_public_state now limit d =
     (let before = trunc_us (now - 48 * hour) in
      purge_auth_events before limit (purge_orphan_flows limit (purge_sessions now limit
        (purge_refresh now limit (purge_challenges before limit d)))))"

definition CleanupPublicAccountState :: "time \<Rightarrow> int \<Rightarrow> db \<Rightarrow> db result" where
  "CleanupPublicAccountState now0 limit d =
     (if is_zero now0 \<or> limit < 1 \<or> 1000 < limit then Inl ErrInvalid
      else
        let now = trunc_us now0;
            expired = map pc_id (oldest pc_id pc_expires_at (nat limit)
                        (filter (\<lambda>c. pc_expires_at c \<le> now \<and> live_proof (pc_state c)) (public_email_challenges d))) in
        rbind (for_each (expire_challenge now) expired d) (\<lambda>d1. Inr (purge_public_state now (nat limit) d1)))"

section \<open>Laws\<close>

interpretation verification_proof: versioned_update ev_id ev_version set_proof
  by unfold_locales (auto simp: set_proof_def split: prod.splits)

interpretation flow_session: versioned_update fl_key fl_version set_flow_session
  by unfold_locales (auto simp: set_flow_session_def fl_key_def)

lemma set_flow_session_id [simp]: "fl_session_id (set_flow_session p r) = Some (fst p)"
  by (simp add: set_flow_session_def)

interpretation challenge_wrong: versioned_update pc_id pc_version wrong_code
  by unfold_locales (auto simp: wrong_code_def)

lemma completion_read_yields [keys_intro]:
  "(\<And>x. P x) \<Longrightarrow> yields (readEmailVerification d i) P"
  "(\<And>x. Q x) \<Longrightarrow> yields (readPublicChallenge d i) Q"
  "(\<And>x. R x) \<Longrightarrow> yields (validateSubjectWith d s p) R"
  "(\<And>x. S x) \<Longrightarrow> yields (publicAccountDeletionPending d person i p) S"
  by (auto intro: yields_any)

lemma registerPublicProductAccount_keys [keys_intro]:
  "db_keys d \<Longrightarrow> (\<And>x d'. db_keys d' \<Longrightarrow> P (x, d')) \<Longrightarrow> yields (registerPublicProductAccount c i v now d) P"
  by (auto simp: registerPublicProductAccount_def keys_simps split: sum.splits)

lemma revoke_previous_keys [keys_intro]:
  "db_keys d \<Longrightarrow> (\<And>d'. db_keys d' \<Longrightarrow> P d') \<Longrightarrow> yields (revoke_previous now input c r s d) P"
  by (auto simp: revoke_previous_def intro!: keys_intro split: option.splits sum.splits)

lemma prove_email_keys [keys_intro]:
  assumes "db_keys d" and "\<And>x d'. db_keys d' \<Longrightarrow> P (x, d')"
  shows "yields (prove_email now input c d) P"
proof -
  have "yields (registerEmailIdentityTx now i xs d1) (\<lambda>((r, _), d2). P (r, d2))" if "db_keys d1" for d1 i xs
    by (rule yields_weaken [OF registerEmailIdentityTx_keys [OF that]]) (auto intro: assms(2))
  with assms(1) show ?thesis
    by (auto simp: prove_email_def Let_def case_prod_unfold intro!: keys_intro)
qed

lemma open_session_keys [keys_intro]:
  "db_keys d \<Longrightarrow> (\<And>x d'. db_keys d' \<Longrightarrow> P (x, d')) \<Longrightarrow> yields (open_session now input c flow r d) P"
  by (auto simp: open_session_def Let_def intro!: keys_intro)

lemma register_proof_keys [keys_intro]:
  "db_keys d \<Longrightarrow> (\<And>x d'. db_keys d' \<Longrightarrow> P (x, d')) \<Longrightarrow> yields (register_proof now input c flow d) P"
  by (auto simp: register_proof_def Let_def intro!: keys_intro)

lemma reject_code_keys [keys_intro]:
  "db_keys d \<Longrightarrow> (\<And>d'. db_keys d' \<Longrightarrow> P d') \<Longrightarrow> yields (reject_code now c d) P"
  by (auto simp: reject_code_def Let_def intro!: keys_intro)

lemma complete_challenge_keys: "db_keys d \<Longrightarrow> yields (complete_challenge now input d) (\<lambda>(x, d'). db_keys d')"
  by (auto simp: complete_challenge_def Let_def intro!: keys_intro)

lemma CompletePublicEmailChallenge_keys: "db_keys d \<Longrightarrow> db_keys (snd (CompletePublicEmailChallenge now input d))"
  by (auto simp: CompletePublicEmailChallenge_def intro!: commit_or_reject_keys complete_challenge_keys)

section \<open>The effect of a completion\<close>

lemma prove_email_frame:
  assumes "uniq ev_id (email_verifications d)"
  shows "yields (prove_email now input c d) (\<lambda>(_, d1).
    public_email_challenges d1 = public_email_challenges d \<and> public_registration_flows d1 = public_registration_flows d \<and>
    account_sessions d1 = account_sessions d \<and> account_refresh_tokens d1 = account_refresh_tokens d)"
proof -
  have "yields (registerEmailIdentityTx now i xs d1) (\<lambda>((_, _), d2).
      public_email_challenges d2 = public_email_challenges d1 \<and> public_registration_flows d2 = public_registration_flows d1 \<and>
      account_sessions d2 = account_sessions d1 \<and> account_refresh_tokens d2 = account_refresh_tokens d1)" for i xs d1
    by (rule yields_weaken [OF registerEmailIdentityTx_frame]) (auto simp: identity_frame_def)
  note reg = yields_weaken [OF this]
  show ?thesis using assms
    by (auto simp: prove_email_def Let_def intro!: completion_read_yields cas_row_public_yields reg)
qed

lemma revoke_previous_effect:
  assumes "uniq se_id (account_sessions d)"
  shows "yields (revoke_previous now input c r s d) (\<lambda>d'.
    d' = d\<lparr>account_sessions := account_sessions d', public_account_audits := public_account_audits d'\<rparr>)"
proof -
  have "yields (revokeAccountSessionTx p now a w d) (\<lambda>d'.
      d' = d\<lparr>account_sessions := account_sessions d', public_account_audits := public_account_audits d'\<rparr>)"
    if "tfind se_id i (account_sessions d) = Some p" for p i a w
    by (rule yields_weaken [OF revoke_effect [OF assms that]]) blast
  then show ?thesis by (auto simp: revoke_previous_def readAccountSession_def split: option.splits sum.splits)
qed

lemma open_session_effect:
  assumes keys: "db_keys d"
  shows "yields (open_session now input c flow r d) (\<lambda>((_, s), d').
    public_email_challenges d' = public_email_challenges d \<and>
    se_id s = cm_SessionID input \<and> se_state s = SessionActive \<and> se_product_id s = pc_product_id c \<and>
    se_installation_id s = pc_installation_id c \<and> se_account_id s = er_AccountID r \<and>
    (\<exists>row. tfind se_id (cm_SessionID input) (account_sessions d') = Some row \<and> se_state row = SessionActive \<and>
      se_product_id row = pc_product_id c \<and> se_installation_id row = pc_installation_id c \<and> se_account_id row = er_AccountID r) \<and>
    (\<exists>t. tfind rt_hash (cm_RefreshHash input) (account_refresh_tokens d') = Some t \<and> rt_consumed_at t = None \<and>
      rt_session_id t = cm_SessionID input) \<and>
    (\<exists>f. tfind fl_key (pc_product_id c, pc_installation_id c) (public_registration_flows d') = Some f \<and>
      fl_session_id f = Some (cm_SessionID input)))"
proof -
  have profile: "yields (registerPublicProductAccount c r v now d) P"
    if "\<And>x f. P (x, product_accounts_update f d)" for v P
    using that by (auto simp: registerPublicProductAccount_def upsert_row_def split: sum.splits)
  have u: "uniq se_id (account_sessions d)" "uniq fl_key (public_registration_flows d)" using keys by (rule table_uniq)+
  have prev: "yields (revoke_previous now input c r s (product_accounts_update f d)) P"
    if "\<And>t u. P ((product_accounts_update f d)\<lparr>account_sessions := t, public_account_audits := u\<rparr>)" for s f P
  proof (rule yields_weaken [OF revoke_previous_effect])
    show "uniq se_id (account_sessions (product_accounts_update f d))" using u by simp
  qed (erule ssubst, rule that)
  show ?thesis using u
    by (auto simp: open_session_def Let_def insertAccountSession_def insertAccountRefresh_def row_wp tfind_append tfind_update_at
        tfind_fresh
        intro!: completion_read_yields profile prev cas_row_public_yields)
qed

lemma consume_verification_effect:
  assumes "db_keys d"
  shows "yields (consumeEmailVerificationTx i claim person now d) (\<lambda>d'. tfind ev_id i (email_verifications d') = None \<and>
    d' = d\<lparr>email_verifications := email_verifications d', email_verification_audits := email_verification_audits d'\<rparr>)"
proof -
  have u: "uniq ev_id (email_verifications d)" using assms by (rule table_uniq)
  show ?thesis
    using u by (auto simp: consumeEmailVerificationTx_def row_wp delete_rows_def tfind_delete dest: tfind_key
        split: option.splits)
qed

lemma finish_challenge_effect:
  assumes u: "uniq pc_id (public_email_challenges d)"
  shows "yields (finishPublicChallengeTx c s now v d) (\<lambda>d'.
    d' = d\<lparr>public_email_challenges := tbl_update (\<lambda>x. pc_id x = pc_id c)
      (finish_challenge \<lparr>cf_state = s, cf_attempts = pc_attempts c, cf_verified = v,
         cf_consumed = (if s = Consumed then Some now else None), cf_now = now\<rparr>) (public_email_challenges d)\<rparr>)"
  using assms by (auto simp: finishPublicChallengeTx_def Let_def intro!: cas_row_public_yields)

text \<open>A challenge in a terminal state is never open, so nothing completes it.\<close>

lemma not_open_rejected:
  assumes "tfind pc_id (cm_ChallengeID input) (public_email_challenges d) = Some c" and "\<not> challenge_open input c"
  shows "\<exists>e. CompletePublicEmailChallenge now input d = (Inl e, d)"
  using assms by (auto simp: CompletePublicEmailChallenge_def commit_or_reject_def complete_challenge_def
      readPublicChallenge_def scanPublicChallenge_def)

lemma register_proof_effect:
  assumes keys: "db_keys d" and c: "tfind pc_id (pc_id c) (public_email_challenges d) = Some c"
  shows "yields (register_proof now input c flow d) (\<lambda>(r, d').
    (\<exists>c'. tfind pc_id (pc_id c) (public_email_challenges d') = Some c' \<and> pc_state c' = Consumed \<and>
      pc_code_hash c' = [] \<and> pc_code c' = empty_cipher \<and> pc_attempts c' = pc_attempts c) \<and>
    tfind ev_id (pc_id c) (email_verifications d') = None \<and>
    (\<exists>row. tfind se_id (cm_SessionID input) (account_sessions d') = Some row \<and> se_state row = SessionActive \<and>
      se_product_id row = pc_product_id c \<and> se_installation_id row = pc_installation_id c \<and>
      se_account_id row = er_AccountID (rg_Identity r)) \<and>
    (\<exists>t. tfind rt_hash (cm_RefreshHash input) (account_refresh_tokens d') = Some t \<and> rt_consumed_at t = None \<and>
      rt_session_id t = cm_SessionID input) \<and>
    (\<exists>f. tfind fl_key (pc_product_id c, pc_installation_id c) (public_registration_flows d') = Some f \<and>
      fl_session_id f = Some (cm_SessionID input)))" (is "yields _ ?P")
  unfolding yields_def
proof (intro allI impI)
  fix x assume run: "register_proof now input c flow d = Inr x"
  let ?now = "trunc_us now" and ?fin = "finish_challenge \<lparr>cf_state = Consumed, cf_attempts = pc_attempts c,
      cf_verified = Some (ni_VerifiedAt (cm_Identity input)), cf_consumed = Some (trunc_us now), cf_now = trunc_us now\<rparr>"
  from run obtain reg d1 prof s d2 d3 d4 d5 where
    1: "prove_email now input c d = Inr (reg, d1)" and 2: "open_session ?now input c flow reg d1 = Inr ((prof, s), d2)"
    and 3: "consumeEmailVerificationTx (pc_id c) (cm_SessionID input) (er_PersonID reg) ?now d2 = Inr d3"
    and 4: "finishPublicChallengeTx c Consumed ?now (Some (ni_VerifiedAt (cm_Identity input))) d3 = Inr d4"
    and 5: "appendPublicAccountAudit (se_id s @ ''-registered'') (pc_product_id c) (se_id s) ''installation''
               ''registration.verified'' (er_AccountID reg) ?now d4 = Inr d5"
    and x: "x = (\<lparr>rg_Identity = reg, rg_Account = prof, rg_Session = s\<rparr>, d5)"
    by (auto simp: register_proof_def Let_def)
  have k1: "db_keys d1" by (rule yieldsD [OF _ 1, where P = "\<lambda>(x, d). db_keys d", simplified]) (auto intro!: keys_intro keys)
  have k2: "db_keys d2" by (rule yieldsD [OF _ 2, where P = "\<lambda>(x, d). db_keys d", simplified]) (auto intro!: keys_intro k1)
  have k3: "db_keys d3" by (rule yieldsD [OF _ 3]) (auto intro!: keys_intro k2)
  note e1 = yieldsD [OF prove_email_frame [OF db_keysD(5) [OF keys]] 1, simplified]
    and e2 = yieldsD [OF open_session_effect [OF k1] 2, simplified]
    and e3 = yieldsD [OF consume_verification_effect [OF k2] 3]
    and e4 = yieldsD [OF finish_challenge_effect [OF db_keysD(6) [OF k3]] 4, simplified]
  from 5 obtain a where e5: "d5 = d4\<lparr>public_account_audits := a\<rparr>"
    by (auto simp: appendPublicAccountAudit_def insert_row_Inr)
  have keep: "public_email_challenges d3 = public_email_challenges d2" "account_sessions d3 = account_sessions d2"
    "account_refresh_tokens d3 = account_refresh_tokens d2" "public_registration_flows d3 = public_registration_flows d2"
    by (subst conjunct2 [OF e3], simp)+
  have "tfind pc_id (pc_id c) (public_email_challenges d5) = Some (?fin c)"
    using c e1 e2 by (simp add: e5 e4 keep tfind_update_at)
  then show "?P x" using e2 conjunct1 [OF e3] by (simp add: x) (simp add: e5 e4 keep finish_challenge_def)
qed

lemma completion_proof:
  assumes ok: "CompletePublicEmailChallenge now input d = (Inr r, d')"
  obtains c flow where "tfind pc_id (cm_ChallengeID input) (public_email_challenges d) = Some c"
    "challenge_open input c" "pc_code_hash c = cm_CodeHash input" "trunc_us now < pc_expires_at c"
    "register_proof now input c flow d = Inr (r, d')"
  using ok by (auto simp: CompletePublicEmailChallenge_def commit_or_reject_def complete_challenge_def Let_def readPublicChallenge_Inr
      split: if_splits sum.splits prod.splits option.splits)

section \<open>Properties\<close>

text \<open>
  C3: a completion needs the exact proof and can happen only once. If it succeeds,
  the stored challenge belonged to the request's product and installation, had the
  request's OTP key, nonce and code, fewer than five attempts and time left; the
  committed state has the challenge consumed with its code erased, its verification
  gone, an active session and an unconsumed refresh token of the same installation,
  and the registration flow naming that session; and no later request completes the
  same challenge or changes anything.
\<close>

theorem completion_effect:
  assumes ok: "CompletePublicEmailChallenge now input d = (Inr r, d')" and keys: "db_keys d"
  shows "\<exists>c. tfind pc_id (cm_ChallengeID input) (public_email_challenges d) = Some c \<and> challenge_open input c \<and>
      pc_code_hash c = cm_CodeHash input \<and> trunc_us now < pc_expires_at c \<and>
      (\<exists>c'. tfind pc_id (pc_id c) (public_email_challenges d') = Some c' \<and> pc_state c' = Consumed \<and>
        pc_code_hash c' = [] \<and> pc_code c' = empty_cipher \<and> pc_attempts c' = pc_attempts c) \<and>
      tfind ev_id (pc_id c) (email_verifications d') = None \<and>
      (\<exists>row. tfind se_id (cm_SessionID input) (account_sessions d') = Some row \<and> se_state row = SessionActive \<and>
        se_product_id row = pc_product_id c \<and> se_installation_id row = pc_installation_id c \<and>
        se_account_id row = er_AccountID (rg_Identity r)) \<and>
      (\<exists>t. tfind rt_hash (cm_RefreshHash input) (account_refresh_tokens d') = Some t \<and> rt_consumed_at t = None \<and>
        rt_session_id t = cm_SessionID input) \<and>
      (\<exists>f. tfind fl_key (pc_product_id c, pc_installation_id c) (public_registration_flows d') = Some f \<and>
        fl_session_id f = Some (cm_SessionID input)) \<and>
      (\<forall>now' input'. cm_ChallengeID input' = cm_ChallengeID input \<longrightarrow>
        (\<exists>e. CompletePublicEmailChallenge now' input' d' = (Inl e, d')))"
proof -
  from ok obtain c flow where c: "tfind pc_id (cm_ChallengeID input) (public_email_challenges d) = Some c"
    and pre: "challenge_open input c" "pc_code_hash c = cm_CodeHash input" "trunc_us now < pc_expires_at c"
    and run: "register_proof now input c flow d = Inr (r, d')"
    by (rule completion_proof)
  have id: "pc_id c = cm_ChallengeID input" using c by (rule tfind_key)
  from yieldsD [OF register_proof_effect [OF keys tfind_self [OF c]] run]
  obtain c' where c': "tfind pc_id (cm_ChallengeID input) (public_email_challenges d') = Some c'" "pc_state c' = Consumed"
    by (auto simp: id)
  have "\<exists>e. CompletePublicEmailChallenge now' input' d' = (Inl e, d')" if "cm_ChallengeID input' = cm_ChallengeID input" for now' input'
    by (rule not_open_rejected [of _ _ c']) (use c' that in \<open>simp_all add: challenge_open_def\<close>)
  with c pre yieldsD [OF register_proof_effect [OF keys tfind_self [OF c]] run] show ?thesis by simp
qed

lemma update_challenge_ok:
  assumes "uniq pc_id (public_email_challenges d)" "\<And>r. pc_id (f r) = pc_id r" "\<And>r. pc_version (f r) = pc_version r + 1"
    and "tfind pc_id i (public_email_challenges d) = Some c" "pc_version c \<noteq> - 1" "v = pc_version c"
  shows "update_challenge i v (\<lambda>_. True) f d =
    Inr (d\<lparr>public_email_challenges := tbl_update (\<lambda>x. pc_id x = i) f (public_email_challenges d)\<rparr>)"
  using assms by (simp add: update_challenge_Inr)

text \<open>
  C4: a wrong code costs exactly one of five attempts. For a challenge that passes
  every other check the request is rejected and the committed change is one row: the
  counter goes up by one, the state and the code stay as they were below the fifth
  failure, and the fifth failure locks the challenge and erases its code.
\<close>

theorem wrong_code_bounded:
  assumes keys: "db_keys d"
    and input: "ValidUUID (cm_ChallengeID input)" "ValidUUID (cm_InstallationID input)" "ValidProductID (cm_ProductID input)"
      "length (cm_NonceHash input) = 32" "length (cm_CodeHash input) = 32" "cm_OTPKeyID input \<noteq> ''''"
    and c: "readPublicChallenge d (cm_ChallengeID input) = Inr c" "challenge_open input c" "pc_version c \<noteq> - 1"
      "trunc_us now < pc_expires_at c"
    and flow: "tfind fl_key (cm_ProductID input, cm_InstallationID input) (public_registration_flows d) = Some flow"
      "fl_challenge_id flow = pc_id c" "fl_version flow \<noteq> - 1"
    and subject: "validateSubjectWith d \<lparr>su_Kind = ''installation'', su_ID = cm_InstallationID input\<rparr> (cm_ProductID input) = Inr u"
    and wrong: "pc_code_hash c \<noteq> cm_CodeHash input"
  shows "\<exists>d' c'. CompletePublicEmailChallenge now input d = (Inl ErrNotFound, d') \<and>
    tfind pc_id (pc_id c) (public_email_challenges d') = Some c' \<and> pc_attempts c' = pc_attempts c + 1 \<and>
    (if pc_attempts c = 4 then pc_state c' = Locked \<and> pc_code_hash c' = [] \<and> pc_code c' = empty_cipher
     else pc_state c' = pc_state c \<and> pc_code_hash c' = pc_code_hash c \<and> pc_code c' = pc_code c) \<and>
    (\<forall>i. i \<noteq> pc_id c \<longrightarrow> tfind pc_id i (public_email_challenges d') = tfind pc_id i (public_email_challenges d)) \<and>
    d' = d\<lparr>public_email_challenges := public_email_challenges d'\<rparr>"
proof -
  have u: "uniq pc_id (public_email_challenges d)" using keys by (rule table_uniq)
  have s: "tfind pc_id (pc_id c) (public_email_challenges d) = Some c" using c(1) by (auto simp: readPublicChallenge_Inr dest: tfind_self)
  define f where "f = (if pc_attempts c = 4 then finish_challenge \<lparr>cf_state = Locked, cf_attempts = 5, cf_verified = None,
        cf_consumed = None, cf_now = trunc_us now\<rparr> else wrong_code (pc_attempts c + 1, trunc_us now))"
  have f: "pc_id (f r) = pc_id r" "pc_version (f r) = pc_version r + 1" for r by (simp_all add: f_def)
  let ?d = "d\<lparr>public_email_challenges := tbl_update (\<lambda>x. pc_id x = pc_id c) f (public_email_challenges d)\<rparr>"
  have upd: "update_challenge (pc_id c) (pc_version c) (\<lambda>_. True) f d = Inr ?d"
    using u f s c(3) by (intro update_challenge_ok) simp_all
  have five: "pc_attempts c + 1 = 5 \<longleftrightarrow> pc_attempts c = 4" by (metis add_right_cancel numeral_plus_one semiring_norm(5) add.commute one_plus_numeral)
  have "reject_code (trunc_us now) c d = Inr ?d"
    using upd c(2,3) five
    by (auto simp: reject_code_def Let_def finishPublicChallengeTx_def f_def challenge_open_def)
  then have "CompletePublicEmailChallenge now input d = (Inl ErrNotFound, ?d)"
    using input c flow subject wrong
    by (simp add: CompletePublicEmailChallenge_def commit_or_reject_def complete_challenge_def Let_def)
  moreover have "tfind pc_id (pc_id c) (public_email_challenges ?d) = Some (f c)" using s by (simp add: tfind_update_at f)
  moreover have "\<forall>i. i \<noteq> pc_id c \<longrightarrow> tfind pc_id i (public_email_challenges ?d) = tfind pc_id i (public_email_challenges d)"
    by (simp add: tfind_update_at f)
  ultimately show ?thesis
    by (intro exI [of _ ?d] exI [of _ "f c"]) (auto simp: f_def finish_challenge_def wrong_code_def)
qed

subsection \<open>Clean-up\<close>

lemma set_oldest: "set (oldest tie stamp n rows) \<subseteq> set rows"
  using set_take_subset by (force simp: oldest_def)

lemma oldest_all: "length rows \<le> n \<Longrightarrow> set (oldest tie stamp n rows) = set rows"
  by (simp add: oldest_def)

lemma in_oldestD: "r \<in> set (oldest tie stamp n rows) \<Longrightarrow> r \<in> set rows"
  using set_oldest by fast

lemma in_taken_sortD: "r \<in> set (take n (sort_key k xs)) \<Longrightarrow> r \<in> set xs"
  by (auto dest: in_set_takeD)

text \<open>Expiring a list of overdue challenges, as one update of the table.\<close>

definition expired_row :: "time \<Rightarrow> public_email_challenge \<Rightarrow> public_email_challenge" where
  "expired_row now r = finish_challenge \<lparr>cf_state = Expired, cf_attempts = pc_attempts r, cf_verified = None,
     cf_consumed = None, cf_now = now\<rparr> r"

definition expire_rows :: "time \<Rightarrow> string list \<Rightarrow> public_email_challenge list \<Rightarrow> public_email_challenge list" where
  "expire_rows now is = tbl_update (\<lambda>x. pc_id x \<in> set is) (expired_row now)"

lemma expired_row_simps [simp]:
  "pc_id (expired_row now r) = pc_id r" "pc_expires_at (expired_row now r) = pc_expires_at r"
  "pc_state (expired_row now r) = Expired" "pc_code_hash (expired_row now r) = []" "pc_code (expired_row now r) = empty_cipher"
  by (simp_all add: expired_row_def finish_challenge_def)

definition can_expire :: "public_email_challenge \<Rightarrow> bool" where
  "can_expire c \<longleftrightarrow> live_proof (pc_state c) \<and> pc_version c \<noteq> - 1 \<and> uint (pc_blind_index_version c) \<le> 2 ^ 63 - 1"

lemma can_expire_transition: "live_proof s \<longleftrightarrow> CanTransitionPublicChallenge s Expired"
  by (cases s) (auto simp: live_proof_def)

lemma expire_challenge_Inr:
  assumes u: "uniq pc_id (public_email_challenges d)"
  shows "expire_challenge now i d = Inr d' \<longleftrightarrow> (\<exists>c. tfind pc_id i (public_email_challenges d) = Some c \<and> can_expire c \<and>
    d' = d\<lparr>public_email_challenges := expire_rows now [i] (public_email_challenges d)\<rparr>)"
proof -
  have eq: "tbl_update (\<lambda>x. pc_id x = i) (finish_challenge \<lparr>cf_state = Expired, cf_attempts = pc_attempts c, cf_verified = None,
      cf_consumed = None, cf_now = now\<rparr>) (public_email_challenges d) = expire_rows now [i] (public_email_challenges d)"
    if "tfind pc_id i (public_email_challenges d) = Some c" for c
    using that u by (auto simp: expire_rows_def tbl_update_def expired_row_def uniq_tfind_iff dest: uniq_inj)
  show ?thesis
  proof (cases "tfind pc_id i (public_email_challenges d)")
    case None
    then show ?thesis by (simp add: expire_challenge_def readPublicChallenge_def)
  next
    case (Some c)
    then have i: "pc_id c = i" by (rule tfind_key)
    show ?thesis
      using u by (auto simp: Some i expire_challenge_def readPublicChallenge_Inr finishPublicChallengeTx_def can_expire_def
          can_expire_transition update_challenge_Inr eq [OF Some])
  qed
qed

lemma expire_rows_append: "expire_rows now js (expire_rows now is t) = expire_rows now (is @ js) t"
  if "set is \<inter> set js = {}"
  using that by (auto simp: expire_rows_def tbl_update_def)

lemma expire_rows_uniq [simp]: "uniq pc_id (expire_rows now is t) = uniq pc_id t"
  by (simp add: expire_rows_def uniq_update)

lemma tfind_expire_rows: "tfind pc_id i (expire_rows now is t) =
  map_option (\<lambda>r. if i \<in> set is then expired_row now r else r) (tfind pc_id i t)"
  by (cases "tfind pc_id i t") (auto simp: expire_rows_def tfind_update dest: tfind_key)

lemma expire_all:
  assumes "uniq pc_id (public_email_challenges d)" and "distinct is"
  shows "for_each (expire_challenge now) is d = Inr d' \<longleftrightarrow>
    (\<forall>i \<in> set is. \<exists>c. tfind pc_id i (public_email_challenges d) = Some c \<and> can_expire c) \<and>
    d' = d\<lparr>public_email_challenges := expire_rows now is (public_email_challenges d)\<rparr>"
  using assms
proof (induction "is" arbitrary: d)
  case Nil
  then show ?case by (auto simp: expire_rows_def tbl_update_def)
next
  case (Cons i "is")
  let ?d1 = "d\<lparr>public_email_challenges := expire_rows now [i] (public_email_challenges d)\<rparr>"
  have keep: "tfind pc_id j (expire_rows now [i] (public_email_challenges d)) = tfind pc_id j (public_email_challenges d)"
    if "j \<in> set is" for j
    using Cons.prems(2) that by (cases "tfind pc_id j (public_email_challenges d)") (auto simp: tfind_expire_rows)
  have app: "expire_rows now is (expire_rows now [i] (public_email_challenges d)) = expire_rows now (i # is) (public_email_challenges d)"
    using Cons.prems(2) by (simp add: expire_rows_append)
  have IH: "for_each (expire_challenge now) is ?d1 = Inr d' \<longleftrightarrow>
    (\<forall>j \<in> set is. \<exists>c. tfind pc_id j (public_email_challenges d) = Some c \<and> can_expire c) \<and>
    d' = d\<lparr>public_email_challenges := expire_rows now (i # is) (public_email_challenges d)\<rparr>"
    using Cons.IH [of ?d1] Cons.prems keep app by auto
  show ?case using IH Cons.prems(1) by (auto simp: expire_challenge_Inr)
qed

text \<open>What the clean-up may touch is transient; the rest of the database is durable.\<close>

definition durable :: "db \<Rightarrow> db" where
  "durable d = d\<lparr>email_verifications := [], public_email_challenges := [], public_registration_flows := [],
     account_sessions := [], account_refresh_tokens := [], public_auth_events := []\<rparr>"

lemmas purge_defs = purge_challenges_def purge_refresh_def purge_sessions_def purge_orphan_flows_def purge_auth_events_def
  Let_def row_defs

lemma purge_durable: "durable (purge_public_state now n d) = durable d"
  by (simp add: purge_public_state_def purge_defs durable_def)

lemma purge_stage_keys:
  "db_keys d \<Longrightarrow> db_keys (purge_challenges before n d)"
  "db_keys d \<Longrightarrow> db_keys (purge_refresh now n d)"
  "db_keys d \<Longrightarrow> db_keys (purge_sessions now n d)"
  "db_keys d \<Longrightarrow> db_keys (purge_orphan_flows n d)"
  "db_keys d \<Longrightarrow> db_keys (purge_auth_events before n d)"
  unfolding purge_challenges_def purge_refresh_def purge_sessions_def purge_orphan_flows_def purge_auth_events_def Let_def
  by (auto intro!: keys_simps simp: fl_key_def)

lemma purge_keys: "db_keys d \<Longrightarrow> db_keys (purge_public_state now n d)"
  unfolding purge_public_state_def Let_def by (intro purge_stage_keys)

lemma purge_tables:
  "account_refresh_tokens (purge_public_state now n d) = tbl_delete (\<lambda>r. rt_hash r \<in> rt_hash `
     set (oldest rt_hash rt_expires_at n (filter (\<lambda>r. rt_expires_at r \<le> now) (account_refresh_tokens d)))) (account_refresh_tokens d)"
  "account_sessions (purge_public_state now n d) = tbl_delete (\<lambda>s. se_id s \<in> se_id `
     set (oldest se_id se_expires_at n (filter (\<lambda>s. se_expires_at s \<le> now) (account_sessions d)))) (account_sessions d)"
  "public_email_challenges (purge_public_state now n d) = tbl_delete (\<lambda>c. pc_id c \<in> pc_id `
     set (oldest pc_id pc_expires_at n (filter (\<lambda>c. pc_expires_at c < trunc_us (now - 48 * hour)) (public_email_challenges d)))) (public_email_challenges d)"
  by (simp_all add: purge_public_state_def purge_defs)

lemma purge_events:
  assumes "e \<in> set (public_auth_events d)" "trunc_us (now - 48 * hour) \<le> ae_created_at e"
  shows "e \<in> set (public_auth_events (purge_public_state now n d))"
  using assms by (auto simp: purge_public_state_def purge_defs set_delete ae_key_def dest!: in_taken_sortD)

lemma purge_verifications:
  assumes "v \<in> set (email_verifications d)"
    and "\<And>c. c \<in> set (public_email_challenges d) \<Longrightarrow> pc_id c = ev_id v \<Longrightarrow> trunc_us (now - 48 * hour) \<le> pc_expires_at c"
  shows "v \<in> set (email_verifications (purge_public_state now n d))"
  using assms by (fastforce simp: purge_public_state_def purge_defs set_delete dest!: in_oldestD)

text \<open>A flow whose session stays survives the three statements on its table.\<close>

lemma purge_flows:
  assumes u: "uniq fl_key (public_registration_flows d)" and f: "f \<in> set (public_registration_flows d)" "fl_session_id f = Some s"
    and live: "\<And>x. x \<in> set (account_sessions d) \<Longrightarrow> se_id x = s \<Longrightarrow> now < se_expires_at x"
  shows "f \<in> set (public_registration_flows (purge_public_state now n d))"
proof -
  let ?d1 = "purge_challenges (trunc_us (now - 48 * hour)) n d"
  let ?d2 = "purge_sessions now n (purge_refresh now n ?d1)"
  have key: "fl_key (f\<lparr>fl_session_id := None\<rparr>) = fl_key f" for f by (simp add: fl_key_def)
  have 1: "uniq fl_key (public_registration_flows ?d1)" "f \<in> set (public_registration_flows ?d1)"
    "account_sessions ?d1 = account_sessions d"
    using u f by (simp_all add: purge_defs uniq_delete set_delete)
  have "s \<notin> se_id ` set (oldest se_id se_expires_at n (filter (\<lambda>s. se_expires_at s \<le> now) (account_sessions d)))"
    using live by (fastforce dest!: in_oldestD)
  with 1 f have 2: "uniq fl_key (public_registration_flows ?d2)" "f \<in> set (public_registration_flows ?d2)"
    by (force simp: purge_sessions_def purge_refresh_def Let_def row_defs uniq_update key set_update)+
  have "fl_session_id x \<noteq> None" if "x \<in> set (public_registration_flows ?d2)" "fl_key f = fl_key x" for x
    using uniq_inj [OF 2(1) that(1) 2(2)] that(2) f(2) by simp
  with 2(2) have "f \<in> set (public_registration_flows (purge_orphan_flows n ?d2))"
    by (fastforce simp: purge_orphan_flows_def Let_def row_defs set_delete dest!: in_taken_sortD)
  then show ?thesis by (simp add: purge_public_state_def Let_def purge_auth_events_def row_defs)
qed

lemma kept_unless_selected:
  assumes "uniq key t" and "r \<in> set t" "\<not> old r"
  shows "r \<in> set (tbl_delete (\<lambda>x. key x \<in> key ` set (oldest tie stamp n (filter old t))) t)"
  using assms by (auto simp: set_delete dest!: in_oldestD dest: uniq_inj)

lemma none_left:
  assumes "length t \<le> n" and "r \<in> set (tbl_delete (\<lambda>x. key x \<in> key ` set (oldest tie stamp n (filter old t))) t)"
  shows "\<not> old r"
proof -
  have "length (filter old t) \<le> n" using assms(1) length_filter_le [of old t] by linarith
  then show ?thesis using assms(2) by (auto simp: set_delete oldest_all)
qed

lemma overdue_distinct: "uniq key t \<Longrightarrow> distinct (map key (oldest tie stamp n (filter P t)))"
proof -
  assume "uniq key t"
  then have "distinct (map key (filter P t))" by (simp add: uniq_def distinct_map_filter)
  then have "distinct (map key (sort_key stamp (sort_key tie (filter P t))))"
    by (auto simp: distinct_map intro!: distinct_sort)
  then show ?thesis by (simp add: oldest_def flip: take_map)
qed

text \<open>
  The clean-up never deletes what is still in use. After a run everything
  outside the six transient tables is as before; a refresh token or a session that
  has not expired, consumed or not, is still stored, so a replay is still
  detected; so is a flow whose session has not expired, a challenge or a limit event
  within the retention of two days, and a verification without an older challenge;
  a challenge that has not expired is unchanged.
\<close>

theorem cleanup_preserves_live:
  assumes ok: "CleanupPublicAccountState now limit d = Inr d'" and keys: "db_keys d"
  shows "durable d' = durable d \<and>
    (\<forall>r \<in> set (account_refresh_tokens d). trunc_us now < rt_expires_at r \<longrightarrow> r \<in> set (account_refresh_tokens d')) \<and>
    (\<forall>s \<in> set (account_sessions d). trunc_us now < se_expires_at s \<longrightarrow> s \<in> set (account_sessions d')) \<and>
    (\<forall>f \<in> set (public_registration_flows d). \<forall>sid. fl_session_id f = Some sid \<longrightarrow>
      (\<forall>s \<in> set (account_sessions d). se_id s = sid \<longrightarrow> trunc_us now < se_expires_at s) \<longrightarrow> f \<in> set (public_registration_flows d')) \<and>
    (\<forall>e \<in> set (public_auth_events d). trunc_us now - 48 * hour \<le> ae_created_at e \<longrightarrow> e \<in> set (public_auth_events d')) \<and>
    (\<forall>v \<in> set (email_verifications d). (\<forall>c \<in> set (public_email_challenges d). pc_id c = ev_id v \<longrightarrow> trunc_us now - 48 * hour \<le> pc_expires_at c) \<longrightarrow>
      v \<in> set (email_verifications d')) \<and>
    (\<forall>c \<in> set (public_email_challenges d). trunc_us now < pc_expires_at c \<longrightarrow> c \<in> set (public_email_challenges d')) \<and>
    (\<forall>c \<in> set (public_email_challenges d). trunc_us now - 48 * hour \<le> pc_expires_at c \<longrightarrow>
      pc_id c \<in> pc_id ` set (public_email_challenges d'))"
proof -
  let ?now = "trunc_us now"
  define ids where "ids = map pc_id (oldest pc_id pc_expires_at (nat limit)
      (filter (\<lambda>c. pc_expires_at c \<le> ?now \<and> live_proof (pc_state c)) (public_email_challenges d)))"
  define d1 where "d1 = d\<lparr>public_email_challenges := expire_rows ?now ids (public_email_challenges d)\<rparr>"
  have u: "uniq pc_id (public_email_challenges d)" "uniq rt_hash (account_refresh_tokens d)" "uniq se_id (account_sessions d)"
    "uniq fl_key (public_registration_flows d)" using keys by (rule table_uniq)+
  have "distinct ids" using u(1) by (simp add: ids_def overdue_distinct)
  with ok u(1) have d': "d' = purge_public_state ?now (nat limit) d1"
    by (auto simp: CleanupPublicAccountState_def Let_def ids_def d1_def expire_all split: if_splits)
  have bound: "trunc_us (?now - 48 * hour) \<le> t" if "?now - 48 * hour \<le> t" for t
    using that trunc_us_le [of "?now - 48 * hour"] by simp
  have u1: "uniq pc_id (public_email_challenges d1)" using u(1) by (simp add: d1_def)
  have c1: "\<exists>c. c \<in> set (public_email_challenges d) \<and> pc_id c1 = pc_id c \<and> pc_expires_at c1 = pc_expires_at c"
    if "c1 \<in> set (public_email_challenges d1)" for c1
    using that by (auto simp: d1_def expire_rows_def set_update)
  have old: "pc_expires_at c \<le> ?now" if "c \<in> set (public_email_challenges d)" "pc_id c \<in> set ids" for c
    using that u(1) by (auto simp: ids_def dest!: in_oldestD dest: uniq_inj)
  have fresh: "c \<in> set (public_email_challenges d1)" if "c \<in> set (public_email_challenges d)" "?now < pc_expires_at c" for c
    using that old [of c] by (force simp: d1_def expire_rows_def set_update)
  have kept: "pc_id c \<in> pc_id ` set (public_email_challenges d')"
    if "c \<in> set (public_email_challenges d1)" "?now - 48 * hour \<le> pc_expires_at c" for c
    unfolding d' purge_tables by (rule imageI, rule kept_unless_selected [OF u1 that(1)]) (use bound [OF that(2)] in simp)
  have "durable d' = durable d" unfolding d' purge_durable by (simp add: d1_def durable_def)
  moreover have "v \<in> set (email_verifications d')"
    if "v \<in> set (email_verifications d)"
      "\<forall>c \<in> set (public_email_challenges d). pc_id c = ev_id v \<longrightarrow> ?now - 48 * hour \<le> pc_expires_at c" for v
    unfolding d' by (rule purge_verifications) (use that c1 bound in \<open>force simp: d1_def\<close>)+
  moreover have "c \<in> set (public_email_challenges d')"
    if "c \<in> set (public_email_challenges d)" "?now < pc_expires_at c" for c
    unfolding d' purge_tables
    by (rule kept_unless_selected [OF u1 fresh [OF that]]) (use bound [of "pc_expires_at c"] that(2) in \<open>simp add: duration_defs\<close>)
  moreover have "pc_id c \<in> pc_id ` set (public_email_challenges d')"
    if "c \<in> set (public_email_challenges d)" "?now - 48 * hour \<le> pc_expires_at c" for c
  proof -
    have "(if pc_id c \<in> set ids then expired_row ?now c else c) \<in> set (public_email_challenges d1)"
      using that(1) by (auto simp: d1_def expire_rows_def tbl_update_def)
    then show ?thesis using kept that(2) by (fastforce split: if_splits)
  qed
  moreover have "r \<in> set (account_refresh_tokens d')" if "r \<in> set (account_refresh_tokens d)" "?now < rt_expires_at r" for r
    using kept_unless_selected [OF u(2) that(1), of "\<lambda>r. rt_expires_at r \<le> ?now"] that(2) by (simp add: d' purge_tables d1_def)
  moreover have "s \<in> set (account_sessions d')" if "s \<in> set (account_sessions d)" "?now < se_expires_at s" for s
    using kept_unless_selected [OF u(3) that(1), of "\<lambda>s. se_expires_at s \<le> ?now"] that(2) by (simp add: d' purge_tables d1_def)
  ultimately show ?thesis
    using purge_flows [of d1] purge_events [of _ d1] u(4) bound by (auto simp: d' d1_def)
qed

text \<open>
  The clean-up always makes progress. On a store whose rows are readable and
  whose versions are not exhausted it succeeds for every valid limit; and when the
  limit is at least the size of a table, no expired refresh token, no expired
  session, no challenge past its retention and no live but overdue challenge is left.
\<close>

theorem cleanup_complete:
  assumes keys: "db_keys d" and now: "\<not> is_zero now" and limit: "1 \<le> limit" "limit \<le> 1000"
    and rows: "\<And>c. c \<in> set (public_email_challenges d) \<Longrightarrow> pc_version c \<noteq> - 1 \<and> uint (pc_blind_index_version c) \<le> 2 ^ 63 - 1"
    and size: "length (account_refresh_tokens d) \<le> nat limit" "length (account_sessions d) \<le> nat limit"
      "length (public_email_challenges d) \<le> nat limit"
  shows "\<exists>d'. CleanupPublicAccountState now limit d = Inr d' \<and>
    (\<forall>r \<in> set (account_refresh_tokens d'). trunc_us now < rt_expires_at r) \<and>
    (\<forall>s \<in> set (account_sessions d'). trunc_us now < se_expires_at s) \<and>
    (\<forall>c \<in> set (public_email_challenges d'). trunc_us now - 48 * hour - 1000 < pc_expires_at c \<and>
      (live_proof (pc_state c) \<longrightarrow> trunc_us now < pc_expires_at c))"
proof -
  let ?now = "trunc_us now"
  define ids where "ids = map pc_id (oldest pc_id pc_expires_at (nat limit)
      (filter (\<lambda>c. pc_expires_at c \<le> ?now \<and> live_proof (pc_state c)) (public_email_challenges d)))"
  define d1 where "d1 = d\<lparr>public_email_challenges := expire_rows ?now ids (public_email_challenges d)\<rparr>"
  define d' where "d' = purge_public_state ?now (nat limit) d1"
  have u: "uniq pc_id (public_email_challenges d)" using keys by (rule table_uniq)
  have len: "length (filter P (public_email_challenges d)) \<le> nat limit" for P
    using size(3) length_filter_le [of P "public_email_challenges d"] by linarith
  have ids: "set ids = pc_id ` {c \<in> set (public_email_challenges d). pc_expires_at c \<le> ?now \<and> live_proof (pc_state c)}"
    by (simp add: ids_def oldest_all [OF len])
  have found: "\<exists>c. tfind pc_id i (public_email_challenges d) = Some c \<and> can_expire c" if "i \<in> set ids" for i
  proof -
    from that obtain c where c: "c \<in> set (public_email_challenges d)" "i = pc_id c" "live_proof (pc_state c)"
      by (auto simp: ids)
    with u rows [OF c(1)] show ?thesis by (intro exI [of _ c]) (simp add: uniq_mem_tfind can_expire_def)
  qed
  have "distinct ids" unfolding ids_def using u by (rule overdue_distinct)
  then have run: "CleanupPublicAccountState now limit d = Inr d'"
    using now limit found u expire_all [of d ids ?now d1]
    by (simp add: CleanupPublicAccountState_def Let_def d'_def d1_def flip: ids_def)
  have left: "c \<in> set (public_email_challenges d1)" "trunc_us (?now - 48 * hour) \<le> pc_expires_at c"
    if "c \<in> set (public_email_challenges d')" for c
    using that none_left [OF _ that [unfolded d'_def purge_tables]] size(3)
    by (simp_all add: d'_def purge_tables set_delete) (simp add: d1_def expire_rows_def)
  have "?now < pc_expires_at c" if "c \<in> set (public_email_challenges d1)" "live_proof (pc_state c)" for c
  proof -
    from that(1) obtain r where r: "r \<in> set (public_email_challenges d)" "c = (if pc_id r \<in> set ids then expired_row ?now r else r)"
      by (auto simp: d1_def expire_rows_def set_update)
    have "pc_id r \<notin> set ids" using r(2) that(2) by (auto simp: live_proof_def)
    with r that(2) show ?thesis unfolding ids by force
  qed
  moreover have "?now - 48 * hour - 1000 < pc_expires_at c" if "c \<in> set (public_email_challenges d')" for c
    using left(2) [OF that] trunc_us_gt [of "?now - 48 * hour"] by simp
  moreover have "?now < rt_expires_at r" if "r \<in> set (account_refresh_tokens d')" for r
    using none_left [OF _ that [unfolded d'_def purge_tables]] size(1) by (simp add: d1_def)
  moreover have "?now < se_expires_at s" if "s \<in> set (account_sessions d')" for s
    using none_left [OF _ that [unfolded d'_def purge_tables]] size(2) by (simp add: d1_def)
  ultimately show ?thesis using run left(1) by blast
qed

section \<open>Witnesses\<close>

definition delivered_db :: db where
  "delivered_db = delivery_db (sample_challenge\<lparr>pc_state := Delivered\<rparr>)"

definition sample_completion :: "char \<Rightarrow> PublicEmailCompletion" where
  "sample_completion ch = \<lparr>cm_ChallengeID = sample_uuid, cm_ProductID = ''pict'', cm_InstallationID = sample_uuid,
     cm_OTPKeyID = ''otp'', cm_NonceHash = replicate 32 CHR ''n'', cm_CodeHash = replicate 32 ch,
     cm_Identity = (sample_identity sample_uuid)\<lparr>ni_BlindIndexVersion := 1, ni_BlindIndex := replicate 32 CHR ''x'',
       ni_VerifiedAt := second, ni_InstallationID := Some sample_uuid\<rparr>,
     cm_Indexes = [\<lparr>bi_version = 1, bi_value = replicate 32 CHR ''x''\<rparr>],
     cm_SessionID = sample_uuid, cm_RefreshHash = replicate 32 CHR ''r'', cm_RefreshExpiresAt = 1000 * second\<rparr>"

lemmas completion_eval = sample_completion_def sample_identity_def delivered_db_def delivery_db_def sample_defs
  new_verification_def challenge_verification_def sample_verification_def sample_challenge_def new_flow_def
  duration_defs trunc_us_def is_zero_def zero_time_def

lemma delivered_db_keys: "db_keys delivered_db"
  unfolding delivered_db_def by (rule delivery_db_keys)

lemma sample_register_proof:
  "\<exists>r d'. register_proof (2 * second) (sample_completion CHR ''c'') (sample_challenge\<lparr>pc_state := Delivered\<rparr>)
     (new_flow second sample_challenge None 1) delivered_db = Inr (r, d')"
  by (simp add: register_proof_def prove_email_def Let_def completion_eval readEmailVerification_def verification_of_row_def
      verifiedEmailIdentityMatches_def equalOptionalText_def cas_row_public_def cas_public_def cas_update_def cas_row_def set_proof_def
      identity_eval insert_row_eval link_optional_def linkInstallation_def link_person_def tbl_update_def update_rows_def
      open_session_def account_state_def publicAccountDeletionPending_def registerPublicProductAccount_def readProductAccount_def
      upsert_row_def tbl_upsert_def revoke_previous_def insertAccountSession_def insertAccountRefresh_def set_flow_session_def fl_key_def
      consumeEmailVerificationTx_def finishPublicChallengeTx_def finish_challenge_def appendPublicAccountAudit_def sample_product_valid
      delete_rows_def)

lemma sample_completion_valid:
  "readPublicChallenge delivered_db sample_uuid = Inr (sample_challenge\<lparr>pc_state := Delivered\<rparr>)"
  "challenge_open (sample_completion ch) (sample_challenge\<lparr>pc_state := Delivered\<rparr>)"
  "tfind fl_key (''pict'', sample_uuid) (public_registration_flows delivered_db) = Some (new_flow second sample_challenge None 1)"
  "validateSubjectWith delivered_db \<lparr>su_Kind = ''installation'', su_ID = sample_uuid\<rparr> ''pict'' = Inr ()"
  by (simp_all add: readPublicChallenge_def scanPublicChallenge_def challenge_open_def validateSubjectWith_def completion_eval fl_key_def)

theorem completion_effect_witness:
  "\<exists>r d'. CompletePublicEmailChallenge (2 * second) (sample_completion CHR ''c'') delivered_db = (Inr r, d') \<and>
     tfind ev_id sample_uuid (email_verifications d') = None"
proof -
  from sample_register_proof obtain r d' where run: "register_proof (2 * second) (sample_completion CHR ''c'')
      (sample_challenge\<lparr>pc_state := Delivered\<rparr>) (new_flow second sample_challenge None 1) delivered_db = Inr (r, d')" by blast
  have f: "cm_ChallengeID (sample_completion CHR ''c'') = sample_uuid" "cm_ProductID (sample_completion CHR ''c'') = ''pict''"
    "cm_InstallationID (sample_completion CHR ''c'') = sample_uuid" by (simp_all add: sample_completion_def)
  have ok: "CompletePublicEmailChallenge (2 * second) (sample_completion CHR ''c'') delivered_db = (Inr r, d')"
    using sample_completion_valid(2) [of "CHR ''c''"] run
    by (simp add: CompletePublicEmailChallenge_def commit_or_reject_def complete_challenge_def Let_def f sample_completion_valid)
       (simp add: sample_completion_def sample_challenge_def new_flow_def sample_product_valid duration_defs trunc_us_def)
  have "tfind pc_id sample_uuid (public_email_challenges delivered_db) = Some (sample_challenge\<lparr>pc_state := Delivered\<rparr>)"
    using sample_completion_valid(1) by (simp add: readPublicChallenge_Inr)
  with completion_effect [OF ok delivered_db_keys] ok show ?thesis by (auto simp: f dest: tfind_key)
qed

theorem wrong_code_bounded_witness:
  "\<exists>d' c'. CompletePublicEmailChallenge (2 * second) (sample_completion CHR ''z'') delivered_db = (Inl ErrNotFound, d') \<and>
     tfind pc_id sample_uuid (public_email_challenges d') = Some c' \<and> pc_attempts c' = 1"
proof -
  let ?c = "sample_challenge\<lparr>pc_state := Delivered\<rparr>" and ?i = "sample_completion CHR ''z''"
  have "\<exists>d' c'. CompletePublicEmailChallenge (2 * second) ?i delivered_db = (Inl ErrNotFound, d') \<and>
    tfind pc_id (pc_id ?c) (public_email_challenges d') = Some c' \<and> pc_attempts c' = pc_attempts ?c + 1 \<and>
    (if pc_attempts ?c = 4 then pc_state c' = Locked \<and> pc_code_hash c' = [] \<and> pc_code c' = empty_cipher
     else pc_state c' = pc_state ?c \<and> pc_code_hash c' = pc_code_hash ?c \<and> pc_code c' = pc_code ?c) \<and>
    (\<forall>i. i \<noteq> pc_id ?c \<longrightarrow> tfind pc_id i (public_email_challenges d') = tfind pc_id i (public_email_challenges delivered_db)) \<and>
    d' = delivered_db\<lparr>public_email_challenges := public_email_challenges d'\<rparr>"
    by (rule wrong_code_bounded [OF delivered_db_keys, where flow = "new_flow second sample_challenge None 1" and u = "()"])
       (use sample_completion_valid sample_completion_valid(2) [of "CHR ''z''"] in
         \<open>simp_all add: sample_completion_def sample_product_valid, simp_all add: sample_challenge_def new_flow_def duration_defs trunc_us_def\<close>)
  then show ?thesis by (auto simp: sample_challenge_def)
qed

theorem cleanup_preserves_live_witness:
  "\<exists>d'. CleanupPublicAccountState (2 * second) 5 delivered_db = Inr d' \<and> durable d' = durable delivered_db"
proof -
  have "\<exists>d'. CleanupPublicAccountState (2 * second) 5 delivered_db = Inr d'"
    by (simp add: CleanupPublicAccountState_def Let_def completion_eval oldest_def)
  then obtain d' where ok: "CleanupPublicAccountState (2 * second) 5 delivered_db = Inr d'" ..
  from cleanup_preserves_live [OF ok delivered_db_keys] ok show ?thesis by blast
qed

theorem cleanup_complete_witness:
  "\<exists>d'. CleanupPublicAccountState (901 * second) 5 delivered_db = Inr d' \<and>
     (\<forall>c \<in> set (public_email_challenges d'). live_proof (pc_state c) \<longrightarrow> 901 * second < pc_expires_at c)"
proof -
  have "\<exists>d'. CleanupPublicAccountState (901 * second) 5 delivered_db = Inr d' \<and>
    (\<forall>r \<in> set (account_refresh_tokens d'). trunc_us (901 * second) < rt_expires_at r) \<and>
    (\<forall>s \<in> set (account_sessions d'). trunc_us (901 * second) < se_expires_at s) \<and>
    (\<forall>c \<in> set (public_email_challenges d'). trunc_us (901 * second) - 48 * hour - 1000 < pc_expires_at c \<and>
      (live_proof (pc_state c) \<longrightarrow> trunc_us (901 * second) < pc_expires_at c))"
    by (rule cleanup_complete [OF delivered_db_keys]) (auto simp: completion_eval)
  then show ?thesis by (auto simp: trunc_us_def duration_defs)
qed

end
