(* ===== verification/Leases.thy ===== *)
theory Leases
  imports Table_Access
begin

text \<open>
  Queues that are drained by leasing (\<^verbatim>\<open>Store.ClaimOutbox\<close> and
  \<^verbatim>\<open>Store.ClaimPrivacyErasures\<close>): a transaction selects the due rows, inspects each
  of them, and leases the ones that are ready by a version-checked update.  The
  locale \<open>claiming\<close> states what the two loops share and gives their effect once.
\<close>

locale claiming = table get put key
  for get :: "'r tget" and put :: "'r tset" and key :: "'r \<Rightarrow> 'k" +
  fixes ver :: "'r \<Rightarrow> uint64" and due :: "'r \<Rightarrow> bool" and lease :: "'r \<Rightarrow> 'r"
    and inspect :: "db \<Rightarrow> 'r \<Rightarrow> 'j option result"
    and claim :: "'r \<Rightarrow> 'j list \<times> db \<Rightarrow> ('j list \<times> db) result"
  assumes put_put: "put f (put g d) = put (f \<circ> g) d"
    and put_same: "put (\<lambda>_. get d) d = d"
    and put_const: "put (\<lambda>_. f (get d)) d = put f d"
    and lease_key: "key (lease r) = key r"
    and lease_ver: "ver (lease r) = ver r + 1"
    and inspect_stable: "(\<And>r. r \<in> set (get d) \<Longrightarrow> P r \<Longrightarrow> due r) \<Longrightarrow> inspect (put (tbl_update P lease) d) s = inspect d s"
    and claim_eq: "claim r (xs, d) = rbind (inspect d r) (\<lambda>found. case found of None \<Rightarrow> Inr (xs, d)
      | Some j \<Rightarrow> rbind (cas_row get put key ver (key r) (ver r) (\<lambda>_. True) lease d) (\<lambda>d1. Inr (xs @ [j], d1)))"
begin

text \<open>The rows of a selection that are ready, and what the loop hands out for them.\<close>

definition ready :: "db \<Rightarrow> 'r \<Rightarrow> bool" where
  "ready d r \<longleftrightarrow> (\<exists>j. inspect d r = Inr (Some j))"

definition leased :: "db \<Rightarrow> 'r list \<Rightarrow> db" where
  "leased d rs = put (tbl_update (\<lambda>x. key x \<in> key ` set (filter (ready d) rs)) lease) d"

definition handed :: "db \<Rightarrow> 'r list \<Rightarrow> 'j list" where
  "handed d rs = map (\<lambda>r. the (projr (inspect d r))) (filter (ready d) rs)"

lemma update_twice:
  "(\<And>x. Q x \<Longrightarrow> \<not> P x) \<Longrightarrow> (\<And>x. Q (lease x) \<longleftrightarrow> Q x) \<Longrightarrow>
   tbl_update Q lease \<circ> tbl_update P lease = tbl_update (\<lambda>x. P x \<or> Q x) lease"
  by (auto simp: fun_eq_iff tbl_update_def)

lemma leased_Nil [simp]: "leased d [] = d"
  using put_const [of "tbl_update (\<lambda>_. False) lease" d] put_same [of d] by (simp add: leased_def tbl_update_def)

lemma leased_skip: "\<not> ready d r \<Longrightarrow> leased d (r # rs) = leased d rs"
  by (simp add: leased_def)

lemma leased_keys: "db_keys d \<Longrightarrow> db_keys (leased d rs)"
  unfolding leased_def by (rule keys_put) (simp_all add: uniq_update lease_key keys_get)

lemma get_leased: "get (leased d rs) = tbl_update (\<lambda>x. key x \<in> key ` set (filter (ready d) rs)) lease (get d)"
  by (simp add: leased_def get_put)

text \<open>A row that was leased is not selected again while its lease keeps it from being due.\<close>

lemma leased_not_due:
  "(\<And>y. \<not> due' (lease y)) \<Longrightarrow> x \<in> set (get (leased d rs)) \<Longrightarrow> due' x \<Longrightarrow> key x \<notin> key ` set (filter (ready d) rs)"
proof
  assume not_due: "\<And>y. \<not> due' (lease y)" and x: "x \<in> set (get (leased d rs))" "due' x" and k: "key x \<in> key ` set (filter (ready d) rs)"
  from x(1) obtain r where "x = (if key r \<in> key ` set (filter (ready d) rs) then lease r else r)"
    by (auto simp only: get_leased set_update)
  with k have "x = lease r" by (metis lease_key)
  with x(2) not_due show False by simp
qed

lemma claim_loop:
  assumes "db_keys d" and "distinct (map key rs)"
    and "\<And>r. r \<in> set rs \<Longrightarrow> due r \<and> tfind key (key r) (get d) = Some r"
    and "\<And>r. r \<in> set rs \<Longrightarrow> \<exists>found. inspect d r = Inr found"
  shows "for_each claim rs (xs, d) = Inr (xs @ handed d rs, leased d rs)"
  using assms
proof (induction rs arbitrary: xs d)
  case Nil
  then show ?case by (simp add: handed_def)
next
  case (Cons r rs)
  have u: "uniq key (get d)" using Cons.prems(1) by (rule keys_get)
  have r: "due r" "tfind key (key r) (get d) = Some r" using Cons.prems(3) by auto
  obtain found where found: "inspect d r = Inr found" using Cons.prems(4) [of r] by auto
  show ?case
  proof (cases found)
    case None
    with found have "\<not> ready d r" by (simp add: ready_def)
    with None found show ?thesis
      using Cons.IH [of d xs] Cons.prems by (simp add: claim_eq leased_skip handed_def)
  next
    case (Some j)
    let ?d = "put (tbl_update (\<lambda>x. key x = key r) lease) d"
    have same: "inspect ?d s = inspect d s" for s
      using r u by (intro inspect_stable) (metis uniq_mem_tfind option.sel)
    have ready: "ready d r" "ready ?d = ready d" using found Some by (simp_all add: ready_def same fun_eq_iff)
    have step: "claim r (xs, d) = Inr (xs @ [j], ?d)"
      using found Some r u by (simp add: claim_eq cas_row_ok lease_key lease_ver put_const)
    have other: "tfind key (key s) (get ?d) = Some s" if "s \<in> set rs" for s
    proof -
      have "key s \<noteq> key r" "tfind key (key s) (get d) = Some s" using that Cons.prems(2,3) by (auto simp: image_iff)
      then show ?thesis by (auto simp: get_put tfind_update lease_key dest: tfind_Some)
    qed
    have "db_keys ?d" using Cons.prems(1) u by (auto intro!: keys_put simp: uniq_update lease_key)
    then have "for_each claim rs (xs @ [j], ?d) = Inr ((xs @ [j]) @ handed ?d rs, leased ?d rs)"
      using Cons.prems other by (intro Cons.IH) (auto simp: same)
    moreover have "leased ?d rs = leased d (r # rs)"
      using Cons.prems(2) ready
      by (simp add: leased_def put_put) (subst update_twice, auto simp: lease_key)
    moreover have "handed d (r # rs) = j # handed ?d rs"
      using ready found Some by (simp add: handed_def same)
    ultimately show ?thesis using step by simp
  qed
qed

text \<open>An inspection that fails aborts the whole transaction.\<close>

lemma claim_loop_ok:
  assumes "for_each claim rs (xs, d) = Inr res" and "db_keys d" and "distinct (map key rs)"
    and "\<And>r. r \<in> set rs \<Longrightarrow> due r \<and> tfind key (key r) (get d) = Some r"
  shows "\<forall>r \<in> set rs. \<exists>found. inspect d r = Inr found"
proof (rule ccontr)
  assume "\<not> ?thesis"
  then obtain as r bs where rs: "rs = as @ r # bs" and bad: "\<not> (\<exists>found. inspect d r = Inr found)"
    and good: "\<forall>r \<in> set as. \<exists>found. inspect d r = Inr found"
    using split_list_first_prop [of rs "\<lambda>r. \<not> (\<exists>found. inspect d r = Inr found)"] by blast
  have "for_each claim (as @ ys) (xs, d) = rbind (for_each claim as (xs, d)) (for_each claim ys)" for ys
    by (induction as arbitrary: xs d) (auto simp: rbind_def split: sum.splits)
  moreover have "for_each claim as (xs, d) = Inr (xs @ handed d as, leased d as)"
    using good assms(2-4) rs by (intro claim_loop) auto
  moreover have "inspect (leased d as) r = inspect d r"
    unfolding leased_def
  proof (rule inspect_stable)
    fix x assume "x \<in> set (get d)" "key x \<in> key ` set (filter (ready d) as)"
    then obtain y where "y \<in> set as" "key x = key y" by auto
    with assms(4) [of y] uniq_mem_tfind [OF keys_get [OF assms(2)] \<open>x \<in> set (get d)\<close>] rs show "due x" by auto
  qed
  ultimately show False using assms(1) bad rs by (cases "inspect d r") (auto simp: claim_eq)
qed

lemma claim_loop_effect:
  assumes "for_each claim rs ([], d) = Inr (js, d')" and "db_keys d" and "distinct (map key rs)"
    and "\<And>r. r \<in> set rs \<Longrightarrow> due r \<and> tfind key (key r) (get d) = Some r"
  shows "js = handed d rs \<and> d' = leased d rs \<and> (\<forall>r \<in> set rs. \<exists>found. inspect d r = Inr found)"
  using claim_loop [OF assms(2-4), of "[]"] claim_loop_ok [OF assms] assms(1) by auto

lemma set_handed:
  "j \<in> set (handed d rs) \<longleftrightarrow> (\<exists>r \<in> set rs. inspect d r = Inr (Some j))"
  by (force simp: handed_def ready_def)

end

text \<open>The selection of a claim loop: due rows in the order of creation, at most a number of them.\<close>

lemma selection:
  assumes "uniq key t" and "r \<in> set (take n (sort_key f (filter due t)))"
  shows "due r \<and> tfind key (key r) t = Some r"
  using assms by (auto dest!: in_set_takeD simp: uniq_tfind_iff)

lemma selection_distinct: "uniq key t \<Longrightarrow> distinct (map key (take n (sort_key f (filter due t))))"
proof -
  assume u: "uniq key t"
  then have "distinct (map key (filter due t))" by (simp add: uniq_def distinct_map_filter)
  then have "distinct (map key (sort_key f (filter due t)))"
    by (simp add: distinct_map)
  then show ?thesis by (simp add: take_map [symmetric])
qed

end
