(* ===== verification/Privacy_Store.thy ===== *)
theory Privacy_Store
  imports Subject_Store
begin

text \<open>
  Privacy requests (\<^verbatim>\<open>internal/store/subject_records.go\<close>): a deletion request fans out
  one Metric step with one outbox event per pairwise alias and one final erasure
  step; its status changes by the finite state machine of the domain.  \<open>sha256\<close> is
  the hash function of the Go library, and \<open>fresh\<close> yields the identifiers that
  \<^verbatim>\<open>ids.NewUUID\<close> draws, in the order in which the code draws them.
\<close>

section \<open>Model\<close>

record PrivacyRequest =
  rq_Subject :: Subject
  rq_SubjectKey :: string
  rq_RequestType :: string
  rq_Scope :: string
  rq_ProductID :: "string option"
  rq_RequestedAt :: time
  rq_RequestedByWorkload :: string
  rq_IdempotencyKey :: string

record PrivacyRequestStatus =
  rs_ID :: string
  rs_RequestType :: string
  rs_Scope :: string
  rs_ProductID :: "string option"
  rs_Status :: string
  rs_RequestedAt :: time
  rs_CompletedAt :: "time option"

record PrivacyStatusUpdate =
  us_ID :: string
  us_Status :: string
  us_Actor :: string
  us_AuditNote :: string

definition product_text :: "PrivacyRequest \<Rightarrow> string" where
  "product_text request = (case rq_ProductID request of None \<Rightarrow> '''' | Some p \<Rightarrow> p)"

definition request_fingerprint :: "(string \<Rightarrow> bytes) \<Rightarrow> PrivacyRequest \<Rightarrow> string" where
  "request_fingerprint sha256 request =
     hex_encode (sha256 (su_Kind (rq_Subject request) @ [CHR 0x00] @ su_ID (rq_Subject request) @ [CHR 0x00] @
       rq_RequestType request @ [CHR 0x00] @ rq_Scope request @ [CHR 0x00] @ product_text request))"

definition getPrivacyRequestWith :: "db \<Rightarrow> string \<Rightarrow> PrivacyRequestStatus result" where
  "getPrivacyRequestWith d requestID =
     rbind (some_or ErrNotFound (tfind pr_id requestID (privacy_requests d))) (\<lambda>r.
     Inr \<lparr>rs_ID = requestID, rs_RequestType = pr_request_type r, rs_Scope = pr_scope r, rs_ProductID = pr_product_id r,
          rs_Status = pr_status r, rs_RequestedAt = pr_requested_at r, rs_CompletedAt = pr_completed_at r\<rparr>)"

definition insertPrivacyStep ::
  "string \<Rightarrow> string \<Rightarrow> string \<Rightarrow> string option \<Rightarrow> string option \<Rightarrow> time \<Rightarrow> db \<Rightarrow> db result"
where
  "insertPrivacyStep stepID requestID stepType productID subjectKey now =
     insert_row privacy_request_steps privacy_request_steps_update ps_id
       \<lparr>ps_id = stepID, ps_request_id = requestID, ps_step_type = stepType, ps_product_id = productID,
        ps_subject_key = subjectKey, ps_status = ''pending'', ps_attempts = 0, ps_available_at = trunc_us now,
        ps_lease_until = None, ps_receipt = None, ps_last_error = None, ps_completed_at = None,
        ps_created_at = trunc_us now, ps_updated_at = trunc_us now, ps_version = 1\<rparr>"

definition deletion_payload :: "string \<Rightarrow> ResolvedAlias \<Rightarrow> time \<Rightarrow> payload" where
  "deletion_payload eventID alias requestedAt =
     \<lparr>pl_schema_version = 2, pl_request_id = eventID, pl_product = ra_ProductID alias,
      pl_subject_key = ra_OpaqueKey alias, pl_action = ''delete'', pl_requested_at = requestedAt\<rparr>"

text \<open>One round of the fan-out loop: the \<open>k\<close>-th alias that is not skipped.\<close>

definition add_metric_step ::
  "(nat \<Rightarrow> string) \<Rightarrow> PrivacyRequest \<Rightarrow> time \<Rightarrow> nat \<times> ResolvedAlias \<Rightarrow> db \<Rightarrow> db result"
where
  "add_metric_step fresh request now ka d = (case ka of (k, alias) \<Rightarrow>
     let requestID = fresh 0; stepID = fresh (2 * k + 1); eventID = fresh (2 * k + 2) in
     rbind (insertPrivacyStep stepID requestID ''metric'' (Some (ra_ProductID alias)) (Some (ra_OpaqueKey alias)) now d) (\<lambda>d1.
     insertOutbox eventID ''telemetry.deletion.requested'' ''privacy_request'' requestID (Some stepID) (Some requestID)
       (deletion_payload eventID alias (rq_RequestedAt request)) now d1))"

definition alias_known :: "(string \<rightharpoonup> string) \<Rightarrow> ResolvedAlias \<Rightarrow> bool" where
  "alias_known products alias \<longleftrightarrow> products (ra_ProductID alias) = Some (ra_Audience alias)"

definition deletion_aliases :: "db \<Rightarrow> PrivacyRequest \<Rightarrow> (string \<rightharpoonup> string) \<Rightarrow> ResolvedAlias list result" where
  "deletion_aliases d request products =
     (if rq_RequestType request \<noteq> ''deletion'' then Inr []
      else if su_Kind (rq_Subject request) = ''person''
      then privacyFanoutAliases d (su_ID (rq_Subject request)) (rq_ProductID request)
      else
        (case products (product_text request) of
           None \<Rightarrow> Inl ErrInvalid
         | Some audience \<Rightarrow>
             Inr [\<lparr>ra_OpaqueKey = rq_SubjectKey request, ra_SubjectType = ''installation'',
                   ra_SubjectID = su_ID (rq_Subject request), ra_PersonID = '''', ra_ProductID = product_text request,
                   ra_Audience = audience\<rparr>]))"

definition new_request :: "(string \<Rightarrow> bytes) \<Rightarrow> string \<Rightarrow> PrivacyRequest \<Rightarrow> time \<Rightarrow> privacy_request" where
  "new_request sha256 requestID request now =
     \<lparr>pr_id = requestID, pr_subject_type = su_Kind (rq_Subject request), pr_subject_id = su_ID (rq_Subject request),
      pr_request_type = rq_RequestType request, pr_scope = rq_Scope request, pr_product_id = rq_ProductID request,
      pr_status = ''requested'', pr_requested_at = trunc_us (rq_RequestedAt request), pr_completed_at = None,
      pr_requested_by_workload = rq_RequestedByWorkload request, pr_idempotency_key = rq_IdempotencyKey request,
      pr_request_fingerprint = request_fingerprint sha256 request, pr_created_at = trunc_us now,
      pr_updated_at = trunc_us now, pr_version = 1\<rparr>"

definition insert_request ::
  "(string \<Rightarrow> bytes) \<Rightarrow> string \<Rightarrow> PrivacyRequest \<Rightarrow> time \<Rightarrow> db \<Rightarrow> db result"
where
  "insert_request sha256 requestID request now d =
     rbind (insert_row privacy_requests privacy_requests_update pr_id (new_request sha256 requestID request now) d) (\<lambda>d1.
     insert_row privacy_idempotencies privacy_idempotencies_update pi_key
       \<lparr>pi_workload = rq_RequestedByWorkload request, pi_idempotency_key = rq_IdempotencyKey request,
        pi_request_id = requestID, pi_request_fingerprint = request_fingerprint sha256 request\<rparr> d1)"

definition fan_out ::
  "(nat \<Rightarrow> string) \<Rightarrow> PrivacyRequest \<Rightarrow> ResolvedAlias list \<Rightarrow> time \<Rightarrow> db \<Rightarrow> db result"
where
  "fan_out fresh request known now d =
     (if rq_RequestType request \<noteq> ''deletion'' then Inr d
      else
        rbind (for_each (add_metric_step fresh request now) (enumerate 0 known) d) (\<lambda>d1.
        insertPrivacyStep (fresh (2 * length known + 1)) (fresh 0) ''ydb'' None None now d1))"

definition CreatePrivacyRequest ::
  "(string \<Rightarrow> bytes) \<Rightarrow> (nat \<Rightarrow> string) \<Rightarrow> time \<Rightarrow> PrivacyRequest \<Rightarrow> (string \<rightharpoonup> string) \<Rightarrow> db \<Rightarrow>
   ((PrivacyRequestStatus \<times> bool) \<times> db) result"
where
  "CreatePrivacyRequest sha256 fresh now request products d =
     (case tfind pi_key (rq_RequestedByWorkload request, rq_IdempotencyKey request) (privacy_idempotencies d) of
        Some row \<Rightarrow>
          if pi_request_fingerprint row \<noteq> request_fingerprint sha256 request then Inl ErrConflict
          else rbind (getPrivacyRequestWith d (pi_request_id row)) (\<lambda>existing. Inr ((existing, False), d))
      | None \<Rightarrow>
          rbind (validateSubjectWith d (rq_Subject request) (product_text request)) (\<lambda>_.
          rbind (deletion_aliases d request products) (\<lambda>aliases.
          rbind (insert_request sha256 (fresh 0) request now d) (\<lambda>d1.
          rbind (fan_out fresh request (filter (alias_known products) aliases) now d1) (\<lambda>d2.
          Inr ((\<lparr>rs_ID = fresh 0, rs_RequestType = rq_RequestType request, rs_Scope = rq_Scope request,
                 rs_ProductID = rq_ProductID request, rs_Status = ''requested'', rs_RequestedAt = rq_RequestedAt request,
                 rs_CompletedAt = None\<rparr>, True), d2))))))"

definition privacyDeliveryStarted :: "db \<Rightarrow> string \<Rightarrow> bool" where
  "privacyDeliveryStarted d requestID \<longleftrightarrow>
     list_ex (\<lambda>s. ps_request_id s = requestID \<and> (ps_status s \<noteq> ''pending'' \<or> 0 < ps_attempts s)) (privacy_request_steps d) \<or>
     list_ex (\<lambda>e. ob_privacy_request_id e = Some requestID \<and>
       (ob_status e \<noteq> ''pending'' \<or> 0 < ob_attempts e \<or> 0 < ob_poll_count e)) (outbox_events d)"

definition cancelPrivacyChildren :: "string \<Rightarrow> time \<Rightarrow> db \<Rightarrow> db" where
  "cancelPrivacyChildren requestID now d =
     update_rows outbox_events_update
       (\<lambda>e. ob_privacy_request_id e = Some requestID \<and> ob_status e \<in> {''pending'', ''processing'', ''manual_dlq''})
       (\<lambda>e. e\<lparr>ob_status := ''cancelled'', ob_locked_at := None, ob_last_error := None, ob_version := ob_version e + 1\<rparr>)
     (update_rows privacy_request_steps_update
       (\<lambda>s. ps_request_id s = requestID \<and> ps_status s \<noteq> ''completed'')
       (\<lambda>s. s\<lparr>ps_status := ''cancelled'', ps_lease_until := None, ps_updated_at := trunc_us now, ps_version := ps_version s + 1\<rparr>) d)"

definition set_request_status :: "string \<times> time \<Rightarrow> privacy_request \<Rightarrow> privacy_request" where
  "set_request_status p r = r\<lparr>pr_status := fst p, pr_updated_at := trunc_us (snd p), pr_version := pr_version r + 1\<rparr>"

definition insert_status_audit :: "string \<Rightarrow> string \<Rightarrow> string \<Rightarrow> string \<Rightarrow> string \<Rightarrow> time \<Rightarrow> db \<Rightarrow> db result" where
  "insert_status_audit auditID requestID status actor note now =
     insert_row privacy_request_status_audit privacy_request_status_audit_update pa_id
       \<lparr>pa_id = auditID, pa_request_id = requestID, pa_status = status, pa_actor = actor, pa_audit_note = note,
        pa_changed_at = trunc_us now\<rparr>"

definition UpdatePrivacyRequestStatus :: "string \<Rightarrow> time \<Rightarrow> PrivacyStatusUpdate \<Rightarrow> db \<Rightarrow> db result" where
  "UpdatePrivacyRequestStatus auditID now update d =
     (if us_Status update = ''completed'' then Inl ErrConflict
      else
        rbind (some_or ErrNotFound (tfind pr_id (us_ID update) (privacy_requests d))) (\<lambda>r.
        if \<not> ValidPrivacyTransition (pr_status r) (us_Status update) then Inl ErrConflict
        else
          let terminal = (us_Status update = ''rejected'' \<or> us_Status update = ''cancelled'') in
          if terminal \<and> privacyDeliveryStarted d (us_ID update) then Inl ErrConflict
          else
            rbind (cas_row privacy_requests privacy_requests_update pr_id pr_version (us_ID update) (pr_version r)
                     (\<lambda>_. True) (set_request_status (us_Status update, now)) d) (\<lambda>d1.
            insert_status_audit auditID (us_ID update) (us_Status update) (us_Actor update) (us_AuditNote update) now
              (if terminal then cancelPrivacyChildren (us_ID update) now d1 else d1))))"

section \<open>Laws\<close>

interpretation request_status: versioned_update pr_id pr_version set_request_status
  by unfold_locales (simp_all add: set_request_status_def)

lemma getPrivacyRequest_yields [keys_intro]: "(\<And>x. P x) \<Longrightarrow> yields (getPrivacyRequestWith d i) P"
  by (rule yields_any)

lemma insertPrivacyStep_keys [keys_intro]:
  "db_keys d \<Longrightarrow> (\<And>d'. db_keys d' \<Longrightarrow> P d') \<Longrightarrow> yields (insertPrivacyStep i r t p k now d) P"
  by (auto simp: insertPrivacyStep_def intro!: keys_intro)

lemma insert_status_audit_keys [keys_intro]:
  "db_keys d \<Longrightarrow> (\<And>d'. db_keys d' \<Longrightarrow> P d') \<Longrightarrow> yields (insert_status_audit i r s a n now d) P"
  by (auto simp: insert_status_audit_def intro!: keys_intro)

lemma add_metric_step_keys [keys_intro]:
  "db_keys d \<Longrightarrow> (\<And>d'. db_keys d' \<Longrightarrow> P d') \<Longrightarrow> yields (add_metric_step f r now ka d) P"
  by (auto simp: add_metric_step_def Let_def intro!: keys_intro split: prod.splits)

lemma fan_out_keys [keys_intro]:
  "db_keys d \<Longrightarrow> (\<And>d'. db_keys d' \<Longrightarrow> P d') \<Longrightarrow> yields (fan_out f r ks now d) P"
  by (auto simp: fan_out_def intro!: keys_intro yields_for_each [where I = db_keys])

lemma insert_request_keys [keys_intro]:
  "db_keys d \<Longrightarrow> (\<And>d'. db_keys d' \<Longrightarrow> P d') \<Longrightarrow> yields (insert_request sha i r now d) P"
  by (auto simp: insert_request_def intro!: keys_intro)

lemma cancelPrivacyChildren_keys [simp]: "db_keys d \<Longrightarrow> db_keys (cancelPrivacyChildren r now d)"
  by (simp add: cancelPrivacyChildren_def keys_simps)

lemma CreatePrivacyRequest_keys:
  "db_keys d \<Longrightarrow> yields (CreatePrivacyRequest sha f now r ps d) (\<lambda>(x, d'). db_keys d')"
  by (auto simp: CreatePrivacyRequest_def intro!: keys_intro yields_any [of _ "validateSubjectWith _ _ _"]
      yields_any [of _ "deletion_aliases _ _ _"] split: option.splits)

lemma UpdatePrivacyRequestStatus_keys:
  "db_keys d \<Longrightarrow> yields (UpdatePrivacyRequestStatus a now u d) db_keys"
  by (auto simp: UpdatePrivacyRequestStatus_def Let_def intro!: keys_intro)

section \<open>The fan-out\<close>

definition metric_row :: "(nat \<Rightarrow> string) \<Rightarrow> time \<Rightarrow> nat \<times> ResolvedAlias \<Rightarrow> privacy_step" where
  "metric_row fresh now ka = \<lparr>ps_id = fresh (2 * fst ka + 1), ps_request_id = fresh 0, ps_step_type = ''metric'',
     ps_product_id = Some (ra_ProductID (snd ka)), ps_subject_key = Some (ra_OpaqueKey (snd ka)), ps_status = ''pending'',
     ps_attempts = 0, ps_available_at = trunc_us now, ps_lease_until = None, ps_receipt = None, ps_last_error = None,
     ps_completed_at = None, ps_created_at = trunc_us now, ps_updated_at = trunc_us now, ps_version = 1\<rparr>"

definition erasure_row :: "string \<Rightarrow> string \<Rightarrow> time \<Rightarrow> privacy_step" where
  "erasure_row stepID requestID now = \<lparr>ps_id = stepID, ps_request_id = requestID, ps_step_type = ''ydb'',
     ps_product_id = None, ps_subject_key = None, ps_status = ''pending'', ps_attempts = 0, ps_available_at = trunc_us now,
     ps_lease_until = None, ps_receipt = None, ps_last_error = None, ps_completed_at = None, ps_created_at = trunc_us now,
     ps_updated_at = trunc_us now, ps_version = 1\<rparr>"

definition event_row :: "(nat \<Rightarrow> string) \<Rightarrow> PrivacyRequest \<Rightarrow> time \<Rightarrow> nat \<times> ResolvedAlias \<Rightarrow> outbox_event" where
  "event_row fresh request now ka = \<lparr>ob_id = fresh (2 * fst ka + 2), ob_topic = ''telemetry.deletion.requested'',
     ob_aggregate_type = ''privacy_request'', ob_aggregate_id = fresh 0, ob_privacy_step_id = Some (fresh (2 * fst ka + 1)),
     ob_privacy_request_id = Some (fresh 0), ob_payload = deletion_payload (fresh (2 * fst ka + 2)) (snd ka) (rq_RequestedAt request),
     ob_status = ''pending'', ob_attempts = 0, ob_poll_count = 0, ob_available_at = trunc_us now, ob_locked_at = None,
     ob_delivered_at = None, ob_last_error = None, ob_delivery_receipt = None, ob_created_at = trunc_us now, ob_version = 1\<rparr>"

lemma map_enumerate_snd: "map (\<lambda>ka. f (snd ka)) (enumerate n xs) = map f xs"
  by (induction xs arbitrary: n) simp_all

lemma metric_steps_effect:
  "yields (for_each (add_metric_step fresh request now) kas d) (\<lambda>d'.
     d' = d\<lparr>privacy_request_steps := privacy_request_steps d @ map (metric_row fresh now) kas,
           outbox_events := outbox_events d @ map (event_row fresh request now) kas\<rparr>)"
proof (induction kas arbitrary: d)
  case (Cons ka kas)
  have one: "yields (add_metric_step fresh request now ka d) (\<lambda>d1.
      d1 = d\<lparr>privacy_request_steps := privacy_request_steps d @ [metric_row fresh now ka],
             outbox_events := outbox_events d @ [event_row fresh request now ka]\<rparr>)"
    by (cases ka) (simp add: add_metric_step_def Let_def insertPrivacyStep_def insertOutbox_def row_wp metric_row_def event_row_def)
  show ?case by (simp, rule yields_weaken [OF one], rule yields_weaken [OF Cons]) simp
qed simp

text \<open>The whole effect of a request that is created.\<close>

lemma create_request_effect:
  assumes "CreatePrivacyRequest sha256 fresh now request products d = Inr ((status, True), d')"
  obtains aliases known where "deletion_aliases d request products = Inr aliases" "known = filter (alias_known products) aliases"
    "tfind pi_key (rq_RequestedByWorkload request, rq_IdempotencyKey request) (privacy_idempotencies d) = None"
    "fresh 0 \<notin> pr_id ` set (privacy_requests d)" "rs_ID status = fresh 0"
    "privacy_requests d' = privacy_requests d @ [new_request sha256 (fresh 0) request now]"
    "privacy_idempotencies d' = privacy_idempotencies d @ [\<lparr>pi_workload = rq_RequestedByWorkload request,
       pi_idempotency_key = rq_IdempotencyKey request, pi_request_id = fresh 0, pi_request_fingerprint = request_fingerprint sha256 request\<rparr>]"
    "privacy_request_steps d' = privacy_request_steps d @ (if rq_RequestType request = ''deletion''
       then map (metric_row fresh now) (enumerate 0 known) @ [erasure_row (fresh (2 * length known + 1)) (fresh 0) now] else [])"
    "outbox_events d' = outbox_events d @ (if rq_RequestType request = ''deletion'' then map (event_row fresh request now) (enumerate 0 known) else [])"
proof -
  from assms obtain aliases d1 where new: "tfind pi_key (rq_RequestedByWorkload request, rq_IdempotencyKey request) (privacy_idempotencies d) = None"
    and al: "deletion_aliases d request products = Inr aliases"
    and ins: "insert_request sha256 (fresh 0) request now d = Inr d1"
    and fan: "fan_out fresh request (filter (alias_known products) aliases) now d1 = Inr d'" and st: "rs_ID status = fresh 0"
    by (auto simp: CreatePrivacyRequest_def split: option.splits if_splits)
  define known where "known = filter (alias_known products) aliases"
  have i: "fresh 0 \<notin> pr_id ` set (privacy_requests d) \<and> d1 = d\<lparr>privacy_requests := privacy_requests d @ [new_request sha256 (fresh 0) request now],
      privacy_idempotencies := privacy_idempotencies d @ [\<lparr>pi_workload = rq_RequestedByWorkload request,
       pi_idempotency_key = rq_IdempotencyKey request, pi_request_id = fresh 0, pi_request_fingerprint = request_fingerprint sha256 request\<rparr>]\<rparr>"
    using ins by (auto simp: insert_request_def insert_row_Inr new_request_def)
  have "yields (fan_out fresh request known now d1) (\<lambda>d'. d' = d1\<lparr>privacy_request_steps := privacy_request_steps d1 @
        (if rq_RequestType request = ''deletion'' then map (metric_row fresh now) (enumerate 0 known) @
           [erasure_row (fresh (2 * length known + 1)) (fresh 0) now] else []),
      outbox_events := outbox_events d1 @
        (if rq_RequestType request = ''deletion'' then map (event_row fresh request now) (enumerate 0 known) else [])\<rparr>)"
    by (auto simp: fan_out_def insertPrivacyStep_def row_wp erasure_row_def intro!: yields_weaken [OF metric_steps_effect])
  from yieldsD [OF this fan [folded known_def]] i show thesis by (intro that [OF al known_def new]) (simp_all add: st)
qed

section \<open>Properties\<close>

text \<open>
  Privacy requests are idempotent per workload and key. After a request has been
  created, the same workload repeating the key, at any time and with any product
  registry, gets the stored request and changes nothing, or a conflict when the
  fingerprint of the repeated request differs.
\<close>

theorem privacy_request_idempotent:
  assumes ok: "CreatePrivacyRequest sha256 fresh now request products d = Inr ((status, True), d')"
    and again: "rq_RequestedByWorkload request' = rq_RequestedByWorkload request" "rq_IdempotencyKey request' = rq_IdempotencyKey request"
  shows "CreatePrivacyRequest sha256 fresh' now' request' products' d' =
    (if request_fingerprint sha256 request' = request_fingerprint sha256 request
     then Inr ((\<lparr>rs_ID = rs_ID status, rs_RequestType = rq_RequestType request, rs_Scope = rq_Scope request,
       rs_ProductID = rq_ProductID request, rs_Status = ''requested'', rs_RequestedAt = trunc_us (rq_RequestedAt request),
       rs_CompletedAt = None\<rparr>, False), d')
     else Inl ErrConflict)"
  using ok
proof (rule create_request_effect)
  fix aliases known
  assume new: "tfind pi_key (rq_RequestedByWorkload request, rq_IdempotencyKey request) (privacy_idempotencies d) = None"
    and fr: "fresh 0 \<notin> pr_id ` set (privacy_requests d)" and st: "rs_ID status = fresh 0"
    and rs: "privacy_requests d' = privacy_requests d @ [new_request sha256 (fresh 0) request now]"
    and ps: "privacy_idempotencies d' = privacy_idempotencies d @ [\<lparr>pi_workload = rq_RequestedByWorkload request,
       pi_idempotency_key = rq_IdempotencyKey request, pi_request_id = fresh 0, pi_request_fingerprint = request_fingerprint sha256 request\<rparr>]"
  have "tfind pr_id (fresh 0) (privacy_requests d') = Some (new_request sha256 (fresh 0) request now)"
    using fr by (simp add: rs tfind_append tfind_fresh) (simp add: new_request_def)
  then show ?thesis
    by (simp add: CreatePrivacyRequest_def again ps tfind_append new getPrivacyRequestWith_def st) (simp add: pi_key_def new_request_def)
qed

text \<open>
  A deletion fans out to every known alias. Creating a deletion request adds one
  pending Metric step with its own pending event per alias of the subject whose
  product and audience are registered, and one pending erasure step, all of the new
  request, and touches no other step or event.
\<close>

theorem deletion_fan_out:
  assumes ok: "CreatePrivacyRequest sha256 fresh now request products d = Inr ((status, True), d')"
    and deletion: "rq_RequestType request = ''deletion''"
  shows "\<exists>aliases steps events final. deletion_aliases d request products = Inr aliases \<and>
    privacy_request_steps d' = privacy_request_steps d @ steps @ [final] \<and> outbox_events d' = outbox_events d @ events \<and>
    map (\<lambda>s. (ps_product_id s, ps_subject_key s)) steps =
      map (\<lambda>a. (Some (ra_ProductID a), Some (ra_OpaqueKey a))) (filter (alias_known products) aliases) \<and>
    list_all2 (\<lambda>s e. ob_privacy_step_id e = Some (ps_id s) \<and> pl_subject_key (ob_payload e) = the (ps_subject_key s) \<and>
      pl_product (ob_payload e) = the (ps_product_id s) \<and> pl_action (ob_payload e) = ''delete'' \<and> pl_request_id (ob_payload e) = ob_id e) steps events \<and>
    (\<forall>s \<in> set (steps @ [final]). ps_request_id s = rs_ID status \<and> ps_status s = ''pending'' \<and> ps_attempts s = 0) \<and>
    (\<forall>e \<in> set events. ob_privacy_request_id e = Some (rs_ID status) \<and> ob_status e = ''pending'' \<and> ob_attempts e = 0) \<and>
    (\<forall>s \<in> set steps. ps_step_type s = ''metric'') \<and> ps_step_type final = ''ydb''"
  using ok
proof (rule create_request_effect)
  fix aliases known
  assume al: "deletion_aliases d request products = Inr aliases" "known = filter (alias_known products) aliases"
    and st: "rs_ID status = fresh 0"
    and steps: "privacy_request_steps d' = privacy_request_steps d @ (if rq_RequestType request = ''deletion''
       then map (metric_row fresh now) (enumerate 0 known) @ [erasure_row (fresh (2 * length known + 1)) (fresh 0) now] else [])"
    and events: "outbox_events d' = outbox_events d @ (if rq_RequestType request = ''deletion'' then map (event_row fresh request now) (enumerate 0 known) else [])"
  have "map (\<lambda>s. (ps_product_id s, ps_subject_key s)) (map (metric_row fresh now) (enumerate 0 known)) =
      map (\<lambda>a. (Some (ra_ProductID a), Some (ra_OpaqueKey a))) known"
    using map_enumerate_snd [of "\<lambda>a. (Some (ra_ProductID a), Some (ra_OpaqueKey a))" 0 known]
    by (simp add: metric_row_def comp_def)
  moreover have "list_all2 (\<lambda>s e. ob_privacy_step_id e = Some (ps_id s) \<and> pl_subject_key (ob_payload e) = the (ps_subject_key s) \<and>
      pl_product (ob_payload e) = the (ps_product_id s) \<and> pl_action (ob_payload e) = ''delete'' \<and> pl_request_id (ob_payload e) = ob_id e)
      (map (metric_row fresh now) (enumerate 0 known)) (map (event_row fresh request now) (enumerate 0 known))"
    by (simp add: list_all2_map1 list_all2_map2 metric_row_def event_row_def deletion_payload_def list_all2_same)
  ultimately show ?thesis
    using al st steps events deletion
    by (intro exI [of _ aliases] exI [of _ "map (metric_row fresh now) (enumerate 0 known)"]
        exI [of _ "map (event_row fresh request now) (enumerate 0 known)"] exI [of _ "erasure_row (fresh (2 * length known + 1)) (fresh 0) now"])
       (auto simp: metric_row_def event_row_def erasure_row_def)
qed

section \<open>Witnesses\<close>

definition sample_privacy_request :: PrivacyRequest where
  "sample_privacy_request = \<lparr>rq_Subject = sample_subject, rq_SubjectKey = ''k'', rq_RequestType = ''deletion'', rq_Scope = ''product'',
     rq_ProductID = Some ''pict'', rq_RequestedAt = 0, rq_RequestedByWorkload = ''w'', rq_IdempotencyKey = ''i''\<rparr>"

definition sample_ids :: "nat \<Rightarrow> string" where
  "sample_ids n = replicate n CHR ''x''"

lemma sample_request_created:
  "\<exists>status d'. CreatePrivacyRequest id sample_ids 0 sample_privacy_request (Map.empty(''pict'' \<mapsto> ''aud'')) sample_db = Inr ((status, True), d')"
  by (simp add: CreatePrivacyRequest_def sample_privacy_request_def product_text_def sample_defs validateSubjectWith_def deletion_aliases_def
      insert_request_def insert_row_eval fan_out_def alias_known_def add_metric_step_def Let_def insertPrivacyStep_def insertOutbox_def
      sample_ids_def)

theorem privacy_request_idempotent_witness:
  "\<exists>status d' s. CreatePrivacyRequest id sample_ids 0 sample_privacy_request (Map.empty(''pict'' \<mapsto> ''aud'')) sample_db = Inr ((status, True), d') \<and>
     CreatePrivacyRequest id sample_ids second sample_privacy_request Map.empty d' = Inr ((s, False), d')"
proof -
  from sample_request_created obtain status d' where
    ok: "CreatePrivacyRequest id sample_ids 0 sample_privacy_request (Map.empty(''pict'' \<mapsto> ''aud'')) sample_db = Inr ((status, True), d')" by blast
  from privacy_request_idempotent [OF ok refl refl, of sample_ids second Map.empty] ok show ?thesis by auto
qed

theorem deletion_fan_out_witness:
  "\<exists>status d'. CreatePrivacyRequest id sample_ids 0 sample_privacy_request (Map.empty(''pict'' \<mapsto> ''aud'')) sample_db = Inr ((status, True), d') \<and>
     (\<exists>steps final. privacy_request_steps d' = privacy_request_steps sample_db @ steps @ [final])"
proof -
  from sample_request_created obtain status d' where
    ok: "CreatePrivacyRequest id sample_ids 0 sample_privacy_request (Map.empty(''pict'' \<mapsto> ''aud'')) sample_db = Inr ((status, True), d')" by blast
  from deletion_fan_out [OF ok] ok show ?thesis by (auto simp: sample_privacy_request_def)
qed

end
