(* ===== verification/Outbox_Store.thy ===== *)
theory Outbox_Store
  imports Privacy_Store Leases
begin

text \<open>
  The transactional outbox (\<^verbatim>\<open>internal/store/outbox.go\<close>): events are claimed in the
  order of their creation under a lock of five minutes, and then delivered with the
  receipt of the consumer, retried with a bounded number of attempts or polled again.
\<close>

section \<open>Model\<close>

record OutboxEvent =
  oe_ID :: string
  oe_Topic :: string
  oe_AggregateType :: string
  oe_AggregateID :: string
  oe_Payload :: payload
  oe_Attempt :: int
  oe_PollCount :: int
  oe_CreatedAt :: time
  oe_PrivacyStepID :: "string option"
  oe_RequestID :: "string option"
  oe_Version :: uint64

definition event_of_row :: "outbox_event \<Rightarrow> OutboxEvent" where
  "event_of_row e = \<lparr>oe_ID = ob_id e, oe_Topic = ob_topic e, oe_AggregateType = ob_aggregate_type e,
     oe_AggregateID = ob_aggregate_id e, oe_Payload = ob_payload e, oe_Attempt = sint (ob_attempts e),
     oe_PollCount = sint (ob_poll_count e), oe_CreatedAt = ob_created_at e, oe_PrivacyStepID = ob_privacy_step_id e,
     oe_RequestID = ob_privacy_request_id e, oe_Version = ob_version e\<rparr>"

definition request_open :: "string \<Rightarrow> bool" where
  "request_open status \<longleftrightarrow> status = ''requested'' \<or> status = ''processing''"

definition event_due :: "time \<Rightarrow> outbox_event \<Rightarrow> bool" where
  "event_due now e \<longleftrightarrow>
     ob_status e = ''pending'' \<and> ob_available_at e \<le> trunc_us now \<or>
     ob_status e = ''processing'' \<and>
       (case ob_locked_at e of None \<Rightarrow> False | Some t \<Rightarrow> t < trunc_us (now - 5 * minute))"

definition due_events :: "time \<Rightarrow> int \<Rightarrow> db \<Rightarrow> outbox_event list" where
  "due_events now batchSize d =
     take (unat (word_of_int batchSize :: uint64)) (sort_key ob_created_at (filter (event_due now) (outbox_events d)))"

definition lock_event :: "time \<Rightarrow> outbox_event \<Rightarrow> outbox_event" where
  "lock_event now r = r\<lparr>ob_status := ''processing'', ob_locked_at := Some (trunc_us now), ob_version := ob_version r + 1\<rparr>"

text \<open>One round of the claim loop; \<open>None\<close> is the \<^verbatim>\<open>continue\<close> for a request that is no longer open.\<close>

definition event_open :: "db \<Rightarrow> outbox_event \<Rightarrow> bool result" where
  "event_open d e =
     (case ob_privacy_request_id e of
        None \<Rightarrow> Inr True
      | Some requestID \<Rightarrow> rbind (getPrivacyRequestWith d requestID) (\<lambda>request. Inr (request_open (rs_Status request))))"

definition claim_event :: "time \<Rightarrow> outbox_event \<Rightarrow> OutboxEvent list \<times> db \<Rightarrow> (OutboxEvent list \<times> db) result" where
  "claim_event now e acc = (case acc of (events, d) \<Rightarrow>
     rbind (event_open d e) (\<lambda>open.
     if \<not> open then Inr (events, d)
     else
       rbind (cas_row outbox_events outbox_events_update ob_id ob_version (ob_id e) (ob_version e) (\<lambda>_. True)
                (lock_event now) d) (\<lambda>d1.
       Inr (events @ [(event_of_row e)\<lparr>oe_Version := ob_version e + 1\<rparr>], d1))))"

definition ClaimOutbox :: "time \<Rightarrow> int \<Rightarrow> db \<Rightarrow> (OutboxEvent list \<times> db) result" where
  "ClaimOutbox now batchSize d = for_each (claim_event now) (due_events now batchSize d) ([], d)"

definition deliver_event :: "receipt \<times> time \<Rightarrow> outbox_event \<Rightarrow> outbox_event" where
  "deliver_event p r = r\<lparr>ob_status := ''delivered'', ob_delivered_at := Some (trunc_us (snd p)), ob_locked_at := None,
     ob_last_error := None, ob_delivery_receipt := Some (fst p), ob_version := ob_version r + 1\<rparr>"

definition complete_metric_step :: "receipt \<times> time \<Rightarrow> privacy_step \<Rightarrow> privacy_step" where
  "complete_metric_step p r = r\<lparr>ps_status := ''completed'', ps_receipt := Some (fst p),
     ps_completed_at := Some (trunc_us (snd p)), ps_lease_until := None, ps_updated_at := trunc_us (snd p),
     ps_version := ps_version r + 1\<rparr>"

definition MarkOutboxDelivered :: "time \<Rightarrow> string \<Rightarrow> receipt \<Rightarrow> db \<Rightarrow> db result" where
  "MarkOutboxDelivered now eventID receipt d =
     (if receipt \<noteq> DeliveryReceipt eventID ''completed'' then Inl (ErrMessage ''outbox delivery receipt is not completed'')
      else
        rbind (some_or ErrNotFound (tfind ob_id eventID (outbox_events d))) (\<lambda>e.
        if ob_status e \<noteq> ''processing'' then Inl ErrConflict
        else
          rbind (cas_row outbox_events outbox_events_update ob_id ob_version eventID (ob_version e) (\<lambda>_. True)
                   (deliver_event (receipt, now)) d) (\<lambda>d1.
          case ob_privacy_step_id e of
            None \<Rightarrow> Inr d1
          | Some stepID \<Rightarrow>
              rbind (some_or ErrNotFound (tfind ps_id stepID (privacy_request_steps d1))) (\<lambda>s.
              if ps_status s = ''completed'' then Inr d1
              else cas_row privacy_request_steps privacy_request_steps_update ps_id ps_version stepID (ps_version s)
                     (\<lambda>_. True) (complete_metric_step (receipt, now)) d1))))"

definition updateClaimedOutbox :: "string \<Rightarrow> (outbox_event \<Rightarrow> db \<Rightarrow> db result) \<Rightarrow> db \<Rightarrow> db result" where
  "updateClaimedOutbox eventID update d =
     rbind (some_or ErrNotFound (tfind ob_id eventID (outbox_events d))) (\<lambda>e.
     if ob_status e \<noteq> ''processing'' then Inl ErrConflict else update e d)"

definition retry_event :: "string \<times> time \<times> string \<Rightarrow> outbox_event \<Rightarrow> outbox_event" where
  "retry_event p r = (case p of (status, available, message) \<Rightarrow>
     r\<lparr>ob_attempts := ob_attempts r + 1, ob_status := status, ob_available_at := trunc_us available, ob_locked_at := None,
       ob_last_error := Some message, ob_version := ob_version r + 1\<rparr>)"

definition RetryOutbox :: "time \<Rightarrow> string \<Rightarrow> string \<Rightarrow> duration \<Rightarrow> int \<Rightarrow> db \<Rightarrow> db result" where
  "RetryOutbox now eventID message delay maxAttempts =
     updateClaimedOutbox eventID (\<lambda>e.
       let status = (if word_of_int maxAttempts \<le> ob_attempts e + 1 then ''manual_dlq'' else ''pending'') in
       cas_row outbox_events outbox_events_update ob_id ob_version eventID (ob_version e) (\<lambda>_. True)
         (retry_event (status, now + delay, take 500 message)))"

definition reschedule_event :: "time \<Rightarrow> outbox_event \<Rightarrow> outbox_event" where
  "reschedule_event available r =
     r\<lparr>ob_status := ''pending'', ob_poll_count := ob_poll_count r + 1, ob_available_at := trunc_us available,
       ob_locked_at := None, ob_last_error := None, ob_version := ob_version r + 1\<rparr>"

definition RescheduleOutbox :: "time \<Rightarrow> string \<Rightarrow> duration \<Rightarrow> db \<Rightarrow> db result" where
  "RescheduleOutbox now eventID delay =
     updateClaimedOutbox eventID (\<lambda>e.
       cas_row outbox_events outbox_events_update ob_id ob_version eventID (ob_version e) (\<lambda>_. True)
         (reschedule_event (now + delay)))"

definition OutboxReady :: "time \<Rightarrow> duration \<Rightarrow> db \<Rightarrow> unit result" where
  "OutboxReady now maxAge d =
     (if list_ex (\<lambda>e. ob_status e = ''manual_dlq'' \<or>
           (ob_status e \<in> {''pending'', ''processing''} \<and> ob_created_at e < now - maxAge)) (outbox_events d)
      then Inl (ErrMessage ''outbox has manual DLQ or stale required deliveries'') else Inr ())"

section \<open>Laws\<close>

interpretation event_lock: versioned_update ob_id ob_version lock_event
  by unfold_locales (simp_all add: lock_event_def)

interpretation event_deliver: versioned_update ob_id ob_version deliver_event
  by unfold_locales (simp_all add: deliver_event_def)

interpretation event_retry: versioned_update ob_id ob_version retry_event
  by unfold_locales (auto simp: retry_event_def split: prod.splits)

interpretation event_reschedule: versioned_update ob_id ob_version reschedule_event
  by unfold_locales (simp_all add: reschedule_event_def)

interpretation metric_step: versioned_update ps_id ps_version complete_metric_step
  by unfold_locales (simp_all add: complete_metric_step_def)

lemma claim_event_keys:
  "db_keys (snd acc) \<Longrightarrow> yields (claim_event now e acc) (\<lambda>(x, d'). db_keys d')"
  by (auto simp: claim_event_def intro!: keys_intro yields_any [of _ "event_open _ _"] split: prod.splits)

lemma ClaimOutbox_keys: "db_keys d \<Longrightarrow> yields (ClaimOutbox now n d) (\<lambda>(x, d'). db_keys d')"
  unfolding ClaimOutbox_def
  by (rule yields_for_each [where I = "\<lambda>(x, d'). db_keys d'"]) (auto intro: claim_event_keys)

lemma MarkOutboxDelivered_keys [keys_intro]:
  "db_keys d \<Longrightarrow> (\<And>d'. db_keys d' \<Longrightarrow> P d') \<Longrightarrow> yields (MarkOutboxDelivered now i r d) P"
  by (auto simp: MarkOutboxDelivered_def intro!: keys_intro split: option.splits)

lemma RetryOutbox_keys [keys_intro]:
  "db_keys d \<Longrightarrow> (\<And>d'. db_keys d' \<Longrightarrow> P d') \<Longrightarrow> yields (RetryOutbox now i m t n d) P"
  by (auto simp: RetryOutbox_def updateClaimedOutbox_def Let_def intro!: keys_intro)

lemma RescheduleOutbox_keys [keys_intro]:
  "db_keys d \<Longrightarrow> (\<And>d'. db_keys d' \<Longrightarrow> P d') \<Longrightarrow> yields (RescheduleOutbox now i t d) P"
  by (auto simp: RescheduleOutbox_def updateClaimedOutbox_def intro!: keys_intro)

section \<open>Claiming\<close>

definition inspect_event :: "db \<Rightarrow> outbox_event \<Rightarrow> OutboxEvent option result" where
  "inspect_event d e =
     rbind (event_open d e) (\<lambda>open. Inr (if open then Some ((event_of_row e)\<lparr>oe_Version := ob_version e + 1\<rparr>) else None))"

interpretation outbox_queue: claiming outbox_events outbox_events_update ob_id ob_version "event_due now" "lock_event now"
  inspect_event "claim_event now" for now
proof unfold_locales
  fix r xs d
  show "claim_event now r (xs, d) = rbind (inspect_event d r) (\<lambda>found. case found of None \<Rightarrow> Inr (xs, d)
      | Some j \<Rightarrow> rbind (cas_row outbox_events outbox_events_update ob_id ob_version (ob_id r) (ob_version r) (\<lambda>_. True)
          (lock_event now) d) (\<lambda>d1. Inr (xs @ [j], d1)))"
    by (cases "event_open d r") (simp_all add: claim_event_def inspect_event_def)
qed (simp_all add: lock_event_def inspect_event_def event_open_def getPrivacyRequestWith_def split: option.split)

lemma due_events_selected:
  assumes "db_keys d"
  shows "distinct (map ob_id (due_events now n d))"
    and "e \<in> set (due_events now n d) \<Longrightarrow> event_due now e \<and> tfind ob_id (ob_id e) (outbox_events d) = Some e"
proof -
  have u: "uniq ob_id (outbox_events d)" using assms by (rule table_uniq)
  show "distinct (map ob_id (due_events now n d))" unfolding due_events_def by (rule selection_distinct [OF u])
  show "e \<in> set (due_events now n d) \<Longrightarrow> event_due now e \<and> tfind ob_id (ob_id e) (outbox_events d) = Some e"
    unfolding due_events_def by (rule selection [OF u])
qed

lemma ClaimOutbox_effect:
  assumes "ClaimOutbox now n d = Inr (es, d')" and "db_keys d"
  shows "es = outbox_queue.handed d (due_events now n d) \<and> d' = outbox_queue.leased now d (due_events now n d)"
  using outbox_queue.claim_loop_effect [OF assms(1) [unfolded ClaimOutbox_def] assms(2)] due_events_selected [OF assms(2)] by blast

lemma ready_event:
  assumes "inspect_event d e = Inr (Some j)"
  shows "oe_ID j = ob_id e \<and> oe_Version j = ob_version e + 1 \<and> event_open d e = Inr True"
  using assms by (auto simp: inspect_event_def event_of_row_def split: if_splits)

lemma event_open_request:
  "event_open d e = Inr True \<Longrightarrow> ob_privacy_request_id e = Some q \<Longrightarrow>
   \<exists>r. tfind pr_id q (privacy_requests d) = Some r \<and> request_open (pr_status r)"
  by (auto simp: event_open_def getPrivacyRequestWith_def)

lemma claimed_row:
  assumes "db_keys d" and "ClaimOutbox now n d = Inr (es, d')" and "e \<in> set es"
  shows "\<exists>row \<in> set (due_events now n d). inspect_event d row = Inr (Some e) \<and> oe_ID e = ob_id row"
  using ClaimOutbox_effect [OF assms(2,1)] assms(3) by (auto simp: outbox_queue.set_handed dest: ready_event)

lemma claimed_event:
  assumes keys: "db_keys d" and first: "ClaimOutbox now n d = Inr (es, d')" and e: "e \<in> set es"
  shows "\<exists>row \<in> set (outbox_events d). oe_ID e = ob_id row \<and> event_due now row \<and>
      (\<forall>q. ob_privacy_request_id row = Some q \<longrightarrow> (\<exists>r. tfind pr_id q (privacy_requests d) = Some r \<and> request_open (pr_status r))) \<and>
      (\<exists>locked. tfind ob_id (oe_ID e) (outbox_events d') = Some locked \<and> ob_status locked = ''processing'' \<and>
         ob_version locked = oe_Version e \<and> ob_locked_at locked = Some (trunc_us now))"
proof -
  note sel = due_events_selected(2) [OF keys]
  from claimed_row [OF assms] obtain row where row: "row \<in> set (due_events now n d)" "inspect_event d row = Inr (Some e)"
    "oe_ID e = ob_id row" by blast
  have "tfind ob_id (oe_ID e) (outbox_events d') = Some (lock_event now row)"
    using sel [OF row(1)] row ClaimOutbox_effect [OF first keys]
    by (auto simp: outbox_queue.get_leased tfind_update outbox_queue.ready_def)
  moreover have "row \<in> set (outbox_events d)" using sel [OF row(1)] by (auto dest: tfind_mem)
  ultimately show ?thesis
    using row(3) sel [OF row(1)] ready_event [OF row(2)] event_open_request [of d row]
    by (intro bexI [of _ row]) (auto simp: lock_event_def)
qed

section \<open>Properties\<close>

text \<open>
  C13: a claim of the outbox is exclusive. Every event that a claim hands out is due
  and belongs to no request or to an open one; its row is locked with the version
  that the claim returns; and no claim within the next five minutes hands out an
  event whose lock is still held.
\<close>

theorem outbox_claim_exclusive:
  assumes keys: "db_keys d" and first: "ClaimOutbox now n d = Inr (es, d')"
  shows "(\<forall>e \<in> set es. \<exists>row \<in> set (outbox_events d). oe_ID e = ob_id row \<and> event_due now row \<and>
      (\<forall>q. ob_privacy_request_id row = Some q \<longrightarrow> (\<exists>r. tfind pr_id q (privacy_requests d) = Some r \<and> request_open (pr_status r))) \<and>
      (\<exists>locked. tfind ob_id (oe_ID e) (outbox_events d') = Some locked \<and> ob_status locked = ''processing'' \<and>
         ob_version locked = oe_Version e \<and> ob_locked_at locked = Some (trunc_us now))) \<and>
    (now' \<le> now + 5 * minute \<longrightarrow> ClaimOutbox now' n' d' = Inr (es', d'') \<longrightarrow> oe_ID ` set es \<inter> oe_ID ` set es' = {})"
proof -
  have "oe_ID ` set es \<inter> oe_ID ` set es' = {}"
    if soon: "now' \<le> now + 5 * minute" and again: "ClaimOutbox now' n' d' = Inr (es', d'')"
  proof (rule ccontr)
    assume "oe_ID ` set es \<inter> oe_ID ` set es' \<noteq> {}"
    then obtain e e' where e: "e \<in> set es" "e' \<in> set es'" "oe_ID e = oe_ID e'" by auto
    have d': "d' = outbox_queue.leased now d (due_events now n d)" using ClaimOutbox_effect [OF first keys] by simp
    have keys': "db_keys d'" unfolding d' by (rule outbox_queue.leased_keys [OF keys])
    from claimed_row [OF keys' again e(2)] obtain row' where
      row': "row' \<in> set (due_events now' n' d')" "oe_ID e' = ob_id row'" by blast
    from due_events_selected(2) [OF keys' row'(1)] have "event_due now' row'" "row' \<in> set (outbox_events d')" by (auto dest: tfind_mem)
    moreover have "trunc_us (now' - 5 * minute) \<le> trunc_us now" using soon by (intro trunc_us_mono) simp
    then have "\<not> event_due now' (lock_event now y)" for y by (simp add: event_due_def lock_event_def)
    ultimately have "ob_id row' \<notin> ob_id ` set (filter (outbox_queue.ready d) (due_events now n d))"
      unfolding d' by (intro outbox_queue.leased_not_due [where due' = "event_due now'"])
    with claimed_row [OF keys first e(1)] e(3) row'(2) show False by (auto simp: outbox_queue.ready_def)
  qed
  with claimed_event [OF keys first] show ?thesis by blast
qed

section \<open>Witnesses\<close>

definition sample_event :: "string \<Rightarrow> outbox_event" where
  "sample_event i = \<lparr>ob_id = i, ob_topic = ''t'', ob_aggregate_type = ''a'', ob_aggregate_id = ''g'', ob_privacy_step_id = None,
     ob_privacy_request_id = None, ob_payload = \<lparr>pl_schema_version = 2, pl_request_id = i, pl_product = ''pict'',
       pl_subject_key = ''k'', pl_action = ''opt_out'', pl_requested_at = 0\<rparr>,
     ob_status = ''pending'', ob_attempts = 0, ob_poll_count = 0, ob_available_at = 0, ob_locked_at = None,
     ob_delivered_at = None, ob_last_error = None, ob_delivery_receipt = None, ob_created_at = 0, ob_version = 1\<rparr>"

definition outbox_db :: db where
  "outbox_db = empty_db\<lparr>outbox_events := [sample_event ''e'']\<rparr>"

lemma outbox_db_claimed:
  "ClaimOutbox second 20 outbox_db = Inr ([(event_of_row (sample_event ''e''))\<lparr>oe_Version := 2\<rparr>],
     outbox_db\<lparr>outbox_events := [lock_event second (sample_event ''e'')]\<rparr>)"
  by (simp add: ClaimOutbox_def due_events_def outbox_db_def sample_event_def event_due_def trunc_us_def duration_defs
      claim_event_def event_open_def cas_row_def cas_update_def tbl_update_def lock_event_def event_of_row_def)

theorem outbox_claim_exclusive_witness:
  "\<exists>es d'. ClaimOutbox second 20 outbox_db = Inr (es, d') \<and> oe_ID ` set es = {''e''} \<and>
     (\<forall>n es' d''. ClaimOutbox (2 * second) n d' = Inr (es', d'') \<longrightarrow> ''e'' \<notin> oe_ID ` set es')"
proof -
  have keys: "db_keys outbox_db" by (simp add: outbox_db_def db_keys_def empty_db_def)
  note c = outbox_claim_exclusive [OF keys outbox_db_claimed, THEN conjunct2, rule_format, of "2 * second"]
  have "''e'' \<notin> oe_ID ` set es'"
    if "ClaimOutbox (2 * second) n (outbox_db\<lparr>outbox_events := [lock_event second (sample_event ''e'')]\<rparr>) = Inr (es', d'')" for n es' d''
    using c [OF _ that] by (simp add: duration_defs event_of_row_def sample_event_def)
  then show ?thesis using outbox_db_claimed by (intro exI conjI) (auto simp: event_of_row_def sample_event_def)
qed

end
