(* ===== verification/Erasure_Store.thy ===== *)
theory Erasure_Store
  imports Outbox_Store Completion_Store
begin

text \<open>
  The final erasure of a deletion request (\<^verbatim>\<open>privacy_erasure.go\<close>,
  \<^verbatim>\<open>public_account_erasure.go\<close>): erasure steps are leased once every Metric step of their
  request has its receipt, and the deletion of the live records, the completion of
  step and request and the audit row commit in one transaction.  The statements of
  the erasure cannot fail in the model, so the erasing functions return the database.
\<close>

section \<open>Erasing records\<close>

text \<open>The pair \<^verbatim>\<open>$all\<close>, \<^verbatim>\<open>$product\<close> of \<^verbatim>\<open>publicErasureScope\<close>, and the two variants of each statement.\<close>

definition in_scope :: "string option \<Rightarrow> string \<Rightarrow> bool" where
  "in_scope product p \<longleftrightarrow> (case product of None \<Rightarrow> True | Some q \<Rightarrow> p = q)"

record publicErasureID =
  er_id :: string
  er_product :: string
  er_installation :: string

definition challenge_erasure_id :: "public_email_challenge \<Rightarrow> publicErasureID" where
  "challenge_erasure_id c = \<lparr>er_id = pc_id c, er_product = pc_product_id c, er_installation = pc_installation_id c\<rparr>"

definition session_erasure_id :: "account_session \<Rightarrow> publicErasureID" where
  "session_erasure_id s = \<lparr>er_id = se_id s, er_product = se_product_id s, er_installation = se_installation_id s\<rparr>"

definition erasePublicChallenge :: "publicErasureID \<Rightarrow> db \<Rightarrow> db" where
  "erasePublicChallenge c d =
     delete_rows public_email_challenges_update
       (\<lambda>r. pc_id r = er_id c \<and> pc_product_id r = er_product c \<and> pc_installation_id r = er_installation c)
     (delete_rows email_verifications_update
       (\<lambda>v. ev_id v = er_id c \<and> ev_product_id v = er_product c \<and> ev_installation_id v = Some (er_installation c))
     (delete_rows public_account_audits_update (\<lambda>a. pu_product_id a = er_product c \<and> pu_entity_id a = er_id c)
     (delete_rows public_registration_flows_update
       (\<lambda>f. fl_product_id f = er_product c \<and> fl_installation_id f = er_installation c \<and>
            fl_challenge_id f = er_id c \<and> fl_session_id f = None) d)))"

definition erasePublicSession :: "publicErasureID \<Rightarrow> db \<Rightarrow> db" where
  "erasePublicSession s d =
     delete_rows account_sessions_update
       (\<lambda>r. se_id r = er_id s \<and> se_product_id r = er_product s \<and> se_installation_id r = er_installation s)
     (delete_rows public_account_audits_update (\<lambda>a. pu_product_id a = er_product s \<and> pu_session_id a = er_id s)
     (delete_rows account_refresh_tokens_update (\<lambda>t. rt_session_id t = er_id s)
     (delete_rows public_registration_flows_update
       (\<lambda>f. fl_product_id f = er_product s \<and> fl_installation_id f = er_installation s \<and>
            fl_session_id f = Some (er_id s)) d)))"

definition erase_challenges :: "(public_email_challenge \<Rightarrow> bool) \<Rightarrow> db \<Rightarrow> db" where
  "erase_challenges P d =
     fold erasePublicChallenge (map challenge_erasure_id (filter P (public_email_challenges d))) d"

definition erase_sessions :: "(account_session \<Rightarrow> bool) \<Rightarrow> db \<Rightarrow> db" where
  "erase_sessions P d = fold erasePublicSession (map session_erasure_id (filter P (account_sessions d))) d"

definition erasePublicInstallationState :: "string \<Rightarrow> string option \<Rightarrow> db \<Rightarrow> db" where
  "erasePublicInstallationState installation product d =
     (let d1 = erase_challenges (\<lambda>c. pc_installation_id c = installation \<and> in_scope product (pc_product_id c)) d;
          d2 = erase_sessions (\<lambda>s. se_installation_id s = installation \<and> in_scope product (se_product_id s)) d1 in
      delete_rows public_registration_flows_update
        (\<lambda>f. fl_installation_id f = installation \<and> in_scope product (fl_product_id f)) d2)"

definition identityIDsForPerson :: "db \<Rightarrow> string \<Rightarrow> string option \<Rightarrow> string list" where
  "identityIDsForPerson d person product =
     map ei_id (filter (\<lambda>e. ei_person_id e = person \<and>
       (case product of None \<Rightarrow> True | Some p \<Rightarrow> ei_product_id e = p \<and> ei_linkage_scope e = ''product'')) (email_identities d))"

definition erase_email_key :: "email_blind_index \<Rightarrow> db \<Rightarrow> db" where
  "erase_email_key k = erase_challenges (\<lambda>c. pc_product_id c = eb_scope_key k \<and>
     pc_blind_index_version c = eb_version k \<and> pc_blind_index c = eb_index k)"

definition erase_identity_challenges :: "string option \<Rightarrow> string \<Rightarrow> db \<Rightarrow> db" where
  "erase_identity_challenges product identity d =
     fold erase_email_key (filter (\<lambda>k. eb_identity_id k = identity \<and> eb_namespace k = ''account'' \<and>
       eb_linkage_scope k = ''product'' \<and> in_scope product (eb_scope_key k)) (email_blind_indexes d)) d"

definition erase_account_state :: "string option \<Rightarrow> string \<Rightarrow> db \<Rightarrow> db" where
  "erase_account_state product account d =
     delete_rows product_accounts_update (\<lambda>p. pp_account_id p = account \<and> in_scope product (pp_product_id p))
     (delete_rows public_account_audits_update (\<lambda>a. pu_entity_id a = account \<and> in_scope product (pu_product_id a))
     (erase_sessions (\<lambda>s. se_account_id s = account \<and> in_scope product (se_product_id s)) d))"

definition erasePublicPersonState :: "string \<Rightarrow> string option \<Rightarrow> db \<Rightarrow> db" where
  "erasePublicPersonState person product d =
     (let d1 = fold (erase_identity_challenges product) (identityIDsForPerson d person product) d in
      fold (erase_account_state product) (map a_id (filter (\<lambda>a. a_person_id a = person) (accounts d1))) d1)"

definition deleteAlias :: "subject_alias \<Rightarrow> db \<Rightarrow> db" where
  "deleteAlias alias d =
     delete_rows subject_alias_keys_update
       (\<lambda>k. sk_key k = (sa_product_id alias, sa_audience alias, sa_subject_type alias, sa_subject_id alias))
     (delete_rows subject_aliases_update (\<lambda>r. sa_opaque_key r = sa_opaque_key alias) d)"

definition aliasKeysForPerson :: "db \<Rightarrow> string \<Rightarrow> string option \<Rightarrow> subject_alias list" where
  "aliasKeysForPerson d person product =
     filter (\<lambda>r. sa_person_id r = Some person \<and> in_scope product (sa_product_id r)) (subject_aliases d)"

definition aliasKeysForSubject :: "db \<Rightarrow> string \<Rightarrow> string \<Rightarrow> string option \<Rightarrow> subject_alias list" where
  "aliasKeysForSubject d subjectType subjectID product =
     filter (\<lambda>r. sa_subject_type r = subjectType \<and> sa_subject_id r = subjectID \<and> in_scope product (sa_product_id r)) (subject_aliases d)"

definition delete_identity :: "string \<Rightarrow> db \<Rightarrow> db" where
  "delete_identity identity d =
     delete_rows email_identities_update (\<lambda>e. ei_id e = identity)
     (delete_rows email_blind_indexes_update (\<lambda>k. eb_identity_id k = identity) d)"

definition delete_person_rows :: "string \<Rightarrow> string option \<Rightarrow> db \<Rightarrow> db" where
  "delete_person_rows person product d =
     delete_rows email_verification_audits_update (\<lambda>a. va_person_id a = person \<and> in_scope product (va_product_id a))
     (delete_rows telemetry_preferences_update
       (\<lambda>t. tp_subject_type t = ''person'' \<and> tp_subject_id t = person \<and> in_scope product (tp_product_id t))
     (delete_rows consents_update
       (\<lambda>c. c_subject_type c = ''person'' \<and> c_subject_id c = person \<and> in_scope product (c_product_id c))
     (delete_rows organization_submissions_update (\<lambda>s. os_person_id s = Some person \<and> in_scope product (os_product_id s))
     (delete_rows memberships_update (\<lambda>m. m_person_id m = person \<and> in_scope product (m_product_id m)) d))))"

definition erasePersonRecords :: "string \<Rightarrow> string option \<Rightarrow> db \<Rightarrow> db" where
  "erasePersonRecords person product d =
     (let d1 = erasePublicPersonState person product d;
          d2 = fold delete_identity (identityIDsForPerson d1 person product) d1;
          d3 = fold deleteAlias (aliasKeysForPerson d2 person product) d2 in
      delete_person_rows person product d3)"

definition delete_installation_rows :: "string \<Rightarrow> string option \<Rightarrow> db \<Rightarrow> db" where
  "delete_installation_rows installation product d =
     delete_rows telemetry_preferences_update
       (\<lambda>t. tp_subject_type t = ''installation'' \<and> tp_subject_id t = installation \<and> in_scope product (tp_product_id t))
     (delete_rows consents_update
       (\<lambda>c. c_subject_type c = ''installation'' \<and> c_subject_id c = installation \<and> in_scope product (c_product_id c))
     (delete_rows organization_submissions_update
       (\<lambda>s. os_installation_id s = Some installation \<and> in_scope product (os_product_id s))
     (delete_rows email_verification_audits_update
       (\<lambda>a. va_installation_id a = Some installation \<and> in_scope product (va_product_id a))
     (delete_rows email_verifications_update
       (\<lambda>v. ev_installation_id v = Some installation \<and> in_scope product (ev_product_id v)) d))))"

definition eraseInstallationRecords :: "string option \<Rightarrow> string \<Rightarrow> db \<Rightarrow> db" where
  "eraseInstallationRecords product installation d =
     (let d1 = erasePublicInstallationState installation product d;
          d2 = fold deleteAlias (aliasKeysForSubject d1 ''installation'' installation product) d1 in
      delete_installation_rows installation product d2)"

definition installationIDsForPerson :: "db \<Rightarrow> string \<Rightarrow> string option \<Rightarrow> string list" where
  "installationIDsForPerson d person product =
     map i_id (filter (\<lambda>i. i_person_id i = Some person \<and> in_scope product (i_product_id i)) (product_installations d))"

definition unlink_installation :: "time \<Rightarrow> product_installation \<Rightarrow> product_installation" where
  "unlink_installation now r =
     r\<lparr>i_person_id := None, i_disabled_at := Some (case i_disabled_at r of None \<Rightarrow> trunc_us now | Some t \<Rightarrow> t),
       i_version := i_version r + 1\<rparr>"

definition erasePerson :: "string \<Rightarrow> time \<Rightarrow> db \<Rightarrow> db" where
  "erasePerson person now d =
     (let d1 = fold (eraseInstallationRecords None) (installationIDsForPerson d person None) d;
          d2 = erasePersonRecords person None d1 in
      update_rows persons_update (\<lambda>p. p_id p = person)
        (\<lambda>p. p\<lparr>p_age_category := ''unknown'', p_guardian_relationship := None,
               p_deleted_at := Some (case p_deleted_at p of None \<Rightarrow> trunc_us now | Some t \<Rightarrow> t), p_version := p_version p + 1\<rparr>)
      (update_rows product_installations_update (\<lambda>i. i_person_id i = Some person) (unlink_installation now)
      (update_rows accounts_update (\<lambda>a. a_person_id a = person)
        (\<lambda>a. a\<lparr>a_status := ''deleted'', a_last_authenticated_at := None, a_version := a_version a + 1\<rparr>) d2)))"

definition erasePersonProduct :: "string \<Rightarrow> string \<Rightarrow> time \<Rightarrow> db \<Rightarrow> db" where
  "erasePersonProduct person product now d =
     (let d1 = fold (eraseInstallationRecords (Some product)) (installationIDsForPerson d person (Some product)) d;
          d2 = erasePersonRecords person (Some product) d1 in
      update_rows product_installations_update (\<lambda>i. i_person_id i = Some person \<and> i_product_id i = product)
        (unlink_installation now) d2)"

definition eraseInstallation :: "string \<Rightarrow> string \<Rightarrow> time \<Rightarrow> db \<Rightarrow> db" where
  "eraseInstallation installation product now d =
     update_rows product_installations_update (\<lambda>i. i_id i = installation \<and> i_product_id i = product)
       (unlink_installation now) (eraseInstallationRecords (Some product) installation d)"

section \<open>Erasure jobs\<close>

record PrivacyErasureJob =
  ej_StepID :: string
  ej_RequestID :: string
  ej_PersonID :: "string option"
  ej_InstallationID :: "string option"
  ej_Scope :: string
  ej_ProductID :: "string option"
  ej_Attempts :: int
  ej_Version :: uint64

definition metricStepsComplete :: "db \<Rightarrow> string \<Rightarrow> bool" where
  "metricStepsComplete d requestID \<longleftrightarrow>
     list_all (\<lambda>s. ps_request_id s = requestID \<and> ps_step_type s = ''metric'' \<longrightarrow> ps_status s = ''completed'') (privacy_request_steps d)"

definition step_due :: "time \<Rightarrow> privacy_step \<Rightarrow> bool" where
  "step_due now s \<longleftrightarrow>
     ps_step_type s = ''ydb'' \<and>
     (ps_status s \<in> {''pending'', ''retry''} \<and> ps_available_at s \<le> trunc_us now \<or>
      ps_status s = ''processing'' \<and> (case ps_lease_until s of None \<Rightarrow> False | Some t \<Rightarrow> t < trunc_us now))"

definition due_steps :: "time \<Rightarrow> int \<Rightarrow> db \<Rightarrow> privacy_step list" where
  "due_steps now limit d =
     take (unat (word_of_int limit :: uint64)) (sort_key ps_created_at (filter (step_due now) (privacy_request_steps d)))"

definition lease_step :: "time \<Rightarrow> privacy_step \<Rightarrow> privacy_step" where
  "lease_step now r = r\<lparr>ps_status := ''processing'', ps_attempts := ps_attempts r + 1,
     ps_lease_until := Some (trunc_us (now + 5 * minute)), ps_updated_at := trunc_us now, ps_version := ps_version r + 1\<rparr>"

definition claim_step :: "time \<Rightarrow> privacy_step \<Rightarrow> PrivacyErasureJob list \<times> db \<Rightarrow> (PrivacyErasureJob list \<times> db) result" where
  "claim_step now s acc = (case acc of (jobs, d) \<Rightarrow>
     rbind (some_or ErrNotFound (tfind pr_id (ps_request_id s) (privacy_requests d))) (\<lambda>r.
     if \<not> request_open (pr_status r) \<or> \<not> metricStepsComplete d (ps_request_id s) then Inr (jobs, d)
     else
       rbind (cas_row privacy_request_steps privacy_request_steps_update ps_id ps_version (ps_id s) (ps_version s)
                (\<lambda>_. True) (lease_step now) d) (\<lambda>d1.
       let person = (pr_subject_type r = ''person'') in
       Inr (jobs @ [\<lparr>ej_StepID = ps_id s, ej_RequestID = ps_request_id s,
         ej_PersonID = (if person then Some (pr_subject_id r) else None),
         ej_InstallationID = (if person then None else Some (pr_subject_id r)),
         ej_Scope = pr_scope r, ej_ProductID = pr_product_id r, ej_Attempts = sint (ps_attempts s + 1),
         ej_Version = ps_version s + 1\<rparr>], d1))))"

definition ClaimPrivacyErasures :: "time \<Rightarrow> int \<Rightarrow> db \<Rightarrow> (PrivacyErasureJob list \<times> db) result" where
  "ClaimPrivacyErasures now limit d = for_each (claim_step now) (due_steps now limit d) ([], d)"

definition erase_subject :: "PrivacyErasureJob \<Rightarrow> time \<Rightarrow> db \<Rightarrow> db" where
  "erase_subject job now d =
     (case ej_PersonID job of
        Some person \<Rightarrow>
          if ej_Scope job = ''all'' then erasePerson person now d
          else (case ej_ProductID job of None \<Rightarrow> d | Some product \<Rightarrow> erasePersonProduct person product now d)
      | None \<Rightarrow>
          (case (ej_InstallationID job, ej_ProductID job) of
             (Some installation, Some product) \<Rightarrow> eraseInstallation installation product now d
           | _ \<Rightarrow> d))"

definition complete_erasure_step :: "time \<Rightarrow> privacy_step \<Rightarrow> privacy_step" where
  "complete_erasure_step now r = r\<lparr>ps_status := ''completed'', ps_receipt := Some YdbErased,
     ps_completed_at := Some (trunc_us now), ps_lease_until := None, ps_last_error := None,
     ps_updated_at := trunc_us now, ps_version := ps_version r + 1\<rparr>"

definition complete_request :: "time \<Rightarrow> privacy_request \<Rightarrow> privacy_request" where
  "complete_request now r = r\<lparr>pr_status := ''completed'', pr_completed_at := Some (trunc_us now),
     pr_updated_at := trunc_us now, pr_version := pr_version r + 1\<rparr>"

definition ErasePrivacyJob :: "string \<Rightarrow> time \<Rightarrow> PrivacyErasureJob \<Rightarrow> db \<Rightarrow> db result" where
  "ErasePrivacyJob auditID now job d =
     rbind (some_or ErrNotFound (tfind pr_id (ej_RequestID job) (privacy_requests d))) (\<lambda>r.
     if \<not> request_open (pr_status r) then Inl ErrNotFound
     else
       rbind (some_or ErrNotFound (tfind ps_id (ej_StepID job) (privacy_request_steps d))) (\<lambda>s.
       if ps_status s \<noteq> ''processing'' \<or> ps_version s \<noteq> ej_Version job then Inl ErrConflict
       else if \<not> metricStepsComplete d (ej_RequestID job) then Inl ErrConflict
       else
         rbind (cas_row privacy_request_steps privacy_request_steps_update ps_id ps_version (ej_StepID job) (ps_version s)
                  (\<lambda>_. True) (complete_erasure_step now) (erase_subject job now d)) (\<lambda>d1.
         rbind (cas_row privacy_requests privacy_requests_update pr_id pr_version (ej_RequestID job) (pr_version r)
                  (\<lambda>_. True) (complete_request now) d1) (\<lambda>d2.
         insert_status_audit auditID (ej_RequestID job) ''completed'' ''privacy-orchestrator''
           ''all downstream receipts and YDB erasure completed'' now d2))))"

definition retry_step :: "string \<times> time \<times> time \<Rightarrow> privacy_step \<Rightarrow> privacy_step" where
  "retry_step p r = (case p of (status, available, now) \<Rightarrow>
     r\<lparr>ps_status := status, ps_available_at := trunc_us available, ps_lease_until := None,
       ps_last_error := Some ''ydb erasure failed'', ps_updated_at := trunc_us now, ps_version := ps_version r + 1\<rparr>)"

definition RetryPrivacyErasure :: "time \<Rightarrow> PrivacyErasureJob \<Rightarrow> duration \<Rightarrow> int \<Rightarrow> db \<Rightarrow> db result" where
  "RetryPrivacyErasure now job delay maxAttempts d =
     rbind (some_or ErrNotFound (tfind ps_id (ej_StepID job) (privacy_request_steps d))) (\<lambda>s.
     if ps_status s \<noteq> ''processing'' then Inl ErrConflict
     else
       let status = (if word_of_int maxAttempts \<le> ps_attempts s then ''manual_dlq'' else ''retry'') in
       cas_row privacy_request_steps privacy_request_steps_update ps_id ps_version (ej_StepID job) (ps_version s)
         (\<lambda>_. True) (retry_step (status, now + delay, now)) d)"

section \<open>Laws\<close>

interpretation step_lease: versioned_update ps_id ps_version lease_step
  by unfold_locales (simp_all add: lease_step_def)

interpretation step_complete: versioned_update ps_id ps_version complete_erasure_step
  by unfold_locales (simp_all add: complete_erasure_step_def)

interpretation request_complete: versioned_update pr_id pr_version complete_request
  by unfold_locales (simp_all add: complete_request_def)

interpretation step_retry: versioned_update ps_id ps_version retry_step
  by unfold_locales (auto simp: retry_step_def split: prod.splits)

section \<open>Claiming\<close>

definition job_of :: "privacy_request \<Rightarrow> privacy_step \<Rightarrow> PrivacyErasureJob" where
  "job_of r s = (let person = (pr_subject_type r = ''person'') in
     \<lparr>ej_StepID = ps_id s, ej_RequestID = ps_request_id s,
      ej_PersonID = (if person then Some (pr_subject_id r) else None),
      ej_InstallationID = (if person then None else Some (pr_subject_id r)),
      ej_Scope = pr_scope r, ej_ProductID = pr_product_id r, ej_Attempts = sint (ps_attempts s + 1),
      ej_Version = ps_version s + 1\<rparr>)"

definition inspect_step :: "db \<Rightarrow> privacy_step \<Rightarrow> PrivacyErasureJob option result" where
  "inspect_step d s =
     rbind (some_or ErrNotFound (tfind pr_id (ps_request_id s) (privacy_requests d))) (\<lambda>r.
     Inr (if request_open (pr_status r) \<and> metricStepsComplete d (ps_request_id s) then Some (job_of r s) else None))"

text \<open>Leasing erasure steps does not change which requests have all their Metric receipts.\<close>

lemma metricStepsComplete_lease:
  assumes "\<And>r. r \<in> set (privacy_request_steps d) \<Longrightarrow> P r \<Longrightarrow> ps_step_type r = ''ydb''"
  shows "metricStepsComplete (privacy_request_steps_update (tbl_update P (lease_step now)) d) q = metricStepsComplete d q"
proof -
  have "ps_step_type s \<noteq> ''metric''" if "s \<in> set (privacy_request_steps d)" "P s" for s
    using assms [OF that] by simp
  then show ?thesis by (auto simp: metricStepsComplete_def list_all_iff set_update lease_step_def)
qed

interpretation erasure_queue: claiming privacy_request_steps privacy_request_steps_update ps_id ps_version "step_due now"
  "lease_step now" inspect_step "claim_step now" for now
proof unfold_locales
  fix r xs d
  show "claim_step now r (xs, d) = rbind (inspect_step d r) (\<lambda>found. case found of None \<Rightarrow> Inr (xs, d)
      | Some j \<Rightarrow> rbind (cas_row privacy_request_steps privacy_request_steps_update ps_id ps_version (ps_id r) (ps_version r)
          (\<lambda>_. True) (lease_step now) d) (\<lambda>d1. Inr (xs @ [j], d1)))"
    by (cases "tfind pr_id (ps_request_id r) (privacy_requests d)") (auto simp: claim_step_def inspect_step_def job_of_def Let_def)
next
  fix d :: db and P s
  assume "\<And>r. r \<in> set (privacy_request_steps d) \<Longrightarrow> P r \<Longrightarrow> step_due now r"
  then have "metricStepsComplete (privacy_request_steps_update (tbl_update P (lease_step now)) d) q = metricStepsComplete d q" for q
    by (intro metricStepsComplete_lease) (auto simp: step_due_def)
  then show "inspect_step (privacy_request_steps_update (tbl_update P (lease_step now)) d) s = inspect_step d s"
    by (simp add: inspect_step_def)
qed (simp_all add: lease_step_def)

lemma due_steps_selected:
  assumes "db_keys d"
  shows "distinct (map ps_id (due_steps now n d))"
    and "s \<in> set (due_steps now n d) \<Longrightarrow> step_due now s \<and> tfind ps_id (ps_id s) (privacy_request_steps d) = Some s"
proof -
  have u: "uniq ps_id (privacy_request_steps d)" using assms by (rule table_uniq)
  show "distinct (map ps_id (due_steps now n d))" unfolding due_steps_def by (rule selection_distinct [OF u])
  show "s \<in> set (due_steps now n d) \<Longrightarrow> step_due now s \<and> tfind ps_id (ps_id s) (privacy_request_steps d) = Some s"
    unfolding due_steps_def by (rule selection [OF u])
qed

lemma ClaimPrivacyErasures_effect:
  assumes "ClaimPrivacyErasures now n d = Inr (js, d')" and "db_keys d"
  shows "js = erasure_queue.handed d (due_steps now n d) \<and> d' = erasure_queue.leased now d (due_steps now n d)"
  using erasure_queue.claim_loop_effect [OF assms(1) [unfolded ClaimPrivacyErasures_def] assms(2)] due_steps_selected [OF assms(2)] by blast

section \<open>What an erasure may remove\<close>

text \<open>
  \<open>shrinks scope d d'\<close>: \<open>d'\<close> is \<open>d\<close> with rows of the subject tables removed.  A removed row
  with a product column belongs to a product in scope, a refresh token whose session
  is removed is removed with it and so is a blind index with its identity, and the
  other tables are unchanged.
\<close>

definition trimmed :: "string option \<Rightarrow> ('r \<Rightarrow> string) \<Rightarrow> 'r list \<Rightarrow> 'r list \<Rightarrow> bool" where
  "trimmed scope product t t' \<longleftrightarrow> set t' \<subseteq> set t \<and> (\<forall>r \<in> set t - set t'. in_scope scope (product r))"

lemma trimmed_refl [simp]: "trimmed scope product t t"
  by (simp add: trimmed_def)

lemma trimmed_trans: "trimmed scope product t u \<Longrightarrow> trimmed scope product u v \<Longrightarrow> trimmed scope product t v"
  by (auto simp: trimmed_def)

lemma trimmed_delete: "(\<And>r. r \<in> set t \<Longrightarrow> P r \<Longrightarrow> in_scope scope (product r)) \<Longrightarrow> trimmed scope product t (tbl_delete P t)"
  by (auto simp: trimmed_def set_delete)

lemma trimmed_memD: "trimmed scope product t t' \<Longrightarrow> r \<in> set t' \<Longrightarrow> r \<in> set t"
  by (auto simp: trimmed_def)

text \<open>Rows of \<open>c\<close> that reference a row of \<open>t\<close> go when that row goes.\<close>

definition trimmed_with :: "('c \<Rightarrow> 'k) \<Rightarrow> ('r \<Rightarrow> 'k) \<Rightarrow> 'c list \<Rightarrow> 'c list \<Rightarrow> 'r list \<Rightarrow> 'r list \<Rightarrow> bool" where
  "trimmed_with ref key c c' t t' \<longleftrightarrow>
     set c' \<subseteq> set c \<and> (\<forall>x \<in> set c'. \<forall>r \<in> set t. key r = ref x \<longrightarrow> r \<in> set t')"

lemma trimmed_with_refl [simp]: "trimmed_with ref key c c t t"
  by (simp add: trimmed_with_def)

lemma trimmed_with_trans: "trimmed_with ref key c c' t t' \<Longrightarrow> trimmed_with ref key c' c'' t' t'' \<Longrightarrow> trimmed_with ref key c c'' t t''"
  unfolding trimmed_with_def by blast

definition shrinks :: "string option \<Rightarrow> db \<Rightarrow> db \<Rightarrow> bool" where
  "shrinks scope d d' \<longleftrightarrow>
     trimmed scope pc_product_id (public_email_challenges d) (public_email_challenges d') \<and>
     trimmed scope ev_product_id (email_verifications d) (email_verifications d') \<and>
     trimmed scope pu_product_id (public_account_audits d) (public_account_audits d') \<and>
     trimmed scope fl_product_id (public_registration_flows d) (public_registration_flows d') \<and>
     trimmed scope se_product_id (account_sessions d) (account_sessions d') \<and>
     trimmed scope pp_product_id (product_accounts d) (product_accounts d') \<and>
     trimmed scope ei_product_id (email_identities d) (email_identities d') \<and>
     trimmed scope sa_product_id (subject_aliases d) (subject_aliases d') \<and>
     trimmed scope va_product_id (email_verification_audits d) (email_verification_audits d') \<and>
     trimmed scope tp_product_id (telemetry_preferences d) (telemetry_preferences d') \<and>
     trimmed scope c_product_id (consents d) (consents d') \<and>
     trimmed scope os_product_id (organization_submissions d) (organization_submissions d') \<and>
     trimmed scope m_product_id (memberships d) (memberships d') \<and>
     trimmed_with rt_session_id se_id (account_refresh_tokens d) (account_refresh_tokens d') (account_sessions d) (account_sessions d') \<and>
     trimmed_with eb_identity_id ei_id (email_blind_indexes d) (email_blind_indexes d') (email_identities d) (email_identities d') \<and>
     persons d' = persons d \<and> accounts d' = accounts d \<and> accounts_by_person d' = accounts_by_person d \<and>
     product_installations d' = product_installations d \<and> organizations d' = organizations d \<and>
     organization_merge_audit d' = organization_merge_audit d \<and> privacy_requests d' = privacy_requests d \<and>
     privacy_idempotencies d' = privacy_idempotencies d \<and> privacy_request_steps d' = privacy_request_steps d \<and>
     outbox_events d' = outbox_events d \<and> privacy_request_status_audit d' = privacy_request_status_audit d \<and>
     public_auth_events d' = public_auth_events d"

lemma shrinks_refl [simp]: "shrinks scope d d"
  by (simp add: shrinks_def)

lemma shrinks_trans: "shrinks scope d e \<Longrightarrow> shrinks scope e f \<Longrightarrow> shrinks scope d f"
  unfolding shrinks_def by (intro conjI; (elim conjE)?; (erule (1) trimmed_trans | erule (1) trimmed_with_trans | simp))

text \<open>An erasing statement, and loops of them.\<close>

locale erasing =
  fixes scope :: "string option" and ok :: "'a \<Rightarrow> bool" and erase :: "'a \<Rightarrow> db \<Rightarrow> db"
  assumes erase_shrinks: "ok x \<Longrightarrow> shrinks scope d (erase x d)"
    and erase_keys: "db_keys d \<Longrightarrow> db_keys (erase x d)"
begin

lemma fold_shrinks: "(\<And>x. x \<in> set xs \<Longrightarrow> ok x) \<Longrightarrow> shrinks scope d (fold erase xs d)"
proof (induction xs arbitrary: d)
  case (Cons x xs)
  have "shrinks scope d (erase x d)" using Cons.prems by (intro erase_shrinks) simp
  moreover have "shrinks scope (erase x d) (fold erase xs (erase x d))" using Cons by simp
  ultimately show ?case by (simp add: shrinks_trans)
qed simp

lemma fold_keys: "db_keys d \<Longrightarrow> db_keys (fold erase xs d)"
  by (induction xs arbitrary: d) (auto intro: erase_keys)

lemma fold_establishes:
  assumes "\<And>x d. Q x (erase x d)" and "\<And>x d d'. shrinks scope d d' \<Longrightarrow> Q x d \<Longrightarrow> Q x d'"
    and "\<And>x. x \<in> set xs \<Longrightarrow> ok x" and "x \<in> set xs"
  shows "Q x (fold erase xs d)"
  using assms(3,4)
proof (induction xs arbitrary: d)
  case (Cons y ys)
  show ?case
  proof (cases "x \<in> set ys")
    case True
    with Cons show ?thesis by simp
  next
    case False
    with Cons.prems have "x = y" by simp
    moreover have "shrinks scope (erase y d) (fold erase ys (erase y d))" using Cons.prems by (intro fold_shrinks) simp
    ultimately show ?thesis using assms(1,2) by fastforce
  qed
qed simp

end

interpretation challenge_erasure: erasing scope "\<lambda>c. in_scope scope (er_product c)" erasePublicChallenge for scope
proof
  fix c :: publicErasureID and d assume "in_scope scope (er_product c)"
  then show "shrinks scope d (erasePublicChallenge c d)"
    by (auto simp: shrinks_def erasePublicChallenge_def row_defs intro!: trimmed_delete)
qed (simp add: erasePublicChallenge_def keys_simps)

interpretation session_erasure: erasing scope "\<lambda>s. in_scope scope (er_product s)" erasePublicSession for scope
proof
  fix s :: publicErasureID and d assume "in_scope scope (er_product s)"
  then show "shrinks scope d (erasePublicSession s d)"
    by (auto simp: shrinks_def erasePublicSession_def row_defs set_delete trimmed_with_def intro!: trimmed_delete)
qed (simp add: erasePublicSession_def keys_simps)


lemma shrinks_memD:
  assumes "shrinks scope d d'"
  shows "c \<in> set (public_email_challenges d') \<Longrightarrow> c \<in> set (public_email_challenges d)"
    and "s \<in> set (account_sessions d') \<Longrightarrow> s \<in> set (account_sessions d)"
    and "f \<in> set (public_registration_flows d') \<Longrightarrow> f \<in> set (public_registration_flows d)"
    and "p \<in> set (product_accounts d') \<Longrightarrow> p \<in> set (product_accounts d)"
    and "e \<in> set (email_identities d') \<Longrightarrow> e \<in> set (email_identities d)"
    and "a \<in> set (subject_aliases d') \<Longrightarrow> a \<in> set (subject_aliases d)"
    and "t \<in> set (account_refresh_tokens d') \<Longrightarrow> t \<in> set (account_refresh_tokens d)"
    and "v \<in> set (email_verifications d') \<Longrightarrow> v \<in> set (email_verifications d)"
    and "x \<in> set (telemetry_preferences d') \<Longrightarrow> x \<in> set (telemetry_preferences d)"
    and "y \<in> set (consents d') \<Longrightarrow> y \<in> set (consents d)"
  using assms by (auto simp: shrinks_def trimmed_with_def dest: trimmed_memD)

lemma shrinks_same:
  assumes "shrinks scope d d'"
  shows "persons d' = persons d" "accounts d' = accounts d" "product_installations d' = product_installations d"
    "privacy_requests d' = privacy_requests d" "privacy_request_steps d' = privacy_request_steps d"
    "outbox_events d' = outbox_events d" "privacy_request_status_audit d' = privacy_request_status_audit d"
  using assms by (auto simp: shrinks_def)

lemma erase_sessions_shrinks:
  "(\<And>s. P s \<Longrightarrow> in_scope scope (se_product_id s)) \<Longrightarrow> shrinks scope d (erase_sessions P d)"
  unfolding erase_sessions_def by (rule session_erasure.fold_shrinks) (auto simp: session_erasure_id_def)

lemma erase_challenges_shrinks:
  "(\<And>c. P c \<Longrightarrow> in_scope scope (pc_product_id c)) \<Longrightarrow> shrinks scope d (erase_challenges P d)"
  unfolding erase_challenges_def by (rule challenge_erasure.fold_shrinks) (auto simp: challenge_erasure_id_def)

lemma erase_keys:
  "db_keys d \<Longrightarrow> db_keys (erase_sessions P d)"
  "db_keys d \<Longrightarrow> db_keys (erase_challenges Q d)"
  unfolding erase_sessions_def erase_challenges_def by (rule session_erasure.fold_keys challenge_erasure.fold_keys; assumption)+

lemma erase_sessions_none:
  assumes "s \<in> set (account_sessions (erase_sessions P d))"
  shows "\<not> P s"
proof
  assume P: "P s"
  have "s \<in> set (account_sessions d)"
    using shrinks_memD(2) [OF erase_sessions_shrinks [of P None]] assms by (simp add: in_scope_def)
  with P have mem: "session_erasure_id s \<in> set (map session_erasure_id (filter P (account_sessions d)))" by simp
  have "\<forall>r \<in> set (account_sessions (erase_sessions P d)). \<not> (se_id r = er_id (session_erasure_id s) \<and>
      se_product_id r = er_product (session_erasure_id s) \<and> se_installation_id r = er_installation (session_erasure_id s))"
    unfolding erase_sessions_def
    by (rule session_erasure.fold_establishes [where scope = None, OF _ _ _ mem])
       (auto simp: erasePublicSession_def row_defs set_delete in_scope_def dest: shrinks_memD)
  with assms show False by (auto simp: session_erasure_id_def)
qed

lemma erase_challenges_none:
  assumes "c \<in> set (public_email_challenges (erase_challenges P d))"
  shows "\<not> P c"
proof
  assume P: "P c"
  have "c \<in> set (public_email_challenges d)"
    using shrinks_memD(1) [OF erase_challenges_shrinks [of P None]] assms by (simp add: in_scope_def)
  with P have mem: "challenge_erasure_id c \<in> set (map challenge_erasure_id (filter P (public_email_challenges d)))" by simp
  have "\<forall>r \<in> set (public_email_challenges (erase_challenges P d)). \<not> (pc_id r = er_id (challenge_erasure_id c) \<and>
      pc_product_id r = er_product (challenge_erasure_id c) \<and> pc_installation_id r = er_installation (challenge_erasure_id c))"
    unfolding erase_challenges_def
    by (rule challenge_erasure.fold_establishes [where scope = None, OF _ _ _ mem])
       (auto simp: erasePublicChallenge_def row_defs set_delete in_scope_def dest: shrinks_memD)
  with assms show False by (auto simp: challenge_erasure_id_def)
qed

subsection \<open>The statements on a person and an installation\<close>

interpretation account_erasure: erasing scope "\<lambda>_. True" "erase_account_state scope" for scope
proof
  fix account d
  have "shrinks scope d (erase_sessions (\<lambda>s. se_account_id s = account \<and> in_scope scope (se_product_id s)) d)"
    by (rule erase_sessions_shrinks) simp
  moreover have "shrinks scope e (delete_rows product_accounts_update (\<lambda>p. pp_account_id p = account \<and> in_scope scope (pp_product_id p))
      (delete_rows public_account_audits_update (\<lambda>a. pu_entity_id a = account \<and> in_scope scope (pu_product_id a)) e))" for e
    by (auto simp: shrinks_def row_defs intro!: trimmed_delete)
  ultimately show "shrinks scope d (erase_account_state scope account d)"
    unfolding erase_account_state_def by (rule shrinks_trans)
qed (simp add: erase_account_state_def keys_simps erase_keys)

interpretation email_key_erasure: erasing scope "\<lambda>k. in_scope scope (eb_scope_key k)" erase_email_key for scope
  by unfold_locales (auto simp: erase_email_key_def intro!: erase_challenges_shrinks erase_keys)

interpretation identity_erasure: erasing scope "\<lambda>_. True" "erase_identity_challenges scope" for scope
proof
  fix i d
  show "shrinks scope d (erase_identity_challenges scope i d)"
    unfolding erase_identity_challenges_def by (rule email_key_erasure.fold_shrinks) auto
qed (simp add: erase_identity_challenges_def email_key_erasure.fold_keys)

lemma person_state_shrinks: "shrinks scope d (erasePublicPersonState person scope d)"
  unfolding erasePublicPersonState_def Let_def
  by (rule shrinks_trans [OF identity_erasure.fold_shrinks account_erasure.fold_shrinks]) simp_all

lemma person_state_keys: "db_keys d \<Longrightarrow> db_keys (erasePublicPersonState person scope d)"
  by (simp add: erasePublicPersonState_def Let_def identity_erasure.fold_keys account_erasure.fold_keys)

text \<open>The loops that delete identities and aliases, as one statement.\<close>

lemma fold_delete_identity:
  "fold delete_identity is d =
     delete_rows email_identities_update (\<lambda>e. ei_id e \<in> set is) (delete_rows email_blind_indexes_update (\<lambda>k. eb_identity_id k \<in> set is) d)"
proof (induction "is" arbitrary: d)
  case Nil
  then show ?case by (simp add: row_defs tbl_delete_def)
next
  case (Cons i "is")
  then show ?case by (simp add: delete_identity_def row_defs tbl_delete_def conj_commute cong: conj_cong)
qed

lemma fold_delete_alias:
  "fold deleteAlias as d =
     delete_rows subject_alias_keys_update (\<lambda>k. sk_key k \<in> (\<lambda>a. (sa_product_id a, sa_audience a, sa_subject_type a, sa_subject_id a)) ` set as)
       (delete_rows subject_aliases_update (\<lambda>r. sa_opaque_key r \<in> sa_opaque_key ` set as) d)"
proof (induction as arbitrary: d)
  case Nil
  then show ?case by (simp add: row_defs tbl_delete_def)
next
  case (Cons a as)
  then show ?case by (simp add: deleteAlias_def row_defs tbl_delete_def conj_commute cong: conj_cong)
qed

lemma delete_identities_shrinks:
  assumes "\<And>e. e \<in> set (email_identities d) \<Longrightarrow> ei_id e \<in> set is \<Longrightarrow> in_scope scope (ei_product_id e)"
  shows "shrinks scope d (fold delete_identity is d)"
  using assms by (auto simp: fold_delete_identity shrinks_def row_defs trimmed_with_def set_delete intro!: trimmed_delete)

lemma delete_aliases_shrinks:
  assumes "db_keys d" and "\<And>a. a \<in> set as \<Longrightarrow> a \<in> set (subject_aliases d) \<and> in_scope scope (sa_product_id a)"
  shows "shrinks scope d (fold deleteAlias as d)"
proof -
  have u: "uniq sa_opaque_key (subject_aliases d)" using assms(1) by (rule table_uniq)
  show ?thesis
    using assms(2) by (auto simp: fold_delete_alias shrinks_def row_defs trimmed_with_def intro!: trimmed_delete dest!: uniq_inj [OF u])
qed

lemma fold_delete_keys:
  "db_keys d \<Longrightarrow> db_keys (fold delete_identity is d)"
  "db_keys d \<Longrightarrow> db_keys (fold deleteAlias as d)"
  by (simp_all add: fold_delete_identity fold_delete_alias keys_simps)

lemma delete_rows_shrinks:
  "shrinks scope d (delete_person_rows person scope d)"
  "shrinks scope d (delete_installation_rows installation scope d)"
  by (auto simp: shrinks_def delete_person_rows_def delete_installation_rows_def row_defs intro!: trimmed_delete)

lemma identity_ids_scope:
  assumes "db_keys d" "e \<in> set (email_identities d)" "ei_id e \<in> set (identityIDsForPerson d person scope)"
  shows "in_scope scope (ei_product_id e)"
proof -
  have u: "uniq ei_id (email_identities d)" using assms(1) by (rule table_uniq)
  show ?thesis using assms(2,3)
    by (auto simp: identityIDsForPerson_def in_scope_def dest!: uniq_inj [OF u assms(2)] split: option.splits)
qed

lemma erasePersonRecords_shrinks:
  assumes "db_keys d"
  shows "shrinks scope d (erasePersonRecords person scope d)" "db_keys (erasePersonRecords person scope d)"
proof -
  let ?d1 = "erasePublicPersonState person scope d"
  let ?d2 = "fold delete_identity (identityIDsForPerson ?d1 person scope) ?d1"
  let ?d3 = "fold deleteAlias (aliasKeysForPerson ?d2 person scope) ?d2"
  have k1: "db_keys ?d1" using assms by (rule person_state_keys)
  then have k2: "db_keys ?d2" by (rule fold_delete_keys)
  have s2: "shrinks scope ?d1 ?d2" by (rule delete_identities_shrinks) (rule identity_ids_scope [OF k1])
  have s3: "shrinks scope ?d2 ?d3" using k2 by (rule delete_aliases_shrinks) (auto simp: aliasKeysForPerson_def)
  show "shrinks scope d (erasePersonRecords person scope d)"
    unfolding erasePersonRecords_def Let_def
    by (rule shrinks_trans [OF shrinks_trans [OF shrinks_trans [OF person_state_shrinks s2] s3] delete_rows_shrinks(1)])
  show "db_keys (erasePersonRecords person scope d)"
    using fold_delete_keys(2) [OF k2] by (simp add: erasePersonRecords_def Let_def delete_person_rows_def keys_simps)
qed

lemma installation_state_shrinks: "shrinks scope d (erasePublicInstallationState i scope d)"
proof -
  let ?d1 = "erase_challenges (\<lambda>c. pc_installation_id c = i \<and> in_scope scope (pc_product_id c)) d"
  let ?d2 = "erase_sessions (\<lambda>s. se_installation_id s = i \<and> in_scope scope (se_product_id s)) ?d1"
  have "shrinks scope d ?d1" by (rule erase_challenges_shrinks) simp
  moreover have "shrinks scope ?d1 ?d2" by (rule erase_sessions_shrinks) simp
  moreover have "shrinks scope ?d2 (erasePublicInstallationState i scope d)"
    by (auto simp: shrinks_def erasePublicInstallationState_def Let_def row_defs intro!: trimmed_delete)
  ultimately show ?thesis by (blast intro: shrinks_trans)
qed

lemma installation_state_keys: "db_keys d \<Longrightarrow> db_keys (erasePublicInstallationState i scope d)"
  by (simp add: erasePublicInstallationState_def Let_def keys_simps erase_keys)

lemma eraseInstallationRecords_shrinks:
  assumes "db_keys d"
  shows "shrinks scope d (eraseInstallationRecords scope i d)" "db_keys (eraseInstallationRecords scope i d)"
proof -
  let ?d1 = "erasePublicInstallationState i scope d"
  let ?d2 = "fold deleteAlias (aliasKeysForSubject ?d1 ''installation'' i scope) ?d1"
  have k1: "db_keys ?d1" using assms by (rule installation_state_keys)
  have s2: "shrinks scope ?d1 ?d2" using k1 by (rule delete_aliases_shrinks) (auto simp: aliasKeysForSubject_def)
  show "shrinks scope d (eraseInstallationRecords scope i d)"
    unfolding eraseInstallationRecords_def Let_def
    by (rule shrinks_trans [OF shrinks_trans [OF installation_state_shrinks s2] delete_rows_shrinks(2)])
  show "db_keys (eraseInstallationRecords scope i d)"
    using fold_delete_keys(2) [OF k1] by (simp add: eraseInstallationRecords_def Let_def delete_installation_rows_def keys_simps)
qed

lemma erase_installations_shrinks:
  assumes "db_keys d"
  shows "shrinks scope d (fold (eraseInstallationRecords scope) is d) \<and> db_keys (fold (eraseInstallationRecords scope) is d)"
  using assms
proof (induction "is" arbitrary: d)
  case (Cons i "is")
  have "db_keys (eraseInstallationRecords scope i d)" using Cons.prems by (rule eraseInstallationRecords_shrinks(2))
  with Cons.IH eraseInstallationRecords_shrinks(1) [OF Cons.prems] show ?case by (auto intro: shrinks_trans)
qed simp

text \<open>Nothing of the subject is left.\<close>

definition person_gone :: "string option \<Rightarrow> string \<Rightarrow> db \<Rightarrow> bool" where
  "person_gone scope person d \<longleftrightarrow>
     (\<forall>e \<in> set (email_identities d). ei_person_id e = person \<longrightarrow> scope \<noteq> None \<and>
        \<not> (in_scope scope (ei_product_id e) \<and> ei_linkage_scope e = ''product'')) \<and>
     (\<forall>a \<in> set (subject_aliases d). \<not> (sa_person_id a = Some person \<and> in_scope scope (sa_product_id a))) \<and>
     (\<forall>a \<in> set (accounts d). a_person_id a = person \<longrightarrow>
        (\<forall>s \<in> set (account_sessions d). \<not> (se_account_id s = a_id a \<and> in_scope scope (se_product_id s))) \<and>
        (\<forall>p \<in> set (product_accounts d). \<not> (pp_account_id p = a_id a \<and> in_scope scope (pp_product_id p)))) \<and>
     (\<forall>m \<in> set (memberships d). \<not> (m_person_id m = person \<and> in_scope scope (m_product_id m))) \<and>
     (\<forall>s \<in> set (organization_submissions d). \<not> (os_person_id s = Some person \<and> in_scope scope (os_product_id s))) \<and>
     (\<forall>c \<in> set (consents d). \<not> (c_subject_type c = ''person'' \<and> c_subject_id c = person \<and> in_scope scope (c_product_id c))) \<and>
     (\<forall>t \<in> set (telemetry_preferences d). \<not> (tp_subject_type t = ''person'' \<and> tp_subject_id t = person \<and> in_scope scope (tp_product_id t))) \<and>
     (\<forall>a \<in> set (email_verification_audits d). \<not> (va_person_id a = person \<and> in_scope scope (va_product_id a)))"

lemma trimmed_none: "trimmed scope product t t' \<Longrightarrow> \<forall>r \<in> set t. \<not> P r \<Longrightarrow> \<forall>r \<in> set t'. \<not> P r"
  by (auto simp: trimmed_def)

definition installation_gone :: "string option \<Rightarrow> string \<Rightarrow> db \<Rightarrow> bool" where
  "installation_gone scope i d \<longleftrightarrow>
     (\<forall>c \<in> set (public_email_challenges d). \<not> (pc_installation_id c = i \<and> in_scope scope (pc_product_id c))) \<and>
     (\<forall>s \<in> set (account_sessions d). \<not> (se_installation_id s = i \<and> in_scope scope (se_product_id s))) \<and>
     (\<forall>f \<in> set (public_registration_flows d). \<not> (fl_installation_id f = i \<and> in_scope scope (fl_product_id f))) \<and>
     (\<forall>a \<in> set (subject_aliases d). \<not> (sa_subject_type a = ''installation'' \<and> sa_subject_id a = i \<and> in_scope scope (sa_product_id a))) \<and>
     (\<forall>v \<in> set (email_verifications d). \<not> (ev_installation_id v = Some i \<and> in_scope scope (ev_product_id v))) \<and>
     (\<forall>a \<in> set (email_verification_audits d). \<not> (va_installation_id a = Some i \<and> in_scope scope (va_product_id a))) \<and>
     (\<forall>s \<in> set (organization_submissions d). \<not> (os_installation_id s = Some i \<and> in_scope scope (os_product_id s))) \<and>
     (\<forall>c \<in> set (consents d). \<not> (c_subject_type c = ''installation'' \<and> c_subject_id c = i \<and> in_scope scope (c_product_id c))) \<and>
     (\<forall>t \<in> set (telemetry_preferences d). \<not> (tp_subject_type t = ''installation'' \<and> tp_subject_id t = i \<and> in_scope scope (tp_product_id t)))"

lemma installation_gone_mono: "shrinks scope' d d' \<Longrightarrow> installation_gone scope i d \<Longrightarrow> installation_gone scope i d'"
  unfolding shrinks_def installation_gone_def by (elim conjE) (intro conjI; erule (1) trimmed_none)

lemma delete_installation_rows_none:
  "\<forall>v \<in> set (email_verifications (delete_installation_rows i scope d)). \<not> (ev_installation_id v = Some i \<and> in_scope scope (ev_product_id v))"
  "\<forall>a \<in> set (email_verification_audits (delete_installation_rows i scope d)). \<not> (va_installation_id a = Some i \<and> in_scope scope (va_product_id a))"
  "\<forall>s \<in> set (organization_submissions (delete_installation_rows i scope d)). \<not> (os_installation_id s = Some i \<and> in_scope scope (os_product_id s))"
  "\<forall>c \<in> set (consents (delete_installation_rows i scope d)).
     \<not> (c_subject_type c = ''installation'' \<and> c_subject_id c = i \<and> in_scope scope (c_product_id c))"
  "\<forall>t \<in> set (telemetry_preferences (delete_installation_rows i scope d)).
     \<not> (tp_subject_type t = ''installation'' \<and> tp_subject_id t = i \<and> in_scope scope (tp_product_id t))"
  by (simp_all add: delete_installation_rows_def row_defs set_delete)

lemma installation_records_gone: "installation_gone scope i (eraseInstallationRecords scope i d)"
proof -
  let ?d0 = "erase_challenges (\<lambda>c. pc_installation_id c = i \<and> in_scope scope (pc_product_id c)) d"
  let ?d1 = "erase_sessions (\<lambda>s. se_installation_id s = i \<and> in_scope scope (se_product_id s)) ?d0"
  let ?d2 = "erasePublicInstallationState i scope d"
  let ?d3 = "fold deleteAlias (aliasKeysForSubject ?d2 ''installation'' i scope) ?d2"
  let ?d4 = "eraseInstallationRecords scope i d"
  have s1: "shrinks scope ?d0 ?d1" by (rule erase_sessions_shrinks) simp
  have eq: "?d4 = delete_installation_rows i scope ?d3" by (simp add: eraseInstallationRecords_def Let_def)
  have "public_email_challenges ?d4 = public_email_challenges ?d1" "account_sessions ?d4 = account_sessions ?d1"
    by (simp_all add: eq delete_installation_rows_def row_defs fold_delete_alias erasePublicInstallationState_def Let_def)
  then have c: "\<forall>c \<in> set (public_email_challenges ?d4). \<not> (pc_installation_id c = i \<and> in_scope scope (pc_product_id c))"
    and s: "\<forall>s \<in> set (account_sessions ?d4). \<not> (se_installation_id s = i \<and> in_scope scope (se_product_id s))"
    using erase_challenges_none shrinks_memD(1) [OF s1] erase_sessions_none by (fastforce, fastforce)
  have f: "\<forall>f \<in> set (public_registration_flows ?d4). \<not> (fl_installation_id f = i \<and> in_scope scope (fl_product_id f))"
    by (simp add: eq delete_installation_rows_def row_defs fold_delete_alias erasePublicInstallationState_def Let_def set_delete)
  have a: "\<forall>a \<in> set (subject_aliases ?d4). \<not> (sa_subject_type a = ''installation'' \<and> sa_subject_id a = i \<and> in_scope scope (sa_product_id a))"
    by (auto simp: eq delete_installation_rows_def fold_delete_alias row_defs set_delete aliasKeysForSubject_def)
  show ?thesis
    unfolding installation_gone_def
    by (intro conjI) (fact c s f a delete_installation_rows_none [of i scope ?d3, folded eq])+
qed

lemma installations_gone:
  assumes "db_keys d" and "i \<in> set is"
  shows "installation_gone scope i (fold (eraseInstallationRecords scope) is d)"
  using assms
proof (induction "is" arbitrary: d)
  case (Cons j "is")
  let ?d = "eraseInstallationRecords scope j d"
  have k: "db_keys ?d" using Cons.prems(1) by (rule eraseInstallationRecords_shrinks(2))
  show ?case
  proof (cases "i \<in> set is")
    case True
    with Cons.IH [OF k] show ?thesis by simp
  next
    case False
    with Cons.prems have "installation_gone scope i ?d" by (simp add: installation_records_gone)
    with erase_installations_shrinks [OF k] show ?thesis by (auto intro: installation_gone_mono)
  qed
qed simp

lemma account_state_gone:
  assumes "account \<in> set as"
  shows "(\<forall>s \<in> set (account_sessions (fold (erase_account_state scope) as d)).
      \<not> (se_account_id s = account \<and> in_scope scope (se_product_id s))) \<and>
    (\<forall>p \<in> set (product_accounts (fold (erase_account_state scope) as d)).
      \<not> (pp_account_id p = account \<and> in_scope scope (pp_product_id p)))"
  by (rule account_erasure.fold_establishes [where scope = scope, OF _ _ _ assms])
     (auto simp: erase_account_state_def row_defs set_delete dest: erase_sessions_none shrinks_memD)

lemma person_records_gone: "db_keys d \<Longrightarrow> person_gone scope person (erasePersonRecords person scope d)"
proof -
  assume keys: "db_keys d"
  let ?d0 = "fold (erase_identity_challenges scope) (identityIDsForPerson d person scope) d"
  let ?d1 = "erasePublicPersonState person scope d"
  let ?d2 = "fold delete_identity (identityIDsForPerson ?d1 person scope) ?d1"
  let ?d3 = "fold deleteAlias (aliasKeysForPerson ?d2 person scope) ?d2"
  let ?d4 = "erasePersonRecords person scope d"
  have same: "account_sessions ?d4 = account_sessions ?d1" "product_accounts ?d4 = product_accounts ?d1"
    "email_identities ?d4 = email_identities ?d2" "subject_aliases ?d4 = subject_aliases ?d3"
    by (simp_all add: erasePersonRecords_def Let_def delete_person_rows_def row_defs fold_delete_alias fold_delete_identity)
  have acc: "accounts ?d4 = accounts ?d0"
    using shrinks_same(2) [OF erasePersonRecords_shrinks(1) [OF keys, of scope person]]
      shrinks_same(2) [OF identity_erasure.fold_shrinks [of _ scope d]] by simp
  have accounts: "(\<forall>s \<in> set (account_sessions ?d1). \<not> (se_account_id s = a_id a \<and> in_scope scope (se_product_id s))) \<and>
      (\<forall>p \<in> set (product_accounts ?d1). \<not> (pp_account_id p = a_id a \<and> in_scope scope (pp_product_id p)))"
    if "a \<in> set (accounts ?d0)" "a_person_id a = person" for a
    unfolding erasePublicPersonState_def Let_def by (rule account_state_gone) (use that in auto)
  have "\<forall>e \<in> set (email_identities ?d2). ei_person_id e = person \<longrightarrow> scope \<noteq> None \<and>
      \<not> (in_scope scope (ei_product_id e) \<and> ei_linkage_scope e = ''product'')"
    by (force simp: fold_delete_identity row_defs set_delete identityIDsForPerson_def in_scope_def split: option.splits)
  moreover have "\<forall>a \<in> set (subject_aliases ?d3). \<not> (sa_person_id a = Some person \<and> in_scope scope (sa_product_id a))"
    by (auto simp: fold_delete_alias row_defs set_delete aliasKeysForPerson_def)
  ultimately show ?thesis
    unfolding person_gone_def same acc using accounts
    by (auto simp: erasePersonRecords_def Let_def delete_person_rows_def row_defs set_delete)
qed

subsection \<open>The transaction of a job\<close>

lemma unlink_simps [simp]:
  "i_id (unlink_installation now i) = i_id i" "i_product_id (unlink_installation now i) = i_product_id i"
  "i_person_id (unlink_installation now i) = None" "i_disabled_at (unlink_installation now i) \<noteq> None"
  by (simp_all add: unlink_installation_def)

lemma erase_subject_frame:
  assumes "db_keys d"
  shows "db_keys (erase_subject job now d) \<and> privacy_requests (erase_subject job now d) = privacy_requests d \<and>
    privacy_request_steps (erase_subject job now d) = privacy_request_steps d \<and> outbox_events (erase_subject job now d) = outbox_events d \<and>
    privacy_request_status_audit (erase_subject job now d) = privacy_request_status_audit d"
proof -
  have person: "db_keys (erasePersonRecords p scope (fold (eraseInstallationRecords scope) is d)) \<and>
      shrinks scope d (erasePersonRecords p scope (fold (eraseInstallationRecords scope) is d))" for p scope "is"
    using erase_installations_shrinks [OF assms] erasePersonRecords_shrinks by (blast intro: shrinks_trans)
  have installation: "db_keys (eraseInstallationRecords scope i d) \<and> shrinks scope d (eraseInstallationRecords scope i d)" for scope i
    using eraseInstallationRecords_shrinks [OF assms] by blast
  note frame = person [THEN conjunct2, THEN shrinks_same(4)] person [THEN conjunct2, THEN shrinks_same(5)]
    person [THEN conjunct2, THEN shrinks_same(6)] installation [THEN conjunct2, THEN shrinks_same(4)]
    installation [THEN conjunct2, THEN shrinks_same(5)] installation [THEN conjunct2, THEN shrinks_same(6)]
    person [THEN conjunct2, THEN shrinks_same(7)] installation [THEN conjunct2, THEN shrinks_same(7)]
  show ?thesis
    using assms person [THEN conjunct1] installation [THEN conjunct1]
    by (simp add: erase_subject_def erasePerson_def erasePersonProduct_def eraseInstallation_def Let_def keys_simps
        split: option.split) (simp add: update_rows_def frame)
qed

lemma ErasePrivacyJob_effect:
  assumes ok: "ErasePrivacyJob auditID now job d = Inr d'" and keys: "db_keys d"
  obtains r s where "tfind pr_id (ej_RequestID job) (privacy_requests d) = Some r" "request_open (pr_status r)"
    "tfind ps_id (ej_StepID job) (privacy_request_steps d) = Some s" "ps_status s = ''processing''" "ps_version s = ej_Version job"
    "metricStepsComplete d (ej_RequestID job)"
    "d' = (erase_subject job now d)\<lparr>
       privacy_request_steps := tbl_update (\<lambda>x. ps_id x = ej_StepID job) (complete_erasure_step now) (privacy_request_steps d),
       privacy_requests := tbl_update (\<lambda>x. pr_id x = ej_RequestID job) (complete_request now) (privacy_requests d),
       privacy_request_status_audit := privacy_request_status_audit d'\<rparr>"
proof -
  note f = erase_subject_frame [OF keys, of job now]
  have u: "uniq ps_id (privacy_request_steps d)" "uniq pr_id (privacy_requests d)" using keys by (rule table_uniq)+
  show thesis
    using ok u f
    by (auto simp: ErasePrivacyJob_def insert_status_audit_def insert_row_Inr cas_row_Inr split: if_splits intro: that)
qed

lemma in_updateE:
  assumes "x \<in> set (tbl_update P f t)"
  obtains (changed) r where "r \<in> set t" "P r" "x = f r" | (kept) "x \<in> set t" "\<not> P x"
  using assms by (auto simp: set_update split: if_splits)

lemma trimmed_kept: "trimmed (Some product) f t t' \<Longrightarrow> \<forall>x \<in> set t. f x \<noteq> product \<longrightarrow> x \<in> set t'"
  by (auto simp: trimmed_def in_scope_def)

lemma erasePerson_gone:
  fixes person now
  assumes keys: "db_keys d"
  defines "d' \<equiv> erasePerson person now d"
  shows "person_gone None person d'"
    and "i \<in> set (product_installations d) \<Longrightarrow> i_person_id i = Some person \<Longrightarrow> installation_gone None (i_id i) d'"
    and "i \<in> set (product_installations d') \<Longrightarrow> i_person_id i \<noteq> Some person"
    and "p \<in> set (persons d') \<Longrightarrow> p_id p = person \<Longrightarrow> p_deleted_at p \<noteq> None"
    and "a \<in> set (accounts d') \<Longrightarrow> a_person_id a = person \<Longrightarrow> a_status a = ''deleted''"
    and "t \<in> set (account_refresh_tokens d') \<Longrightarrow> a \<in> set (accounts d) \<Longrightarrow> a_person_id a = person \<Longrightarrow>
      s \<in> set (account_sessions d) \<Longrightarrow> se_account_id s = a_id a \<Longrightarrow> rt_session_id t \<noteq> se_id s"
    and "k \<in> set (email_blind_indexes d') \<Longrightarrow> e \<in> set (email_identities d) \<Longrightarrow> ei_person_id e = person \<Longrightarrow>
      eb_identity_id k \<noteq> ei_id e"
proof -
  let ?ids = "installationIDsForPerson d person None"
  define d1 where "d1 = fold (eraseInstallationRecords None) ?ids d"
  define d2 where "d2 = erasePersonRecords person None d1"
  have 1: "shrinks None d d1" "db_keys d1" using erase_installations_shrinks [OF keys] by (auto simp: d1_def)
  have 2: "shrinks None d1 d2" using erasePersonRecords_shrinks(1) [OF 1(2)] by (simp add: d2_def)
  then have 12: "shrinks None d d2" using 1(1) by (rule shrinks_trans [rotated])
  note d'_simps = d'_def erasePerson_def Let_def d1_def [symmetric] d2_def [symmetric] update_rows_def
  have gone: "person_gone None person d2" unfolding d2_def using 1(2) by (rule person_records_gone)
  have acc: "accounts d2 = accounts d" using 12 by (rule shrinks_same(2))
  have eqs: "email_identities d' = email_identities d2" "subject_aliases d' = subject_aliases d2" "account_sessions d' = account_sessions d2"
    "product_accounts d' = product_accounts d2" "memberships d' = memberships d2" "organization_submissions d' = organization_submissions d2"
    "consents d' = consents d2" "telemetry_preferences d' = telemetry_preferences d2"
    "email_verification_audits d' = email_verification_audits d2" by (simp_all add: d'_simps)
  have "\<forall>a \<in> set (accounts d'). \<exists>b \<in> set (accounts d2). a_id b = a_id a \<and> a_person_id b = a_person_id a"
    by (auto simp: d'_simps set_update)
  with gone show "person_gone None person d'"
    unfolding person_gone_def eqs by (elim conjE) (intro conjI; (assumption | metis))
  show "installation_gone None (i_id i) d'" if "i \<in> set (product_installations d)" "i_person_id i = Some person" for i
  proof -
    have "installation_gone None (i_id i) d1"
      unfolding d1_def by (rule installations_gone [OF keys]) (use that in \<open>auto simp: installationIDsForPerson_def in_scope_def\<close>)
    with 2 have "installation_gone None (i_id i) d2" by (rule installation_gone_mono)
    then show ?thesis by (simp add: installation_gone_def d'_simps)
  qed
  show "i \<in> set (product_installations d') \<Longrightarrow> i_person_id i \<noteq> Some person" for i
    by (simp add: d'_simps) (erule in_updateE; simp)
  show "p \<in> set (persons d') \<Longrightarrow> p_id p = person \<Longrightarrow> p_deleted_at p \<noteq> None" for p
    by (simp add: d'_simps) (erule in_updateE; simp)
  show "a \<in> set (accounts d') \<Longrightarrow> a_person_id a = person \<Longrightarrow> a_status a = ''deleted''" for a
    by (simp add: d'_simps) (erule in_updateE; simp)
  show "rt_session_id t \<noteq> se_id s" if "t \<in> set (account_refresh_tokens d')" "a \<in> set (accounts d)" "a_person_id a = person"
      "s \<in> set (account_sessions d)" "se_account_id s = a_id a" for t a s
  proof
    assume "rt_session_id t = se_id s"
    then have "s \<in> set (account_sessions d2)" using 12 that by (auto simp: shrinks_def trimmed_with_def d'_simps)
    with gone that show False by (auto simp: person_gone_def acc in_scope_def)
  qed
  show "eb_identity_id k \<noteq> ei_id e" if "k \<in> set (email_blind_indexes d')" "e \<in> set (email_identities d)" "ei_person_id e = person" for k e
  proof
    assume "eb_identity_id k = ei_id e"
    then have "e \<in> set (email_identities d2)" using 12 that by (auto simp: shrinks_def trimmed_with_def d'_simps)
    with gone that show False by (auto simp: person_gone_def)
  qed
qed

section \<open>Properties\<close>


text \<open>An erasure within one product removes rows of the product and then unlinks installations of the product.\<close>

lemma erase_subject_shape:
  assumes keys: "db_keys d" and scope: "ej_ProductID job = Some product" "ej_PersonID job = None \<or> ej_Scope job \<noteq> ''all''"
  shows "\<exists>d1 P. shrinks (Some product) d d1 \<and> (\<forall>i. P i \<longrightarrow> i_product_id i = product) \<and>
      erase_subject job now d = update_rows product_installations_update P (unlink_installation now) d1"
proof (cases "ej_PersonID job")
  case (Some person)
  let ?d1 = "fold (eraseInstallationRecords (Some product)) (installationIDsForPerson d person (Some product)) d"
  have "shrinks (Some product) d (erasePersonRecords person (Some product) ?d1)"
    using erase_installations_shrinks [OF keys] erasePersonRecords_shrinks(1) by (blast intro: shrinks_trans)
  with Some scope show ?thesis
    by (intro exI [of _ "erasePersonRecords person (Some product) ?d1"] exI [of _ "\<lambda>i. i_person_id i = Some person \<and> i_product_id i = product"])
       (simp add: erase_subject_def erasePersonProduct_def Let_def)
next
  case None
  show ?thesis
  proof (cases "ej_InstallationID job")
    case (Some i)
    with None scope eraseInstallationRecords_shrinks(1) [OF keys, of "Some product" i] show ?thesis
      by (intro exI [of _ "eraseInstallationRecords (Some product) i d"] exI [of _ "\<lambda>x. i_id x = i \<and> i_product_id x = product"])
         (simp add: erase_subject_def eraseInstallation_def)
  next
    assume "ej_InstallationID job = None"
    with None have "erase_subject job now d = update_rows product_installations_update (\<lambda>_. False) (unlink_installation now) d"
      by (simp add: erase_subject_def update_rows_def tbl_update_def)
    then show ?thesis by (intro exI [of _ d] exI [of _ "\<lambda>_. False"]) simp
  qed
qed


section \<open>Witnesses\<close>

text \<open>A job that still holds its lease and has all its receipts always succeeds.\<close>

lemma ErasePrivacyJob_succeeds:
  assumes keys: "db_keys d" and r: "tfind pr_id (ej_RequestID job) (privacy_requests d) = Some r" "request_open (pr_status r)"
    and s: "tfind ps_id (ej_StepID job) (privacy_request_steps d) = Some s" "ps_status s = ''processing''" "ps_version s = ej_Version job"
    and m: "metricStepsComplete d (ej_RequestID job)" and a: "auditID \<notin> pa_id ` set (privacy_request_status_audit d)"
  shows "\<exists>d'. ErasePrivacyJob auditID now job d = Inr d'"
proof -
  let ?e = "erase_subject job now d"
  note f = erase_subject_frame [OF keys, of job now]
  have u: "uniq ps_id (privacy_request_steps ?e)" "uniq pr_id (privacy_requests ?e)"
    using conjunct1 [OF f] by (rule table_uniq)+
  have 1: "cas_row privacy_request_steps privacy_request_steps_update ps_id ps_version (ej_StepID job) (ps_version s) (\<lambda>_. True)
      (complete_erasure_step now) ?e = Inr (?e\<lparr>privacy_request_steps := tbl_update (\<lambda>x. ps_id x = ej_StepID job) (complete_erasure_step now) (privacy_request_steps ?e)\<rparr>)"
    using u(1) f s(1) by (subst cas_row_ok) auto
  have 2: "cas_row privacy_requests privacy_requests_update pr_id pr_version (ej_RequestID job) (pr_version r) (\<lambda>_. True)
      (complete_request now) (?e\<lparr>privacy_request_steps := ss\<rparr>) =
      Inr (?e\<lparr>privacy_request_steps := ss, privacy_requests := tbl_update (\<lambda>x. pr_id x = ej_RequestID job) (complete_request now) (privacy_requests ?e)\<rparr>)" for ss
    using u(2) f r(1) by (subst cas_row_ok) auto
  show ?thesis
    using r s m a f by (simp add: ErasePrivacyJob_def 1 [unfolded s(3)] 2 insert_status_audit_def insert_row_eval)
qed

definition sample_request :: "string \<Rightarrow> string option \<Rightarrow> privacy_request" where
  "sample_request scope product = \<lparr>pr_id = ''r'', pr_subject_type = ''person'', pr_subject_id = ''p'', pr_request_type = ''deletion'',
     pr_scope = scope, pr_product_id = product, pr_status = ''requested'', pr_requested_at = 0, pr_completed_at = None,
     pr_requested_by_workload = ''w'', pr_idempotency_key = ''k'', pr_request_fingerprint = ''f'', pr_created_at = 0,
     pr_updated_at = 0, pr_version = 1\<rparr>"

definition sample_step :: "string \<Rightarrow> string \<Rightarrow> string \<Rightarrow> privacy_step" where
  "sample_step i request status = \<lparr>ps_id = i, ps_request_id = request, ps_step_type = ''ydb'', ps_product_id = None, ps_subject_key = None,
     ps_status = status, ps_attempts = 1, ps_available_at = 0, ps_lease_until = Some second, ps_receipt = None,
     ps_last_error = None, ps_completed_at = None, ps_created_at = 0, ps_updated_at = 0, ps_version = 2\<rparr>"

definition erasure_db :: "string \<Rightarrow> string option \<Rightarrow> db" where
  "erasure_db scope product = session_db\<lparr>privacy_requests := [sample_request scope product],
     privacy_request_steps := [sample_step ''s'' ''r'' ''processing'']\<rparr>"

definition sample_job :: "string \<Rightarrow> string option \<Rightarrow> PrivacyErasureJob" where
  "sample_job scope product = \<lparr>ej_StepID = ''s'', ej_RequestID = ''r'', ej_PersonID = Some ''p'', ej_InstallationID = None,
     ej_Scope = scope, ej_ProductID = product, ej_Attempts = 1, ej_Version = 2\<rparr>"

lemma erasure_db_keys: "db_keys (erasure_db scope product)"
  by (simp add: db_keys_def erasure_db_def session_db_def empty_db_def)

lemma sample_job_succeeds: "\<exists>d'. ErasePrivacyJob ''a'' second (sample_job scope product) (erasure_db scope product) = Inr d'"
  by (rule ErasePrivacyJob_succeeds [OF erasure_db_keys, where r = "sample_request scope product" and s = "sample_step ''s'' ''r'' ''processing''"])
     (simp_all add: erasure_db_def sample_job_def sample_request_def sample_step_def request_open_def metricStepsComplete_def
       session_db_def empty_db_def)



end
