(* ===== verification/Privacy_Machine.thy ===== *)
theory Privacy_Machine
  imports Erasure_Store
begin

text \<open>
  The privacy workflow as a state machine.  Creation and status changes of requests,
  the outbox worker and the erasure worker are transactions on the same database
  that interleave in any order; a worker may hold a job for as long as it likes and
  use it again.  The theory proves an invariant of every reachable state by rule
  induction, and that the machine refines a specification of request statuses.
\<close>

section \<open>The machine\<close>

text \<open>The database and every erasure job that was ever handed to a worker.\<close>

record service =
  sv_db :: db
  sv_jobs :: "PrivacyErasureJob set"

text \<open>
  A transaction of another part of the service: it does not write the privacy tables,
  and the outbox events that it adds belong to no privacy request.
\<close>

definition foreign_write :: "db \<Rightarrow> db \<Rightarrow> bool" where
  "foreign_write d d' \<longleftrightarrow> db_keys d' \<and> privacy_requests d' = privacy_requests d \<and>
     privacy_request_steps d' = privacy_request_steps d \<and>
     (\<exists>es. outbox_events d' = outbox_events d @ es \<and>
       (\<forall>e \<in> set es. ob_privacy_request_id e = None \<and> ob_privacy_step_id e = None \<and> ob_status e = ''pending''))"

inductive privacy_op :: "service \<Rightarrow> service \<Rightarrow> bool" where
  create: "CreatePrivacyRequest sha256 fresh now request products (sv_db s) = Inr (res, d') \<Longrightarrow> privacy_op s (s\<lparr>sv_db := d'\<rparr>)"
| status: "UpdatePrivacyRequestStatus auditID now update (sv_db s) = Inr d' \<Longrightarrow> privacy_op s (s\<lparr>sv_db := d'\<rparr>)"
| claim_outbox: "ClaimOutbox now n (sv_db s) = Inr (es, d') \<Longrightarrow> privacy_op s (s\<lparr>sv_db := d'\<rparr>)"
| mark: "MarkOutboxDelivered now eventID receipt (sv_db s) = Inr d' \<Longrightarrow> privacy_op s (s\<lparr>sv_db := d'\<rparr>)"
| retry: "RetryOutbox now eventID message delay maxAttempts (sv_db s) = Inr d' \<Longrightarrow> privacy_op s (s\<lparr>sv_db := d'\<rparr>)"
| reschedule: "RescheduleOutbox now eventID delay (sv_db s) = Inr d' \<Longrightarrow> privacy_op s (s\<lparr>sv_db := d'\<rparr>)"
| claim_erasures: "ClaimPrivacyErasures now n (sv_db s) = Inr (js, d') \<Longrightarrow>
    privacy_op s (s\<lparr>sv_db := d', sv_jobs := sv_jobs s \<union> set js\<rparr>)"
| erase: "job \<in> sv_jobs s \<Longrightarrow> ErasePrivacyJob auditID now job (sv_db s) = Inr d' \<Longrightarrow> privacy_op s (s\<lparr>sv_db := d'\<rparr>)"
| retry_erasure: "job \<in> sv_jobs s \<Longrightarrow> RetryPrivacyErasure now job delay maxAttempts (sv_db s) = Inr d' \<Longrightarrow>
    privacy_op s (s\<lparr>sv_db := d'\<rparr>)"
| foreign: "foreign_write (sv_db s) d' \<Longrightarrow> privacy_op s (s\<lparr>sv_db := d'\<rparr>)"

inductive reachable :: "service \<Rightarrow> bool" where
  start: "reachable \<lparr>sv_db = empty_db, sv_jobs = {}\<rparr>"
| step: "reachable s \<Longrightarrow> privacy_op s s' \<Longrightarrow> reachable s'"

section \<open>The invariant\<close>

text \<open>What identifies a row and never changes.\<close>

definition request_ref :: "privacy_request \<Rightarrow> string \<times> string \<times> string \<times> string \<times> string \<times> string option" where
  "request_ref r = (pr_id r, pr_subject_type r, pr_subject_id r, pr_request_type r, pr_scope r, pr_product_id r)"

definition step_ref :: "privacy_step \<Rightarrow> string \<times> string \<times> string" where
  "step_ref s = (ps_id s, ps_request_id s, ps_step_type s)"

definition event_ref :: "outbox_event \<Rightarrow> string \<times> string option \<times> string option" where
  "event_ref e = (ob_id e, ob_privacy_step_id e, ob_privacy_request_id e)"

text \<open>
  References: a step belongs to a request, a request has at most one erasure step and
  a deletion has one, an event of a request belongs to one of its Metric steps.
\<close>

definition links where
  "links R S E \<longleftrightarrow>
     (\<forall>(i, q, t) \<in> S. q \<in> fst ` R \<and> (t = ''metric'' \<or> t = ''ydb'')) \<and>
     (\<forall>i j q. (i, q, ''ydb'') \<in> S \<longrightarrow> (j, q, ''ydb'') \<in> S \<longrightarrow> i = j) \<and>
     (\<forall>(i, kind, subject, t, scope) \<in> R. t = ''deletion'' \<longrightarrow> (\<exists>j. (j, i, ''ydb'') \<in> S)) \<and>
     (\<forall>(i, s, q) \<in> E. q = None \<and> s = None \<or> (\<exists>j q'. s = Some j \<and> q = Some q' \<and> (j, q', ''metric'') \<in> S))"

text \<open>A job carries the subject and the scope of the request of its step.\<close>

definition jobs_linked where
  "jobs_linked R S js \<longleftrightarrow>
     (\<forall>j \<in> js. (ej_StepID j, ej_RequestID j, ''ydb'') \<in> S \<and>
       (\<exists>kind subject t. (ej_RequestID j, kind, subject, t, ej_Scope j, ej_ProductID j) \<in> R \<and>
          ej_PersonID j = (if kind = ''person'' then Some subject else None) \<and>
          ej_InstallationID j = (if kind = ''person'' then None else Some subject)))"

definition terminal :: "string \<Rightarrow> bool" where
  "terminal status \<longleftrightarrow> status = ''rejected'' \<or> status = ''cancelled''"

text \<open>A completed Metric step has the consumer's receipt, a completed erasure step the store's.\<close>

definition acknowledged :: "outbox_event list \<Rightarrow> privacy_step \<Rightarrow> bool" where
  "acknowledged es s \<longleftrightarrow>
     (ps_step_type s = ''metric'' \<longrightarrow> (\<exists>e \<in> set es. ob_privacy_step_id e = Some (ps_id s) \<and> ob_status e = ''delivered'' \<and>
        ob_delivery_receipt e = Some (DeliveryReceipt (ob_id e) ''completed''))) \<and>
     (ps_step_type s = ''ydb'' \<longrightarrow> ps_receipt s = Some YdbErased)"

definition steps_agree :: "privacy_request \<Rightarrow> privacy_step \<Rightarrow> bool" where
  "steps_agree r s \<longleftrightarrow> (ps_request_id s = pr_id r \<longrightarrow>
     (ps_status s = ''cancelled'' \<longleftrightarrow> terminal (pr_status r)) \<and>
     (pr_status r = ''completed'' \<longrightarrow> ps_status s = ''completed'') \<and>
     (ps_step_type s = ''ydb'' \<and> ps_status s = ''completed'' \<longrightarrow> pr_status r = ''completed''))"

definition events_agree :: "privacy_request \<Rightarrow> outbox_event \<Rightarrow> bool" where
  "events_agree r e \<longleftrightarrow> (ob_privacy_request_id e = Some (pr_id r) \<longrightarrow> (ob_status e = ''cancelled'' \<longleftrightarrow> terminal (pr_status r)))"

definition consistent :: "privacy_request list \<Rightarrow> privacy_step list \<Rightarrow> outbox_event list \<Rightarrow> bool" where
  "consistent rs ss es \<longleftrightarrow>
     (\<forall>r \<in> set rs. \<forall>s \<in> set ss. steps_agree r s) \<and> (\<forall>r \<in> set rs. \<forall>e \<in> set es. events_agree r e) \<and>
     (\<forall>s \<in> set ss. ps_status s = ''completed'' \<longrightarrow> acknowledged es s)"

definition privacy_inv :: "service \<Rightarrow> bool" where
  "privacy_inv s \<longleftrightarrow> db_keys (sv_db s) \<and>
     links (request_ref ` set (privacy_requests (sv_db s))) (step_ref ` set (privacy_request_steps (sv_db s)))
       (event_ref ` set (outbox_events (sv_db s))) \<and>
     jobs_linked (request_ref ` set (privacy_requests (sv_db s))) (step_ref ` set (privacy_request_steps (sv_db s))) (sv_jobs s) \<and>
     consistent (privacy_requests (sv_db s)) (privacy_request_steps (sv_db s)) (outbox_events (sv_db s))"

section \<open>Preservation on the three tables\<close>

lemma consistent_events:
  assumes "consistent rs ss es"
    and "\<And>e. event_ref (f e) = event_ref e"
    and "\<And>e. e \<in> set es \<Longrightarrow> P e \<Longrightarrow> ob_status e \<noteq> ''cancelled'' \<and> ob_status e \<noteq> ''delivered'' \<and> ob_status (f e) \<noteq> ''cancelled''"
  shows "consistent rs ss (tbl_update P f es)"
proof -
  have ref: "ob_privacy_request_id (f e) = ob_privacy_request_id e" for e using assms(2) [of e] by (simp add: event_ref_def)
  have "acknowledged (tbl_update P f es) s" if "acknowledged es s" for s
    using that assms(3) by (fastforce simp: acknowledged_def set_update)
  moreover have "events_agree r (f e)" if "r \<in> set rs" "e \<in> set es" "P e" for r e
  proof -
    have "events_agree r e" using assms(1) that by (simp add: consistent_def)
    with assms(3) [OF that(2,3)] show ?thesis by (simp add: events_agree_def ref)
  qed
  ultimately show ?thesis using assms(1) by (auto simp: consistent_def set_update)
qed

lemma consistent_steps:
  assumes "consistent rs ss es"
    and "\<And>s. step_ref (f s) = step_ref s"
    and "\<And>s. s \<in> set ss \<Longrightarrow> P s \<Longrightarrow> ps_status s \<noteq> ''cancelled'' \<and> ps_status (f s) \<noteq> ''cancelled'' \<and>
      (ps_status s = ''completed'' \<longrightarrow> ps_status (f s) = ''completed'') \<and>
      (ps_status (f s) = ''completed'' \<longrightarrow> ps_step_type s = ''metric'' \<and> acknowledged es (f s))"
  shows "consistent rs (tbl_update P f ss) es"
proof -
  have ref: "ps_request_id (f s) = ps_request_id s" "ps_step_type (f s) = ps_step_type s" for s
    using assms(2) [of s] by (simp_all add: step_ref_def)
  have "steps_agree r (f s)" if "r \<in> set rs" "s \<in> set ss" "P s" for r s
  proof -
    have "steps_agree r s" using assms(1) that by (simp add: consistent_def)
    with assms(3) [OF that(2,3)] show ?thesis
      unfolding steps_agree_def ref by (cases "ps_step_type s = ''ydb''") (simp, blast)+
  qed
  moreover have "acknowledged es (f s)" if "s \<in> set ss" "P s" "ps_status (f s) = ''completed''" for s
    using assms(3) [OF that(1,2)] that(3) by simp
  ultimately show ?thesis using assms(1) by (auto simp: consistent_def set_update)
qed

lemma consistent_status:
  assumes "consistent rs ss es" and "\<And>r. pr_id (f r) = pr_id r"
    and "\<And>r. r \<in> set rs \<Longrightarrow> P r \<Longrightarrow> request_open (pr_status r) \<and> request_open (pr_status (f r))"
  shows "consistent (tbl_update P f rs) ss es"
proof -
  have "steps_agree (f r) s \<and> (e \<in> set es \<longrightarrow> events_agree (f r) e)" if "r \<in> set rs" "s \<in> set ss" "P r" for r s e
  proof -
    have "steps_agree r s" "e \<in> set es \<longrightarrow> events_agree r e" using assms(1) that by (auto simp: consistent_def)
    moreover have "\<not> terminal (pr_status r)" "\<not> terminal (pr_status (f r))" "pr_status r \<noteq> ''completed''" "pr_status (f r) \<noteq> ''completed''"
      using assms(3) [OF that(1,3)] by (auto simp: terminal_def request_open_def)
    ultimately show ?thesis by (simp add: steps_agree_def events_agree_def assms(2))
  qed
  moreover have "events_agree (f r) e" if "r \<in> set rs" "e \<in> set es" "P r" for r e
  proof -
    have "events_agree r e" using assms(1) that by (auto simp: consistent_def)
    moreover have "\<not> terminal (pr_status r)" "\<not> terminal (pr_status (f r))"
      using assms(3) [OF that(1,3)] by (auto simp: terminal_def request_open_def)
    ultimately show ?thesis by (simp add: events_agree_def assms(2))
  qed
  ultimately show ?thesis using assms(1) by (auto simp: consistent_def set_update)
qed

lemma consistent_cancel:
  assumes c: "consistent rs ss es" and f: "\<And>r. pr_id (f r) = pr_id r" "\<And>r. terminal (pr_status (f r))"
    and pending: "\<And>s. s \<in> set ss \<Longrightarrow> ps_request_id s = q \<Longrightarrow> ps_status s = ''pending''"
      "\<And>e. e \<in> set es \<Longrightarrow> ob_privacy_request_id e = Some q \<Longrightarrow> ob_status e = ''pending''"
    and g: "\<And>s. step_ref (g s) = step_ref s" "\<And>s. ps_status (g s) = ''cancelled''"
    and h: "\<And>e. event_ref (h e) = event_ref e" "\<And>e. ob_status (h e) = ''cancelled''"
  shows "consistent (tbl_update (\<lambda>r. pr_id r = q) f rs)
    (tbl_update (\<lambda>s. ps_request_id s = q \<and> ps_status s \<noteq> ''completed'') g ss)
    (tbl_update (\<lambda>e. ob_privacy_request_id e = Some q \<and> ob_status e \<in> {''pending'', ''processing'', ''manual_dlq''}) h es)"
    (is "consistent ?rs ?ss ?es")
proof -
  have ref: "ps_request_id (g s) = ps_request_id s" "ob_privacy_request_id (h e) = ob_privacy_request_id e" for s e
    using g(1) [of s] h(1) [of e] by (simp_all add: step_ref_def event_ref_def)
  have S: "s \<in> set ?ss \<Longrightarrow> (s \<in> set ss \<and> ps_request_id s \<noteq> q) \<or> (ps_request_id s = q \<and> ps_status s = ''cancelled'')" for s
    by (erule in_updateE) (use pending(1) g(2) ref(1) in auto)
  have E: "e \<in> set ?es \<Longrightarrow> (e \<in> set es \<and> ob_privacy_request_id e \<noteq> Some q) \<or> (ob_privacy_request_id e = Some q \<and> ob_status e = ''cancelled'')" for e
    by (erule in_updateE) (use pending(2) h(2) ref(2) in auto)
  have R: "r \<in> set ?rs \<Longrightarrow> (r \<in> set rs \<and> pr_id r \<noteq> q) \<or> (pr_id r = q \<and> terminal (pr_status r))" for r
    by (erule in_updateE) (use f in auto)
  have fin: "terminal st \<Longrightarrow> st \<noteq> ''completed''" for st by (auto simp: terminal_def)
  have "steps_agree r s" if "r \<in> set ?rs" "s \<in> set ?ss" for r s
    using R [OF that(1)] S [OF that(2)] c fin by (auto simp: consistent_def steps_agree_def)
  moreover have "events_agree r e" if "r \<in> set ?rs" "e \<in> set ?es" for r e
    using R [OF that(1)] E [OF that(2)] c by (auto simp: consistent_def events_agree_def)
  moreover have "acknowledged ?es s" if "s \<in> set ?ss" "ps_status s = ''completed''" for s
  proof -
    have "acknowledged es s" using S [OF that(1)] that(2) c by (auto simp: consistent_def)
    moreover have "e \<in> set ?es" if "e \<in> set es" "ob_status e = ''delivered''" for e
    proof -
      from that(2) have "\<not> (ob_privacy_request_id e = Some q \<and> ob_status e \<in> {''pending'', ''processing'', ''manual_dlq''})" by simp
      with that(1) show ?thesis by (force simp: set_update)
    qed
    ultimately show ?thesis unfolding acknowledged_def by blast
  qed
  ultimately show ?thesis by (simp add: consistent_def)
qed

lemma consistent_complete:
  assumes c: "consistent rs ss es"
    and f: "\<And>r. pr_id (f r) = pr_id r" "\<And>r. pr_status (f r) = ''completed''"
    and r: "\<And>r. r \<in> set rs \<Longrightarrow> pr_id r = q \<Longrightarrow> \<not> terminal (pr_status r)"
    and g: "\<And>s. step_ref (g s) = step_ref s" "\<And>s. ps_status (g s) = ''completed'' \<and> ps_receipt (g s) = Some YdbErased"
    and i: "\<And>s. s \<in> set ss \<Longrightarrow> ps_id s = i \<Longrightarrow> ps_request_id s = q \<and> ps_step_type s = ''ydb''"
    and all: "\<And>s. s \<in> set ss \<Longrightarrow> ps_request_id s = q \<Longrightarrow> ps_id s = i \<or> ps_step_type s = ''metric'' \<and> ps_status s = ''completed''"
  shows "consistent (tbl_update (\<lambda>r. pr_id r = q) f rs) (tbl_update (\<lambda>s. ps_id s = i) g ss) es" (is "consistent ?rs ?ss es")
proof -
  have ref: "ps_request_id (g s) = ps_request_id s" "ps_step_type (g s) = ps_step_type s" "ps_id (g s) = ps_id s" for s
    using g(1) [of s] by (simp_all add: step_ref_def)
  have S: "s \<in> set ?ss \<Longrightarrow> (s \<in> set ss \<and> ps_request_id s \<noteq> q) \<or> (ps_request_id s = q \<and> ps_status s = ''completed'')" for s
    by (erule in_updateE) (use all i g(2) ref in auto)
  have R: "r \<in> set ?rs \<Longrightarrow> (r \<in> set rs \<and> pr_id r \<noteq> q) \<or> (pr_id r = q \<and> pr_status r = ''completed'')" for r
    by (erule in_updateE) (use f in auto)
  have fin: "\<not> terminal ''completed''" by (simp add: terminal_def)
  have "steps_agree r s" if "r \<in> set ?rs" "s \<in> set ?ss" for r s
    using R [OF that(1)] S [OF that(2)] c fin by (auto simp: consistent_def steps_agree_def)
  moreover have "events_agree r e" if "r \<in> set ?rs" "e \<in> set es" for r e
  proof -
    from that(1) obtain r0 where r0: "r0 \<in> set rs" "r = (if pr_id r0 = q then f r0 else r0)" by (auto simp: set_update)
    then have "events_agree r0 e" using c that(2) by (simp add: consistent_def)
    with r0 r [OF r0(1)] f fin show ?thesis by (auto simp: events_agree_def)
  qed
  moreover have "acknowledged es s" if "s \<in> set ?ss" "ps_status s = ''completed''" for s
  proof -
    from that(1) obtain s0 where s0: "s0 \<in> set ss" "s = (if ps_id s0 = i then g s0 else s0)" by (auto simp: set_update)
    show ?thesis
    proof (cases "ps_id s0 = i")
      case True
      with s0 i [OF s0(1)] g(2) [of s0] ref [of s0] show ?thesis by (simp add: acknowledged_def)
    next
      case False
      with s0 that(2) c show ?thesis by (simp add: consistent_def)
    qed
  qed
  ultimately show ?thesis by (simp add: consistent_def)
qed

lemma consistent_append:
  assumes c: "consistent rs ss es"
    and rs: "\<And>r. r \<in> set rs' \<Longrightarrow> pr_status r = ''requested'' \<and> pr_id r \<notin> ps_request_id ` set ss \<and> Some (pr_id r) \<notin> ob_privacy_request_id ` set es"
    and ss: "\<And>s. s \<in> set ss' \<Longrightarrow> ps_status s = ''pending'' \<and> ps_request_id s \<notin> pr_id ` set rs"
    and es: "\<And>e. e \<in> set es' \<Longrightarrow> ob_status e = ''pending'' \<and> ob_privacy_request_id e \<notin> Some ` pr_id ` set rs"
  shows "consistent (rs @ rs') (ss @ ss') (es @ es')"
proof -
  have "steps_agree r s" if "r \<in> set (rs @ rs')" "s \<in> set (ss @ ss')" for r s
  proof -
    consider "r \<in> set rs" "s \<in> set ss" | "r \<in> set rs'" "s \<in> set ss'" | "ps_request_id s \<noteq> pr_id r"
    proof -
      have "ps_request_id s \<noteq> pr_id r" if "r \<in> set rs'" "s \<in> set ss" using rs [OF that(1)] that(2) by (metis image_eqI)
      moreover have "ps_request_id s \<noteq> pr_id r" if "r \<in> set rs" "s \<in> set ss'" using ss [OF that(2)] that(1) by auto
      ultimately show thesis using that \<open>r \<in> set (rs @ rs')\<close> \<open>s \<in> set (ss @ ss')\<close> by auto
    qed
    then show ?thesis
    proof cases
      case 2
      then have "pr_status r = ''requested''" "ps_status s = ''pending''" using rs ss by auto
      then show ?thesis by (simp add: steps_agree_def terminal_def)
    qed (use c in \<open>auto simp: consistent_def steps_agree_def\<close>)
  qed
  moreover have "events_agree r e" if "r \<in> set (rs @ rs')" "e \<in> set (es @ es')" for r e
  proof -
    consider "r \<in> set rs" "e \<in> set es" | "r \<in> set rs'" "e \<in> set es'" | "ob_privacy_request_id e \<noteq> Some (pr_id r)"
    proof -
      have "ob_privacy_request_id e \<noteq> Some (pr_id r)" if "r \<in> set rs'" "e \<in> set es" using rs [OF that(1)] that(2) by (metis image_eqI)
      moreover have "ob_privacy_request_id e \<noteq> Some (pr_id r)" if "r \<in> set rs" "e \<in> set es'" using es [OF that(2)] that(1) by auto
      ultimately show thesis using that \<open>r \<in> set (rs @ rs')\<close> \<open>e \<in> set (es @ es')\<close> by auto
    qed
    then show ?thesis
    proof cases
      case 2
      then have "pr_status r = ''requested''" "ob_status e = ''pending''" using rs es by auto
      then show ?thesis by (simp add: events_agree_def terminal_def)
    qed (use c in \<open>auto simp: consistent_def events_agree_def\<close>)
  qed
  moreover have "acknowledged (es @ es') s" if "s \<in> set (ss @ ss')" "ps_status s = ''completed''" for s
  proof -
    from that ss have "s \<in> set ss" by (force)
    with c that(2) have "acknowledged es s" by (simp add: consistent_def)
    then show ?thesis by (auto simp: acknowledged_def)
  qed
  ultimately show ?thesis by (simp add: consistent_def)
qed

section \<open>Preservation by the operations\<close>

lemma links_step: "links R S E \<Longrightarrow> (i, q, t) \<in> S \<Longrightarrow> q \<in> fst ` R"
  by (auto simp: links_def)

lemma links_event: "links R S E \<Longrightarrow> (i, s, Some q) \<in> E \<Longrightarrow> \<exists>j. s = Some j \<and> (j, q, ''metric'') \<in> S"
  by (force simp: links_def)

lemma links_free_event: "links R S E \<Longrightarrow> (i, s, None) \<in> E \<Longrightarrow> s = None"
  by (force simp: links_def)

lemma links_unique: "links R S E \<Longrightarrow> (i, q, ''ydb'') \<in> S \<Longrightarrow> (j, q, ''ydb'') \<in> S \<Longrightarrow> i = j"
  by (simp add: links_def)

lemma links_type: "links R S E \<Longrightarrow> (i, q, t) \<in> S \<Longrightarrow> t = ''metric'' \<or> t = ''ydb''"
  by (auto simp: links_def)

lemma links_more_events: "links R S E \<Longrightarrow> (\<And>i s q. (i, s, q) \<in> E' \<Longrightarrow> q = None \<and> s = None) \<Longrightarrow> links R S (E \<union> E')"
  by (simp add: links_def ball_Un) (simp add: Ball_def)

lemma fst_request_ref: "fst ` request_ref ` set t = pr_id ` set t"
  by (auto simp: request_ref_def image_image)

lemma linked_step_request:
  "links (request_ref ` set rs) (step_ref ` set ss) E \<Longrightarrow> s \<in> set ss \<Longrightarrow> ps_request_id s \<in> pr_id ` set rs"
  using links_step [of "request_ref ` set rs" "step_ref ` set ss" E "ps_id s" "ps_request_id s" "ps_step_type s"]
  by (simp add: fst_request_ref step_ref_def image_iff) blast

lemma linked_event_step:
  assumes "links R (step_ref ` set ss) (event_ref ` set es)" and "e \<in> set es" and "ob_privacy_request_id e = Some q"
  obtains s where "s \<in> set ss" "ob_privacy_step_id e = Some (ps_id s)" "ps_request_id s = q" "ps_step_type s = ''metric''"
proof -
  have "(ob_id e, ob_privacy_step_id e, Some q) \<in> event_ref ` set es" using assms(2,3) by (force simp: event_ref_def)
  from links_event [OF assms(1) this] show thesis by (auto simp: step_ref_def intro: that)
qed

lemma row_refs:
  "step_ref (metric_row fresh now ka) = (fresh (2 * fst ka + 1), fresh 0, ''metric'')"
  "step_ref (erasure_row i q now) = (i, q, ''ydb'')"
  "event_ref (event_row fresh request now ka) = (fresh (2 * fst ka + 2), Some (fresh (2 * fst ka + 1)), Some (fresh 0))"
  by (simp_all add: step_ref_def event_ref_def metric_row_def erasure_row_def event_row_def)

lemma links_create:
  assumes old: "links R S E" and new: "q0 \<notin> fst ` R"
    and S': "\<And>i q t. (i, q, t) \<in> S' \<Longrightarrow> q = q0 \<and> (t = ''metric'' \<or> t = ''ydb'')"
      "\<And>i j. (i, q0, ''ydb'') \<in> S' \<Longrightarrow> (j, q0, ''ydb'') \<in> S' \<Longrightarrow> i = j"
      "t0 = ''deletion'' \<Longrightarrow> \<exists>j. (j, q0, ''ydb'') \<in> S'"
    and E': "\<And>i s q. (i, s, q) \<in> E' \<Longrightarrow> \<exists>j. s = Some j \<and> q = Some q0 \<and> (j, q0, ''metric'') \<in> S'"
  shows "links (insert (q0, kind, subject, t0, scope) R) (S \<union> S') (E \<union> E')"
proof -
  have S: "q \<noteq> q0" if "(i, q, t) \<in> S" for i q t using old new that by (auto simp: links_def)
  show ?thesis
    unfolding links_def
  proof (intro conjI)
    show "\<forall>(i, q, t) \<in> S \<union> S'. q \<in> fst ` insert (q0, kind, subject, t0, scope) R \<and> (t = ''metric'' \<or> t = ''ydb'')"
      using old S'(1) by (fastforce simp: links_def)
    show "\<forall>i j q. (i, q, ''ydb'') \<in> S \<union> S' \<longrightarrow> (j, q, ''ydb'') \<in> S \<union> S' \<longrightarrow> i = j"
    proof (intro allI impI)
      fix i j q assume ij: "(i, q, ''ydb'') \<in> S \<union> S'" "(j, q, ''ydb'') \<in> S \<union> S'"
      show "i = j"
      proof (cases "q = q0")
        case True
        then show ?thesis using ij S S'(2) by blast
      next
        case False
        then have "(i, q, ''ydb'') \<in> S" "(j, q, ''ydb'') \<in> S" using ij S'(1) by blast+
        then show ?thesis using old by (simp add: links_def)
      qed
    qed
    show "\<forall>(i, kind, subject, t, scope) \<in> insert (q0, kind, subject, t0, scope) R. t = ''deletion'' \<longrightarrow> (\<exists>j. (j, i, ''ydb'') \<in> S \<union> S')"
      using old S'(3) by (fastforce simp: links_def)
    show "\<forall>(i, s, q) \<in> E \<union> E'. q = None \<and> s = None \<or> (\<exists>j q'. s = Some j \<and> q = Some q' \<and> (j, q', ''metric'') \<in> S \<union> S')"
    proof (rule ballI, clarify)
      fix i s q assume e: "(i, s, q) \<in> E \<union> E'" and none: "\<nexists>j q'. s = Some j \<and> q = Some q' \<and> (j, q', ''metric'') \<in> S \<union> S'"
      from none E' have "(i, s, q) \<notin> E'" by blast
      with e have "(i, s, q) \<in> E" by simp
      with old none show "q = None \<and> s = None" unfolding links_def by blast
    qed
  qed
qed

lemma jobs_linked_mono: "jobs_linked R S js \<Longrightarrow> R \<subseteq> R' \<Longrightarrow> S \<subseteq> S' \<Longrightarrow> jobs_linked R' S' js"
  unfolding jobs_linked_def by blast

lemma jobs_linked_Un: "jobs_linked R S (A \<union> B) \<longleftrightarrow> jobs_linked R S A \<and> jobs_linked R S B"
  unfolding jobs_linked_def by blast

lemma inv_create:
  assumes inv: "privacy_inv s" and ok: "CreatePrivacyRequest sha256 fresh now request products (sv_db s) = Inr ((status, created), d')"
  shows "privacy_inv (s\<lparr>sv_db := d'\<rparr>)"
proof (cases created)
  case False
  then have "d' = sv_db s" using ok by (auto simp: CreatePrivacyRequest_def split: option.splits if_splits)
  with inv show ?thesis by simp
next
  case True
  let ?d = "sv_db s"
  have keys: "db_keys d'"
    using yieldsD [OF CreatePrivacyRequest_keys ok] inv by (simp add: privacy_inv_def)
  from ok True have ok': "CreatePrivacyRequest sha256 fresh now request products ?d = Inr ((status, True), d')" by simp
  obtain known where fr: "fresh 0 \<notin> pr_id ` set (privacy_requests ?d)"
    and rs: "privacy_requests d' = privacy_requests ?d @ [new_request sha256 (fresh 0) request now]"
    and ss: "privacy_request_steps d' = privacy_request_steps ?d @ (if rq_RequestType request = ''deletion''
       then map (metric_row fresh now) (enumerate 0 known) @ [erasure_row (fresh (2 * length known + 1)) (fresh 0) now] else [])"
    and es: "outbox_events d' = outbox_events ?d @ (if rq_RequestType request = ''deletion'' then map (event_row fresh request now) (enumerate 0 known) else [])"
    using ok' by (rule create_request_effect) blast
  have links: "links (request_ref ` set (privacy_requests ?d)) (step_ref ` set (privacy_request_steps ?d)) (event_ref ` set (outbox_events ?d))"
    using inv by (simp add: privacy_inv_def)
  have old: "fresh 0 \<notin> ps_request_id ` set (privacy_request_steps ?d)" "Some (fresh 0) \<notin> ob_privacy_request_id ` set (outbox_events ?d)"
    using linked_step_request [OF links] linked_event_step [OF links] fr by (metis imageE)+
  have req: "request_ref (new_request sha256 (fresh 0) request now) = (fresh 0, su_Kind (rq_Subject request), su_ID (rq_Subject request),
      rq_RequestType request, rq_Scope request, rq_ProductID request)" by (simp add: request_ref_def new_request_def)
  have new: "step_ref ` set (if rq_RequestType request = ''deletion'' then map (metric_row fresh now) (enumerate 0 known) @
      [erasure_row (fresh (2 * length known + 1)) (fresh 0) now] else []) = (if rq_RequestType request = ''deletion'' then
      insert (fresh (2 * length known + 1), fresh 0, ''ydb'') ((\<lambda>ka. (fresh (2 * fst ka + 1), fresh 0, ''metric'')) ` set (enumerate 0 known)) else {})"
    by (simp only: if_distrib [of set] if_distrib [of "image step_ref"] set_append set_map image_Un image_image row_refs list.set
        image_insert image_empty Un_insert_right Un_empty_right)
  have "links (request_ref ` set (privacy_requests d')) (step_ref ` set (privacy_request_steps d')) (event_ref ` set (outbox_events d'))"
    unfolding rs ss es set_append image_Un list.set image_insert image_empty req Un_insert_right Un_empty_right new
    by (rule links_create [OF links])
       (use fr in \<open>auto simp: fst_request_ref row_refs split: if_splits\<close>, force)
  moreover have "jobs_linked (request_ref ` set (privacy_requests d')) (step_ref ` set (privacy_request_steps d')) (sv_jobs s)"
    using inv by (auto simp: privacy_inv_def rs ss intro: jobs_linked_mono)
  moreover have "consistent (privacy_requests d') (privacy_request_steps d') (outbox_events d')"
    unfolding rs ss es using fr old inv
    by (intro consistent_append) (auto simp: privacy_inv_def new_request_def metric_row_def erasure_row_def event_row_def split: if_splits)
  ultimately show ?thesis using keys by (simp add: privacy_inv_def)
qed

lemma inv_same_refs:
  assumes "privacy_inv s" and "db_keys d'"
    and "request_ref ` set (privacy_requests d') = request_ref ` set (privacy_requests (sv_db s))"
    and "step_ref ` set (privacy_request_steps d') = step_ref ` set (privacy_request_steps (sv_db s))"
    and "event_ref ` set (outbox_events d') = event_ref ` set (outbox_events (sv_db s))"
    and "consistent (privacy_requests d') (privacy_request_steps d') (outbox_events d')"
  shows "privacy_inv (s\<lparr>sv_db := d'\<rparr>)"
  using assms by (simp add: privacy_inv_def)

text \<open>The row effects keep what identifies the row.\<close>

lemma keep_refs [simp]:
  "request_ref (set_request_status p r) = request_ref r" "request_ref (complete_request now r) = request_ref r"
  "step_ref (complete_metric_step q s) = step_ref s" "step_ref (complete_erasure_step now s) = step_ref s"
  "step_ref (lease_step now s) = step_ref s" "step_ref (retry_step x s) = step_ref s"
  "event_ref (lock_event now e) = event_ref e" "event_ref (deliver_event q e) = event_ref e"
  "event_ref (retry_event y e) = event_ref e" "event_ref (reschedule_event now e) = event_ref e"
  by (simp_all add: request_ref_def step_ref_def event_ref_def set_request_status_def complete_request_def complete_metric_step_def
      complete_erasure_step_def lease_step_def retry_step_def lock_event_def deliver_event_def retry_event_def reschedule_event_def
      split: prod.split)

lemma inv_rows:
  assumes "privacy_inv s"
  shows "db_keys (sv_db s)" "uniq pr_id (privacy_requests (sv_db s))" "uniq ps_id (privacy_request_steps (sv_db s))"
    "uniq ob_id (outbox_events (sv_db s))"
    "consistent (privacy_requests (sv_db s)) (privacy_request_steps (sv_db s)) (outbox_events (sv_db s))"
    "links (request_ref ` set (privacy_requests (sv_db s))) (step_ref ` set (privacy_request_steps (sv_db s)))
       (event_ref ` set (outbox_events (sv_db s)))"
  using assms by (auto simp: privacy_inv_def intro: table_uniq)

lemma inv_event_update:
  assumes inv: "privacy_inv s" and keys: "db_keys (outbox_events_update (tbl_update P f) (sv_db s))"
    and f: "\<And>e. event_ref (f e) = event_ref e"
    and live: "\<And>e. e \<in> set (outbox_events (sv_db s)) \<Longrightarrow> P e \<Longrightarrow>
      ob_status e \<noteq> ''cancelled'' \<and> ob_status e \<noteq> ''delivered'' \<and> ob_status (f e) \<noteq> ''cancelled''"
  shows "privacy_inv (s\<lparr>sv_db := outbox_events_update (tbl_update P f) (sv_db s)\<rparr>)"
  using inv_rows(5) [OF inv]
  by (intro inv_same_refs [OF inv keys]) (auto simp: keys_update f intro!: consistent_events live)

lemma inv_claim_outbox:
  assumes inv: "privacy_inv s" and ok: "ClaimOutbox now n (sv_db s) = Inr (es, d')"
  shows "privacy_inv (s\<lparr>sv_db := d'\<rparr>)"
proof -
  note rows = inv_rows [OF inv]
  let ?sel = "due_events now n (sv_db s)" and ?P = "\<lambda>x. ob_id x \<in> ob_id ` set (filter (outbox_queue.ready (sv_db s)) (due_events now n (sv_db s)))"
  from ClaimOutbox_effect [OF ok rows(1)] have d': "d' = outbox_events_update (tbl_update ?P (lock_event now)) (sv_db s)"
    by (simp add: outbox_queue.leased_def)
  have live: "ob_status e = ''pending'' \<or> ob_status e = ''processing''" if "e \<in> set (outbox_events (sv_db s))" "?P e" for e
  proof -
    from that(2) obtain e' where e': "e' \<in> set ?sel" "ob_id e' = ob_id e" by auto
    with due_events_selected(2) [OF rows(1) e'(1)] uniq_mem_tfind [OF rows(4) that(1)] have "event_due now e" by (metis option.inject)
    then show ?thesis unfolding event_due_def by blast
  qed
  have "db_keys d'" using outbox_queue.leased_keys [OF rows(1)] by (simp add: d' outbox_queue.leased_def)
  then show ?thesis
    unfolding d'
  proof (rule inv_event_update [OF inv])
    fix e assume "e \<in> set (outbox_events (sv_db s))" "?P e"
    from live [OF this] show "ob_status e \<noteq> ''cancelled'' \<and> ob_status e \<noteq> ''delivered'' \<and> ob_status (lock_event now e) \<noteq> ''cancelled''"
      by (auto simp: lock_event_def)
  qed simp
qed

lemma inv_claimed_event:
  assumes inv: "privacy_inv s" and e: "tfind ob_id i (outbox_events (sv_db s)) = Some e" "ob_status e = ''processing''"
    and f: "\<And>e. event_ref (f e) = event_ref e" "ob_status (f e) \<noteq> ''cancelled''"
  shows "privacy_inv (s\<lparr>sv_db := outbox_events_update (tbl_update (\<lambda>x. ob_id x = i) f) (sv_db s)\<rparr>)"
proof (rule inv_event_update [OF inv _ f(1)])
  show "db_keys (outbox_events_update (tbl_update (\<lambda>x. ob_id x = i) f) (sv_db s))"
    using tb_outbox_events.update_keys [OF inv_rows(1) [OF inv]] f(1) by (simp add: update_rows_def event_ref_def)
  fix x assume "x \<in> set (outbox_events (sv_db s))" "ob_id x = i"
  with e(1) have "x = e" using uniq_mem_tfind [OF inv_rows(4) [OF inv]] by fastforce
  with e(2) f(2) show "ob_status x \<noteq> ''cancelled'' \<and> ob_status x \<noteq> ''delivered'' \<and> ob_status (f x) \<noteq> ''cancelled''" by simp
qed

lemma outbox_cas:
  assumes "privacy_inv s"
    and "\<And>e. ob_id (f e) = ob_id e" "\<And>e. ob_version (f e) = ob_version e + 1"
  shows "cas_row outbox_events outbox_events_update ob_id ob_version i v (\<lambda>_. True) f (sv_db s) = Inr d' \<longleftrightarrow>
    (\<exists>e. tfind ob_id i (outbox_events (sv_db s)) = Some e \<and> ob_version e = v \<and>
       d' = outbox_events_update (tbl_update (\<lambda>x. ob_id x = i) f) (sv_db s))"
  using cas_row_Inr [of ob_id outbox_events "sv_db s" f ob_version outbox_events_update i v "\<lambda>_. True"] inv_rows(4) [OF assms(1)] assms(2,3)
  unfolding outbox_queue.put_const [symmetric, of "tbl_update (\<lambda>x. ob_id x = i) f" "sv_db s"] by simp

lemma inv_retry:
  assumes inv: "privacy_inv s" and ok: "RetryOutbox now i message delay maxAttempts (sv_db s) = Inr d'"
  shows "privacy_inv (s\<lparr>sv_db := d'\<rparr>)"
  using ok by (auto simp: RetryOutbox_def updateClaimedOutbox_def Let_def outbox_cas [OF inv] split: if_splits
      intro!: inv_claimed_event [OF inv]) (auto simp: retry_event_def)

lemma inv_reschedule:
  assumes inv: "privacy_inv s" and ok: "RescheduleOutbox now i delay (sv_db s) = Inr d'"
  shows "privacy_inv (s\<lparr>sv_db := d'\<rparr>)"
  using ok by (auto simp: RescheduleOutbox_def updateClaimedOutbox_def outbox_cas [OF inv] split: if_splits
      intro!: inv_claimed_event [OF inv]) (auto simp: reschedule_event_def)

lemma step_cas:
  assumes "privacy_inv s"
    and "\<And>x. ps_id (f x) = ps_id x" "\<And>x. ps_version (f x) = ps_version x + 1"
  shows "cas_row privacy_request_steps privacy_request_steps_update ps_id ps_version i v (\<lambda>_. True) f (sv_db s) = Inr d' \<longleftrightarrow>
    (\<exists>x. tfind ps_id i (privacy_request_steps (sv_db s)) = Some x \<and> ps_version x = v \<and>
       d' = privacy_request_steps_update (tbl_update (\<lambda>x. ps_id x = i) f) (sv_db s))"
  using cas_row_Inr [of ps_id privacy_request_steps "sv_db s" f ps_version privacy_request_steps_update i v "\<lambda>_. True"]
    inv_rows(3) [OF assms(1)] assms(2,3)
  unfolding erasure_queue.put_const [symmetric, of "tbl_update (\<lambda>x. ps_id x = i) f" "sv_db s"] by simp

lemma inv_step_update:
  assumes inv: "privacy_inv s" and f: "\<And>x. step_ref (f x) = step_ref x"
    and live: "\<And>x. x \<in> set (privacy_request_steps (sv_db s)) \<Longrightarrow> P x \<Longrightarrow>
      ps_status x \<noteq> ''cancelled'' \<and> ps_status (f x) \<noteq> ''cancelled'' \<and> (ps_status x = ''completed'' \<longrightarrow> ps_status (f x) = ''completed'') \<and>
      (ps_status (f x) = ''completed'' \<longrightarrow> ps_step_type x = ''metric'' \<and> acknowledged (outbox_events (sv_db s)) (f x))"
  shows "privacy_inv (s\<lparr>sv_db := privacy_request_steps_update (tbl_update P f) (sv_db s)\<rparr>)"
proof (rule inv_same_refs [OF inv])
  show "db_keys (privacy_request_steps_update (tbl_update P f) (sv_db s))"
    using tb_privacy_request_steps.update_keys [OF inv_rows(1) [OF inv]] f by (simp add: update_rows_def step_ref_def)
  show "consistent (privacy_requests (privacy_request_steps_update (tbl_update P f) (sv_db s)))
     (privacy_request_steps (privacy_request_steps_update (tbl_update P f) (sv_db s)))
     (outbox_events (privacy_request_steps_update (tbl_update P f) (sv_db s)))"
    using consistent_steps [OF inv_rows(5) [OF inv] f live] by simp
qed (simp_all add: keys_update f)

text \<open>The step of an event that is still being delivered is not cancelled.\<close>

lemma claimed_event_step:
  assumes inv: "privacy_inv s" and e: "e \<in> set (outbox_events (sv_db s))" "ob_status e \<noteq> ''cancelled''" "ob_privacy_step_id e = Some i"
    and x: "x \<in> set (privacy_request_steps (sv_db s))" "ps_id x = i"
  shows "ps_step_type x = ''metric'' \<and> ps_status x \<noteq> ''cancelled''"
proof -
  note rows = inv_rows [OF inv]
  have "ob_privacy_request_id e \<noteq> None"
  proof
    assume "ob_privacy_request_id e = None"
    then have "(ob_id e, ob_privacy_step_id e, None) \<in> event_ref ` set (outbox_events (sv_db s))" using e(1) by (force simp: event_ref_def)
    from links_free_event [OF rows(6) this] e(3) show False by simp
  qed
  then obtain q where q: "ob_privacy_request_id e = Some q" by blast
  from rows(6) e(1) q obtain y where y: "y \<in> set (privacy_request_steps (sv_db s))" "ob_privacy_step_id e = Some (ps_id y)"
    "ps_request_id y = q" "ps_step_type y = ''metric''" by (rule linked_event_step)
  have "y = x" using y(1,2) e(3) x uniq_inj [OF rows(3)] by simp
  moreover from linked_step_request [OF rows(6) y(1)] obtain r where r: "r \<in> set (privacy_requests (sv_db s))" "pr_id r = q" using y(3) by auto
  moreover have "events_agree r e" "steps_agree r y" using rows(5) r(1) e(1) y(1) by (auto simp: consistent_def)
  ultimately show ?thesis using y q e(2) by (simp add: events_agree_def steps_agree_def)
qed

lemma inv_mark:
  assumes inv: "privacy_inv s" and ok: "MarkOutboxDelivered now i receipt (sv_db s) = Inr d'"
  shows "privacy_inv (s\<lparr>sv_db := d'\<rparr>)"
proof -
  let ?d1 = "outbox_events_update (tbl_update (\<lambda>x. ob_id x = i) (deliver_event (receipt, now))) (sv_db s)"
  let ?s1 = "s\<lparr>sv_db := ?d1\<rparr>"
  from ok obtain e where rec: "receipt = DeliveryReceipt i ''completed''" and e: "tfind ob_id i (outbox_events (sv_db s)) = Some e"
    "ob_status e = ''processing''"
    and rest: "(case ob_privacy_step_id e of None \<Rightarrow> Inr ?d1 | Some stepID \<Rightarrow>
        rbind (some_or ErrNotFound (tfind ps_id stepID (privacy_request_steps ?d1))) (\<lambda>x.
        if ps_status x = ''completed'' then Inr ?d1
        else cas_row privacy_request_steps privacy_request_steps_update ps_id ps_version stepID (ps_version x)
               (\<lambda>_. True) (complete_metric_step (receipt, now)) ?d1)) = Inr d'"
    by (auto simp: MarkOutboxDelivered_def outbox_cas [OF inv] split: if_splits)
  have inv1: "privacy_inv ?s1" by (rule inv_claimed_event [OF inv e]) (simp, simp add: deliver_event_def)
  show ?thesis
  proof (cases "d' = ?d1")
    case True
    with inv1 show ?thesis by simp
  next
    case False
    with rest obtain stepID x where step: "ob_privacy_step_id e = Some stepID" "tfind ps_id stepID (privacy_request_steps ?d1) = Some x"
      and cas: "cas_row privacy_request_steps privacy_request_steps_update ps_id ps_version stepID (ps_version x)
               (\<lambda>_. True) (complete_metric_step (receipt, now)) ?d1 = Inr d'"
      by (auto split: option.splits if_splits)
    have d': "d' = privacy_request_steps_update (tbl_update (\<lambda>x. ps_id x = stepID) (complete_metric_step (receipt, now))) (sv_db ?s1)"
      using cas step_cas [OF inv1, of "complete_metric_step (receipt, now)"] by auto
    have "privacy_inv (?s1\<lparr>sv_db := d'\<rparr>)"
      unfolding d'
    proof (rule inv_step_update [OF inv1])
      fix y assume y: "y \<in> set (privacy_request_steps (sv_db ?s1))" "ps_id y = stepID"
      have mem: "e \<in> set (outbox_events (sv_db s))" using e(1) by (rule tfind_mem)
      have m: "ps_step_type y = ''metric'' \<and> ps_status y \<noteq> ''cancelled''"
        using claimed_event_step [OF inv mem _ step(1)] e(2) y by simp
      have "deliver_event (receipt, now) e \<in> set (outbox_events ?d1)" using mem tfind_Some [OF e(1)] by (auto simp: set_update)
      then have "acknowledged (outbox_events (sv_db ?s1)) (complete_metric_step (receipt, now) y)"
        using m y(2) step(1) tfind_Some [OF e(1)] unfolding acknowledged_def
        by (intro conjI impI bexI [of _ "deliver_event (receipt, now) e"]) (auto simp: complete_metric_step_def deliver_event_def rec)
      then show "ps_status y \<noteq> ''cancelled'' \<and> ps_status (complete_metric_step (receipt, now) y) \<noteq> ''cancelled'' \<and>
          (ps_status y = ''completed'' \<longrightarrow> ps_status (complete_metric_step (receipt, now) y) = ''completed'') \<and>
          (ps_status (complete_metric_step (receipt, now) y) = ''completed'' \<longrightarrow> ps_step_type y = ''metric'' \<and>
             acknowledged (outbox_events (sv_db ?s1)) (complete_metric_step (receipt, now) y))"
        using m by (simp add: complete_metric_step_def)
    qed simp
    then show ?thesis by simp
  qed
qed

lemma UpdateStatus_effect:
  assumes ok: "UpdatePrivacyRequestStatus auditID now update d = Inr d'" and u: "uniq pr_id (privacy_requests d)"
  shows "\<exists>r audit. tfind pr_id (us_ID update) (privacy_requests d) = Some r \<and> us_Status update \<noteq> ''completed'' \<and>
    ValidPrivacyTransition (pr_status r) (us_Status update) \<and>
    (terminal (us_Status update) \<longrightarrow> \<not> privacyDeliveryStarted d (us_ID update)) \<and>
    d' = (let d1 = d\<lparr>privacy_requests := tbl_update (\<lambda>x. pr_id x = us_ID update) (set_request_status (us_Status update, now)) (privacy_requests d)\<rparr>
      in (if terminal (us_Status update) then cancelPrivacyChildren (us_ID update) now d1 else d1)\<lparr>privacy_request_status_audit := audit\<rparr>)"
proof -
  from ok obtain r where r: "us_Status update \<noteq> ''completed''" "tfind pr_id (us_ID update) (privacy_requests d) = Some r"
      "ValidPrivacyTransition (pr_status r) (us_Status update)" "\<not> (terminal (us_Status update) \<and> privacyDeliveryStarted d (us_ID update))"
    and rest: "rbind (cas_row privacy_requests privacy_requests_update pr_id pr_version (us_ID update) (pr_version r)
       (\<lambda>_. True) (set_request_status (us_Status update, now)) d) (\<lambda>d1.
       insert_status_audit auditID (us_ID update) (us_Status update) (us_Actor update) (us_AuditNote update) now
         (if terminal (us_Status update) then cancelPrivacyChildren (us_ID update) now d1 else d1)) = Inr d'"
    unfolding UpdatePrivacyRequestStatus_def Let_def terminal_def [symmetric] by (simp split: if_split_asm)
  from rest obtain d1 where d1: "d1 = d\<lparr>privacy_requests := tbl_update (\<lambda>x. pr_id x = us_ID update) (set_request_status (us_Status update, now)) (privacy_requests d)\<rparr>"
    and ins: "insert_status_audit auditID (us_ID update) (us_Status update) (us_Actor update) (us_AuditNote update) now
         (if terminal (us_Status update) then cancelPrivacyChildren (us_ID update) now d1 else d1) = Inr d'"
    using u by (auto simp: cas_row_Inr)
  from ins obtain audit where "d' = (if terminal (us_Status update) then cancelPrivacyChildren (us_ID update) now d1 else d1)
      \<lparr>privacy_request_status_audit := audit\<rparr>"
    unfolding insert_status_audit_def insert_row_Inr by blast
  with r d1 show ?thesis by auto
qed

lemma inv_status:
  assumes inv: "privacy_inv s" and ok: "UpdatePrivacyRequestStatus auditID now update (sv_db s) = Inr d'"
  shows "privacy_inv (s\<lparr>sv_db := d'\<rparr>)"
proof -
  note rows = inv_rows [OF inv]
  let ?q = "us_ID update" and ?t = "us_Status update" and ?f = "set_request_status (us_Status update, now)"
  let ?d1 = "(sv_db s)\<lparr>privacy_requests := tbl_update (\<lambda>x. pr_id x = us_ID update) ?f (privacy_requests (sv_db s))\<rparr>"
  have keys: "db_keys d'" using yieldsD [OF UpdatePrivacyRequestStatus_keys ok] rows(1) by blast
  from UpdateStatus_effect [OF ok rows(2), unfolded Let_def] obtain r audit where r: "tfind pr_id ?q (privacy_requests (sv_db s)) = Some r"
    and t: "?t \<noteq> ''completed''" "ValidPrivacyTransition (pr_status r) ?t" and quiet: "terminal ?t \<longrightarrow> \<not> privacyDeliveryStarted (sv_db s) ?q"
    and frame: "d' = (if terminal ?t then cancelPrivacyChildren ?q now ?d1 else ?d1)\<lparr>privacy_request_status_audit := audit\<rparr>" by blast
  show ?thesis
  proof (cases "terminal ?t")
    case False
    have "consistent (tbl_update (\<lambda>x. pr_id x = ?q) ?f (privacy_requests (sv_db s))) (privacy_request_steps (sv_db s)) (outbox_events (sv_db s))"
    proof (rule consistent_status [OF rows(5)])
      fix x assume "x \<in> set (privacy_requests (sv_db s))" "pr_id x = ?q"
      then have "x = r" using uniq_mem_tfind [OF rows(2)] r by fastforce
      then show "request_open (pr_status x) \<and> request_open (pr_status (?f x))"
        using t False by (auto simp: ValidPrivacyTransition_def request_open_def set_request_status_def terminal_def split: if_splits)
    qed (simp add: set_request_status_def)
    with False show ?thesis by (intro inv_same_refs [OF inv keys]) (simp_all add: frame keys_update)
  next
    case True
    with quiet have quiet: "\<not> privacyDeliveryStarted (sv_db s) ?q" by simp
    define g where "g = (\<lambda>x :: privacy_step. x\<lparr>ps_status := ''cancelled'', ps_lease_until := None, ps_updated_at := trunc_us now, ps_version := ps_version x + 1\<rparr>)"
    define h where "h = (\<lambda>e :: outbox_event. e\<lparr>ob_status := ''cancelled'', ob_locked_at := None, ob_last_error := None, ob_version := ob_version e + 1\<rparr>)"
    have d': "privacy_requests d' = tbl_update (\<lambda>x. pr_id x = ?q) ?f (privacy_requests (sv_db s))"
      "privacy_request_steps d' = tbl_update (\<lambda>x. ps_request_id x = ?q \<and> ps_status x \<noteq> ''completed'') g (privacy_request_steps (sv_db s))"
      "outbox_events d' = tbl_update (\<lambda>e. ob_privacy_request_id e = Some ?q \<and> ob_status e \<in> {''pending'', ''processing'', ''manual_dlq''}) h (outbox_events (sv_db s))"
      using True by (simp_all add: frame cancelPrivacyChildren_def update_rows_def g_def h_def)
    have gh: "step_ref (g x) = step_ref x" "ps_status (g x) = ''cancelled''" "event_ref (h e) = event_ref e" "ob_status (h e) = ''cancelled''" for x e
      by (simp_all add: g_def h_def step_ref_def event_ref_def)
    have "consistent (privacy_requests d') (privacy_request_steps d') (outbox_events d')"
      unfolding d' using quiet True
      by (intro consistent_cancel [OF rows(5)]) (auto simp: gh set_request_status_def privacyDeliveryStarted_def list_ex_iff)
    then show ?thesis by (intro inv_same_refs [OF inv keys]) (simp_all add: d' keys_update gh)
  qed
qed

lemma inv_claim_erasures:
  assumes inv: "privacy_inv s" and ok: "ClaimPrivacyErasures now n (sv_db s) = Inr (js, d')"
  shows "privacy_inv (s\<lparr>sv_db := d', sv_jobs := sv_jobs s \<union> set js\<rparr>)"
proof -
  note rows = inv_rows [OF inv]
  let ?sel = "due_steps now n (sv_db s)" and ?P = "\<lambda>x. ps_id x \<in> ps_id ` set (filter (erasure_queue.ready (sv_db s)) (due_steps now n (sv_db s)))"
  from ClaimPrivacyErasures_effect [OF ok rows(1)] have d': "d' = privacy_request_steps_update (tbl_update ?P (lease_step now)) (sv_db s)"
    and js: "js = erasure_queue.handed (sv_db s) ?sel"
    by (simp_all add: erasure_queue.leased_def)
  have live: "step_due now x" if "x \<in> set (privacy_request_steps (sv_db s))" "?P x" for x
  proof -
    from that(2) obtain y where y: "y \<in> set ?sel" "ps_id y = ps_id x" by auto
    with due_steps_selected(2) [OF rows(1) y(1)] uniq_mem_tfind [OF rows(3) that(1)] show ?thesis by (metis option.inject)
  qed
  have inv': "privacy_inv (s\<lparr>sv_db := d'\<rparr>)"
    unfolding d'
  proof (rule inv_step_update [OF inv])
    fix x assume "x \<in> set (privacy_request_steps (sv_db s))" "?P x"
    from live [OF this] show "ps_status x \<noteq> ''cancelled'' \<and> ps_status (lease_step now x) \<noteq> ''cancelled'' \<and>
      (ps_status x = ''completed'' \<longrightarrow> ps_status (lease_step now x) = ''completed'') \<and>
      (ps_status (lease_step now x) = ''completed'' \<longrightarrow> ps_step_type x = ''metric'' \<and> acknowledged (outbox_events (sv_db s)) (lease_step now x))"
      by (auto simp: step_due_def lease_step_def)
  qed simp
  have "jobs_linked (request_ref ` set (privacy_requests (sv_db s))) (step_ref ` set (privacy_request_steps (sv_db s))) (set js)"
    unfolding jobs_linked_def
  proof
    fix j assume "j \<in> set js"
    then obtain x where x: "x \<in> set ?sel" "inspect_step (sv_db s) x = Inr (Some j)" by (auto simp: js erasure_queue.set_handed)
    from x(2) obtain r where r: "tfind pr_id (ps_request_id x) (privacy_requests (sv_db s)) = Some r" and j: "j = job_of r x"
      by (auto simp: inspect_step_def split: if_splits)
    have "x \<in> set (privacy_request_steps (sv_db s))" "ps_step_type x = ''ydb''"
      using due_steps_selected(2) [OF rows(1) x(1)] by (auto simp: step_due_def dest: tfind_mem)
    then have "(ej_StepID j, ej_RequestID j, ''ydb'') \<in> step_ref ` set (privacy_request_steps (sv_db s))"
      using imageI [of x _ step_ref] by (simp add: j job_of_def step_ref_def Let_def)
    moreover have "(ej_RequestID j, pr_subject_type r, pr_subject_id r, pr_request_type r, ej_Scope j, ej_ProductID j)
        \<in> request_ref ` set (privacy_requests (sv_db s))"
      using tfind_Some [OF r] imageI [of r _ request_ref] by (simp add: j job_of_def request_ref_def Let_def)
    ultimately show "(ej_StepID j, ej_RequestID j, ''ydb'') \<in> step_ref ` set (privacy_request_steps (sv_db s)) \<and>
       (\<exists>kind subject t. (ej_RequestID j, kind, subject, t, ej_Scope j, ej_ProductID j) \<in> request_ref ` set (privacy_requests (sv_db s)) \<and>
          ej_PersonID j = (if kind = ''person'' then Some subject else None) \<and>
          ej_InstallationID j = (if kind = ''person'' then None else Some subject))"
      by (intro conjI exI) (auto simp: j job_of_def Let_def)
  qed
  then have "jobs_linked (request_ref ` set (privacy_requests d')) (step_ref ` set (privacy_request_steps d')) (set js)"
    by (simp add: d' keys_update)
  with inv' show ?thesis by (simp add: privacy_inv_def jobs_linked_Un)
qed

lemma inv_retry_erasure:
  assumes inv: "privacy_inv s" and ok: "RetryPrivacyErasure now job delay maxAttempts (sv_db s) = Inr d'"
  shows "privacy_inv (s\<lparr>sv_db := d'\<rparr>)"
proof -
  define status where "status x = (if word_of_int maxAttempts \<le> ps_attempts x then ''manual_dlq'' else ''retry'')" for x :: privacy_step
  from ok obtain x where x: "tfind ps_id (ej_StepID job) (privacy_request_steps (sv_db s)) = Some x" "ps_status x = ''processing''"
    and d': "d' = privacy_request_steps_update (tbl_update (\<lambda>y. ps_id y = ej_StepID job) (retry_step (status x, now + delay, now))) (sv_db s)"
    by (auto simp: RetryPrivacyErasure_def Let_def step_cas [OF inv] status_def split: if_split_asm)
  show ?thesis
    unfolding d'
  proof (rule inv_step_update [OF inv])
    fix y assume y: "y \<in> set (privacy_request_steps (sv_db s))" "ps_id y = ej_StepID job"
    then have "y = x" using uniq_mem_tfind [OF inv_rows(3) [OF inv]] x(1) by (metis option.inject)
    then show "ps_status y \<noteq> ''cancelled'' \<and> ps_status (retry_step (status x, now + delay, now) y) \<noteq> ''cancelled'' \<and>
      (ps_status y = ''completed'' \<longrightarrow> ps_status (retry_step (status x, now + delay, now) y) = ''completed'') \<and>
      (ps_status (retry_step (status x, now + delay, now) y) = ''completed'' \<longrightarrow> ps_step_type y = ''metric'' \<and>
         acknowledged (outbox_events (sv_db s)) (retry_step (status x, now + delay, now) y))"
      using x(2) by (simp add: retry_step_def status_def)
  qed simp
qed

text \<open>The erasure step of a request is the one that its job names.\<close>

lemma job_step:
  assumes inv: "privacy_inv s" and job: "job \<in> sv_jobs s" and x: "x \<in> set (privacy_request_steps (sv_db s))"
  shows "ps_id x = ej_StepID job \<Longrightarrow> ps_request_id x = ej_RequestID job \<and> ps_step_type x = ''ydb''"
    and "ps_request_id x = ej_RequestID job \<Longrightarrow> ps_step_type x = ''ydb'' \<Longrightarrow> ps_id x = ej_StepID job"
    and "ps_step_type x = ''metric'' \<or> ps_step_type x = ''ydb''"
proof -
  note rows = inv_rows [OF inv]
  let ?S = "step_ref ` set (privacy_request_steps (sv_db s))"
  have j: "(ej_StepID job, ej_RequestID job, ''ydb'') \<in> ?S" using inv job by (auto simp: privacy_inv_def jobs_linked_def)
  have ref: "(ps_id x, ps_request_id x, ps_step_type x) \<in> ?S" using imageI [OF x, of step_ref] by (simp add: step_ref_def)
  from j obtain y where y: "y \<in> set (privacy_request_steps (sv_db s))" "ps_id y = ej_StepID job" "ps_request_id y = ej_RequestID job"
    "ps_step_type y = ''ydb''" by (auto simp: step_ref_def)
  show "ps_id x = ej_StepID job \<Longrightarrow> ps_request_id x = ej_RequestID job \<and> ps_step_type x = ''ydb''"
    using uniq_inj [OF rows(3) x y(1)] y by simp
  show "ps_request_id x = ej_RequestID job \<Longrightarrow> ps_step_type x = ''ydb'' \<Longrightarrow> ps_id x = ej_StepID job"
    using links_unique [OF rows(6)] ref j by metis
  show "ps_step_type x = ''metric'' \<or> ps_step_type x = ''ydb''"
    using links_type [OF rows(6)] ref by blast
qed

lemma ErasePrivacyJob_keys: "db_keys d \<Longrightarrow> yields (ErasePrivacyJob a now job d) db_keys"
  by (auto simp: ErasePrivacyJob_def intro!: keys_intro erase_subject_frame [THEN conjunct1])

lemma inv_erase:
  assumes inv: "privacy_inv s" and job: "job \<in> sv_jobs s" and ok: "ErasePrivacyJob auditID now job (sv_db s) = Inr d'"
  shows "privacy_inv (s\<lparr>sv_db := d'\<rparr>)"
proof -
  note rows = inv_rows [OF inv]
  have keys: "db_keys d'" using yieldsD [OF ErasePrivacyJob_keys ok] rows(1) by blast
  from ok rows(1) obtain r x where r: "tfind pr_id (ej_RequestID job) (privacy_requests (sv_db s)) = Some r" "request_open (pr_status r)"
    and m: "metricStepsComplete (sv_db s) (ej_RequestID job)"
    and d': "d' = (erase_subject job now (sv_db s))\<lparr>
       privacy_request_steps := tbl_update (\<lambda>x. ps_id x = ej_StepID job) (complete_erasure_step now) (privacy_request_steps (sv_db s)),
       privacy_requests := tbl_update (\<lambda>x. pr_id x = ej_RequestID job) (complete_request now) (privacy_requests (sv_db s)),
       privacy_request_status_audit := privacy_request_status_audit d'\<rparr>"
    by (rule ErasePrivacyJob_effect) blast
  have frame: "privacy_requests d' = tbl_update (\<lambda>x. pr_id x = ej_RequestID job) (complete_request now) (privacy_requests (sv_db s))"
    "privacy_request_steps d' = tbl_update (\<lambda>x. ps_id x = ej_StepID job) (complete_erasure_step now) (privacy_request_steps (sv_db s))"
    "outbox_events d' = outbox_events (sv_db s)"
    using erase_subject_frame [OF rows(1), of job now] by (subst d', simp)+
  have "consistent (privacy_requests d') (privacy_request_steps d') (outbox_events d')"
    unfolding frame
  proof (rule consistent_complete [OF rows(5)])
    fix r' assume "r' \<in> set (privacy_requests (sv_db s))" "pr_id r' = ej_RequestID job"
    then have "r' = r" using uniq_mem_tfind [OF rows(2)] r(1) by (metis option.inject)
    then show "\<not> terminal (pr_status r')" using r(2) by (auto simp: request_open_def terminal_def)
  next
    fix x assume x: "x \<in> set (privacy_request_steps (sv_db s))"
    show "ps_id x = ej_StepID job \<Longrightarrow> ps_request_id x = ej_RequestID job \<and> ps_step_type x = ''ydb''"
      by (rule job_step(1) [OF inv job x])
    show "ps_request_id x = ej_RequestID job \<Longrightarrow> ps_id x = ej_StepID job \<or> ps_step_type x = ''metric'' \<and> ps_status x = ''completed''"
      using job_step(2,3) [OF inv job x] m x by (auto simp: metricStepsComplete_def list_all_iff)
  qed (simp_all add: complete_request_def complete_erasure_step_def step_ref_def)
  then show ?thesis by (intro inv_same_refs [OF inv keys]) (simp_all add: frame keys_update)
qed

lemma inv_foreign:
  assumes inv: "privacy_inv s" and ok: "foreign_write (sv_db s) d'"
  shows "privacy_inv (s\<lparr>sv_db := d'\<rparr>)"
proof -
  note rows = inv_rows [OF inv]
  from ok obtain es where f: "db_keys d'" "privacy_requests d' = privacy_requests (sv_db s)" "privacy_request_steps d' = privacy_request_steps (sv_db s)"
    "outbox_events d' = outbox_events (sv_db s) @ es"
    and es: "\<And>e. e \<in> set es \<Longrightarrow> ob_privacy_request_id e = None \<and> ob_privacy_step_id e = None \<and> ob_status e = ''pending''"
    unfolding foreign_write_def by blast
  have "consistent (privacy_requests d') (privacy_request_steps d') (outbox_events d')"
    using consistent_append [OF rows(5), of "[]" "[]" es] es by (auto simp: f)
  moreover have "links (request_ref ` set (privacy_requests d')) (step_ref ` set (privacy_request_steps d')) (event_ref ` set (outbox_events d'))"
    using links_more_events [OF rows(6), of "event_ref ` set es"] es by (force simp: f image_Un event_ref_def)
  ultimately show ?thesis using inv f by (simp add: privacy_inv_def)
qed

lemma empty_inv: "privacy_inv \<lparr>sv_db = empty_db, sv_jobs = {}\<rparr>"
  by (simp add: privacy_inv_def links_def jobs_linked_def consistent_def db_keys_def empty_db_def)

lemma op_inv: "privacy_op s s' \<Longrightarrow> privacy_inv s \<Longrightarrow> privacy_inv s'"
proof (induction rule: privacy_op.induct)
  case (create sha256 fresh now request products s res d')
  then show ?case by (cases res) (auto intro: inv_create)
qed (auto intro: inv_status inv_claim_outbox inv_mark inv_retry inv_reschedule inv_claim_erasures inv_erase inv_retry_erasure inv_foreign)

lemma reachable_inv: "reachable s \<Longrightarrow> privacy_inv s"
  by (induction rule: reachable.induct) (auto intro: empty_inv op_inv)

section \<open>The specification of request statuses\<close>

text \<open>What the service promises of the status of a request, without steps, events and workers.\<close>

inductive status_spec :: "(string \<rightharpoonup> string) \<Rightarrow> (string \<rightharpoonup> string) \<Rightarrow> bool" where
  register: "m q = None \<Longrightarrow> status_spec m (m(q \<mapsto> ''requested''))"
| decide: "m q = Some a \<Longrightarrow> ValidPrivacyTransition a b \<Longrightarrow> b \<noteq> ''completed'' \<Longrightarrow> status_spec m (m(q \<mapsto> b))"
| finish: "m q = Some a \<Longrightarrow> request_open a \<Longrightarrow> status_spec m (m(q \<mapsto> ''completed''))"

definition request_status :: "db \<Rightarrow> string \<rightharpoonup> string" where
  "request_status d q = map_option pr_status (tfind pr_id q (privacy_requests d))"

lemma request_status_update:
  assumes "tfind pr_id q (privacy_requests d) = Some r" and "\<And>r. pr_id (f r) = pr_id r"
    and "privacy_requests d' = tbl_update (\<lambda>x. pr_id x = q) f (privacy_requests d)"
  shows "request_status d' = (request_status d)(q \<mapsto> pr_status (f r))"
proof
  fix k
  show "request_status d' k = ((request_status d)(q \<mapsto> pr_status (f r))) k"
    using assms by (cases "tfind pr_id k (privacy_requests d)") (auto simp: request_status_def tfind_update dest: tfind_Some)
qed

lemma same_requests:
  "ClaimOutbox now n d = Inr (es, d') \<Longrightarrow> db_keys d \<Longrightarrow> privacy_requests d' = privacy_requests d"
  "ClaimPrivacyErasures now n d = Inr (js, d') \<Longrightarrow> db_keys d \<Longrightarrow> privacy_requests d' = privacy_requests d"
  "MarkOutboxDelivered now i receipt d = Inr d' \<Longrightarrow> privacy_requests d' = privacy_requests d"
  "RetryOutbox now i message delay maxAttempts d = Inr d' \<Longrightarrow> privacy_requests d' = privacy_requests d"
  "RescheduleOutbox now i delay d = Inr d' \<Longrightarrow> privacy_requests d' = privacy_requests d"
  "RetryPrivacyErasure now job delay maxAttempts d = Inr d' \<Longrightarrow> privacy_requests d' = privacy_requests d"
proof -
  have step_cas: "yields (cas_row privacy_request_steps privacy_request_steps_update key ver k v P f e) (\<lambda>e'. privacy_requests e' = privacy_requests e)"
    for key :: "privacy_step \<Rightarrow> 'k" and ver k v P f e by (auto simp: yields_def cas_row_def)
  have event_cas: "yields (cas_row outbox_events outbox_events_update key ver k v P f e) (\<lambda>e'. privacy_requests e' = privacy_requests e)"
    for key :: "outbox_event \<Rightarrow> 'k" and ver k v P f e by (auto simp: yields_def cas_row_def)
  show "ClaimOutbox now n d = Inr (es, d') \<Longrightarrow> db_keys d \<Longrightarrow> privacy_requests d' = privacy_requests d"
    by (drule (1) ClaimOutbox_effect) (simp add: outbox_queue.leased_def)
  show "ClaimPrivacyErasures now n d = Inr (js, d') \<Longrightarrow> db_keys d \<Longrightarrow> privacy_requests d' = privacy_requests d"
    by (drule (1) ClaimPrivacyErasures_effect) (simp add: erasure_queue.leased_def)
  have "yields (MarkOutboxDelivered now i receipt d) (\<lambda>e. privacy_requests e = privacy_requests d)"
    by (auto simp: MarkOutboxDelivered_def intro!: yields_weaken [OF event_cas] yields_weaken [OF step_cas] split: option.split)
  then show "MarkOutboxDelivered now i receipt d = Inr d' \<Longrightarrow> privacy_requests d' = privacy_requests d" by (rule yieldsD)
  have "yields (RetryOutbox now i message delay maxAttempts d) (\<lambda>e. privacy_requests e = privacy_requests d)"
    by (simp add: RetryOutbox_def updateClaimedOutbox_def Let_def event_cas)
  then show "RetryOutbox now i message delay maxAttempts d = Inr d' \<Longrightarrow> privacy_requests d' = privacy_requests d" by (rule yieldsD)
  have "yields (RescheduleOutbox now i delay d) (\<lambda>e. privacy_requests e = privacy_requests d)"
    by (simp add: RescheduleOutbox_def updateClaimedOutbox_def event_cas)
  then show "RescheduleOutbox now i delay d = Inr d' \<Longrightarrow> privacy_requests d' = privacy_requests d" by (rule yieldsD)
  have "yields (RetryPrivacyErasure now job delay maxAttempts d) (\<lambda>e. privacy_requests e = privacy_requests d)"
    by (simp add: RetryPrivacyErasure_def Let_def step_cas)
  then show "RetryPrivacyErasure now job delay maxAttempts d = Inr d' \<Longrightarrow> privacy_requests d' = privacy_requests d" by (rule yieldsD)
qed

text \<open>The three transactions that change a status.\<close>

lemma create_refines:
  assumes ok: "CreatePrivacyRequest sha256 fresh now request products d = Inr (res, d')"
  shows "request_status d' = request_status d \<or> status_spec (request_status d) (request_status d')"
proof (cases "snd res")
  case False
  then have "d' = d" using ok by (cases res) (auto simp: CreatePrivacyRequest_def split: option.splits if_splits)
  then show ?thesis by simp
next
  case True
  with ok have "CreatePrivacyRequest sha256 fresh now request products d = Inr ((fst res, True), d')" by (cases res) simp
  then show ?thesis
  proof (rule create_request_effect)
    assume fr: "fresh 0 \<notin> pr_id ` set (privacy_requests d)"
      and rs: "privacy_requests d' = privacy_requests d @ [new_request sha256 (fresh 0) request now]"
    have "request_status d' = (request_status d)(fresh 0 \<mapsto> ''requested'')"
      using fr by (auto simp: request_status_def rs tfind_append tfind_fresh new_request_def fun_eq_iff split: option.split)
    moreover have "request_status d (fresh 0) = None" using fr by (simp add: request_status_def tfind_fresh)
    ultimately show ?thesis using status_spec.register by simp
  qed
qed

lemma status_refines:
  assumes ok: "UpdatePrivacyRequestStatus auditID now update d = Inr d'" and u: "uniq pr_id (privacy_requests d)"
  shows "status_spec (request_status d) (request_status d')"
proof -
  let ?f = "set_request_status (us_Status update, now)"
  from UpdateStatus_effect [OF assms, unfolded Let_def] obtain r audit where
    r: "tfind pr_id (us_ID update) (privacy_requests d) = Some r" "us_Status update \<noteq> ''completed''"
      "ValidPrivacyTransition (pr_status r) (us_Status update)"
    and d': "d' = (if terminal (us_Status update) then cancelPrivacyChildren (us_ID update) now
        (d\<lparr>privacy_requests := tbl_update (\<lambda>x. pr_id x = us_ID update) ?f (privacy_requests d)\<rparr>)
      else d\<lparr>privacy_requests := tbl_update (\<lambda>x. pr_id x = us_ID update) ?f (privacy_requests d)\<rparr>)\<lparr>privacy_request_status_audit := audit\<rparr>"
    by blast
  have "request_status d' = (request_status d)(us_ID update \<mapsto> us_Status update)"
    using request_status_update [OF r(1), of ?f d']
    by (simp add: d' cancelPrivacyChildren_def update_rows_def) (simp add: set_request_status_def)
  then show ?thesis using r status_spec.decide [of "request_status d" "us_ID update"] by (simp add: request_status_def)
qed

lemma erase_refines:
  assumes ok: "ErasePrivacyJob auditID now job d = Inr d'" and keys: "db_keys d"
  shows "status_spec (request_status d) (request_status d')"
  using assms
proof (rule ErasePrivacyJob_effect)
  fix r x assume r: "tfind pr_id (ej_RequestID job) (privacy_requests d) = Some r" "request_open (pr_status r)"
    and d': "d' = (erase_subject job now d)\<lparr>
     privacy_request_steps := tbl_update (\<lambda>x. ps_id x = ej_StepID job) (complete_erasure_step now) (privacy_request_steps d),
     privacy_requests := tbl_update (\<lambda>x. pr_id x = ej_RequestID job) (complete_request now) (privacy_requests d),
     privacy_request_status_audit := privacy_request_status_audit d'\<rparr>"
  have "privacy_requests d' = tbl_update (\<lambda>x. pr_id x = ej_RequestID job) (complete_request now) (privacy_requests d)" by (subst d') simp
  from request_status_update [OF r(1) _ this] have "request_status d' = (request_status d)(ej_RequestID job \<mapsto> ''completed'')"
    by (simp add: complete_request_def)
  then show ?thesis using r status_spec.finish [of "request_status d" "ej_RequestID job" "pr_status r"] by (simp add: request_status_def)
qed

section \<open>Properties\<close>

text \<open>
  C1: no premature completion. In every state that any interleaving of requests,
  operators and workers can reach: a completed request has only completed steps,
  each Metric step has an event that was delivered with the consumer's completed
  receipt for that very event, and a completed deletion has exactly one erasure step,
  with the receipt of the store; a rejected or cancelled request has only cancelled
  steps and events, so nothing of it is delivered or erased any more.
\<close>

theorem no_premature_completion:
  assumes "reachable s" and "r \<in> set (privacy_requests (sv_db s))"
  shows "(pr_status r = ''completed'' \<longrightarrow>
      (\<forall>x \<in> set (privacy_request_steps (sv_db s)). ps_request_id x = pr_id r \<longrightarrow> ps_status x = ''completed'' \<and>
        (ps_step_type x = ''metric'' \<longrightarrow> (\<exists>e \<in> set (outbox_events (sv_db s)). ob_privacy_step_id e = Some (ps_id x) \<and>
           ob_status e = ''delivered'' \<and> ob_delivery_receipt e = Some (DeliveryReceipt (ob_id e) ''completed'')))) \<and>
      (pr_request_type r = ''deletion'' \<longrightarrow> (\<exists>!x. x \<in> set (privacy_request_steps (sv_db s)) \<and> ps_request_id x = pr_id r \<and>
         ps_step_type x = ''ydb'' \<and> ps_receipt x = Some YdbErased))) \<and>
    (pr_status r = ''rejected'' \<or> pr_status r = ''cancelled'' \<longrightarrow>
      (\<forall>x \<in> set (privacy_request_steps (sv_db s)). ps_request_id x = pr_id r \<longrightarrow> ps_status x = ''cancelled'') \<and>
      (\<forall>e \<in> set (outbox_events (sv_db s)). ob_privacy_request_id e = Some (pr_id r) \<longrightarrow> ob_status e = ''cancelled''))"
proof -
  note rows = inv_rows [OF reachable_inv [OF assms(1)]]
  have agree: "steps_agree r x" "ps_status x = ''completed'' \<longrightarrow> acknowledged (outbox_events (sv_db s)) x"
    if "x \<in> set (privacy_request_steps (sv_db s))" for x
    using rows(5) assms(2) that by (auto simp: consistent_def)
  have one: "\<exists>!x. x \<in> set (privacy_request_steps (sv_db s)) \<and> ps_request_id x = pr_id r \<and> ps_step_type x = ''ydb'' \<and> ps_receipt x = Some YdbErased"
    if fin: "pr_status r = ''completed''" and del: "pr_request_type r = ''deletion''"
  proof -
    have "request_ref r \<in> request_ref ` set (privacy_requests (sv_db s))" using assms(2) by simp
    then have "\<exists>j. (j, pr_id r, ''ydb'') \<in> step_ref ` set (privacy_request_steps (sv_db s))"
      using rows(6) del unfolding links_def request_ref_def by fastforce
    then obtain x where x: "x \<in> set (privacy_request_steps (sv_db s))" "ps_request_id x = pr_id r" "ps_step_type x = ''ydb''"
      by (auto simp: step_ref_def)
    then have "ps_receipt x = Some YdbErased" using agree [OF x(1)] fin by (simp add: steps_agree_def acknowledged_def)
    moreover have "y = x" if "y \<in> set (privacy_request_steps (sv_db s))" "ps_request_id y = pr_id r" "ps_step_type y = ''ydb''" for y
    proof -
      have "step_ref z \<in> step_ref ` set (privacy_request_steps (sv_db s))" if "z \<in> set (privacy_request_steps (sv_db s))" for z using that by simp
      then have "ps_id y = ps_id x" using links_unique [OF rows(6)] x that by (metis step_ref_def)
      then show ?thesis using uniq_inj [OF rows(3) that(1) x(1)] by simp
    qed
    ultimately show ?thesis using x by blast
  qed
  have events: "\<forall>e \<in> set (outbox_events (sv_db s)). events_agree r e" using rows(5) assms(2) by (simp add: consistent_def)
  have fin: "\<forall>x \<in> set (privacy_request_steps (sv_db s)). ps_request_id x = pr_id r \<longrightarrow> ps_status x = ''completed'' \<and>
        (ps_step_type x = ''metric'' \<longrightarrow> (\<exists>e \<in> set (outbox_events (sv_db s)). ob_privacy_step_id e = Some (ps_id x) \<and>
           ob_status e = ''delivered'' \<and> ob_delivery_receipt e = Some (DeliveryReceipt (ob_id e) ''completed'')))"
    if "pr_status r = ''completed''" using agree that by (auto simp: steps_agree_def acknowledged_def)
  have closed: "(\<forall>x \<in> set (privacy_request_steps (sv_db s)). ps_request_id x = pr_id r \<longrightarrow> ps_status x = ''cancelled'') \<and>
      (\<forall>e \<in> set (outbox_events (sv_db s)). ob_privacy_request_id e = Some (pr_id r) \<longrightarrow> ob_status e = ''cancelled'')"
    if "pr_status r = ''rejected'' \<or> pr_status r = ''cancelled''"
    using agree(1) events that by (simp add: steps_agree_def events_agree_def terminal_def)
  show ?thesis using one fin closed by blast
qed

text \<open>
  C2: the workflow refines the specification of request statuses. Every transaction
  that any reachable state can make leaves all statuses as they are or makes one step
  of the specification: a new request is registered, an operator's decision follows
  the transition table of the domain and never completes a request, and only an open
  request is completed, by its erasure.
\<close>

theorem workflow_refines_status_spec:
  assumes "reachable s" and "privacy_op s s'"
  shows "request_status (sv_db s') = request_status (sv_db s) \<or> status_spec (request_status (sv_db s)) (request_status (sv_db s'))"
  using assms(2)
proof cases
  case (create sha256 fresh now request products res d')
  then show ?thesis using create_refines by simp
next
  case (status auditID now update d')
  then show ?thesis using status_refines [OF status(2)] inv_rows(2) [OF reachable_inv [OF assms(1)]] by simp
next
  case (erase job auditID now d')
  then show ?thesis using erase_refines [OF erase(3)] inv_rows(1) [OF reachable_inv [OF assms(1)]] by simp
next
  case (foreign d')
  then show ?thesis by (simp add: request_status_def foreign_write_def fun_eq_iff)
qed (use same_requests inv_rows(1) [OF reachable_inv [OF assms(1)]] in \<open>auto simp: request_status_def fun_eq_iff\<close>)

section \<open>Witnesses\<close>

text \<open>A deletion of one installation, from its creation to its completion.\<close>

definition run_alias :: ResolvedAlias where
  "run_alias = \<lparr>ra_OpaqueKey = ''k'', ra_SubjectType = ''installation'', ra_SubjectID = sample_uuid, ra_PersonID = '''',
     ra_ProductID = ''pict'', ra_Audience = ''aud''\<rparr>"

definition run_request :: privacy_request where
  "run_request = new_request id [] sample_privacy_request 0"

definition run_step :: privacy_step where "run_step = metric_row sample_ids 0 (0, run_alias)"
definition run_erasure :: privacy_step where "run_erasure = erasure_row ''xxx'' [] 0"
definition run_event :: outbox_event where "run_event = event_row sample_ids sample_privacy_request 0 (0, run_alias)"

definition run_db :: "privacy_step list \<Rightarrow> outbox_event list \<Rightarrow> db" where
  "run_db ss es = sample_db\<lparr>privacy_requests := [run_request], privacy_idempotencies := [\<lparr>pi_workload = ''w'', pi_idempotency_key = ''i'',
     pi_request_id = [], pi_request_fingerprint = request_fingerprint id sample_privacy_request\<rparr>],
     privacy_request_steps := ss, outbox_events := es\<rparr>"

lemmas run_defs = run_alias_def run_request_def run_step_def run_erasure_def run_event_def run_db_def metric_row_def erasure_row_def
  event_row_def new_request_def sample_privacy_request_def sample_ids_def

lemma run_ids [simp]: "replicate 2 CHR ''x'' = ''xx''"
  by (simp add: eval_nat_numeral)

lemma run_created:
  "\<exists>st. CreatePrivacyRequest id sample_ids 0 sample_privacy_request (Map.empty(''pict'' \<mapsto> ''aud'')) sample_db =
     Inr ((st, True), run_db [run_step, run_erasure] [run_event])"
  by (simp add: CreatePrivacyRequest_def run_defs product_text_def sample_defs validateSubjectWith_def deletion_aliases_def
      insert_request_def insert_row_eval fan_out_def alias_known_def add_metric_step_def Let_def insertPrivacyStep_def insertOutbox_def)

lemma run_claimed: "\<exists>es. ClaimOutbox second 20 (run_db [run_step, run_erasure] [run_event]) =
    Inr (es, run_db [run_step, run_erasure] [lock_event second run_event])"
  by (simp add: ClaimOutbox_def due_events_def run_defs event_due_def trunc_us_def duration_defs claim_event_def event_open_def
      getPrivacyRequestWith_def request_open_def cas_row_def cas_update_def tbl_update_def lock_event_def event_of_row_def)

lemma run_marked: "MarkOutboxDelivered second ''xx'' (DeliveryReceipt ''xx'' ''completed'') (run_db [run_step, run_erasure] [lock_event second run_event]) =
    Inr (run_db [complete_metric_step (DeliveryReceipt ''xx'' ''completed'', second) run_step, run_erasure]
      [deliver_event (DeliveryReceipt ''xx'' ''completed'', second) (lock_event second run_event)])"
  by (simp add: MarkOutboxDelivered_def run_defs lock_event_def deliver_event_def complete_metric_step_def cas_row_def cas_update_def tbl_update_def
      sample_defs)

lemma run_erasure_claimed:
  "ClaimPrivacyErasures second 10 (run_db [complete_metric_step p run_step, run_erasure] es) =
     Inr ([job_of run_request run_erasure], run_db [complete_metric_step p run_step, lease_step second run_erasure] es)"
  by (simp add: ClaimPrivacyErasures_def due_steps_def run_defs step_due_def trunc_us_def duration_defs claim_step_def job_of_def
      request_open_def metricStepsComplete_def cas_row_def cas_update_def tbl_update_def lease_step_def complete_metric_step_def Let_def sample_defs)

lemma run_erased:
  "uniq ob_id es \<Longrightarrow> \<exists>d'. ErasePrivacyJob ''a'' second (job_of run_request run_erasure)
     (run_db [complete_metric_step p run_step, lease_step second run_erasure] es) = Inr d' \<and>
     (\<exists>r \<in> set (privacy_requests d'). pr_status r = ''completed'')"
proof -
  let ?d = "run_db [complete_metric_step p run_step, lease_step second run_erasure] es" and ?j = "job_of run_request run_erasure"
  assume "uniq ob_id es"
  then have keys: "db_keys ?d" by (simp add: db_keys_def run_defs sample_defs complete_metric_step_def lease_step_def)
  have "\<exists>d'. ErasePrivacyJob ''a'' second ?j ?d = Inr d'"
    by (rule ErasePrivacyJob_succeeds [OF keys, where r = run_request and s = "lease_step second run_erasure"])
       (simp_all add: run_defs sample_defs job_of_def Let_def complete_metric_step_def lease_step_def request_open_def metricStepsComplete_def)
  then obtain d' where ok: "ErasePrivacyJob ''a'' second ?j ?d = Inr d'" by blast
  then have "privacy_requests d' = [complete_request second run_request]"
    using keys
  proof (rule ErasePrivacyJob_effect)
    assume d': "d' = (erase_subject ?j second ?d)\<lparr>
       privacy_request_steps := tbl_update (\<lambda>x. ps_id x = ej_StepID ?j) (complete_erasure_step second) (privacy_request_steps ?d),
       privacy_requests := tbl_update (\<lambda>x. pr_id x = ej_RequestID ?j) (complete_request second) (privacy_requests ?d),
       privacy_request_status_audit := privacy_request_status_audit d'\<rparr>"
    show ?thesis by (subst d') (simp add: run_defs job_of_def Let_def tbl_update_def)
  qed
  with ok show ?thesis by (auto simp: complete_request_def)
qed

lemma run_start: "reachable \<lparr>sv_db = sample_db, sv_jobs = {}\<rparr>"
  using reachable.step [OF reachable.start privacy_op.foreign [of "\<lparr>sv_db = empty_db, sv_jobs = {}\<rparr>" sample_db]] sample_db_keys
  by (simp add: foreign_write_def) (simp add: sample_defs)

lemma run_reachable: "reachable \<lparr>sv_db = run_db [run_step, run_erasure] [run_event], sv_jobs = {}\<rparr>"
  using run_created reachable.step [OF run_start privacy_op.create] by fastforce

lemma run_completes: "\<exists>s. reachable s \<and> (\<exists>r \<in> set (privacy_requests (sv_db s)). pr_status r = ''completed'')"
proof -
  let ?p = "(DeliveryReceipt ''xx'' ''completed'', second)"
  let ?es = "[deliver_event ?p (lock_event second run_event)]"
  have 1: "reachable \<lparr>sv_db = run_db [run_step, run_erasure] [lock_event second run_event], sv_jobs = {}\<rparr>"
    using run_claimed reachable.step [OF run_reachable privacy_op.claim_outbox] by fastforce
  have 2: "reachable \<lparr>sv_db = run_db [complete_metric_step ?p run_step, run_erasure] ?es, sv_jobs = {}\<rparr>"
    using reachable.step [OF 1 privacy_op.mark] run_marked by fastforce
  have 3: "reachable \<lparr>sv_db = run_db [complete_metric_step ?p run_step, lease_step second run_erasure] ?es,
      sv_jobs = {job_of run_request run_erasure}\<rparr>"
    using reachable.step [OF 2 privacy_op.claim_erasures] run_erasure_claimed by fastforce
  from run_erased [of ?es ?p] obtain d' where ok: "ErasePrivacyJob ''a'' second (job_of run_request run_erasure)
      (run_db [complete_metric_step ?p run_step, lease_step second run_erasure] ?es) = Inr d'"
    and fin: "\<exists>r \<in> set (privacy_requests d'). pr_status r = ''completed''" by auto
  have "reachable \<lparr>sv_db = d', sv_jobs = {job_of run_request run_erasure}\<rparr>"
    using reachable.step [OF 3 privacy_op.erase] ok by fastforce
  with fin show ?thesis by (metis service.select_convs(1))
qed

theorem no_premature_completion_witness:
  "\<exists>s. reachable s \<and> (\<exists>r \<in> set (privacy_requests (sv_db s)). pr_status r = ''completed'' \<and>
     (\<forall>x \<in> set (privacy_request_steps (sv_db s)). ps_request_id x = pr_id r \<longrightarrow> ps_status x = ''completed''))"
proof -
  from run_completes obtain s r where s: "reachable s" and r: "r \<in> set (privacy_requests (sv_db s))" "pr_status r = ''completed''" by blast
  from no_premature_completion [OF s r(1)] s r show ?thesis by blast
qed

theorem workflow_refines_status_spec_witness:
  "\<exists>s. privacy_op \<lparr>sv_db = sample_db, sv_jobs = {}\<rparr> s \<and> request_status (sv_db s) [] = Some ''requested'' \<and>
     status_spec (request_status sample_db) (request_status (sv_db s))"
proof -
  let ?s = "\<lparr>sv_db = run_db [run_step, run_erasure] [run_event], sv_jobs = {}\<rparr>"
  have op: "privacy_op \<lparr>sv_db = sample_db, sv_jobs = {}\<rparr> ?s"
    using run_created privacy_op.create [of _ _ _ _ _ "\<lparr>sv_db = sample_db, sv_jobs = {}\<rparr>"] by fastforce
  have now: "request_status (sv_db ?s) [] = Some ''requested''" by (simp add: request_status_def run_defs)
  have before: "request_status sample_db [] = None" by (simp add: request_status_def sample_defs)
  from workflow_refines_status_spec [OF run_start op] now before
  have "status_spec (request_status sample_db) (request_status (sv_db ?s))" by (metis option.distinct(1) service.select_convs(1))
  with op now show ?thesis by blast
qed

end
