(* ===== verification/Erasure_Queue.thy ===== *)
theory Erasure_Queue
  imports Privacy_Machine
begin

text \<open>
  The queue of erasure steps under contention: a lease is exclusive while it lasts,
  but a worker whose lease is gone can still take the lease of its successor away,
  and steps that wait for receipts stay at the head of the queue.
\<close>

section \<open>Claims\<close>

lemma ready_step:
  assumes "inspect_step d x = Inr (Some j)"
  obtains r where "tfind pr_id (ps_request_id x) (privacy_requests d) = Some r" "request_open (pr_status r)"
    "metricStepsComplete d (ps_request_id x)" "j = job_of r x"
  using assms by (auto simp: inspect_step_def split: if_split_asm)

lemma job_of_simps [simp]:
  "ej_StepID (job_of r x) = ps_id x" "ej_RequestID (job_of r x) = ps_request_id x" "ej_Version (job_of r x) = ps_version x + 1"
  by (simp_all add: job_of_def Let_def)

lemma claimed_step:
  assumes keys: "db_keys d" and first: "ClaimPrivacyErasures now n d = Inr (js, d')" and j: "j \<in> set js"
  shows "\<exists>x \<in> set (due_steps now n d). inspect_step d x = Inr (Some j) \<and> ej_StepID j = ps_id x"
proof -
  from ClaimPrivacyErasures_effect [OF first keys] j obtain x where x: "x \<in> set (due_steps now n d)" "inspect_step d x = Inr (Some j)"
    by (auto simp: erasure_queue.set_handed)
  from x(2) have "ej_StepID j = ps_id x" by (rule ready_step) simp
  with x show ?thesis by blast
qed

lemma metricStepsComplete_leased:
  assumes keys: "db_keys d"
  shows "metricStepsComplete (erasure_queue.leased now d (due_steps now n d)) q = metricStepsComplete d q"
  unfolding erasure_queue.leased_def
proof (rule metricStepsComplete_lease)
  fix y assume y: "y \<in> set (privacy_request_steps d)" "ps_id y \<in> ps_id ` set (filter (erasure_queue.ready d) (due_steps now n d))"
  then obtain z where z: "z \<in> set (due_steps now n d)" "ps_id z = ps_id y" by auto
  with due_steps_selected(2) [OF keys z(1)] uniq_mem_tfind [OF tb_privacy_request_steps.keys_get [OF keys] y(1)]
  have "step_due now y" by (metis option.inject)
  then show "ps_step_type y = ''ydb''" by (simp add: step_due_def)
qed

text \<open>A job that has just been claimed can be executed.\<close>

lemma claimed_job:
  assumes keys: "db_keys d" and first: "ClaimPrivacyErasures now n d = Inr (js, d')" and j: "j \<in> set js"
  shows "metricStepsComplete d (ej_RequestID j) \<and>
    (\<exists>r. tfind pr_id (ej_RequestID j) (privacy_requests d) = Some r \<and> request_open (pr_status r)) \<and>
    (auditID \<notin> pa_id ` set (privacy_request_status_audit d') \<longrightarrow> (\<exists>d''. ErasePrivacyJob auditID later j d' = Inr d''))"
proof -
  have d': "d' = erasure_queue.leased now d (due_steps now n d)" using ClaimPrivacyErasures_effect [OF first keys] by simp
  have keys': "db_keys d'" unfolding d' by (rule erasure_queue.leased_keys [OF keys])
  from claimed_step [OF assms] obtain x where x: "x \<in> set (due_steps now n d)" "inspect_step d x = Inr (Some j)" by blast
  from x(2) obtain r where r: "tfind pr_id (ps_request_id x) (privacy_requests d) = Some r" "request_open (pr_status r)"
    "metricStepsComplete d (ps_request_id x)" "j = job_of r x" by (rule ready_step)
  have "tfind ps_id (ps_id x) (privacy_request_steps d') = Some (lease_step now x)"
    using due_steps_selected(2) [OF keys x(1)] x by (auto simp: d' erasure_queue.get_leased tfind_update erasure_queue.ready_def)
  moreover have "privacy_requests d' = privacy_requests d" by (simp add: d' erasure_queue.leased_def)
  ultimately show ?thesis
    using r ErasePrivacyJob_succeeds [OF keys', of j r "lease_step now x" auditID later] metricStepsComplete_leased [OF keys]
    by (auto simp: lease_step_def d')
qed

section \<open>Properties\<close>

text \<open>
  C14: a claim of erasures is exclusive and hands out only what may run. Every job
  of a claim belongs to an open request all of whose Metric steps are completed and
  holds the leased version of its step, so that the job can be executed at once; and
  no claim within the next five minutes hands out a step whose lease is still held.
\<close>

theorem erasure_claim_exclusive:
  assumes keys: "db_keys d" and first: "ClaimPrivacyErasures now n d = Inr (js, d')"
  shows "(\<forall>j \<in> set js. metricStepsComplete d (ej_RequestID j) \<and>
      (\<exists>r. tfind pr_id (ej_RequestID j) (privacy_requests d) = Some r \<and> request_open (pr_status r)) \<and>
      (auditID \<notin> pa_id ` set (privacy_request_status_audit d') \<longrightarrow> (\<exists>d''. ErasePrivacyJob auditID later j d' = Inr d''))) \<and>
    (now' \<le> now + 5 * minute \<longrightarrow> ClaimPrivacyErasures now' n' d' = Inr (js', d'') \<longrightarrow> ej_StepID ` set js \<inter> ej_StepID ` set js' = {})"
proof -
  have "ej_StepID ` set js \<inter> ej_StepID ` set js' = {}"
    if soon: "now' \<le> now + 5 * minute" and again: "ClaimPrivacyErasures now' n' d' = Inr (js', d'')"
  proof (rule ccontr)
    assume "ej_StepID ` set js \<inter> ej_StepID ` set js' \<noteq> {}"
    then obtain j j' where j: "j \<in> set js" "j' \<in> set js'" "ej_StepID j = ej_StepID j'" by auto
    have d': "d' = erasure_queue.leased now d (due_steps now n d)" using ClaimPrivacyErasures_effect [OF first keys] by simp
    have keys': "db_keys d'" unfolding d' by (rule erasure_queue.leased_keys [OF keys])
    from claimed_step [OF keys' again j(2)] obtain x' where x': "x' \<in> set (due_steps now' n' d')" "ej_StepID j' = ps_id x'" by blast
    from due_steps_selected(2) [OF keys' x'(1)] have "step_due now' x'" "x' \<in> set (privacy_request_steps d')" by (auto dest: tfind_mem)
    moreover have "trunc_us now' \<le> trunc_us (now + 5 * minute)" using soon by (rule trunc_us_mono)
    then have "\<not> step_due now' (lease_step now y)" for y by (simp add: step_due_def lease_step_def)
    ultimately have "ps_id x' \<notin> ps_id ` set (filter (erasure_queue.ready d) (due_steps now n d))"
      unfolding d' by (intro erasure_queue.leased_not_due [where due' = "step_due now'"])
    with claimed_step [OF keys first j(1)] j(3) x'(2) show False by (auto simp: erasure_queue.ready_def)
  qed
  with claimed_job [OF keys first] show ?thesis by blast
qed

text \<open>
  A stale worker evicts its successor. The erasure of a worker whose lease has
  passed to another worker is refused, but the retry that the worker then schedules
  succeeds although it carries the old version: it takes the step from its current
  holder, whose erasure is refused in turn.
\<close>

theorem stale_retry_evicts:
  assumes keys: "db_keys d"
    and step: "tfind ps_id (ej_StepID stale) (privacy_request_steps d) = Some x" "ps_status x = ''processing''"
    and request: "tfind pr_id (ej_RequestID stale) (privacy_requests d) = Some r" "request_open (pr_status r)"
    and versions: "ej_Version stale \<noteq> ps_version x" "ej_StepID current = ej_StepID stale" "ej_RequestID current = ej_RequestID stale"
  shows "ErasePrivacyJob auditID now stale d = Inl ErrConflict \<and>
    (\<exists>d'. RetryPrivacyErasure now stale delay maxAttempts d = Inr d' \<and> ErasePrivacyJob auditID' now' current d' = Inl ErrConflict)"
proof -
  have u: "uniq ps_id (privacy_request_steps d)" using keys by (rule tb_privacy_request_steps.keys_get)
  define upd where "upd = retry_step (if word_of_int maxAttempts \<le> ps_attempts x then ''manual_dlq'' else ''retry'', now + delay, now)"
  have ok: "RetryPrivacyErasure now stale delay maxAttempts d =
      Inr (d\<lparr>privacy_request_steps := tbl_update (\<lambda>y. ps_id y = ej_StepID stale) upd (privacy_request_steps d)\<rparr>)" (is "_ = Inr ?d'")
    using step u by (simp add: RetryPrivacyErasure_def Let_def upd_def cas_row_ok)
  have "tfind ps_id (ej_StepID stale) (privacy_request_steps ?d') = Some (upd x)"
    using step(1) tfind_Some [OF step(1)] by (simp add: tfind_update upd_def)
  moreover have "ps_status (upd x) \<noteq> ''processing''" by (simp add: upd_def retry_step_def)
  ultimately have "ErasePrivacyJob auditID' now' current ?d' = Inl ErrConflict"
    using request versions by (simp add: ErasePrivacyJob_def)
  moreover have "ErasePrivacyJob auditID now stale d = Inl ErrConflict"
    using step request versions by (simp add: ErasePrivacyJob_def)
  ultimately show ?thesis using ok by blast
qed

text \<open>
  Steps that wait for receipts starve the steps behind them. When the oldest due
  steps, as many as a claim takes, all wait for a Metric receipt, the claim hands out
  nothing and leaves the queue as it is, whatever is ready behind them.
\<close>

theorem blocked_steps_starve_queue:
  assumes "\<And>x. x \<in> set (due_steps now limit d) \<Longrightarrow> ps_request_id x \<in> pr_id ` set (privacy_requests d) \<and> \<not> metricStepsComplete d (ps_request_id x)"
  shows "ClaimPrivacyErasures now limit d = Inr ([], d)"
proof -
  have "for_each (claim_step now) xs ([], d) = Inr ([], d)"
    if "\<forall>x \<in> set xs. ps_request_id x \<in> pr_id ` set (privacy_requests d) \<and> \<not> metricStepsComplete d (ps_request_id x)" for xs
    using that
  proof (induction xs)
    case (Cons x xs)
    then have "tfind pr_id (ps_request_id x) (privacy_requests d) \<noteq> None" by (simp add: tfind_None)
    then obtain r where "tfind pr_id (ps_request_id x) (privacy_requests d) = Some r" by blast
    with Cons show ?case by (simp add: claim_step_def)
  qed simp
  with assms show ?thesis by (simp add: ClaimPrivacyErasures_def)
qed

section \<open>Witnesses\<close>

definition queue_step :: "string \<Rightarrow> string \<Rightarrow> string \<Rightarrow> time \<Rightarrow> privacy_step" where
  "queue_step i request kind created = (sample_step i request ''pending'')\<lparr>ps_step_type := kind, ps_attempts := 0, ps_lease_until := None,
     ps_created_at := created, ps_version := 1\<rparr>"

definition queue_db :: "privacy_step list \<Rightarrow> db" where
  "queue_db xs = empty_db\<lparr>privacy_requests := [(sample_request ''all'' None), (sample_request ''all'' None)\<lparr>pr_id := ''q''\<rparr>],
     privacy_request_steps := xs\<rparr>"

lemmas queue_defs = queue_db_def queue_step_def sample_request_def sample_step_def

lemma claimed_queue:
  "\<exists>j d'. ClaimPrivacyErasures second 10 (queue_db [queue_step ''s'' ''r'' ''ydb'' 0]) = Inr ([j], d') \<and> ej_StepID j = ''s''"
  by (simp add: ClaimPrivacyErasures_def due_steps_def queue_defs step_due_def trunc_us_def duration_defs claim_step_def
      request_open_def metricStepsComplete_def cas_row_def cas_update_def lease_step_def Let_def)

theorem erasure_claim_exclusive_witness:
  "\<exists>j d'. ClaimPrivacyErasures second 10 (queue_db [queue_step ''s'' ''r'' ''ydb'' 0]) = Inr ([j], d') \<and> ej_StepID j = ''s'' \<and>
     (\<forall>n js' d''. ClaimPrivacyErasures (2 * second) n d' = Inr (js', d'') \<longrightarrow> ''s'' \<notin> ej_StepID ` set js')"
proof -
  from claimed_queue obtain j d' where
    ok: "ClaimPrivacyErasures second 10 (queue_db [queue_step ''s'' ''r'' ''ydb'' 0]) = Inr ([j], d')" "ej_StepID j = ''s''" by blast
  have keys: "db_keys (queue_db [queue_step ''s'' ''r'' ''ydb'' 0])" by (simp add: queue_defs db_keys_def empty_db_def)
  have "2 * second \<le> second + 5 * minute" by (simp add: duration_defs)
  with erasure_claim_exclusive [OF keys ok(1), THEN conjunct2] ok show ?thesis by fastforce
qed

theorem stale_retry_evicts_witness:
  "\<exists>d'. RetryPrivacyErasure second ((sample_job ''all'' None)\<lparr>ej_Version := 1\<rparr>) second 10 (erasure_db ''all'' None) = Inr d' \<and>
     ErasePrivacyJob ''a'' second (sample_job ''all'' None) d' = Inl ErrConflict"
proof -
  have "ErasePrivacyJob ''a'' second ((sample_job ''all'' None)\<lparr>ej_Version := 1\<rparr>) (erasure_db ''all'' None) = Inl ErrConflict \<and>
    (\<exists>d'. RetryPrivacyErasure second ((sample_job ''all'' None)\<lparr>ej_Version := 1\<rparr>) second 10 (erasure_db ''all'' None) = Inr d' \<and>
       ErasePrivacyJob ''a'' second (sample_job ''all'' None) d' = Inl ErrConflict)"
    by (rule stale_retry_evicts [OF erasure_db_keys, where x = "sample_step ''s'' ''r'' ''processing''" and r = "sample_request ''all'' None"])
       (simp_all add: erasure_db_def sample_job_def sample_step_def sample_request_def request_open_def)
  then show ?thesis by blast
qed

theorem blocked_steps_starve_queue_witness:
  "let d = queue_db [queue_step ''m'' ''q'' ''metric'' 0, queue_step ''t'' ''q'' ''ydb'' 0, queue_step ''s'' ''r'' ''ydb'' 1] in
   ClaimPrivacyErasures second 1 d = Inr ([], d) \<and> (\<exists>j. inspect_step d (queue_step ''s'' ''r'' ''ydb'' 1) = Inr (Some j))"
proof -
  let ?d = "queue_db [queue_step ''m'' ''q'' ''metric'' 0, queue_step ''t'' ''q'' ''ydb'' 0, queue_step ''s'' ''r'' ''ydb'' 1]"
  have "due_steps second 1 ?d = [queue_step ''t'' ''q'' ''ydb'' 0]"
    by (simp add: due_steps_def queue_defs step_due_def trunc_us_def duration_defs)
  then have "ClaimPrivacyErasures second 1 ?d = Inr ([], ?d)"
    by (intro blocked_steps_starve_queue) (auto simp: metricStepsComplete_def queue_defs)
  moreover have "\<exists>j. inspect_step ?d (queue_step ''s'' ''r'' ''ydb'' 1) = Inr (Some j)"
    by (simp add: inspect_step_def queue_defs request_open_def metricStepsComplete_def)
  ultimately show ?thesis by (simp add: Let_def)
qed

end
