(* ===== verification/Organization_Store.thy ===== *)
theory Organization_Store
  imports Subject_Store
begin

text \<open>
  Organisations (\<^verbatim>\<open>internal/store/organizations.go\<close>): submissions of free-text names,
  their review, canonical organisations, memberships, and the merge of one
  organisation into another, which moves everything that refers to the source.
\<close>

section \<open>Model\<close>

record OrganizationSubmission =
  sb_ID :: string
  sb_PersonID :: "string option"
  sb_InstallationID :: "string option"
  sb_ProductID :: string
  sb_SubmittedName :: string

record Membership =
  mb_ID :: string
  mb_PersonID :: string
  mb_OrganizationID :: string
  mb_ProductID :: string
  mb_RoleLabel :: "string option"
  mb_Status :: string
  mb_StartedAt :: "time option"
  mb_EndedAt :: "time option"

definition activeOrganization :: "db \<Rightarrow> string \<Rightarrow> unit result" where
  "activeOrganization d organizationID =
     rbind (some_or ErrNotFound (tfind o_id organizationID (organizations d))) (\<lambda>r.
     if o_status r \<noteq> ''active'' then Inl ErrNotFound else Inr ())"

definition submission_subject :: "db \<Rightarrow> OrganizationSubmission \<Rightarrow> unit result" where
  "submission_subject d submission =
     (case sb_InstallationID submission of
        Some installation \<Rightarrow> validateSubjectWith d \<lparr>su_Kind = ''installation'', su_ID = installation\<rparr> (sb_ProductID submission)
      | None \<Rightarrow>
          (case sb_PersonID submission of
             Some person \<Rightarrow> validateSubjectWith d \<lparr>su_Kind = ''person'', su_ID = person\<rparr> (sb_ProductID submission)
           | None \<Rightarrow> Inr ()))"

definition CreateOrganizationSubmission :: "time \<Rightarrow> OrganizationSubmission \<Rightarrow> db \<Rightarrow> db result" where
  "CreateOrganizationSubmission now submission d =
     rbind (submission_subject d submission) (\<lambda>_.
     insert_row organization_submissions organization_submissions_update os_id
       \<lparr>os_id = sb_ID submission, os_person_id = sb_PersonID submission, os_installation_id = sb_InstallationID submission,
        os_product_id = sb_ProductID submission, os_submitted_name = sb_SubmittedName submission, os_status = ''pending'',
        os_canonical_organization_id = None, os_submitted_at = trunc_us now, os_reviewed_at = None, os_reviewed_by = None,
        os_audit_note = None, os_version = 1\<rparr> d)"

definition CreateOrganization :: "time \<Rightarrow> string \<Rightarrow> string \<Rightarrow> db \<Rightarrow> db result" where
  "CreateOrganization now organizationID canonicalName =
     insert_row organizations organizations_update o_id
       \<lparr>o_id = organizationID, o_canonical_name = canonicalName, o_status = ''active'', o_merged_into_id = None,
        o_created_at = trunc_us now, o_updated_at = trunc_us now, o_version = 1\<rparr>"

definition review_submission ::
  "string \<times> string option \<times> string \<times> string \<times> time \<Rightarrow> organization_submission \<Rightarrow> organization_submission"
where
  "review_submission p r = (case p of (status, organizationID, actor, note, now) \<Rightarrow>
     r\<lparr>os_status := status, os_canonical_organization_id := organizationID, os_reviewed_at := Some (trunc_us now),
       os_reviewed_by := Some actor, os_audit_note := Some note, os_version := os_version r + 1\<rparr>)"

definition ResolveOrganizationSubmission ::
  "time \<Rightarrow> string \<Rightarrow> string \<Rightarrow> string option \<Rightarrow> string \<Rightarrow> string \<Rightarrow> db \<Rightarrow> db result"
where
  "ResolveOrganizationSubmission now submissionID status organizationID actor note d =
     rbind (some_or ErrNotFound (tfind os_id submissionID (organization_submissions d))) (\<lambda>r.
     if os_status r \<noteq> ''pending'' then Inl ErrNotFound
     else
       rbind (case organizationID of None \<Rightarrow> Inr () | Some org \<Rightarrow> activeOrganization d org) (\<lambda>_.
       cas_row organization_submissions organization_submissions_update os_id os_version submissionID (os_version r)
         (\<lambda>_. True) (review_submission (status, organizationID, actor, note, now)) d))"

text \<open>One round of \<^verbatim>\<open>moveMemberships\<close>: the row is copied unless the target has one, then deleted.\<close>

definition move_membership :: "string \<Rightarrow> string \<Rightarrow> membership \<Rightarrow> db \<Rightarrow> db result" where
  "move_membership sourceID targetID m d =
     rbind
       (case tfind m_key (m_person_id m, targetID, m_product_id m) (memberships d) of
          None \<Rightarrow> insert_row memberships memberships_update m_key (m\<lparr>m_organization_id := targetID, m_version := 1\<rparr>) d
        | Some _ \<Rightarrow> Inr d) (\<lambda>d1.
     Inr (delete_rows memberships_update (\<lambda>x. m_key x = (m_person_id m, sourceID, m_product_id m)) d1))"

definition moveMemberships :: "string \<Rightarrow> string \<Rightarrow> db \<Rightarrow> db result" where
  "moveMemberships sourceID targetID d =
     for_each (move_membership sourceID targetID) (filter (\<lambda>m. m_organization_id m = sourceID) (memberships d)) d"

definition merge_into :: "string \<times> time \<Rightarrow> organization \<Rightarrow> organization" where
  "merge_into p r = r\<lparr>o_status := ''merged'', o_merged_into_id := Some (fst p), o_updated_at := trunc_us (snd p),
     o_version := o_version r + 1\<rparr>"

definition redirect_submission :: "string \<Rightarrow> organization_submission \<Rightarrow> organization_submission" where
  "redirect_submission targetID r =
     r\<lparr>os_canonical_organization_id := Some targetID, os_status := ''merged'', os_version := os_version r + 1\<rparr>"

definition MergeOrganization :: "string \<Rightarrow> time \<Rightarrow> string \<Rightarrow> string \<Rightarrow> string \<Rightarrow> string \<Rightarrow> db \<Rightarrow> db result" where
  "MergeOrganization auditID now sourceID targetID actor reason d =
     (if sourceID = targetID then Inl ErrInvalid
      else
        rbind (activeOrganization d targetID) (\<lambda>_.
        rbind (some_or ErrNotFound (tfind o_id sourceID (organizations d))) (\<lambda>r.
        if o_status r \<noteq> ''active'' then Inl ErrNotFound
        else
          rbind (cas_row organizations organizations_update o_id o_version sourceID (o_version r) (\<lambda>_. True)
                   (merge_into (targetID, now)) d) (\<lambda>d1.
          rbind (insert_row organization_merge_audit organization_merge_audit_update om_id
                   \<lparr>om_id = auditID, om_source_organization_id = sourceID, om_target_organization_id = targetID,
                    om_actor = actor, om_reason = reason, om_merged_at = trunc_us now\<rparr> d1) (\<lambda>d2.
          moveMemberships sourceID targetID
            (update_rows organization_submissions_update (\<lambda>x. os_canonical_organization_id x = Some sourceID)
              (redirect_submission targetID) d2))))))"

definition set_membership :: "Membership \<Rightarrow> membership \<Rightarrow> membership" where
  "set_membership input r = r\<lparr>m_role_label := mb_RoleLabel input, m_status := mb_Status input, m_started_at := mb_StartedAt input,
     m_ended_at := mb_EndedAt input, m_version := m_version r + 1\<rparr>"

definition CreateMembership :: "time \<Rightarrow> Membership \<Rightarrow> db \<Rightarrow> db result" where
  "CreateMembership now input d =
     rbind (activeOrganization d (mb_OrganizationID input)) (\<lambda>_.
     rbind (validateSubjectWith d \<lparr>su_Kind = ''person'', su_ID = mb_PersonID input\<rparr> (mb_ProductID input)) (\<lambda>_.
     let key = (mb_PersonID input, mb_OrganizationID input, mb_ProductID input) in
     case tfind m_key key (memberships d) of
       Some r \<Rightarrow>
         cas_row memberships memberships_update m_key m_version key (m_version r) (\<lambda>_. True) (set_membership input) d
     | None \<Rightarrow>
         insert_row memberships memberships_update m_key
           \<lparr>m_person_id = mb_PersonID input, m_organization_id = mb_OrganizationID input, m_product_id = mb_ProductID input,
            m_id = mb_ID input, m_role_label = mb_RoleLabel input, m_status = mb_Status input, m_started_at = mb_StartedAt input,
            m_ended_at = mb_EndedAt input, m_created_at = trunc_us now, m_version = 1\<rparr> d))"

section \<open>Laws\<close>

interpretation submission_review: versioned_update os_id os_version review_submission
  by unfold_locales (auto simp: review_submission_def split: prod.splits)

interpretation organization_merge: versioned_update o_id o_version merge_into
  by unfold_locales (simp_all add: merge_into_def)

interpretation membership_update: versioned_update m_key m_version set_membership
  by unfold_locales (simp_all add: set_membership_def m_key_def)

lemma activeOrganization_Inr [simp]:
  "activeOrganization d org = Inr x \<longleftrightarrow> (\<exists>r. tfind o_id org (organizations d) = Some r \<and> o_status r = ''active'')"
  by (auto simp: activeOrganization_def split: if_splits)

text \<open>The effect of the loop: the source is empty, and the target has gained what it lacked.\<close>

definition moved :: "string \<Rightarrow> membership \<Rightarrow> membership" where
  "moved targetID m = m\<lparr>m_organization_id := targetID, m_version := 1\<rparr>"

lemma move_round:
  assumes "sourceID \<noteq> targetID" and "uniq m_key (memberships d)" and "move_membership sourceID targetID m d = Inr d'"
    and "m_organization_id m = sourceID"
  shows "uniq m_key (memberships d')" and "d' = d\<lparr>memberships := memberships d'\<rparr>"
    and "tfind m_key k (memberships d') =
      (if k = m_key m then None
       else if k = (m_person_id m, targetID, m_product_id m) \<and> tfind m_key k (memberships d) = None then Some (moved targetID m)
       else tfind m_key k (memberships d))"
proof -
  let ?k = "(m_person_id m, targetID, m_product_id m)"
  let ?t = "if tfind m_key ?k (memberships d) = None then memberships d @ [moved targetID m] else memberships d"
  have key: "m_key (moved targetID m) = ?k" "m_key m = (m_person_id m, sourceID, m_product_id m)"
    using assms(4) by (simp_all add: m_key_def moved_def)
  have d': "d' = d\<lparr>memberships := tbl_delete (\<lambda>x. m_key x = m_key m) ?t\<rparr>"
    using assms(3) key by (auto simp: move_membership_def insert_row_Inr delete_rows_def moved_def split: option.splits)
  have u: "uniq m_key ?t" using assms(2) key by (auto simp: tfind_None uniq_def)
  from d' u show "uniq m_key (memberships d')" "d' = d\<lparr>memberships := memberships d'\<rparr>" by (simp_all add: uniq_delete)
  show "tfind m_key k (memberships d') =
      (if k = m_key m then None else if k = ?k \<and> tfind m_key k (memberships d) = None then Some (moved targetID m)
       else tfind m_key k (memberships d))"
    using d' key assms(1,4) by (auto simp: tfind_delete [OF u] tfind_append split: option.splits dest: tfind_Some)
qed

definition target_key :: "string \<Rightarrow> membership \<Rightarrow> string \<times> string \<times> string" where
  "target_key targetID m = (m_person_id m, targetID, m_product_id m)"

lemma move_loop:
  assumes "sourceID \<noteq> targetID" and "uniq m_key (memberships d)" and "\<forall>m \<in> set ms. m_organization_id m = sourceID"
    and "distinct (map m_key ms)" and "for_each (move_membership sourceID targetID) ms d = Inr d'"
  shows "uniq m_key (memberships d') \<and> d' = d\<lparr>memberships := memberships d'\<rparr> \<and>
    (\<forall>k. tfind m_key k (memberships d') =
      (if k \<in> m_key ` set ms then None
       else case tfind m_key k (memberships d) of Some x \<Rightarrow> Some x
         | None \<Rightarrow> map_option (moved targetID) (List.find (\<lambda>m. target_key targetID m = k) ms)))"
  using assms(2-)
proof (induction ms arbitrary: d)
  case Nil
  then show ?case by (auto split: option.split)
next
  case (Cons m ms)
  from Cons.prems(4) obtain d1 where d1: "move_membership sourceID targetID m d = Inr d1"
    and rest: "for_each (move_membership sourceID targetID) ms d1 = Inr d'" by auto
  have src: "m_organization_id m = sourceID" using Cons.prems(2) by simp
  note r = move_round [OF assms(1) Cons.prems(1) d1 src]
  have IH: "uniq m_key (memberships d') \<and> d' = d1\<lparr>memberships := memberships d'\<rparr> \<and>
    (\<forall>k. tfind m_key k (memberships d') = (if k \<in> m_key ` set ms then None
       else case tfind m_key k (memberships d1) of Some x \<Rightarrow> Some x
         | None \<Rightarrow> map_option (moved targetID) (List.find (\<lambda>m. target_key targetID m = k) ms)))"
    using Cons.prems r(1) rest by (intro Cons.IH) auto
  have frame: "d' = d\<lparr>memberships := memberships d'\<rparr>"
  proof -
    have "d' = d1\<lparr>memberships := memberships d'\<rparr>" using IH by blast
    also have "\<dots> = d\<lparr>memberships := memberships d'\<rparr>" by (subst r(2)) simp
    finally show ?thesis .
  qed
  have "tfind m_key k (memberships d') = (if k \<in> m_key ` set (m # ms) then None
       else case tfind m_key k (memberships d) of Some x \<Rightarrow> Some x
         | None \<Rightarrow> map_option (moved targetID) (List.find (\<lambda>m. target_key targetID m = k) (m # ms)))" for k
  proof -
    have "target_key targetID x \<noteq> k" if "x \<in> set (m # ms)" "k \<in> m_key ` set (m # ms)" for x
      using that Cons.prems(2) assms(1) by (auto simp: target_key_def m_key_def)
    then have no: "k \<in> m_key ` set (m # ms) \<Longrightarrow> List.find (\<lambda>m. target_key targetID m = k) ms = None"
      by (auto simp: find_None_iff)
    have "tfind m_key k (memberships d') = (if k \<in> m_key ` set ms then None
       else case tfind m_key k (memberships d1) of Some x \<Rightarrow> Some x
         | None \<Rightarrow> map_option (moved targetID) (List.find (\<lambda>m. target_key targetID m = k) ms))" using IH by blast
    then show ?thesis
      using no r(3) [of k] by (cases "k = m_key m") (auto simp: target_key_def split: option.split)
  qed
  with IH frame show ?case by blast
qed

section \<open>The effect of a merge\<close>

lemma find_filter: "List.find P (filter Q xs) = List.find (\<lambda>x. Q x \<and> P x) xs"
  by (induction xs) auto

lemma moveMemberships_effect:
  assumes ok: "moveMemberships sourceID targetID d = Inr d'" and u: "uniq m_key (memberships d)" and ne: "sourceID \<noteq> targetID"
  shows "uniq m_key (memberships d') \<and> d' = d\<lparr>memberships := memberships d'\<rparr> \<and>
    (\<forall>p org q. tfind m_key (p, org, q) (memberships d') =
      (if org = sourceID then None
       else case tfind m_key (p, org, q) (memberships d) of Some x \<Rightarrow> Some x
         | None \<Rightarrow> if org = targetID then map_option (moved targetID) (tfind m_key (p, sourceID, q) (memberships d)) else None))"
proof -
  let ?ms = "filter (\<lambda>m. m_organization_id m = sourceID) (memberships d)"
  have dist: "distinct (map m_key ?ms)" using u by (simp add: uniq_def distinct_map_filter)
  note e = move_loop [OF ne u _ dist ok [unfolded moveMemberships_def]]
  have "tfind m_key (p, org, q) (memberships d') =
      (if org = sourceID then None
       else case tfind m_key (p, org, q) (memberships d) of Some x \<Rightarrow> Some x
         | None \<Rightarrow> if org = targetID then map_option (moved targetID) (tfind m_key (p, sourceID, q) (memberships d)) else None)" for p org q
  proof -
    have mem: "(p, org, q) \<in> m_key ` set ?ms \<longleftrightarrow> org = sourceID \<and> tfind m_key (p, org, q) (memberships d) \<noteq> None"
      by (auto simp: tfind_None m_key_def image_iff)
    have "(\<lambda>m. m_organization_id m = sourceID \<and> target_key targetID m = (p, org, q)) = (\<lambda>m. org = targetID \<and> m_key m = (p, sourceID, q))"
      by (auto simp: target_key_def m_key_def)
    then have find: "List.find (\<lambda>m. target_key targetID m = (p, org, q)) ?ms =
        (if org = targetID then tfind m_key (p, sourceID, q) (memberships d) else None)"
      by (simp add: find_filter tfind_def find_None_iff)
    have "tfind m_key (p, org, q) (memberships d') = (if (p, org, q) \<in> m_key ` set ?ms then None
       else case tfind m_key (p, org, q) (memberships d) of Some x \<Rightarrow> Some x
         | None \<Rightarrow> map_option (moved targetID) (List.find (\<lambda>m. target_key targetID m = (p, org, q)) ?ms))" using e by auto
    then show ?thesis unfolding mem find using ne by (auto split: option.split)
  qed
  with e show ?thesis by auto
qed

text \<open>What a merge writes, apart from the memberships.\<close>

lemma merge_tables:
  assumes ok: "MergeOrganization auditID now sourceID targetID actor reason d = Inr d'" and keys: "db_keys d"
  obtains r d2 where "sourceID \<noteq> targetID" "\<exists>t. tfind o_id targetID (organizations d) = Some t \<and> o_status t = ''active''"
    "tfind o_id sourceID (organizations d) = Some r" "o_status r = ''active''"
    "d2 = d\<lparr>organizations := tbl_update (\<lambda>x. o_id x = sourceID) (merge_into (targetID, now)) (organizations d),
       organization_merge_audit := organization_merge_audit d @ [\<lparr>om_id = auditID, om_source_organization_id = sourceID,
         om_target_organization_id = targetID, om_actor = actor, om_reason = reason, om_merged_at = trunc_us now\<rparr>],
       organization_submissions := tbl_update (\<lambda>x. os_canonical_organization_id x = Some sourceID) (redirect_submission targetID)
         (organization_submissions d)\<rparr>"
    "moveMemberships sourceID targetID d2 = Inr d'"
proof -
  have u: "uniq o_id (organizations d)" using keys by (rule tb_organizations.keys_get)
  have upd: "update_rows organization_submissions_update P f e = e\<lparr>organization_submissions := tbl_update P f (organization_submissions e)\<rparr>"
    for P f e by (simp add: update_rows_def)
  from ok u show thesis
    by (auto simp: MergeOrganization_def cas_row_Inr insert_row_Inr upd split: if_splits intro!: that)
qed

section \<open>Properties\<close>

text \<open>
  C16: a merge moves everything to the target. A merge needs two different active
  organisations. After it no membership of the source is left; whoever was a member
  of the source for a product is a member of the target, with the own row of the
  target if there was one and otherwise with the moved row, which keeps its identity,
  role, status and dates; all other memberships are untouched. Submissions that
  pointed to the source point to the target, exactly the source is marked as merged,
  and the merge is recorded once.
\<close>

theorem merge_moves_everything:
  assumes ok: "MergeOrganization auditID now sourceID targetID actor reason d = Inr d'" and keys: "db_keys d"
  shows "sourceID \<noteq> targetID \<and>
    (\<forall>p org q. tfind m_key (p, org, q) (memberships d') =
      (if org = sourceID then None
       else case tfind m_key (p, org, q) (memberships d) of Some x \<Rightarrow> Some x
         | None \<Rightarrow> if org = targetID then map_option (\<lambda>m. m\<lparr>m_organization_id := targetID, m_version := 1\<rparr>)
             (tfind m_key (p, sourceID, q) (memberships d)) else None)) \<and>
    organizations d' = map (\<lambda>r. if o_id r = sourceID then r\<lparr>o_status := ''merged'', o_merged_into_id := Some targetID,
      o_updated_at := trunc_us now, o_version := o_version r + 1\<rparr> else r) (organizations d) \<and>
    organization_submissions d' = map (\<lambda>r. if os_canonical_organization_id r = Some sourceID
      then r\<lparr>os_canonical_organization_id := Some targetID, os_status := ''merged'', os_version := os_version r + 1\<rparr> else r)
      (organization_submissions d) \<and>
    (\<exists>r. organization_merge_audit d' = organization_merge_audit d @ [r] \<and> om_source_organization_id r = sourceID \<and>
       om_target_organization_id r = targetID \<and> om_actor r = actor)"
  using assms
proof (rule merge_tables)
  fix d2
  assume ne: "sourceID \<noteq> targetID"
    and d2: "d2 = d\<lparr>organizations := tbl_update (\<lambda>x. o_id x = sourceID) (merge_into (targetID, now)) (organizations d),
       organization_merge_audit := organization_merge_audit d @ [\<lparr>om_id = auditID, om_source_organization_id = sourceID,
         om_target_organization_id = targetID, om_actor = actor, om_reason = reason, om_merged_at = trunc_us now\<rparr>],
       organization_submissions := tbl_update (\<lambda>x. os_canonical_organization_id x = Some sourceID) (redirect_submission targetID)
         (organization_submissions d)\<rparr>"
    and mv: "moveMemberships sourceID targetID d2 = Inr d'"
  have "uniq m_key (memberships d2)" using tb_memberships.keys_get [OF keys] by (simp add: d2)
  note e = moveMemberships_effect [OF mv this ne]
  then have frame: "d' = d2\<lparr>memberships := memberships d'\<rparr>" by blast
  have "organizations d' = organizations d2" "organization_submissions d' = organization_submissions d2"
    "organization_merge_audit d' = organization_merge_audit d2" by (subst frame, simp)+
  moreover have same: "memberships d2 = memberships d" "moved targetID = (\<lambda>m. m\<lparr>m_organization_id := targetID, m_version := 1\<rparr>)"
    by (simp_all add: d2 moved_def fun_eq_iff)
  note moves = e [unfolded same, THEN conjunct2, THEN conjunct2]
  ultimately show ?thesis
    using ne by (intro conjI moves) (simp_all add: d2 tbl_update_def merge_into_def redirect_submission_def)
qed

section \<open>Organisations over time\<close>

definition is_active :: "db \<Rightarrow> string \<Rightarrow> bool" where
  "is_active d org \<longleftrightarrow> (\<exists>r. tfind o_id org (organizations d) = Some r \<and> o_status r = ''active'')"

text \<open>Following \<^verbatim>\<open>merged_into_id\<close> from an organisation to an active one.\<close>

inductive leads_to :: "db \<Rightarrow> string \<Rightarrow> string \<Rightarrow> bool" for d where
  here: "is_active d org \<Longrightarrow> leads_to d org org"
| merged: "tfind o_id org (organizations d) = Some r \<Longrightarrow> o_merged_into_id r = Some next \<Longrightarrow> leads_to d next target \<Longrightarrow> leads_to d org target"

text \<open>Transactions of the organisation component, and of others: those leave organisations alone and only remove references.\<close>

inductive organization_op :: "db \<Rightarrow> db \<Rightarrow> bool" where
  submit: "CreateOrganizationSubmission now submission d = Inr d' \<Longrightarrow> organization_op d d'"
| create: "CreateOrganization now org name d = Inr d' \<Longrightarrow> organization_op d d'"
| resolve: "ResolveOrganizationSubmission now i status org actor note d = Inr d' \<Longrightarrow> organization_op d d'"
| merge: "MergeOrganization auditID now sourceID targetID actor reason d = Inr d' \<Longrightarrow> organization_op d d'"
| join: "CreateMembership now input d = Inr d' \<Longrightarrow> organization_op d d'"
| other: "db_keys d' \<Longrightarrow> organizations d' = organizations d \<Longrightarrow> m_organization_id ` set (memberships d') \<subseteq> m_organization_id ` set (memberships d) \<Longrightarrow>
    os_canonical_organization_id ` set (organization_submissions d') \<subseteq> insert None (os_canonical_organization_id ` set (organization_submissions d)) \<Longrightarrow>
    organization_op d d'"

inductive organizations_reachable :: "db \<Rightarrow> bool" where
  start: "organizations_reachable empty_db"
| step: "organizations_reachable d \<Longrightarrow> organization_op d d' \<Longrightarrow> organizations_reachable d'"

definition references_active :: "db \<Rightarrow> bool" where
  "references_active d \<longleftrightarrow> db_keys d \<and> (\<forall>m \<in> set (memberships d). is_active d (m_organization_id m)) \<and>
     (\<forall>x \<in> set (organization_submissions d). \<forall>org. os_canonical_organization_id x = Some org \<longrightarrow> is_active d org) \<and>
     (\<forall>r \<in> set (organizations d). \<exists>target. leads_to d (o_id r) target)"

text \<open>An operation that leaves organisations alone and adds references to active ones only.\<close>

lemma references_same_organizations:
  assumes "references_active d" and keys: "db_keys d'" and orgs: "organizations d' = organizations d"
    and m: "\<And>m. m \<in> set (memberships d') \<Longrightarrow> m_organization_id m \<in> m_organization_id ` set (memberships d) \<or> is_active d (m_organization_id m)"
    and x: "\<And>x org. x \<in> set (organization_submissions d') \<Longrightarrow> os_canonical_organization_id x = Some org \<Longrightarrow>
      (\<exists>y \<in> set (organization_submissions d). os_canonical_organization_id y = Some org) \<or> is_active d org"
  shows "references_active d'"
proof -
  have act: "is_active d' = is_active d" by (simp add: is_active_def orgs fun_eq_iff)
  have "leads_to d' a b" if "leads_to d a b" for a b
    using that by (induction) (auto intro: leads_to.intros simp: act orgs)
  then have "\<forall>r \<in> set (organizations d'). \<exists>target. leads_to d' (o_id r) target"
    using assms(1) unfolding references_active_def orgs by blast
  moreover have "\<forall>m \<in> set (memberships d'). is_active d' (m_organization_id m)"
    using m assms(1) by (fastforce simp: references_active_def act)
  moreover have "\<forall>x \<in> set (organization_submissions d'). \<forall>org. os_canonical_organization_id x = Some org \<longrightarrow> is_active d' org"
  proof (intro ballI allI impI)
    fix y org assume y: "y \<in> set (organization_submissions d')" "os_canonical_organization_id y = Some org"
    from x [OF y] show "is_active d' org" using assms(1) unfolding references_active_def act by blast
  qed
  ultimately show ?thesis using keys by (simp add: references_active_def)
qed

lemma references_create:
  assumes inv: "references_active d" and ok: "CreateOrganization now org name d = Inr d'"
  shows "references_active d'"
proof -
  define r where "r = \<lparr>o_id = org, o_canonical_name = name, o_status = ''active'', o_merged_into_id = None,
    o_created_at = trunc_us now, o_updated_at = trunc_us now, o_version = 1\<rparr>"
  have d': "org \<notin> o_id ` set (organizations d)" "d' = d\<lparr>organizations := organizations d @ [r]\<rparr>"
    using ok by (auto simp: CreateOrganization_def insert_row_Inr r_def)
  have find: "tfind o_id g (organizations d') = (if g = org then Some r else tfind o_id g (organizations d))" for g
    using d' tfind_snoc [of o_id r "organizations d"] by (simp add: r_def)
  have act: "is_active d g \<Longrightarrow> is_active d' g" for g using d'(1) by (auto simp: is_active_def find r_def)
  have lead: "leads_to d' a b" if "leads_to d a b" for a b
    using that
  proof induction
    case (merged a x "next" b)
    then have "a \<noteq> org" using d'(1) by (auto dest: tfind_Some)
    with merged show ?case by (auto intro: leads_to.merged simp: find)
  qed (auto intro: leads_to.here act)
  have "is_active d' org" by (simp add: is_active_def find r_def)
  then have "leads_to d' org org" by (rule leads_to.here)
  moreover have "db_keys d'" using inv yieldsD [OF tb_organizations.insert_keys [of d db_keys] ok [unfolded CreateOrganization_def]]
    by (simp add: references_active_def)
  ultimately show ?thesis using inv lead act d'(2) by (force simp: references_active_def r_def)
qed

lemma move_membership_keys: "db_keys d \<Longrightarrow> yields (move_membership sourceID targetID m d) db_keys"
  by (auto simp: move_membership_def keys_simps intro!: keys_intro split: option.split)

lemma MergeOrganization_keys: "db_keys d \<Longrightarrow> yields (MergeOrganization a now s t actor reason d) db_keys"
  by (auto simp: MergeOrganization_def moveMemberships_def redirect_submission_def merge_into_def
      intro!: keys_intro move_membership_keys yields_for_each [where I = db_keys] yields_any [of _ "activeOrganization _ _"])

lemma references_merge:
  assumes inv: "references_active d" and ok: "MergeOrganization auditID now sourceID targetID actor reason d = Inr d'"
  shows "references_active d'"
proof -
  have keys: "db_keys d" using inv by (simp add: references_active_def)
  obtain r where ne: "sourceID \<noteq> targetID" and t: "is_active d targetID" and r: "tfind o_id sourceID (organizations d) = Some r"
    using merge_tables [OF ok keys] unfolding is_active_def by metis
  note eff = merge_moves_everything [OF ok keys]
  have find: "tfind o_id g (organizations d') = (if g = sourceID then Some (merge_into (targetID, now) r) else tfind o_id g (organizations d))" for g
  proof -
    have "organizations d' = tbl_update (\<lambda>x. o_id x = sourceID) (merge_into (targetID, now)) (organizations d)"
      using eff by (simp add: tbl_update_def merge_into_def)
    then show ?thesis
      using r by (cases "tfind o_id g (organizations d)") (auto simp: tfind_update merge_into_def dest: tfind_Some)
  qed
  have act: "is_active d' g \<longleftrightarrow> is_active d g \<and> g \<noteq> sourceID" for g by (auto simp: is_active_def find merge_into_def)
  have src: "leads_to d' sourceID targetID"
    by (rule leads_to.merged [of sourceID d' "merge_into (targetID, now) r" targetID]) (use t ne in \<open>auto simp: find act merge_into_def intro: leads_to.here\<close>)
  have lead: "\<exists>t. leads_to d' a t" if "leads_to d a b" for a b
    using that
  proof induction
    case (here a)
    then show ?case using src leads_to.here [of d' a] by (cases "a = sourceID") (auto simp: act)
  next
    case (merged a x "next" b)
    then obtain t where "leads_to d' next t" by blast
    then have "a \<noteq> sourceID \<Longrightarrow> leads_to d' a t" using merged(1,2) leads_to.merged [of a d' x "next" t] by (simp add: find)
    then show ?case using src by blast
  qed
  have "is_active d' (m_organization_id m)" if "m \<in> set (memberships d')" for m
  proof -
    have "db_keys d'" using yieldsD [OF MergeOrganization_keys [OF keys] ok] .
    then have "tfind m_key (m_person_id m, m_organization_id m, m_product_id m) (memberships d') = Some m"
      using uniq_mem_tfind [OF tb_memberships.keys_get that] by (simp add: m_key_def)
    then have "m_organization_id m \<noteq> sourceID \<and> (m \<in> set (memberships d) \<or> m_organization_id m = targetID)"
      using eff by (auto split: if_splits option.splits dest: tfind_mem)
    then show ?thesis using inv t ne by (auto simp: act references_active_def)
  qed
  moreover have "is_active d' org" if "x \<in> set (organization_submissions d')" "os_canonical_organization_id x = Some org" for x org
  proof -
    from that(1) eff obtain y where "y \<in> set (organization_submissions d)"
      "os_canonical_organization_id x = (if os_canonical_organization_id y = Some sourceID then Some targetID else os_canonical_organization_id y)"
      by auto
    then show ?thesis using inv t ne that(2) by (auto simp: act references_active_def split: if_splits)
  qed
  moreover have "\<exists>t. leads_to d' (o_id x) t" if "x \<in> set (organizations d')" for x
  proof -
    have "o_id ` set (organizations d') = o_id ` set (organizations d)" 
    proof -
      have "organizations d' = tbl_update (\<lambda>x. o_id x = sourceID) (merge_into (targetID, now)) (organizations d)"
        using eff by (simp add: tbl_update_def merge_into_def)
      then show ?thesis by (simp add: keys_update merge_into_def)
    qed
    then have "o_id x \<in> o_id ` set (organizations d)" using that by blast
    then obtain y where "y \<in> set (organizations d)" "o_id y = o_id x" by auto
    moreover from this(1) inv obtain b where "leads_to d (o_id y) b" unfolding references_active_def by blast
    ultimately show ?thesis using lead by metis
  qed
  ultimately show ?thesis using yieldsD [OF MergeOrganization_keys [OF keys] ok] by (simp add: references_active_def)
qed

lemma references_submit:
  assumes inv: "references_active d" and ok: "CreateOrganizationSubmission now submission d = Inr d'"
  shows "references_active d'"
proof -
  have keys: "db_keys d" using inv by (simp add: references_active_def)
  have "yields (CreateOrganizationSubmission now submission d) db_keys"
    using keys by (auto simp: CreateOrganizationSubmission_def intro!: keys_intro yields_any [of _ "submission_subject _ _"])
  from yieldsD [OF this ok] show ?thesis
    by (rule references_same_organizations [OF inv]) (use ok in \<open>auto simp: CreateOrganizationSubmission_def insert_row_Inr\<close>)
qed

lemma references_resolve:
  assumes inv: "references_active d" and ok: "ResolveOrganizationSubmission now i status org actor note d = Inr d'"
  shows "references_active d'"
proof -
  have keys: "db_keys d" using inv by (simp add: references_active_def)
  have u: "uniq os_id (organization_submissions d)" using keys by (rule tb_organization_submissions.keys_get)
  let ?f = "review_submission (status, org, actor, note, now)"
  from ok have act: "org = Some g \<Longrightarrow> is_active d g" for g
    by (auto simp: ResolveOrganizationSubmission_def is_active_def split: if_splits)
  from ok u have d': "d' = d\<lparr>organization_submissions := tbl_update (\<lambda>x. os_id x = i) ?f (organization_submissions d)\<rparr>"
    by (auto simp: ResolveOrganizationSubmission_def cas_row_Inr split: if_splits)
  have "db_keys d'" using keys u unfolding d' by (intro tb_organization_submissions.keys_put) (simp_all add: uniq_update)
  then show ?thesis
  proof (rule references_same_organizations [OF inv])
    fix x g assume x: "x \<in> set (organization_submissions d')" "os_canonical_organization_id x = Some g"
    then show "(\<exists>y \<in> set (organization_submissions d). os_canonical_organization_id y = Some g) \<or> is_active d g"
      using act by (auto simp: d' set_update review_submission_def split: if_splits)
  qed (simp_all add: d')
qed

lemma references_join:
  assumes inv: "references_active d" and ok: "CreateMembership now input d = Inr d'"
  shows "references_active d'"
proof -
  have keys: "db_keys d" using inv by (simp add: references_active_def)
  have u: "uniq m_key (memberships d)" using keys by (rule tb_memberships.keys_get)
  have act: "is_active d (mb_OrganizationID input)" using ok by (auto simp: CreateMembership_def is_active_def)
  have "yields (CreateMembership now input d) db_keys"
    using keys by (auto simp: CreateMembership_def Let_def set_membership_def m_key_def intro!: keys_intro
        yields_any [of _ "activeOrganization _ _"] yields_any [of _ "validateSubjectWith _ _ _"] split: option.split)
  from yieldsD [OF this ok] show ?thesis
  proof (rule references_same_organizations [OF inv])
    show "organizations d' = organizations d" "\<And>x org. x \<in> set (organization_submissions d') \<Longrightarrow> os_canonical_organization_id x = Some org \<Longrightarrow>
      (\<exists>y \<in> set (organization_submissions d). os_canonical_organization_id y = Some org) \<or> is_active d org"
      using ok u by (auto simp: CreateMembership_def Let_def insert_row_Inr cas_row_Inr split: option.splits)
    fix m assume m: "m \<in> set (memberships d')"
    from ok u consider (update) "memberships d' = tbl_update (\<lambda>x. m_key x = (mb_PersonID input, mb_OrganizationID input, mb_ProductID input))
        (set_membership input) (memberships d)" | (insert) x where "memberships d' = memberships d @ [x]" "m_organization_id x = mb_OrganizationID input"
      by (auto simp: CreateMembership_def Let_def insert_row_Inr cas_row_Inr split: option.splits)
    then show "m_organization_id m \<in> m_organization_id ` set (memberships d) \<or> is_active d (m_organization_id m)"
    proof cases
      case update
      have "m_organization_id (set_membership input x) = m_organization_id x" for x by (simp add: set_membership_def)
      with m show ?thesis by (auto simp: update set_update split: if_splits)
    next
      case insert
      with m act show ?thesis by auto
    qed
  qed
qed

lemma reachable_references: "organizations_reachable d \<Longrightarrow> references_active d"
proof (induction rule: organizations_reachable.induct)
  case start
  then show ?case by (simp add: references_active_def db_keys_empty) (simp add: empty_db_def)
next
  case (step d d')
  from step(2) show ?case
  proof cases
    case submit
    with step(3) show ?thesis by (blast intro: references_submit)
  next
    case create
    with step(3) show ?thesis by (blast intro: references_create)
  next
    case resolve
    with step(3) show ?thesis by (blast intro: references_resolve)
  next
    case merge
    with step(3) show ?thesis by (blast intro: references_merge)
  next
    case join
    with step(3) show ?thesis by (blast intro: references_join)
  next
    case other
    have "(\<exists>y \<in> set (organization_submissions d). os_canonical_organization_id y = Some org) \<or> is_active d org"
      if "x \<in> set (organization_submissions d')" "os_canonical_organization_id x = Some org" for x org
    proof -
      have "Some org \<in> insert None (os_canonical_organization_id ` set (organization_submissions d))" using other(4) that by (metis imageI subsetD)
      then show ?thesis by (metis imageE insertE option.distinct(1))
    qed
    with other show ?thesis by (intro references_same_organizations [OF step(3)]) blast+
  qed
qed

text \<open>
  C15: references stay canonical. Whatever the order of submissions, reviews, merges
  and memberships, every membership and every resolved submission refers to an
  active organisation, and the merge links of every organisation lead to an active
  one, so that following them never ends in a cycle.
\<close>

theorem organization_references_canonical:
  assumes "organizations_reachable d"
  shows "(\<forall>m \<in> set (memberships d). is_active d (m_organization_id m)) \<and>
    (\<forall>x \<in> set (organization_submissions d). \<forall>org. os_canonical_organization_id x = Some org \<longrightarrow> is_active d org) \<and>
    (\<forall>r \<in> set (organizations d). \<exists>target. leads_to d (o_id r) target \<and> is_active d target)"
proof -
  have "leads_to d a b \<Longrightarrow> is_active d b" for a b by (induction rule: leads_to.induct) auto
  then show ?thesis using reachable_references [OF assms] unfolding references_active_def by blast
qed

section \<open>Witnesses\<close>

definition organization_row :: "string \<Rightarrow> organization" where
  "organization_row i = \<lparr>o_id = i, o_canonical_name = ''n'', o_status = ''active'', o_merged_into_id = None,
     o_created_at = 0, o_updated_at = 0, o_version = 1\<rparr>"

definition two_organizations :: db where
  "two_organizations = empty_db\<lparr>organizations := [organization_row ''s'', organization_row ''t'']\<rparr>"

lemma two_organizations_reachable: "organizations_reachable two_organizations"
proof -
  have 1: "CreateOrganization 0 ''s'' ''n'' empty_db = Inr (empty_db\<lparr>organizations := [organization_row ''s'']\<rparr>)"
    by (simp add: CreateOrganization_def insert_row_eval empty_db_def organization_row_def trunc_us_def)
  have 2: "CreateOrganization 0 ''t'' ''n'' (empty_db\<lparr>organizations := [organization_row ''s'']\<rparr>) = Inr two_organizations"
    by (simp add: CreateOrganization_def insert_row_eval organization_row_def two_organizations_def trunc_us_def)
  show ?thesis
    by (rule organizations_reachable.step [OF organizations_reachable.step [OF organizations_reachable.start organization_op.create [OF 1]] organization_op.create [OF 2]])
qed

lemma two_organizations_merge:
  "\<exists>d'. MergeOrganization ''a'' 0 ''s'' ''t'' ''x'' ''y'' two_organizations = Inr d'"
  by (simp add: MergeOrganization_def two_organizations_def organization_row_def cas_row_def cas_update_def merge_into_def insert_row_def
      tbl_insert_def empty_db_def moveMemberships_def update_rows_def activeOrganization_def)

theorem merge_moves_everything_witness:
  "\<exists>d'. MergeOrganization ''a'' 0 ''s'' ''t'' ''x'' ''y'' two_organizations = Inr d' \<and>
     o_merged_into_id (hd (organizations d')) = Some ''t''"
proof -
  from two_organizations_merge obtain d' where ok: "MergeOrganization ''a'' 0 ''s'' ''t'' ''x'' ''y'' two_organizations = Inr d'" by blast
  have keys: "db_keys two_organizations" using reachable_references [OF two_organizations_reachable] by (simp add: references_active_def)
  from merge_moves_everything [OF ok keys] have "o_merged_into_id (hd (organizations d')) = Some ''t''"
    by (simp add: two_organizations_def organization_row_def)
  with ok show ?thesis by blast
qed

theorem organization_references_canonical_witness:
  "\<exists>d'. MergeOrganization ''a'' 0 ''s'' ''t'' ''x'' ''y'' two_organizations = Inr d' \<and> organizations_reachable d' \<and>
     (\<forall>r \<in> set (organizations d'). \<exists>target. leads_to d' (o_id r) target \<and> is_active d' target)"
proof -
  from two_organizations_merge obtain d' where ok: "MergeOrganization ''a'' 0 ''s'' ''t'' ''x'' ''y'' two_organizations = Inr d'" by blast
  have r: "organizations_reachable d'" by (rule organizations_reachable.step [OF two_organizations_reachable organization_op.merge [OF ok]])
  from organization_references_canonical [OF r] ok r show ?thesis by blast
qed

end
