(* ===== verification/Authz.thy ===== *)
theory Authz
  imports Domain_Rules
begin

text \<open>
  Workload authentication (\<^verbatim>\<open>internal/authz\<close>): static bearer credentials compared by
  their SHA-256 digests, with roles and product scopes.  \<open>sha256\<close> is the hash
  function of the Go library; a Go map used as a set is a list without repetitions.
\<close>

section \<open>Model\<close>

definition RoleProduct :: string where "RoleProduct = ''product''"
definition RoleProductDirectoryRead :: string where "RoleProductDirectoryRead = ''crm:product-directory:read''"

definition known_roles :: "string list" where
  "known_roles = [RoleProduct, ''email_verifier'', ''identity_admin'', ''privacy_admin'', ''privacy_global'',
     ''organization_admin'', RoleProductDirectoryRead]"

record Workload =
  wl_ID :: string
  wl_Token :: string
  wl_Roles :: "string list"
  wl_Products :: "string list"

record Principal =
  pn_ID :: string
  pn_roles :: "string list"
  pn_products :: "string list"

record credential =
  cr_principal :: Principal
  cr_digest :: bytes

definition Has :: "Principal \<Rightarrow> string \<Rightarrow> bool" where
  "Has p role \<longleftrightarrow> role \<in> set (pn_roles p)"

definition AllowsProduct :: "Principal \<Rightarrow> string \<Rightarrow> bool" where
  "AllowsProduct p product \<longleftrightarrow> product \<in> set (pn_products p)"

definition SingleProduct :: "Principal \<Rightarrow> string option" where
  "SingleProduct p = (case pn_products p of [product] \<Rightarrow> Some product | _ \<Rightarrow> None)"

definition principal_of :: "Workload \<Rightarrow> Principal" where
  "principal_of w = \<lparr>pn_ID = wl_ID w, pn_roles = remdups (wl_Roles w), pn_products = remdups (wl_Products w)\<rparr>"

text \<open>One round of the loop of \<^verbatim>\<open>authz.New\<close> over the identifiers seen and the credentials so far.\<close>

definition add_workload ::
  "(string \<Rightarrow> bytes) \<Rightarrow> Workload \<Rightarrow> string list \<times> credential list \<Rightarrow> (string list \<times> credential list) result"
where
  "add_workload sha256 w acc = (case acc of (seen, credentials) \<Rightarrow>
     if wl_ID w = '''' \<or> length (wl_Token w) < 32 \<or> wl_Roles w = [] then Inl (ErrMessage ''invalid workload credential'')
     else if wl_ID w \<in> set seen then Inl (ErrMessage ''duplicate workload ID'')
     else if \<not> set (wl_Roles w) \<subseteq> set known_roles then Inl (ErrMessage ''unknown workload role'')
     else if '''' \<in> set (wl_Products w) then Inl (ErrMessage ''empty workload product scope'')
     else if (Has (principal_of w) RoleProduct \<or> Has (principal_of w) RoleProductDirectoryRead) \<and> pn_products (principal_of w) = []
     then Inl (ErrMessage ''product workload must have at least one product scope'')
     else Inr (wl_ID w # seen, credentials @ [\<lparr>cr_principal = principal_of w, cr_digest = sha256 (wl_Token w)\<rparr>]))"

definition authz_New :: "(string \<Rightarrow> bytes) \<Rightarrow> Workload list \<Rightarrow> credential list result" where
  "authz_New sha256 workloads =
     (if workloads = [] then Inl (ErrMessage ''at least one workload credential is required'')
      else rbind (for_each (add_workload sha256) workloads ([], [])) (\<lambda>(seen, credentials). Inr credentials))"

definition bearer :: string where "bearer = ''Bearer ''"

definition Authenticate :: "(string \<Rightarrow> bytes) \<Rightarrow> credential list \<Rightarrow> string \<Rightarrow> Principal option" where
  "Authenticate sha256 credentials authorization =
     (if take (length bearer) authorization \<noteq> bearer \<or> CHR '' '' \<in> set (drop (length bearer) authorization) then None
      else map_option cr_principal
             (List.find (\<lambda>c. cr_digest c = sha256 (drop (length bearer) authorization)) credentials))"

section \<open>Laws\<close>

definition workload_ok :: "Workload \<Rightarrow> bool" where
  "workload_ok w \<longleftrightarrow> wl_ID w \<noteq> '''' \<and> 32 \<le> length (wl_Token w) \<and> wl_Roles w \<noteq> [] \<and> set (wl_Roles w) \<subseteq> set known_roles \<and>
     '''' \<notin> set (wl_Products w) \<and>
     (RoleProduct \<in> set (wl_Roles w) \<or> RoleProductDirectoryRead \<in> set (wl_Roles w) \<longrightarrow> wl_Products w \<noteq> [])"

abbreviation credential_of :: "(string \<Rightarrow> bytes) \<Rightarrow> Workload \<Rightarrow> credential" where
  "credential_of sha256 w \<equiv> \<lparr>cr_principal = principal_of w, cr_digest = sha256 (wl_Token w)\<rparr>"

lemma add_workload_Inr:
  "add_workload sha256 w (seen, cs) = Inr acc \<longleftrightarrow>
     workload_ok w \<and> wl_ID w \<notin> set seen \<and> acc = (wl_ID w # seen, cs @ [credential_of sha256 w])"
  by (auto simp: add_workload_def workload_ok_def Has_def principal_of_def)

lemma add_workloads:
  "for_each (add_workload sha256) ws (seen, cs) = Inr acc \<longleftrightarrow>
     (\<forall>w \<in> set ws. workload_ok w) \<and> distinct (map wl_ID ws) \<and> set (map wl_ID ws) \<inter> set seen = {} \<and>
     acc = (rev (map wl_ID ws) @ seen, cs @ map (credential_of sha256) ws)"
  by (induction ws arbitrary: seen cs) (auto simp: add_workload_Inr)

lemma authz_New_Inr:
  "authz_New sha256 ws = Inr cs \<longleftrightarrow>
     ws \<noteq> [] \<and> (\<forall>w \<in> set ws. workload_ok w) \<and> distinct (map wl_ID ws) \<and> cs = map (credential_of sha256) ws"
  by (auto simp: authz_New_def add_workloads)

section \<open>Properties\<close>


section \<open>Witnesses\<close>

definition sample_workload :: Workload where
  "sample_workload = \<lparr>wl_ID = ''w'', wl_Token = replicate 32 CHR ''t'', wl_Roles = [RoleProduct], wl_Products = [''pict'']\<rparr>"


end
