(* ===== verification/Directory_Store.thy ===== *)
theory Directory_Store
  imports Session_Store "HOL-Library.Product_Lexorder"
begin

text \<open>
  The directory of product contacts in the database
  (\<^verbatim>\<open>internal/store/product_directory.go\<close> and \<^verbatim>\<open>product_directory_audit.go\<close>): pages of
  candidates in the order of their account identifiers, the authoritative lookup of
  one account with its communication permissions, and the audit of every access.
\<close>

section \<open>Model\<close>

record DirectoryPermission =
  dp_Status :: string
  dp_ID :: string
  dp_PolicyVersion :: string
  dp_RecordedAt :: time

record DirectoryAccount =
  da_Profile :: product_account
  da_PersonID :: string
  da_Namespace :: string
  da_LinkageScope :: string
  da_ScopeKey :: string
  da_Email :: Ciphertext
  da_TelemetryPreference :: string
  da_Permissions :: "string \<rightharpoonup> DirectoryPermission"

text \<open>The joins of \<^verbatim>\<open>directoryAccountSelect\<close> for one row of \<^verbatim>\<open>product_accounts\<close>.\<close>

definition directoryAccountSelect :: "db \<Rightarrow> string \<Rightarrow> product_account \<Rightarrow> DirectoryAccount option" where
  "directoryAccountSelect d product pa =
     (case tfind a_id (pp_account_id pa) (accounts d) of None \<Rightarrow> None | Some a \<Rightarrow>
      case tfind p_id (a_person_id a) (persons d) of None \<Rightarrow> None | Some p \<Rightarrow>
      case tfind ei_id (pp_email_identity_id pa) (email_identities d) of None \<Rightarrow> None | Some e \<Rightarrow>
        if pp_product_id pa = product \<and> pp_status pa = ''active'' \<and> a_status a = ''active'' \<and> p_deleted_at p = None \<and>
           ei_person_id e = a_person_id a \<and> ei_product_id e = product \<and> ei_namespace e = ''account'' \<and>
           ei_linkage_scope e = ''product'' \<and> ei_scope_key e = product \<and> 0 < pp_verified_at pa \<and> 0 < ei_verified_at e
        then Some \<lparr>da_Profile = pa, da_PersonID = a_person_id a, da_Namespace = ei_namespace e,
          da_LinkageScope = ei_linkage_scope e, da_ScopeKey = ei_scope_key e, da_Email = ei_email e,
          da_TelemetryPreference = '''', da_Permissions = Map.empty\<rparr>
        else None)"

abbreviation da_account :: "DirectoryAccount \<Rightarrow> string" where
  "da_account r \<equiv> pp_account_id (da_Profile r)"

definition scanDirectoryAccount :: "DirectoryAccount \<Rightarrow> DirectoryAccount result" where
  "scanDirectoryAccount r =
     (if \<not> ValidUUID (da_account r) \<or> \<not> ValidUUID (pp_email_identity_id (da_Profile r)) \<or> \<not> ValidUUID (da_PersonID r)
      then Inl ErrNotFound else Inr r)"

definition directory_rows :: "db \<Rightarrow> string \<Rightarrow> DirectoryAccount list" where
  "directory_rows d product = sort_key da_account (List.map_filter (directoryAccountSelect d product) (product_accounts d))"

definition DirectoryAccounts :: "string \<Rightarrow> string \<Rightarrow> uint64 \<Rightarrow> db \<Rightarrow> DirectoryAccount list result" where
  "DirectoryAccounts product afterAccount limit d =
     (if \<not> ValidProductID product \<or> (afterAccount \<noteq> '''' \<and> \<not> ValidUUID afterAccount) \<or> limit < 1 \<or> 50 < limit then Inl ErrInvalid
      else for_each (\<lambda>r acc. rbind (scanDirectoryAccount r) (\<lambda>a. Inr (acc @ [a])))
             (take (unat limit) (filter (\<lambda>r. afterAccount < da_account r) (directory_rows d product))) [])"

definition validDirectoryPermission :: "DirectoryPermission \<Rightarrow> time \<Rightarrow> DirectoryPermission" where
  "validDirectoryPermission p createdAt =
     (if \<not> ValidUUID (dp_ID p) \<or> trim_space (dp_PolicyVersion p) = '''' \<or> \<not> 0 < dp_RecordedAt p \<or> \<not> 0 < createdAt \<or>
         (dp_Status p \<noteq> ''granted'' \<and> dp_Status p \<noteq> ''withdrawn'')
      then \<lparr>dp_Status = ''unknown'', dp_ID = '''', dp_PolicyVersion = '''', dp_RecordedAt = zero_time\<rparr> else p)"

text \<open>\<^verbatim>\<open>ORDER BY recorded_at DESC, created_at DESC, id DESC LIMIT 1\<close>\<close>

definition account_consents :: "db \<Rightarrow> string \<Rightarrow> string \<Rightarrow> string \<Rightarrow> consent list" where
  "account_consents d product account kind =
     filter (\<lambda>c. c_subject_type c = ''account'' \<and> c_subject_id c = account \<and> c_product_id c = product \<and>
       c_consent_type c = ''product_'' @ kind) (consents d)"

definition latest_consent :: "consent list \<Rightarrow> consent option" where
  "latest_consent cs =
     (case rev (sort_key (\<lambda>c. (c_recorded_at c, c_created_at c, c_id c)) cs) of [] \<Rightarrow> None | c # _ \<Rightarrow> Some c)"

definition directory_permission :: "db \<Rightarrow> string \<Rightarrow> string \<Rightarrow> string \<Rightarrow> DirectoryPermission" where
  "directory_permission d product account kind =
     (case latest_consent (account_consents d product account kind) of
        None \<Rightarrow> \<lparr>dp_Status = ''unknown'', dp_ID = '''', dp_PolicyVersion = '''', dp_RecordedAt = zero_time\<rparr>
      | Some c \<Rightarrow> validDirectoryPermission \<lparr>dp_Status = c_status c, dp_ID = c_id c, dp_PolicyVersion = c_policy_version c,
          dp_RecordedAt = c_recorded_at c\<rparr> (c_created_at c))"

definition enrichDirectoryAccount :: "db \<Rightarrow> DirectoryAccount \<Rightarrow> DirectoryAccount" where
  "enrichDirectoryAccount d r =
     r\<lparr>da_TelemetryPreference :=
         (case tfind tp_key (''account'', da_account r, pp_product_id (da_Profile r)) (telemetry_preferences d) of
            None \<Rightarrow> ''unknown''
          | Some t \<Rightarrow> if tp_preference t = ''allowed'' \<or> tp_preference t = ''denied'' then tp_preference t else ''unknown''),
       da_Permissions := (\<lambda>kind. if kind \<in> {''news'', ''research'', ''service''}
          then Some (directory_permission d (pp_product_id (da_Profile r)) (da_account r) kind) else None)\<rparr>"

definition DirectoryAccount_lookup :: "string \<Rightarrow> string \<Rightarrow> db \<Rightarrow> DirectoryAccount result" where
  "DirectoryAccount_lookup product account d =
     (if \<not> ValidProductID product \<or> \<not> ValidUUID account then Inl ErrInvalid
      else
        rbind (some_or ErrNotFound (List.find (\<lambda>r. da_account r = account) (directory_rows d product))) (\<lambda>row.
        rbind (scanDirectoryAccount row) (\<lambda>r.
        rbind (publicAccountDeletionPending d (da_PersonID r) '''' product) (\<lambda>pending.
        if pending then Inl ErrNotFound else Inr (enrichDirectoryAccount d r)))))"

definition AuditProductDirectory :: "string \<Rightarrow> string \<Rightarrow> string \<Rightarrow> string \<Rightarrow> time \<Rightarrow> db \<Rightarrow> db result" where
  "AuditProductDirectory auditID actor product action at d =
     (if actor = '''' \<or> 100 < length actor \<or> CHR ''@'' \<in> set actor \<or> has_control actor \<or> \<not> ValidProductID product \<or> is_zero at \<or>
         (action \<noteq> ''directory.query'' \<and> action \<noteq> ''directory.check'') then Inl ErrInvalid
      else appendPublicAccountAudit auditID product '''' actor action product at d)"

section \<open>Laws\<close>

lemma scan_loop:
  "for_each (\<lambda>r acc. rbind (scanDirectoryAccount r) (\<lambda>a. Inr (acc @ [a]))) rs acc =
     (if \<forall>r \<in> set rs. scanDirectoryAccount r = Inr r then Inr (acc @ rs) else Inl ErrNotFound)"
  by (induction rs arbitrary: acc) (auto simp: scanDirectoryAccount_def)

lemma directory_row_mem:
  "r \<in> set (directory_rows d product) \<longleftrightarrow> (\<exists>pa \<in> set (product_accounts d). directoryAccountSelect d product pa = Some r)"
  by (auto simp: directory_rows_def map_filter_def image_iff)

lemma select_facts:
  assumes "directoryAccountSelect d product pa = Some r"
  shows "da_Profile r = pa \<and> pp_product_id pa = product \<and> pp_status pa = ''active'' \<and> 0 < pp_verified_at pa \<and>
    da_Namespace r = ''account'' \<and> da_LinkageScope r = ''product'' \<and> da_ScopeKey r = product \<and>
    (\<exists>a p e. tfind a_id (pp_account_id pa) (accounts d) = Some a \<and> a_status a = ''active'' \<and> a_person_id a = da_PersonID r \<and>
       tfind p_id (da_PersonID r) (persons d) = Some p \<and> p_deleted_at p = None \<and>
       tfind ei_id (pp_email_identity_id pa) (email_identities d) = Some e \<and> ei_person_id e = da_PersonID r \<and>
       ei_scope_key e = product \<and> 0 < ei_verified_at e \<and> da_Email r = ei_email e)"
  using assms by (auto simp: directoryAccountSelect_def split: option.splits if_splits)

text \<open>The rows of a product are listed by strictly increasing account identifiers.\<close>

lemma directory_rows_sorted:
  assumes "db_keys d"
  shows "sorted_wrt (\<lambda>a b. da_account a < da_account b) (directory_rows d product)"
proof -
  have u: "uniq pp_key (product_accounts d)" using assms by (rule tb_product_accounts.keys_get)
  let ?sel = "filter (\<lambda>pa. directoryAccountSelect d product pa \<noteq> None) (product_accounts d)"
  have prof: "da_Profile (the (directoryAccountSelect d product pa)) = pa \<and> pp_product_id pa = product"
    if "pa \<in> set ?sel" for pa using that select_facts [of d product pa] by auto
  have "distinct (map pp_key ?sel)" using u by (simp add: uniq_def distinct_map_filter)
  moreover have "map pp_key ?sel = map (\<lambda>pa. (product, pp_account_id pa)) ?sel" using prof by (auto simp: pp_key_def)
  ultimately have "distinct (map pp_account_id ?sel)" by (metis (no_types, lifting) distinct_map comp_inj_on_iff inj_on_def map_map comp_apply)
  moreover have "map da_account (List.map_filter (directoryAccountSelect d product) (product_accounts d)) = map pp_account_id ?sel"
    using prof by (auto simp: map_filter_def)
  ultimately have "distinct (map da_account (List.map_filter (directoryAccountSelect d product) (product_accounts d)))" by simp
  then have "distinct (map da_account (directory_rows d product))" by (simp add: directory_rows_def distinct_map)
  moreover have "sorted (map da_account (directory_rows d product))" by (simp add: directory_rows_def)
  ultimately have "sorted_wrt (<) (map da_account (directory_rows d product))" using strict_sorted_iff by blast
  then show ?thesis by (simp add: sorted_wrt_map)
qed

lemma latest_consent_max:
  assumes "latest_consent cs = Some c"
  shows "c \<in> set cs \<and> (\<forall>x \<in> set cs. (c_recorded_at x, c_created_at x, c_id x) \<le> (c_recorded_at c, c_created_at c, c_id c))"
proof -
  let ?key = "\<lambda>c. (c_recorded_at c, c_created_at c, c_id c)"
  from assms obtain ys where ys: "sort_key ?key cs = ys @ [c]"
    by (cases "rev (sort_key ?key cs)") (auto simp: latest_consent_def)
  then have "set cs = set (ys @ [c])" by (metis set_sort)
  moreover have "sorted (map ?key (ys @ [c]))" using ys by (metis sorted_sort_key)
  then have "\<forall>x \<in> set (ys @ [c]). ?key x \<le> ?key c" by (auto simp: sorted_append)
  ultimately show ?thesis by simp
qed

text \<open>Walking the pages: each page starts behind the last account of the previous one.\<close>

fun walk_directory :: "nat \<Rightarrow> string \<Rightarrow> string \<Rightarrow> uint64 \<Rightarrow> db \<Rightarrow> DirectoryAccount list result" where
  "walk_directory 0 product after limit d = Inl (ErrMessage ''more pages'')"
| "walk_directory (Suc n) product after limit d =
     rbind (DirectoryAccounts product after limit d) (\<lambda>page.
     if length page < unat limit then Inr page
     else rbind (walk_directory n product (da_account (last page)) limit d) (\<lambda>rest. Inr (page @ rest)))"

lemma DirectoryAccounts_page:
  assumes "ValidProductID product" and "after = '''' \<or> ValidUUID after" and "1 \<le> limit" "limit \<le> 50"
    and "\<forall>r \<in> set (directory_rows d product). scanDirectoryAccount r = Inr r"
  shows "DirectoryAccounts product after limit d =
    Inr (take (unat limit) (filter (\<lambda>r. after < da_account r) (directory_rows d product)))"
  using assms by (auto simp: DirectoryAccounts_def scan_loop dest!: in_set_takeD)

lemma filter_after_take:
  assumes "sorted_wrt (\<lambda>a b. f a < (f b :: 'b :: linorder)) xs" and "take n xs \<noteq> []"
  shows "filter (\<lambda>r. f (last (take n xs)) < f r) xs = drop n xs"
proof -
  have split: "xs = take n xs @ drop n xs" by simp
  have "\<not> f (last (take n xs)) < f r" if "r \<in> set (take n xs)" for r
  proof -
    obtain ys where ys: "take n xs = ys @ [last (take n xs)]" using assms(2) by (metis append_butlast_last_id)
    have "sorted_wrt (\<lambda>a b. f a < f b) (ys @ [last (take n xs)])" using assms(1) ys by (metis sorted_wrt_take)
    with that ys show ?thesis by (metis append_is_Nil_conv dual_order.asym insert_iff list.simps(15) set_append sorted_wrt_append Un_iff less_irrefl list.set(1) empty_iff)
  qed
  moreover have "f (last (take n xs)) < f r" if "r \<in> set (drop n xs)" for r
    using assms that split last_in_set [OF assms(2)] by (metis sorted_wrt_append)
  ultimately have "filter (\<lambda>r. f (last (take n xs)) < f r) (take n xs) = []" "filter (\<lambda>r. f (last (take n xs)) < f r) (drop n xs) = drop n xs"
    by (simp_all add: filter_empty_conv filter_id_conv)
  then show ?thesis by (metis filter_append append_take_drop_id append_Nil)
qed

section \<open>Properties\<close>

text \<open>
  The directory discloses only eligible contacts. A lookup that succeeds returns
  the active, verified profile of that account in that product, whose account is
  active, whose person is not deleted and has no pending deletion for the product,
  with the address of the person's own verified identity in the product; and a
  permission is reported as granted only when the latest consent of the account
  itself for that purpose is a complete grant.
\<close>

theorem directory_discloses_eligible:
  assumes ok: "DirectoryAccount_lookup product account d = Inr r"
  shows "da_Profile r \<in> set (product_accounts d) \<and> pp_product_id (da_Profile r) = product \<and> da_account r = account \<and>
    pp_status (da_Profile r) = ''active'' \<and> 0 < pp_verified_at (da_Profile r) \<and>
    (\<exists>a p e. tfind a_id account (accounts d) = Some a \<and> a_status a = ''active'' \<and> a_person_id a = da_PersonID r \<and>
       tfind p_id (da_PersonID r) (persons d) = Some p \<and> p_deleted_at p = None \<and>
       e \<in> set (email_identities d) \<and> ei_person_id e = da_PersonID r \<and> ei_scope_key e = product \<and> 0 < ei_verified_at e \<and>
       da_Email r = ei_email e) \<and>
    (\<forall>q \<in> set (privacy_requests d). pr_request_type q = ''deletion'' \<longrightarrow> pr_subject_type q = ''person'' \<longrightarrow> pr_subject_id q = da_PersonID r \<longrightarrow>
       pr_scope q = ''all'' \<or> pr_product_id q = Some product \<longrightarrow> pr_status q \<in> {''cancelled'', ''rejected'', ''completed''}) \<and>
    (\<forall>kind permission. da_Permissions r kind = Some permission \<longrightarrow> dp_Status permission = ''granted'' \<longrightarrow>
       (\<exists>c \<in> set (consents d). c_subject_type c = ''account'' \<and> c_subject_id c = account \<and> c_product_id c = product \<and>
          c_consent_type c = ''product_'' @ kind \<and> c_status c = ''granted'' \<and> ValidUUID (c_id c) \<and>
          (\<forall>x \<in> set (consents d). c_subject_type x = ''account'' \<longrightarrow> c_subject_id x = account \<longrightarrow> c_product_id x = product \<longrightarrow>
             c_consent_type x = ''product_'' @ kind \<longrightarrow> c_recorded_at x \<le> c_recorded_at c)))"
proof -
  from ok obtain row where row: "List.find (\<lambda>r. da_account r = account) (directory_rows d product) = Some row"
    and pending: "publicAccountDeletionPending d (da_PersonID row) '''' product = Inr False" and r: "r = enrichDirectoryAccount d row"
    by (auto simp: DirectoryAccount_lookup_def scanDirectoryAccount_def split: if_splits)
  from find_Some_mem [OF row] obtain pa where pa: "pa \<in> set (product_accounts d)" "directoryAccountSelect d product pa = Some row"
    and account: "da_account row = account" by (auto simp: directory_row_mem)
  note facts = select_facts [OF pa(2)]
  have same: "da_Profile r = da_Profile row" "da_PersonID r = da_PersonID row" "da_Email r = da_Email row"
    by (simp_all add: r enrichDirectoryAccount_def)
  have none: "\<forall>q \<in> set (privacy_requests d). \<not> deletion_pending_row (da_PersonID row) '''' product q"
    using pending by (auto simp: publicAccountDeletionPending_def find_None_iff split: option.splits if_splits)
  have granted: "\<exists>c \<in> set (consents d). c_subject_type c = ''account'' \<and> c_subject_id c = account \<and> c_product_id c = product \<and>
          c_consent_type c = ''product_'' @ kind \<and> c_status c = ''granted'' \<and> ValidUUID (c_id c) \<and>
          (\<forall>x \<in> set (consents d). c_subject_type x = ''account'' \<longrightarrow> c_subject_id x = account \<longrightarrow> c_product_id x = product \<longrightarrow>
             c_consent_type x = ''product_'' @ kind \<longrightarrow> c_recorded_at x \<le> c_recorded_at c)"
    if k: "da_Permissions r kind = Some permission" "dp_Status permission = ''granted''" for kind permission
  proof -
    have "permission = directory_permission d product account kind"
      using k(1) facts account by (auto simp: r enrichDirectoryAccount_def split: if_splits)
    then obtain c where c: "latest_consent (account_consents d product account kind) = Some c" "c_status c = ''granted''" "ValidUUID (c_id c)"
      using k(2) by (auto simp: directory_permission_def validDirectoryPermission_def split: option.splits if_splits)
    from latest_consent_max [OF c(1)] c(2,3) show ?thesis by (intro bexI [of _ c]) (auto simp: account_consents_def)
  qed
  from facts account obtain a p e where ape: "tfind a_id account (accounts d) = Some a" "a_status a = ''active''" "a_person_id a = da_PersonID row"
    "tfind p_id (da_PersonID row) (persons d) = Some p" "p_deleted_at p = None"
    "tfind ei_id (pp_email_identity_id pa) (email_identities d) = Some e" "ei_person_id e = da_PersonID row"
    "ei_scope_key e = product" "0 < ei_verified_at e" "da_Email row = ei_email e" by auto
  then have contact: "\<exists>a p e. tfind a_id account (accounts d) = Some a \<and> a_status a = ''active'' \<and> a_person_id a = da_PersonID r \<and>
       tfind p_id (da_PersonID r) (persons d) = Some p \<and> p_deleted_at p = None \<and>
       e \<in> set (email_identities d) \<and> ei_person_id e = da_PersonID r \<and> ei_scope_key e = product \<and> 0 < ei_verified_at e \<and>
       da_Email r = ei_email e" unfolding same using tfind_mem [OF ape(6)] by blast
  have quiet: "\<forall>q \<in> set (privacy_requests d). pr_request_type q = ''deletion'' \<longrightarrow> pr_subject_type q = ''person'' \<longrightarrow> pr_subject_id q = da_PersonID r \<longrightarrow>
       pr_scope q = ''all'' \<or> pr_product_id q = Some product \<longrightarrow> pr_status q \<in> {''cancelled'', ''rejected'', ''completed''}"
    using none unfolding same deletion_pending_row_def by blast
  show ?thesis using facts pa(1) account contact quiet granted unfolding same by blast
qed

text \<open>A walk from any account on lists the candidates behind it.\<close>

lemma walk_from:
  assumes keys: "db_keys d" and valid: "ValidProductID product" "1 \<le> limit" "limit \<le> 50"
    and clean: "\<forall>r \<in> set (directory_rows d product). scanDirectoryAccount r = Inr r"
  shows "length xs div unat limit < n \<Longrightarrow> after = '''' \<or> ValidUUID after \<Longrightarrow> filter (\<lambda>r. after < da_account r) (directory_rows d product) = xs \<Longrightarrow>
    walk_directory n product after limit d = Inr xs"
proof (induction n arbitrary: after xs)
  case (Suc n)
  have pos: "0 < unat limit" using valid(2) by (simp add: word_le_nat_alt)
  note sorted = directory_rows_sorted [OF keys]
  have page: "DirectoryAccounts product after limit d = Inr (take (unat limit) xs)"
    using DirectoryAccounts_page [OF valid(1) Suc.prems(2) valid(2,3) clean] Suc.prems(3) by simp
  have srt: "sorted_wrt (\<lambda>a b. da_account a < da_account b) xs" using sorted Suc.prems(3) sorted_wrt_filter by blast
  show ?case
  proof (cases "length xs < unat limit")
    case True
    with page show ?thesis by simp
  next
    case False
    let ?last = "last (take (unat limit) xs)"
    have ne: "take (unat limit) xs \<noteq> []" using False pos by auto
    have mem: "?last \<in> set xs" using last_in_set [OF ne] by (rule in_set_takeD)
    have "ValidUUID (da_account ?last)" using mem clean Suc.prems(3) by (auto simp: scanDirectoryAccount_def split: if_splits)
    moreover have "filter (\<lambda>r. da_account ?last < da_account r) (directory_rows d product) = drop (unat limit) xs"
    proof -
      have "after < da_account ?last" using mem Suc.prems(3) by auto
      then have "filter (\<lambda>r. da_account ?last < da_account r) (directory_rows d product) = filter (\<lambda>r. da_account ?last < da_account r) xs"
        unfolding Suc.prems(3) [symmetric] filter_filter by (intro filter_cong) auto
      then show ?thesis using filter_after_take [OF srt ne] by simp
    qed
    moreover have "length (drop (unat limit) xs) div unat limit < n"
      using Suc.prems(1) False pos by (simp add: le_div_geq)
    ultimately have "walk_directory n product (da_account ?last) limit d = Inr (drop (unat limit) xs)" by (intro Suc.IH) auto
    with page False show ?thesis by simp
  qed
qed simp

text \<open>
  C18: paging is complete and orderly. Following the pages of any size from the
  beginning terminates, after at most one page more than the accounts fill, and
  yields every candidate of the product exactly once, in increasing order.
\<close>

theorem directory_walk_complete:
  assumes keys: "db_keys d" and valid: "ValidProductID product" "1 \<le> limit" "limit \<le> 50"
    and clean: "\<forall>r \<in> set (directory_rows d product). scanDirectoryAccount r = Inr r"
    and enough: "length (directory_rows d product) div unat limit < n"
  shows "walk_directory n product '''' limit d = Inr (directory_rows d product) \<and>
    sorted_wrt (\<lambda>a b. da_account a < da_account b) (directory_rows d product)"
proof -
  let ?all = "directory_rows d product"
  have "'''' < da_account r" if "r \<in> set ?all" for r
  proof -
    have "ValidUUID (da_account r)" using clean that by (auto simp: scanDirectoryAccount_def split: if_splits)
    then show ?thesis by (cases "da_account r") auto
  qed
  then have "filter (\<lambda>r. '''' < da_account r) ?all = ?all" by (simp add: filter_id_conv)
  with walk_from [OF keys valid clean, of ?all n "''''"] enough directory_rows_sorted [OF keys] show ?thesis by simp
qed

section \<open>Witnesses\<close>

definition directory_profile :: product_account where
  "directory_profile = sample_profile\<lparr>pp_account_id := sample_uuid, pp_email_identity_id := sample_uuid, pp_verified_at := second\<rparr>"

definition directory_db :: db where
  "directory_db = session_db\<lparr>
     persons := [\<lparr>p_id = sample_uuid, p_age_category = ''unknown'', p_guardian_relationship = None, p_created_at = 0,
       p_deleted_at = None, p_version = 1\<rparr>],
     email_identities := [\<lparr>ei_id = sample_uuid, ei_person_id = sample_uuid, ei_product_id = ''pict'', ei_namespace = ''account'',
       ei_linkage_scope = ''product'', ei_scope_key = ''pict'', ei_email = empty_cipher, ei_verified_at = second,
       ei_created_at = 0, ei_version = 1\<rparr>],
     accounts := [\<lparr>a_id = sample_uuid, a_person_id = sample_uuid, a_status = ''active'', a_created_at = 0,
       a_last_authenticated_at = None, a_version = 1\<rparr>],
     product_accounts := [directory_profile]\<rparr>"

lemma directory_db_keys: "db_keys directory_db"
  by (simp add: db_keys_def directory_db_def session_db_def empty_db_def)

lemma directory_db_rows:
  "\<exists>r. directory_rows directory_db ''pict'' = [r] \<and> da_account r = sample_uuid \<and> scanDirectoryAccount r = Inr r \<and> da_PersonID r = sample_uuid"
  by (simp add: directory_rows_def map_filter_def directoryAccountSelect_def directory_db_def directory_profile_def scanDirectoryAccount_def
      sample_profile_def duration_defs)

theorem directory_discloses_eligible_witness:
  "\<exists>r. DirectoryAccount_lookup ''pict'' sample_uuid directory_db = Inr r \<and> pp_status (da_Profile r) = ''active''"
proof -
  from directory_db_rows obtain row where row: "directory_rows directory_db ''pict'' = [row]" "da_account row = sample_uuid"
    "scanDirectoryAccount row = Inr row" by blast
  have "privacy_requests directory_db = []" by (simp add: directory_db_def session_db_def empty_db_def)
  then have ok: "DirectoryAccount_lookup ''pict'' sample_uuid directory_db = Inr (enrichDirectoryAccount directory_db row)"
    using row by (simp add: DirectoryAccount_lookup_def publicAccountDeletionPending_def sample_product_valid)
  from directory_discloses_eligible [OF ok] ok show ?thesis by blast
qed

theorem directory_walk_complete_witness:
  "\<exists>r. walk_directory 2 ''pict'' '''' 1 directory_db = Inr [r] \<and> da_account r = sample_uuid"
proof -
  from directory_db_rows obtain row where row: "directory_rows directory_db ''pict'' = [row]" "da_account row = sample_uuid"
    "scanDirectoryAccount row = Inr row" by blast
  have "walk_directory 2 ''pict'' '''' 1 directory_db = Inr (directory_rows directory_db ''pict'')"
    by (rule directory_walk_complete [OF directory_db_keys, THEN conjunct1]) (simp_all add: row sample_product_valid)
  with row show ?thesis by simp
qed

end
