(* ===== verification/Email_Address.thy ===== *)
theory Email_Address
  imports Id_Keys
begin

text \<open>
  E-mail addresses (\<^verbatim>\<open>internal/domain/email.go\<close>) and the associated data under
  which they are encrypted (\<^verbatim>\<open>internal/cryptokit/email_aad.go\<close>).  Go's address
  parser and its Unicode lower-casing are the parameters of \<open>mail_lib\<close>.
\<close>

record mail_lib =
  ml_ParseAddress :: "string \<Rightarrow> string option"
  ml_ToLower :: "string \<Rightarrow> string"

definition NormalizeEmail :: "mail_lib \<Rightarrow> string \<Rightarrow> string result" where
  "NormalizeEmail lib raw =
     (let trimmed = trim_space raw in
      if length trimmed < 3 \<or> 320 < length trimmed \<or> CHR ''@'' \<notin> set trimmed then Inl (ErrMessage ''invalid email'')
      else
        (case ml_ParseAddress lib trimmed of
           None \<Rightarrow> Inl (ErrMessage ''invalid email'')
         | Some address \<Rightarrow>
             if address \<noteq> trimmed \<or> CHR 0x0D \<in> set trimmed \<or> CHR 0x0A \<in> set trimmed \<or> NUL \<in> set trimmed
             then Inl (ErrMessage ''invalid email'') else Inr (ml_ToLower lib address)))"

definition EmailIdentityAAD :: "string \<Rightarrow> string \<Rightarrow> string \<Rightarrow> string \<Rightarrow> string" where
  "EmailIdentityAAD identity namespace linkageScope scopeKey =
     join_nul [''email-v1'', identity, namespace, linkageScope, scopeKey]"

text \<open>A normalised address is the lower-casing of the trimmed input, which is an address within the size limits.\<close>

lemma NormalizeEmail_Inr:
  "NormalizeEmail lib raw = Inr email \<longleftrightarrow>
     ml_ParseAddress lib (trim_space raw) = Some (trim_space raw) \<and> email = ml_ToLower lib (trim_space raw) \<and>
     3 \<le> length (trim_space raw) \<and> length (trim_space raw) \<le> 320 \<and> CHR ''@'' \<in> set (trim_space raw) \<and>
     {CHR 0x0D, CHR 0x0A, NUL} \<inter> set (trim_space raw) = {}"
  by (auto simp: NormalizeEmail_def Let_def split: option.splits if_splits)

end
