(* ===== verification/Product_Directory.thy ===== *)
theory Product_Directory
  imports Authz Email_Address Directory_Store
begin

text \<open>
  The product directory service (\<^verbatim>\<open>internal/productdirectory\<close>): scoped workloads page
  through the contacts of a product and check references that they hold.  The
  envelope encryption with its JSON and base64 framing is a parameter: \<open>seal aad p\<close>
  is the opaque text of a payload under the associated data \<open>aad\<close>, and \<open>unseal\<close>
  recovers it.  So are the decryption of an address and the address parser of the Go
  library.  Every repository call is a transaction of its own: \<open>view k\<close> is the state
  of the database at the \<open>k\<close>-th call of an operation, whatever others did meanwhile.
\<close>

section \<open>Model\<close>

record referencePayload =
  rp_Version :: int
  rp_Product :: string
  rp_Account :: string
  rp_ExpiresAt :: int

record Permission =
  pm_Status :: string
  pm_EvidenceID :: string
  pm_PolicyVersion :: string
  pm_RecordedAt :: time

record Entry =
  en_AccountKey :: string
  en_ContactReference :: string
  en_Email :: string
  en_VerifiedAt :: time
  en_HolderRole :: string
  en_Country :: string
  en_Region :: string
  en_Version :: uint64
  en_TelemetryPreference :: string
  en_Permissions :: "string \<rightharpoonup> Permission"

record QueryInput =
  qi_ProductID :: string
  qi_Cursor :: string
  qi_Limit :: uint64

record Page =
  pg_Product :: string
  pg_Entries :: "Entry list"
  pg_NextCursor :: string
  pg_DataAsOf :: time

record CheckResult =
  ck_ContactReference :: string
  ck_AccountKey :: string
  ck_State :: string
  ck_Reason :: string
  ck_Version :: uint64
  ck_Permissions :: "string \<rightharpoonup> Permission"

record Directory =
  dir_seal :: "string \<Rightarrow> referencePayload \<Rightarrow> string result"
  dir_unseal :: "string \<Rightarrow> string \<Rightarrow> referencePayload option"
  dir_decrypt :: "Ciphertext \<Rightarrow> string \<Rightarrow> string option"
  dir_mail :: mail_lib
  dir_subject :: "string \<Rightarrow> string \<Rightarrow> string \<Rightarrow> string \<Rightarrow> string"
  dir_products :: "string \<rightharpoonup> string"

definition directory_product :: "Directory \<Rightarrow> Principal \<Rightarrow> string \<Rightarrow> string result" where
  "directory_product dir caller requested =
     (if \<not> Has caller RoleProductDirectoryRead then Inl ErrForbidden
      else
        rbind (if requested = '''' then some_or ErrInvalid (SingleProduct caller) else Inr requested) (\<lambda>product.
        if dir_products dir product = None \<or> dir_products dir product = Some '''' \<or> \<not> AllowsProduct caller product
        then Inl ErrForbidden else Inr product))"

definition referenceAAD :: "string \<Rightarrow> string \<Rightarrow> string" where
  "referenceAAD purpose product = ''product-directory-reference-v1'' @ [NUL] @ purpose @ [NUL] @ product"

definition sealReference :: "Directory \<Rightarrow> time \<Rightarrow> string \<Rightarrow> string \<Rightarrow> string \<Rightarrow> string result" where
  "sealReference dir now purpose product account =
     dir_seal dir (referenceAAD purpose product)
       \<lparr>rp_Version = 1, rp_Product = product, rp_Account = account, rp_ExpiresAt = unix (now + 8 * 24 * hour)\<rparr>"

definition openReference :: "Directory \<Rightarrow> time \<Rightarrow> string \<Rightarrow> string \<Rightarrow> string \<Rightarrow> string result" where
  "openReference dir now purpose product encoded =
     (if length encoded = 0 \<or> 4096 < length encoded then Inl ErrInvalid
      else
        rbind (some_or ErrInvalid (dir_unseal dir (referenceAAD purpose product) encoded)) (\<lambda>payload.
        if rp_Version payload \<noteq> 1 \<or> rp_Product payload \<noteq> product \<or> \<not> ValidUUID (rp_Account payload) \<or>
           rp_ExpiresAt payload \<le> unix now then Inl ErrInvalid
        else Inr (rp_Account payload)))"

definition openEmail :: "Directory \<Rightarrow> string \<Rightarrow> DirectoryAccount \<Rightarrow> string result" where
  "openEmail dir product r =
     (if pp_product_id (da_Profile r) \<noteq> product \<or> pp_status (da_Profile r) \<noteq> ''active'' \<or> is_zero (pp_verified_at (da_Profile r)) \<or>
         \<not> ValidHolderRole (pp_holder_role (da_Profile r)) \<or> da_Namespace r \<noteq> ''account'' \<or> da_LinkageScope r \<noteq> ''product'' \<or>
         da_ScopeKey r \<noteq> product \<or> \<not> ValidUUID (pp_email_identity_id (da_Profile r))
      then Inl (ErrMessage ''invalid directory email context'')
      else
        (case dir_decrypt dir (da_Email r)
                (EmailIdentityAAD (pp_email_identity_id (da_Profile r)) (da_Namespace r) (da_LinkageScope r) (da_ScopeKey r)) of
           None \<Rightarrow> Inl (ErrMessage ''directory email unavailable'')
         | Some plain \<Rightarrow>
             (case NormalizeEmail (dir_mail dir) plain of
                Inl _ \<Rightarrow> Inl (ErrMessage ''directory email unavailable'')
              | Inr email \<Rightarrow> Inr email)))"

definition permissions :: "DirectoryAccount \<Rightarrow> string \<rightharpoonup> Permission" where
  "permissions r category =
     (if category \<in> {''news'', ''research'', ''service''} then
        Some (case da_Permissions r category of
           Some v \<Rightarrow>
             if (dp_Status v = ''granted'' \<or> dp_Status v = ''withdrawn'') \<and> ValidUUID (dp_ID v) \<and> dp_PolicyVersion v \<noteq> '''' \<and>
                \<not> is_zero (dp_RecordedAt v)
             then \<lparr>pm_Status = dp_Status v, pm_EvidenceID = dp_ID v, pm_PolicyVersion = dp_PolicyVersion v, pm_RecordedAt = dp_RecordedAt v\<rparr>
             else \<lparr>pm_Status = ''unknown'', pm_EvidenceID = '''', pm_PolicyVersion = '''', pm_RecordedAt = zero_time\<rparr>
         | None \<Rightarrow> \<lparr>pm_Status = ''unknown'', pm_EvidenceID = '''', pm_PolicyVersion = '''', pm_RecordedAt = zero_time\<rparr>)
      else None)"

definition account_key :: "Directory \<Rightarrow> string \<Rightarrow> string \<Rightarrow> string" where
  "account_key dir product account =
     dir_subject dir product (case dir_products dir product of None \<Rightarrow> '''' | Some audience \<Rightarrow> audience) ''account'' account"

definition entry_of :: "Directory \<Rightarrow> string \<Rightarrow> string \<Rightarrow> string \<Rightarrow> DirectoryAccount \<Rightarrow> Entry" where
  "entry_of dir product email reference r =
     \<lparr>en_AccountKey = account_key dir product (da_account r), en_ContactReference = reference, en_Email = email,
      en_VerifiedAt = pp_verified_at (da_Profile r), en_HolderRole = pp_holder_role (da_Profile r),
      en_Country = pp_country (da_Profile r), en_Region = pp_region (da_Profile r), en_Version = pp_version (da_Profile r),
      en_TelemetryPreference = da_TelemetryPreference r, en_Permissions = permissions r\<rparr>"

text \<open>One candidate of the loop of \<^verbatim>\<open>Query\<close>: the last account, the calls made so far and the entries.\<close>

definition query_candidate ::
  "Directory \<Rightarrow> (nat \<Rightarrow> db) \<Rightarrow> time \<Rightarrow> string \<Rightarrow> DirectoryAccount \<Rightarrow> string \<times> nat \<times> Entry list \<Rightarrow> (string \<times> nat \<times> Entry list) result"
where
  "query_candidate dir view now product candidate acc = (case acc of (latest, k, entries) \<Rightarrow>
     let account = da_account candidate in
     if pp_product_id (da_Profile candidate) \<noteq> product \<or> \<not> ValidUUID account \<or> account \<le> latest
     then Inl (ErrMessage ''invalid directory cursor ordering'')
     else
       (case DirectoryAccount_lookup product account (view k) of
          Inl e \<Rightarrow> if e = ErrNotFound then Inr (account, k + 1, entries) else Inl e
        | Inr r \<Rightarrow>
            if da_account r \<noteq> account then Inl (ErrMessage ''invalid authoritative directory account'')
            else
              rbind (openEmail dir product r) (\<lambda>email.
              rbind (sealReference dir now ''contact'' product account) (\<lambda>reference.
              Inr (account, k + 1, entries @ [entry_of dir product email reference r])))))"

definition Query ::
  "Directory \<Rightarrow> (nat \<Rightarrow> db) \<Rightarrow> time \<Rightarrow> string \<Rightarrow> Principal \<Rightarrow> QueryInput \<Rightarrow> (Page \<times> db) result"
where
  "Query dir view now auditID caller input =
     rbind (directory_product dir caller (qi_ProductID input)) (\<lambda>product.
     let limit = (if qi_Limit input = 0 then 25 else qi_Limit input) in
     if 50 < limit then Inl ErrInvalid
     else
       rbind (if qi_Cursor input = '''' then Inr '''' else openReference dir now ''cursor'' product (qi_Cursor input)) (\<lambda>after.
       rbind (DirectoryAccounts product after limit (view 0)) (\<lambda>candidates.
       if unat limit < length candidates then Inl (ErrMessage ''invalid directory page size'')
       else
         rbind (for_each (query_candidate dir view now product) candidates (after, 1, [])) (\<lambda>(latest, k, entries).
         rbind (if length candidates = unat limit then sealReference dir now ''cursor'' product latest else Inr '''') (\<lambda>cursor.
         rbind (AuditProductDirectory auditID (pn_ID caller) product ''directory.query'' now (view k)) (\<lambda>d'.
         Inr (\<lparr>pg_Product = product, pg_Entries = entries, pg_NextCursor = cursor, pg_DataAsOf = now\<rparr>, d')))))))"

text \<open>One reference of the loop of \<^verbatim>\<open>Check\<close>: the references seen, the calls made and the results.\<close>

definition check_reference ::
  "Directory \<Rightarrow> (nat \<Rightarrow> db) \<Rightarrow> time \<Rightarrow> string \<Rightarrow> string \<Rightarrow> string list \<times> nat \<times> CheckResult list \<Rightarrow>
   (string list \<times> nat \<times> CheckResult list) result"
where
  "check_reference dir view now product reference acc = (case acc of (seen, k, results) \<Rightarrow>
     if reference \<in> set seen then Inl ErrInvalid
     else
       (case openReference dir now ''contact'' product reference of
          Inl _ \<Rightarrow> Inr (reference # seen, k, results @ [\<lparr>ck_ContactReference = reference, ck_AccountKey = '''', ck_State = ''unknown'',
            ck_Reason = ''invalid_or_expired_reference'', ck_Version = 0, ck_Permissions = Map.empty\<rparr>])
        | Inr account \<Rightarrow>
            (case DirectoryAccount_lookup product account (view k) of
               Inl e \<Rightarrow>
                 if e = ErrNotFound
                 then Inr (reference # seen, k + 1, results @ [\<lparr>ck_ContactReference = reference, ck_AccountKey = '''', ck_State = ''inactive'',
                   ck_Reason = ''account_inactive_or_privacy_changed'', ck_Version = 0, ck_Permissions = Map.empty\<rparr>])
                 else Inl e
             | Inr r \<Rightarrow>
                 if pp_product_id (da_Profile r) \<noteq> product \<or> da_account r \<noteq> account \<or> pp_status (da_Profile r) \<noteq> ''active''
                 then Inl (ErrMessage ''invalid directory account context'')
                 else Inr (reference # seen, k + 1, results @ [\<lparr>ck_ContactReference = reference, ck_AccountKey = account_key dir product account,
                   ck_State = ''active'', ck_Reason = '''', ck_Version = pp_version (da_Profile r), ck_Permissions = permissions r\<rparr>]))))"

definition Check ::
  "Directory \<Rightarrow> (nat \<Rightarrow> db) \<Rightarrow> time \<Rightarrow> string \<Rightarrow> Principal \<Rightarrow> string \<Rightarrow> string list \<Rightarrow> (CheckResult list \<times> db) result"
where
  "Check dir view now auditID caller requested references =
     rbind (directory_product dir caller requested) (\<lambda>product.
     if length references = 0 \<or> 50 < length references then Inl ErrInvalid
     else
       rbind (for_each (check_reference dir view now product) references ([], 0, [])) (\<lambda>(seen, k, results).
       rbind (AuditProductDirectory auditID (pn_ID caller) product ''directory.check'' now (view k)) (\<lambda>d'.
       Inr (results, d'))))"

section \<open>Laws\<close>

lemma directory_product_scoped:
  assumes "directory_product dir caller requested = Inr product"
  shows "Has caller RoleProductDirectoryRead \<and> AllowsProduct caller product \<and> (requested \<noteq> '''' \<longrightarrow> product = requested)"
  using assms by (auto simp: directory_product_def split: if_splits)

text \<open>An entry that was disclosed: the database allowed it at some call of the operation.\<close>

definition disclosed :: "Directory \<Rightarrow> (nat \<Rightarrow> db) \<Rightarrow> string \<Rightarrow> Entry \<Rightarrow> bool" where
  "disclosed dir view product e \<longleftrightarrow> (\<exists>k account r. DirectoryAccount_lookup product account (view k) = Inr r \<and>
     openEmail dir product r = Inr (en_Email e) \<and> en_AccountKey e = account_key dir product account \<and> en_Permissions e = permissions r)"

lemma query_loop:
  assumes "for_each (query_candidate dir view now product) cs (after, k, es) = Inr (latest, k', es')"
    and "\<forall>e \<in> set es. disclosed dir view product e"
  shows "\<forall>e \<in> set es'. disclosed dir view product e"
  using assms
proof (induction cs arbitrary: after k es)
  case (Cons c cs)
  then obtain after' k1 es1 where one: "query_candidate dir view now product c (after, k, es) = Inr (after', k1, es1)"
    and rest: "for_each (query_candidate dir view now product) cs (after', k1, es1) = Inr (latest, k', es')" by (auto split: prod.splits)
  have "\<forall>e \<in> set es1. disclosed dir view product e"
    using one Cons.prems(2)
    by (auto simp: query_candidate_def Let_def disclosed_def entry_of_def split: if_splits sum.splits) blast+
  from Cons.IH [OF rest this] show ?case .
qed simp

lemma query_length:
  "for_each (query_candidate dir view now product) cs (after, k, es) = Inr (latest, k', es') \<Longrightarrow> length es' \<le> length es + length cs"
proof (induction cs arbitrary: after k es)
  case (Cons c cs)
  then obtain after' k1 es1 where one: "query_candidate dir view now product c (after, k, es) = Inr (after', k1, es1)"
    and rest: "for_each (query_candidate dir view now product) cs (after', k1, es1) = Inr (latest, k', es')" by (auto split: prod.splits)
  have "length es1 \<le> Suc (length es)" using one by (auto simp: query_candidate_def Let_def split: if_splits sum.splits)
  with Cons.IH [OF rest] show ?case by simp
qed simp

lemma check_loop:
  assumes "for_each (check_reference dir view now product) refs (seen, k, res) = Inr (seen', k', res')"
  shows "\<exists>new. res' = res @ new \<and> map ck_ContactReference new = refs \<and> distinct refs \<and> set refs \<inter> set seen = {} \<and>
    (\<forall>c \<in> set new. ck_State c = ''active'' \<longrightarrow> (\<exists>account j r. openReference dir now ''contact'' product (ck_ContactReference c) = Inr account \<and>
       DirectoryAccount_lookup product account (view j) = Inr r \<and> ck_AccountKey c = account_key dir product account \<and>
       ck_Permissions c = permissions r))"
  using assms
proof (induction refs arbitrary: seen k res)
  case (Cons reference refs)
  then obtain seen1 k1 res1 where one: "check_reference dir view now product reference (seen, k, res) = Inr (seen1, k1, res1)"
    and rest: "for_each (check_reference dir view now product) refs (seen1, k1, res1) = Inr (seen', k', res')" by (auto split: prod.splits)
  obtain c where c: "seen1 = reference # seen" "reference \<notin> set seen" "res1 = res @ [c]" "ck_ContactReference c = reference"
    "ck_State c = ''active'' \<longrightarrow> (\<exists>account j r. openReference dir now ''contact'' product reference = Inr account \<and>
       DirectoryAccount_lookup product account (view j) = Inr r \<and> ck_AccountKey c = account_key dir product account \<and>
       ck_Permissions c = permissions r)"
    using one by (auto simp: check_reference_def split: if_splits sum.splits) blast
  from Cons.IH [OF rest] obtain new where new: "res' = res1 @ new" "map ck_ContactReference new = refs" "distinct refs"
    "set refs \<inter> set seen1 = {}"
    "\<forall>c \<in> set new. ck_State c = ''active'' \<longrightarrow> (\<exists>account j r. openReference dir now ''contact'' product (ck_ContactReference c) = Inr account \<and>
       DirectoryAccount_lookup product account (view j) = Inr r \<and> ck_AccountKey c = account_key dir product account \<and>
       ck_Permissions c = permissions r)" by blast
  from c new show ?case by (intro exI [of _ "c # new"]) auto
qed simp

section \<open>Properties\<close>


text \<open>
  Contact references are opaque, scoped and temporary. With an envelope that
  returns what was sealed exactly under the same associated data, a sealed reference
  opens to its account for the same purpose in the same product for eight days, and
  for nothing else: a cursor is not a contact reference, a reference of one product
  is worthless in another, and an old one is refused.
\<close>

theorem reference_roundtrip:
  assumes authentic: "\<And>aad payload text aad'. dir_seal dir aad payload = Inr text \<Longrightarrow>
      dir_unseal dir aad' text = (if aad' = aad then Some payload else None) \<and> 0 < length text \<and> length text \<le> 4096"
    and sealed: "sealReference dir now purpose product account = Inr text"
    and plain: "NUL \<notin> set purpose" "NUL \<notin> set purpose'" and account: "ValidUUID account"
  shows "openReference dir now' purpose' product' text =
    (if purpose' = purpose \<and> product' = product \<and> unix now' < unix (now + 8 * 24 * hour) then Inr account else Inl ErrInvalid)"
proof -
  have aad: "referenceAAD purpose' product' = referenceAAD purpose product \<longleftrightarrow> purpose' = purpose \<and> product' = product"
    using plain by (auto simp: referenceAAD_def append_sep_inject)
  note a = authentic [OF sealed [unfolded sealReference_def], of "referenceAAD purpose' product'"]
  then show ?thesis by (auto simp: openReference_def aad account)
qed

text \<open>
  A check answers every reference once. The results of a check name the given
  references in their order, without repetition, and a reference is reported as
  active only when it opens to an account that the authoritative lookup allowed
  during the call, with the permissions found there.
\<close>

theorem directory_check_answers:
  assumes ok: "Check dir view now auditID caller requested references = Inr (results, d')"
  shows "\<exists>product. Has caller RoleProductDirectoryRead \<and> AllowsProduct caller product \<and>
    map ck_ContactReference results = references \<and> distinct references \<and>
    (\<forall>c \<in> set results. ck_State c = ''active'' \<longrightarrow> (\<exists>account j r. openReference dir now ''contact'' product (ck_ContactReference c) = Inr account \<and>
       DirectoryAccount_lookup product account (view j) = Inr r \<and> ck_AccountKey c = account_key dir product account \<and>
       ck_Permissions c = permissions r))"
proof -
  from ok obtain product seen k where scope: "directory_product dir caller requested = Inr product"
    and loop: "for_each (check_reference dir view now product) references ([], 0, []) = Inr (seen, k, results)"
    by (auto simp: Check_def split: if_splits prod.splits)
  from check_loop [OF loop] directory_product_scoped [OF scope] show ?thesis by auto
qed

section \<open>Witnesses\<close>

definition sample_payload :: referencePayload where
  "sample_payload = \<lparr>rp_Version = 1, rp_Product = ''pict'', rp_Account = sample_uuid, rp_ExpiresAt = unix (second + 8 * 24 * hour)\<rparr>"

definition sample_mail :: mail_lib where
  "sample_mail = \<lparr>ml_ParseAddress = Some, ml_ToLower = id\<rparr>"

definition sample_directory :: Directory where
  "sample_directory = \<lparr>
     dir_seal = (\<lambda>aad p. if aad = referenceAAD ''contact'' ''pict'' \<and> p = sample_payload then Inr ''t'' else Inl ErrInvalid),
     dir_unseal = (\<lambda>aad text. if aad = referenceAAD ''contact'' ''pict'' \<and> text = ''t'' then Some sample_payload else None),
     dir_decrypt = (\<lambda>_ _. Some ''a@b.c''), dir_mail = sample_mail,
     dir_subject = (\<lambda>product audience kind root. root), dir_products = Map.empty(''pict'' \<mapsto> ''aud'')\<rparr>"

definition directory_reader :: Principal where
  "directory_reader = \<lparr>pn_ID = ''w'', pn_roles = [RoleProductDirectoryRead], pn_products = [''pict'']\<rparr>"

lemma sample_sealed: "sealReference sample_directory second ''contact'' ''pict'' sample_uuid = Inr ''t''"
  by (simp add: sealReference_def sample_directory_def sample_payload_def)

theorem reference_roundtrip_witness:
  "sealReference sample_directory second ''contact'' ''pict'' sample_uuid = Inr ''t'' \<and>
   openReference sample_directory (2 * second) ''contact'' ''pict'' ''t'' = Inr sample_uuid \<and>
   openReference sample_directory (2 * second) ''cursor'' ''pict'' ''t'' = Inl ErrInvalid"
proof -
  have law: "\<And>aad payload t aad'. dir_seal sample_directory aad payload = Inr t \<Longrightarrow>
      dir_unseal sample_directory aad' t = (if aad' = aad then Some payload else None) \<and> 0 < length t \<and> length t \<le> 4096"
    by (auto simp: sample_directory_def split: if_splits)
  note r = reference_roundtrip [of sample_directory, OF law sample_sealed]
  show ?thesis using sample_sealed r [of "''contact''" "2 * second" "''pict''"] r [of "''cursor''" "2 * second" "''pict''"]
    by (simp add: unix_def duration_defs)
qed

lemma sample_email: "NormalizeEmail sample_mail ''a@b.c'' = Inr ''a@b.c''"
proof -
  have "trim_space ''a@b.c'' = ''a@b.c''" by (rule printable_clean) auto
  then show ?thesis by (simp add: NormalizeEmail_def sample_mail_def Let_def)
qed

lemma sample_lookup: "\<exists>r. DirectoryAccount_lookup ''pict'' sample_uuid directory_db = Inr r \<and> openEmail sample_directory ''pict'' r = Inr ''a@b.c'' \<and>
    da_account r = sample_uuid"
  by (simp add: DirectoryAccount_lookup_def sample_product_valid directory_rows_def map_filter_def directoryAccountSelect_def directory_db_def
      directory_profile_def scanDirectoryAccount_def publicAccountDeletionPending_def enrichDirectoryAccount_def openEmail_def sample_email
      sample_directory_def session_sample_defs is_zero_def zero_time_def ValidHolderRole_def)

lemma sample_audit:
  assumes "action = ''directory.query'' \<or> action = ''directory.check''"
  shows "\<exists>d'. AuditProductDirectory ''a'' ''w'' ''pict'' action second directory_db = Inr d'"
proof -
  have "\<not> has_control ''w''" by (rule printable_clean) auto
  then show ?thesis
    using assms by (simp add: AuditProductDirectory_def sample_product_valid is_zero_def zero_time_def duration_defs appendPublicAccountAudit_def
        insert_row_eval directory_db_def session_db_def empty_db_def)
qed

lemma sample_scope: "directory_product sample_directory directory_reader ''pict'' = Inr ''pict''"
  by (simp add: directory_product_def directory_reader_def Has_def AllowsProduct_def sample_directory_def)


theorem directory_check_answers_witness:
  "\<exists>results d'. Check sample_directory (\<lambda>_. directory_db) second ''a'' directory_reader ''pict'' [''u''] = Inr (results, d') \<and>
     map ck_ContactReference results = [''u'']"
proof -
  from sample_audit obtain d' where audit: "AuditProductDirectory ''a'' ''w'' ''pict'' ''directory.check'' second directory_db = Inr d'" by blast
  have "openReference sample_directory second ''contact'' ''pict'' ''u'' = Inl ErrInvalid"
    by (simp add: openReference_def sample_directory_def)
  then have "\<exists>results. Check sample_directory (\<lambda>_. directory_db) second ''a'' directory_reader ''pict'' [''u''] = Inr (results, d')"
    using audit by (simp add: Check_def sample_scope check_reference_def) (simp add: directory_reader_def)
  then obtain results where ok: "Check sample_directory (\<lambda>_. directory_db) second ''a'' directory_reader ''pict'' [''u''] = Inr (results, d')" by blast
  from directory_check_answers [OF ok] have "map ck_ContactReference results = [''u'']" by blast
  with ok show ?thesis by (intro exI conjI)
qed

end
