(* ===== verification/Token_Codec.thy ===== *)
theory Token_Codec
  imports Id_Keys
begin

text \<open>
  The compact token format of \<^verbatim>\<open>internal/token/codec.go\<close>: unpadded URL base64,
  the split at dots, the strict reader of JSON objects that refuses unknown and
  repeated names, and signing and verifying a payload under a key ring.  Ed25519
  and the text syntax of JSON are parameters (\<open>ed_sign\<close>, \<open>ed_verify\<close>, \<open>ed_public\<close>,
  \<open>js_render\<close>, \<open>js_parse\<close>).  The locale \<open>claims_codec\<close> states what a claims type
  owes the format and proves the round trip of signing and verifying once.
\<close>

section \<open>Unpadded URL base64\<close>

definition b64_digit :: "nat \<Rightarrow> char" where
  "b64_digit n =
     char_of (if n < 26 then 65 + n else if n < 52 then 71 + n else if n < 62 then n - 4 else if n = 62 then 45 else 95)"

definition b64_value :: "char \<Rightarrow> nat option" where
  "b64_value c =
     (if is_upper c then Some (code c - 65)
      else if is_lower c then Some (code c - 71)
      else if is_digit c then Some (code c + 4)
      else if code c = 45 then Some 62
      else if code c = 95 then Some 63
      else None)"

fun b64_pack :: "nat list \<Rightarrow> nat list" where
  "b64_pack [] = []"
| "b64_pack [a] = [a div 4, (a mod 4) * 16]"
| "b64_pack [a, b] = [a div 4, (a mod 4) * 16 + b div 16, (b mod 16) * 4]"
| "b64_pack (a # b # c # s) =
     [a div 4, (a mod 4) * 16 + b div 16, (b mod 16) * 4 + c div 64, c mod 64] @ b64_pack s"

fun b64_unpack :: "nat list \<Rightarrow> nat list option" where
  "b64_unpack [] = Some []"
| "b64_unpack [x] = None"
| "b64_unpack [x, y] = Some [x * 4 + y div 16]"
| "b64_unpack [x, y, z] = Some [x * 4 + y div 16, (y mod 16) * 16 + z div 4]"
| "b64_unpack (x # y # z # w # s) =
     map_option (\<lambda>t. [x * 4 + y div 16, (y mod 16) * 16 + z div 4, (z mod 4) * 64 + w] @ t) (b64_unpack s)"

text \<open>
  \<^verbatim>\<open>RawURLEncoding\<close>: the decoder skips line ends, refuses a single left-over digit
  and does not look at the unused low bits of the last digit.
\<close>

definition rawBase64 :: "bytes \<Rightarrow> string" where
  "rawBase64 s = map b64_digit (b64_pack (map of_char s))"

definition base64_decode :: "string \<Rightarrow> bytes option" where
  "base64_decode s =
     (case those (map b64_value (filter (\<lambda>c. code c \<noteq> 10 \<and> code c \<noteq> 13) s)) of
        None \<Rightarrow> None
      | Some ds \<Rightarrow> map_option (map char_of) (b64_unpack ds))"

lemma code_b64_digit:
  "n < 64 \<Longrightarrow> code (b64_digit n) =
     (if n < 26 then 65 + n else if n < 52 then 71 + n else if n < 62 then n - 4 else if n = 62 then 45 else 95)"
  by (simp add: b64_digit_def of_char_of)

lemma b64_value_digit: "n < 64 \<Longrightarrow> b64_value (b64_digit n) = Some n"
  by (auto simp: b64_value_def code_b64_digit char_class_defs)

lemma b64_digit_graphic: "n < 64 \<Longrightarrow> 45 \<le> code (b64_digit n) \<and> code (b64_digit n) \<noteq> 46 \<and> code (b64_digit n) < 128"
  by (auto simp: code_b64_digit)

lemma byte_bits:
  assumes "(a::nat) < 256"
  shows "a div 4 < 64" "a div 16 < 16" "a div 64 < 4"
  using assms by auto

lemma b64_pack_bound: "\<forall>a \<in> set s. a < 256 \<Longrightarrow> n \<in> set (b64_pack s) \<Longrightarrow> n < 64"
proof (induction s rule: b64_pack.induct)
  case (4 a b c s)
  have "(a mod 4) * 16 + b div 16 < 64" "(b mod 16) * 4 + c div 64 < 64"
    using byte_bits [of b] byte_bits [of c] "4.prems"(1) mod_less_divisor [of 4 a] mod_less_divisor [of 16 b] by auto
  with 4 show ?case by (auto simp: byte_bits)
next
  case (3 a b)
  have "(a mod 4) * 16 + b div 16 < 64" "(b mod 16) * 4 < 64"
    using byte_bits [of b] "3.prems"(1) mod_less_divisor [of 4 a] mod_less_divisor [of 16 b] by auto
  with 3 show ?case by (auto simp: byte_bits)
next
  case (2 a)
  have "(a mod 4) * 16 < 64" using mod_less_divisor [of 4 a] by auto
  with 2 show ?case by (auto simp: byte_bits)
qed simp

lemma b64_unpack_pack: "\<forall>a \<in> set s. a < 256 \<Longrightarrow> b64_unpack (b64_pack s) = Some s"
proof (induction s rule: b64_pack.induct)
  case (4 a b c s)
  have "((a mod 4) * 16 + b div 16) div 16 = a mod 4" "((a mod 4) * 16 + b div 16) mod 16 = b div 16"
    "((b mod 16) * 4 + c div 64) div 4 = b mod 16" "((b mod 16) * 4 + c div 64) mod 4 = c div 64"
    using byte_bits [of b] byte_bits [of c] "4.prems" by auto
  with 4 show ?case by (simp add: mult.commute)
next
  case (3 a b)
  have "((a mod 4) * 16 + b div 16) div 16 = a mod 4" "((a mod 4) * 16 + b div 16) mod 16 = b div 16"
    using byte_bits [of b] "3.prems" by auto
  with 3 show ?case by (simp add: mult.commute)
qed (simp_all add: mult.commute)

lemma char_codes_bound: "\<forall>a \<in> set (map code s). a < 256"
  by simp

lemma those_map_Some: "(\<And>x. x \<in> set xs \<Longrightarrow> f x = Some (g x)) \<Longrightarrow> those (map f xs) = Some (map g xs)"
  by (induction xs) auto

lemma rawBase64_char:
  assumes "c \<in> set (rawBase64 s)"
  shows "45 \<le> code c" "code c \<noteq> 46" "code c < 128"
proof -
  from assms obtain n where "n \<in> set (b64_pack (map code s))" "c = b64_digit n" by (auto simp: rawBase64_def)
  then have "n < 64" using b64_pack_bound [OF char_codes_bound] by blast
  with \<open>c = b64_digit n\<close> show "45 \<le> code c" "code c \<noteq> 46" "code c < 128" using b64_digit_graphic by auto
qed

theorem base64_roundtrip [simp]: "base64_decode (rawBase64 s) = Some s"
proof -
  have keep: "filter (\<lambda>c. code c \<noteq> 10 \<and> code c \<noteq> 13) (rawBase64 s) = rawBase64 s"
    using rawBase64_char(1) [of _ s] by (fastforce simp: filter_id_conv)
  have "those (map b64_value (rawBase64 s)) = Some (b64_pack (map code s))"
    unfolding rawBase64_def map_map
    using those_map_Some [where g = id and f = "b64_value \<circ> b64_digit" and xs = "b64_pack (map code s)"]
      b64_pack_bound [OF char_codes_bound, of _ s] by (simp add: b64_value_digit)
  then show ?thesis by (simp add: base64_decode_def keep b64_unpack_pack [OF char_codes_bound] comp_def)
qed

section \<open>Splitting at dots\<close>

abbreviation dot :: char where "dot \<equiv> CHR ''.''"

fun split_dot :: "string \<Rightarrow> string list" where
  "split_dot [] = [[]]"
| "split_dot (c # s) =
     (if c = dot then [] # split_dot s
      else case split_dot s of [] \<Rightarrow> [[c]] | p # ps \<Rightarrow> (c # p) # ps)"

lemma split_dot_none: "dot \<notin> set a \<Longrightarrow> split_dot a = [a]"
  by (induction a) auto

lemma split_dot_append: "dot \<notin> set a \<Longrightarrow> split_dot (a @ dot # s) = a # split_dot s"
  by (induction a) auto

lemma split_dot_nonempty [simp]: "split_dot s \<noteq> []"
  by (cases s) (auto split: list.splits)

text \<open>Joining the parts again gives the string back.\<close>

fun join_dot :: "string list \<Rightarrow> string" where
  "join_dot [] = []"
| "join_dot [p] = p"
| "join_dot (p # q # ps) = p @ dot # join_dot (q # ps)"

lemma join_dot_Cons: "ps \<noteq> [] \<Longrightarrow> join_dot (p # ps) = p @ dot # join_dot ps"
  by (cases ps) auto

lemma join_split_dot: "join_dot (split_dot s) = s"
proof (induction s)
  case (Cons c s)
  obtain p ps where p: "split_dot s = p # ps" by (cases "split_dot s") auto
  have "join_dot ((c # p) # ps) = c # join_dot (p # ps)" by (cases ps) auto
  then show ?case using Cons p by (auto simp: join_dot_Cons)
qed simp

lemma rawBase64_dot [simp]: "dot \<notin> set (rawBase64 s)"
proof
  assume "dot \<in> set (rawBase64 s)"
  from rawBase64_char(2) [OF this] show False by simp
qed

section \<open>JSON objects\<close>

text \<open>
  The values of a JSON object as the token structures can read them: strings,
  integer literals, \<^verbatim>\<open>null\<close>, arrays of strings and nulls, and everything else.
\<close>

datatype json =
    JStr string
  | JInt int
  | JNull
  | JStrings "string option list"
  | JOther

type_synonym members = "(string \<times> json) list"

text \<open>
  The library functions behind the format: Ed25519 on the 32-byte seed of a key,
  and the text of a JSON object.  \<open>js_parse\<close> gives the members of a text that is
  exactly one JSON object, in order and with repetitions.
\<close>

record token_lib =
  ed_public :: "bytes \<Rightarrow> bytes"
  ed_sign :: "bytes \<Rightarrow> string \<Rightarrow> bytes"
  ed_verify :: "bytes \<Rightarrow> string \<Rightarrow> bytes \<Rightarrow> bool"
  js_render :: "members \<Rightarrow> bytes"
  js_parse :: "bytes \<Rightarrow> members option"

fun json_sendable :: "json \<Rightarrow> bool" where
  "json_sendable (JStr s) = utf8_valid s"
| "json_sendable (JStrings ss) = list_all (\<lambda>s. s \<noteq> None \<and> utf8_valid (the s)) ss"
| "json_sendable JOther = False"
| "json_sendable _ = True"

definition members_sendable :: "members \<Rightarrow> bool" where
  "members_sendable ms \<longleftrightarrow> list_all (\<lambda>(n, v). utf8_valid n \<and> json_sendable v) ms"

text \<open>
  What the code relies on: a signature verifies under the public key of its seed,
  and the encoder writes valid UTF-8 that reads back as the same members.
\<close>

definition lib_sound :: "token_lib \<Rightarrow> bool" where
  "lib_sound lib \<longleftrightarrow>
     (\<forall>seed m. ed_verify lib (ed_public lib seed) m (ed_sign lib seed m)) \<and>
     (\<forall>ms. members_sendable ms \<longrightarrow> utf8_valid (js_render lib ms) \<and> js_parse lib (js_render lib ms) = Some ms)"

text \<open>\<^verbatim>\<open>json.Unmarshal\<close> of one member: an absent name or \<^verbatim>\<open>null\<close> leaves the zero value.\<close>

definition type_error :: error where "type_error = ErrMessage ''cannot unmarshal value''"

definition read_string :: "members \<Rightarrow> string \<Rightarrow> string result" where
  "read_string ms n = (case map_of ms n of
     None \<Rightarrow> Inr '''' | Some JNull \<Rightarrow> Inr '''' | Some (JStr s) \<Rightarrow> Inr s | Some _ \<Rightarrow> Inl type_error)"

definition read_pointer :: "members \<Rightarrow> string \<Rightarrow> string option result" where
  "read_pointer ms n = (case map_of ms n of
     None \<Rightarrow> Inr None | Some JNull \<Rightarrow> Inr None | Some (JStr s) \<Rightarrow> Inr (Some s) | Some _ \<Rightarrow> Inl type_error)"

definition in_int64 :: "int \<Rightarrow> bool" where
  "in_int64 i \<longleftrightarrow> - (2 ^ 63) \<le> i \<and> i < 2 ^ 63"

definition read_int64 :: "members \<Rightarrow> string \<Rightarrow> int result" where
  "read_int64 ms n = (case map_of ms n of
     None \<Rightarrow> Inr 0 | Some JNull \<Rightarrow> Inr 0
   | Some (JInt i) \<Rightarrow> if in_int64 i then Inr i else Inl type_error | Some _ \<Rightarrow> Inl type_error)"

definition read_strings :: "members \<Rightarrow> string \<Rightarrow> string list result" where
  "read_strings ms n = (case map_of ms n of
     None \<Rightarrow> Inr [] | Some JNull \<Rightarrow> Inr []
   | Some (JStrings ss) \<Rightarrow> Inr (map (\<lambda>s. case s of None \<Rightarrow> '''' | Some t \<Rightarrow> t) ss) | Some _ \<Rightarrow> Inl type_error)"

lemmas read_defs = read_string_def read_pointer_def read_int64_def read_strings_def

text \<open>
  \<^verbatim>\<open>decodeTokenJSON\<close>: names are compared exactly, and each may appear once.
\<close>

definition take_field :: "string list \<Rightarrow> string \<times> json \<Rightarrow> string list \<Rightarrow> string list result" where
  "take_field known m seen =
     (if fst m \<notin> set known \<or> fst m \<in> set seen then Inl (ErrMessage ''invalid JSON field'') else Inr (fst m # seen))"

definition decodeTokenJSON :: "token_lib \<Rightarrow> string list \<Rightarrow> (members \<Rightarrow> 'c result) \<Rightarrow> bytes \<Rightarrow> 'c result" where
  "decodeTokenJSON lib known read payload =
     (if \<not> utf8_valid payload then Inl (ErrMessage ''invalid JSON encoding'')
      else rbind (some_or (ErrMessage ''invalid JSON object'') (js_parse lib payload)) (\<lambda>ms.
        rbind (for_each (take_field known) ms []) (\<lambda>_. read ms)))"

lemma take_fields_iff:
  "(\<exists>seen'. for_each (take_field known) ms seen = Inr seen') \<longleftrightarrow>
     distinct (map fst ms) \<and> fst ` set ms \<subseteq> set known \<and> fst ` set ms \<inter> set seen = {}"
proof (induction ms arbitrary: seen)
  case (Cons m ms)
  show ?case
  proof (cases "fst m \<notin> set known \<or> fst m \<in> set seen")
    case True
    then show ?thesis by (auto simp: take_field_def)
  next
    case False
    then have "(\<exists>seen'. for_each (take_field known) (m # ms) seen = Inr seen') \<longleftrightarrow>
        (\<exists>seen'. for_each (take_field known) ms (fst m # seen) = Inr seen')"
      by (simp add: take_field_def)
    with False show ?thesis unfolding Cons.IH by auto
  qed
qed simp

lemma decodeTokenJSON_Inr:
  "decodeTokenJSON lib known read payload = Inr c \<longleftrightarrow>
     utf8_valid payload \<and> (\<exists>ms. js_parse lib payload = Some ms \<and> distinct (map fst ms) \<and>
       fst ` set ms \<subseteq> set known \<and> read ms = Inr c)"
  using take_fields_iff [of known _ "[]"] by (auto simp: decodeTokenJSON_def)

section \<open>Signing and verifying payloads\<close>

record Signer =
  sg_privateKey :: bytes
  sg_publicKeys :: "(string \<times> bytes) list"
  sg_keyID :: string
  sg_issuer :: string
  sg_defaultTTL :: duration
  sg_maxTTL :: duration

definition header_members :: "string \<Rightarrow> members" where
  "header_members kid = [(''alg'', JStr ''EdDSA''), (''kid'', JStr kid), (''typ'', JStr ''JWT'')]"

definition signing_input :: "token_lib \<Rightarrow> Signer \<Rightarrow> members \<Rightarrow> string" where
  "signing_input lib s ms = rawBase64 (js_render lib (header_members (sg_keyID s))) @ dot # rawBase64 (js_render lib ms)"

definition signPayload :: "token_lib \<Rightarrow> Signer \<Rightarrow> members \<Rightarrow> string result" where
  "signPayload lib s ms =
     (let body = signing_input lib s ms;
          encoded = body @ dot # rawBase64 (ed_sign lib (sg_privateKey s) body)
      in if length encoded > 8192 then Inl (ErrMessage ''token exceeds size limit'') else Inr encoded)"

definition read_header :: "members \<Rightarrow> (string \<times> string \<times> string) result" where
  "read_header ms =
     rbind (read_string ms ''alg'') (\<lambda>alg. rbind (read_string ms ''typ'') (\<lambda>typ.
       rbind (read_string ms ''kid'') (\<lambda>kid. Inr (alg, typ, kid))))"

definition token_key :: "token_lib \<Rightarrow> string \<Rightarrow> string result" where
  "token_key lib part =
     (case base64_decode part of
        None \<Rightarrow> Inl (ErrMessage ''invalid token header'')
      | Some headerPayload \<Rightarrow>
          (case decodeTokenJSON lib [''alg'', ''typ'', ''kid''] read_header headerPayload of
             Inr (alg, typ, kid) \<Rightarrow>
               if alg \<noteq> ''EdDSA'' \<or> typ \<noteq> ''JWT'' then Inl (ErrMessage ''invalid token header'') else Inr kid
           | Inl _ \<Rightarrow> Inl (ErrMessage ''invalid token header'')))"

definition signature_ok :: "token_lib \<Rightarrow> Signer \<Rightarrow> string \<Rightarrow> string \<Rightarrow> string \<Rightarrow> bool" where
  "signature_ok lib s kid body part \<longleftrightarrow>
     (case (map_of (sg_publicKeys s) kid, base64_decode part) of
        (Some key, Some signature) \<Rightarrow> ed_verify lib key body signature
      | _ \<Rightarrow> False)"

definition verifyPayload :: "token_lib \<Rightarrow> Signer \<Rightarrow> string list \<Rightarrow> (members \<Rightarrow> 'c result) \<Rightarrow> string \<Rightarrow> 'c result" where
  "verifyPayload lib s known read encoded =
     (if length encoded > 8192 then Inl (ErrMessage ''invalid token structure'')
      else case split_dot encoded of
        [p0, p1, p2] \<Rightarrow>
          rbind (token_key lib p0) (\<lambda>kid.
            if \<not> signature_ok lib s kid (p0 @ dot # p1) p2 then Inl (ErrMessage ''invalid token signature'')
            else rbind (some_or (ErrMessage ''invalid token payload'') (base64_decode p1)) (\<lambda>payload.
              case decodeTokenJSON lib known read payload of
                Inr c \<Rightarrow> Inr c | Inl _ \<Rightarrow> Inl (ErrMessage ''invalid token claims'')))
      | _ \<Rightarrow> Inl (ErrMessage ''invalid token structure''))"

text \<open>The members that a verified token carries, whichever structure they are read into.\<close>

definition token_carries :: "token_lib \<Rightarrow> Signer \<Rightarrow> string \<Rightarrow> members \<Rightarrow> bool" where
  "token_carries lib s encoded ms \<longleftrightarrow>
     (\<exists>p0 p1 p2 kid payload. split_dot encoded = [p0, p1, p2] \<and> token_key lib p0 = Inr kid \<and>
        signature_ok lib s kid (p0 @ dot # p1) p2 \<and> base64_decode p1 = Some payload \<and>
        js_parse lib payload = Some ms \<and> distinct (map fst ms))"

lemma token_carries_unique: "token_carries lib s encoded ms \<Longrightarrow> token_carries lib s' encoded ms' \<Longrightarrow> ms' = ms"
  by (auto simp: token_carries_def)

lemma relabel_Inr [simp]: "(case m of Inl _ \<Rightarrow> Inl e | Inr c \<Rightarrow> Inr c) = Inr x \<longleftrightarrow> m = Inr x"
  by (cases m) auto

lemma verifyPayload_sound:
  assumes "verifyPayload lib s known read encoded = Inr c"
  obtains ms where "token_carries lib s encoded ms" "fst ` set ms \<subseteq> set known" "read ms = Inr c"
proof -
  from assms obtain p0 p1 p2 where split: "split_dot encoded = [p0, p1, p2]"
    unfolding verifyPayload_def by (auto split: if_splits list.splits)
  with assms obtain kid payload where kid: "token_key lib p0 = Inr kid" "signature_ok lib s kid (p0 @ dot # p1) p2"
    "base64_decode p1 = Some payload" "decodeTokenJSON lib known read payload = Inr c"
    unfolding verifyPayload_def by (auto split: if_splits)
  from kid(4) obtain ms where ms: "js_parse lib payload = Some ms" "distinct (map fst ms)" "fst ` set ms \<subseteq> set known" "read ms = Inr c"
    by (auto simp: decodeTokenJSON_Inr)
  with split kid have "token_carries lib s encoded ms" unfolding token_carries_def by blast
  with ms that show ?thesis by blast
qed

text \<open>What a type of claims owes the format, and the round trip that follows.\<close>

locale claims_codec =
  fixes known :: "string list"
    and members :: "'c \<Rightarrow> members"
    and read :: "members \<Rightarrow> 'c result"
    and fits :: "'c \<Rightarrow> bool"
  assumes names_distinct: "distinct (map fst (members c))"
    and names_known: "fst ` set (members c) \<subseteq> set known"
    and read_members: "fits c \<Longrightarrow> read (members c) = Inr c"
begin

lemma sign_then_verify:
  assumes lib: "lib_sound lib" and kid: "utf8_valid (sg_keyID s)" and c: "members_sendable (members c)" "fits c"
    and key: "map_of (sg_publicKeys s') (sg_keyID s) = Some (ed_public lib (sg_privateKey s))"
    and signed: "signPayload lib s (members c) = Inr encoded"
  shows "verifyPayload lib s' known read encoded = Inr c"
proof -
  let ?h = "rawBase64 (js_render lib (header_members (sg_keyID s)))" and ?p = "rawBase64 (js_render lib (members c))"
  let ?u = "?h @ dot # ?p"
  have u: "signing_input lib s (members c) = ?u" by (simp add: signing_input_def)
  from signed have enc: "encoded = ?h @ dot # ?p @ dot # rawBase64 (ed_sign lib (sg_privateKey s) ?u)" "\<not> 8192 < length encoded"
    by (auto simp: signPayload_def u Let_def split: if_splits)
  have split: "split_dot encoded = [?h, ?p, rawBase64 (ed_sign lib (sg_privateKey s) ?u)]"
    unfolding enc by (simp add: split_dot_append split_dot_none)
  have hdr: "members_sendable (header_members (sg_keyID s))"
    using kid by (simp add: members_sendable_def header_members_def)
  have hread: "read_header (header_members (sg_keyID s)) = Inr (''EdDSA'', ''JWT'', sg_keyID s)"
    by (simp add: read_header_def header_members_def read_string_def)
  have "decodeTokenJSON lib [''alg'', ''typ'', ''kid''] read_header (js_render lib (header_members (sg_keyID s))) =
      Inr (''EdDSA'', ''JWT'', sg_keyID s)"
    using lib hdr hread unfolding decodeTokenJSON_Inr lib_sound_def by (fastforce simp: header_members_def)
  then have tk: "token_key lib ?h = Inr (sg_keyID s)" by (simp add: token_key_def)
  have sig: "signature_ok lib s' (sg_keyID s) ?u (rawBase64 (ed_sign lib (sg_privateKey s) ?u))"
    using lib key by (simp add: signature_ok_def lib_sound_def)
  have "decodeTokenJSON lib known read (js_render lib (members c)) = Inr c"
    using lib c read_members [OF c(2)] names_distinct names_known unfolding decodeTokenJSON_Inr lib_sound_def by blast
  with enc(2) tk sig show ?thesis by (simp add: verifyPayload_def split)
qed

end

end
