(* ===== verification/Tokens.thy ===== *)
theory Tokens
  imports Token_Codec
begin

text \<open>
  The signer of \<^verbatim>\<open>internal/token\<close>: the key ring, access and refresh tokens of
  installations (\<^verbatim>\<open>signer.go\<close>), account access tokens (\<^verbatim>\<open>account_access.go\<close>) and
  registration receipts (\<^verbatim>\<open>registration_receipt.go\<close>).  The clock and the random
  token identifier are arguments.  Seconds are \<^verbatim>\<open>int64\<close> in the code; the
  arithmetic on them that may overflow goes through \<open>wrap64\<close>.
\<close>

definition wrap64 :: "int \<Rightarrow> int" where
  "wrap64 i = (i + 2 ^ 63) mod 2 ^ 64 - 2 ^ 63"

lemma wrap64_id: "in_int64 i \<Longrightarrow> wrap64 i = i"
  by (simp add: wrap64_def in_int64_def)

section \<open>Constants and claims\<close>

definition RefreshAudience :: string where "RefreshAudience = ''linka-identity-public-installation''"
definition RefreshScope :: string where "RefreshScope = ''installation:refresh''"
definition maxRefreshTTL :: duration where "maxRefreshTTL = 365 * 24 * hour"
definition AccountAudience :: string where "AccountAudience = ''linka-identity-public-account''"
definition AccountScope :: string where "AccountScope = ''account:access''"
definition maxAccountTTL :: duration where "maxAccountTTL = 15 * minute"
definition ReceiptAudience :: string where "ReceiptAudience = ''linka-product-registration''"

lemmas token_constants = RefreshAudience_def RefreshScope_def maxRefreshTTL_def AccountAudience_def AccountScope_def
  maxAccountTTL_def ReceiptAudience_def

record Claims =
  tc_Issuer :: string
  tc_Subject :: string
  tc_Audience :: string
  tc_Product :: string
  tc_SubjectType :: string
  tc_Scopes :: "string list"
  tc_PersonKey :: "string option"
  tc_OrgKey :: "string option"
  tc_PolicyVersion :: string
  tc_IssuedAt :: int
  tc_ExpiresAt :: int
  tc_TokenID :: string

record SignInput =
  si_Audience :: string
  si_Product :: string
  si_Subject :: string
  si_SubjectType :: string
  si_Scopes :: "string list"
  si_PersonKey :: "string option"
  si_OrgKey :: "string option"
  si_PolicyVersion :: string
  si_TTL :: duration

definition scopes_json :: "string list \<Rightarrow> json" where
  "scopes_json ss = (if ss = [] then JNull else JStrings (map Some ss))"

definition pointer_member :: "string \<Rightarrow> string option \<Rightarrow> members" where
  "pointer_member n v = (case v of None \<Rightarrow> [] | Some s \<Rightarrow> [(n, JStr s)])"

definition claims_fields :: "string list" where
  "claims_fields = [''iss'', ''sub'', ''aud'', ''product'', ''subject_type'', ''scope'', ''person_key'', ''org_key'',
     ''policy_version'', ''iat'', ''exp'', ''jti'']"

definition claims_members :: "Claims \<Rightarrow> members" where
  "claims_members c =
     [(''iss'', JStr (tc_Issuer c)), (''sub'', JStr (tc_Subject c)), (''aud'', JStr (tc_Audience c)),
      (''product'', JStr (tc_Product c)), (''subject_type'', JStr (tc_SubjectType c)), (''scope'', scopes_json (tc_Scopes c))]
     @ pointer_member ''person_key'' (tc_PersonKey c) @ pointer_member ''org_key'' (tc_OrgKey c)
     @ (if tc_PolicyVersion c = '''' then [] else [(''policy_version'', JStr (tc_PolicyVersion c))])
     @ [(''iat'', JInt (tc_IssuedAt c)), (''exp'', JInt (tc_ExpiresAt c)), (''jti'', JStr (tc_TokenID c))]"

definition read_claims :: "members \<Rightarrow> Claims result" where
  "read_claims ms =
     rbind (read_string ms ''iss'') (\<lambda>iss. rbind (read_string ms ''sub'') (\<lambda>sub.
     rbind (read_string ms ''aud'') (\<lambda>aud. rbind (read_string ms ''product'') (\<lambda>product.
     rbind (read_string ms ''subject_type'') (\<lambda>subjectType. rbind (read_strings ms ''scope'') (\<lambda>scopes.
     rbind (read_pointer ms ''person_key'') (\<lambda>person. rbind (read_pointer ms ''org_key'') (\<lambda>org.
     rbind (read_string ms ''policy_version'') (\<lambda>policy. rbind (read_int64 ms ''iat'') (\<lambda>iat.
     rbind (read_int64 ms ''exp'') (\<lambda>expiry. rbind (read_string ms ''jti'') (\<lambda>jti.
       Inr \<lparr>tc_Issuer = iss, tc_Subject = sub, tc_Audience = aud, tc_Product = product, tc_SubjectType = subjectType,
         tc_Scopes = scopes, tc_PersonKey = person, tc_OrgKey = org, tc_PolicyVersion = policy, tc_IssuedAt = iat,
         tc_ExpiresAt = expiry, tc_TokenID = jti\<rparr>))))))))))))"

section \<open>The key ring\<close>

text \<open>
  The seeds are a Go map: an association list with distinct names, in the order in
  which the loop happens to visit it.
\<close>

definition add_key ::
  "token_lib \<Rightarrow> string \<Rightarrow> string \<times> bytes \<Rightarrow> (string \<times> bytes) list \<times> bytes option \<Rightarrow> ((string \<times> bytes) list \<times> bytes option) result" where
  "add_key lib activeKeyID entry state =
     (let (keyID, seed) = entry; (pub, prv) = state in
      if keyID = '''' \<or> length seed \<noteq> 32 then Inl (ErrMessage ''invalid signing keyring'')
      else Inr (pub @ [(keyID, ed_public lib seed)], if keyID = activeKeyID then Some seed else prv))"

definition NewKeyring ::
  "token_lib \<Rightarrow> (string \<times> bytes) list \<Rightarrow> string \<Rightarrow> string \<Rightarrow> duration \<Rightarrow> duration \<Rightarrow> Signer result" where
  "NewKeyring lib seeds activeKeyID issuer defaultTTL maxTTL =
     (if seeds = [] \<or> activeKeyID = '''' \<or> issuer = '''' then Inl (ErrMessage ''invalid signing configuration'')
      else if defaultTTL \<le> 0 \<or> maxTTL \<le> 0 \<or> defaultTTL > maxTTL then Inl (ErrMessage ''invalid signing TTL configuration'')
      else rbind (for_each (add_key lib activeKeyID) seeds ([], None)) (\<lambda>(pub, prv).
        case prv of
          None \<Rightarrow> Inl (ErrMessage ''active signing key is absent from keyring'')
        | Some seed \<Rightarrow> Inr \<lparr>sg_privateKey = seed, sg_publicKeys = pub, sg_keyID = activeKeyID, sg_issuer = issuer,
            sg_defaultTTL = defaultTTL, sg_maxTTL = maxTTL\<rparr>))"

definition NewSigner :: "token_lib \<Rightarrow> bytes \<Rightarrow> string \<Rightarrow> string \<Rightarrow> duration \<Rightarrow> duration \<Rightarrow> Signer result" where
  "NewSigner lib seed keyID issuer defaultTTL maxTTL = NewKeyring lib [(keyID, seed)] keyID issuer defaultTTL maxTTL"

definition JWKS :: "Signer \<Rightarrow> (string \<times> string) list list" where
  "JWKS s = map (\<lambda>(keyID, key).
     [(''kty'', ''OKP''), (''crv'', ''Ed25519''), (''use'', ''sig''), (''alg'', ''EdDSA''), (''kid'', keyID), (''x'', rawBase64 key),
      (''x-linka-state'', if keyID = sg_keyID s then ''active'' else ''retiring'')]) (sg_publicKeys s)"

section \<open>Installation tokens\<close>

definition signClaims :: "token_lib \<Rightarrow> Signer \<Rightarrow> time \<Rightarrow> string \<Rightarrow> SignInput \<Rightarrow> (string \<times> time) result" where
  "signClaims lib s now tokenID input =
     (let expiresAt = now + si_TTL input;
          claims = \<lparr>tc_Issuer = sg_issuer s, tc_Subject = si_Subject input, tc_Audience = si_Audience input,
            tc_Product = si_Product input, tc_SubjectType = si_SubjectType input, tc_Scopes = si_Scopes input,
            tc_PersonKey = si_PersonKey input, tc_OrgKey = si_OrgKey input, tc_PolicyVersion = si_PolicyVersion input,
            tc_IssuedAt = unix now, tc_ExpiresAt = unix expiresAt, tc_TokenID = tokenID\<rparr>
      in rbind (signPayload lib s (claims_members claims)) (\<lambda>encoded. Inr (encoded, expiresAt)))"

definition SignClaims :: "token_lib \<Rightarrow> Signer \<Rightarrow> time \<Rightarrow> string \<Rightarrow> SignInput \<Rightarrow> (string \<times> time) result" where
  "SignClaims lib s now tokenID input0 =
     (if si_Audience input0 = '''' \<or> si_Product input0 = '''' \<or> si_Subject input0 = '''' \<or> si_Scopes input0 = [] \<or>
         (si_SubjectType input0 \<noteq> ''account'' \<and> si_SubjectType input0 \<noteq> ''installation'' \<and> si_SubjectType input0 \<noteq> ''service'')
      then Inl (ErrMessage ''invalid token subject'')
      else let input = (if si_TTL input0 = 0 then input0\<lparr>si_TTL := sg_defaultTTL s\<rparr> else input0) in
        if si_TTL input \<le> 0 \<or> si_TTL input > sg_maxTTL s then Inl (ErrMessage ''requested token TTL is outside configured bounds'')
        else signClaims lib s now tokenID input)"

definition Sign :: "token_lib \<Rightarrow> Signer \<Rightarrow> time \<Rightarrow> string \<Rightarrow> string \<Rightarrow> string \<Rightarrow> string \<Rightarrow> duration \<Rightarrow> (string \<times> time) result" where
  "Sign lib s now tokenID productID subjectType subjectID ttl =
     SignClaims lib s now tokenID \<lparr>si_Audience = productID, si_Product = productID, si_Subject = subjectID, si_SubjectType = subjectType,
       si_Scopes = [''product:access''], si_PersonKey = None, si_OrgKey = None, si_PolicyVersion = '''', si_TTL = ttl\<rparr>"

definition refresh_input :: "string \<Rightarrow> string \<Rightarrow> string \<Rightarrow> duration \<Rightarrow> SignInput" where
  "refresh_input productID subjectKey policyVersion ttl =
     \<lparr>si_Audience = RefreshAudience, si_Product = productID, si_Subject = subjectKey, si_SubjectType = ''installation'',
      si_Scopes = [RefreshScope], si_PersonKey = None, si_OrgKey = None, si_PolicyVersion = policyVersion, si_TTL = ttl\<rparr>"

definition SignRefresh :: "token_lib \<Rightarrow> Signer \<Rightarrow> time \<Rightarrow> string \<Rightarrow> string \<Rightarrow> string \<Rightarrow> string \<Rightarrow> duration \<Rightarrow> (string \<times> time) result" where
  "SignRefresh lib s now tokenID productID subjectKey policyVersion ttl =
     (if policyVersion = '''' \<or> ttl \<le> 0 \<or> ttl > maxRefreshTTL then Inl (ErrMessage ''refresh token TTL is outside configured bounds'')
      else signClaims lib s now tokenID (refresh_input productID subjectKey policyVersion ttl))"

definition token_verify :: "token_lib \<Rightarrow> Signer \<Rightarrow> string \<Rightarrow> Claims result" where
  "token_verify lib s encoded = verifyPayload lib s claims_fields read_claims encoded"

definition refresh_rejected :: "Signer \<Rightarrow> time \<Rightarrow> Claims \<Rightarrow> bool" where
  "refresh_rejected s now c \<longleftrightarrow>
     tc_Issuer c \<noteq> sg_issuer s \<or> tc_Audience c \<noteq> RefreshAudience \<or> tc_SubjectType c \<noteq> ''installation'' \<or>
     tc_Product c = '''' \<or> tc_Subject c = '''' \<or> length (tc_Scopes c) \<noteq> 1 \<or> tc_Scopes c ! 0 \<noteq> RefreshScope \<or>
     tc_PolicyVersion c = '''' \<or> length (tc_PolicyVersion c) > 100 \<or>
     tc_IssuedAt c > unix (now + 5 * minute) \<or> tc_ExpiresAt c \<le> unix now \<or>
     tc_ExpiresAt c \<le> tc_IssuedAt c \<or> wrap64 (wrap64 (tc_ExpiresAt c - tc_IssuedAt c) * second) > maxRefreshTTL"

definition VerifyRefresh :: "token_lib \<Rightarrow> Signer \<Rightarrow> time \<Rightarrow> string \<Rightarrow> Claims result" where
  "VerifyRefresh lib s now encoded =
     rbind (token_verify lib s encoded) (\<lambda>claims.
       if refresh_rejected s now claims then Inl (ErrMessage ''invalid refresh token claims'') else Inr claims)"

section \<open>Account access tokens\<close>

record AccountAccessInput =
  ai_Product :: string
  ai_Subject :: string
  ai_SessionID :: string
  ai_TTL :: duration

record AccountAccessClaims =
  ac_Issuer :: string
  ac_Subject :: string
  ac_Audience :: string
  ac_Product :: string
  ac_SubjectType :: string
  ac_Scopes :: "string list"
  ac_SessionID :: string
  ac_IssuedAt :: int
  ac_ExpiresAt :: int
  ac_TokenID :: string

definition account_fields :: "string list" where
  "account_fields = [''iss'', ''sub'', ''aud'', ''product'', ''subject_type'', ''scope'', ''sid'', ''iat'', ''exp'', ''jti'']"

definition account_members :: "AccountAccessClaims \<Rightarrow> members" where
  "account_members c =
     [(''iss'', JStr (ac_Issuer c)), (''sub'', JStr (ac_Subject c)), (''aud'', JStr (ac_Audience c)),
      (''product'', JStr (ac_Product c)), (''subject_type'', JStr (ac_SubjectType c)), (''scope'', scopes_json (ac_Scopes c)),
      (''sid'', JStr (ac_SessionID c)), (''iat'', JInt (ac_IssuedAt c)), (''exp'', JInt (ac_ExpiresAt c)), (''jti'', JStr (ac_TokenID c))]"

definition read_account :: "members \<Rightarrow> AccountAccessClaims result" where
  "read_account ms =
     rbind (read_string ms ''iss'') (\<lambda>iss. rbind (read_string ms ''sub'') (\<lambda>sub.
     rbind (read_string ms ''aud'') (\<lambda>aud. rbind (read_string ms ''product'') (\<lambda>product.
     rbind (read_string ms ''subject_type'') (\<lambda>subjectType. rbind (read_strings ms ''scope'') (\<lambda>scopes.
     rbind (read_string ms ''sid'') (\<lambda>sid. rbind (read_int64 ms ''iat'') (\<lambda>iat.
     rbind (read_int64 ms ''exp'') (\<lambda>expiry. rbind (read_string ms ''jti'') (\<lambda>jti.
       Inr \<lparr>ac_Issuer = iss, ac_Subject = sub, ac_Audience = aud, ac_Product = product, ac_SubjectType = subjectType,
         ac_Scopes = scopes, ac_SessionID = sid, ac_IssuedAt = iat, ac_ExpiresAt = expiry, ac_TokenID = jti\<rparr>))))))))))"

definition validAccountAccess :: "Signer \<Rightarrow> time \<Rightarrow> AccountAccessClaims \<Rightarrow> bool" where
  "validAccountAccess s now c \<longleftrightarrow>
     ac_Issuer c = sg_issuer s \<and> ac_Audience c = AccountAudience \<and> ac_SubjectType c = ''account'' \<and>
     ValidProductID (ac_Product c) \<and> pairwise_Valid (ac_Subject c) \<and> ValidUUID (ac_SessionID c) \<and> ValidUUID (ac_TokenID c) \<and>
     length (ac_Scopes c) = 1 \<and> ac_Scopes c ! 0 = AccountScope \<and> ac_IssuedAt c > 0 \<and> ac_IssuedAt c \<le> unix (now + 5 * minute) \<and>
     ac_ExpiresAt c > unix now \<and> ac_ExpiresAt c > ac_IssuedAt c \<and>
     wrap64 (ac_ExpiresAt c - ac_IssuedAt c) \<le> maxAccountTTL div second \<and>
     wrap64 (ac_ExpiresAt c - ac_IssuedAt c) \<le> sg_maxTTL s div second"

definition account_claims :: "Signer \<Rightarrow> time \<Rightarrow> string \<Rightarrow> AccountAccessInput \<Rightarrow> AccountAccessClaims" where
  "account_claims s now tokenID input =
     \<lparr>ac_Issuer = sg_issuer s, ac_Subject = ai_Subject input, ac_Audience = AccountAudience, ac_Product = ai_Product input,
      ac_SubjectType = ''account'', ac_Scopes = [AccountScope], ac_SessionID = ai_SessionID input, ac_IssuedAt = unix now,
      ac_ExpiresAt = unix (now + ai_TTL input), ac_TokenID = tokenID\<rparr>"

definition SignAccountAccess :: "token_lib \<Rightarrow> Signer \<Rightarrow> time \<Rightarrow> string \<Rightarrow> AccountAccessInput \<Rightarrow> (string \<times> time) result" where
  "SignAccountAccess lib s now tokenID input0 =
     (let input = (if ai_TTL input0 = 0 then input0\<lparr>ai_TTL := sg_defaultTTL s\<rparr> else input0) in
      if \<not> ValidProductID (ai_Product input) \<or> \<not> pairwise_Valid (ai_Subject input) \<or> \<not> ValidUUID (ai_SessionID input) \<or>
         ai_TTL input \<le> 0 \<or> ai_TTL input > sg_maxTTL s \<or> ai_TTL input > maxAccountTTL
      then Inl (ErrMessage ''invalid account access input'')
      else let expires = now + ai_TTL input; claims = account_claims s now tokenID input in
        if \<not> validAccountAccess s now claims then Inl (ErrMessage ''invalid account access claims'')
        else rbind (signPayload lib s (account_members claims)) (\<lambda>encoded. Inr (encoded, expires)))"

definition VerifyAccountAccess :: "token_lib \<Rightarrow> Signer \<Rightarrow> time \<Rightarrow> string \<Rightarrow> AccountAccessClaims result" where
  "VerifyAccountAccess lib s now encoded =
     rbind (verifyPayload lib s account_fields read_account encoded) (\<lambda>claims.
       if \<not> validAccountAccess s now claims then Inl (ErrMessage ''invalid account access claims'') else Inr claims)"

section \<open>Registration receipts\<close>

record RegistrationReceiptInput =
  ri_Product :: string
  ri_AccountKey :: string
  ri_InstallationKey :: string
  ri_HolderRole :: string
  ri_PolicyVersion :: string
  ri_VerifiedAt :: time

record RegistrationReceiptClaims =
  rr_ContractVersion :: int
  rr_Issuer :: string
  rr_Subject :: string
  rr_Audience :: string
  rr_Product :: string
  rr_SubjectType :: string
  rr_InstallationKey :: string
  rr_HolderRole :: string
  rr_PolicyVersion :: string
  rr_VerifiedAt :: int
  rr_IssuedAt :: int
  rr_TokenID :: string

definition receipt_fields :: "string list" where
  "receipt_fields = [''contract_version'', ''iss'', ''sub'', ''aud'', ''product'', ''subject_type'', ''installation_key'', ''holder_role'',
     ''policy_version'', ''verified_at'', ''iat'', ''jti'']"

definition receipt_members :: "RegistrationReceiptClaims \<Rightarrow> members" where
  "receipt_members c =
     [(''contract_version'', JInt (rr_ContractVersion c)), (''iss'', JStr (rr_Issuer c)), (''sub'', JStr (rr_Subject c)),
      (''aud'', JStr (rr_Audience c)), (''product'', JStr (rr_Product c)), (''subject_type'', JStr (rr_SubjectType c)),
      (''installation_key'', JStr (rr_InstallationKey c)), (''holder_role'', JStr (rr_HolderRole c)),
      (''policy_version'', JStr (rr_PolicyVersion c)), (''verified_at'', JInt (rr_VerifiedAt c)), (''iat'', JInt (rr_IssuedAt c)),
      (''jti'', JStr (rr_TokenID c))]"

definition read_receipt :: "members \<Rightarrow> RegistrationReceiptClaims result" where
  "read_receipt ms =
     rbind (read_int64 ms ''contract_version'') (\<lambda>version. rbind (read_string ms ''iss'') (\<lambda>iss.
     rbind (read_string ms ''sub'') (\<lambda>sub. rbind (read_string ms ''aud'') (\<lambda>aud.
     rbind (read_string ms ''product'') (\<lambda>product. rbind (read_string ms ''subject_type'') (\<lambda>subjectType.
     rbind (read_string ms ''installation_key'') (\<lambda>installation. rbind (read_string ms ''holder_role'') (\<lambda>holder.
     rbind (read_string ms ''policy_version'') (\<lambda>policy. rbind (read_int64 ms ''verified_at'') (\<lambda>verified.
     rbind (read_int64 ms ''iat'') (\<lambda>iat. rbind (read_string ms ''jti'') (\<lambda>jti.
       Inr \<lparr>rr_ContractVersion = version, rr_Issuer = iss, rr_Subject = sub, rr_Audience = aud, rr_Product = product,
         rr_SubjectType = subjectType, rr_InstallationKey = installation, rr_HolderRole = holder, rr_PolicyVersion = policy,
         rr_VerifiedAt = verified, rr_IssuedAt = iat, rr_TokenID = jti\<rparr>))))))))))))"

definition validReceiptPolicy :: "string \<Rightarrow> bool" where
  "validReceiptPolicy v \<longleftrightarrow> v = trim_space v \<and> length v \<ge> 1 \<and> length v \<le> 100 \<and> utf8_valid v \<and> CHR ''@'' \<notin> set v \<and> \<not> has_control v"

definition validRegistrationReceipt :: "Signer \<Rightarrow> RegistrationReceiptClaims \<Rightarrow> bool" where
  "validRegistrationReceipt s c \<longleftrightarrow>
     rr_ContractVersion c = 1 \<and> rr_Issuer c = sg_issuer s \<and> rr_Audience c = ReceiptAudience \<and> rr_SubjectType c = ''registration_receipt'' \<and>
     ValidProductID (rr_Product c) \<and> pairwise_Valid (rr_Subject c) \<and> pairwise_Valid (rr_InstallationKey c) \<and> ValidUUID (rr_TokenID c) \<and>
     (rr_HolderRole c = ''self'' \<or> rr_HolderRole c = ''representative'') \<and> validReceiptPolicy (rr_PolicyVersion c) \<and>
     rr_VerifiedAt c > 0 \<and> rr_IssuedAt c > 0 \<and> rr_VerifiedAt c \<le> rr_IssuedAt c"

definition receipt_claims :: "Signer \<Rightarrow> time \<Rightarrow> string \<Rightarrow> RegistrationReceiptInput \<Rightarrow> RegistrationReceiptClaims" where
  "receipt_claims s now tokenID input =
     \<lparr>rr_ContractVersion = 1, rr_Issuer = sg_issuer s, rr_Subject = ri_AccountKey input, rr_Audience = ReceiptAudience,
      rr_Product = ri_Product input, rr_SubjectType = ''registration_receipt'', rr_InstallationKey = ri_InstallationKey input,
      rr_HolderRole = ri_HolderRole input, rr_PolicyVersion = trim_space (ri_PolicyVersion input),
      rr_VerifiedAt = unix (ri_VerifiedAt input), rr_IssuedAt = unix now, rr_TokenID = tokenID\<rparr>"

definition SignRegistrationReceipt :: "token_lib \<Rightarrow> Signer \<Rightarrow> time \<Rightarrow> string \<Rightarrow> RegistrationReceiptInput \<Rightarrow> string result" where
  "SignRegistrationReceipt lib s now tokenID input =
     (if is_zero (ri_VerifiedAt input) \<or> ri_VerifiedAt input > now then Inl (ErrMessage ''invalid registration receipt input'')
      else let claims = receipt_claims s now tokenID input in
        if \<not> validRegistrationReceipt s claims then Inl (ErrMessage ''invalid registration receipt input'')
        else signPayload lib s (receipt_members claims))"

definition VerifyRegistrationReceipt :: "token_lib \<Rightarrow> Signer \<Rightarrow> string \<Rightarrow> RegistrationReceiptClaims result" where
  "VerifyRegistrationReceipt lib s encoded =
     rbind (verifyPayload lib s receipt_fields read_receipt encoded) (\<lambda>claims.
       if \<not> validRegistrationReceipt s claims then Inl (ErrMessage ''invalid registration receipt claims'') else Inr claims)"

section \<open>The three claims types fit the format\<close>

definition claims_fit :: "Claims \<Rightarrow> bool" where
  "claims_fit c \<longleftrightarrow> in_int64 (tc_IssuedAt c) \<and> in_int64 (tc_ExpiresAt c)"

definition account_fit :: "AccountAccessClaims \<Rightarrow> bool" where
  "account_fit c \<longleftrightarrow> in_int64 (ac_IssuedAt c) \<and> in_int64 (ac_ExpiresAt c)"

definition receipt_fit :: "RegistrationReceiptClaims \<Rightarrow> bool" where
  "receipt_fit c \<longleftrightarrow> in_int64 (rr_ContractVersion c) \<and> in_int64 (rr_VerifiedAt c) \<and> in_int64 (rr_IssuedAt c)"

lemma scopes_read [simp]:
  "(case scopes_json ss of JNull \<Rightarrow> Inr [] | JStrings xs \<Rightarrow> Inr (map (\<lambda>s. case s of None \<Rightarrow> '''' | Some t \<Rightarrow> t) xs) | _ \<Rightarrow> Inl type_error) = Inr ss"
  by (simp add: scopes_json_def comp_def)

interpretation claims_token: claims_codec claims_fields claims_members read_claims claims_fit
proof
  fix c
  show "distinct (map fst (claims_members c))"
    by (simp add: claims_members_def pointer_member_def split: option.splits)
  show "fst ` set (claims_members c) \<subseteq> set claims_fields"
    by (auto simp: claims_members_def claims_fields_def pointer_member_def split: option.splits)
  show "read_claims (claims_members c) = Inr c" if "claims_fit c"
    using that by (simp add: read_claims_def claims_members_def read_defs pointer_member_def claims_fit_def split: option.splits)
qed

interpretation account_token: claims_codec account_fields account_members read_account account_fit
proof
  fix c
  show "distinct (map fst (account_members c))" by (simp add: account_members_def)
  show "fst ` set (account_members c) \<subseteq> set account_fields" by (simp add: account_members_def account_fields_def)
  show "read_account (account_members c) = Inr c" if "account_fit c"
    using that by (simp add: read_account_def account_members_def read_defs account_fit_def)
qed

interpretation receipt_token: claims_codec receipt_fields receipt_members read_receipt receipt_fit
proof
  fix c
  show "distinct (map fst (receipt_members c))" by (simp add: receipt_members_def)
  show "fst ` set (receipt_members c) \<subseteq> set receipt_fields" by (simp add: receipt_members_def receipt_fields_def)
  show "read_receipt (receipt_members c) = Inr c" if "receipt_fit c"
    using that by (simp add: read_receipt_def receipt_members_def read_defs receipt_fit_def)
qed

section \<open>The key ring\<close>

lemma add_key_Inr:
  "add_key lib active (k, x) (pub, prv) = Inr z \<longleftrightarrow>
     k \<noteq> '''' \<and> length x = 32 \<and> z = (pub @ [(k, ed_public lib x)], if k = active then Some x else prv)"
  by (auto simp: add_key_def)

lemma add_keys:
  "for_each (add_key lib active) seeds (pub, prv) = Inr (pub', prv') \<Longrightarrow> distinct (map fst seeds) \<Longrightarrow>
     pub' = pub @ map (\<lambda>(k, x). (k, ed_public lib x)) seeds \<and>
     prv' = (case map_of seeds active of None \<Rightarrow> prv | Some x \<Rightarrow> Some x)"
proof (induction seeds arbitrary: pub prv)
  case (Cons e seeds)
  obtain k x where e: "e = (k, x)" by (cases e)
  from Cons.prems(1) have "for_each (add_key lib active) seeds (pub @ [(k, ed_public lib x)], if k = active then Some x else prv) = Inr (pub', prv')"
    by (auto simp: e add_key_Inr)
  from Cons.IH [OF this] Cons.prems(2) show ?case
    by (cases "k = active") (auto simp: e dest: map_of_eq_None_iff [THEN iffD2])
qed simp

lemma NewKeyring_Inr:
  assumes "NewKeyring lib seeds active issuer defaultTTL maxTTL = Inr s" and "distinct (map fst seeds)"
  shows "map_of seeds active = Some (sg_privateKey s)" "sg_publicKeys s = map (\<lambda>(k, x). (k, ed_public lib x)) seeds"
    "sg_keyID s = active" "sg_issuer s = issuer" "sg_defaultTTL s = defaultTTL" "sg_maxTTL s = maxTTL" "0 < defaultTTL" "defaultTTL \<le> maxTTL"
proof -
  from assms(1) obtain pub seed where loop: "for_each (add_key lib active) seeds ([], None) = Inr (pub, Some seed)"
    and s: "s = \<lparr>sg_privateKey = seed, sg_publicKeys = pub, sg_keyID = active, sg_issuer = issuer, sg_defaultTTL = defaultTTL, sg_maxTTL = maxTTL\<rparr>"
    and ttl: "0 < defaultTTL" "defaultTTL \<le> maxTTL"
    by (auto simp: NewKeyring_def split: if_splits option.splits)
  from add_keys [OF loop assms(2)] have "pub = map (\<lambda>(k, x). (k, ed_public lib x)) seeds" "map_of seeds active = Some seed"
    by (auto split: option.splits)
  with s ttl show "map_of seeds active = Some (sg_privateKey s)" "sg_publicKeys s = map (\<lambda>(k, x). (k, ed_public lib x)) seeds"
    "sg_keyID s = active" "sg_issuer s = issuer" "sg_defaultTTL s = defaultTTL" "sg_maxTTL s = maxTTL" "0 < defaultTTL" "defaultTTL \<le> maxTTL"
    by simp_all
qed

text \<open>A ring that keeps the seed of a key recognises what the key has signed, whichever key is active in it.\<close>

lemma shared_key:
  assumes "NewKeyring lib seeds active issuer d m = Inr s" "distinct (map fst seeds)"
    and "NewKeyring lib seeds' active' issuer' d' m' = Inr s'" "distinct (map fst seeds')"
    and "map_of seeds' active = map_of seeds active"
  shows "map_of (sg_publicKeys s') (sg_keyID s) = Some (ed_public lib (sg_privateKey s))"
  using assms NewKeyring_Inr(1-3) [OF assms(1,2)] NewKeyring_Inr(2) [OF assms(3,4)] by (simp add: map_of_map)

text \<open>The published key set marks exactly the signing key as active.\<close>

lemma jwks_active:
  assumes "NewKeyring lib seeds active issuer d m = Inr s" "distinct (map fst seeds)"
  shows "\<exists>!i. i < length (JWKS s) \<and> map_of (JWKS s ! i) ''x-linka-state'' = Some ''active'' \<and>
    map_of (JWKS s ! i) ''x'' = Some (rawBase64 (ed_public lib (sg_privateKey s)))"
proof -
  note ring = NewKeyring_Inr [OF assms]
  from map_of_SomeD [OF ring(1)] obtain i where i: "i < length seeds" "seeds ! i = (active, sg_privateKey s)"
    by (auto simp: in_set_conv_nth)
  have at: "map_of (JWKS s ! j) ''x-linka-state'' = Some (if fst (seeds ! j) = active then ''active'' else ''retiring'')"
    "map_of (JWKS s ! j) ''x'' = Some (rawBase64 (ed_public lib (snd (seeds ! j))))" if "j < length seeds" for j
    using that ring(2,3) by (auto simp: JWKS_def split: prod.splits)
  show ?thesis
  proof (rule ex1I [of _ i])
    show "i < length (JWKS s) \<and> map_of (JWKS s ! i) ''x-linka-state'' = Some ''active'' \<and>
        map_of (JWKS s ! i) ''x'' = Some (rawBase64 (ed_public lib (sg_privateKey s)))"
      using i at [OF i(1)] ring(2) by (simp add: JWKS_def)
  next
    fix j assume j: "j < length (JWKS s) \<and> map_of (JWKS s ! j) ''x-linka-state'' = Some ''active'' \<and>
        map_of (JWKS s ! j) ''x'' = Some (rawBase64 (ed_public lib (sg_privateKey s)))"
    then have len: "j < length seeds" using ring(2) by (simp add: JWKS_def)
    with j at [OF len] have "fst (seeds ! j) = fst (seeds ! i)" using i by (auto split: if_splits)
    with len i assms(2) show "j = i" by (metis length_map nth_eq_iff_index_eq nth_map)
  qed
qed

section \<open>Texts that JSON carries\<close>

lemma ascii_utf8: "list_all (\<lambda>c. code c < 128) s \<Longrightarrow> utf8_valid s"
  by (induction s) auto

lemma product_utf8: "ValidProductID s \<Longrightarrow> utf8_valid s"
  by (rule ascii_utf8) (auto simp: ValidProductID_def list_all_iff char_class_defs split: list.splits)

lemma uuid_utf8:
  assumes "ValidUUID s"
  shows "utf8_valid s"
proof (rule ascii_utf8)
  have "\<forall>p \<in> set uuid_pattern. \<forall>c. p c \<longrightarrow> code c < 128"
    by (auto simp: uuid_pattern_def char_class_defs)
  moreover have "list_all2 (\<lambda>p c. p (lower_char c)) uuid_pattern s"
    using assms by (simp add: ValidUUID_def matches_def to_lower_def list.rel_map)
  ultimately have "\<forall>c \<in> set s. code (lower_char c) < 128"
    by (metis in_set_conv_nth list_all2_conv_all_nth nth_mem)
  then show "list_all (\<lambda>c. code c < 128) s" by (auto simp: list_all_iff code_lower_char split: if_splits)
qed

lemma pairwise_utf8: "pairwise_Valid s \<Longrightarrow> utf8_valid s"
  by (rule ascii_utf8) (auto simp: pairwise_Valid_iff list_all_iff char_class_defs)

lemma constants_utf8 [simp]:
  "utf8_valid RefreshAudience" "utf8_valid RefreshScope" "utf8_valid AccountAudience" "utf8_valid AccountScope" "utf8_valid ReceiptAudience"
  by (simp_all add: token_constants)

lemma sendable_scopes [simp]: "json_sendable (scopes_json ss) \<longleftrightarrow> list_all utf8_valid ss"
  by (simp add: scopes_json_def list_all_iff)

lemma unix_mono: "a \<le> b \<Longrightarrow> unix a \<le> unix b"
  by (simp add: unix_def duration_defs zdiv_mono1)

lemma unix_add_seconds: "unix (t + n * second) = unix t + n"
  by (simp add: unix_def duration_defs)

lemma unix_within: "0 < ttl \<Longrightarrow> ttl \<le> n * second \<Longrightarrow> unix now \<le> unix (now + ttl) \<and> unix (now + ttl) \<le> unix now + n"
  using unix_mono [of now "now + ttl"] unix_mono [of "now + ttl" "now + n * second"] by (simp add: unix_add_seconds)

section \<open>What the tokens guarantee\<close>

lemma account_claims_valid:
  assumes "SignAccountAccess lib s now tokenID input = Inr (encoded, expires)"
  obtains ttl where "0 < ttl" "ttl \<le> maxAccountTTL" "expires = now + ttl"
    "validAccountAccess s now (account_claims s now tokenID (input\<lparr>ai_TTL := ttl\<rparr>))"
    "signPayload lib s (account_members (account_claims s now tokenID (input\<lparr>ai_TTL := ttl\<rparr>))) = Inr encoded"
proof -
  let ?ttl = "if ai_TTL input = 0 then sg_defaultTTL s else ai_TTL input"
  have "(if ai_TTL input = 0 then input\<lparr>ai_TTL := sg_defaultTTL s\<rparr> else input) = input\<lparr>ai_TTL := ?ttl\<rparr>" by simp
  with assms show ?thesis
    unfolding SignAccountAccess_def by (intro that [of ?ttl]) (auto simp: Let_def split: if_splits)
qed

lemma account_claims_sendable:
  assumes "validAccountAccess s now c" "utf8_valid (sg_issuer s)"
  shows "members_sendable (account_members c)"
  using assms
  by (auto simp: validAccountAccess_def members_sendable_def account_members_def product_utf8 pairwise_utf8 uuid_utf8 length_Suc_conv)

lemma valid_account_later:
  assumes valid: "validAccountAccess s now c" and later: "now \<le> now'"
    and s': "sg_issuer s' = sg_issuer s" "sg_maxTTL s \<le> sg_maxTTL s'"
  shows "validAccountAccess s' now' c \<longleftrightarrow> unix now' < ac_ExpiresAt c"
proof -
  have "unix (now + 5 * minute) \<le> unix (now' + 5 * minute)" "sg_maxTTL s div second \<le> sg_maxTTL s' div second"
    using later s' by (auto intro!: unix_mono zdiv_mono1 simp: duration_defs)
  with valid s' show ?thesis by (auto simp: validAccountAccess_def)
qed

text \<open>
  An account access token that a signer issues is accepted by every later signer of the
  same issuer that still holds the key, even after another key has become the active one, with
  exactly the product, subject and session it was issued for, until the second in which it
  expires and no longer.  It lives for at most fifteen minutes.
\<close>

theorem account_access_roundtrip:
  assumes lib: "lib_sound lib"
    and ring: "NewKeyring lib seeds active issuer d m = Inr s" "distinct (map fst seeds)"
    and ring': "NewKeyring lib seeds' active' issuer d' m' = Inr s'" "distinct (map fst seeds')"
    and rotated: "map_of seeds' active = map_of seeds active" "m \<le> m'"
    and texts: "utf8_valid active" "utf8_valid issuer"
    and clock: "unix now < 2 ^ 62" "now \<le> now'"
    and signed: "SignAccountAccess lib s now tokenID input = Inr (encoded, expires)"
  shows "\<exists>c. ac_Product c = ai_Product input \<and> ac_Subject c = ai_Subject input \<and> ac_SessionID c = ai_SessionID input \<and>
    ac_TokenID c = tokenID \<and> now < expires \<and> expires \<le> now + 15 * minute \<and>
    VerifyAccountAccess lib s' now' encoded =
      (if unix now' < unix expires then Inr c else Inl (ErrMessage ''invalid account access claims''))"
proof -
  note s = NewKeyring_Inr [OF ring] and s' = NewKeyring_Inr [OF ring']
  from signed obtain ttl where ttl: "0 < ttl" "ttl \<le> maxAccountTTL" "expires = now + ttl"
    and valid: "validAccountAccess s now (account_claims s now tokenID (input\<lparr>ai_TTL := ttl\<rparr>))"
    and payload: "signPayload lib s (account_members (account_claims s now tokenID (input\<lparr>ai_TTL := ttl\<rparr>))) = Inr encoded"
    by (rule account_claims_valid)
  let ?c = "account_claims s now tokenID (input\<lparr>ai_TTL := ttl\<rparr>)"
  have c: "ac_Product ?c = ai_Product input" "ac_Subject ?c = ai_Subject input" "ac_SessionID ?c = ai_SessionID input"
    "ac_TokenID ?c = tokenID" "ac_ExpiresAt ?c = unix expires" "ac_IssuedAt ?c = unix now"
    by (simp_all add: account_claims_def ttl(3))
  have "unix expires \<le> unix now + 900"
    using unix_within [of ttl 900 now] ttl by (simp add: maxAccountTTL_def duration_defs)
  with valid clock(1) c have fit: "account_fit ?c" by (auto simp: account_fit_def in_int64_def validAccountAccess_def)
  have "verifyPayload lib s' account_fields read_account encoded = Inr ?c"
    using lib _ _ fit shared_key [OF ring ring' rotated(1)] payload
    by (rule account_token.sign_then_verify) (use texts s account_claims_sendable [OF valid] in simp_all)
  then have "VerifyAccountAccess lib s' now' encoded =
      (if unix now' < unix expires then Inr ?c else Inl (ErrMessage ''invalid account access claims''))"
    using valid_account_later [OF valid clock(2)] s s' rotated(2) c(5) by (simp add: VerifyAccountAccess_def)
  with c ttl show ?thesis by (intro exI [of _ ?c]) (simp add: maxAccountTTL_def)
qed

lemma refresh_overflow_free:
  assumes "0 < ttl" "ttl \<le> maxRefreshTTL"
  shows "wrap64 (wrap64 (unix (now + ttl) - unix now) * second) \<le> maxRefreshTTL"
proof -
  have "unix now \<le> unix (now + ttl)" "unix (now + ttl) \<le> unix now + 31536000"
    using unix_within [of ttl 31536000 now] assms by (simp_all add: maxRefreshTTL_def duration_defs)
  then show ?thesis by (simp add: wrap64_id in_int64_def maxRefreshTTL_def duration_defs)
qed

text \<open>
  A refresh token that a signer issues for a non-empty product, subject and policy of at
  most a hundred bytes is accepted by every later signer of the same issuer that still holds
  the key, with the claims it was issued with, exactly until the second in which it expires.
\<close>

theorem refresh_roundtrip:
  assumes lib: "lib_sound lib"
    and ring: "NewKeyring lib seeds active issuer d m = Inr s" "distinct (map fst seeds)"
    and ring': "NewKeyring lib seeds' active' issuer d' m' = Inr s'" "distinct (map fst seeds')"
    and rotated: "map_of seeds' active = map_of seeds active"
    and texts: "list_all utf8_valid [active, issuer, product, subject, policy, tokenID]"
    and args: "product \<noteq> ''''" "subject \<noteq> ''''" "length policy \<le> 100"
    and clock: "\<bar>unix now\<bar> < 2 ^ 62" "now \<le> now'"
    and signed: "SignRefresh lib s now tokenID product subject policy ttl = Inr (encoded, expires)"
  shows "\<exists>c. tc_Product c = product \<and> tc_Subject c = subject \<and> tc_PolicyVersion c = policy \<and> tc_TokenID c = tokenID \<and>
    now < expires \<and> expires \<le> now + 365 * 24 * hour \<and>
    VerifyRefresh lib s' now' encoded =
      (if unix now' < unix expires then Inr c else Inl (ErrMessage ''invalid refresh token claims''))"
proof -
  note s = NewKeyring_Inr [OF ring] and s' = NewKeyring_Inr [OF ring']
  define c where "c = \<lparr>tc_Issuer = issuer, tc_Subject = subject, tc_Audience = RefreshAudience, tc_Product = product,
    tc_SubjectType = ''installation'', tc_Scopes = [RefreshScope], tc_PersonKey = None, tc_OrgKey = None, tc_PolicyVersion = policy,
    tc_IssuedAt = unix now, tc_ExpiresAt = unix (now + ttl), tc_TokenID = tokenID\<rparr>"
  from signed have ttl: "policy \<noteq> ''''" "0 < ttl" "ttl \<le> maxRefreshTTL" "expires = now + ttl"
    and payload: "signPayload lib s (claims_members c) = Inr encoded"
    using s by (auto simp: SignRefresh_def signClaims_def refresh_input_def c_def Let_def split: if_splits)
  have "unix now \<le> unix (now + ttl)" "unix (now + ttl) \<le> unix now + 31536000"
    using unix_within [of ttl 31536000 now] ttl by (simp_all add: maxRefreshTTL_def duration_defs)
  with clock(1) have fit: "claims_fit c" by (auto simp: claims_fit_def in_int64_def c_def)
  have "members_sendable (claims_members c)"
    using texts by (simp add: members_sendable_def claims_members_def pointer_member_def c_def)
  then have "token_verify lib s' encoded = Inr c"
    unfolding token_verify_def
    using lib _ _ fit shared_key [OF ring ring' rotated] payload by - (rule claims_token.sign_then_verify, use texts s in simp_all)
  moreover have "refresh_rejected s' now' c \<longleftrightarrow> \<not> unix now' < unix expires"
    using refresh_overflow_free [OF ttl(2,3), of now] unix_mono [of now "now' + 5 * minute"] unix_mono [OF clock(2)] clock(2) s' args ttl
    by (auto simp: refresh_rejected_def c_def duration_defs)
  ultimately show ?thesis using ttl by (intro exI [of _ c]) (auto simp: VerifyRefresh_def c_def maxRefreshTTL_def)
qed

lemma read_audience:
  "read_claims ms = Inr c \<Longrightarrow> read_string ms ''aud'' = Inr (tc_Audience c)"
  "read_account ms = Inr a \<Longrightarrow> read_string ms ''aud'' = Inr (ac_Audience a)"
  "read_receipt ms = Inr r \<Longrightarrow> read_string ms ''aud'' = Inr (rr_Audience r)"
  by (auto simp: read_claims_def read_account_def read_receipt_def)

lemma accepted_audience:
  "VerifyRefresh lib s now encoded = Inr c \<Longrightarrow> \<exists>ms. token_carries lib s encoded ms \<and> read_string ms ''aud'' = Inr RefreshAudience"
  "VerifyAccountAccess lib s now encoded = Inr a \<Longrightarrow> \<exists>ms. token_carries lib s encoded ms \<and> read_string ms ''aud'' = Inr AccountAudience"
  "VerifyRegistrationReceipt lib s encoded = Inr r \<Longrightarrow> \<exists>ms. token_carries lib s encoded ms \<and> read_string ms ''aud'' = Inr ReceiptAudience"
  by (auto simp: VerifyRefresh_def token_verify_def refresh_rejected_def VerifyAccountAccess_def validAccountAccess_def
      VerifyRegistrationReceipt_def validRegistrationReceipt_def split: if_splits elim!: verifyPayload_sound dest!: read_audience)

text \<open>
  C20: The three kinds of token never pass for one another: whatever the keys, the clocks and the
  bytes of the token, no token is accepted as a refresh token and as an account access token,
  nor as one of the two and as a registration receipt.
\<close>

theorem token_purposes_disjoint:
  "(isl (VerifyRefresh lib s now encoded) \<or> isl (VerifyAccountAccess lib s' now' encoded)) \<and>
   (isl (VerifyRefresh lib s now encoded) \<or> isl (VerifyRegistrationReceipt lib s'' encoded)) \<and>
   (isl (VerifyAccountAccess lib s' now' encoded) \<or> isl (VerifyRegistrationReceipt lib s'' encoded))"
proof -
  have clash: False if "token_carries lib r encoded ms" "token_carries lib r' encoded ms'" "read_string ms ''aud'' = Inr x"
    "read_string ms' ''aud'' = Inr y" "x \<noteq> y" for r r' ms ms' x y
    using that token_carries_unique by fastforce
  have differ: "RefreshAudience \<noteq> AccountAudience" "RefreshAudience \<noteq> ReceiptAudience" "AccountAudience \<noteq> ReceiptAudience"
    by (simp_all add: token_constants)
  show ?thesis
    using clash differ accepted_audience [where lib = lib and encoded = encoded]
    by (metis isl_def sum.collapse(2) sum.disc(1))
qed

text \<open>Receipts do not expire: they are accepted as long as the key is kept.\<close>

lemma receipt_roundtrip:
  assumes lib: "lib_sound lib"
    and ring: "NewKeyring lib seeds active issuer d m = Inr s" "distinct (map fst seeds)"
    and ring': "NewKeyring lib seeds' active' issuer d' m' = Inr s'" "distinct (map fst seeds')"
    and rotated: "map_of seeds' active = map_of seeds active"
    and texts: "utf8_valid active" "utf8_valid issuer"
    and clock: "unix now < 2 ^ 63"
    and signed: "SignRegistrationReceipt lib s now tokenID input = Inr encoded"
  shows "VerifyRegistrationReceipt lib s' encoded = Inr (receipt_claims s now tokenID input)"
proof -
  note s = NewKeyring_Inr [OF ring] and s' = NewKeyring_Inr [OF ring']
  let ?c = "receipt_claims s now tokenID input"
  from signed have valid: "validRegistrationReceipt s ?c" and payload: "signPayload lib s (receipt_members ?c) = Inr encoded"
    by (auto simp: SignRegistrationReceipt_def Let_def split: if_splits)
  have fit: "receipt_fit ?c"
    using valid clock by (auto simp: receipt_fit_def in_int64_def validRegistrationReceipt_def receipt_claims_def)
  have send: "members_sendable (receipt_members ?c)"
    using valid texts s
    by (auto simp: validRegistrationReceipt_def members_sendable_def receipt_members_def product_utf8 pairwise_utf8 uuid_utf8 validReceiptPolicy_def)
  have "verifyPayload lib s' receipt_fields read_receipt encoded = Inr ?c"
    using lib _ send fit shared_key [OF ring ring' rotated] payload
    by (rule receipt_token.sign_then_verify) (use texts s in simp)
  moreover have "validRegistrationReceipt s' ?c" using valid s s' by (simp add: validRegistrationReceipt_def)
  ultimately show ?thesis by (simp add: VerifyRegistrationReceipt_def)
qed

text \<open>
  The bound on the lifetime of refresh tokens is computed in nanoseconds and wraps around.
  Acceptable claims stay acceptable when their lifetime is stretched to 18446744074 seconds,
  about 585 years, although the limit is 365 days.  No signing operation of the service
  issues such claims, so it takes a key holder outside it to present them.
\<close>

theorem refresh_lifetime_wraps:
  assumes accepted: "\<not> refresh_rejected s now c"
    and range: "tc_ExpiresAt c \<le> tc_IssuedAt c + 18446744074"
  shows "\<not> refresh_rejected s now (c\<lparr>tc_ExpiresAt := tc_IssuedAt c + 18446744074\<rparr>) \<and> 18446744074 * second > maxRefreshTTL"
proof -
  have "wrap64 (wrap64 18446744074 * second) \<le> maxRefreshTTL"
    by (simp add: wrap64_def maxRefreshTTL_def duration_defs)
  with assms show ?thesis by (auto simp: refresh_rejected_def maxRefreshTTL_def duration_defs)
qed

section \<open>A concrete token library\<close>

text \<open>
  A sound instance of the parameters: names and values of an object as hexadecimal
  words with numbers in binary, and a constant as the signature.
\<close>

definition hex_words :: "string list \<Rightarrow> string" where
  "hex_words ws = concat (map (\<lambda>w. hex_encode w @ [dot]) ws)"

definition unhex_words :: "string \<Rightarrow> string list option" where
  "unhex_words s = those (map hex_decode (butlast (split_dot s)))"

fun bits :: "nat \<Rightarrow> string" where
  "bits n = (if n = 0 then '''' else (if odd n then CHR ''1'' else CHR ''0'') # bits (n div 2))"

declare bits.simps [simp del]

definition unbits :: "string \<Rightarrow> nat" where
  "unbits s = foldr (\<lambda>c n. 2 * n + (if c = CHR ''1'' then 1 else 0)) s 0"

lemma unbits_bits [simp]: "unbits (bits n) = n"
proof (induction n rule: bits.induct)
  case (1 n)
  then show ?case by (cases "n = 0") (auto simp: bits.simps [of n] bits.simps [of 0] unbits_def elim: oddE)
qed

fun value_words :: "json \<Rightarrow> string list" where
  "value_words (JStr s) = [''s'', s]"
| "value_words (JInt i) = [''i'', if i < 0 then ''-'' else '''', bits (nat \<bar>i\<bar>)]"
| "value_words JNull = [''n'']"
| "value_words (JStrings ss) = ''a'' # map the ss"
| "value_words JOther = []"

definition read_words :: "string list \<Rightarrow> (string \<times> json) option" where
  "read_words ws = (case ws of
     n # t # vs \<Rightarrow> Some (n,
       if t = ''s'' then JStr (hd vs)
       else if t = ''i'' then JInt ((if hd vs = ''-'' then - 1 else 1) * int (unbits (hd (tl vs))))
       else if t = ''a'' then JStrings (map Some vs) else JNull)
   | _ \<Rightarrow> None)"

definition sample_lib :: token_lib where
  "sample_lib = \<lparr>ed_public = id, ed_sign = (\<lambda>_ _. ''s''), ed_verify = (\<lambda>_ _ sig. sig = ''s''),
     js_render = (\<lambda>ms. hex_words (map (\<lambda>(n, v). hex_words (n # value_words v)) ms)),
     js_parse = (\<lambda>s. Option.bind (unhex_words s) (\<lambda>ms. those (map (\<lambda>m. Option.bind (unhex_words m) read_words) ms)))\<rparr>"

lemma hex_no_dot [simp]: "dot \<notin> set (hex_encode w)"
  using hex_encode_digits [of dot w] by (auto simp: char_class_defs)

lemma unhex_words [simp]: "unhex_words (hex_words ws) = Some ws"
proof -
  have "split_dot (hex_words ws) = map hex_encode ws @ [[]]"
    by (induction ws) (simp_all add: hex_words_def split_dot_append)
  then show ?thesis
    by (simp add: unhex_words_def comp_def those_map_Some [where g = id, simplified])
qed

lemma read_value_words: "json_sendable v \<Longrightarrow> read_words (n # value_words v) = Some (n, v)"
  by (cases v) (auto simp: read_words_def list_all_iff comp_def intro!: map_idI)

lemma hex_words_ascii: "utf8_valid (hex_words ws)"
proof (rule ascii_utf8)
  have "list_all (\<lambda>c. code c < 128) (hex_encode w)" for w
    using hex_encode_digits [of _ w] by (fastforce simp: list_all_iff char_class_defs)
  then show "list_all (\<lambda>c. code c < 128) (hex_words ws)" by (auto simp: hex_words_def list_all_iff)
qed

lemma sample_lib_sound: "lib_sound sample_lib"
proof -
  have "those (map (\<lambda>m. Option.bind (unhex_words m) read_words) (map (\<lambda>(n, v). hex_words (n # value_words v)) ms)) = Some ms"
    if "members_sendable ms" for ms
    using that by (induction ms) (auto simp: members_sendable_def read_value_words)
  then show ?thesis by (simp add: lib_sound_def sample_lib_def hex_words_ascii)
qed

lemma length_b64_pack: "length (b64_pack s) \<le> 2 * length s"
  by (induction s rule: b64_pack.induct) auto

lemma length_rawBase64: "length (rawBase64 s) \<le> 2 * length s"
  using length_b64_pack [of "map of_char s"] by (simp add: rawBase64_def)

lemma length_hex_words: "length (hex_words ws) = sum_list (map (\<lambda>w. 2 * length w + 1) ws)"
  by (induction ws) (simp_all add: hex_words_def)

text \<open>Signing under the sample library succeeds when the members are short.\<close>

lemma sample_signs:
  assumes "2 * length (js_render sample_lib (header_members (sg_keyID s))) + 2 * length (js_render sample_lib ms) \<le> 8000"
  shows "\<exists>encoded. signPayload sample_lib s ms = Inr encoded"
proof -
  let ?h = "js_render sample_lib (header_members (sg_keyID s))" and ?p = "js_render sample_lib ms"
  let ?b = "rawBase64 ?h @ dot # rawBase64 ?p"
  have sig: "length (rawBase64 (ed_sign sample_lib (sg_privateKey s) ?b)) \<le> 2"
    using length_rawBase64 [of "''s''"] by (simp add: sample_lib_def)
  have "length (?b @ dot # rawBase64 (ed_sign sample_lib (sg_privateKey s) ?b)) \<le> 8192"
    using assms length_rawBase64 [of ?h] length_rawBase64 [of ?p] sig unfolding length_append list.size by linarith
  then show ?thesis by (simp add: signPayload_def signing_input_def)
qed

definition old_seeds :: "(string \<times> bytes) list" where
  "old_seeds = [(''k'', replicate 32 CHR ''a'')]"

definition new_seeds :: "(string \<times> bytes) list" where
  "new_seeds = [(''n'', replicate 32 CHR ''b''), (''k'', replicate 32 CHR ''a'')]"

definition old_signer :: Signer where
  "old_signer = \<lparr>sg_privateKey = replicate 32 CHR ''a'', sg_publicKeys = [(''k'', replicate 32 CHR ''a'')], sg_keyID = ''k'',
     sg_issuer = ''i'', sg_defaultTTL = minute, sg_maxTTL = hour\<rparr>"

definition new_signer :: Signer where
  "new_signer = \<lparr>sg_privateKey = replicate 32 CHR ''b'',
     sg_publicKeys = [(''n'', replicate 32 CHR ''b''), (''k'', replicate 32 CHR ''a'')], sg_keyID = ''n'',
     sg_issuer = ''i'', sg_defaultTTL = minute, sg_maxTTL = hour\<rparr>"

lemma sample_rings:
  "NewKeyring sample_lib old_seeds ''k'' ''i'' minute hour = Inr old_signer" "distinct (map fst old_seeds)"
  "NewKeyring sample_lib new_seeds ''n'' ''i'' minute hour = Inr new_signer" "distinct (map fst new_seeds)"
  "map_of new_seeds ''k'' = map_of old_seeds ''k''"
  by (simp_all add: NewKeyring_def old_seeds_def new_seeds_def add_key_def old_signer_def new_signer_def sample_lib_def duration_defs)

definition sample_access :: AccountAccessInput where
  "sample_access = \<lparr>ai_Product = ''pict'', ai_Subject = replicate 64 CHR ''a'', ai_SessionID = sample_uuid, ai_TTL = 0\<rparr>"

lemma sample_unix: "unix second = 1" "unix (second + minute) = 61" "unix (second + 5 * minute) = 301"
  by (simp_all add: unix_def duration_defs)

lemma sample_access_signs: "\<exists>encoded. SignAccountAccess sample_lib old_signer second sample_uuid sample_access = Inr (encoded, second + minute)"
proof -
  let ?c = "account_claims old_signer second sample_uuid (sample_access\<lparr>ai_TTL := minute\<rparr>)"
  have "pairwise_Valid (replicate 64 CHR ''a'')" by (simp add: pairwise_Valid_iff list_all_iff char_class_defs)
  moreover have "ValidProductID ''pict''" by (simp add: ValidProductID_def char_class_defs)
  moreover have "wrap64 60 = 60" by (simp add: wrap64_id in_int64_def)
  ultimately have "validAccountAccess old_signer second ?c"
    by (simp add: validAccountAccess_def account_claims_def sample_access_def old_signer_def sample_unix maxAccountTTL_def)
      (simp add: duration_defs)
  moreover obtain encoded where "signPayload sample_lib old_signer (account_members ?c) = Inr encoded"
  proof -
    have "2 * length (js_render sample_lib (header_members (sg_keyID old_signer))) + 2 * length (js_render sample_lib (account_members ?c)) \<le> 8000"
      by (simp add: sample_lib_def length_hex_words header_members_def account_members_def account_claims_def sample_access_def old_signer_def
          sample_unix scopes_json_def token_constants bits.simps)
    from sample_signs [OF this] that show ?thesis by blast
  qed
  ultimately show ?thesis
    using \<open>pairwise_Valid (replicate 64 CHR ''a'')\<close> \<open>ValidProductID ''pict''\<close>
    by (simp add: SignAccountAccess_def sample_access_def old_signer_def duration_defs maxAccountTTL_def)
qed

theorem account_access_roundtrip_witness:
  "\<exists>encoded c. SignAccountAccess sample_lib old_signer second sample_uuid sample_access = Inr (encoded, second + minute) \<and>
     ac_SessionID c = sample_uuid \<and> VerifyAccountAccess sample_lib new_signer (2 * second) encoded = Inr c \<and>
     isl (VerifyAccountAccess sample_lib new_signer (2 * minute) encoded)"
proof -
  from sample_access_signs obtain encoded where e: "SignAccountAccess sample_lib old_signer second sample_uuid sample_access = Inr (encoded, second + minute)"
    by blast
  note rt = account_access_roundtrip [OF sample_lib_sound sample_rings(1,2,3,4,5) order_refl _ _ _ _ e]
  have t: "utf8_valid ''k''" "utf8_valid ''i''" "unix second < 2 ^ 62" "second \<le> 2 * second" "second \<le> 2 * minute"
    "unix (2 * second) = 2" "unix (2 * minute) = 120" "ai_SessionID sample_access = sample_uuid"
    by (simp_all add: unix_def duration_defs sample_access_def)
  from rt [OF t(1,2,3,4)] obtain c where "ac_SessionID c = sample_uuid" "VerifyAccountAccess sample_lib new_signer (2 * second) encoded = Inr c"
    using t by (auto simp: sample_unix)
  moreover from rt [OF t(1,2,3,5)] have "isl (VerifyAccountAccess sample_lib new_signer (2 * minute) encoded)"
    using t by (auto simp: sample_unix)
  ultimately show ?thesis using e by blast
qed

lemma sample_refresh_signs:
  "\<exists>encoded. SignRefresh sample_lib old_signer second sample_uuid ''pict'' ''s'' ''p'' minute = Inr (encoded, second + minute)"
proof -
  let ?c = "\<lparr>tc_Issuer = ''i'', tc_Subject = ''s'', tc_Audience = RefreshAudience, tc_Product = ''pict'',
    tc_SubjectType = ''installation'', tc_Scopes = [RefreshScope], tc_PersonKey = None, tc_OrgKey = None, tc_PolicyVersion = ''p'',
    tc_IssuedAt = 1, tc_ExpiresAt = 61, tc_TokenID = sample_uuid\<rparr>"
  have "2 * length (js_render sample_lib (header_members (sg_keyID old_signer))) + 2 * length (js_render sample_lib (claims_members ?c)) \<le> 8000"
    by (simp add: sample_lib_def length_hex_words header_members_def claims_members_def pointer_member_def old_signer_def scopes_json_def token_constants bits.simps)
  from sample_signs [OF this] obtain encoded where "signPayload sample_lib old_signer (claims_members ?c) = Inr encoded" by blast
  then show ?thesis
    by (simp add: SignRefresh_def signClaims_def refresh_input_def sample_unix Let_def) (simp add: old_signer_def duration_defs maxRefreshTTL_def)
qed

theorem refresh_roundtrip_witness:
  "\<exists>encoded c. SignRefresh sample_lib old_signer second sample_uuid ''pict'' ''s'' ''p'' minute = Inr (encoded, second + minute) \<and>
     tc_Subject c = ''s'' \<and> VerifyRefresh sample_lib new_signer (2 * second) encoded = Inr c"
proof -
  from sample_refresh_signs obtain encoded where e: "SignRefresh sample_lib old_signer second sample_uuid ''pict'' ''s'' ''p'' minute = Inr (encoded, second + minute)"
    by blast
  have t: "list_all utf8_valid [''k'', ''i'', ''pict'', ''s'', ''p'', sample_uuid]" "''pict'' \<noteq> ''''" "''s'' \<noteq> ''''" "length ''p'' \<le> 100"
    "\<bar>unix second\<bar> < 2 ^ 62" "second \<le> 2 * second" "unix (2 * second) = 2"
    by (simp_all add: unix_def duration_defs)
  from refresh_roundtrip [OF sample_lib_sound sample_rings t(1-6) e] t e show ?thesis by (auto simp: sample_unix)
qed

theorem refresh_lifetime_wraps_witness:
  "\<exists>c. \<not> refresh_rejected old_signer second c \<and> tc_ExpiresAt c = 18446744075 \<and> tc_IssuedAt c = 1"
proof -
  let ?c = "\<lparr>tc_Issuer = ''i'', tc_Subject = ''s'', tc_Audience = RefreshAudience, tc_Product = ''pict'',
    tc_SubjectType = ''installation'', tc_Scopes = [RefreshScope], tc_PersonKey = None, tc_OrgKey = None, tc_PolicyVersion = ''p'',
    tc_IssuedAt = 1, tc_ExpiresAt = 61, tc_TokenID = sample_uuid\<rparr>"
  have "\<not> refresh_rejected old_signer second ?c"
    by (simp add: refresh_rejected_def old_signer_def sample_unix wrap64_def) (simp add: duration_defs maxRefreshTTL_def)
  from refresh_lifetime_wraps [OF this] show ?thesis by (intro exI [of _ "?c\<lparr>tc_ExpiresAt := 18446744075\<rparr>"]) simp
qed

end
