(* ===== verification/Workers.thy ===== *)
theory Workers
  imports Privacy_Machine Completion_Store Tokens
begin

text \<open>
  The background workers: the outbox worker (\<^verbatim>\<open>internal/outbox\<close>), the erasure
  worker (\<^verbatim>\<open>internal/privacyworker\<close>), the clean-up worker
  (\<^verbatim>\<open>internal/verificationworker\<close>) and the tick handler that runs them one after
  the other (\<^verbatim>\<open>internal/workertick\<close>).  A worker's store calls are separate
  transactions: \<open>others k\<close> is what the rest of the service does to the database
  before its \<open>k\<close>-th call.  A run returns the database and the error it stopped
  with, because what has been committed stays committed.
\<close>

section \<open>Back-off\<close>

definition outbox_retryDelay :: "int \<Rightarrow> duration" where
  "outbox_retryDelay attempt0 =
     (let attempt = (if attempt0 < 1 then 1 else attempt0);
          attempt' = (if attempt > 8 then 8 else attempt)
      in 2 ^ nat (attempt' - 1) * second)"

definition privacy_retryDelay :: "int \<Rightarrow> duration" where
  "privacy_retryDelay attempt0 =
     (let attempt = (if attempt0 < 1 then 1 else attempt0);
          attempt' = (if attempt > 10 then 10 else attempt)
      in 2 ^ nat (attempt' - 1) * second)"

section \<open>The outbox worker\<close>

text \<open>
  \<open>post\<close> is the HTTP client: the status and body of the answer to a request with the
  URL, the bearer token, the idempotency key and the payload, or \<open>None\<close> for a
  transport error.  \<open>receipt_of\<close> reads the JSON of a receipt.
\<close>

record outbox_worker =
  ow_url :: string
  ow_signer :: Signer
  ow_products :: "string \<rightharpoonup> string"
  ow_maxAttempts :: int
  ow_lib :: token_lib
  ow_post :: "string \<Rightarrow> string \<Rightarrow> string \<Rightarrow> payload \<Rightarrow> (int \<times> bytes) option"
  ow_receipt_of :: "bytes \<Rightarrow> receipt"

datatype delivery = Delivery receipt | DeliveryPending | DeliveryFailed

definition completedReceipt :: "receipt \<Rightarrow> string \<Rightarrow> bool result" where
  "completedReceipt receipt expectedRequestID =
     (case receipt of
        DeliveryReceipt requestID status \<Rightarrow>
          if requestID \<noteq> expectedRequestID then Inl (ErrMessage ''delivery receipt has mismatched request ID'')
          else if status = ''completed'' then Inr True
          else if status = ''pending'' \<or> status = ''processing'' \<or> status = ''retry'' then Inr False
          else if status = ''failed'' then Inl (ErrMessage ''downstream privacy request failed'')
          else Inl (ErrMessage ''delivery receipt has invalid status'')
      | _ \<Rightarrow> Inl (ErrMessage ''delivery returned invalid receipt JSON''))"

definition delivery_token :: "outbox_worker \<Rightarrow> time \<Rightarrow> string \<Rightarrow> OutboxEvent \<Rightarrow> string result" where
  "delivery_token w now tokenID event =
     (let scope = oe_Payload event in
      case ow_products w (pl_product scope) of
        None \<Rightarrow> Inl (ErrMessage ''outbox payload has unknown product scope'')
      | Some audience \<Rightarrow>
          if pl_subject_key scope = '''' then Inl (ErrMessage ''outbox payload has unknown product scope'')
          else rbind (SignClaims (ow_lib w) (ow_signer w) now tokenID
            \<lparr>si_Audience = audience, si_Product = pl_product scope, si_Subject = pl_subject_key scope, si_SubjectType = ''service'',
             si_Scopes = [''privacy:write''], si_PersonKey = None, si_OrgKey = None, si_PolicyVersion = '''', si_TTL = 0\<rparr>)
            (\<lambda>(accessToken, _). Inr accessToken))"

definition deliver :: "outbox_worker \<Rightarrow> time \<Rightarrow> string \<Rightarrow> OutboxEvent \<Rightarrow> delivery" where
  "deliver w now tokenID event =
     (case delivery_token w now tokenID event of
        Inl _ \<Rightarrow> DeliveryFailed
      | Inr accessToken \<Rightarrow>
          (case ow_post w (ow_url w) accessToken (oe_ID event) (oe_Payload event) of
             None \<Rightarrow> DeliveryFailed
           | Some (status, body) \<Rightarrow>
               if status < 200 \<or> 300 \<le> status then DeliveryFailed
               else let receipt = ow_receipt_of w (take (16 * 1024) body) in
                 (case completedReceipt receipt (oe_ID event) of
                    Inl _ \<Rightarrow> DeliveryFailed
                  | Inr completed \<Rightarrow> if completed then Delivery receipt else DeliveryPending)))"

text \<open>The surroundings of a run: the clock and the fresh identifiers of its calls, and the rest of the service.\<close>

record surroundings =
  su_clock :: "nat \<Rightarrow> time"
  su_fresh :: "nat \<Rightarrow> string"
  su_others :: "nat \<Rightarrow> db \<Rightarrow> db"

definition settle :: "outbox_worker \<Rightarrow> surroundings \<Rightarrow> nat \<Rightarrow> OutboxEvent \<Rightarrow> db \<Rightarrow> db result" where
  "settle w env k event d =
     (case deliver w (su_clock env k) (su_fresh env k) event of
        DeliveryPending \<Rightarrow> RescheduleOutbox (su_clock env k) (oe_ID event) (outbox_retryDelay (oe_PollCount event + 1)) d
      | DeliveryFailed \<Rightarrow> RetryOutbox (su_clock env k) (oe_ID event) ''delivery failed'' (outbox_retryDelay (oe_Attempt event + 1)) (ow_maxAttempts w) d
      | Delivery receipt \<Rightarrow> MarkOutboxDelivered (su_clock env k) (oe_ID event) receipt d)"

text \<open>The loop of a worker: each round is one transaction, and the first that fails ends the run.\<close>

fun rounds :: "(nat \<Rightarrow> 'a \<Rightarrow> db \<Rightarrow> db result) \<Rightarrow> surroundings \<Rightarrow> nat \<Rightarrow> 'a list \<Rightarrow> db \<Rightarrow> db \<times> error option" where
  "rounds f env k [] d = (d, None)"
| "rounds f env k (x # xs) d =
     (let d1 = su_others env k d in
      case f k x d1 of Inl e \<Rightarrow> (d1, Some e) | Inr d2 \<Rightarrow> rounds f env (Suc k) xs d2)"

definition outbox_Process :: "outbox_worker \<Rightarrow> surroundings \<Rightarrow> db \<Rightarrow> db \<times> error option" where
  "outbox_Process w env d =
     (if ow_url w = '''' then (d, None)
      else case ClaimOutbox (su_clock env 0) 20 d of
        Inl e \<Rightarrow> (d, Some e)
      | Inr (events, d1) \<Rightarrow> rounds (settle w env) env 1 events d1)"

section \<open>The erasure worker\<close>

text \<open>
  The erasure and the retry that follows a failed one are two transactions; \<open>others\<close>
  runs before each, at \<open>2 * k\<close> and \<open>2 * k + 1\<close>.
\<close>

definition erase_or_retry :: "int \<Rightarrow> surroundings \<Rightarrow> nat \<Rightarrow> PrivacyErasureJob \<Rightarrow> db \<Rightarrow> db result" where
  "erase_or_retry maxAttempts env k job d =
     (case ErasePrivacyJob (su_fresh env (2 * k)) (su_clock env (2 * k)) job d of
        Inr d1 \<Rightarrow> Inr d1
      | Inl _ \<Rightarrow> RetryPrivacyErasure (su_clock env (2 * k + 1)) job (privacy_retryDelay (ej_Attempts job)) maxAttempts
          (su_others env (2 * k + 1) d))"

definition privacy_Process :: "int \<Rightarrow> surroundings \<Rightarrow> db \<Rightarrow> db \<times> error option" where
  "privacy_Process maxAttempts env d =
     (case ClaimPrivacyErasures (su_clock env 0) 10 d of
        Inl e \<Rightarrow> (d, Some e)
      | Inr (jobs, d1) \<Rightarrow> rounds (erase_or_retry maxAttempts env) (env\<lparr>su_others := (\<lambda>k. su_others env (2 * k))\<rparr>) 1 jobs d1)"

section \<open>The clean-up worker and the tick\<close>

definition verification_Process :: "surroundings \<Rightarrow> db \<Rightarrow> db \<times> error option" where
  "verification_Process env d =
     (let now = su_clock env 0 in
      case CleanupPublicAccountState now 100 d of
        Inl e \<Rightarrow> (d, Some e)
      | Inr d1 \<Rightarrow>
          let d2 = su_others env 1 d1 in
          (case DeleteExpiredEmailVerifications now 100 d2 of Inl e \<Rightarrow> (d2, Some e) | Inr (_, d3) \<Rightarrow> (d3, None)))"

fun run_processors :: "(db \<Rightarrow> db \<times> error option) list \<Rightarrow> db \<Rightarrow> db \<times> error option" where
  "run_processors [] d = (d, None)"
| "run_processors (p # ps) d = (case p d of (d1, None) \<Rightarrow> run_processors ps d1 | (d1, Some e) \<Rightarrow> (d1, Some e))"

definition tick_ServeHTTP :: "(db \<Rightarrow> db \<times> error option) list \<Rightarrow> string \<Rightarrow> db \<Rightarrow> (int \<times> string) \<times> db" where
  "tick_ServeHTTP processors method d =
     (if method \<noteq> ''POST'' then ((405, ''''), d)
      else case run_processors processors d of
        (d1, Some _) \<Rightarrow> ((503, ''retry''), d1)
      | (d1, None) \<Rightarrow> ((200, ''ok''), d1))"

section \<open>Runs stay within the workflow\<close>

text \<open>What the rest of the service does between two calls keeps to the workflow.\<close>

definition harmless :: "surroundings \<Rightarrow> bool" where
  "harmless env \<longleftrightarrow>
     (\<forall>k d js. reachable \<lparr>sv_db = d, sv_jobs = js\<rparr> \<longrightarrow> (\<exists>js'. js \<subseteq> js' \<and> reachable \<lparr>sv_db = su_others env k d, sv_jobs = js'\<rparr>))"

definition within :: "PrivacyErasureJob set \<Rightarrow> db \<Rightarrow> bool" where
  "within js d \<longleftrightarrow> (\<exists>js'. js \<subseteq> js' \<and> reachable \<lparr>sv_db = d, sv_jobs = js'\<rparr>)"

lemma within_others: "harmless env \<Longrightarrow> within js d \<Longrightarrow> within js (su_others env k d)"
  unfolding within_def harmless_def by (meson order_trans)

lemma within_step:
  assumes "within js d" "\<And>js'. js \<subseteq> js' \<Longrightarrow> privacy_op \<lparr>sv_db = d, sv_jobs = js'\<rparr> \<lparr>sv_db = d', sv_jobs = js'\<rparr>"
  shows "within js d'"
  using assms reachable.step unfolding within_def by blast

lemma op_db:
  "MarkOutboxDelivered now eventID receipt d = Inr d' \<Longrightarrow> privacy_op \<lparr>sv_db = d, sv_jobs = js\<rparr> \<lparr>sv_db = d', sv_jobs = js\<rparr>"
  "RetryOutbox now eventID message delay maxAttempts d = Inr d' \<Longrightarrow> privacy_op \<lparr>sv_db = d, sv_jobs = js\<rparr> \<lparr>sv_db = d', sv_jobs = js\<rparr>"
  "RescheduleOutbox now eventID delay d = Inr d' \<Longrightarrow> privacy_op \<lparr>sv_db = d, sv_jobs = js\<rparr> \<lparr>sv_db = d', sv_jobs = js\<rparr>"
  "ClaimOutbox now n d = Inr (es, d') \<Longrightarrow> privacy_op \<lparr>sv_db = d, sv_jobs = js\<rparr> \<lparr>sv_db = d', sv_jobs = js\<rparr>"
  "job \<in> js \<Longrightarrow> ErasePrivacyJob a now job d = Inr d' \<Longrightarrow> privacy_op \<lparr>sv_db = d, sv_jobs = js\<rparr> \<lparr>sv_db = d', sv_jobs = js\<rparr>"
  "job \<in> js \<Longrightarrow> RetryPrivacyErasure now job delay maxAttempts d = Inr d' \<Longrightarrow> privacy_op \<lparr>sv_db = d, sv_jobs = js\<rparr> \<lparr>sv_db = d', sv_jobs = js\<rparr>"
  "foreign_write d d' \<Longrightarrow> privacy_op \<lparr>sv_db = d, sv_jobs = js\<rparr> \<lparr>sv_db = d', sv_jobs = js\<rparr>"
  using privacy_op.mark [of _ _ _ "\<lparr>sv_db = d, sv_jobs = js\<rparr>"] privacy_op.retry [of _ _ _ _ _ "\<lparr>sv_db = d, sv_jobs = js\<rparr>"]
    privacy_op.reschedule [of _ _ _ "\<lparr>sv_db = d, sv_jobs = js\<rparr>"] privacy_op.claim_outbox [of _ _ "\<lparr>sv_db = d, sv_jobs = js\<rparr>"]
    privacy_op.erase [of _ "\<lparr>sv_db = d, sv_jobs = js\<rparr>"] privacy_op.retry_erasure [of _ "\<lparr>sv_db = d, sv_jobs = js\<rparr>"]
    privacy_op.foreign [of "\<lparr>sv_db = d, sv_jobs = js\<rparr>"]
  by simp_all

lemma within_rounds:
  assumes "within js d" "harmless env" "\<And>k x d d'. x \<in> set xs \<Longrightarrow> within js d \<Longrightarrow> f k x d = Inr d' \<Longrightarrow> within js d'"
  shows "within js (fst (rounds f env k xs d))"
  using assms
proof (induction xs arbitrary: k d)
  case (Cons x xs)
  show ?case
  proof (cases "f k x (su_others env k d)")
    case (Inl e)
    then show ?thesis using within_others Cons.prems by simp
  next
    case (Inr d2)
    then have "within js d2" using Cons.prems within_others by (metis list.set_intros(1))
    then have "within js (fst (rounds f env (Suc k) xs d2))"
    proof (rule Cons.IH)
      show "within js d'" if "x' \<in> set xs" "within js e" "f l x' e = Inr d'" for l x' e d'
        using Cons.prems(3) [of x' e l d'] that by simp
    qed (rule Cons.prems(2))
    then show ?thesis using Inr by simp
  qed
qed simp

lemma within_settle:
  assumes "within js d" "settle w env k event d = Inr d'"
  shows "within js d'"
  using assms by (auto simp: settle_def split: delivery.splits intro: within_step op_db)

lemma within_outbox:
  assumes "within js d" "harmless env"
  shows "within js (fst (outbox_Process w env d))"
proof (cases "ClaimOutbox (su_clock env 0) 20 d")
  case (Inr r)
  obtain es d1 where r: "r = (es, d1)" by (cases r)
  have "within js d1" using within_step [OF assms(1)] op_db(4) Inr r by blast
  then have "within js (fst (rounds (settle w env) env 1 es d1))"
    by (rule within_rounds) (use assms within_settle in auto)
  with assms Inr r show ?thesis by (simp add: outbox_Process_def)
qed (use assms in \<open>simp add: outbox_Process_def\<close>)

lemma within_privacy:
  assumes "within js d" "harmless env"
  shows "within js (fst (privacy_Process maxAttempts env d))"
proof (cases "ClaimPrivacyErasures (su_clock env 0) 10 d")
  case (Inr r)
  obtain jobs d1 where r: "r = (jobs, d1)" by (cases r)
  from assms(1) obtain js' where js': "js \<subseteq> js'" "reachable \<lparr>sv_db = d, sv_jobs = js'\<rparr>" by (auto simp: within_def)
  have "privacy_op \<lparr>sv_db = d, sv_jobs = js'\<rparr> \<lparr>sv_db = d1, sv_jobs = js' \<union> set jobs\<rparr>"
    using privacy_op.claim_erasures [of _ _ "\<lparr>sv_db = d, sv_jobs = js'\<rparr>"] Inr r by fastforce
  with js' have start: "within (js \<union> set jobs) d1" unfolding within_def by (meson Un_mono order_refl reachable.step)
  have "within (js \<union> set jobs) d'"
    if "x \<in> set jobs" "within (js \<union> set jobs) d" "erase_or_retry maxAttempts env k x d = Inr d'" for k x d d'
    using that within_others [OF assms(2) that(2)]
    by (auto simp: erase_or_retry_def split: sum.splits intro: within_step op_db)
  then have "within (js \<union> set jobs) (fst (rounds (erase_or_retry maxAttempts env) (env\<lparr>su_others := (\<lambda>k. su_others env (2 * k))\<rparr>) 1 jobs d1))"
    using start assms(2) by (intro within_rounds) (auto simp: harmless_def)
  then show ?thesis using Inr r by (auto simp: privacy_Process_def within_def)
qed (use assms in \<open>simp add: privacy_Process_def\<close>)

lemma expire_keys: "db_keys d \<Longrightarrow> yields (expire_challenge now challengeID d) db_keys"
  by (auto simp: expire_challenge_def intro!: keys_intro)

lemma expire_durable: "db_keys d \<Longrightarrow> yields (for_each (expire_challenge now) xs d) (\<lambda>d'. db_keys d')"
  by (rule yields_for_each [where I = db_keys]) (auto intro: expire_keys)

lemma foreign_cleanup:
  assumes ok: "CleanupPublicAccountState now limit d = Inr d'" and keys: "db_keys d"
  shows "foreign_write d d'"
proof -
  let ?now = "trunc_us now"
  define ids where "ids = map pc_id (oldest pc_id pc_expires_at (nat limit)
      (filter (\<lambda>c. pc_expires_at c \<le> ?now \<and> live_proof (pc_state c)) (public_email_challenges d)))"
  have u: "uniq pc_id (public_email_challenges d)" using keys by (rule table_uniq)
  then have "distinct ids" by (simp add: ids_def overdue_distinct)
  with ok u have run: "for_each (expire_challenge ?now) ids d = Inr (d\<lparr>public_email_challenges := expire_rows ?now ids (public_email_challenges d)\<rparr>)"
    and d': "d' = purge_public_state ?now (nat limit) (d\<lparr>public_email_challenges := expire_rows ?now ids (public_email_challenges d)\<rparr>)"
    by (auto simp: CleanupPublicAccountState_def Let_def ids_def expire_all split: if_splits)
  have "db_keys d'" unfolding d' by (rule purge_keys, rule yieldsD [OF expire_durable [OF keys] run])
  moreover have "durable d' = durable d" unfolding d' purge_durable by (simp add: durable_def)
  then have "privacy_requests d' = privacy_requests d" "privacy_request_steps d' = privacy_request_steps d" "outbox_events d' = outbox_events d"
    by (auto simp: durable_def dest: arg_cong [of _ _ privacy_requests] arg_cong [of _ _ privacy_request_steps] arg_cong [of _ _ outbox_events])
  ultimately show ?thesis by (simp add: foreign_write_def)
qed

lemma foreign_delete:
  assumes "DeleteExpiredEmailVerifications now limit d = Inr (n, d')" and keys: "db_keys d"
  shows "foreign_write d d'"
proof -
  from cleanup_only_expired [OF assms] have d': "d' = d\<lparr>email_verifications := email_verifications d'\<rparr>" by blast
  have "uniq ev_id (email_verifications d')"
    using assms table_uniq [OF keys]
    by (auto simp: DeleteExpiredEmailVerifications_def Let_def delete_fold uniq_def distinct_map_filter split: if_splits)
  then have "db_keys d'" by (subst d') (rule tb_email_verifications.keys_put [OF keys])
  moreover have "privacy_requests d' = privacy_requests d" "privacy_request_steps d' = privacy_request_steps d" "outbox_events d' = outbox_events d"
    by (subst d', simp)+
  ultimately show ?thesis by (simp add: foreign_write_def)
qed

lemma within_inv: "within js d \<Longrightarrow> \<exists>js'. js \<subseteq> js' \<and> privacy_inv \<lparr>sv_db = d, sv_jobs = js'\<rparr>"
  unfolding within_def using reachable_inv by blast

lemma within_keys: "within js d \<Longrightarrow> db_keys d"
  using within_inv inv_rows(1) by fastforce

lemma within_foreign: "within js d \<Longrightarrow> foreign_write d d' \<Longrightarrow> within js d'"
  by (rule within_step) (auto intro: op_db)

lemma within_verification:
  assumes "within js d" "harmless env"
  shows "within js (fst (verification_Process env d))"
proof (cases "CleanupPublicAccountState (su_clock env 0) 100 d")
  case (Inr d1)
  have 1: "within js (su_others env 1 d1)"
    using within_others [OF assms(2)] within_foreign [OF assms(1) foreign_cleanup [OF Inr within_keys [OF assms(1)]]] by blast
  then show ?thesis
    using Inr within_foreign [OF 1 foreign_delete [OF _ within_keys [OF 1]]]
    by (auto simp: verification_Process_def Let_def split: sum.splits)
qed (use assms in \<open>simp add: verification_Process_def\<close>)

lemma within_processors:
  assumes "within js d" "\<And>p d. p \<in> set ps \<Longrightarrow> within js d \<Longrightarrow> within js (fst (p d))"
  shows "within js (fst (run_processors ps d))"
  using assms
proof (induction ps arbitrary: d)
  case (Cons p ps)
  have step: "within js (fst (p d))" using Cons.prems by simp
  show ?case
  proof (cases "snd (p d)")
    case None
    have "within js (fst (run_processors ps (fst (p d))))" using step Cons.prems(2) by (intro Cons.IH) auto
    with None show ?thesis by (simp add: case_prod_beta split: option.split)
  next
    case (Some e)
    with step show ?thesis by (simp add: case_prod_beta)
  qed
qed simp

section \<open>An undisturbed run of the outbox worker\<close>

definition settled :: "outbox_worker \<Rightarrow> surroundings \<Rightarrow> nat \<Rightarrow> OutboxEvent \<Rightarrow> outbox_event \<Rightarrow> bool" where
  "settled w env k event e \<longleftrightarrow> ob_id e = oe_ID event \<and>
     (case deliver w (su_clock env k) (su_fresh env k) event of
        Delivery receipt \<Rightarrow> ob_status e = ''delivered'' \<and> ob_delivery_receipt e = Some receipt \<and> receipt = DeliveryReceipt (oe_ID event) ''completed''
      | DeliveryPending \<Rightarrow> ob_status e = ''pending'' \<and> ob_available_at e = trunc_us (su_clock env k + outbox_retryDelay (oe_PollCount event + 1))
      | DeliveryFailed \<Rightarrow> (ob_status e = ''pending'' \<or> ob_status e = ''manual_dlq'') \<and>
          ob_available_at e = trunc_us (su_clock env k + outbox_retryDelay (oe_Attempt event + 1)))"

lemma deliver_receipt: "deliver w now tokenID event = Delivery receipt \<Longrightarrow> receipt = DeliveryReceipt (oe_ID event) ''completed''"
  by (auto simp: deliver_def Let_def completedReceipt_def split: sum.splits option.splits if_splits receipt.splits)

lemma mark_succeeds:
  assumes inv: "privacy_inv s" and e: "tfind ob_id i (outbox_events (sv_db s)) = Some e" "ob_status e = ''processing''"
  shows "\<exists>d'. MarkOutboxDelivered now i (DeliveryReceipt i ''completed'') (sv_db s) = Inr d' \<and>
    outbox_events d' = tbl_update (\<lambda>x. ob_id x = i) (deliver_event (DeliveryReceipt i ''completed'', now)) (outbox_events (sv_db s))"
proof -
  let ?p = "(DeliveryReceipt i ''completed'', now)"
  let ?d1 = "outbox_events_update (tbl_update (\<lambda>x. ob_id x = i) (deliver_event ?p)) (sv_db s)"
  note rows = inv_rows [OF inv]
  have cas: "cas_row outbox_events outbox_events_update ob_id ob_version i (ob_version e) (\<lambda>_. True) (deliver_event ?p) (sv_db s) = Inr ?d1"
    using outbox_cas [OF inv, of "deliver_event ?p" i "ob_version e" ?d1] e by simp
  show ?thesis
  proof (cases "ob_privacy_step_id e")
    case None
    then show ?thesis using e cas by (simp add: MarkOutboxDelivered_def)
  next
    case (Some stepID)
    have mem: "e \<in> set (outbox_events (sv_db s))" using e(1) by (rule tfind_mem)
    have "ob_privacy_request_id e \<noteq> None"
    proof
      assume "ob_privacy_request_id e = None"
      then have "(ob_id e, ob_privacy_step_id e, None) \<in> event_ref ` set (outbox_events (sv_db s))" using mem by (force simp: event_ref_def)
      from links_free_event [OF rows(6) this] Some show False by simp
    qed
    then obtain q where "ob_privacy_request_id e = Some q" by blast
    from rows(6) mem this obtain y where y: "y \<in> set (privacy_request_steps (sv_db s))" "ob_privacy_step_id e = Some (ps_id y)"
      by (rule linked_event_step)
    have find: "tfind ps_id stepID (privacy_request_steps (sv_db s)) = Some y" using uniq_mem_tfind [OF rows(3) y(1)] y(2) Some by simp
    have inv1: "privacy_inv (s\<lparr>sv_db := ?d1\<rparr>)" by (rule inv_claimed_event [OF inv e]) (simp, simp add: deliver_event_def)
    have "cas_row privacy_request_steps privacy_request_steps_update ps_id ps_version stepID (ps_version y) (\<lambda>_. True) (complete_metric_step ?p) ?d1 =
        Inr (privacy_request_steps_update (tbl_update (\<lambda>x. ps_id x = stepID) (complete_metric_step ?p)) ?d1)"
      using step_cas [OF inv1, of "complete_metric_step ?p" stepID "ps_version y"] find by simp
    then show ?thesis using e cas find Some by (simp add: MarkOutboxDelivered_def)
  qed
qed

lemma settle_succeeds:
  assumes inv: "privacy_inv s" and e: "tfind ob_id (oe_ID event) (outbox_events (sv_db s)) = Some e" "ob_status e = ''processing''"
  shows "\<exists>d' f. settle w env k event (sv_db s) = Inr d' \<and> privacy_inv (s\<lparr>sv_db := d'\<rparr>) \<and>
    outbox_events d' = tbl_update (\<lambda>x. ob_id x = oe_ID event) f (outbox_events (sv_db s)) \<and> (\<forall>x. ob_id (f x) = ob_id x) \<and>
    settled w env k event (f e)"
proof -
  have id: "ob_id e = oe_ID event" using tfind_Some [OF e(1)] by simp
  note cas = outbox_cas [OF inv]
  show ?thesis
  proof (cases "deliver w (su_clock env k) (su_fresh env k) event")
    case (Delivery receipt)
    note r = deliver_receipt [OF Delivery]
    from mark_succeeds [OF inv e, of "su_clock env k"] obtain d' where
      m: "MarkOutboxDelivered (su_clock env k) (oe_ID event) receipt (sv_db s) = Inr d'"
      and f: "outbox_events d' = tbl_update (\<lambda>x. ob_id x = oe_ID event) (deliver_event (receipt, su_clock env k)) (outbox_events (sv_db s))"
      unfolding r by blast
    show ?thesis
      using m f inv_mark [OF inv m] Delivery r id
      by (intro exI [of _ d'] exI [of _ "deliver_event (receipt, su_clock env k)"]) (simp add: settle_def settled_def deliver_event_def)
  next
    case DeliveryPending
    let ?f = "reschedule_event (su_clock env k + outbox_retryDelay (oe_PollCount event + 1))"
    let ?d = "outbox_events_update (tbl_update (\<lambda>x. ob_id x = oe_ID event) ?f) (sv_db s)"
    have ok: "RescheduleOutbox (su_clock env k) (oe_ID event) (outbox_retryDelay (oe_PollCount event + 1)) (sv_db s) = Inr ?d"
      using e cas [of ?f "oe_ID event" "ob_version e" ?d] by (simp add: RescheduleOutbox_def updateClaimedOutbox_def reschedule_event_def)
    show ?thesis
      using ok inv_reschedule [OF inv ok] DeliveryPending id
      by (intro exI [of _ ?d] exI [of _ ?f]) (simp add: settle_def settled_def reschedule_event_def)
  next
    case DeliveryFailed
    let ?st = "if word_of_int (ow_maxAttempts w) \<le> ob_attempts e + 1 then ''manual_dlq'' else ''pending''"
    let ?f = "retry_event (?st, su_clock env k + outbox_retryDelay (oe_Attempt event + 1), take 500 ''delivery failed'')"
    let ?d = "outbox_events_update (tbl_update (\<lambda>x. ob_id x = oe_ID event) ?f) (sv_db s)"
    have ok: "RetryOutbox (su_clock env k) (oe_ID event) ''delivery failed'' (outbox_retryDelay (oe_Attempt event + 1)) (ow_maxAttempts w) (sv_db s) = Inr ?d"
      using e cas [of ?f "oe_ID event" "ob_version e" ?d]
      by (simp add: RetryOutbox_def updateClaimedOutbox_def retry_event_def del: take_Cons_numeral)
    show ?thesis
      using ok inv_retry [OF inv ok] DeliveryFailed id
      by (intro exI [of _ ?d] exI [of _ ?f]) (simp add: settle_def settled_def retry_event_def)
  qed
qed

lemma rounds_settle:
  assumes "privacy_inv s" "distinct (map oe_ID es)" "su_others env = (\<lambda>_ d. d)"
    and "\<And>ev. ev \<in> set es \<Longrightarrow> \<exists>e. tfind ob_id (oe_ID ev) (outbox_events (sv_db s)) = Some e \<and> ob_status e = ''processing''"
  shows "\<exists>d'. rounds (settle w env) env k es (sv_db s) = (d', None) \<and>
    (\<forall>i < length es. \<exists>e. tfind ob_id (oe_ID (es ! i)) (outbox_events d') = Some e \<and> settled w env (k + i) (es ! i) e) \<and>
    (\<forall>j. j \<notin> oe_ID ` set es \<longrightarrow> tfind ob_id j (outbox_events d') = tfind ob_id j (outbox_events (sv_db s)))"
  using assms(1,2,4)
proof (induction es arbitrary: s k)
  case (Cons ev es)
  from Cons.prems(3) [of ev] obtain e where e: "tfind ob_id (oe_ID ev) (outbox_events (sv_db s)) = Some e" "ob_status e = ''processing''" by auto
  from settle_succeeds [OF Cons.prems(1) e, of w env k] obtain d1 f where step: "settle w env k ev (sv_db s) = Inr d1"
    and inv1: "privacy_inv (s\<lparr>sv_db := d1\<rparr>)" and ev1: "outbox_events d1 = tbl_update (\<lambda>x. ob_id x = oe_ID ev) f (outbox_events (sv_db s))"
    and f: "\<And>x. ob_id (f x) = ob_id x" "settled w env k ev (f e)" by blast
  have find: "tfind ob_id j (outbox_events d1) = (if j = oe_ID ev then Some (f e) else tfind ob_id j (outbox_events (sv_db s)))" for j
    using e(1) tfind_Some [of ob_id j "outbox_events (sv_db s)"] tfind_Some [OF e(1)] unfolding ev1 tfind_update [of ob_id f, OF f(1)]
    by (cases "tfind ob_id j (outbox_events (sv_db s))") auto
  have "\<exists>e. tfind ob_id (oe_ID x) (outbox_events (sv_db (s\<lparr>sv_db := d1\<rparr>))) = Some e \<and> ob_status e = ''processing''" if "x \<in> set es" for x
    using Cons.prems(2) Cons.prems(3) [of x] that by (auto simp: find image_iff)
  from Cons.IH [OF inv1 _ this, of "Suc k"] Cons.prems(2) obtain d' where rest: "rounds (settle w env) env (Suc k) es d1 = (d', None)"
    and tail: "\<forall>i < length es. \<exists>e. tfind ob_id (oe_ID (es ! i)) (outbox_events d') = Some e \<and> settled w env (Suc k + i) (es ! i) e"
    and keep: "\<forall>j. j \<notin> oe_ID ` set es \<longrightarrow> tfind ob_id j (outbox_events d') = tfind ob_id j (outbox_events d1)" by auto
  have "\<exists>e. tfind ob_id (oe_ID ((ev # es) ! i)) (outbox_events d') = Some e \<and> settled w env (k + i) ((ev # es) ! i) e" if "i < length (ev # es)" for i
    using that tail keep Cons.prems(2) f(2) by (cases i) (auto simp: find)
  with rest step keep show ?case using assms(3) by (auto simp: find)
qed simp

lemma claim_outbox_succeeds:
  assumes inv: "privacy_inv s"
  shows "\<exists>es d'. ClaimOutbox now n (sv_db s) = Inr (es, d') \<and> distinct (map oe_ID es)"
proof -
  let ?d = "sv_db s"
  note rows = inv_rows [OF inv]
  have "\<exists>found. inspect_event ?d e = Inr found" if "e \<in> set (due_events now n ?d)" for e
  proof (cases "ob_privacy_request_id e")
    case None
    then show ?thesis by (simp add: inspect_event_def event_open_def)
  next
    case (Some q)
    have "e \<in> set (outbox_events ?d)" using due_events_selected(2) [OF rows(1) that] by (auto dest: tfind_mem)
    from rows(6) this Some obtain y where y: "y \<in> set (privacy_request_steps ?d)" "ps_request_id y = q" by (rule linked_event_step)
    from linked_step_request [OF rows(6) y(1)] y(2) obtain r where "r \<in> set (privacy_requests ?d)" "pr_id r = q" by auto
    with uniq_mem_tfind [OF rows(2)] have "tfind pr_id q (privacy_requests ?d) = Some r" by auto
    with Some show ?thesis by (simp add: inspect_event_def event_open_def getPrivacyRequestWith_def)
  qed
  then have ok: "ClaimOutbox now n ?d = Inr (outbox_queue.handed ?d (due_events now n ?d), outbox_queue.leased now ?d (due_events now n ?d))"
    unfolding ClaimOutbox_def using outbox_queue.claim_loop [OF rows(1), of "due_events now n ?d" now "[]"] due_events_selected [OF rows(1)] by simp
  have "map oe_ID (outbox_queue.handed ?d rs) = map ob_id (filter (outbox_queue.ready ?d) rs)" for rs
    by (induction rs) (auto simp: outbox_queue.handed_def outbox_queue.ready_def dest: ready_event)
  then show ?thesis using ok due_events_selected(1) [OF rows(1)] by (auto simp: distinct_map_filter)
qed

section \<open>Properties\<close>



section \<open>Witnesses\<close>

definition quiet :: surroundings where
  "quiet = \<lparr>su_clock = (\<lambda>_. second), su_fresh = (\<lambda>_. sample_uuid), su_others = (\<lambda>_ d. d)\<rparr>"

definition sample_worker :: outbox_worker where
  "sample_worker = \<lparr>ow_url = ''u'', ow_signer = old_signer, ow_products = Map.empty, ow_maxAttempts = 5, ow_lib = sample_lib,
     ow_post = (\<lambda>_ _ _ _. None), ow_receipt_of = (\<lambda>_. MalformedReceipt)\<rparr>"

lemma quiet_harmless: "harmless quiet"
  unfolding harmless_def quiet_def by auto



end
