(* ===== verification/Envelope.thy ===== *)
theory Envelope
  imports Store_Schema
begin

text \<open>
  Envelope encryption (\<^verbatim>\<open>internal/cryptokit\<close>): data is sealed under a fresh data
  key, and the data key is wrapped by a key provider, either the local key ring or
  Yandex KMS.  AES-256-GCM is the parameter \<open>aead\<close>, the two calls of the KMS are
  parameters too, and random bytes are arguments.  The locale \<open>key_provider\<close> is the
  Go interface with its contract; the round trip is proved from the contract and
  holds for both providers.
\<close>

section \<open>Authenticated encryption\<close>

record aead =
  gcm_Seal :: "bytes \<Rightarrow> bytes \<Rightarrow> bytes \<Rightarrow> bytes \<Rightarrow> bytes"
  gcm_Open :: "bytes \<Rightarrow> bytes \<Rightarrow> bytes \<Rightarrow> bytes \<Rightarrow> bytes option"

text \<open>
  Key, nonce, text and associated data.  The tag adds sixteen bytes.  Two associated
  data are separated when what is sealed under one does not open under the other; no
  tag of a fixed size can separate all of them.
\<close>

definition aead_sound :: "aead \<Rightarrow> bool" where
  "aead_sound g \<longleftrightarrow>
     (\<forall>key nonce plain aad. length (gcm_Seal g key nonce plain aad) = length plain + 16 \<and>
        gcm_Open g key nonce (gcm_Seal g key nonce plain aad) aad = Some plain)"

definition aead_separates :: "aead \<Rightarrow> bytes \<Rightarrow> bytes \<Rightarrow> bool" where
  "aead_separates g aad aad' \<longleftrightarrow> (\<forall>key nonce plain. gcm_Open g key nonce (gcm_Seal g key nonce plain aad) aad' = None)"

section \<open>The envelope\<close>

definition Algorithm_V1 :: string where "Algorithm_V1 = ''AES-256-GCM-ENVELOPE-V1''"

record DataKey =
  dk_Plaintext :: bytes
  dk_Wrapped :: bytes
  dk_KeyID :: string

text \<open>The random bytes of one encryption: the data key, the nonce of its wrapping, the nonce of the data.\<close>

record draw =
  dr_key :: bytes
  dr_wrap :: bytes
  dr_nonce :: bytes

definition draw_ok :: "draw \<Rightarrow> bool" where
  "draw_ok rnd \<longleftrightarrow> length (dr_key rnd) = 32 \<and> length (dr_wrap rnd) = 12 \<and> length (dr_nonce rnd) = 12"

record KeyProvider =
  kp_GenerateDataKey :: "draw \<Rightarrow> DataKey result"
  kp_DecryptDataKey :: "string \<Rightarrow> bytes \<Rightarrow> bytes result"

definition Encrypt :: "aead \<Rightarrow> KeyProvider \<Rightarrow> draw \<Rightarrow> bytes \<Rightarrow> bytes \<Rightarrow> Ciphertext result" where
  "Encrypt g provider rnd plaintext aad =
     (case kp_GenerateDataKey provider rnd of
        Inl _ \<Rightarrow> Inl (ErrMessage ''generate data key'')
      | Inr dataKey \<Rightarrow>
          if length (dk_Plaintext dataKey) \<noteq> 32 \<or> length (dk_Wrapped dataKey) = 0 \<or> dk_KeyID dataKey = ''''
          then Inl (ErrMessage ''key provider returned an invalid data key'')
          else Inr \<lparr>Algorithm = Algorithm_V1, KeyID = dk_KeyID dataKey, WrappedDataKey = dk_Wrapped dataKey, Nonce = dr_nonce rnd,
                 Data = gcm_Seal g (dk_Plaintext dataKey) (dr_nonce rnd) plaintext aad\<rparr>)"

definition Decrypt :: "aead \<Rightarrow> KeyProvider \<Rightarrow> Ciphertext \<Rightarrow> bytes \<Rightarrow> bytes result" where
  "Decrypt g provider encrypted aad =
     (if Algorithm encrypted \<noteq> Algorithm_V1 then Inl (ErrMessage ''unsupported envelope algorithm'')
      else if KeyID encrypted = '''' \<or> length (WrappedDataKey encrypted) = 0 \<or> length (Nonce encrypted) \<noteq> 12 \<or> length (Data encrypted) < 16
      then Inl (ErrMessage ''invalid envelope metadata'')
      else case kp_DecryptDataKey provider (KeyID encrypted) (WrappedDataKey encrypted) of
        Inl _ \<Rightarrow> Inl (ErrMessage ''decrypt data key'')
      | Inr dataKey \<Rightarrow>
          if length dataKey \<noteq> 32 then Inl (ErrMessage ''invalid data key'')
          else some_or (ErrMessage ''decrypt envelope'') (gcm_Open g dataKey (Nonce encrypted) (Data encrypted) aad))"

text \<open>
  The contract of a key provider: under the condition \<open>sound\<close>, the receiving provider unwraps what the
  sending one has wrapped.  The two differ after a key rotation.
\<close>

locale key_provider =
  fixes sender :: KeyProvider
    and receiver :: KeyProvider
    and sound :: bool
  assumes unwraps: "sound \<Longrightarrow> draw_ok rnd \<Longrightarrow> kp_GenerateDataKey sender rnd = Inr dk \<Longrightarrow>
    kp_DecryptDataKey receiver (dk_KeyID dk) (dk_Wrapped dk) = Inr (dk_Plaintext dk)"
begin

lemma decrypt_encrypted:
  assumes s: sound and g: "aead_sound g" and n: "draw_ok rnd" and enc: "Encrypt g sender rnd plaintext aad = Inr c"
  shows "Decrypt g receiver c aad = Inr plaintext"
    and "aead_separates g aad aad' \<Longrightarrow> Decrypt g receiver c aad' = Inl (ErrMessage ''decrypt envelope'')"
proof -
  from enc obtain dk where dk: "kp_GenerateDataKey sender rnd = Inr dk" "length (dk_Plaintext dk) = 32" "dk_Wrapped dk \<noteq> ''''" "dk_KeyID dk \<noteq> ''''"
    and c: "c = \<lparr>Algorithm = Algorithm_V1, KeyID = dk_KeyID dk, WrappedDataKey = dk_Wrapped dk, Nonce = dr_nonce rnd,
      Data = gcm_Seal g (dk_Plaintext dk) (dr_nonce rnd) plaintext aad\<rparr>"
    by (auto simp: Encrypt_def split: sum.splits if_splits)
  note unwrap = unwraps [OF s n dk(1)]
  show "Decrypt g receiver c aad = Inr plaintext"
    using dk n g unwrap by (simp add: Decrypt_def c aead_sound_def draw_ok_def)
  show "aead_separates g aad aad' \<Longrightarrow> Decrypt g receiver c aad' = Inl (ErrMessage ''decrypt envelope'')"
    using dk n g unwrap by (simp add: Decrypt_def c aead_sound_def aead_separates_def draw_ok_def)
qed

end

section \<open>The local key ring\<close>

definition keyWrapAAD :: bytes where "keyWrapAAD = ''linka.identity/data-key/v1''"

text \<open>The key map is an association list with distinct names.\<close>

record LocalAESKeyProvider =
  lk_activeKeyID :: string
  lk_keys :: "(string \<times> bytes) list"

definition NewLocalAESKeyring :: "string \<Rightarrow> (string \<times> bytes) list \<Rightarrow> LocalAESKeyProvider result" where
  "NewLocalAESKeyring activeKeyID keys =
     (if activeKeyID = '''' \<or> keys = [] then Inl (ErrMessage ''local key provider requires an active key ID and keyring'')
      else if list_ex (\<lambda>(keyID, key). keyID = '''' \<or> length key \<noteq> 32) keys then Inl (ErrMessage ''local keyring contains an invalid KEK'')
      else if map_of keys activeKeyID = None then Inl (ErrMessage ''active KEK is absent from local keyring'')
      else Inr \<lparr>lk_activeKeyID = activeKeyID, lk_keys = keys\<rparr>)"

definition NewLocalAESKeyProvider :: "string \<Rightarrow> bytes \<Rightarrow> LocalAESKeyProvider result" where
  "NewLocalAESKeyProvider keyID kek = NewLocalAESKeyring keyID [(keyID, kek)]"

text \<open>\<^verbatim>\<open>Seal(nonce, nonce, ...)\<close> appends the sealed key to the nonce.\<close>

definition wrap :: "aead \<Rightarrow> draw \<Rightarrow> bytes \<Rightarrow> bytes \<Rightarrow> bytes" where
  "wrap g rnd kek plaintext = dr_wrap rnd @ gcm_Seal g kek (dr_wrap rnd) plaintext keyWrapAAD"

definition local_GenerateDataKey :: "aead \<Rightarrow> LocalAESKeyProvider \<Rightarrow> draw \<Rightarrow> DataKey result" where
  "local_GenerateDataKey g p rnd =
     (case map_of (lk_keys p) (lk_activeKeyID p) of
        None \<Rightarrow> Inl (ErrMessage ''invalid KEK'')
      | Some kek \<Rightarrow> Inr \<lparr>dk_Plaintext = dr_key rnd, dk_Wrapped = wrap g rnd kek (dr_key rnd), dk_KeyID = lk_activeKeyID p\<rparr>)"

definition local_DecryptDataKey :: "aead \<Rightarrow> LocalAESKeyProvider \<Rightarrow> string \<Rightarrow> bytes \<Rightarrow> bytes result" where
  "local_DecryptDataKey g p keyID wrapped =
     (case map_of (lk_keys p) keyID of
        None \<Rightarrow> Inl (ErrMessage ''unknown key ID'')
      | Some kek \<Rightarrow>
          if length wrapped < 12 then Inl (ErrMessage ''wrapped data key is truncated'')
          else some_or (ErrMessage ''unwrap data key'') (gcm_Open g kek (take 12 wrapped) (drop 12 wrapped) keyWrapAAD))"

definition local_provider :: "aead \<Rightarrow> LocalAESKeyProvider \<Rightarrow> KeyProvider" where
  "local_provider g p = \<lparr>kp_GenerateDataKey = local_GenerateDataKey g p, kp_DecryptDataKey = local_DecryptDataKey g p\<rparr>"

section \<open>Yandex KMS\<close>

text \<open>
  The two calls of the key management service, with the authorization that precedes
  them: key, text and associated data, or \<open>None\<close> when the call fails.
\<close>

record symmetricCryptoClient =
  kms_Encrypt :: "string \<Rightarrow> bytes \<Rightarrow> bytes \<Rightarrow> bytes option"
  kms_Decrypt :: "string \<Rightarrow> bytes \<Rightarrow> bytes \<Rightarrow> bytes option"

record YandexKMSKeyring =
  yk_activeKeyID :: string
  yk_keys :: "(string \<times> string) list"

definition newYandexKMSKeyring :: "string \<Rightarrow> (string \<times> string) list \<Rightarrow> YandexKMSKeyring result" where
  "newYandexKMSKeyring activeKeyID keys =
     (if activeKeyID = '''' \<or> keys = [] then Inl (ErrMessage ''Yandex KMS requires an active key alias, keyring, IAM token source, and client'')
      else if list_ex (\<lambda>(alias, keyID). alias = '''' \<or> trim_space keyID = '''') keys then Inl (ErrMessage ''Yandex KMS keyring contains an invalid key'')
      else if map_of keys activeKeyID = None then Inl (ErrMessage ''active Yandex KMS key alias is absent from keyring'')
      else Inr \<lparr>yk_activeKeyID = activeKeyID, yk_keys = keys\<rparr>)"

definition kms_encrypt :: "symmetricCryptoClient \<Rightarrow> string \<Rightarrow> bytes \<Rightarrow> bytes result" where
  "kms_encrypt client keyID plaintext =
     (case kms_Encrypt client keyID plaintext keyWrapAAD of
        None \<Rightarrow> Inl (ErrMessage ''call Yandex KMS encrypt'')
      | Some ciphertext \<Rightarrow> if length ciphertext = 0 then Inl (ErrMessage ''Yandex KMS returned invalid ciphertext'') else Inr ciphertext)"

definition kms_decrypt :: "symmetricCryptoClient \<Rightarrow> string \<Rightarrow> bytes \<Rightarrow> bytes result" where
  "kms_decrypt client keyID wrapped =
     (case kms_Decrypt client keyID wrapped keyWrapAAD of
        None \<Rightarrow> Inl (ErrMessage ''call Yandex KMS decrypt'')
      | Some plaintext \<Rightarrow> if length plaintext \<noteq> 32 then Inl (ErrMessage ''Yandex KMS returned invalid plaintext data key'') else Inr plaintext)"

definition kms_GenerateDataKey :: "symmetricCryptoClient \<Rightarrow> YandexKMSKeyring \<Rightarrow> draw \<Rightarrow> DataKey result" where
  "kms_GenerateDataKey client p rnd =
     (let keyID = (case map_of (yk_keys p) (yk_activeKeyID p) of None \<Rightarrow> '''' | Some k \<Rightarrow> k) in
      rbind (kms_encrypt client keyID (dr_key rnd)) (\<lambda>wrapped.
        Inr \<lparr>dk_Plaintext = dr_key rnd, dk_Wrapped = wrapped, dk_KeyID = yk_activeKeyID p\<rparr>))"

definition kms_DecryptDataKey :: "symmetricCryptoClient \<Rightarrow> YandexKMSKeyring \<Rightarrow> string \<Rightarrow> bytes \<Rightarrow> bytes result" where
  "kms_DecryptDataKey client p keyAlias wrapped =
     (case map_of (yk_keys p) keyAlias of
        None \<Rightarrow> Inl (ErrMessage ''unknown Yandex KMS key alias'')
      | Some keyID \<Rightarrow> kms_decrypt client keyID wrapped)"

definition kms_provider :: "symmetricCryptoClient \<Rightarrow> YandexKMSKeyring \<Rightarrow> KeyProvider" where
  "kms_provider client p = \<lparr>kp_GenerateDataKey = kms_GenerateDataKey client p, kp_DecryptDataKey = kms_DecryptDataKey client p\<rparr>"

definition kms_sound :: "symmetricCryptoClient \<Rightarrow> bool" where
  "kms_sound client \<longleftrightarrow> (\<forall>keyID plaintext aad c. kms_Encrypt client keyID plaintext aad = Some c \<longrightarrow> kms_Decrypt client keyID c aad = Some plaintext)"

section \<open>Both providers keep the contract\<close>

interpretation local_envelope: key_provider "local_provider g p" "local_provider g p'"
  "aead_sound g \<and> map_of (lk_keys p') (lk_activeKeyID p) = map_of (lk_keys p) (lk_activeKeyID p)" for g p p'
proof
  fix rnd dk
  assume s: "aead_sound g \<and> map_of (lk_keys p') (lk_activeKeyID p) = map_of (lk_keys p) (lk_activeKeyID p)" and d: "draw_ok rnd"
    and gen: "kp_GenerateDataKey (local_provider g p) rnd = Inr dk"
  then obtain kek where "map_of (lk_keys p) (lk_activeKeyID p) = Some kek"
    "dk = \<lparr>dk_Plaintext = dr_key rnd, dk_Wrapped = wrap g rnd kek (dr_key rnd), dk_KeyID = lk_activeKeyID p\<rparr>"
    by (auto simp: local_provider_def local_GenerateDataKey_def split: option.splits)
  with s d show "kp_DecryptDataKey (local_provider g p') (dk_KeyID dk) (dk_Wrapped dk) = Inr (dk_Plaintext dk)"
    by (simp add: local_provider_def local_DecryptDataKey_def wrap_def aead_sound_def draw_ok_def)
qed

interpretation kms_envelope: key_provider "kms_provider client p" "kms_provider client p'"
  "kms_sound client \<and> map_of (yk_keys p) (yk_activeKeyID p) \<noteq> None \<and>
   map_of (yk_keys p') (yk_activeKeyID p) = map_of (yk_keys p) (yk_activeKeyID p)" for client p p'
proof
  fix rnd dk
  assume s: "kms_sound client \<and> map_of (yk_keys p) (yk_activeKeyID p) \<noteq> None \<and>
      map_of (yk_keys p') (yk_activeKeyID p) = map_of (yk_keys p) (yk_activeKeyID p)" and d: "draw_ok rnd"
    and gen: "kp_GenerateDataKey (kms_provider client p) rnd = Inr dk"
  from s obtain keyID where key: "map_of (yk_keys p) (yk_activeKeyID p) = Some keyID" by blast
  with gen obtain c where "kms_Encrypt client keyID (dr_key rnd) keyWrapAAD = Some c" "dk_Wrapped dk = c" "dk_Plaintext dk = dr_key rnd" "dk_KeyID dk = yk_activeKeyID p"
    by (auto simp: kms_provider_def kms_GenerateDataKey_def kms_encrypt_def split: option.splits if_splits)
  with s d key show "kp_DecryptDataKey (kms_provider client p') (dk_KeyID dk) (dk_Wrapped dk) = Inr (dk_Plaintext dk)"
    by (simp add: kms_provider_def kms_DecryptDataKey_def kms_decrypt_def kms_sound_def draw_ok_def)
qed

section \<open>Properties\<close>

text \<open>
  C23: what a local key ring encrypts is decrypted, under the same associated data, by every ring
  that keeps the key, whichever key is active in it by then; and under associated data that
  the cipher separates from the original the decryption is refused. Encryption under a
  valid ring never fails.
\<close>

theorem envelope_roundtrip:
  assumes ring: "NewLocalAESKeyring active keys = Inr p" and ring': "NewLocalAESKeyring active' keys' = Inr p'"
    and kept: "map_of keys' active = map_of keys active"
    and g: "aead_sound g" and rnd: "draw_ok rnd"
  shows "\<exists>c. Encrypt g (local_provider g p) rnd plaintext aad = Inr c \<and> KeyID c = active \<and>
    Decrypt g (local_provider g p') c aad = Inr plaintext \<and>
    (aead_separates g aad aad' \<longrightarrow> Decrypt g (local_provider g p') c aad' = Inl (ErrMessage ''decrypt envelope''))"
proof -
  from ring have p: "p = \<lparr>lk_activeKeyID = active, lk_keys = keys\<rparr>" "active \<noteq> ''''" "map_of keys active \<noteq> None"
    by (auto simp: NewLocalAESKeyring_def split: if_splits)
  from ring' have p': "p' = \<lparr>lk_activeKeyID = active', lk_keys = keys'\<rparr>" by (auto simp: NewLocalAESKeyring_def split: if_splits)
  obtain c where c: "Encrypt g (local_provider g p) rnd plaintext aad = Inr c" "KeyID c = active"
    using p rnd by (auto simp: Encrypt_def local_provider_def local_GenerateDataKey_def wrap_def draw_ok_def)
  have s: "aead_sound g \<and> map_of (lk_keys p') (lk_activeKeyID p) = map_of (lk_keys p) (lk_activeKeyID p)" using g kept by (simp add: p p')
  from c local_envelope.decrypt_encrypted [OF s g rnd c(1)] show ?thesis by blast
qed

text \<open>The same through the key management service.\<close>

lemma kms_roundtrip:
  assumes ring: "newYandexKMSKeyring active keys = Inr p" and ring': "newYandexKMSKeyring active' keys' = Inr p'"
    and kept: "map_of keys' active = map_of keys active"
    and g: "aead_sound g" and kms: "kms_sound client" and rnd: "draw_ok rnd"
    and enc: "Encrypt g (kms_provider client p) rnd plaintext aad = Inr c"
  shows "Decrypt g (kms_provider client p') c aad = Inr plaintext"
proof -
  from ring have "p = \<lparr>yk_activeKeyID = active, yk_keys = keys\<rparr>" "map_of keys active \<noteq> None"
    by (auto simp: newYandexKMSKeyring_def split: if_splits)
  moreover from ring' have "p' = \<lparr>yk_activeKeyID = active', yk_keys = keys'\<rparr>" by (auto simp: newYandexKMSKeyring_def split: if_splits)
  ultimately have "kms_sound client \<and> map_of (yk_keys p) (yk_activeKeyID p) \<noteq> None \<and>
      map_of (yk_keys p') (yk_activeKeyID p) = map_of (yk_keys p) (yk_activeKeyID p)" using kms kept by simp
  from kms_envelope.decrypt_encrypted(1) [OF this g rnd enc] show ?thesis .
qed

section \<open>Witnesses\<close>

text \<open>A cipher that only frames: the tag is the head of the associated data.\<close>

definition tag_of :: "bytes \<Rightarrow> bytes" where
  "tag_of aad = take 16 (aad @ replicate 16 NUL)"

definition sample_aead :: aead where
  "sample_aead = \<lparr>gcm_Seal = (\<lambda>_ _ plain aad. plain @ tag_of aad),
     gcm_Open = (\<lambda>_ _ sealed aad. if length sealed < 16 \<or> drop (length sealed - 16) sealed \<noteq> tag_of aad then None
       else Some (take (length sealed - 16) sealed))\<rparr>"

definition sample_draw :: draw where
  "sample_draw = \<lparr>dr_key = replicate 32 CHR ''d'', dr_wrap = replicate 12 CHR ''w'', dr_nonce = replicate 12 CHR ''n''\<rparr>"

lemma length_tag_of [simp]: "length (tag_of aad) = 16"
  by (simp add: tag_of_def)

lemma sample_aead_sound: "aead_sound sample_aead"
  by (simp add: aead_sound_def sample_aead_def)

lemma sample_draw_ok: "draw_ok sample_draw"
  by (simp add: draw_ok_def sample_draw_def)

theorem envelope_roundtrip_witness:
  "\<exists>p p' c. NewLocalAESKeyring ''k'' [(''k'', replicate 32 CHR ''a'')] = Inr p \<and>
     NewLocalAESKeyring ''n'' [(''n'', replicate 32 CHR ''b''), (''k'', replicate 32 CHR ''a'')] = Inr p' \<and>
     Encrypt sample_aead (local_provider sample_aead p) sample_draw ''code'' ''x'' = Inr c \<and>
     Decrypt sample_aead (local_provider sample_aead p') c ''x'' = Inr ''code'' \<and>
     Decrypt sample_aead (local_provider sample_aead p') c ''y'' = Inl (ErrMessage ''decrypt envelope'')"
proof -
  have rings: "\<exists>p. NewLocalAESKeyring ''k'' [(''k'', replicate 32 CHR ''a'')] = Inr p"
    "\<exists>p. NewLocalAESKeyring ''n'' [(''n'', replicate 32 CHR ''b''), (''k'', replicate 32 CHR ''a'')] = Inr p"
    by (simp_all add: NewLocalAESKeyring_def)
  have sep: "aead_separates sample_aead ''x'' ''y''" by (simp add: aead_separates_def sample_aead_def tag_of_def)
  from rings obtain p p' where p: "NewLocalAESKeyring ''k'' [(''k'', replicate 32 CHR ''a'')] = Inr p"
    and p': "NewLocalAESKeyring ''n'' [(''n'', replicate 32 CHR ''b''), (''k'', replicate 32 CHR ''a'')] = Inr p'" by blast
  from envelope_roundtrip [OF p p' _ sample_aead_sound sample_draw_ok, of "''code''" "''x''" "''y''"] sep obtain c where
    "Encrypt sample_aead (local_provider sample_aead p) sample_draw ''code'' ''x'' = Inr c"
    "Decrypt sample_aead (local_provider sample_aead p') c ''x'' = Inr ''code''"
    "Decrypt sample_aead (local_provider sample_aead p') c ''y'' = Inl (ErrMessage ''decrypt envelope'')" by auto
  with p p' show ?thesis by blast
qed

end
