(* ===== verification/Identity_Service.thy ===== *)
theory Identity_Service
  imports Email_Verification_Store Email_Address Envelope
begin

text \<open>
  The identity service (\<^verbatim>\<open>internal/service\<close>): it validates a registration, chooses
  the linkage scope, computes the blind indexes, encrypts the address and calls the
  store.  Random values are arguments (\<open>draws\<close>); the store calls of an operation
  are separate transactions, and \<open>others k\<close> is what the rest of the service does to
  the database before the \<open>k\<close>-th of them.  An error that the code wraps with
  \<^verbatim>\<open>fmt.Errorf\<close> and \<^verbatim>\<open>%w\<close> is the error it wraps.
\<close>

record IdentityService =
  is_gcm :: aead
  is_provider :: KeyProvider
  is_hmac :: hmac
  is_indexer :: BlindIndexer
  is_mail :: mail_lib
  is_minorCrossProductLinking :: bool
  is_emailVerificationTTL :: duration

record RegisterEmailIdentityInput =
  rg_ProductID :: string
  rg_Email :: string
  rg_Namespace :: string
  rg_AgeCategory :: string
  rg_GuardianRelationship :: "string option"
  rg_LinkAcrossProducts :: bool
  rg_CreateAccount :: bool
  rg_InstallationID :: "string option"
  rg_VerifiedAt :: time

record RegisterEmailIdentityResult =
  re_PersonID :: string
  re_AccountID :: string
  re_Created :: bool

record BeginEmailVerificationInput =
  bg_ProductID :: string
  bg_Email :: string
  bg_Namespace :: string
  bg_AgeCategory :: string
  bg_GuardianRelationship :: "string option"
  bg_LinkAcrossProducts :: bool
  bg_InstallationID :: "string option"

record PublicVerificationInput =
  pv_ID :: string
  pv_ProductID :: string
  pv_Email :: string
  pv_InstallationID :: string
  pv_ExpiresAt :: time

record draws =
  sd_verification :: string
  sd_claim :: string
  sd_person :: string
  sd_identity :: string
  sd_account :: string
  sd_cipher :: draw

section \<open>Validation and scope\<close>

text \<open>
  The input is passed by value, so the trimmed guardian relationship that the code
  assigns here is lost: the value that is stored is the one that was submitted.
\<close>

definition validateRegistration :: "RegisterEmailIdentityInput \<Rightarrow> unit result" where
  "validateRegistration input =
     (if \<not> ValidProductID (rg_ProductID input) \<or> is_zero (rg_VerifiedAt input) then Inl ErrInvalid
      else if rg_Namespace input \<noteq> ''account'' \<and> rg_Namespace input \<noteq> ''donation'' then Inl ErrInvalid
      else if rg_AgeCategory input \<noteq> ''unknown'' \<and> rg_AgeCategory input \<noteq> ''adult'' \<and> rg_AgeCategory input \<noteq> ''minor'' then Inl ErrInvalid
      else if (case rg_GuardianRelationship input of None \<Rightarrow> False
               | Some g \<Rightarrow> \<not> snd (TrimmedWithin g 1 120) \<or> rg_AgeCategory input \<noteq> ''minor'') then Inl ErrInvalid
      else if rg_CreateAccount input \<and> rg_Namespace input \<noteq> ''account'' then Inl ErrInvalid
      else if (case rg_InstallationID input of None \<Rightarrow> False | Some i \<Rightarrow> \<not> ValidUUID i) then Inl ErrInvalid
      else Inr ())"

definition linkageScope :: "IdentityService \<Rightarrow> RegisterEmailIdentityInput \<Rightarrow> (string \<times> string) result" where
  "linkageScope s input =
     (if rg_Namespace input = ''donation'' \<or> \<not> rg_LinkAcrossProducts input then Inr (''product'', rg_ProductID input)
      else if rg_AgeCategory input = ''minor'' \<and> \<not> is_minorCrossProductLinking s then Inl ErrForbidden
      else if rg_AgeCategory input = ''unknown'' then Inl ErrForbidden
      else Inr (''global'', ''global''))"

definition index_message :: "string \<Rightarrow> string \<Rightarrow> string \<Rightarrow> string \<Rightarrow> bytes" where
  "index_message namespace scope key email = join_nul [namespace, scope, key, email]"

definition verification_aad :: "string \<Rightarrow> string \<Rightarrow> bytes" where
  "verification_aad verificationID product = join_nul [''email-verification-v1'', verificationID, product]"

section \<open>Preparation\<close>

definition prepareEmailIdentity ::
  "IdentityService \<Rightarrow> draws \<Rightarrow> RegisterEmailIdentityInput \<Rightarrow> (NewEmailIdentity \<times> BlindIndex list) result" where
  "prepareEmailIdentity s rnd input0 =
     (case NormalizeEmail (is_mail s) (rg_Email input0) of
        Inl _ \<Rightarrow> Inl ErrInvalid
      | Inr normalizedEmail \<Rightarrow>
          let input = input0\<lparr>rg_Email := normalizedEmail\<rparr> in
          rbind (validateRegistration input) (\<lambda>_.
          rbind (linkageScope s input) (\<lambda>(scope, scopeKey).
          let message = index_message (rg_Namespace input) scope scopeKey normalizedEmail;
              currentIndex = bx_Current (is_hmac s) (is_indexer s) message;
              allIndexes = bx_All (is_hmac s) (is_indexer s) message in
          rbind (Encrypt (is_gcm s) (is_provider s) (sd_cipher rnd) normalizedEmail
                   (EmailIdentityAAD (sd_identity rnd) (rg_Namespace input) scope scopeKey)) (\<lambda>encrypted.
          Inr (\<lparr>ni_ID = sd_identity rnd, ni_PersonID = sd_person rnd,
                ni_AccountID = (if rg_CreateAccount input then sd_account rnd else ''''), ni_ProductID = rg_ProductID input,
                ni_Namespace = rg_Namespace input, ni_LinkageScope = scope, ni_ScopeKey = scopeKey,
                ni_BlindIndexVersion = bi_version currentIndex, ni_BlindIndex = bi_value currentIndex,
                ni_EncryptedEmail = encrypted, ni_AgeCategory = rg_AgeCategory input,
                ni_GuardianRelationship = rg_GuardianRelationship input, ni_VerifiedAt = rg_VerifiedAt input,
                ni_CreateAccount = rg_CreateAccount input, ni_InstallationID = rg_InstallationID input\<rparr>, allIndexes)))))"

definition registration_of :: "time \<Rightarrow> string \<Rightarrow> BeginEmailVerificationInput \<Rightarrow> RegisterEmailIdentityInput" where
  "registration_of now normalized input =
     \<lparr>rg_ProductID = bg_ProductID input, rg_Email = normalized, rg_Namespace = bg_Namespace input, rg_AgeCategory = bg_AgeCategory input,
      rg_GuardianRelationship = bg_GuardianRelationship input, rg_LinkAcrossProducts = bg_LinkAcrossProducts input,
      rg_CreateAccount = False, rg_InstallationID = bg_InstallationID input, rg_VerifiedAt = now\<rparr>"

definition prepareEmailVerification ::
  "IdentityService \<Rightarrow> time \<Rightarrow> draws \<Rightarrow> BeginEmailVerificationInput \<Rightarrow> string \<Rightarrow> time \<Rightarrow> EmailVerification result" where
  "prepareEmailVerification s now rnd input id0 expiresAt =
     (case NormalizeEmail (is_mail s) (bg_Email input) of
        Inl _ \<Rightarrow> Inl ErrInvalid
      | Inr normalized \<Rightarrow>
          let registration = registration_of now normalized input in
          rbind (validateRegistration registration) (\<lambda>_.
          rbind (linkageScope s registration) (\<lambda>(scope, scopeKey).
          let verificationID = (if id0 = '''' then sd_verification rnd else id0);
              index = bx_Current (is_hmac s) (is_indexer s) (index_message (bg_Namespace input) scope scopeKey normalized) in
          rbind (Encrypt (is_gcm s) (is_provider s) (sd_cipher rnd) normalized (verification_aad verificationID (bg_ProductID input))) (\<lambda>cipher.
          Inr \<lparr>v_ID = verificationID, v_ProductID = bg_ProductID input, v_InstallationID = bg_InstallationID input,
               v_Namespace = bg_Namespace input, v_AgeCategory = bg_AgeCategory input, v_GuardianRelationship = bg_GuardianRelationship input,
               v_LinkAcrossProducts = bg_LinkAcrossProducts input, v_BlindIndexVersion = bi_version index, v_BlindIndex = bi_value index,
               v_EncryptedEmail = cipher, v_ExpiresAt = expiresAt, v_VerifiedAt = None, v_ConsumedAt = None, v_VerifiedBy = None,
               v_EvidenceID = None, v_ProcessingToken = None, v_ProcessingAt = None, v_Version = 0\<rparr>))))"

definition OpenVerificationEmail :: "IdentityService \<Rightarrow> EmailVerification \<Rightarrow> string result" where
  "OpenVerificationEmail s v =
     rbind (Decrypt (is_gcm s) (is_provider s) (v_EncryptedEmail v) (verification_aad (v_ID v) (v_ProductID v)))
       (NormalizeEmail (is_mail s))"

definition PreparePublicVerification ::
  "IdentityService \<Rightarrow> time \<Rightarrow> draws \<Rightarrow> PublicVerificationInput \<Rightarrow> EmailVerification result" where
  "PreparePublicVerification s now rnd input =
     (if \<not> ValidUUID (pv_ID input) \<or> \<not> ValidUUID (pv_InstallationID input) \<or> \<not> now < pv_ExpiresAt input \<or>
         now + PublicEmailQueueTTL < pv_ExpiresAt input then Inl ErrInvalid
      else prepareEmailVerification s now rnd
        \<lparr>bg_ProductID = pv_ProductID input, bg_Email = pv_Email input, bg_Namespace = ''account'', bg_AgeCategory = ''unknown'',
         bg_GuardianRelationship = None, bg_LinkAcrossProducts = False, bg_InstallationID = Some (pv_InstallationID input)\<rparr>
        (pv_ID input) (pv_ExpiresAt input))"

definition PreparePublicIdentity ::
  "IdentityService \<Rightarrow> time \<Rightarrow> draws \<Rightarrow> EmailVerification \<Rightarrow> time \<Rightarrow> (NewEmailIdentity \<times> BlindIndex list) result" where
  "PreparePublicIdentity s now rnd v verifiedAt =
     (if v_Namespace v \<noteq> ''account'' \<or> v_AgeCategory v \<noteq> ''unknown'' \<or> v_LinkAcrossProducts v \<or> v_InstallationID v = None \<or>
         is_zero verifiedAt \<or> now < verifiedAt then Inl ErrInvalid
      else
        rbind (OpenVerificationEmail s v) (\<lambda>email.
        prepareEmailIdentity s rnd
          \<lparr>rg_ProductID = v_ProductID v, rg_Email = email, rg_Namespace = ''account'', rg_AgeCategory = ''unknown'',
           rg_GuardianRelationship = None, rg_LinkAcrossProducts = False, rg_CreateAccount = True,
           rg_InstallationID = v_InstallationID v, rg_VerifiedAt = verifiedAt\<rparr>))"

section \<open>Operations\<close>

definition BeginEmailVerification ::
  "IdentityService \<Rightarrow> time \<Rightarrow> draws \<Rightarrow> BeginEmailVerificationInput \<Rightarrow> db \<Rightarrow> ((string \<times> time) \<times> db) result" where
  "BeginEmailVerification s now rnd input d =
     rbind (prepareEmailVerification s now rnd input '''' (now + is_emailVerificationTTL s)) (\<lambda>v.
     rbind (CreateEmailVerification now v d) (\<lambda>d1. Inr ((v_ID v, v_ExpiresAt v), d1)))"

definition RegisterEmailIdentity_service ::
  "IdentityService \<Rightarrow> time \<Rightarrow> draws \<Rightarrow> RegisterEmailIdentityInput \<Rightarrow> db \<Rightarrow> RegisterEmailIdentityResult result \<times> db" where
  "RegisterEmailIdentity_service s now rnd input d =
     (case prepareEmailIdentity s rnd input of
        Inl e \<Rightarrow> (Inl e, d)
      | Inr (identity, indexes) \<Rightarrow>
          (case RegisterEmailIdentity now identity indexes d of
             (Inl e, d1) \<Rightarrow> (Inl e, d1)
           | (Inr (existing, created), d1) \<Rightarrow>
               (Inr \<lparr>re_PersonID = er_PersonID existing, re_AccountID = er_AccountID existing, re_Created = created\<rparr>, d1)))"

definition verified_input :: "EmailVerification \<Rightarrow> string \<Rightarrow> bool \<Rightarrow> RegisterEmailIdentityInput" where
  "verified_input v email createAccount =
     \<lparr>rg_ProductID = v_ProductID v, rg_Email = email, rg_Namespace = v_Namespace v, rg_AgeCategory = v_AgeCategory v,
      rg_GuardianRelationship = v_GuardianRelationship v, rg_LinkAcrossProducts = v_LinkAcrossProducts v,
      rg_CreateAccount = createAccount, rg_InstallationID = v_InstallationID v, rg_VerifiedAt = the (v_VerifiedAt v)\<rparr>"

text \<open>The deferred release of a claim: its own error is ignored.\<close>

definition release_claim :: "string \<Rightarrow> string \<Rightarrow> db \<Rightarrow> db" where
  "release_claim verificationID claimToken d =
     (case ReleaseEmailVerification verificationID claimToken d of Inl _ \<Rightarrow> d | Inr d1 \<Rightarrow> d1)"

definition CompleteEmailVerification ::
  "IdentityService \<Rightarrow> (nat \<Rightarrow> time) \<Rightarrow> draws \<Rightarrow> (nat \<Rightarrow> db \<Rightarrow> db) \<Rightarrow> string \<Rightarrow> string \<Rightarrow> bool \<Rightarrow> db \<Rightarrow>
     RegisterEmailIdentityResult result \<times> db" where
  "CompleteEmailVerification s clock rnd others verificationID productID createAccount d =
     (case ClaimVerifiedEmail verificationID productID (sd_claim rnd) (clock 0) EmailVerificationClaimLease d of
        Inl e \<Rightarrow> (Inl e, d)
      | Inr (v, d1) \<Rightarrow>
          let release = (\<lambda>d. release_claim verificationID (sd_claim rnd) (others 2 d)) in
          (case Decrypt (is_gcm s) (is_provider s) (v_EncryptedEmail v) (verification_aad (v_ID v) (v_ProductID v)) of
             Inl e \<Rightarrow> (Inl e, release d1)
           | Inr plaintext \<Rightarrow>
               (case prepareEmailIdentity s rnd (verified_input v plaintext createAccount) of
                  Inl e \<Rightarrow> (Inl e, release d1)
                | Inr (identity, indexes) \<Rightarrow>
                    (case RegisterVerifiedEmailIdentity (clock 1) verificationID productID (sd_claim rnd) identity indexes (others 1 d1) of
                       Inl e \<Rightarrow> (Inl e, release (others 1 d1))
                     | Inr ((existing, created), d2) \<Rightarrow>
                         (Inr \<lparr>re_PersonID = er_PersonID existing, re_AccountID = er_AccountID existing, re_Created = created\<rparr>, d2)))))"

section \<open>Laws\<close>

lemma linkage_permissive:
  assumes "linkageScope s input = Inr x" and "is_minorCrossProductLinking s \<longrightarrow> is_minorCrossProductLinking s'"
    and "rg_Namespace input' = rg_Namespace input" "rg_LinkAcrossProducts input' = rg_LinkAcrossProducts input"
      "rg_AgeCategory input' = rg_AgeCategory input" "rg_ProductID input' = rg_ProductID input"
  shows "linkageScope s' input' = Inr x"
  using assms by (auto simp: linkageScope_def split: if_splits)

lemma linkage_choice:
  "linkageScope s input = Inr (scope, key) \<Longrightarrow>
     (scope, key) = (if rg_Namespace input \<noteq> ''donation'' \<and> rg_LinkAcrossProducts input then (''global'', ''global'') else (''product'', rg_ProductID input))"
  by (auto simp: linkageScope_def split: if_splits)

lemma bx_All_mem:
  "ix \<in> set (bx_All hmac b m) \<longleftrightarrow> bi_version ix \<in> fst ` set (bx_keys b) \<and> bi_value ix = bx_digest hmac b (bi_version ix) m"
  by (cases ix) (auto simp: bx_All_def)

text \<open>
  The indexes that a rotated indexer computes for a message match an index that the
  former one computed for it, as long as the former key is kept.
\<close>

lemma rotated_indexes_match:
  assumes "NewBlindIndexer current' keys' = Inr b'" and "map_of (bx_keys b') (bx_current b) = map_of (bx_keys b) (bx_current b)"
    and "map_of (bx_keys b) (bx_current b) \<noteq> None"
  shows "indexes_match (bi_version (bx_Current hmac b m)) (bi_value (bx_Current hmac b m))
    (bi_version (bx_Current hmac b' m)) (bi_value (bx_Current hmac b' m)) (bx_All hmac b' m) False False"
proof -
  have c: "map_of (bx_keys b') (bx_current b') \<noteq> None" using assms(1) by (auto simp: NewBlindIndexer_def split: if_splits)
  have mem: "v \<in> fst ` set (bx_keys b')" if "map_of (bx_keys b') v \<noteq> None" for v using that by (simp add: map_of_eq_None_iff)
  have d: "bx_digest hmac b (bx_current b) m = bx_digest hmac b' (bx_current b) m" using assms(2) by (simp add: bx_digest_def)
  have "\<lparr>bi_version = v, bi_value = bx_digest hmac b' v m\<rparr> \<in> set (bx_All hmac b' m)" if "map_of (bx_keys b') v \<noteq> None" for v
    using mem [OF that] by (simp add: bx_All_mem)
  with c assms(2,3) have "\<exists>ix \<in> set (bx_All hmac b' m). bi_version ix = bx_current b" "\<exists>ix \<in> set (bx_All hmac b' m). bi_version ix = bx_current b'"
    by (metis BlindIndex.select_convs(1))+
  then show ?thesis unfolding indexes_match_iff by (auto simp: bx_Current_def bx_All_mem d)
qed

lemma local_encrypts:
  assumes "NewLocalAESKeyring active keys = Inr p" "draw_ok rnd"
  shows "\<exists>c. Encrypt g (local_provider g p) rnd plaintext aad = Inr c"
proof -
  from assms(1) have "p = \<lparr>lk_activeKeyID = active, lk_keys = keys\<rparr>" "active \<noteq> ''''" "map_of keys active \<noteq> None"
    by (auto simp: NewLocalAESKeyring_def split: if_splits)
  then show ?thesis using assms(2) by (auto simp: Encrypt_def local_provider_def local_GenerateDataKey_def wrap_def draw_ok_def)
qed

lemma local_decrypts:
  assumes "NewLocalAESKeyring active keys = Inr p" "NewLocalAESKeyring active' keys' = Inr p'" "map_of keys' active = map_of keys active"
    "aead_sound g" "draw_ok rnd" "Encrypt g (local_provider g p) rnd plaintext aad = Inr c"
  shows "Decrypt g (local_provider g p') c aad = Inr plaintext"
proof -
  have "p = \<lparr>lk_activeKeyID = active, lk_keys = keys\<rparr>" "p' = \<lparr>lk_activeKeyID = active', lk_keys = keys'\<rparr>"
    using assms(1,2) by (auto simp: NewLocalAESKeyring_def split: if_splits)
  then have "aead_sound g \<and> map_of (lk_keys p') (lk_activeKeyID p) = map_of (lk_keys p) (lk_activeKeyID p)" using assms(3,4) by simp
  from local_envelope.decrypt_encrypted(1) [OF this assms(4,5,6)] show ?thesis .
qed

section \<open>Properties\<close>


text \<open>
  C22: a completion that fails leaves no trace. With no other writer in between, a failed completion
  has registered nothing and the verification is unclaimed again: the database is as before,
  except that the row's version has moved on by the claim and its release.
\<close>

theorem failed_completion_releases:
  assumes keys: "db_keys d"
    and fail: "CompleteEmailVerification s clock rnd (\<lambda>_ d. d) verificationID productID createAccount d = (Inl e, d')"
  shows "d' = d \<or> d' = d\<lparr>email_verifications := tbl_update (\<lambda>r. ev_id r = verificationID)
      (\<lambda>r. r\<lparr>ev_processing_token := None, ev_processing_at := None, ev_version := ev_version r + 2\<rparr>) (email_verifications d)\<rparr>"
proof (cases "ClaimVerifiedEmail verificationID productID (sd_claim rnd) (clock 0) EmailVerificationClaimLease d")
  case (Inl x)
  then show ?thesis using fail by (simp add: CompleteEmailVerification_def)
next
  case (Inr vd)
  obtain v d1 where vd: "vd = (v, d1)" by (cases vd)
  let ?claim = "set_claim (Some (sd_claim rnd, clock 0))"
  have u: "uniq ev_id (email_verifications d)" using keys by (rule table_uniq)
  from Inr vd obtain row where row: "tfind ev_id verificationID (email_verifications d) = Some row"
    and cas: "cas_row email_verifications email_verifications_update ev_id ev_version verificationID (ev_version row) (\<lambda>_. True) ?claim d = Inr d1"
    by (auto simp: ClaimVerifiedEmail_def split: if_splits)
  have d1: "d1 = d\<lparr>email_verifications := tbl_update (\<lambda>x. ev_id x = verificationID) ?claim (email_verifications d)\<rparr>"
    using cas cas_row_Inr [of ev_id email_verifications d ?claim ev_version email_verifications_update] u by (auto simp: set_claim_def)
  have row1: "tfind ev_id verificationID (email_verifications d1) = Some (?claim row)"
    using row tfind_Some [OF row] by (simp add: d1 tfind_update set_claim_def)
  have u1: "uniq ev_id (email_verifications d1)" using u by (simp add: d1 uniq_update set_claim_def)
  have "release_claim verificationID (sd_claim rnd) d1 = d1\<lparr>email_verifications := tbl_update (\<lambda>x. ev_id x = verificationID) (set_claim None) (email_verifications d1)\<rparr>"
    unfolding release_claim_def ReleaseEmailVerification_def row1
    using cas_row_ok [of ev_id email_verifications d1 "set_claim None" ev_version verificationID "?claim row" "\<lambda>_. True" _ email_verifications_update] u1 row1
    by (simp add: set_claim_def)
  moreover have "d' = release_claim verificationID (sd_claim rnd) d1"
    using fail Inr vd by (auto simp: CompleteEmailVerification_def Let_def split: sum.splits)
  moreover have "tbl_update (\<lambda>x. ev_id x = verificationID) (set_claim None) (tbl_update (\<lambda>x. ev_id x = verificationID) ?claim t) =
      tbl_update (\<lambda>r. ev_id r = verificationID) (\<lambda>r. r\<lparr>ev_processing_token := None, ev_processing_at := None, ev_version := ev_version r + 2\<rparr>) t" for t
    by (auto simp: tbl_update_def set_claim_def)
  ultimately show ?thesis by (simp add: d1)
qed

lemma trim_spaces_before:
  assumes "List.find (\<lambda>r. prefix r s) space_runes = None"
  shows "drop_runes space_runes (n + k) (replicate n CHR '' '' @ s) = s"
proof (induction n)
  case (Suc n)
  have "List.find (\<lambda>r. prefix r (CHR '' '' # t)) space_runes = Some [CHR '' '']" for t by (simp add: space_runes_def)
  with Suc show ?case by simp
qed (use assms in \<open>simp add: drop_runes_none\<close>)


section \<open>Witnesses\<close>

definition old_ring :: LocalAESKeyProvider where
  "old_ring = \<lparr>lk_activeKeyID = ''k'', lk_keys = [(''k'', replicate 32 CHR ''a'')]\<rparr>"

definition new_ring :: LocalAESKeyProvider where
  "new_ring = \<lparr>lk_activeKeyID = ''n'', lk_keys = [(''n'', replicate 32 CHR ''b''), (''k'', replicate 32 CHR ''a'')]\<rparr>"

definition old_service :: IdentityService where
  "old_service = \<lparr>is_gcm = sample_aead, is_provider = local_provider sample_aead old_ring, is_hmac = (\<lambda>k m. k),
     is_indexer = \<lparr>bx_current = 1, bx_keys = [(1, replicate 32 CHR ''i'')]\<rparr>,
     is_mail = \<lparr>ml_ParseAddress = Some, ml_ToLower = id\<rparr>, is_minorCrossProductLinking = False, is_emailVerificationTTL = 15 * minute\<rparr>"

definition new_service :: IdentityService where
  "new_service = old_service\<lparr>is_provider := local_provider sample_aead new_ring,
     is_indexer := \<lparr>bx_current = 2, bx_keys = [(2, replicate 32 CHR ''j''), (1, replicate 32 CHR ''i'')]\<rparr>\<rparr>"

definition sample_draws :: draws where
  "sample_draws = \<lparr>sd_verification = ''v'', sd_claim = ''c'', sd_person = ''p'', sd_identity = ''e'', sd_account = ''a'', sd_cipher = sample_draw\<rparr>"

definition sample_begin :: BeginEmailVerificationInput where
  "sample_begin = \<lparr>bg_ProductID = ''pict'', bg_Email = ''a@b.c'', bg_Namespace = ''account'', bg_AgeCategory = ''adult'',
     bg_GuardianRelationship = None, bg_LinkAcrossProducts = True, bg_InstallationID = None\<rparr>"

lemma service_setup:
  "NewLocalAESKeyring ''k'' [(''k'', replicate 32 CHR ''a'')] = Inr old_ring"
  "NewLocalAESKeyring ''n'' [(''n'', replicate 32 CHR ''b''), (''k'', replicate 32 CHR ''a'')] = Inr new_ring"
  "NewBlindIndexer 1 [(1, replicate 32 CHR ''i'')] = Inr (is_indexer old_service)"
  "NewBlindIndexer 2 [(2, replicate 32 CHR ''j''), (1, replicate 32 CHR ''i'')] = Inr (is_indexer new_service)"
  "is_provider old_service = local_provider (is_gcm old_service) old_ring"
  "is_provider new_service = local_provider (is_gcm old_service) new_ring"
  "is_gcm new_service = is_gcm old_service" "is_hmac new_service = is_hmac old_service" "is_mail new_service = is_mail old_service"
  "aead_sound (is_gcm old_service)" "draw_ok (sd_cipher sample_draws)" "ValidProductID ''pict''"
  by (simp_all add: NewLocalAESKeyring_def old_ring_def new_ring_def NewBlindIndexer_def old_service_def new_service_def sample_aead_sound
      sample_draws_def sample_draw_ok ValidProductID_def char_class_defs)

lemma sample_normal: "NormalizeEmail (is_mail old_service) ''a@b.c'' = Inr ''a@b.c''"
proof -
  have "trim_space ''a@b.c'' = ''a@b.c''" by (rule trim_noop) auto
  then show ?thesis by (simp add: NormalizeEmail_def old_service_def)
qed

lemma sample_prepared: "\<exists>v. prepareEmailVerification old_service second sample_draws sample_begin '''' (second + hour) = Inr v"
proof -
  have "validateRegistration (registration_of second ''a@b.c'' sample_begin) = Inr ()"
    by (simp add: validateRegistration_def registration_of_def sample_begin_def service_setup is_zero_def zero_time_def duration_defs)
  moreover have "linkageScope old_service (registration_of second ''a@b.c'' sample_begin) = Inr (''global'', ''global'')"
    by (simp add: linkageScope_def registration_of_def sample_begin_def)
  moreover have "\<exists>c. Encrypt (is_gcm old_service) (is_provider old_service) (sd_cipher sample_draws) ''a@b.c'' aad = Inr c" for aad
    using local_encrypts [OF service_setup(1,11)] service_setup(5) by metis
  moreover have "bg_Email sample_begin = ''a@b.c''" by (simp add: sample_begin_def)
  ultimately show ?thesis using sample_normal by (fastforce simp: prepareEmailVerification_def Let_def)
qed


definition undecryptable_db :: db where
  "undecryptable_db = empty_db\<lparr>email_verifications := [set_verified (second, ''m'', ''x'') (new_verification second sample_verification)]\<rparr>"

theorem failed_completion_releases_witness:
  "\<exists>e d'. CompleteEmailVerification old_service (\<lambda>_. 2 * second) sample_draws (\<lambda>_ d. d) (v_ID sample_verification) (v_ProductID sample_verification)
     True undecryptable_db = (Inl e, d') \<and> d' \<noteq> undecryptable_db \<and> (\<forall>r \<in> set (email_verifications d'). ev_processing_token r = None)"
proof -
  let ?run = "CompleteEmailVerification old_service (\<lambda>_. 2 * second) sample_draws (\<lambda>_ d. d) (v_ID sample_verification) (v_ProductID sample_verification)
     True undecryptable_db"
  have fail: "fst ?run = Inl (ErrMessage ''unsupported envelope algorithm'')" and moved: "snd ?run \<noteq> undecryptable_db"
    by (simp_all add: CompleteEmailVerification_def ClaimVerifiedEmail_def undecryptable_db_def set_verified_def new_verification_def sample_verification_def
        empty_db_def cas_row_def cas_update_def tbl_update_def set_claim_def verification_of_row_def Decrypt_def Algorithm_V1_def empty_cipher_def
        release_claim_def ReleaseEmailVerification_def sample_draws_def duration_defs trunc_us_def EmailVerificationClaimLease_def)
  have "db_keys undecryptable_db" by (simp add: db_keys_def undecryptable_db_def empty_db_def)
  from failed_completion_releases [OF this] fail have "snd ?run = undecryptable_db \<or> (\<forall>r \<in> set (email_verifications (snd ?run)). ev_processing_token r = None)"
    by (cases ?run) (fastforce simp: undecryptable_db_def tbl_update_def set_verified_def new_verification_def)
  with moved fail show ?thesis by (metis prod.collapse)
qed


end
