(* ===== verification/Installation_Broker.thy ===== *)
theory Installation_Broker
  imports Session_Store Tokens
begin

text \<open>
  The broker of public installations, \<^verbatim>\<open>internal/installationbroker\<close>: registration with
  a deterministic identifier, the exchange of a refresh token for a telemetry token, the
  denial of telemetry, and the proof of a live installation that other components ask for.
  \<open>clock k\<close> is the \<open>k\<close>-th reading of the clock and \<open>fresh k\<close> the \<open>k\<close>-th new identifier of
  a call; \<open>view k\<close> is the database that its \<open>k\<close>-th query sees, since other requests may
  commit between two queries.
\<close>

section \<open>Instants as text\<close>

text \<open>
  \<^verbatim>\<open>time.Format(time.RFC3339Nano)\<close> in UTC: the civil date of a day count in the proleptic
  Gregorian calendar, with years that begin in March inside the computation, and the
  fraction without its trailing zeros.
\<close>

definition civil_date :: "int \<Rightarrow> int \<times> int \<times> int" where
  "civil_date days =
     (let z = days + 719468; era = z div 146097; doe = z mod 146097;
          yoe = (doe - doe div 1460 + doe div 36524 - doe div 146096) div 365;
          doy = doe - (365 * yoe + yoe div 4 - yoe div 100);
          mp = (5 * doy + 2) div 153;
          month = (if mp < 10 then mp + 3 else mp - 9)
      in (yoe + era * 400 + (if month \<le> 2 then 1 else 0), month, doy - (153 * mp + 2) div 5 + 1))"

definition padded :: "nat \<Rightarrow> int \<Rightarrow> string" where
  "padded width n = (let s = decimal (nat n) in replicate (width - length s) CHR ''0'' @ s)"

definition fraction :: "int \<Rightarrow> string" where
  "fraction ns = (if ns = 0 then '''' else CHR ''.'' # rev (dropWhile (\<lambda>c. c = CHR ''0'') (rev (padded 9 ns))))"

definition format_rfc3339 :: "time \<Rightarrow> string" where
  "format_rfc3339 t =
     (let s = t div second; (y, m, d) = civil_date (s div 86400); sec = s mod 86400
      in padded 4 y @ ''-'' @ padded 2 m @ ''-'' @ padded 2 d @ ''T'' @ padded 2 (sec div 3600) @ '':'' @
         padded 2 (sec mod 3600 div 60) @ '':'' @ padded 2 (sec mod 60) @ fraction (t mod second) @ ''Z'')"

section \<open>Model\<close>

record Product =
  pr_Audience :: string
  pr_AdditionalPolicies :: "string list"

record BrokerConfig =
  bc_Products :: "(string \<times> Product) list"
  bc_RegistrationProducts :: "string list"
  bc_PolicyVersion :: string
  bc_RefreshTTL :: duration

record RegisterInput =
  gi_RequestID :: string
  gi_ProductID :: string
  gi_Platform :: string
  gi_Preference :: string
  gi_Policy :: string
  gi_RecordedAt :: time

record PreferenceInput =
  pf_Preference :: string
  pf_PolicyVersion :: string
  pf_RecordedAt :: time

record AccessToken =
  at_AccessToken :: string
  at_TokenType :: string
  at_ExpiresAt :: time

record Registration =
  rn_InstallationKey :: string
  rn_Product :: string
  rn_Platform :: string
  rn_Preference :: string
  rn_PolicyVersion :: string
  rn_RecordedAt :: time
  rn_RefreshToken :: string
  rn_RefreshExpires :: time
  rn_MetricsToken :: "AccessToken option"

record TokenResponse =
  tr_InstallationKey :: string
  tr_Product :: string
  tr_MetricsToken :: AccessToken

record PreferenceResponse =
  ps_InstallationKey :: string
  ps_Product :: string
  ps_Preference :: string
  ps_PolicyVersion :: string
  ps_RecordedAt :: time

text \<open>The broker, with the token library and HMAC it is linked with.\<close>

record Broker =
  ib_lib :: token_lib
  ib_hmac :: hmac
  ib_signer :: Signer
  ib_pairwise :: Generator
  ib_config :: BrokerConfig

definition broker_New :: "token_lib \<Rightarrow> hmac \<Rightarrow> Signer \<Rightarrow> Generator \<Rightarrow> BrokerConfig \<Rightarrow> Broker result" where
  "broker_New lib hmac signer pairwiseIDs config =
     (if bc_Products config = [] \<or> bc_RegistrationProducts config = [] \<or> bc_PolicyVersion config = '''' \<or>
         bc_RefreshTTL config < 24 * hour \<or> bc_RefreshTTL config > 365 * 24 * hour
      then Inl (ErrMessage ''invalid public installation broker configuration'')
      else if list_ex (\<lambda>(productID, product). \<not> ValidProductID productID \<or> pr_Audience product = '''') (bc_Products config)
      then Inl (ErrMessage ''invalid public installation product'')
      else if list_ex (\<lambda>productID. map_of (bc_Products config) productID = None) (bc_RegistrationProducts config)
      then Inl (ErrMessage ''public registration references an unknown product'')
      else Inr \<lparr>ib_lib = lib, ib_hmac = hmac, ib_signer = signer, ib_pairwise = pairwiseIDs, ib_config = config\<rparr>)"

definition validPlatform :: "string \<Rightarrow> bool" where
  "validPlatform platform \<longleftrightarrow> platform \<in> set [''windows'', ''macos'', ''linux'', ''web'', ''android'', ''ios'']"

definition validRegistration :: "Broker \<Rightarrow> time \<Rightarrow> Product \<Rightarrow> string \<Rightarrow> string \<Rightarrow> time \<Rightarrow> bool" where
  "validRegistration b now product preference policyVersion recordedAt \<longleftrightarrow>
     (preference = ''allowed'' \<or> preference = ''denied'' \<or> preference = ''unknown'') \<and>
     (policyVersion = bc_PolicyVersion (ib_config b) \<or> policyVersion \<in> set (pr_AdditionalPolicies product)) \<and>
     \<not> is_zero recordedAt \<and> \<not> recordedAt < now - 24 * hour \<and> \<not> recordedAt > now + 5 * minute"

definition validDenial :: "time \<Rightarrow> string \<Rightarrow> time \<Rightarrow> bool" where
  "validDenial now policyVersion recordedAt \<longleftrightarrow>
     length policyVersion \<ge> 1 \<and> length policyVersion \<le> 100 \<and> \<not> is_zero recordedAt \<and>
     \<not> recordedAt < now - 24 * hour \<and> \<not> recordedAt > now + 5 * minute"

definition registrationID :: "Broker \<Rightarrow> RegisterInput \<Rightarrow> string \<Rightarrow> string" where
  "registrationID b input audience =
     (let fingerprint = join_nul [to_lower (gi_RequestID input), gi_ProductID input, gi_Platform input, gi_Preference input,
            gi_Policy input, format_rfc3339 (gi_RecordedAt input)];
          digest = (take 32 (pairwise_Subject (ib_hmac b) (ib_pairwise b) (gi_ProductID input) audience ''public-registration'' fingerprint))
            [12 := CHR ''4'', 16 := CHR ''8''];
          part = (\<lambda>i n. take n (drop i digest))
      in part 0 8 @ ''-'' @ part 8 4 @ ''-'' @ part 12 4 @ ''-'' @ part 16 4 @ ''-'' @ part 20 12)"

definition issueAccess :: "Broker \<Rightarrow> time \<Rightarrow> string \<Rightarrow> string \<Rightarrow> string \<Rightarrow> string \<Rightarrow> AccessToken result" where
  "issueAccess b now tokenID productID audience installationKey =
     rbind (SignClaims (ib_lib b) (ib_signer b) now tokenID
       \<lparr>si_Audience = audience, si_Product = productID, si_Subject = installationKey, si_SubjectType = ''installation'',
        si_Scopes = [''telemetry:write''], si_PersonKey = None, si_OrgKey = None, si_PolicyVersion = '''', si_TTL = 0\<rparr>)
     (\<lambda>(encoded, expiresAt). Inr \<lparr>at_AccessToken = encoded, at_TokenType = ''Bearer'', at_ExpiresAt = expiresAt\<rparr>)"

definition registration_request :: "Broker \<Rightarrow> (nat \<Rightarrow> string) \<Rightarrow> string \<Rightarrow> RegisterInput \<Rightarrow> PublicInstallationRegistration" where
  "registration_request b fresh audience input =
     (let rootID = registrationID b input audience;
          known = gi_Preference input \<noteq> ''unknown'' in
      \<lparr>pir_Installation = \<lparr>in_ID = rootID, in_ProductID = gi_ProductID input, in_Platform = gi_Platform input, in_CreatedAt = zero_time\<rparr>,
       pir_OpaqueKey = pairwise_Subject (ib_hmac b) (ib_pairwise b) (gi_ProductID input) audience ''installation'' rootID,
       pir_Audience = audience,
       pir_Consent = (if known then
          \<lparr>cs_ID = fresh 0, cs_Subject = \<lparr>su_Kind = ''installation'', su_ID = rootID\<rparr>, cs_ProductID = gi_ProductID input,
           cs_ConsentType = ''telemetry'', cs_PolicyVersion = gi_Policy input,
           cs_Status = (if gi_Preference input = ''denied'' then ''withdrawn'' else ''granted''), cs_RecordedAt = gi_RecordedAt input\<rparr>
          else empty_consent),
       pir_Preference = gi_Preference input, pir_PreferenceAt = gi_RecordedAt input,
       pir_SuppressionID = (if known then fresh 1 else '''')\<rparr>)"

definition Register :: "Broker \<Rightarrow> (nat \<Rightarrow> time) \<Rightarrow> (nat \<Rightarrow> string) \<Rightarrow> RegisterInput \<Rightarrow> db \<Rightarrow> Registration result \<times> db" where
  "Register b clock fresh input0 d =
     (case map_of (bc_Products (ib_config b)) (gi_ProductID input0) of
        None \<Rightarrow> (Inl ErrInvalid, d)
      | Some product \<Rightarrow>
          if gi_ProductID input0 \<notin> set (bc_RegistrationProducts (ib_config b)) \<or> \<not> ValidUUID (gi_RequestID input0) \<or>
             \<not> validPlatform (gi_Platform input0) \<or>
             \<not> validRegistration b (clock 0) product (gi_Preference input0) (gi_Policy input0) (gi_RecordedAt input0)
          then (Inl ErrInvalid, d)
          else
            let input = input0\<lparr>gi_RecordedAt := trunc_us (gi_RecordedAt input0)\<rparr>;
                registration = registration_request b fresh (pr_Audience product) input;
                installationKey = pir_OpaqueKey registration in
            case RegisterPublicInstallation (fresh 2) (clock 1) registration d of
              Inl e \<Rightarrow> (Inl e, d)
            | Inr (inst, d') \<Rightarrow>
                (rbind (SignRefresh (ib_lib b) (ib_signer b) (clock 2) (fresh 3) (gi_ProductID input) installationKey
                          (gi_Policy input) (bc_RefreshTTL (ib_config b))) (\<lambda>(refreshToken, refreshExpires).
                 let answer = \<lparr>rn_InstallationKey = installationKey, rn_Product = gi_ProductID input, rn_Platform = in_Platform inst,
                       rn_Preference = gi_Preference input, rn_PolicyVersion = gi_Policy input, rn_RecordedAt = gi_RecordedAt input,
                       rn_RefreshToken = refreshToken, rn_RefreshExpires = refreshExpires, rn_MetricsToken = None\<rparr> in
                 if gi_Preference input = ''allowed'' then
                   rbind (issueAccess b (clock 3) (fresh 4) (gi_ProductID input) (pr_Audience product) installationKey) (\<lambda>access.
                   Inr (answer\<lparr>rn_MetricsToken := Some access\<rparr>))
                 else Inr answer), d'))"

record authenticatedInstallation =
  an_productID :: string
  an_audience :: string
  an_alias :: ResolvedAlias
  an_policyVersion :: string

definition authenticate :: "Broker \<Rightarrow> time \<Rightarrow> (nat \<Rightarrow> db) \<Rightarrow> string \<Rightarrow> authenticatedInstallation result" where
  "authenticate b now view encoded =
     (case VerifyRefresh (ib_lib b) (ib_signer b) now encoded of
        Inl _ \<Rightarrow> Inl ErrInvalidCredential
      | Inr claims \<Rightarrow>
          (case map_of (bc_Products (ib_config b)) (tc_Product claims) of
             None \<Rightarrow> Inl ErrInvalidCredential
           | Some product \<Rightarrow>
               if \<not> pairwise_Valid (tc_Subject claims) then Inl ErrInvalidCredential
               else case ResolveSubjectAlias (view 0) (tc_Subject claims) (tc_Product claims) (pr_Audience product) of
                 Inl e \<Rightarrow> if e = ErrNotFound then Inl ErrInvalidCredential else Inl e
               | Inr alias \<Rightarrow>
                   if ra_SubjectType alias \<noteq> ''installation'' then Inl ErrInvalidCredential
                   else case ResolveTokenSubject (view 1) (tc_Product claims) (ra_SubjectType alias) (ra_SubjectID alias) of
                     Inl e \<Rightarrow> if e = ErrNotFound then Inl ErrInvalidCredential else Inl e
                   | Inr _ \<Rightarrow> Inr \<lparr>an_productID = tc_Product claims, an_audience = pr_Audience product, an_alias = alias,
                       an_policyVersion = tc_PolicyVersion claims\<rparr>))"

definition Refresh :: "Broker \<Rightarrow> (nat \<Rightarrow> time) \<Rightarrow> string \<Rightarrow> (nat \<Rightarrow> db) \<Rightarrow> string \<Rightarrow> TokenResponse result" where
  "Refresh b clock tokenID view refreshToken =
     rbind (authenticate b (clock 0) view refreshToken) (\<lambda>authenticated.
     case GetTelemetryPreference (view 2) \<lparr>su_Kind = ''installation'', su_ID = ra_SubjectID (an_alias authenticated)\<rparr> (an_productID authenticated) of
       Inl e \<Rightarrow> if e = ErrNotFound then Inl ErrForbidden else Inl e
     | Inr preference \<Rightarrow>
         if tpv_Preference preference \<noteq> ''allowed'' then Inl ErrForbidden
         else rbind (issueAccess b (clock 1) tokenID (an_productID authenticated) (an_audience authenticated) (ra_OpaqueKey (an_alias authenticated))) (\<lambda>access.
           Inr \<lparr>tr_InstallationKey = ra_OpaqueKey (an_alias authenticated), tr_Product = an_productID authenticated, tr_MetricsToken = access\<rparr>))"

definition denial_of :: "authenticatedInstallation \<Rightarrow> (nat \<Rightarrow> string) \<Rightarrow> PreferenceInput \<Rightarrow> PublicTelemetryDenial" where
  "denial_of authenticated fresh input =
     (let subject = \<lparr>su_Kind = ''installation'', su_ID = ra_SubjectID (an_alias authenticated)\<rparr> in
      \<lparr>ptd_Subject = subject, ptd_SubjectKey = ra_OpaqueKey (an_alias authenticated), ptd_ProductID = an_productID authenticated,
       ptd_Consent = \<lparr>cs_ID = fresh 0, cs_Subject = subject, cs_ProductID = an_productID authenticated, cs_ConsentType = ''telemetry'',
         cs_PolicyVersion = pf_PolicyVersion input, cs_Status = ''withdrawn'', cs_RecordedAt = pf_RecordedAt input\<rparr>,
       ptd_RecordedAt = pf_RecordedAt input, ptd_SuppressionID = fresh 1\<rparr>)"

definition SetPreference ::
  "Broker \<Rightarrow> (nat \<Rightarrow> time) \<Rightarrow> (nat \<Rightarrow> string) \<Rightarrow> (nat \<Rightarrow> db) \<Rightarrow> string \<Rightarrow> PreferenceInput \<Rightarrow> db \<Rightarrow> (PreferenceResponse \<times> db) result" where
  "SetPreference b clock fresh view refreshToken input0 d =
     (if pf_Preference input0 \<noteq> ''denied'' \<or> \<not> validDenial (clock 0) (pf_PolicyVersion input0) (pf_RecordedAt input0) then Inl ErrInvalid
      else
        let input = input0\<lparr>pf_RecordedAt := trunc_us (pf_RecordedAt input0)\<rparr> in
        rbind (authenticate b (clock 1) view refreshToken) (\<lambda>authenticated.
        if pf_PolicyVersion input \<noteq> an_policyVersion authenticated then Inl ErrConflict
        else rbind (DenyPublicInstallation (clock 2) (denial_of authenticated fresh input) d) (\<lambda>(effectiveAt, d').
          Inr (\<lparr>ps_InstallationKey = ra_OpaqueKey (an_alias authenticated), ps_Product = an_productID authenticated,
            ps_Preference = pf_Preference input, ps_PolicyVersion = an_policyVersion authenticated, ps_RecordedAt = effectiveAt\<rparr>, d'))))"

record InstallationContext =
  ic_ProductID :: string
  ic_InstallationID :: string
  ic_InstallationKey :: string
  ic_TelemetryAudience :: string

definition AuthenticateInstallation :: "Broker \<Rightarrow> time \<Rightarrow> (nat \<Rightarrow> db) \<Rightarrow> string \<Rightarrow> InstallationContext result" where
  "AuthenticateInstallation b now view credential =
     rbind (authenticate b now view credential) (\<lambda>authenticated.
     Inr \<lparr>ic_ProductID = an_productID authenticated, ic_InstallationID = ra_SubjectID (an_alias authenticated),
       ic_InstallationKey = ra_OpaqueKey (an_alias authenticated), ic_TelemetryAudience = an_audience authenticated\<rparr>)"

section \<open>Auxiliary facts\<close>

lemma pairwise_Subject_shape:
  assumes "\<And>k m. length (hmac k m) = 32"
  shows "length (pairwise_Subject hmac g p a k r) = 64" "list_all is_lower_hex (pairwise_Subject hmac g p a k r)" "pairwise_Valid (pairwise_Subject hmac g p a k r)"
  using assms by (auto simp: pairwise_Subject_def pairwise_Valid_def list_all_iff dest: hex_encode_digits)

lemma uuid_parts:
  assumes "length h = 32" and hex: "\<And>i. i < 32 \<Longrightarrow> is_lower_hex (h ! i)" and "h ! 12 = CHR ''4''" "h ! 16 = CHR ''8''"
  shows "ValidUUID (take 8 (drop 0 h) @ ''-'' @ take 4 (drop 8 h) @ ''-'' @ take 4 (drop 12 h) @ ''-'' @ take 4 (drop 16 h) @ ''-'' @ take 12 (drop 20 h))"
proof -
  have id: "map lower_char h = h"
  proof (rule nth_equalityI)
    fix i assume "i < length (map lower_char h)"
    with assms(1) hex [of i] show "map lower_char h ! i = h ! i" by (auto simp: lower_char_def is_upper_def char_class_defs)
  qed simp
  from assms(1) obtain a0 a1 a2 a3 a4 a5 a6 a7 a8 a9 a10 a11 a12 a13 a14 a15 a16 a17 a18 a19 a20 a21 a22 a23 a24 a25 a26 a27 a28 a29 a30 a31
    where h: "h = [a0, a1, a2, a3, a4, a5, a6, a7, a8, a9, a10, a11, a12, a13, a14, a15, a16, a17, a18, a19, a20, a21, a22, a23, a24, a25, a26, a27, a28, a29, a30, a31]"
    by (auto simp: numeral_eq_Suc length_Suc_conv)
  have "list_all is_lower_hex h" using assms(1) hex by (simp add: list_all_length)
  with assms(3,4) id show ?thesis
    by (simp add: h ValidUUID_def matches_def uuid_pattern_unfold to_lower_def Let_def)
qed

lemma registrationID_valid:
  assumes "\<And>k m. length (ib_hmac b k m) = 32"
  shows "ValidUUID (registrationID b input audience)"
proof -
  let ?s = "\<lambda>f. pairwise_Subject (ib_hmac b) (ib_pairwise b) (gi_ProductID input) audience ''public-registration'' f"
  have "is_lower_hex ((take 32 (?s f))[12 := CHR ''4'', 16 := CHR ''8''] ! i)" if "i < 32" for f i
    using pairwise_Subject_shape [where hmac = "ib_hmac b", OF assms] that
    by (auto simp: nth_list_update list_all_length char_class_defs)
  then show ?thesis
    using pairwise_Subject_shape(1) [where hmac = "ib_hmac b", OF assms]
    unfolding registrationID_def Let_def by (intro uuid_parts) simp_all
qed

lemma create_public_installation_alias:
  "yields (create_public_installation pid now input d) (\<lambda>d'.
     (\<exists>row. tfind sa_opaque_key (pir_OpaqueKey input) (subject_aliases d') = Some row \<and> sa_product_id row = in_ProductID (pir_Installation input) \<and>
       sa_audience row = pir_Audience input \<and> sa_subject_type row = ''installation'' \<and> sa_subject_id row = in_ID (pir_Installation input) \<and>
       sa_person_id row = None))"
proof -
  have new: "tfind sa_opaque_key k (t @ [r]) = Some r" if "k \<notin> sa_opaque_key ` set t" "sa_opaque_key r = k" for k t and r :: subject_alias
  proof -
    from that(1) have "tfind sa_opaque_key k t = None" by (auto simp: tfind_None)
    with that(2) show ?thesis by (simp add: tfind_append)
  qed
  show ?thesis
    by (simp add: create_public_installation_def Let_def subject_record_defs insert_alias_def row_wp new)
qed

lemma Register_Inr:
  assumes "Register b clock fresh input d = (Inr r, d')"
  obtains product inst token expires where
    "map_of (bc_Products (ib_config b)) (gi_ProductID input) = Some product"
    "RegisterPublicInstallation (fresh 2) (clock 1)
       (registration_request b fresh (pr_Audience product) (input\<lparr>gi_RecordedAt := trunc_us (gi_RecordedAt input)\<rparr>)) d = Inr (inst, d')"
    "SignRefresh (ib_lib b) (ib_signer b) (clock 2) (fresh 3) (gi_ProductID input)
       (rn_InstallationKey r) (gi_Policy input) (bc_RefreshTTL (ib_config b)) = Inr (token, expires)"
    "rn_InstallationKey r = pir_OpaqueKey (registration_request b fresh (pr_Audience product) (input\<lparr>gi_RecordedAt := trunc_us (gi_RecordedAt input)\<rparr>))"
    "rn_RefreshToken r = token" "rn_RefreshExpires r = expires" "rn_Preference r = gi_Preference input" "rn_Product r = gi_ProductID input"
    "rn_PolicyVersion r = gi_Policy input"
proof -
  from assms obtain product where p: "map_of (bc_Products (ib_config b)) (gi_ProductID input) = Some product"
    by (auto simp: Register_def split: option.splits)
  with assms show ?thesis
    by (auto simp: Register_def Let_def split: sum.splits if_splits prod.splits intro!: that [of product])
qed

lemma registration_request_fields [simp]:
  "in_ID (pir_Installation (registration_request b fresh a input)) = registrationID b input a"
  "in_ProductID (pir_Installation (registration_request b fresh a input)) = gi_ProductID input"
  "in_Platform (pir_Installation (registration_request b fresh a input)) = gi_Platform input"
  "in_CreatedAt (pir_Installation (registration_request b fresh a input)) = zero_time"
  "pir_Audience (registration_request b fresh a input) = a"
  "pir_Preference (registration_request b fresh a input) = gi_Preference input"
  "pir_PreferenceAt (registration_request b fresh a input) = gi_RecordedAt input"
  "pir_OpaqueKey (registration_request b fresh a input) =
     pairwise_Subject (ib_hmac b) (ib_pairwise b) (gi_ProductID input) a ''installation'' (registrationID b input a)"
  by (simp_all add: registration_request_def Let_def)

text \<open>What a first registration leaves in the database, as the later queries see it.\<close>

lemma new_installation_resolves:
  assumes ok: "RegisterPublicInstallation pid now input d = Inr (inst, d')"
    and new: "tfind i_id (in_ID (pir_Installation input)) (product_installations d) = None"
  shows "ResolveSubjectAlias d' (pir_OpaqueKey input) (in_ProductID (pir_Installation input)) (pir_Audience input) =
      Inr \<lparr>ra_OpaqueKey = pir_OpaqueKey input, ra_SubjectType = ''installation'', ra_SubjectID = in_ID (pir_Installation input), ra_PersonID = '''',
        ra_ProductID = in_ProductID (pir_Installation input), ra_Audience = pir_Audience input\<rparr>"
    "ResolveTokenSubject d' (in_ProductID (pir_Installation input)) ''installation'' (in_ID (pir_Installation input)) = Inr ()"
    "GetTelemetryPreference d' \<lparr>su_Kind = ''installation'', su_ID = in_ID (pir_Installation input)\<rparr> (in_ProductID (pir_Installation input)) =
      Inr \<lparr>tpv_Preference = pir_Preference input, tpv_RecordedAt = trunc_us (pir_PreferenceAt input)\<rparr>"
proof -
  from ok new have c: "create_public_installation pid (trunc_us now) input d = Inr d'"
    by (auto simp: RegisterPublicInstallation_def Let_def split: if_splits)
  note eff = yieldsD [OF create_public_installation_effect c] and als = yieldsD [OF create_public_installation_alias c]
  have row: "tfind i_id (in_ID (pir_Installation input)) (product_installations d') = Some (new_installation (pir_Installation input) (trunc_us now))"
    using eff new by (simp add: tfind_append new_installation_def)
  show "ResolveSubjectAlias d' (pir_OpaqueKey input) (in_ProductID (pir_Installation input)) (pir_Audience input) =
      Inr \<lparr>ra_OpaqueKey = pir_OpaqueKey input, ra_SubjectType = ''installation'', ra_SubjectID = in_ID (pir_Installation input), ra_PersonID = '''',
        ra_ProductID = in_ProductID (pir_Installation input), ra_Audience = pir_Audience input\<rparr>"
  proof -
    from als obtain a where a: "tfind sa_opaque_key (pir_OpaqueKey input) (subject_aliases d') = Some a" "sa_product_id a = in_ProductID (pir_Installation input)"
      "sa_audience a = pir_Audience input" "sa_subject_type a = ''installation''" "sa_subject_id a = in_ID (pir_Installation input)" "sa_person_id a = None" by blast
    with row show ?thesis by (simp add: ResolveSubjectAlias_def aliasPersonID_def new_installation_def)
  qed
  show "ResolveTokenSubject d' (in_ProductID (pir_Installation input)) ''installation'' (in_ID (pir_Installation input)) = Inr ()"
    using row by (simp add: ResolveTokenSubject_def new_installation_def)
  show "GetTelemetryPreference d' \<lparr>su_Kind = ''installation'', su_ID = in_ID (pir_Installation input)\<rparr> (in_ProductID (pir_Installation input)) =
      Inr \<lparr>tpv_Preference = pir_Preference input, tpv_RecordedAt = trunc_us (pir_PreferenceAt input)\<rparr>"
    using eff by (simp add: GetTelemetryPreference_def preference_key_def tp_key_def tfind_append)
qed

lemma registered_authenticates:
  assumes reg: "Register b clock fresh input d = (Inr r, d')"
    and new: "\<And>audience. tfind i_id (registrationID b (input\<lparr>gi_RecordedAt := trunc_us (gi_RecordedAt input)\<rparr>) audience) (product_installations d) = None"
    and made: "broker_New lib hmac s g config = Inr b" and hmac: "\<And>k m. length (hmac k m) = 32"
    and lib: "lib_sound lib"
    and ring: "NewKeyring lib seeds active issuer dflt m = Inr s" "distinct (map fst seeds)"
    and ring': "NewKeyring lib seeds' active' issuer dflt' m' = Inr s'" "distinct (map fst seeds')" "map_of seeds' active = map_of seeds active"
    and texts: "list_all utf8_valid [active, issuer, gi_Policy input, fresh 3]" "length (gi_Policy input) \<le> 100"
    and time: "\<bar>unix (clock 2)\<bar> < 2 ^ 62" "clock 2 \<le> now'"
  shows "\<exists>product. map_of (bc_Products (ib_config b)) (gi_ProductID input) = Some product \<and>
    (let id = registrationID b (input\<lparr>gi_RecordedAt := trunc_us (gi_RecordedAt input)\<rparr>) (pr_Audience product) in
     ValidUUID id \<and>
     authenticate (b\<lparr>ib_signer := s'\<rparr>) (now') (\<lambda>_. d') (rn_RefreshToken r) =
      (if unix (now') < unix (rn_RefreshExpires r)
       then Inr \<lparr>an_productID = gi_ProductID input, an_audience = pr_Audience product,
         an_alias = \<lparr>ra_OpaqueKey = rn_InstallationKey r, ra_SubjectType = ''installation'', ra_SubjectID = id, ra_PersonID = '''',
           ra_ProductID = gi_ProductID input, ra_Audience = pr_Audience product\<rparr>, an_policyVersion = gi_Policy input\<rparr>
       else Inl ErrInvalidCredential) \<and>
     GetTelemetryPreference d' \<lparr>su_Kind = ''installation'', su_ID = id\<rparr> (gi_ProductID input) =
       Inr \<lparr>tpv_Preference = gi_Preference input, tpv_RecordedAt = trunc_us (gi_RecordedAt input)\<rparr>)"
proof -
  let ?in = "input\<lparr>gi_RecordedAt := trunc_us (gi_RecordedAt input)\<rparr>"
  from made have b: "ib_lib b = lib" "ib_hmac b = hmac" "ib_signer b = s" "ib_pairwise b = g" "ib_config b = config"
    and products: "\<And>p q. (p, q) \<in> set (bc_Products config) \<Longrightarrow> ValidProductID p"
    by (auto simp: broker_New_def list_ex_iff split: if_splits)
  from reg obtain product inst token expires where p: "map_of (bc_Products (ib_config b)) (gi_ProductID input) = Some product"
    and store: "RegisterPublicInstallation (fresh 2) (clock 1) (registration_request b fresh (pr_Audience product) ?in) d = Inr (inst, d')"
    and sign: "SignRefresh (ib_lib b) (ib_signer b) (clock 2) (fresh 3) (gi_ProductID input) (rn_InstallationKey r) (gi_Policy input) (bc_RefreshTTL (ib_config b)) = Inr (token, expires)"
    and key: "rn_InstallationKey r = pir_OpaqueKey (registration_request b fresh (pr_Audience product) ?in)"
    and r: "rn_RefreshToken r = token" "rn_RefreshExpires r = expires"
    by (rule Register_Inr)
  let ?id = "registrationID b ?in (pr_Audience product)"
  have hmac': "\<And>k m. length (ib_hmac b k m) = 32" using hmac b by simp
  have valid: "ValidProductID (gi_ProductID input)" using products p b(5) by (auto dest: map_of_SomeD)
  have opaque: "pairwise_Valid (rn_InstallationKey r)" unfolding key by (simp add: pairwise_Subject_shape(3) [OF hmac'])
  have "gi_ProductID input \<noteq> ''''" using valid by (auto simp: ValidProductID_def)
  moreover have "rn_InstallationKey r \<noteq> ''''" using opaque by (auto simp: pairwise_Valid_def)
  ultimately obtain c where c: "tc_Product c = gi_ProductID input" "tc_Subject c = rn_InstallationKey r" "tc_PolicyVersion c = gi_Policy input"
    and verify: "VerifyRefresh lib s' (now') token =
      (if unix (now') < unix expires then Inr c else Inl (ErrMessage ''invalid refresh token claims''))"
    using refresh_roundtrip [OF lib ring ring' _ _ _ texts(2) time sign [unfolded b]] texts(1) product_utf8 [OF valid] pairwise_utf8 [OF opaque] by auto
  note res = new_installation_resolves [OF store, simplified, OF new]
  have auth: "authenticate (b\<lparr>ib_signer := s'\<rparr>) (now') (\<lambda>_. d') (rn_RefreshToken r) =
      (if unix (now') < unix (rn_RefreshExpires r)
       then Inr \<lparr>an_productID = gi_ProductID input, an_audience = pr_Audience product,
         an_alias = \<lparr>ra_OpaqueKey = rn_InstallationKey r, ra_SubjectType = ''installation'', ra_SubjectID = ?id, ra_PersonID = '''',
           ra_ProductID = gi_ProductID input, ra_Audience = pr_Audience product\<rparr>, an_policyVersion = gi_Policy input\<rparr>
       else Inl ErrInvalidCredential)"
    using verify p res key opaque by (simp add: authenticate_def b r c)
  with p res registrationID_valid [OF hmac'] show ?thesis by (auto simp: Let_def)
qed

section \<open>Properties\<close>

text \<open>
  C31: a first registration hands out a working credential. Until the second in which it expires,
  and after the signing key was rotated but kept, the refresh token authenticates exactly the
  installation that was registered, for its product, its pairwise key and its audience; from then
  on it is an invalid credential. The exchange for a telemetry token is refused unless the
  registration allowed telemetry, and never refused as forbidden when it did.
\<close>

theorem register_then_refresh:
  assumes reg: "Register b clock fresh input d = (Inr r, d')"
    and new: "\<And>audience. tfind i_id (registrationID b (input\<lparr>gi_RecordedAt := trunc_us (gi_RecordedAt input)\<rparr>) audience) (product_installations d) = None"
    and made: "broker_New lib hmac s g config = Inr b" and hmac: "\<And>k m. length (hmac k m) = 32"
    and lib: "lib_sound lib"
    and ring: "NewKeyring lib seeds active issuer dflt m = Inr s" "distinct (map fst seeds)"
    and ring': "NewKeyring lib seeds' active' issuer dflt' m' = Inr s'" "distinct (map fst seeds')" "map_of seeds' active = map_of seeds active"
    and texts: "list_all utf8_valid [active, issuer, gi_Policy input, fresh 3]" "length (gi_Policy input) \<le> 100"
    and time: "\<bar>unix (clock 2)\<bar> < 2 ^ 62" "clock 2 \<le> clock' 0"
  shows "\<exists>c. ic_ProductID c = gi_ProductID input \<and> ic_InstallationKey c = rn_InstallationKey r \<and> ValidUUID (ic_InstallationID c) \<and>
    AuthenticateInstallation (b\<lparr>ib_signer := s'\<rparr>) (clock' 0) (\<lambda>_. d') (rn_RefreshToken r) =
      (if unix (clock' 0) < unix (rn_RefreshExpires r) then Inr c else Inl ErrInvalidCredential) \<and>
    (unix (clock' 0) < unix (rn_RefreshExpires r) \<longrightarrow>
      Refresh (b\<lparr>ib_signer := s'\<rparr>) clock' tokenID (\<lambda>_. d') (rn_RefreshToken r) =
       (if gi_Preference input \<noteq> ''allowed'' then Inl ErrForbidden
        else map_sum id (\<lambda>access. \<lparr>tr_InstallationKey = rn_InstallationKey r, tr_Product = gi_ProductID input, tr_MetricsToken = access\<rparr>)
          (issueAccess (b\<lparr>ib_signer := s'\<rparr>) (clock' 1) tokenID (gi_ProductID input) (ic_TelemetryAudience c) (rn_InstallationKey r))))"
proof -
  from registered_authenticates [where clock = clock and fresh = fresh and hmac = hmac and now' = "clock' 0", OF assms] obtain product :: Product and id where auth:
    "authenticate (b\<lparr>ib_signer := s'\<rparr>) (clock' 0) (\<lambda>_. d') (rn_RefreshToken r) =
      (if unix (clock' 0) < unix (rn_RefreshExpires r)
       then Inr \<lparr>an_productID = gi_ProductID input, an_audience = pr_Audience product,
         an_alias = \<lparr>ra_OpaqueKey = rn_InstallationKey r, ra_SubjectType = ''installation'', ra_SubjectID = id, ra_PersonID = '''',
           ra_ProductID = gi_ProductID input, ra_Audience = pr_Audience product\<rparr>, an_policyVersion = gi_Policy input\<rparr>
       else Inl ErrInvalidCredential)" and id: "ValidUUID id"
    and pref: "GetTelemetryPreference d' \<lparr>su_Kind = ''installation'', su_ID = id\<rparr> (gi_ProductID input) =
       Inr \<lparr>tpv_Preference = gi_Preference input, tpv_RecordedAt = trunc_us (gi_RecordedAt input)\<rparr>"
    unfolding Let_def by blast
  show ?thesis
    by (rule exI [of _ "\<lparr>ic_ProductID = gi_ProductID input, ic_InstallationID = id, ic_InstallationKey = rn_InstallationKey r, ic_TelemetryAudience = pr_Audience product\<rparr>"])
      (auto simp: AuthenticateInstallation_def Refresh_def auth pref id rbind_def split: sum.splits)
qed

text \<open>A retry of a registration, with other identifiers and at another time, changes nothing and names the same installation.\<close>

lemma register_retry:
  assumes reg: "Register b clock fresh input d = (Inr r, d')"
  shows "snd (Register b clock' fresh' input d') = d' \<and>
    (\<forall>r'. fst (Register b clock' fresh' input d') = Inr r' \<longrightarrow> rn_InstallationKey r' = rn_InstallationKey r \<and> rn_Preference r' = rn_Preference r)"
proof -
  let ?in = "input\<lparr>gi_RecordedAt := trunc_us (gi_RecordedAt input)\<rparr>"
  from reg obtain product inst where p: "map_of (bc_Products (ib_config b)) (gi_ProductID input) = Some product"
    and store: "RegisterPublicInstallation (fresh 2) (clock 1) (registration_request b fresh (pr_Audience product) ?in) d = Inr (inst, d')"
    and key: "rn_InstallationKey r = pir_OpaqueKey (registration_request b fresh (pr_Audience product) ?in)" "rn_Preference r = gi_Preference input"
    by (rule Register_Inr)
  have "tfind i_id (registrationID b ?in (pr_Audience product)) (product_installations d') \<noteq> None"
  proof (cases "tfind i_id (registrationID b ?in (pr_Audience product)) (product_installations d)")
    case None
    with store have "create_public_installation (fresh 2) (trunc_us (clock 1)) (registration_request b fresh (pr_Audience product) ?in) d = Inr d'"
      by (auto simp: RegisterPublicInstallation_def Let_def split: if_splits)
    from yieldsD [OF create_public_installation_effect this] show ?thesis by (simp add: tfind_None new_installation_def)
  next
    case (Some row)
    with store show ?thesis by (auto simp: RegisterPublicInstallation_def Let_def split: if_splits)
  qed
  then obtain row where row: "tfind i_id (registrationID b ?in (pr_Audience product)) (product_installations d') = Some row" by blast
  have "d'' = d'" if "RegisterPublicInstallation (fresh' 2) (clock' 1) (registration_request b fresh' (pr_Audience product) ?in) d' = Inr (inst', d'')" for inst' d''
    using that row by (auto simp: RegisterPublicInstallation_def Let_def split: if_splits)
  then show ?thesis
    using p by (auto simp: Register_def key Let_def split: sum.splits if_splits prod.splits)
qed

lemma authenticate_Inr:
  assumes "authenticate b now view token = Inr a"
  shows "ResolveSubjectAlias (view 0) (ra_OpaqueKey (an_alias a)) (an_productID a) (an_audience a) = Inr (an_alias a)"
    "ra_SubjectType (an_alias a) = ''installation''" "ra_ProductID (an_alias a) = an_productID a"
    "ResolveTokenSubject (view 1) (an_productID a) ''installation'' (ra_SubjectID (an_alias a)) = Inr ()"
    "map_of (bc_Products (ib_config b)) (an_productID a) \<noteq> None"
    "\<exists>c. VerifyRefresh (ib_lib b) (ib_signer b) now token = Inr c \<and> tc_Subject c = ra_OpaqueKey (an_alias a) \<and> tc_Product c = an_productID a \<and>
       tc_PolicyVersion c = an_policyVersion a"
  using assms by (auto simp: authenticate_def ResolveSubjectAlias_def split: sum.splits option.splits if_splits)

lemma deny_keeps_aliases:
  "DenyPublicInstallation now input d = Inr (t, d') \<Longrightarrow> subject_aliases d' = subject_aliases d \<and> product_installations d' = product_installations d"
  by (auto simp: DenyPublicInstallation_def subject_record_defs row_ops cas_row_def split: if_splits)

text \<open>
  C32: a denial is effective and final. After a client has denied telemetry, the installation is
  stored as denied at the reported instant, every refresh token of the installation is refused a
  telemetry token, and a registration for the same installation that asks for anything else
  is refused and changes nothing, so that replaying the original registration does not bring
  telemetry back.
\<close>

theorem denial_is_final:
  assumes set: "SetPreference b clock fresh (\<lambda>_. d) token input d = Inr (resp, d')" and keys: "db_keys d"
  shows "\<exists>id at. ps_RecordedAt resp = at \<and>
    GetTelemetryPreference d' \<lparr>su_Kind = ''installation'', su_ID = id\<rparr> (ps_Product resp) = Inr \<lparr>tpv_Preference = ''denied'', tpv_RecordedAt = at\<rparr> \<and>
    (\<forall>b' clock' tokenID token' a. authenticate b' (clock' 0) (\<lambda>_. d') token' = Inr a \<and> ra_OpaqueKey (an_alias a) = ps_InstallationKey resp \<longrightarrow>
       ra_SubjectID (an_alias a) = id \<and> Refresh b' clock' tokenID (\<lambda>_. d') token' = Inl ErrForbidden) \<and>
    (\<forall>b' clock' fresh' input'. gi_Preference input' \<noteq> ''denied'' \<and>
       (\<forall>product. map_of (bc_Products (ib_config b')) (gi_ProductID input') = Some product \<longrightarrow>
          registrationID b' (input'\<lparr>gi_RecordedAt := trunc_us (gi_RecordedAt input')\<rparr>) (pr_Audience product) = id) \<longrightarrow>
       (\<exists>e. Register b' clock' fresh' input' d' = (Inl e, d')))"
proof -
  let ?input = "input\<lparr>pf_RecordedAt := trunc_us (pf_RecordedAt input)\<rparr>"
  from set obtain a at where auth: "authenticate b (clock 1) (\<lambda>_. d) token = Inr a"
    and deny: "DenyPublicInstallation (clock 2) (denial_of a fresh ?input) d = Inr (at, d')"
    and resp: "ps_InstallationKey resp = ra_OpaqueKey (an_alias a)" "ps_Product resp = an_productID a" "ps_RecordedAt resp = at"
    by (auto simp: SetPreference_def Let_def split: if_splits)
  let ?id = "ra_SubjectID (an_alias a)"
  note same = deny_keeps_aliases [OF deny] and A = authenticate_Inr [OF auth]
  have pref: "GetTelemetryPreference d' \<lparr>su_Kind = ''installation'', su_ID = ?id\<rparr> (an_productID a) = Inr \<lparr>tpv_Preference = ''denied'', tpv_RecordedAt = at\<rparr>"
    using deny_public_effect [OF deny keys] by (auto simp: denial_of_def Let_def)
  obtain row where row: "tfind i_id ?id (product_installations d') = Some row" "i_product_id row = an_productID a"
    using A(4) same by (auto simp: ResolveTokenSubject_def split: if_splits)
  have refused: "ra_SubjectID (an_alias a') = ?id \<and> Refresh b' clock' tokenID (\<lambda>_. d') token' = Inl ErrForbidden"
    if a': "authenticate b' (clock' 0) (\<lambda>_. d') token' = Inr a'" "ra_OpaqueKey (an_alias a') = ps_InstallationKey resp" for b' clock' tokenID token' a'
  proof -
    have "ra_SubjectID (an_alias a') = ?id" "an_productID a' = an_productID a"
      using authenticate_Inr(1,3) [OF a'(1)] A(1,3) same a'(2) resp(1) by (auto simp: ResolveSubjectAlias_def split: if_splits)
    with a'(1) pref show ?thesis by (simp add: Refresh_def)
  qed
  have blocked: "\<exists>e. Register b' clock' fresh' input' d' = (Inl e, d')"
    if n: "gi_Preference input' \<noteq> ''denied''" and i: "\<And>product. map_of (bc_Products (ib_config b')) (gi_ProductID input') = Some product \<Longrightarrow>
      registrationID b' (input'\<lparr>gi_RecordedAt := trunc_us (gi_RecordedAt input')\<rparr>) (pr_Audience product) = ?id" for b' clock' fresh' input'
  proof -
    let ?in = "input'\<lparr>gi_RecordedAt := trunc_us (gi_RecordedAt input')\<rparr>"
    have "\<exists>e. RegisterPublicInstallation (fresh' 2) (clock' 1) (registration_request b' fresh' (pr_Audience product) ?in) d' = Inl e"
      if "map_of (bc_Products (ib_config b')) (gi_ProductID input') = Some product" for product
      using row pref n by (auto simp: RegisterPublicInstallation_def Let_def i [OF that] GetTelemetryPreference_def some_or_def split: option.splits)
    then show ?thesis by (fastforce simp: Register_def Let_def split: option.splits sum.splits)
  qed
  from pref refused blocked resp show ?thesis by auto
qed

section \<open>Witnesses\<close>

definition sample_broker :: "Signer \<Rightarrow> Broker" where
  "sample_broker s = \<lparr>ib_lib = sample_lib, ib_hmac = (\<lambda>_ _. replicate 32 (CHR 0x11)), ib_signer = s, ib_pairwise = \<lparr>secret = ''s''\<rparr>,
     ib_config = \<lparr>bc_Products = [(''pict'', \<lparr>pr_Audience = ''m'', pr_AdditionalPolicies = []\<rparr>)], bc_RegistrationProducts = [''pict''],
       bc_PolicyVersion = ''p'', bc_RefreshTTL = 24 * hour\<rparr>\<rparr>"

definition sample_register :: RegisterInput where
  "sample_register = \<lparr>gi_RequestID = sample_uuid, gi_ProductID = ''pict'', gi_Platform = ''web'', gi_Preference = ''allowed'', gi_Policy = ''p'',
     gi_RecordedAt = second\<rparr>"

abbreviation sample_key :: string where "sample_key \<equiv> replicate 64 CHR ''1''"
abbreviation sample_root :: string where "sample_root \<equiv> ''11111111-1111-4111-8111-111111111111''"

lemma sample_broker_made:
  "broker_New sample_lib (\<lambda>_ _. replicate 32 (CHR 0x11)) s \<lparr>secret = ''s''\<rparr> (ib_config (sample_broker s)) = Inr (sample_broker s)"
  by (simp add: broker_New_def sample_broker_def duration_defs sample_product_valid)

lemma sample_pairwise: "pairwise_Subject (ib_hmac (sample_broker s)) g p a k r = sample_key"
proof -
  have "hex_encode (replicate n (CHR 0x11)) = replicate (2 * n) CHR ''1''" for n
    by (induction n) (simp_all add: hex_digit_def char_of_def bit_0)
  from this [of 32] show ?thesis by (simp add: pairwise_Subject_def sample_broker_def)
qed

lemma sample_registrationID: "registrationID (sample_broker s) input a = sample_root"
  by (simp add: registrationID_def sample_pairwise Let_def numeral_eq_Suc)

lemma sample_root_valid: "ValidUUID sample_root"
  by (simp add: ValidUUID_def matches_def uuid_pattern_unfold to_lower_def lower_char_def char_class_defs Let_def)

lemma sample_broker_signs:
  "\<exists>encoded. SignRefresh sample_lib old_signer second sample_uuid ''pict'' sample_key ''p'' (24 * hour) = Inr (encoded, second + 24 * hour)"
  "\<exists>access. issueAccess (sample_broker old_signer) second sample_uuid ''pict'' ''m'' sample_key = Inr access"
proof -
  have "\<exists>encoded. signPayload sample_lib old_signer (claims_members \<lparr>tc_Issuer = ''i'', tc_Subject = sample_key, tc_Audience = audience, tc_Product = ''pict'',
    tc_SubjectType = ''installation'', tc_Scopes = [scope], tc_PersonKey = None, tc_OrgKey = None, tc_PolicyVersion = policy,
    tc_IssuedAt = 1, tc_ExpiresAt = until, tc_TokenID = sample_uuid\<rparr>) = Inr encoded"
    if "0 < until" "length (bits (nat until)) \<le> 17" "length policy \<le> 1" "length audience \<le> 100" "length scope \<le> 100" for audience scope policy until
    by (rule sample_signs) (use that in \<open>auto simp: sample_lib_def length_hex_words header_members_def claims_members_def pointer_member_def old_signer_def
      scopes_json_def bits.simps [of "Suc 0"] bits.simps [of 0]\<close>)
  note sign = this
  have n: "length (bits 86401) \<le> 17" "length (bits 61) \<le> 17" by (simp_all add: bits.simps)
  show "\<exists>encoded. SignRefresh sample_lib old_signer second sample_uuid ''pict'' sample_key ''p'' (24 * hour) = Inr (encoded, second + 24 * hour)"
    using sign [of 86401 "''p''" RefreshAudience RefreshScope] n
    by (auto simp: SignRefresh_def signClaims_def refresh_input_def unix_def Let_def token_constants old_signer_def duration_defs)
  show "\<exists>access. issueAccess (sample_broker old_signer) second sample_uuid ''pict'' ''m'' sample_key = Inr access"
    using sign [of 61 "''''" "''m''" "''telemetry:write''"] n
    by (auto simp: issueAccess_def sample_broker_def SignClaims_def signClaims_def unix_def Let_def old_signer_def duration_defs)
qed

lemma register_on_empty:
  "validPublicInstallationConsent input \<Longrightarrow> \<exists>inst d'. RegisterPublicInstallation pid now input empty_db = Inr (inst, d') \<and>
     c_id ` set (consents d') \<subseteq> {cs_ID (pir_Consent input)} \<and> ob_id ` set (outbox_events d') \<subseteq> {pir_SuppressionID input}"
  by (auto simp: RegisterPublicInstallation_def validPublicInstallationConsent_def create_public_installation_def subject_record_defs insert_alias_def
      insert_row_eval empty_db_def Let_def split: if_splits)

lemma sample_registered:
  "\<exists>r d'. Register (sample_broker old_signer) (\<lambda>_. second) (\<lambda>_. sample_uuid) sample_register empty_db = (Inr r, d') \<and>
     rn_RefreshExpires r = second + 24 * hour \<and> rn_InstallationKey r = sample_key \<and> db_keys d' \<and>
     c_id ` set (consents d') \<subseteq> {sample_uuid} \<and> ob_id ` set (outbox_events d') \<subseteq> {sample_uuid}"
proof -
  let ?b = "sample_broker old_signer"
  have in_us: "trunc_us second = second" by (simp add: trunc_us_def second_def)
  have req: "pir_Consent (registration_request ?b (\<lambda>_. sample_uuid) ''m'' sample_register) =
      \<lparr>cs_ID = sample_uuid, cs_Subject = \<lparr>su_Kind = ''installation'', su_ID = sample_root\<rparr>, cs_ProductID = ''pict'', cs_ConsentType = ''telemetry'',
        cs_PolicyVersion = ''p'', cs_Status = ''granted'', cs_RecordedAt = second\<rparr>"
    "pir_SuppressionID (registration_request ?b (\<lambda>_. sample_uuid) ''m'' sample_register) = sample_uuid"
    by (simp_all add: registration_request_def Let_def sample_register_def sample_registrationID)
  have valid: "validPublicInstallationConsent (registration_request ?b (\<lambda>_. sample_uuid) ''m'' sample_register)"
    by (simp add: validPublicInstallationConsent_def req sample_registrationID sample_root_valid)
      (simp add: sample_register_def sample_product_valid is_zero_def zero_time_def duration_defs)
  obtain inst d' where store: "RegisterPublicInstallation sample_uuid second (registration_request ?b (\<lambda>_. sample_uuid) ''m'' sample_register) empty_db = Inr (inst, d')"
    and ids: "c_id ` set (consents d') \<subseteq> {sample_uuid}" "ob_id ` set (outbox_events d') \<subseteq> {sample_uuid}"
    using register_on_empty [OF valid, unfolded req, of sample_uuid second] by auto
  have "db_keys d'" using RegisterPublicInstallation_keys [of empty_db] store by (auto simp: yields_def db_keys_empty)
  moreover from sample_broker_signs obtain encoded access where sign:
    "SignRefresh sample_lib old_signer second sample_uuid ''pict'' sample_key ''p'' (24 * hour) = Inr (encoded, second + 24 * hour)"
    "issueAccess ?b second sample_uuid ''pict'' ''m'' sample_key = Inr access" by blast
  moreover have "sample_register\<lparr>gi_RecordedAt := trunc_us (gi_RecordedAt sample_register)\<rparr> = sample_register" by (simp add: sample_register_def in_us)
  moreover have "validRegistration ?b second \<lparr>pr_Audience = ''m'', pr_AdditionalPolicies = []\<rparr> ''allowed'' ''p'' second"
    by (simp add: validRegistration_def sample_broker_def is_zero_def zero_time_def duration_defs)
  moreover have "bc_Products (ib_config ?b) = [(''pict'', \<lparr>pr_Audience = ''m'', pr_AdditionalPolicies = []\<rparr>)]" "bc_RegistrationProducts (ib_config ?b) = [''pict'']"
    "bc_RefreshTTL (ib_config ?b) = 24 * hour" "ib_lib ?b = sample_lib" "ib_signer ?b = old_signer" by (simp_all add: sample_broker_def)
  moreover have "gi_ProductID sample_register = ''pict''" "gi_RequestID sample_register = sample_uuid" "validPlatform (gi_Platform sample_register)"
    "gi_Preference sample_register = ''allowed''" "gi_Policy sample_register = ''p''" "gi_RecordedAt sample_register = second"
    by (simp_all add: sample_register_def validPlatform_def)
  ultimately show ?thesis using store ids by (simp add: Register_def Let_def sample_pairwise)
qed

theorem register_then_refresh_witness:
  "\<exists>r d' c. Register (sample_broker old_signer) (\<lambda>_. second) (\<lambda>_. sample_uuid) sample_register empty_db = (Inr r, d') \<and>
     AuthenticateInstallation (sample_broker new_signer) hour (\<lambda>_. d') (rn_RefreshToken r) = Inr c \<and> ic_InstallationKey c = sample_key"
proof -
  from sample_registered obtain r d' where r: "Register (sample_broker old_signer) (\<lambda>_. second) (\<lambda>_. sample_uuid) sample_register empty_db = (Inr r, d')"
    "rn_RefreshExpires r = second + 24 * hour" "rn_InstallationKey r = sample_key" by blast
  have s': "(sample_broker old_signer)\<lparr>ib_signer := new_signer\<rparr> = sample_broker new_signer" by (simp add: sample_broker_def)
  have t: "list_all utf8_valid [''k'', ''i'', gi_Policy sample_register, sample_uuid]" "length (gi_Policy sample_register) \<le> 100"
    "\<bar>unix second\<bar> < 2 ^ 62" "second \<le> hour" "unix hour < unix (second + 24 * hour)"
    by (simp_all add: sample_register_def unix_def duration_defs)
  from register_then_refresh [where clock' = "\<lambda>_. hour", OF r(1) _ sample_broker_made _ sample_lib_sound sample_rings(1-5) t(1-4)] t(5) r s'
  show ?thesis by (fastforce simp: empty_db_def)
qed

theorem denial_is_final_witness:
  "\<exists>r d resp d' id. Register (sample_broker old_signer) (\<lambda>_. second) (\<lambda>_. sample_uuid) sample_register empty_db = (Inr r, d) \<and>
     SetPreference (sample_broker new_signer) (\<lambda>_. hour) (\<lambda>_. ''f'') (\<lambda>_. d) (rn_RefreshToken r)
       \<lparr>pf_Preference = ''denied'', pf_PolicyVersion = ''p'', pf_RecordedAt = minute\<rparr> d = Inr (resp, d') \<and>
     GetTelemetryPreference d' \<lparr>su_Kind = ''installation'', su_ID = id\<rparr> (ps_Product resp) = Inr \<lparr>tpv_Preference = ''denied'', tpv_RecordedAt = minute\<rparr>"
proof -
  from sample_registered obtain r d where r: "Register (sample_broker old_signer) (\<lambda>_. second) (\<lambda>_. sample_uuid) sample_register empty_db = (Inr r, d)"
    "rn_RefreshExpires r = second + 24 * hour" "rn_InstallationKey r = sample_key" and keys: "db_keys d"
    and ids: "c_id ` set (consents d) \<subseteq> {sample_uuid}" "ob_id ` set (outbox_events d) \<subseteq> {sample_uuid}" by blast
  have s': "(sample_broker old_signer)\<lparr>ib_signer := new_signer\<rparr> = sample_broker new_signer" by (simp add: sample_broker_def)
  have t: "list_all utf8_valid [''k'', ''i'', gi_Policy sample_register, sample_uuid]" "length (gi_Policy sample_register) \<le> 100"
    "\<bar>unix second\<bar> < 2 ^ 62" "second \<le> hour" "unix hour < unix (second + 24 * hour)"
    by (simp_all add: sample_register_def unix_def duration_defs)
  let ?in = "\<lparr>pf_Preference = ''denied'', pf_PolicyVersion = ''p'', pf_RecordedAt = minute\<rparr>"
  from registered_authenticates [where now' = hour, OF r(1) _ sample_broker_made _ sample_lib_sound sample_rings(1-5) t(1-4)] t(5) r s'
  obtain a where auth: "authenticate (sample_broker new_signer) hour (\<lambda>_. d) (rn_RefreshToken r) = Inr a" "an_policyVersion a = ''p''"
    and pref: "GetTelemetryPreference d \<lparr>su_Kind = ''installation'', su_ID = ra_SubjectID (an_alias a)\<rparr> (an_productID a) =
      Inr \<lparr>tpv_Preference = ''allowed'', tpv_RecordedAt = trunc_us second\<rparr>"
    by (fastforce simp: empty_db_def Let_def sample_register_def)
  have "\<exists>d'. DenyPublicInstallation hour (denial_of a (\<lambda>_. ''f'') ?in) d = Inr (minute, d')"
  proof -
    let ?k = "preference_key \<lparr>su_Kind = ''installation'', su_ID = ra_SubjectID (an_alias a)\<rparr> (an_productID a)"
    obtain row where row: "tfind tp_key ?k (telemetry_preferences d) = Some row" "tp_preference row = ''allowed''" "tp_recorded_at row = trunc_us second"
      using pref by (auto simp: GetTelemetryPreference_def)
    have "validateSubjectWith d \<lparr>su_Kind = ''installation'', su_ID = ra_SubjectID (an_alias a)\<rparr> (an_productID a) = Inr ()"
      using authenticate_Inr(4) [OF auth(1)] by (auto simp: ResolveTokenSubject_def validateSubjectWith_def split: if_splits)
    moreover have "''f'' \<notin> c_id ` set (consents d)" "''f'' \<notin> ob_id ` set (outbox_events d)"
      using ids by auto
    moreover have "trunc_us second < minute" by (simp add: trunc_us_def duration_defs)
    moreover have "uniq tp_key (telemetry_preferences d)" using keys by (rule table_uniq)
    ultimately show ?thesis
      using row by (auto simp: DenyPublicInstallation_def denial_of_def Let_def subject_record_defs insert_row_eval update_preference_Inr)
  qed
  then obtain d' where deny: "DenyPublicInstallation hour (denial_of a (\<lambda>_. ''f'') ?in) d = Inr (minute, d')" ..
  have "validDenial hour ''p'' minute" by (simp add: validDenial_def is_zero_def zero_time_def duration_defs)
  moreover have "?in\<lparr>pf_RecordedAt := trunc_us (pf_RecordedAt ?in)\<rparr> = ?in" by (simp add: trunc_us_def duration_defs)
  ultimately obtain resp where set: "SetPreference (sample_broker new_signer) (\<lambda>_. hour) (\<lambda>_. ''f'') (\<lambda>_. d) (rn_RefreshToken r) ?in d = Inr (resp, d')"
    "ps_RecordedAt resp = minute"
    using auth deny by (auto simp: SetPreference_def Let_def)
  from denial_is_final [OF set(1) keys] set r(1) show ?thesis by auto
qed

end
