(* ===== verification/Account_Mail.thy ===== *)
theory Account_Mail
  imports Email_Address
begin

text \<open>
  The sender of transactional mail, \<^verbatim>\<open>internal/accountmail/smtp.go\<close>: the checks of a
  message before it is sent, the order of the SMTP exchange and the classification of its failures,
  on which the delivery worker decides whether a message may be sent again.  What the
  server and the network answer at each step, the split of the address into host and port, the
  parsing of mailboxes and the encoding of the text are parameters.
\<close>

section \<open>Errors\<close>

text \<open>
  A cause is an SMTP reply with a code (\<^verbatim>\<open>textproto.Error\<close>) or anything else; \<^verbatim>\<open>errors.As\<close>
  finds it through the delivery error that wraps it.
\<close>

datatype cause = Reply int | Transport

datatype mail_error = DeliveryError (de_Stage: string) (de_Uncertain: bool) (de_cause: cause) | OtherError cause

definition mail_Error :: "mail_error \<Rightarrow> string" where
  "mail_Error e = (case e of
     DeliveryError st u c \<Rightarrow>
       if st \<in> set [''config'', ''connect'', ''greet'', ''tls'', ''auth'', ''mail'', ''recipient'', ''data'', ''write'', ''accept'']
       then ''account mail: '' @ st @ '' failed'' else ''account mail: delivery failed''
   | OtherError _ \<Rightarrow> '''')"

fun Unwrap :: "mail_error \<Rightarrow> cause" where
  "Unwrap (DeliveryError _ _ c) = c"
| "Unwrap (OtherError c) = c"

definition Uncertain :: "mail_error option \<Rightarrow> bool" where
  "Uncertain err = (case err of None \<Rightarrow> False | Some (DeliveryError _ u _) \<Rightarrow> u | Some (OtherError _) \<Rightarrow> True)"

definition Temporary :: "mail_error option \<Rightarrow> bool" where
  "Temporary err = (case err of None \<Rightarrow> False
     | Some e \<Rightarrow> if Uncertain err then False
         else (case Unwrap e of Reply n \<Rightarrow> n \<ge> 400 \<and> n < 500 | Transport \<Rightarrow> False))"

definition dataError :: "string \<Rightarrow> cause \<Rightarrow> mail_error" where
  "dataError st c = (let definite = (case c of Reply n \<Rightarrow> n \<ge> 400 \<and> n \<le> 599 | Transport \<Rightarrow> False)
     in DeliveryError st (\<not> definite) c)"

section \<open>Sending\<close>

record SMTP =
  sm_Addr :: string
  sm_User :: string
  sm_Password :: string
  sm_From :: string

text \<open>How each step of one attempt goes: \<open>None\<close> is success.\<close>

record exchange =
  ex_connect :: "cause option"
  ex_greet :: "cause option"
  ex_tls :: "cause option"
  ex_auth :: "cause option"
  ex_mail :: "cause option"
  ex_rcpt :: "cause option"
  ex_data :: "cause option"
  ex_write :: "cause option"
  ex_close :: "cause option"

text \<open>
  \<open>ph_split\<close> is \<^verbatim>\<open>net.SplitHostPort\<close>; \<open>ph_mailbox a\<close> the name and address that
  \<^verbatim>\<open>mail.ParseAddress\<close> reads from \<open>a\<close>; \<open>ph_runes\<close> counts runes.
\<close>

record mail_parts =
  ph_split :: "string \<Rightarrow> (string \<times> string) option"
  ph_mailbox :: "string \<Rightarrow> (string \<times> string) option"
  ph_runes :: "string \<Rightarrow> nat"

definition valid_mailbox :: "mail_parts \<Rightarrow> string \<Rightarrow> bool" where
  "valid_mailbox m address \<longleftrightarrow> \<not> has_control address \<and> ph_mailbox m address = Some ('''', address)"

definition prepare :: "mail_parts \<Rightarrow> SMTP \<Rightarrow> string \<Rightarrow> string \<Rightarrow> string \<Rightarrow> string option" where
  "prepare m s to subject body =
     (case ph_split m (sm_Addr s) of
        None \<Rightarrow> None
      | Some (host, port) \<Rightarrow>
          if host = '''' \<or> port = '''' then None
          else if (sm_User s = '''') \<noteq> (sm_Password s = '''') then None
          else if \<not> list_all (valid_mailbox m) [sm_From s, to] then None
          else if \<not> utf8_valid subject \<or> subject = '''' \<or> ph_runes m subject > 200 \<or> {CHR 0x0D, CHR 0x0A, NUL} \<inter> set subject \<noteq> {} then None
          else if \<not> utf8_valid body \<or> length body > 64 * 1024 then None
          else Some host)"

definition submit :: "exchange \<Rightarrow> mail_error option" where
  "submit x =
     (case ex_mail x of Some c \<Rightarrow> Some (DeliveryError ''mail'' False c)
      | None \<Rightarrow> (case ex_rcpt x of Some c \<Rightarrow> Some (DeliveryError ''recipient'' False c)
      | None \<Rightarrow> (case ex_data x of Some c \<Rightarrow> Some (DeliveryError ''data'' False c)
      | None \<Rightarrow> (case ex_write x of Some c \<Rightarrow> Some (dataError ''write'' c)
      | None \<Rightarrow> (case ex_close x of Some c \<Rightarrow> Some (dataError ''accept'' c)
      | None \<Rightarrow> None)))))"

definition Send :: "mail_parts \<Rightarrow> SMTP \<Rightarrow> exchange \<Rightarrow> string \<Rightarrow> string \<Rightarrow> string \<Rightarrow> mail_error option" where
  "Send m s x to subject body =
     (case prepare m s to subject body of
        None \<Rightarrow> Some (DeliveryError ''config'' False Transport)
      | Some host \<Rightarrow>
          (case ex_connect x of Some c \<Rightarrow> Some (DeliveryError ''connect'' False c)
           | None \<Rightarrow> (case ex_greet x of Some c \<Rightarrow> Some (DeliveryError ''greet'' False c)
           | None \<Rightarrow> (case ex_tls x of Some c \<Rightarrow> Some (DeliveryError ''tls'' False c)
           | None \<Rightarrow>
               if sm_User s \<noteq> '''' \<and> ex_auth x \<noteq> None then Some (DeliveryError ''auth'' False (the (ex_auth x)))
               else submit x))))"

section \<open>What a classification promises\<close>

text \<open>The server may hold the message: its transmission began and was not refused by a reply with an error code.\<close>

definition maybe_accepted :: "exchange \<Rightarrow> bool" where
  "maybe_accepted x \<longleftrightarrow> ex_mail x = None \<and> ex_rcpt x = None \<and> ex_data x = None \<and>
     (\<forall>c. ex_write x = Some c \<or> ex_write x = None \<and> ex_close x = Some c \<longrightarrow> (\<forall>n. c = Reply n \<longrightarrow> \<not> (400 \<le> n \<and> n \<le> 599)))"

lemma retry_only_refused:
  assumes "Temporary (Send m s x to subject body)"
  shows "\<not> Uncertain (Send m s x to subject body) \<and>
    (prepare m s to subject body \<noteq> None \<and> ex_connect x = None \<and> ex_greet x = None \<and> ex_tls x = None \<and>
      (sm_User s \<noteq> '''' \<longrightarrow> ex_auth x = None) \<longrightarrow> \<not> maybe_accepted x)"
  using assms
  by (auto simp: Temporary_def Uncertain_def Send_def submit_def dataError_def maybe_accepted_def Let_def split: option.splits if_splits cause.splits mail_error.splits)

lemma uncertain_iff_unknown:
  assumes "prepare m s to subject body = Some host" "ex_connect x = None" "ex_greet x = None" "ex_tls x = None" "ex_auth x = None"
  shows "Uncertain (Send m s x to subject body) \<or> Send m s x to subject body = None \<longleftrightarrow> maybe_accepted x"
  using assms
  by (auto simp: Uncertain_def Send_def submit_def dataError_def maybe_accepted_def Let_def split: option.splits cause.splits)

end
