(* ===== verification/Account_Broker.thy ===== *)
theory Account_Broker
  imports Installation_Broker Identity_Service Completion_Store Account_Mail
begin

text \<open>
  The broker of public accounts, \<^verbatim>\<open>internal/accountbroker\<close>: the request for a registration
  challenge (\<^verbatim>\<open>broker.go\<close>), the verification of its code and the device sessions
  (\<^verbatim>\<open>account_sessions.go\<close>), the mailing of the code (\<^verbatim>\<open>delivery.go\<close>,
  \<^verbatim>\<open>delivery_worker.go\<close>) and the checks of the inputs (\<^verbatim>\<open>validation.go\<close>).
  \<open>clock k\<close> is the \<open>k\<close>-th reading of the clock in a call, \<open>view k\<close> the database its \<open>k\<close>-th
  query sees, and \<open>others k\<close> what other requests commit before its \<open>k\<close>-th write.
\<close>

section \<open>Types\<close>

definition ContractVersion :: int where "ContractVersion = 1"
definition RegistrationPurpose :: string where "RegistrationPurpose = ''product_registration''"

record ChallengeInput =
  ci_RequestID :: string
  ci_ProductID :: string
  ci_Email :: string
  ci_Purpose :: string
  ci_ClientNonce :: string
  ci_HolderRole :: string

record ChallengeResponse =
  cr_ContractVersion :: int
  cr_ChallengeID :: string
  cr_Status :: string
  cr_ExpiresAt :: time
  cr_ResendAfter :: time

record VerifyInput =
  vi_ProductID :: string
  vi_Code :: string
  vi_ClientNonce :: string

record ProfileInput =
  pi_Version :: uint64
  pi_HolderRole :: string
  pi_Country :: string
  pi_Region :: string

record Profile =
  po_Product :: string
  po_AccountKey :: string
  po_Version :: uint64
  po_HolderRole :: string
  po_Country :: string
  po_Region :: string
  po_UpdatedAt :: time

record AccountRegistration =
  ar_ContractVersion :: int
  ar_Product :: string
  ar_AccountKey :: string
  ar_InstallationKey :: string
  ar_AccountProfile :: Profile
  ar_AccountToken :: AccessToken
  ar_RefreshToken :: string
  ar_RefreshExpiresAt :: time
  ar_RegistrationReceipt :: string
  ar_MetricsToken :: "AccessToken option"

record AccountConfig =
  gc_Products :: "(string \<times> Product) list"
  gc_RegistrationProducts :: "string list"
  gc_RegistrationPolicyVersion :: string
  gc_OTPKeyID :: string
  gc_OTPKey :: bytes
  gc_DailyLimit :: uint64

text \<open>
  The broker with the services it is given: the installation broker and the identity service,
  the envelope (cipher and key provider), the signer and the pairwise generator.  The token
  library, the two hash functions and the cipher are parameters.
\<close>

record Dependencies =
  ab_installations :: Broker
  ab_identity :: IdentityService
  ab_gcm :: aead
  ab_provider :: KeyProvider
  ab_lib :: token_lib
  ab_signer :: Signer
  ab_hmac :: hmac
  ab_pairwise :: Generator
  ab_sha256 :: "bytes \<Rightarrow> bytes"

record AccountBroker = Dependencies +
  ab_products :: "(string \<times> string) list"
  ab_allowed :: "string list"
  ab_policy :: string
  ab_otpKeyID :: string
  ab_otpKey :: bytes
  ab_dailyLimit :: uint64

definition validLabel :: "string \<Rightarrow> bool" where
  "validLabel value \<longleftrightarrow> length value \<ge> 1 \<and> length value \<le> 100 \<and> trim_space value = value \<and> utf8_valid value \<and>
     CHR ''@'' \<notin> set value \<and> \<not> has_control value"

definition account_New :: "Dependencies \<Rightarrow> AccountConfig \<Rightarrow> AccountBroker result" where
  "account_New deps config =
     (if gc_Products config = [] \<or> \<not> validLabel (gc_RegistrationPolicyVersion config) \<or> \<not> validLabel (gc_OTPKeyID config) \<or>
         length (gc_OTPKey config) < 32 \<or> length (gc_OTPKey config) > 128 \<or> gc_DailyLimit config > 10000
      then Inl (ErrMessage ''invalid public account broker configuration'')
      else if list_ex (\<lambda>(i, product). \<not> ValidProductID i \<or> pr_Audience product = '''') (gc_Products config)
      then Inl (ErrMessage ''invalid public account product registry'')
      else if list_ex (\<lambda>i. map_of (gc_Products config) i = None) (gc_RegistrationProducts config)
      then Inl (ErrMessage ''public account registration references an unknown product'')
      else Inr (Dependencies.extend deps (AccountBroker.fields
        (map (\<lambda>(i, product). (i, pr_Audience product)) (gc_Products config))
        (gc_RegistrationProducts config) (gc_RegistrationPolicyVersion config) (gc_OTPKeyID config) (gc_OTPKey config)
        (if gc_DailyLimit config = 0 then 200 else gc_DailyLimit config))))"

section \<open>Checks of the inputs\<close>

text \<open>
  A nonce is the canonical base64 text of 32 bytes.  The comparison with the encoding refuses
  the texts that the strict decoder refuses beyond the lenient one.
\<close>

definition validClientNonce :: "string \<Rightarrow> bool" where
  "validClientNonce nonce =
     (if length nonce \<noteq> 43 then False
      else case base64_decode nonce of None \<Rightarrow> False | Some decoded \<Rightarrow> length decoded = 32 \<and> rawBase64 decoded = nonce)"

definition normalized_challenge :: "mail_lib \<Rightarrow> ChallengeInput \<Rightarrow> ChallengeInput result" where
  "normalized_challenge mail input0 =
     (let input = input0\<lparr>ci_RequestID := to_lower (ci_RequestID input0)\<rparr> in
      if \<not> ValidUUID (ci_RequestID input) \<or> ci_RequestID input ! 14 \<noteq> CHR ''4'' \<or> \<not> ValidProductID (ci_ProductID input) \<or>
         ci_Purpose input \<noteq> RegistrationPurpose \<or> \<not> ValidHolderRole (ci_HolderRole input) \<or> \<not> validClientNonce (ci_ClientNonce input)
      then Inl ErrInvalid
      else case NormalizeEmail mail (ci_Email input) of Inl _ \<Rightarrow> Inl ErrInvalid | Inr email \<Rightarrow> Inr (input\<lparr>ci_Email := email\<rparr>))"

definition valid_verify :: "VerifyInput \<Rightarrow> bool" where
  "valid_verify input \<longleftrightarrow> ValidProductID (vi_ProductID input) \<and> validClientNonce (vi_ClientNonce input) \<and> length (vi_Code input) = 6 \<and>
     list_all is_digit (vi_Code input)"

definition normalized_profile :: "ProfileInput \<Rightarrow> ProfileInput result" where
  "normalized_profile input =
     (if pi_Version input = - 1 \<or> \<not> ValidHolderRole (pi_HolderRole input) then Inl ErrInvalid
      else rbind (NormalizeDeclaredRegion (pi_Country input) (pi_Region input)) (\<lambda>(country, region).
        Inr (input\<lparr>pi_Country := country, pi_Region := region\<rparr>)))"

section \<open>Requesting a challenge\<close>

definition account_digest :: "AccountBroker \<Rightarrow> string \<Rightarrow> string list \<Rightarrow> bytes" where
  "account_digest b purpose values =
     ab_hmac b (ab_otpKey b) (''linka-public-product-account-v1'' @ [NUL] @ purpose @ [NUL] @ join_nul values)"

definition otpAAD :: "string \<Rightarrow> string \<Rightarrow> bytes" where
  "otpAAD i product = join_nul [''public-email-otp-v1'', product, i]"

definition nonce_digest :: "AccountBroker \<Rightarrow> string \<Rightarrow> string \<Rightarrow> string \<Rightarrow> bytes" where
  "nonce_digest b product installationID nonce = account_digest b ''nonce'' [product, installationID, nonce]"

definition code_digest :: "AccountBroker \<Rightarrow> string \<Rightarrow> string \<Rightarrow> string \<Rightarrow> bytes \<Rightarrow> bytes \<Rightarrow> string \<Rightarrow> bytes" where
  "code_digest b product installationID i nonce index otp =
     account_digest b ''code'' [product, installationID, i, RegistrationPurpose, hex_encode nonce, hex_encode index, otp]"

definition request_fingerprint_of :: "AccountBroker \<Rightarrow> ChallengeInput \<Rightarrow> string \<Rightarrow> bytes" where
  "request_fingerprint_of b input installationID =
     account_digest b ''request'' [ci_RequestID input, ci_ProductID input, installationID, ci_Purpose input, ci_ClientNonce input,
       ci_Email input, ci_HolderRole input]"

definition authenticateInstallation :: "AccountBroker \<Rightarrow> time \<Rightarrow> (nat \<Rightarrow> db) \<Rightarrow> string \<Rightarrow> string \<Rightarrow> InstallationContext result" where
  "authenticateInstallation b now view credential product =
     (if product \<notin> set (ab_allowed b) then Inl ErrInvalid
      else rbind (AuthenticateInstallation (ab_installations b) now view credential) (\<lambda>installation.
        if ic_ProductID installation \<noteq> product \<or> \<not> ValidUUID (ic_InstallationID installation) \<or>
           \<not> pairwise_Valid (ic_InstallationKey installation) \<or>
           ic_TelemetryAudience installation \<noteq> (case map_of (ab_products b) product of None \<Rightarrow> '''' | Some a \<Rightarrow> a)
        then Inl ErrInvalidCredential else Inr installation))"

definition challengeResponse :: "public_email_challenge \<Rightarrow> ChallengeResponse" where
  "challengeResponse c =
     \<lparr>cr_ContractVersion = ContractVersion, cr_ChallengeID = pc_id c,
      cr_Status = (if pc_state c = Requested then ''queued''
        else if pc_state c = Delivering \<or> pc_state c = Delivered \<or> pc_state c = DeliveryUncertain then ''pending''
        else if pc_state c = Consumed then ''verified'' else challenge_state_text (pc_state c)),
      cr_ExpiresAt = pc_expires_at c, cr_ResendAfter = pc_created_at c + minute\<rparr>"

definition new_code :: "nat \<Rightarrow> string" where "new_code number = padded 6 (int number)"

definition challenge_of ::
  "AccountBroker \<Rightarrow> time \<Rightarrow> ChallengeInput \<Rightarrow> string \<Rightarrow> string \<Rightarrow> Ciphertext \<Rightarrow> EmailVerification \<Rightarrow> public_email_challenge" where
  "challenge_of b now input installationID otp cipher v =
     (let nonceHash = nonce_digest b (ci_ProductID input) installationID (ci_ClientNonce input) in
      \<lparr>pc_id = ci_RequestID input, pc_product_id = ci_ProductID input, pc_installation_id = installationID, pc_purpose = RegistrationPurpose,
       pc_holder_role = ci_HolderRole input, pc_request_fingerprint = request_fingerprint_of b input installationID, pc_nonce_hash = nonceHash,
       pc_code_hash = code_digest b (ci_ProductID input) installationID (ci_RequestID input) nonceHash (v_BlindIndex v) otp,
       pc_otp_key_id = ab_otpKeyID b, pc_code = cipher, pc_blind_index_version = of_int (v_BlindIndexVersion v), pc_blind_index = v_BlindIndex v,
       pc_state = Requested, pc_attempts = 0, pc_mail_attempts = 0, pc_mail_available_at = now, pc_mail_claim_token = None,
       pc_mail_claim_until = None, pc_created_at = now, pc_updated_at = now, pc_expires_at = v_ExpiresAt v, pc_verified_at = None,
       pc_consumed_at = None, pc_version = 1\<rparr>)"

text \<open>The random choices of a request: those of the identity service, the number drawn for the code and the draw of its envelope.\<close>

record challenge_draws =
  cd_service :: draws
  cd_number :: nat
  cd_cipher :: draw

definition Begin ::
  "AccountBroker \<Rightarrow> (nat \<Rightarrow> time) \<Rightarrow> challenge_draws \<Rightarrow> (nat \<Rightarrow> db) \<Rightarrow> string \<Rightarrow> ChallengeInput \<Rightarrow> db \<Rightarrow> (ChallengeResponse \<times> db) result" where
  "Begin b clock rnd view credential input0 d =
     rbind (normalized_challenge (is_mail (ab_identity b)) input0) (\<lambda>input.
     rbind (authenticateInstallation b (clock 0) view credential (ci_ProductID input)) (\<lambda>installation.
     let inst = ic_InstallationID installation in
     case PublicEmailChallenge_read (view 2) (ci_RequestID input) of
       Inr existing \<Rightarrow>
         if pc_product_id existing \<noteq> ci_ProductID input \<or> pc_installation_id existing \<noteq> inst \<or>
            pc_request_fingerprint existing \<noteq> request_fingerprint_of b input inst
         then Inl ErrConflict else Inr (challengeResponse existing, d)
     | Inl e \<Rightarrow>
         if e \<noteq> ErrNotFound then Inl e
         else
           let now = trunc_us (clock 1) in
           rbind (PreparePublicVerification (ab_identity b) (clock 2) (cd_service rnd)
             \<lparr>pv_ID = ci_RequestID input, pv_ProductID = ci_ProductID input, pv_Email = ci_Email input, pv_InstallationID = inst,
              pv_ExpiresAt = now + PublicEmailQueueTTL\<rparr>) (\<lambda>verification.
           let otp = new_code (cd_number rnd) in
           rbind (Encrypt (ab_gcm b) (ab_provider b) (cd_cipher rnd) otp (otpAAD (ci_RequestID input) (ci_ProductID input))) (\<lambda>cipher.
           rbind (CreatePublicEmailChallenge (clock 3) (challenge_of b now input inst otp cipher verification) verification (ab_dailyLimit b) d) (\<lambda>((saved, _), d').
           Inr (challengeResponse saved, d'))))))"

section \<open>Sessions\<close>

definition refreshCapabilityHash :: "AccountBroker \<Rightarrow> string \<Rightarrow> bytes result" where
  "refreshCapabilityHash b raw =
     (if \<not> validClientNonce raw then Inl ErrAccountCredential
      else Inr (ab_sha256 b (''linka-account-refresh-v1'' @ [NUL] @ raw)))"

definition newRefreshCapability :: "AccountBroker \<Rightarrow> bytes \<Rightarrow> (string \<times> bytes) result" where
  "newRefreshCapability b random = (let raw = rawBase64 random in rbind (refreshCapabilityHash b raw) (\<lambda>hash. Inr (raw, hash)))"

definition publicProfile :: "product_account \<Rightarrow> string \<Rightarrow> Profile" where
  "publicProfile profile key =
     \<lparr>po_Product = pp_product_id profile, po_AccountKey = key, po_Version = pp_version profile, po_HolderRole = pp_holder_role profile,
      po_Country = pp_country profile, po_Region = pp_region profile, po_UpdatedAt = pp_updated_at profile\<rparr>"

definition product_audience :: "AccountBroker \<Rightarrow> string \<Rightarrow> string" where
  "product_audience b product = (case map_of (ab_products b) product of None \<Rightarrow> '''' | Some a \<Rightarrow> a)"

definition registration_key :: "AccountBroker \<Rightarrow> string \<Rightarrow> string \<Rightarrow> string" where
  "registration_key b product accountID = pairwise_Subject (ab_hmac b) (ab_pairwise b) product AccountAudience ''account'' accountID"

text \<open>\<open>now1\<close>, \<open>id1\<close> belong to the access token, \<open>now2\<close>, \<open>id2\<close> to the receipt.\<close>

definition registration ::
  "AccountBroker \<Rightarrow> time \<times> string \<Rightarrow> time \<times> string \<Rightarrow> account_session \<Rightarrow> product_account \<Rightarrow> string \<Rightarrow> AccountRegistration result" where
  "registration b access_draw receipt_draw session profile refresh =
     (if product_audience b (se_product_id session) = '''' \<or> \<not> ValidUUID (se_account_id session) \<or> \<not> ValidUUID (se_installation_id session) \<or>
         pp_account_id profile \<noteq> se_account_id session \<or> pp_product_id profile \<noteq> se_product_id session \<or> pp_status profile \<noteq> ''active'' \<or>
         \<not> ValidHolderRole (pp_holder_role profile)
      then Inl (ErrMessage ''invalid committed account session'')
      else
        let accountKey = registration_key b (se_product_id session) (se_account_id session);
            installationKey = pairwise_Subject (ab_hmac b) (ab_pairwise b) (se_product_id session) (product_audience b (se_product_id session))
              ''installation'' (se_installation_id session) in
        rbind (SignAccountAccess (ab_lib b) (ab_signer b) (fst access_draw) (snd access_draw)
          \<lparr>ai_Product = se_product_id session, ai_Subject = accountKey, ai_SessionID = se_id session, ai_TTL = 5 * minute\<rparr>) (\<lambda>(access, expires).
        rbind (SignRegistrationReceipt (ab_lib b) (ab_signer b) (fst receipt_draw) (snd receipt_draw)
          \<lparr>ri_Product = se_product_id session, ri_AccountKey = accountKey, ri_InstallationKey = installationKey, ri_HolderRole = pp_holder_role profile,
           ri_PolicyVersion = ab_policy b, ri_VerifiedAt = pp_verified_at profile\<rparr>) (\<lambda>receipt.
        Inr \<lparr>ar_ContractVersion = ContractVersion, ar_Product = se_product_id session, ar_AccountKey = accountKey, ar_InstallationKey = installationKey,
          ar_AccountProfile = publicProfile profile accountKey,
          ar_AccountToken = \<lparr>at_AccessToken = access, at_TokenType = ''Bearer'', at_ExpiresAt = expires\<rparr>,
          ar_RefreshToken = refresh, ar_RefreshExpiresAt = se_expires_at session, ar_RegistrationReceipt = receipt, ar_MetricsToken = None\<rparr>)))"

definition empty_identity :: NewEmailIdentity where
  "empty_identity = \<lparr>ni_ID = '''', ni_PersonID = '''', ni_AccountID = '''', ni_ProductID = '''', ni_Namespace = '''', ni_LinkageScope = '''',
     ni_ScopeKey = '''', ni_BlindIndexVersion = 0, ni_BlindIndex = [], ni_EncryptedEmail = empty_cipher, ni_AgeCategory = '''',
     ni_GuardianRelationship = None, ni_VerifiedAt = zero_time, ni_CreateAccount = False, ni_InstallationID = None\<rparr>"

definition completion_of :: "AccountBroker \<Rightarrow> string \<Rightarrow> VerifyInput \<Rightarrow> string \<Rightarrow> public_email_challenge \<Rightarrow> PublicEmailCompletion" where
  "completion_of b i input installationID c =
     (let nonce = nonce_digest b (vi_ProductID input) installationID (vi_ClientNonce input) in
      \<lparr>cm_ChallengeID = i, cm_ProductID = vi_ProductID input, cm_InstallationID = installationID, cm_OTPKeyID = ab_otpKeyID b,
       cm_NonceHash = nonce, cm_CodeHash = code_digest b (vi_ProductID input) installationID i nonce (pc_blind_index c) (vi_Code input),
       cm_Identity = empty_identity, cm_Indexes = [], cm_SessionID = '''', cm_RefreshHash = [], cm_RefreshExpiresAt = zero_time\<rparr>)"

record session_draws =
  sn_service :: draws
  sn_session :: string
  sn_random :: bytes
  sn_access :: string
  sn_receipt :: string

definition challenge_bound :: "AccountBroker \<Rightarrow> VerifyInput \<Rightarrow> string \<Rightarrow> public_email_challenge \<Rightarrow> bool" where
  "challenge_bound b input installationID c \<longleftrightarrow>
     pc_product_id c = vi_ProductID input \<and> pc_installation_id c = installationID \<and> pc_purpose c = RegistrationPurpose \<and>
     pc_otp_key_id c = ab_otpKeyID b \<and> pc_nonce_hash c = nonce_digest b (vi_ProductID input) installationID (vi_ClientNonce input)"

definition Verify ::
  "AccountBroker \<Rightarrow> (nat \<Rightarrow> time) \<Rightarrow> session_draws \<Rightarrow> (nat \<Rightarrow> db) \<Rightarrow> string \<Rightarrow> string \<Rightarrow> VerifyInput \<Rightarrow> db \<Rightarrow> AccountRegistration result \<times> db" where
  "Verify b clock rnd view credential id0 input d =
     (let i = to_lower id0 in
      if \<not> ValidUUID i \<or> \<not> valid_verify input then (Inl ErrInvalid, d)
      else case authenticateInstallation b (clock 0) view credential (vi_ProductID input) of
        Inl e \<Rightarrow> (Inl e, d)
      | Inr installation \<Rightarrow>
      (let inst = ic_InstallationID installation in
       case PublicEmailChallenge_read (view 2) i of
        Inl e \<Rightarrow> (Inl e, d)
      | Inr c \<Rightarrow>
          if \<not> challenge_bound b input inst c then (Inl ErrNotFound, d)
          else
            let completion = completion_of b i input inst c in
            if pc_code_hash c \<noteq> cm_CodeHash completion \<or> \<not> clock 1 < pc_expires_at c \<or>
               (pc_state c \<noteq> Delivering \<and> pc_state c \<noteq> Delivered \<and> pc_state c \<noteq> DeliveryUncertain)
            then (case CompletePublicEmailChallenge (clock 2) completion d of
                    (Inl e, d') \<Rightarrow> (Inl e, d') | (Inr _, d') \<Rightarrow> (Inl ErrNotFound, d'))
            else
              case EmailVerification_read (view 3) i of
                Inl e \<Rightarrow> (Inl e, d)
              | Inr verification \<Rightarrow>
                  let now = trunc_us (clock 2) in
                  case PreparePublicIdentity (ab_identity b) (clock 3) (sn_service rnd) verification now of
                    Inl e \<Rightarrow> (Inl e, d)
                  | Inr (identity, indexes) \<Rightarrow>
                      case newRefreshCapability b (sn_random rnd) of
                        Inl e \<Rightarrow> (Inl e, d)
                      | Inr (refresh, refreshHash) \<Rightarrow>
                          case CompletePublicEmailChallenge (clock 4)
                            (completion\<lparr>cm_Identity := identity, cm_Indexes := indexes, cm_SessionID := sn_session rnd, cm_RefreshHash := refreshHash,
                               cm_RefreshExpiresAt := now + 90 * 24 * hour\<rparr>) d of
                            (Inl e, d') \<Rightarrow> (Inl e, d')
                          | (Inr registered, d') \<Rightarrow>
                              (if se_product_id (rg_Session registered) \<noteq> vi_ProductID input \<or> se_installation_id (rg_Session registered) \<noteq> inst
                               then Inl (ErrMessage ''invalid committed registration context'')
                               else registration b (clock 5, sn_access rnd) (clock 6, sn_receipt rnd) (rg_Session registered) (rg_Account registered) refresh, d')))"

definition account_Refresh ::
  "AccountBroker \<Rightarrow> (nat \<Rightarrow> time) \<Rightarrow> session_draws \<Rightarrow> string \<Rightarrow> db \<Rightarrow> AccountRegistration result \<times> db" where
  "account_Refresh b clock rnd credential d =
     (case refreshCapabilityHash b credential of
        Inl e \<Rightarrow> (Inl e, d)
      | Inr oldHash \<Rightarrow>
          (case newRefreshCapability b (sn_random rnd) of
             Inl e \<Rightarrow> (Inl e, d)
           | Inr (fresh, freshHash) \<Rightarrow>
               (case RotatePublicAccountRefresh (clock 0) oldHash freshHash d of
                  (Inl e, d') \<Rightarrow> (if e = ErrNotFound then Inl ErrAccountCredential else Inl e, d')
                | (Inr (session, profile), d') \<Rightarrow> (registration b (clock 1, sn_access rnd) (clock 2, sn_receipt rnd) session profile fresh, d'))))"

definition account_Revoke :: "AccountBroker \<Rightarrow> (nat \<Rightarrow> time) \<Rightarrow> string \<Rightarrow> db \<Rightarrow> db result" where
  "account_Revoke b clock credential d =
     (case VerifyAccountAccess (ab_lib b) (ab_signer b) (clock 0) credential of
        Inl _ \<Rightarrow> Inl ErrAccountCredential
      | Inr claims \<Rightarrow>
          if product_audience b (ac_Product claims) = '''' then Inl ErrAccountCredential
          else RevokePublicAccountSession (clock 1) (ac_SessionID claims) (ac_Product claims) d)"

definition UpdateProfile ::
  "AccountBroker \<Rightarrow> (nat \<Rightarrow> time) \<Rightarrow> (nat \<Rightarrow> db) \<Rightarrow> string \<Rightarrow> ProfileInput \<Rightarrow> db \<Rightarrow> (Profile \<times> db) result" where
  "UpdateProfile b clock view credential input0 d =
     rbind (normalized_profile input0) (\<lambda>input.
     case VerifyAccountAccess (ab_lib b) (ab_signer b) (clock 0) credential of
       Inl _ \<Rightarrow> Inl ErrAccountCredential
     | Inr claims \<Rightarrow>
         if product_audience b (ac_Product claims) = '''' then Inl ErrAccountCredential
         else case AuthorizedPublicAccountSession (view 0) (ac_SessionID claims) (ac_Product claims) (clock 1) of
           Inl e \<Rightarrow> if e = ErrNotFound then Inl ErrAccountCredential else Inl e
         | Inr (session, _) \<Rightarrow>
             let expectedKey = registration_key b (ac_Product claims) (se_account_id session) in
             if expectedKey \<noteq> ac_Subject claims then Inl ErrAccountCredential
             else rbind (UpdatePublicAccountProfile (clock 2) (se_id session) (se_product_id session) (pi_Version input) (pi_HolderRole input)
                           (pi_Country input) (pi_Region input) d) (\<lambda>(profile, d').
               Inr (publicProfile profile expectedKey, d')))"

section \<open>Laws\<close>

lemma authenticateInstallation_Inr:
  assumes "authenticateInstallation b now view credential product = Inr installation"
  shows "ic_ProductID installation = product" "ValidUUID (ic_InstallationID installation)" "product \<in> set (ab_allowed b)"
    "AuthenticateInstallation (ab_installations b) now view credential = Inr installation"
  using assms by (auto simp: authenticateInstallation_def split: if_splits)

lemma normalized_challenge_Inr:
  assumes "normalized_challenge mail input0 = Inr input"
  shows "ci_RequestID input = to_lower (ci_RequestID input0)" "ValidUUID (ci_RequestID input)" "ci_ProductID input = ci_ProductID input0"
    "NormalizeEmail mail (ci_Email input0) = Inr (ci_Email input)" "ci_ClientNonce input = ci_ClientNonce input0" "ci_HolderRole input = ci_HolderRole input0"
    "ci_Purpose input = RegistrationPurpose"
  using assms by (auto simp: normalized_challenge_def Let_def split: if_splits sum.splits)

lemma challenge_of_fields [simp]:
  "pc_id (challenge_of b now input inst otp cipher v) = ci_RequestID input"
  "pc_product_id (challenge_of b now input inst otp cipher v) = ci_ProductID input"
  "pc_installation_id (challenge_of b now input inst otp cipher v) = inst"
  "pc_code (challenge_of b now input inst otp cipher v) = cipher"
  "pc_purpose (challenge_of b now input inst otp cipher v) = RegistrationPurpose"
  "pc_otp_key_id (challenge_of b now input inst otp cipher v) = ab_otpKeyID b"
  "pc_blind_index (challenge_of b now input inst otp cipher v) = v_BlindIndex v"
  "pc_nonce_hash (challenge_of b now input inst otp cipher v) = nonce_digest b (ci_ProductID input) inst (ci_ClientNonce input)"
  "pc_code_hash (challenge_of b now input inst otp cipher v) =
     code_digest b (ci_ProductID input) inst (ci_RequestID input) (nonce_digest b (ci_ProductID input) inst (ci_ClientNonce input)) (v_BlindIndex v) otp"
  by (simp_all add: challenge_of_def Let_def)

text \<open>A successful request for a new challenge stores the sealed code and the prepared verification.\<close>

lemma Begin_stores:
  assumes ok: "Begin b clock rnd view credential input0 d = Inr (resp, d')" and keys: "db_keys d"
    and new: "tfind pc_id (to_lower (ci_RequestID input0)) (public_email_challenges (view 2)) = None"
      "tfind pc_id (to_lower (ci_RequestID input0)) (public_email_challenges d) = None"
  obtains input inst v cipher where "normalized_challenge (is_mail (ab_identity b)) input0 = Inr input"
    "PreparePublicVerification (ab_identity b) (clock 2) (cd_service rnd)
       \<lparr>pv_ID = ci_RequestID input, pv_ProductID = ci_ProductID input, pv_Email = ci_Email input, pv_InstallationID = inst,
        pv_ExpiresAt = trunc_us (clock 1) + PublicEmailQueueTTL\<rparr> = Inr v"
    "Encrypt (ab_gcm b) (ab_provider b) (cd_cipher rnd) (new_code (cd_number rnd)) (otpAAD (ci_RequestID input) (ci_ProductID input)) = Inr cipher"
    "tfind pc_id (ci_RequestID input) (public_email_challenges d') =
       Some (new_challenge (challenge_of b (trunc_us (clock 1)) input inst (new_code (cd_number rnd)) cipher v))"
    "tfind ev_id (ci_RequestID input) (email_verifications d') = Some (new_verification (clock 3) v)"
proof -
  from ok obtain input installation where n: "normalized_challenge (is_mail (ab_identity b)) input0 = Inr input"
    and a: "authenticateInstallation b (clock 0) view credential (ci_ProductID input) = Inr installation"
    by (auto simp: Begin_def)
  note ni = normalized_challenge_Inr [OF n]
  have none: "PublicEmailChallenge_read (view 2) (ci_RequestID input) = Inl ErrNotFound"
    using new(1) ni by (simp add: PublicEmailChallenge_read_def readPublicChallenge_NotFound)
  let ?inst = "ic_InstallationID installation"
  from ok n a none obtain v cipher saved fresh where v: "PreparePublicVerification (ab_identity b) (clock 2) (cd_service rnd)
       \<lparr>pv_ID = ci_RequestID input, pv_ProductID = ci_ProductID input, pv_Email = ci_Email input, pv_InstallationID = ?inst,
        pv_ExpiresAt = trunc_us (clock 1) + PublicEmailQueueTTL\<rparr> = Inr v"
    and c: "Encrypt (ab_gcm b) (ab_provider b) (cd_cipher rnd) (new_code (cd_number rnd)) (otpAAD (ci_RequestID input) (ci_ProductID input)) = Inr cipher"
    and create: "CreatePublicEmailChallenge (clock 3) (challenge_of b (trunc_us (clock 1)) input ?inst (new_code (cd_number rnd)) cipher v) v (ab_dailyLimit b) d = Inr ((saved, fresh), d')"
    by (auto simp: Begin_def Let_def)
  let ?c = "challenge_of b (trunc_us (clock 1)) input ?inst (new_code (cd_number rnd)) cipher v"
  have read: "readPublicChallenge d (pc_id ?c) = Inl ErrNotFound" using new(2) ni by (simp add: readPublicChallenge_NotFound)
  with create have "fresh" by (auto simp: CreatePublicEmailChallenge_def Let_def split: if_splits)
  with create have create': "CreatePublicEmailChallenge (clock 3) ?c v (ab_dailyLimit b) d = Inr ((saved, True), d')" by simp
  obtain previous where valid: "validPublicChallengeInput ?c v"
    and rows: "public_email_challenges d' = challenges_after (trunc_us (clock 3)) ?c previous (public_email_challenges d)"
    and ev: "email_verifications d' = email_verifications d @ [new_verification (clock 3) v]"
    using create_challenge_new [OF create' keys] by blast
  have id: "v_ID v = ci_RequestID input" using valid by (simp add: validPublicChallengeInput_def)
  have keys': "db_keys d'" using yieldsD [OF CreatePublicEmailChallenge_keys [OF keys] create] by simp
  have u: "uniq pc_id (public_email_challenges d')" "uniq ev_id (email_verifications d')" using keys' by (rule table_uniq)+
  have 1: "tfind pc_id (ci_RequestID input) (public_email_challenges d') = Some (new_challenge ?c)"
    using uniq_mem_tfind [OF u(1), of "new_challenge ?c"] by (simp add: rows challenges_after_def new_challenge_def)
  have 2: "tfind ev_id (ci_RequestID input) (email_verifications d') = Some (new_verification (clock 3) v)"
    using uniq_mem_tfind [OF u(2), of "new_verification (clock 3) v"] by (simp add: ev) (simp add: id new_verification_def)
  show thesis by (rule that [OF n v c 1 2])
qed

lemma register_proof_session:
  assumes "register_proof now input c flow d = Inr (r, d')"
  shows "se_id (rg_Session r) = cm_SessionID input" "se_account_id (rg_Session r) = er_AccountID (rg_Identity r)"
    "se_product_id (rg_Session r) = pc_product_id c" "se_installation_id (rg_Session r) = pc_installation_id c"
  using assms by (auto simp: register_proof_def open_session_def Let_def split: if_splits)

lemma registration_Inr:
  assumes "registration b a1 a2 session profile refresh = Inr r"
  shows "ar_AccountKey r = registration_key b (se_product_id session) (se_account_id session)" "ar_RefreshToken r = refresh" "ar_Product r = se_product_id session"
    "product_audience b (se_product_id session) \<noteq> ''''"
    "SignAccountAccess (ab_lib b) (ab_signer b) (fst a1) (snd a1) \<lparr>ai_Product = se_product_id session, ai_Subject = ar_AccountKey r,
       ai_SessionID = se_id session, ai_TTL = 5 * minute\<rparr> = Inr (at_AccessToken (ar_AccountToken r), at_ExpiresAt (ar_AccountToken r))"
  using assms by (auto simp: registration_def Let_def split: if_splits)

text \<open>How a verification that succeeds has gone.\<close>

lemma Verify_Inr:
  assumes "Verify b clock rnd view credential id0 input d = (Inr r, d')"
  obtains installation c completion registered where
    "authenticateInstallation b (clock 0) view credential (vi_ProductID input) = Inr installation"
    "PublicEmailChallenge_read (view 2) (to_lower id0) = Inr c"
    "challenge_bound b input (ic_InstallationID installation) c"
    "CompletePublicEmailChallenge (clock 4) completion d = (Inr registered, d')"
    "cm_ChallengeID completion = to_lower id0" "cm_InstallationID completion = ic_InstallationID installation" "cm_ProductID completion = vi_ProductID input"
    "cm_OTPKeyID completion = ab_otpKeyID b"
    "cm_NonceHash completion = nonce_digest b (vi_ProductID input) (ic_InstallationID installation) (vi_ClientNonce input)"
    "cm_CodeHash completion = code_digest b (vi_ProductID input) (ic_InstallationID installation) (to_lower id0)
       (nonce_digest b (vi_ProductID input) (ic_InstallationID installation) (vi_ClientNonce input)) (pc_blind_index c) (vi_Code input)"
    "cm_SessionID completion = sn_session rnd"
    "newRefreshCapability b (sn_random rnd) = Inr (ar_RefreshToken r, cm_RefreshHash completion)"
    "registration b (clock 5, sn_access rnd) (clock 6, sn_receipt rnd) (rg_Session registered) (rg_Account registered) (ar_RefreshToken r) = Inr r"
proof -
  from assms obtain installation c where a: "authenticateInstallation b (clock 0) view credential (vi_ProductID input) = Inr installation"
    and c: "PublicEmailChallenge_read (view 2) (to_lower id0) = Inr c"
    by (auto simp: Verify_def Let_def split: if_splits sum.splits)
  let ?inst = "ic_InstallationID installation"
  from assms a c have bound: "challenge_bound b input ?inst c"
    by (auto simp: Verify_def Let_def split: if_splits)
  from assms a c bound obtain verification identity indexes refresh hash where
    cap: "newRefreshCapability b (sn_random rnd) = Inr (refresh, hash)"
    and run: "(case CompletePublicEmailChallenge (clock 4)
      (completion_of b (to_lower id0) input ?inst c\<lparr>cm_Identity := identity, cm_Indexes := indexes, cm_SessionID := sn_session rnd, cm_RefreshHash := hash,
         cm_RefreshExpiresAt := trunc_us (clock 2) + 90 * 24 * hour\<rparr>) d of
      (Inl e, d') \<Rightarrow> (Inl e, d')
    | (Inr registered, d') \<Rightarrow>
        (if se_product_id (rg_Session registered) \<noteq> vi_ProductID input \<or> se_installation_id (rg_Session registered) \<noteq> ?inst
         then Inl (ErrMessage ''invalid committed registration context'')
         else registration b (clock 5, sn_access rnd) (clock 6, sn_receipt rnd) (rg_Session registered) (rg_Account registered) refresh, d')) = (Inr r, d')"
    by (auto simp: Verify_def Let_def split: if_splits sum.splits prod.splits)
  from run obtain registered where
    fin: "CompletePublicEmailChallenge (clock 4)
      (completion_of b (to_lower id0) input ?inst c\<lparr>cm_Identity := identity, cm_Indexes := indexes, cm_SessionID := sn_session rnd, cm_RefreshHash := hash,
         cm_RefreshExpiresAt := trunc_us (clock 2) + 90 * 24 * hour\<rparr>) d = (Inr registered, d')"
    and reg: "registration b (clock 5, sn_access rnd) (clock 6, sn_receipt rnd) (rg_Session registered) (rg_Account registered) refresh = Inr r"
    by (auto split: prod.splits sum.splits if_splits)
  from registration_Inr(2) [OF reg] have "ar_RefreshToken r = refresh" .
  with cap reg show thesis
    by (intro that [OF a c bound fin]) (simp_all add: completion_of_def Let_def)
qed

section \<open>Properties\<close>

text \<open>
  C28: a verified code opens a session for the installation that asked for it. If a
  verification succeeds, the credential was that of a live installation of the product, the
  stored challenge belonged to that installation and product, was not expired and had fewer than
  five wrong attempts, and its code is the submitted one under the submitted nonce. The
  committed state has an active session of that installation, whose account the returned key
  names, and holds the returned refresh capability, as a hash and unused; and the challenge is spent: no later verification of it succeeds.
\<close>

theorem verify_opens_session:
  assumes ok: "Verify b clock rnd view credential id0 input d = (Inr r, d')" and keys: "db_keys d"
  shows "\<exists>installation c0 c nonce. authenticateInstallation b (clock 0) view credential (vi_ProductID input) = Inr installation \<and>
    PublicEmailChallenge_read (view 2) (to_lower id0) = Inr c0 \<and>
    tfind pc_id (to_lower id0) (public_email_challenges d) = Some c \<and>
    pc_product_id c = vi_ProductID input \<and> pc_installation_id c = ic_InstallationID installation \<and> pc_attempts c < 5 \<and>
    trunc_us (clock 4) < pc_expires_at c \<and>
    nonce = nonce_digest b (vi_ProductID input) (ic_InstallationID installation) (vi_ClientNonce input) \<and> pc_nonce_hash c = nonce \<and>
    pc_code_hash c = code_digest b (vi_ProductID input) (ic_InstallationID installation) (to_lower id0) nonce (pc_blind_index c0) (vi_Code input) \<and>
    (\<exists>s. tfind se_id (sn_session rnd) (account_sessions d') = Some s \<and> se_state s = SessionActive \<and> se_product_id s = vi_ProductID input \<and>
       se_installation_id s = ic_InstallationID installation \<and> ar_AccountKey r = registration_key b (vi_ProductID input) (se_account_id s)) \<and>
    (\<exists>h t. refreshCapabilityHash b (ar_RefreshToken r) = Inr h \<and> tfind rt_hash h (account_refresh_tokens d') = Some t \<and>
       rt_consumed_at t = None \<and> rt_session_id t = sn_session rnd) \<and>
    (\<forall>b' clock' rnd' view' credential' input' r'. fst (Verify b' clock' rnd' view' credential' id0 input' d') \<noteq> Inr r')"
proof -
  from ok obtain installation c0 completion registered where a: "authenticateInstallation b (clock 0) view credential (vi_ProductID input) = Inr installation"
    and c0: "PublicEmailChallenge_read (view 2) (to_lower id0) = Inr c0"
    and complete: "CompletePublicEmailChallenge (clock 4) completion d = (Inr registered, d')"
    and m: "cm_ChallengeID completion = to_lower id0" "cm_InstallationID completion = ic_InstallationID installation" "cm_ProductID completion = vi_ProductID input"
      "cm_NonceHash completion = nonce_digest b (vi_ProductID input) (ic_InstallationID installation) (vi_ClientNonce input)"
      "cm_CodeHash completion = code_digest b (vi_ProductID input) (ic_InstallationID installation) (to_lower id0)
         (nonce_digest b (vi_ProductID input) (ic_InstallationID installation) (vi_ClientNonce input)) (pc_blind_index c0) (vi_Code input)"
      "cm_SessionID completion = sn_session rnd"
    and cap: "newRefreshCapability b (sn_random rnd) = Inr (ar_RefreshToken r, cm_RefreshHash completion)"
    and reg: "registration b (clock 5, sn_access rnd) (clock 6, sn_receipt rnd) (rg_Session registered) (rg_Account registered) (ar_RefreshToken r) = Inr r"
    by (rule Verify_Inr) blast
  from complete obtain c flow where c: "tfind pc_id (cm_ChallengeID completion) (public_email_challenges d) = Some c"
    and pre: "challenge_open completion c" "pc_code_hash c = cm_CodeHash completion" "trunc_us (clock 4) < pc_expires_at c"
    and run: "register_proof (clock 4) completion c flow d = Inr (registered, d')"
    by (rule completion_proof)
  note eff = yieldsD [OF register_proof_effect [OF keys tfind_self [OF c]] run, simplified]
    and s = register_proof_session [OF run]
  have id: "pc_id c = to_lower id0" using tfind_key [OF c] m(1) by simp
  have hash: "refreshCapabilityHash b (ar_RefreshToken r) = Inr (cm_RefreshHash completion)"
    using cap by (auto simp: newRefreshCapability_def Let_def)
  have key: "ar_AccountKey r = registration_key b (vi_ProductID input) (er_AccountID (rg_Identity registered))"
    using registration_Inr(1) [OF reg] s pre(1) m by (simp add: challenge_open_def)
  from eff obtain c' where c': "tfind pc_id (to_lower id0) (public_email_challenges d') = Some c'" "pc_state c' = Consumed" by (auto simp: id)
  have spent: "fst (Verify b' clock' rnd' view' credential' id0 input' d') \<noteq> Inr r'" for b' clock' rnd' view' credential' input' r'
  proof
    assume "fst (Verify b' clock' rnd' view' credential' id0 input' d') = Inr r'"
    then obtain d'' where "Verify b' clock' rnd' view' credential' id0 input' d' = (Inr r', d'')" by (cases "Verify b' clock' rnd' view' credential' id0 input' d'") auto
    then obtain comp reg' where "CompletePublicEmailChallenge (clock' 4) comp d' = (Inr reg', d'')" "cm_ChallengeID comp = to_lower id0"
      by (rule Verify_Inr) blast
    then show False using not_open_rejected [of comp d' c' "clock' 4"] c' by (auto simp: challenge_open_def)
  qed
  have "pc_attempts c < 5" using pre(1) by (simp add: challenge_open_def not_le)
  with a c0 c pre m eff s hash key spent show ?thesis
    by (intro exI [of _ installation] exI [of _ c0] exI [of _ c] exI [of _ "cm_NonceHash completion"]) (auto simp: challenge_open_def id)
qed


end
