(* ===== verification/Account_Delivery.thy ===== *)
theory Account_Delivery
  imports Account_Broker
begin

text \<open>
  The mailing of registration codes: one durable job (\<^verbatim>\<open>accountbroker/delivery.go\<close>) and the
  worker that repeats it (\<^verbatim>\<open>accountbroker/delivery_worker.go\<close>).  What the mail server
  answers, the clock and the other writers are arguments.
\<close>

section \<open>One delivery\<close>

definition mail_subject :: string where
  "mail_subject = the (hex_decode ''d09ad0bed0b420d0bfd0bed0b4d182d0b2d0b5d180d0b6d0b4d0b5d0bdd0b8d18f20d09bd0b8d0bdd0bad0b8'')"

definition mail_body :: "string \<Rightarrow> string" where
  "mail_body otp =
     the (hex_decode ''d09ad0bed0b420d0b4d0bbd18f20d180d0b5d0b3d0b8d181d182d180d0b0d186d0b8d0b820d0b220d0bfd180d0b8d0bbd0bed0b6d0b5d0bdd0b8d0b820d09bd0b8d0bdd0bad0b83a20'') @ otp @
     the (hex_decode ''0a0ad09ad0bed0b420d0b4d0b5d0b9d181d182d0b2d183d0b5d18220313020d0bcd0b8d0bdd183d1822e20d09dd0b8d0bad0bed0bcd18320d0b5d0b3d0be20d0bdd0b520d181d0bed0bed0b1d189d0b0d0b9d182d0b52e20d095d181d0bbd0b820d0b2d18b20d0bdd0b520d0b7d0b0d0bfd180d0b0d188d0b8d0b2d0b0d0bbd0b820d0bad0bed0b42c20d0bfd180d0bed0b8d0b3d0bdd0bed180d0b8d180d183d0b9d182d0b520d18dd182d0be20d0bfd0b8d181d18cd0bcd0be2e'')"

type_synonym mail_sender = "string \<Rightarrow> string \<Rightarrow> string \<Rightarrow> mail_error option"

record letter =
  lt_to :: string
  lt_subject :: string
  lt_body :: string

text \<open>What a call reports, the letter it handed to the sender, if any, and the database it leaves.\<close>

record delivery_run =
  dn_worked :: bool
  dn_error :: "error option"
  dn_sent :: "letter option"
  dn_db :: db

definition delivery_bound :: "AccountBroker \<Rightarrow> public_email_challenge \<Rightarrow> EmailVerification option \<Rightarrow> bool" where
  "delivery_bound b c v = (case v of None \<Rightarrow> False | Some v \<Rightarrow>
     pc_product_id c \<in> set (ab_allowed b) \<and> pc_otp_key_id c = ab_otpKeyID b \<and> pc_purpose c = RegistrationPurpose \<and>
     v_ProductID v = pc_product_id c \<and> v_InstallationID v = Some (pc_installation_id c) \<and> v_Namespace v = ''account'' \<and> \<not> v_LinkAcrossProducts v)"

definition finish_run :: "time \<Rightarrow> string \<Rightarrow> string \<Rightarrow> letter option \<Rightarrow> PublicChallengeState \<Rightarrow> db \<Rightarrow> delivery_run" where
  "finish_run now i owner sent state d =
     (case FinishPublicEmailDelivery now i owner state d of
        Inl e \<Rightarrow> \<lparr>dn_worked = True, dn_error = Some e, dn_sent = sent, dn_db = d\<rparr>
      | Inr d' \<Rightarrow> \<lparr>dn_worked = True, dn_error = None, dn_sent = sent, dn_db = d'\<rparr>)"

definition claim_live :: "string \<Rightarrow> time \<Rightarrow> time \<Rightarrow> public_email_challenge \<Rightarrow> bool" where
  "claim_live owner now now' live \<longleftrightarrow>
     pc_state live = Delivering \<and> pc_mail_claim_token live = Some owner \<and>
     (case pc_mail_claim_until live of None \<Rightarrow> False | Some t \<Rightarrow> now < t) \<and> now' < pc_expires_at live"

definition send_outcome :: "mail_error option \<Rightarrow> PublicChallengeState" where
  "send_outcome err = (case err of None \<Rightarrow> Delivered | Some _ \<Rightarrow> if Uncertain err then DeliveryUncertain else DeliveryFailed)"

definition send_letter ::
  "(nat \<Rightarrow> time) \<Rightarrow> (nat \<Rightarrow> db \<Rightarrow> db) \<Rightarrow> mail_sender \<Rightarrow> string \<Rightarrow> string \<Rightarrow> string \<Rightarrow> string \<Rightarrow> db \<Rightarrow> delivery_run" where
  "send_letter clock others sender owner i email otp d =
     (let sent = Some \<lparr>lt_to = email, lt_subject = mail_subject, lt_body = mail_body otp\<rparr>;
          err = sender email mail_subject (mail_body otp); d1 = others 2 d in
      if Temporary err then
        (case DeferPublicEmailDelivery (clock 4) i owner (clock 3 + 5 * minute) d1 of
           Inl e \<Rightarrow> \<lparr>dn_worked = True, dn_error = Some e, dn_sent = sent, dn_db = d1\<rparr>
         | Inr d2 \<Rightarrow> \<lparr>dn_worked = True, dn_error = None, dn_sent = sent, dn_db = d2\<rparr>)
      else finish_run (clock 3) i owner sent (send_outcome err) d1)"

definition ProcessEmail ::
  "AccountBroker \<Rightarrow> (nat \<Rightarrow> time) \<Rightarrow> (nat \<Rightarrow> db \<Rightarrow> db) \<Rightarrow> mail_sender \<Rightarrow> string \<Rightarrow> db \<Rightarrow> delivery_run" where
  "ProcessEmail b clock others sender owner d =
     (if \<not> ValidUUID owner
      then \<lparr>dn_worked = False, dn_error = Some (ErrMessage ''public email delivery is not configured''), dn_sent = None, dn_db = d\<rparr>
      else if ab_allowed b = [] then \<lparr>dn_worked = False, dn_error = None, dn_sent = None, dn_db = d\<rparr>
      else case ClaimPublicEmailDelivery (clock 0) owner (sort (ab_allowed b)) (ab_dailyLimit b) d of
        Inl e \<Rightarrow> \<lparr>dn_worked = False, dn_error = (if e = ErrNotFound then None else Some e), dn_sent = None, dn_db = d\<rparr>
      | Inr ((c, v), d1) \<Rightarrow>
          if pc_state c \<noteq> Delivering then \<lparr>dn_worked = True, dn_error = None, dn_sent = None, dn_db = d1\<rparr>
          else
            let failed = finish_run (clock 3) (pc_id c) owner None DeliveryFailed (others 0 d1) in
            if \<not> delivery_bound b c v then failed
            else
              case Decrypt (ab_gcm b) (ab_provider b) (pc_code c) (otpAAD (pc_id c) (pc_product_id c)) of
                Inl _ \<Rightarrow> failed
              | Inr otp \<Rightarrow>
                  if \<not> (length otp = 6 \<and> list_all is_digit otp) \<or>
                     pc_code_hash c \<noteq> code_digest b (pc_product_id c) (pc_installation_id c) (pc_id c) (pc_nonce_hash c) (pc_blind_index c) otp
                  then failed
                  else
                    case OpenVerificationEmail (ab_identity b) (the v) of
                      Inl _ \<Rightarrow> failed
                    | Inr email \<Rightarrow>
                        let d2 = others 1 d1 in
                        case PublicEmailChallenge_read d2 (pc_id c) of
                          Inl e \<Rightarrow> \<lparr>dn_worked = True, dn_error = (if e = ErrNotFound then None else Some e), dn_sent = None, dn_db = d2\<rparr>
                        | Inr live \<Rightarrow>
                            if \<not> claim_live owner (clock 1) (clock 2) live
                            then \<lparr>dn_worked = True, dn_error = None, dn_sent = None, dn_db = d2\<rparr>
                            else send_letter clock others sender owner (pc_id c) email otp d2)"

section \<open>The worker\<close>

text \<open>
  The surroundings of a run: in its \<open>k\<close>-th round the error of the context, the fresh owner,
  the clock, the other writers and the mail server, and whether the context ends while
  the round waits; and the deadline of the context.
\<close>

record rounds_env =
  en_ctxErr :: "nat \<Rightarrow> error option"
  en_owner :: "nat \<Rightarrow> string"
  en_clock :: "nat \<Rightarrow> nat \<Rightarrow> time"
  en_others :: "nat \<Rightarrow> nat \<Rightarrow> db \<Rightarrow> db"
  en_sender :: "nat \<Rightarrow> mail_sender"
  en_cancelled :: "nat \<Rightarrow> error option"
  en_deadline :: "time option"

text \<open>
  \<^verbatim>\<open>DeliveryWorker.Process\<close>: at most five jobs; a round that hits the rate limit waits until
  the reported time and is not counted.  The first argument is fuel; \<open>None\<close> means that it
  ran out.  The result is the error, the letters sent and the database.
\<close>

fun delivery_Process ::
  "nat \<Rightarrow> AccountBroker \<Rightarrow> rounds_env \<Rightarrow> nat \<Rightarrow> nat \<Rightarrow> db \<Rightarrow> (error option \<times> letter list \<times> db) option" where
  "delivery_Process 0 b env k processed d = None"
| "delivery_Process (Suc fuel) b env k processed d =
     (if \<not> processed < 5 then Some (None, [], d)
      else case en_ctxErr env k of Some e \<Rightarrow> Some (Some e, [], d)
      | None \<Rightarrow>
          let run = ProcessEmail b (en_clock env k) (en_others env k) (en_sender env k) (en_owner env k) d;
              sent = (case dn_sent run of None \<Rightarrow> [] | Some l \<Rightarrow> [l]);
              continue = (\<lambda>processed. map_option (\<lambda>(e, ls, d). (e, sent @ ls, d)) (delivery_Process fuel b env (Suc k) processed (dn_db run))) in
          case dn_error run of
            Some (PublicRateLimitError retryAt) \<Rightarrow>
              (case en_deadline env of
                 Some deadline \<Rightarrow> if \<not> retryAt < deadline then Some (None, sent, dn_db run)
                   else (case en_cancelled env k of Some e \<Rightarrow> Some (Some e, sent, dn_db run) | None \<Rightarrow> continue processed)
               | None \<Rightarrow> (case en_cancelled env k of Some e \<Rightarrow> Some (Some e, sent, dn_db run) | None \<Rightarrow> continue processed))
          | Some e \<Rightarrow> Some (Some e, sent, dn_db run)
          | None \<Rightarrow> if \<not> dn_worked run then Some (None, sent, dn_db run) else continue (Suc processed))"

section \<open>Laws\<close>

lemma decimal_digits: "list_all is_digit (decimal n)"
proof (induction n rule: decimal.induct)
  case (1 n)
  have "is_digit (char_of (48 + m))" if "m < 10" for m :: nat using that by (simp add: is_digit_def of_char_of)
  with 1 show ?case by (subst decimal.simps) simp
qed

lemma decimal_length: "0 < k \<Longrightarrow> n < 10 ^ k \<Longrightarrow> length (decimal n) \<le> k"
proof (induction n arbitrary: k rule: decimal.induct)
  case (1 n)
  show ?case
  proof (cases "n < 10")
    case False
    with "1.prems" have k: "1 < k" by (cases "k = 1") auto
    have "n div 10 < 10 ^ (k - 1)" using "1.prems"(2) k by (simp add: less_mult_imp_div_less power_eq_if [of 10 k] mult.commute)
    with "1.IH" [OF False, of "k - 1"] k False show ?thesis by (subst decimal.simps) simp
  qed (use "1.prems" in \<open>subst decimal.simps, simp\<close>)
qed

lemma new_code_shape: "number < 1000000 \<Longrightarrow> length (new_code number) = 6 \<and> list_all is_digit (new_code number)"
  using decimal_length [of 6 number] decimal_digits [of number]
  by (auto simp: new_code_def padded_def Let_def list_all_iff is_digit_def)

lemma code_digest_inject:
  assumes "code_digest b p i j n x otp = code_digest b p i j n x otp'"
  shows "otp = otp' \<or> (\<exists>m m'. m \<noteq> m' \<and> ab_hmac b (ab_otpKey b) m = ab_hmac b (ab_otpKey b) m')"
proof -
  define m where "m t = ''linka-public-product-account-v1'' @ [NUL] @ ''code'' @ [NUL] @
    join_nul [p, i, j, RegistrationPurpose, hex_encode n, hex_encode x, t]" for t
  have "ab_hmac b (ab_otpKey b) (m otp) = ab_hmac b (ab_otpKey b) (m otp')"
    using assms by (simp add: code_digest_def account_digest_def m_def)
  moreover have "m otp = m otp' \<longrightarrow> otp = otp'" by (simp add: m_def)
  ultimately show ?thesis by blast
qed

lemma prepared_public:
  assumes "PreparePublicVerification s now rnd input = Inr v"
  obtains email where "NormalizeEmail (is_mail s) (pv_Email input) = Inr email"
    "Encrypt (is_gcm s) (is_provider s) (sd_cipher rnd) email (verification_aad (pv_ID input) (pv_ProductID input)) = Inr (v_EncryptedEmail v)"
    "v_ID v = pv_ID input" "v_ProductID v = pv_ProductID input" "v_InstallationID v = Some (pv_InstallationID input)" "v_Namespace v = ''account''"
    "\<not> v_LinkAcrossProducts v"
proof -
  from assms have id: "pv_ID input \<noteq> ''''" by (auto simp: PreparePublicVerification_def split: if_splits)
  with assms show ?thesis
    by (auto simp: PreparePublicVerification_def prepareEmailVerification_def Let_def split: if_splits sum.splits intro!: that)
qed

text \<open>What the mail worker claims of a stored request: the challenge and the verification that were stored, with the lease.\<close>

lemma claimed_request:
  assumes ok: "Begin b clock rnd view credential input0 d0 = Inr (resp, d1)" and keys: "db_keys d0" "db_keys d"
    and new: "tfind pc_id (to_lower (ci_RequestID input0)) (public_email_challenges (view 2)) = None"
      "tfind pc_id (to_lower (ci_RequestID input0)) (public_email_challenges d0) = None"
    and rows: "tfind pc_id (to_lower (ci_RequestID input0)) (public_email_challenges d) = tfind pc_id (to_lower (ci_RequestID input0)) (public_email_challenges d1)"
      "tfind ev_id (to_lower (ci_RequestID input0)) (email_verifications d) = tfind ev_id (to_lower (ci_RequestID input0)) (email_verifications d1)"
    and claim: "ClaimPublicEmailDelivery (clock' 0) owner (sort (ab_allowed b')) (ab_dailyLimit b') d = Inr ((c, Some v), d2)"
      "pc_id c = to_lower (ci_RequestID input0)"
  obtains input inst w cipher where "normalized_challenge (is_mail (ab_identity b)) input0 = Inr input"
    "PreparePublicVerification (ab_identity b) (clock 2) (cd_service rnd)
       \<lparr>pv_ID = ci_RequestID input, pv_ProductID = ci_ProductID input, pv_Email = ci_Email input, pv_InstallationID = inst,
        pv_ExpiresAt = trunc_us (clock 1) + PublicEmailQueueTTL\<rparr> = Inr w"
    "Encrypt (ab_gcm b) (ab_provider b) (cd_cipher rnd) (new_code (cd_number rnd)) (otpAAD (ci_RequestID input) (ci_ProductID input)) = Inr cipher"
    "c = claim_delivery (owner, trunc_us (clock' 0)) (new_challenge (challenge_of b (trunc_us (clock 1)) input inst (new_code (cd_number rnd)) cipher w))"
    "\<exists>e n. v = (verification_of_row (new_verification (clock 3) w))\<lparr>v_ExpiresAt := e, v_Version := n\<rparr>"
    "ci_ProductID input \<in> set (ab_allowed b')" "PublicEmailChallenge_read d2 (ci_RequestID input) = Inr c"
proof -
  from ok keys(1) new obtain input inst w cipher where n: "normalized_challenge (is_mail (ab_identity b)) input0 = Inr input"
    and prep: "PreparePublicVerification (ab_identity b) (clock 2) (cd_service rnd)
       \<lparr>pv_ID = ci_RequestID input, pv_ProductID = ci_ProductID input, pv_Email = ci_Email input, pv_InstallationID = inst,
        pv_ExpiresAt = trunc_us (clock 1) + PublicEmailQueueTTL\<rparr> = Inr w"
    and enc: "Encrypt (ab_gcm b) (ab_provider b) (cd_cipher rnd) (new_code (cd_number rnd)) (otpAAD (ci_RequestID input) (ci_ProductID input)) = Inr cipher"
    and row: "tfind pc_id (ci_RequestID input) (public_email_challenges d1) =
      Some (new_challenge (challenge_of b (trunc_us (clock 1)) input inst (new_code (cd_number rnd)) cipher w))"
    and ev: "tfind ev_id (ci_RequestID input) (email_verifications d1) = Some (new_verification (clock 3) w)"
    by (rule Begin_stores)
  note ni = normalized_challenge_Inr [OF n]
  from claim(1) keys(2) obtain c1 flow w1 where "stale_claims (sort (ab_allowed b')) (trunc_us (clock' 0)) d = []"
    and c1: "tfind pc_id (pc_id c1) (public_email_challenges d) = Some c1" and "pc_state c1 = Requested" and allowed: "pc_product_id c1 \<in> set (sort (ab_allowed b'))"
    and "trunc_us (clock' 0) < pc_expires_at c1"
    and "tfind fl_key (pc_product_id c1, pc_installation_id c1) (public_registration_flows d) = Some flow" and "fl_challenge_id flow = pc_id c1"
    and w1: "readEmailVerification d (pc_id c1) = Inr w1" and "validPublicEmailDeliveryBinding c1 w1"
    and c: "c = claim_delivery (owner, trunc_us (clock' 0)) c1"
    and v: "v = w1\<lparr>v_ExpiresAt := trunc_us (clock' 0) + PublicEmailCodeTTL, v_Version := v_Version w1 + 1\<rparr>"
    and "\<forall>j. tfind pc_id j (public_email_challenges d2) = (if j = pc_id c1 then Some c else tfind pc_id j (public_email_challenges d))"
    and live: "readPublicChallenge d2 (pc_id c1) = Inr c"
    by (rule claim_leases)
  have id: "pc_id c1 = ci_RequestID input" using claim(2) c ni by simp
  then have c1': "c1 = new_challenge (challenge_of b (trunc_us (clock 1)) input inst (new_code (cd_number rnd)) cipher w)" using c1 rows(1) row ni by simp
  have w1': "w1 = verification_of_row (new_verification (clock 3) w)"
    using w1 rows(2) ev ni by (auto simp: id readEmailVerification_def split: if_splits)
  have "PublicEmailChallenge_read d2 (ci_RequestID input) = Inr c" using live ni(2) id by (simp add: PublicEmailChallenge_read_def)
  moreover have "ci_ProductID input \<in> set (ab_allowed b')" using allowed by (simp add: c1' new_challenge_def)
  moreover have "\<exists>e n. v = (verification_of_row (new_verification (clock 3) w))\<lparr>v_ExpiresAt := e, v_Version := n\<rparr>" using v w1' by blast
  ultimately show thesis using n prep enc c c1' by (intro that) simp_all
qed

lemma claimed_fields:
  assumes "c = claim_delivery (owner, now) (new_challenge (challenge_of b t input inst otp cipher w))"
  shows "pc_id c = ci_RequestID input" "pc_product_id c = ci_ProductID input" "pc_installation_id c = inst" "pc_purpose c = RegistrationPurpose" "pc_otp_key_id c = ab_otpKeyID b"
    "pc_code c = cipher" "pc_blind_index c = v_BlindIndex w" "pc_nonce_hash c = nonce_digest b (ci_ProductID input) inst (ci_ClientNonce input)"
    "pc_code_hash c = code_digest b (ci_ProductID input) inst (ci_RequestID input) (pc_nonce_hash c) (pc_blind_index c) otp"
    "pc_state c = Delivering" "pc_mail_claim_token c = Some owner" "pc_mail_claim_until c = Some (trunc_us (now + 90 * second))"
    "pc_expires_at c = trunc_us (now + PublicEmailCodeTTL)"
  by (simp_all add: assms claim_delivery_def new_challenge_def)

lemma claim_lives:
  assumes "pc_state c = Delivering" "pc_mail_claim_token c = Some owner" "pc_mail_claim_until c = Some (trunc_us (trunc_us now + 90 * second))"
    "pc_expires_at c = trunc_us (trunc_us now + PublicEmailCodeTTL)" and "t < trunc_us now + 90 * second" "u < trunc_us now + PublicEmailCodeTTL"
  shows "claim_live owner t u c"
proof -
  have "trunc_us (trunc_us now + 90 * second) = trunc_us now + 90 * second" "trunc_us (trunc_us now + PublicEmailCodeTTL) = trunc_us now + PublicEmailCodeTTL"
    using trunc_us_add [of "90 * second" "trunc_us now"] trunc_us_add [of PublicEmailCodeTTL "trunc_us now"]
    by (simp_all add: duration_defs PublicEmailCodeTTL_def)
  with assms show ?thesis by (simp add: claim_live_def)
qed

section \<open>Properties\<close>

text \<open>
  C27: the code that a client asked for is the code that is mailed, and the code that is accepted. Once a
  request for a challenge has been stored and the mail worker claims it, also after the
  envelope keys were rotated but kept, the letter goes to the address of the request
  and carries the drawn code, however the mail server answers; and a verification for the
  same product with the nonce of the request presents the stored proof if its code is that code,
  and otherwise only if HMAC collides.
\<close>

theorem requested_code_is_mailed:
  assumes ok: "Begin b clock rnd view credential input0 d0 = Inr (resp, d1)" and keys: "db_keys d0" "db_keys d"
    and new: "tfind pc_id (to_lower (ci_RequestID input0)) (public_email_challenges (view 2)) = None"
      "tfind pc_id (to_lower (ci_RequestID input0)) (public_email_challenges d0) = None"
    and rows: "tfind pc_id (to_lower (ci_RequestID input0)) (public_email_challenges d) = tfind pc_id (to_lower (ci_RequestID input0)) (public_email_challenges d1)"
      "tfind ev_id (to_lower (ci_RequestID input0)) (email_verifications d) = tfind ev_id (to_lower (ci_RequestID input0)) (email_verifications d1)"
    and claim: "ClaimPublicEmailDelivery (clock' 0) owner (sort (ab_allowed b')) (ab_dailyLimit b') d = Inr ((c, Some v), d2)"
      "pc_id c = to_lower (ci_RequestID input0)"
    and lease: "clock' 1 < trunc_us (clock' 0) + 90 * second" "clock' 2 < trunc_us (clock' 0) + PublicEmailCodeTTL"
    and same: "ab_otpKey b' = ab_otpKey b" "ab_otpKeyID b' = ab_otpKeyID b" "ab_hmac b' = ab_hmac b" "is_mail (ab_identity b') = is_mail (ab_identity b)"
    and gcm: "ab_gcm b = g" "is_gcm (ab_identity b) = g" "ab_gcm b' = g" "is_gcm (ab_identity b') = g" "aead_sound g"
    and ring: "NewLocalAESKeyring active keys1 = Inr p" "ab_provider b = local_provider g p" "is_provider (ab_identity b) = local_provider g p"
    and ring': "NewLocalAESKeyring active' keys2 = Inr p'" "ab_provider b' = local_provider g p'" "is_provider (ab_identity b') = local_provider g p'"
      "map_of keys2 active = map_of keys1 active"
    and draws: "draw_ok (cd_cipher rnd)" "draw_ok (sd_cipher (cd_service rnd))" "cd_number rnd < 1000000"
    and stable: "\<And>e. NormalizeEmail (is_mail (ab_identity b)) (ci_Email input0) = Inr e \<Longrightarrow> NormalizeEmail (is_mail (ab_identity b)) e = Inr e"
  shows "\<exists>email. NormalizeEmail (is_mail (ab_identity b)) (ci_Email input0) = Inr email \<and>
    dn_sent (ProcessEmail b' clock' (\<lambda>_ d. d) sender owner d) =
      Some \<lparr>lt_to = email, lt_subject = mail_subject, lt_body = mail_body (new_code (cd_number rnd))\<rparr> \<and>
    (\<forall>input. vi_ClientNonce input = ci_ClientNonce input0 \<and> vi_ProductID input = ci_ProductID input0 \<longrightarrow>
       challenge_bound b' input (pc_installation_id c) c \<and>
       (vi_Code input = new_code (cd_number rnd) \<longrightarrow> cm_CodeHash (completion_of b' (pc_id c) input (pc_installation_id c) c) = pc_code_hash c) \<and>
       (cm_CodeHash (completion_of b' (pc_id c) input (pc_installation_id c) c) = pc_code_hash c \<longrightarrow>
          vi_Code input = new_code (cd_number rnd) \<or> (\<exists>m m'. m \<noteq> m' \<and> ab_hmac b (ab_otpKey b) m = ab_hmac b (ab_otpKey b) m')))"
proof -
  let ?otp = "new_code (cd_number rnd)" and ?mail = "is_mail (ab_identity b)"
  from ok keys new rows claim obtain input inst w cipher where norm: "normalized_challenge ?mail input0 = Inr input"
    and prep: "PreparePublicVerification (ab_identity b) (clock 2) (cd_service rnd)
       \<lparr>pv_ID = ci_RequestID input, pv_ProductID = ci_ProductID input, pv_Email = ci_Email input, pv_InstallationID = inst,
        pv_ExpiresAt = trunc_us (clock 1) + PublicEmailQueueTTL\<rparr> = Inr w"
    and enc: "Encrypt (ab_gcm b) (ab_provider b) (cd_cipher rnd) ?otp (otpAAD (ci_RequestID input) (ci_ProductID input)) = Inr cipher"
    and c: "c = claim_delivery (owner, trunc_us (clock' 0)) (new_challenge (challenge_of b (trunc_us (clock 1)) input inst ?otp cipher w))"
    and "\<exists>e n. v = (verification_of_row (new_verification (clock 3) w))\<lparr>v_ExpiresAt := e, v_Version := n\<rparr>"
    and allowed: "ci_ProductID input \<in> set (ab_allowed b')" and read: "PublicEmailChallenge_read d2 (ci_RequestID input) = Inr c"
    by (rule claimed_request)
  then obtain e n where v: "v = (verification_of_row (new_verification (clock 3) w))\<lparr>v_ExpiresAt := e, v_Version := n\<rparr>" by blast
  note ni = normalized_challenge_Inr [OF norm] and cf = claimed_fields [OF c]
  from prep obtain email where e: "NormalizeEmail ?mail (ci_Email input) = Inr email"
    and cipher: "Encrypt (is_gcm (ab_identity b)) (is_provider (ab_identity b)) (sd_cipher (cd_service rnd)) email (verification_aad (ci_RequestID input) (ci_ProductID input)) = Inr (v_EncryptedEmail w)"
    and wf: "v_ID w = ci_RequestID input" "v_ProductID w = ci_ProductID input" "v_InstallationID w = Some inst" "v_Namespace w = ''account''" "\<not> v_LinkAcrossProducts w"
    by (rule prepared_public) auto
  have email: "email = ci_Email input" "NormalizeEmail ?mail email = Inr email" using stable [OF ni(4)] e by simp_all
  have v': "v_EncryptedEmail v = v_EncryptedEmail w" "v_ID v = ci_RequestID input" "v_ProductID v = ci_ProductID input" "v_InstallationID v = Some inst"
    "v_Namespace v = ''account''" "\<not> v_LinkAcrossProducts v"
    using wf by (simp_all add: v verification_of_row_def new_verification_def)
  have opens: "Decrypt (ab_gcm b') (ab_provider b') (pc_code c) (otpAAD (pc_id c) (pc_product_id c)) = Inr ?otp"
    using local_decrypts [OF ring(1) ring'(1,4) gcm(5) draws(1)] enc by (simp add: gcm ring ring' cf)
  have mailbox: "OpenVerificationEmail (ab_identity b') v = Inr email"
    using local_decrypts [OF ring(1) ring'(1,4) gcm(5) draws(2)] cipher email(2) by (simp add: OpenVerificationEmail_def gcm ring ring' v' same)
  have digests: "code_digest b' = code_digest b" "nonce_digest b' = nonce_digest b"
    by (simp_all add: fun_eq_iff code_digest_def nonce_digest_def account_digest_def same)
  have bound: "delivery_bound b' c (Some v)" using allowed cf v' same(2) by (simp add: delivery_bound_def)
  have alive: "claim_live owner (clock' 1) (clock' 2) c" by (rule claim_lives [OF cf(10-13) lease])
  have owner: "ValidUUID owner" "ab_allowed b' \<noteq> []"
    using claim(1) by (auto simp: ClaimPublicEmailDelivery_def validPublicEmailDeliveryProducts_def split: if_splits)
  have sent: "dn_sent (ProcessEmail b' clock' (\<lambda>_ d. d) sender owner d) =
      Some \<lparr>lt_to = email, lt_subject = mail_subject, lt_body = mail_body ?otp\<rparr>"
    using owner claim(1) cf(10) bound opens new_code_shape [OF draws(3)] mailbox read alive cf(9)
    by (simp add: ProcessEmail_def digests cf(1-3) send_letter_def finish_run_def Let_def split: sum.splits)
  show ?thesis
  proof (intro exI [of _ email] conjI allI impI)
    fix input' :: VerifyInput assume i: "vi_ClientNonce input' = ci_ClientNonce input0 \<and> vi_ProductID input' = ci_ProductID input0"
    show "challenge_bound b' input' (pc_installation_id c) c"
      using i cf ni same(2) by (simp add: challenge_bound_def digests)
    have proof_of: "cm_CodeHash (completion_of b' (pc_id c) input' (pc_installation_id c) c) =
        code_digest b (ci_ProductID input) inst (ci_RequestID input) (pc_nonce_hash c) (pc_blind_index c) (vi_Code input')"
      using i cf ni by (simp add: completion_of_def digests Let_def)
    show "cm_CodeHash (completion_of b' (pc_id c) input' (pc_installation_id c) c) = pc_code_hash c" if "vi_Code input' = ?otp"
      using proof_of cf(9) that by simp
    show "vi_Code input' = ?otp \<or> (\<exists>m m'. m \<noteq> m' \<and> ab_hmac b (ab_otpKey b) m = ab_hmac b (ab_otpKey b) m')"
      if "cm_CodeHash (completion_of b' (pc_id c) input' (pc_installation_id c) c) = pc_code_hash c"
      using code_digest_inject [of b "ci_ProductID input" inst "ci_RequestID input" "pc_nonce_hash c" "pc_blind_index c" "vi_Code input'" ?otp] that proof_of cf(9) by simp
  qed (use ni(4) email sent in simp_all)
qed

text \<open>The rate limit is reported by the claim alone: no letter has been sent when a round waits.\<close>

lemma delivery_errors_not_limited:
  "FinishPublicEmailDelivery now i owner s d \<noteq> Inl (PublicRateLimitError t)"
  "DeferPublicEmailDelivery now i owner r d \<noteq> Inl (PublicRateLimitError t)"
  by (auto simp: FinishPublicEmailDelivery_def DeferPublicEmailDelivery_def finishPublicEmailDeliveryTx_def finishPublicChallengeTx_def
      setPublicDeliveryVerificationExpiry_def appendPublicAccountAudit_def readPublicChallenge_def scanPublicChallenge_def readEmailVerification_def
      cas_row_public_def cas_public_def cas_update_def insert_row_def tbl_insert_def rbind_Inl_iff some_or_def Let_def split: if_splits option.splits sum.splits)

lemma limited_round_sends_nothing:
  assumes "dn_error (ProcessEmail b clock others sender owner d) = Some (PublicRateLimitError t)"
  shows "dn_sent (ProcessEmail b clock others sender owner d) = None"
  using assms delivery_errors_not_limited
  by (auto simp: ProcessEmail_def send_letter_def finish_run_def Let_def split: if_splits sum.splits prod.splits)

lemma one_letter: "length (case dn_sent run of None \<Rightarrow> [] | Some l \<Rightarrow> [l]) \<le> 1"
  by (simp split: option.splits)


end
