(* ===== verification/Account_Samples.thy ===== *)
theory Account_Samples
  imports Account_Delivery
begin

text \<open>
  A concrete run of the account broker: a request for a challenge, its mailing and its
  verification, on which the properties of the broker are applied.  HMAC and SHA-256 are constant
  functions here; the cipher, the token library and the identity service are the sound instances of their theories.
\<close>

definition account_service :: IdentityService where
  "account_service = old_service\<lparr>is_indexer := \<lparr>bx_current = 1, bx_keys = [(1, replicate 32 CHR ''x'')]\<rparr>\<rparr>"

abbreviation sample_mac :: bytes where "sample_mac \<equiv> replicate 32 (CHR 0x11)"
abbreviation sample_nonce :: string where "sample_nonce \<equiv> rawBase64 (replicate 32 CHR ''a'')"

definition sample_account :: AccountBroker where
  "sample_account = \<lparr>ab_installations = sample_broker old_signer, ab_identity = account_service, ab_gcm = sample_aead,
     ab_provider = local_provider sample_aead old_ring, ab_lib = sample_lib, ab_signer = old_signer, ab_hmac = (\<lambda>_ _. sample_mac),
     ab_pairwise = \<lparr>secret = ''s''\<rparr>, ab_sha256 = (\<lambda>_. replicate 32 CHR ''r''), ab_products = [(''pict'', ''m'')], ab_allowed = [''pict''],
     ab_policy = ''p'', ab_otpKeyID = ''otp'', ab_otpKey = replicate 32 CHR ''o'', ab_dailyLimit = 5\<rparr>"

definition uuid_draws :: draws where
  "uuid_draws = \<lparr>sd_verification = sample_uuid, sd_claim = sample_uuid, sd_person = sample_uuid, sd_identity = sample_uuid, sd_account = sample_uuid,
     sd_cipher = sample_draw\<rparr>"

definition account_draws :: challenge_draws where
  "account_draws = \<lparr>cd_service = uuid_draws, cd_number = 42, cd_cipher = sample_draw\<rparr>"

definition sealed :: "string \<Rightarrow> bytes \<Rightarrow> Ciphertext" where
  "sealed plain aad = \<lparr>Algorithm = Algorithm_V1, KeyID = ''k'', WrappedDataKey = wrap sample_aead sample_draw (replicate 32 CHR ''a'') (replicate 32 CHR ''d''),
     Nonce = replicate 12 CHR ''n'', Data = plain @ tag_of aad\<rparr>"

lemma sample_Encrypt: "Encrypt sample_aead (local_provider sample_aead old_ring) sample_draw plain aad = Inr (sealed plain aad)"
  by (simp add: Encrypt_def local_provider_def local_GenerateDataKey_def old_ring_def wrap_def sealed_def sample_draw_def sample_aead_def)

lemma sample_Decrypt: "Decrypt sample_aead (local_provider sample_aead old_ring) (sealed plain aad) aad = Inr plain"
  by (rule local_decrypts [OF service_setup(1,1) _ sample_aead_sound sample_draw_ok sample_Encrypt]) simp

lemma sealed_valid: "validCipher (sealed plain aad)"
  by (simp add: validCipher_def sealed_def Algorithm_V1_def wrap_def sample_draw_def tag_of_def)

definition challenge_input :: ChallengeInput where
  "challenge_input = \<lparr>ci_RequestID = sample_uuid, ci_ProductID = ''pict'', ci_Email = ''a@b.c'', ci_Purpose = RegistrationPurpose,
     ci_ClientNonce = sample_nonce, ci_HolderRole = ''self''\<rparr>"

definition public_verification :: EmailVerification where
  "public_verification = challenge_verification\<lparr>v_EncryptedEmail := sealed ''a@b.c'' (verification_aad sample_uuid ''pict''),
     v_ExpiresAt := second + PublicEmailQueueTTL\<rparr>"

definition public_challenge :: public_email_challenge where
  "public_challenge = sample_challenge\<lparr>pc_request_fingerprint := sample_mac, pc_nonce_hash := sample_mac, pc_code_hash := sample_mac,
     pc_code := sealed (new_code 42) (otpAAD sample_uuid ''pict''), pc_expires_at := second + PublicEmailQueueTTL\<rparr>"

definition account_db :: db where
  "account_db = sample_db\<lparr>subject_aliases := [\<lparr>sa_opaque_key = sample_key, sa_product_id = ''pict'', sa_audience = ''m'',
     sa_subject_type = ''installation'', sa_subject_id = sample_uuid, sa_person_id = None, sa_created_at = 0\<rparr>]\<rparr>"

lemma sample_nonce_valid: "validClientNonce sample_nonce"
proof -
  have "length (b64_pack ns) = (4 * length ns + 2) div 3" for ns by (induction ns rule: b64_pack.induct) auto
  from this [of "map code (replicate 32 CHR ''a'')"] have "length sample_nonce = 43" by (simp add: rawBase64_def)
  then show ?thesis by (simp add: validClientNonce_def)
qed

lemma account_mail: "is_mail account_service = is_mail old_service" "is_gcm account_service = sample_aead"
  "is_provider account_service = local_provider sample_aead old_ring" "is_hmac account_service = (\<lambda>k m. k)"
  "is_indexer account_service = \<lparr>bx_current = 1, bx_keys = [(1, replicate 32 CHR ''x'')]\<rparr>"
  by (simp_all add: account_service_def old_service_def)

lemma sample_uuid_lower: "to_lower sample_uuid = sample_uuid"
  by (simp add: to_lower_def lower_char_def is_upper_def)

lemma challenge_normal: "normalized_challenge (is_mail account_service) challenge_input = Inr challenge_input"
  using sample_normal
  by (simp add: normalized_challenge_def challenge_input_def sample_nonce_valid sample_product_valid account_mail ValidHolderRole_def sample_uuid_lower)

lemma public_prepared:
  "PreparePublicVerification account_service second uuid_draws
     \<lparr>pv_ID = sample_uuid, pv_ProductID = ''pict'', pv_Email = ''a@b.c'', pv_InstallationID = sample_uuid, pv_ExpiresAt = second + PublicEmailQueueTTL\<rparr> =
   Inr public_verification"
proof -
  have "0 < PublicEmailQueueTTL" by (simp add: PublicEmailQueueTTL_def duration_defs)
  moreover have "\<not> is_zero second" by (simp add: is_zero_def zero_time_def duration_defs)
  ultimately show ?thesis
    using sample_normal sample_Encrypt
    by (simp add: PreparePublicVerification_def prepareEmailVerification_def registration_of_def validateRegistration_def linkageScope_def account_mail
        public_verification_def challenge_verification_def sample_verification_def uuid_draws_def bx_Current_def bx_digest_def sample_product_valid Let_def)
qed

lemma public_challenge_of:
  "challenge_of sample_account second challenge_input sample_uuid (new_code 42) (sealed (new_code 42) (otpAAD sample_uuid ''pict'')) public_verification =
   public_challenge"
  by (simp add: challenge_of_def public_challenge_def sample_challenge_def public_verification_def challenge_verification_def challenge_input_def
      nonce_digest_def code_digest_def request_fingerprint_of_def account_digest_def sample_account_def RegistrationPurpose_def Let_def)

lemma account_installation:
  "\<exists>token. (\<forall>now. second \<le> now \<and> now \<le> hour \<longrightarrow> authenticateInstallation sample_account now (\<lambda>_. d) token ''pict'' =
     Inr \<lparr>ic_ProductID = ''pict'', ic_InstallationID = sample_uuid, ic_InstallationKey = sample_key, ic_TelemetryAudience = ''m''\<rparr>)"
  if "subject_aliases d = subject_aliases account_db" "product_installations d = product_installations sample_db"
proof -
  from sample_broker_signs obtain token where token: "SignRefresh sample_lib old_signer second sample_uuid ''pict'' sample_key ''p'' (24 * hour) = Inr (token, second + 24 * hour)"
    by blast
  have key: "pairwise_Valid sample_key" by (simp add: pairwise_Valid_iff list_all_iff char_class_defs)
  have "authenticateInstallation sample_account now (\<lambda>_. d) token ''pict'' =
     Inr \<lparr>ic_ProductID = ''pict'', ic_InstallationID = sample_uuid, ic_InstallationKey = sample_key, ic_TelemetryAudience = ''m''\<rparr>"
    if now: "second \<le> now" "now \<le> hour" for now
  proof -
    have t: "list_all utf8_valid [''k'', ''i'', ''pict'', sample_key, ''p'', sample_uuid]" "''pict'' \<noteq> ''''" "sample_key \<noteq> ''''" "length ''p'' \<le> 100"
      "\<bar>unix second\<bar> < 2 ^ 62" using pairwise_utf8 [OF key] by (simp_all add: unix_def duration_defs)
    have "unix now \<le> unix hour" "unix hour < unix (second + 24 * hour)" using now by (auto intro: unix_mono simp: unix_def duration_defs)
    then have late: "unix now < unix (second + 24 * hour)" by linarith
    have "\<exists>c. VerifyRefresh sample_lib old_signer now token = Inr c \<and> tc_Product c = ''pict'' \<and> tc_Subject c = sample_key"
      using refresh_roundtrip [OF sample_lib_sound sample_rings(1,2,1,2) refl t(1-5) now(1) token] late by auto
    then obtain c where c: "VerifyRefresh sample_lib old_signer now token = Inr c" "tc_Product c = ''pict''" "tc_Subject c = sample_key" by blast
    have "AuthenticateInstallation (sample_broker old_signer) now (\<lambda>_. d) token =
        Inr \<lparr>ic_ProductID = ''pict'', ic_InstallationID = sample_uuid, ic_InstallationKey = sample_key, ic_TelemetryAudience = ''m''\<rparr>"
      using \<open>subject_aliases d = subject_aliases account_db\<close> \<open>product_installations d = product_installations sample_db\<close> c key
      by (simp add: AuthenticateInstallation_def authenticate_def sample_broker_def account_db_def sample_defs
          ResolveSubjectAlias_def aliasPersonID_def ResolveTokenSubject_def)
    then show ?thesis using key by (simp add: authenticateInstallation_def sample_account_def)
  qed
  then show ?thesis by blast
qed

section \<open>The request\<close>

lemma public_challenge_valid: "validPublicChallengeInput public_challenge public_verification"
proof -
  have q: "0 < PublicEmailQueueTTL" by (simp add: PublicEmailQueueTTL_def duration_defs)
  have z: "\<not> is_zero second" by (simp add: is_zero_def zero_time_def duration_defs)
  have "validPublicChallengeInput sample_challenge challenge_verification" by (rule sample_challenge_valid)
  with q z show ?thesis
    by (simp add: validPublicChallengeInput_def public_challenge_def public_verification_def sealed_valid)
      (simp add: sample_challenge_def challenge_verification_def sample_verification_def)
qed

lemma public_created:
  "\<exists>d'. CreatePublicEmailChallenge second public_challenge public_verification 5 account_db = Inr ((public_challenge, True), d')"
proof -
  have us: "trunc_us second = second" by (simp add: trunc_us_def duration_defs)
  have ls: "contact_limits public_challenge = contact_limits sample_challenge" "pc_id public_challenge = sample_uuid" "pc_product_id public_challenge = ''pict''"
    "pc_installation_id public_challenge = sample_uuid"
    by (simp_all add: contact_limits_def public_challenge_def sample_challenge_def)
  have "\<exists>es. consumePublicAuthLimits second sample_uuid (contact_limits sample_challenge) account_db = Inr (account_db\<lparr>public_auth_events := es\<rparr>)"
    using sample_contact_limits
    by (intro consume_first) (auto simp: account_db_def sample_defs is_zero_def zero_time_def duration_defs contact_limits_def Let_def)
  then obtain es where es: "consumePublicAuthLimits second sample_uuid (contact_limits sample_challenge) account_db = Inr (account_db\<lparr>public_auth_events := es\<rparr>)" ..
  have "\<exists>d'. store_challenge second public_challenge public_verification None None 0 account_db = Inr d'"
    unfolding store_challenge_def ls us es Let_def rbind_simps
    by (simp add: can_cancel_def createEmailVerificationTx_def validateSubjectWith_def public_verification_def challenge_verification_def
        sample_verification_def account_db_def sample_defs insert_row_eval insertPublicChallenge_def appendPublicAccountAudit_def
        upsert_row_def)
  moreover have "pc_expires_at public_challenge = second + PublicEmailQueueTTL" "pc_created_at public_challenge = second" "0 < PublicEmailQueueTTL"
    by (simp_all add: public_challenge_def sample_challenge_def PublicEmailQueueTTL_def duration_defs)
  ultimately show ?thesis using public_challenge_valid
    by (auto simp: CreatePublicEmailChallenge_def readPublicChallenge_def read_flow_previous_def pending_count_def
        can_cancel_def account_db_def sample_defs us ls)
qed

lemma sample_begins:
  "\<exists>token resp d'. Begin sample_account (\<lambda>_. second) account_draws (\<lambda>_. account_db) token challenge_input account_db = Inr (resp, d') \<and> db_keys d' \<and>
     tfind pc_id sample_uuid (public_email_challenges d') = Some public_challenge \<and>
     tfind ev_id sample_uuid (email_verifications d') = Some (new_verification second public_verification)"
proof -
  have us: "trunc_us second = second" by (simp add: trunc_us_def duration_defs)
  obtain token where token: "authenticateInstallation sample_account second (\<lambda>_. account_db) token ''pict'' =
     Inr \<lparr>ic_ProductID = ''pict'', ic_InstallationID = sample_uuid, ic_InstallationKey = sample_key, ic_TelemetryAudience = ''m''\<rparr>"
    using account_installation [of account_db] by (auto simp: account_db_def duration_defs)
  from public_created obtain d' where d': "CreatePublicEmailChallenge second public_challenge public_verification 5 account_db = Inr ((public_challenge, True), d')" ..
  have none: "PublicEmailChallenge_read account_db sample_uuid = Inl ErrNotFound"
    by (simp add: PublicEmailChallenge_read_def readPublicChallenge_def account_db_def sample_defs)
  have f: "ci_ProductID challenge_input = ''pict''" "ci_RequestID challenge_input = sample_uuid" "ci_Email challenge_input = ''a@b.c''"
    "ab_identity sample_account = account_service" "ab_gcm sample_account = sample_aead" "ab_provider sample_account = local_provider sample_aead old_ring"
    "ab_dailyLimit sample_account = 5" "cd_service account_draws = uuid_draws" "cd_number account_draws = 42" "cd_cipher account_draws = sample_draw"
    by (simp_all add: challenge_input_def sample_account_def account_draws_def)
  have run: "Begin sample_account (\<lambda>_. second) account_draws (\<lambda>_. account_db) token challenge_input account_db = Inr (challengeResponse public_challenge, d')"
    using token none public_prepared d' public_challenge_of
    by (simp add: Begin_def f challenge_normal us sample_Encrypt Let_def)
  have keys: "db_keys account_db" by (simp add: account_db_def sample_defs db_keys_def)
  have keys': "db_keys d'" using yieldsD [OF CreatePublicEmailChallenge_keys [OF keys] d'] by simp
  obtain previous where rows: "public_email_challenges d' = challenges_after (trunc_us second) public_challenge previous (public_email_challenges account_db)"
      "email_verifications d' = email_verifications account_db @ [new_verification second public_verification]"
    using create_challenge_new [OF d' keys] by blast
  have new: "new_challenge public_challenge = public_challenge"
    by (simp add: new_challenge_def public_challenge_def sample_challenge_def PublicEmailQueueTTL_def trunc_us_def duration_defs)
  have "tfind pc_id sample_uuid (public_email_challenges d') = Some public_challenge"
    using rows(1) by (simp add: challenges_after_def new tbl_update_def account_db_def sample_defs) (simp add: public_challenge_def sample_challenge_def)
  moreover have "tfind ev_id sample_uuid (email_verifications d') = Some (new_verification second public_verification)"
    using rows(2) by (simp add: account_db_def sample_defs) (simp add: new_verification_def public_verification_def challenge_verification_def sample_verification_def)
  ultimately show ?thesis using run keys' by blast
qed

section \<open>The letter\<close>

definition queued_db :: "PublicChallengeState \<Rightarrow> db" where
  "queued_db s = account_db\<lparr>public_email_challenges := [public_challenge\<lparr>pc_state := s\<rparr>],
     public_registration_flows := [new_flow second sample_challenge None 1], email_verifications := [new_verification second public_verification]\<rparr>"

lemma queued_db_keys: "db_keys (queued_db s)"
  by (simp add: db_keys_def queued_db_def account_db_def sample_db_def empty_db_def)

lemma queued_verification:
  "readEmailVerification (queued_db s) sample_uuid = Inr (verification_of_row (new_verification second public_verification))"
  "validPublicEmailDeliveryBinding public_challenge (verification_of_row (new_verification second public_verification))"
  by (simp_all add: readEmailVerification_def queued_db_def new_verification_def public_verification_def challenge_verification_def
      sample_verification_def validPublicEmailDeliveryBinding_def verification_of_row_def public_challenge_def sample_challenge_def sealed_valid)

lemma sample_claims:
  "\<exists>c v d'. ClaimPublicEmailDelivery (2 * second) sample_uuid [''pict''] 5 (queued_db Requested) = Inr ((c, Some v), d') \<and> pc_id c = sample_uuid"
proof -
  let ?d = "queued_db Requested" and ?w = "verification_of_row (new_verification second public_verification)"
  have same: "public_challenge\<lparr>pc_state := Requested\<rparr> = public_challenge" by (simp add: public_challenge_def sample_challenge_def)
  have us: "trunc_us (2 * second) = 2 * second" by (simp add: trunc_us_def duration_defs)
  have f: "pc_id public_challenge = sample_uuid" "pc_product_id public_challenge = ''pict''" "pc_installation_id public_challenge = sample_uuid"
    "pc_state public_challenge = Requested" "pc_mail_available_at public_challenge = second" "pc_mail_attempts public_challenge = 0" "pc_version public_challenge = 1"
    "pc_blind_index_version public_challenge = 1" "pc_expires_at public_challenge = second + PublicEmailQueueTTL"
    by (simp_all add: public_challenge_def sample_challenge_def)
  have q: "2 * second < second + PublicEmailQueueTTL" by (simp add: PublicEmailQueueTTL_def duration_defs)
  have "\<exists>es. consumePublicAuthLimits (2 * second) sample_uuid (send_limits 5) ?d = Inr (?d\<lparr>public_auth_events := es\<rparr>)"
    by (rule consume_first [OF _ _ _ _ _ send_limits_ok])
       (simp_all add: queued_db_def account_db_def sample_db_def empty_db_def is_zero_def zero_time_def duration_defs send_limits_def)
  then obtain es where es: "consumePublicAuthLimits (2 * second) sample_uuid (send_limits 5) ?d = Inr (?d\<lparr>public_auth_events := es\<rparr>)" ..
  have "\<exists>c v d'. lease_challenge (2 * second) sample_uuid 5 public_challenge ?w ?d = Inr ((c, Some v), d') \<and> pc_id c = sample_uuid"
    unfolding lease_challenge_def es rbind_simps
    by (simp add: setPublicDeliveryVerificationExpiry_def cas_row_public_def cas_public_def cas_update_def queued_db_def same
        verification_of_row_def new_verification_def public_verification_def challenge_verification_def sample_verification_def set_expiry_def
        f claim_delivery_def readPublicChallenge_def scanPublicChallenge_def tbl_update_def)
  moreover have "begin_delivery (2 * second) sample_uuid 5 public_challenge ?d = lease_challenge (2 * second) sample_uuid 5 public_challenge ?w ?d"
  proof -
    have "tfind fl_key (''pict'', sample_uuid) (public_registration_flows ?d) = Some (new_flow second sample_challenge None 1)"
      by (simp add: queued_db_def new_flow_def fl_key_def sample_challenge_def)
    moreover have "fl_challenge_id (new_flow second sample_challenge None 1) = sample_uuid" by (simp add: new_flow_def sample_challenge_def)
    moreover have "validateSubjectWith ?d \<lparr>su_Kind = ''installation'', su_ID = sample_uuid\<rparr> ''pict'' = Inr ()"
      by (simp add: validateSubjectWith_def queued_db_def account_db_def sample_defs)
    moreover have "2 * second < v_ExpiresAt ?w"
      by (simp add: verification_of_row_def new_verification_def public_verification_def PublicEmailQueueTTL_def duration_defs trunc_us_def)
    ultimately show ?thesis using queued_verification q by (simp add: begin_delivery_def f)
  qed
  moreover have "scanPublicChallenge public_challenge = Inr public_challenge" by (simp add: scanPublicChallenge_def f)
  moreover have "stale_claims [''pict''] (2 * second) ?d = []" "due_requests [''pict''] (2 * second) ?d = [public_challenge]"
    by (simp_all add: stale_claims_def due_requests_def queued_db_def same f duration_defs)
  ultimately show ?thesis
    by (simp add: ClaimPublicEmailDelivery_def us validPublicEmailDeliveryProducts_def sample_product_valid queue_head_def)
qed

theorem requested_code_is_mailed_witness:
  "\<exists>token resp d1. Begin sample_account (\<lambda>_. second) account_draws (\<lambda>_. account_db) token challenge_input account_db = Inr (resp, d1) \<and>
     dn_sent (ProcessEmail sample_account (\<lambda>_. 2 * second) (\<lambda>_ d. d) (\<lambda>_ _ _. None) sample_uuid (queued_db Requested)) =
       Some \<lparr>lt_to = ''a@b.c'', lt_subject = mail_subject, lt_body = mail_body (new_code 42)\<rparr>"
proof -
  from sample_begins obtain token resp d1 where run: "Begin sample_account (\<lambda>_. second) account_draws (\<lambda>_. account_db) token challenge_input account_db = Inr (resp, d1)"
    and rows: "tfind pc_id sample_uuid (public_email_challenges d1) = Some public_challenge"
      "tfind ev_id sample_uuid (email_verifications d1) = Some (new_verification second public_verification)" by blast
  from sample_claims obtain c v d' where claim: "ClaimPublicEmailDelivery (2 * second) sample_uuid [''pict''] 5 (queued_db Requested) = Inr ((c, Some v), d')" "pc_id c = sample_uuid"
    by blast
  have f: "to_lower (ci_RequestID challenge_input) = sample_uuid" "ci_Email challenge_input = ''a@b.c''" "cd_number account_draws = 42"
    "ab_identity sample_account = account_service" "ab_gcm sample_account = sample_aead" "ab_provider sample_account = local_provider sample_aead old_ring"
    "sort (ab_allowed sample_account) = [''pict'']" "ab_dailyLimit sample_account = 5"
    by (simp_all add: challenge_input_def sample_uuid_lower account_draws_def sample_account_def)
  have d: "public_email_challenges account_db = []"
    "tfind pc_id sample_uuid (public_email_challenges (queued_db Requested)) = Some public_challenge"
    "tfind ev_id sample_uuid (email_verifications (queued_db Requested)) = Some (new_verification second public_verification)"
    by (simp_all add: account_db_def sample_defs queued_db_def public_challenge_def sample_challenge_def)
      (simp add: new_verification_def public_verification_def challenge_verification_def sample_verification_def)
  have t: "2 * second < trunc_us (2 * second) + 90 * second" "2 * second < trunc_us (2 * second) + PublicEmailCodeTTL"
    by (simp_all add: trunc_us_def duration_defs PublicEmailCodeTTL_def)
  have dr: "draw_ok (cd_cipher account_draws)" "draw_ok (sd_cipher (cd_service account_draws))" by (simp_all add: account_draws_def uuid_draws_def sample_draw_ok)
  have k: "db_keys account_db" by (simp add: account_db_def sample_defs db_keys_def)
  have "\<exists>email. NormalizeEmail (is_mail account_service) ''a@b.c'' = Inr email \<and>
      dn_sent (ProcessEmail sample_account (\<lambda>_. 2 * second) (\<lambda>_ d. d) (\<lambda>_ _ _. None) sample_uuid (queued_db Requested)) =
        Some \<lparr>lt_to = email, lt_subject = mail_subject, lt_body = mail_body (new_code 42)\<rparr>"
    using requested_code_is_mailed [OF run k queued_db_keys, where clock' = "\<lambda>_. 2 * second" and b' = sample_account and g = sample_aead
        and sender = "\<lambda>_ _ _. None", unfolded f, OF _ _ _ _ claim t refl refl refl refl refl account_mail(2) refl account_mail(2) sample_aead_sound
        service_setup(1) refl account_mail(3) service_setup(1) refl account_mail(3) refl dr] d rows sample_normal account_mail(1)
    by auto
  then show ?thesis using run sample_normal account_mail(1) by auto
qed

section \<open>The session\<close>

definition account_session_draws :: session_draws where
  "account_session_draws = \<lparr>sn_service = uuid_draws, sn_session = sample_uuid, sn_random = replicate 32 CHR ''b'', sn_access = sample_uuid, sn_receipt = sample_uuid\<rparr>"

definition account_verify :: VerifyInput where
  "account_verify = \<lparr>vi_ProductID = ''pict'', vi_Code = new_code 42, vi_ClientNonce = sample_nonce\<rparr>"

lemma sample_registration:
  assumes "se_id s = sample_uuid" "se_product_id s = ''pict''" "se_account_id s = sample_uuid" "se_installation_id s = sample_uuid"
    "pp_account_id p = sample_uuid" "pp_product_id p = ''pict''" "pp_status p = ''active''" "pp_holder_role p = ''self''" "pp_verified_at p = 2 * second"
  shows "\<exists>r. registration sample_account (2 * second, sample_uuid) (2 * second, sample_uuid) s p refresh = Inr r"
proof -
  have key: "pairwise_Valid sample_key" by (simp add: pairwise_Valid_iff list_all_iff char_class_defs)
  have pw: "pairwise_Subject (ab_hmac sample_account) g a b c d = sample_key" for g a b c d
    using sample_pairwise by (simp add: sample_account_def sample_broker_def)
  have t: "unix (2 * second) = 2" "unix (2 * second + 5 * minute) = 302" "unix second = 1" by (simp_all add: unix_def duration_defs)
  have n: "length (bits 302) \<le> 17" "length (bits 2) \<le> 17" "length (bits (Suc 0)) \<le> 17" by (simp_all add: bits.simps)
  let ?in = "\<lparr>ai_Product = ''pict'', ai_Subject = sample_key, ai_SessionID = sample_uuid, ai_TTL = 5 * minute\<rparr>"
  let ?c = "account_claims old_signer (2 * second) sample_uuid ?in"
  let ?ri = "\<lparr>ri_Product = ''pict'', ri_AccountKey = sample_key, ri_InstallationKey = sample_key, ri_HolderRole = ''self'', ri_PolicyVersion = ''p'', ri_VerifiedAt = 2 * second\<rparr>"
  let ?r = "receipt_claims old_signer (2 * second) sample_uuid ?ri"
  have "wrap64 300 = 300" by (simp add: wrap64_id in_int64_def)
  then have valid: "validAccountAccess old_signer (2 * second) ?c"
    using key sample_product_valid
    by (simp add: validAccountAccess_def account_claims_def old_signer_def maxAccountTTL_def t) (simp add: unix_def duration_defs)
  obtain access where "signPayload sample_lib old_signer (account_members ?c) = Inr access"
  proof -
    have "2 * length (js_render sample_lib (header_members (sg_keyID old_signer))) + 2 * length (js_render sample_lib (account_members ?c)) \<le> 8000"
      using n by (simp add: sample_lib_def length_hex_words header_members_def account_members_def account_claims_def old_signer_def t scopes_json_def token_constants)
    from sample_signs [OF this] that show ?thesis by blast
  qed
  then have access: "SignAccountAccess sample_lib old_signer (2 * second) sample_uuid ?in = Inr (access, 2 * second + 5 * minute)"
    using valid key sample_product_valid by (simp add: SignAccountAccess_def old_signer_def maxAccountTTL_def duration_defs)
  have p: "trim_space ''p'' = ''p''" by (rule trim_noop) auto
  have rvalid: "validRegistrationReceipt old_signer ?r"
    using key sample_product_valid p
    by (simp add: validRegistrationReceipt_def receipt_claims_def old_signer_def validReceiptPolicy_def t)
  obtain receipt where "signPayload sample_lib old_signer (receipt_members ?r) = Inr receipt"
  proof -
    have "2 * length (js_render sample_lib (header_members (sg_keyID old_signer))) + 2 * length (js_render sample_lib (receipt_members ?r)) \<le> 8000"
      using n p by (simp add: sample_lib_def length_hex_words header_members_def receipt_members_def receipt_claims_def old_signer_def t token_constants)
    from sample_signs [OF this] that show ?thesis by blast
  qed
  then have receipt: "SignRegistrationReceipt sample_lib old_signer (2 * second) sample_uuid ?ri = Inr receipt"
    using rvalid by (simp add: SignRegistrationReceipt_def is_zero_def zero_time_def duration_defs)
  show ?thesis
    using assms access receipt pw
    by (simp add: registration_def product_audience_def registration_key_def ValidHolderRole_def Let_def) (simp add: sample_account_def)
qed

lemma sample_identity_prepared:
  "PreparePublicIdentity account_service (2 * second) uuid_draws (verification_of_row (new_verification second public_verification)) (2 * second) =
   Inr ((sample_identity sample_uuid)\<lparr>ni_BlindIndexVersion := 1, ni_BlindIndex := replicate 32 CHR ''x'', ni_VerifiedAt := 2 * second,
     ni_InstallationID := Some sample_uuid, ni_EncryptedEmail := sealed ''a@b.c'' (EmailIdentityAAD sample_uuid ''account'' ''product'' ''pict'')\<rparr>,
     [\<lparr>bi_version = 1, bi_value = replicate 32 CHR ''x''\<rparr>])"
proof -
  have "\<not> is_zero (2 * second)" by (simp add: is_zero_def zero_time_def duration_defs)
  moreover have "OpenVerificationEmail account_service (verification_of_row (new_verification second public_verification)) = Inr ''a@b.c''"
    using sample_Decrypt [of "''a@b.c''" "verification_aad sample_uuid ''pict''"] sample_normal
    by (simp add: OpenVerificationEmail_def account_mail verification_of_row_def new_verification_def public_verification_def challenge_verification_def sample_verification_def)
  ultimately show ?thesis
    using sample_normal sample_Encrypt
    by (simp add: PreparePublicIdentity_def prepareEmailIdentity_def validateRegistration_def linkageScope_def account_mail uuid_draws_def
        verification_of_row_def new_verification_def public_verification_def challenge_verification_def sample_verification_def sample_identity_def
        bx_Current_def bx_All_def bx_digest_def sample_product_valid Let_def)
qed

definition account_completion :: PublicEmailCompletion where
  "account_completion = (sample_completion CHR ''c'')\<lparr>cm_NonceHash := sample_mac, cm_CodeHash := sample_mac,
     cm_Identity := (sample_identity sample_uuid)\<lparr>ni_BlindIndexVersion := 1, ni_BlindIndex := replicate 32 CHR ''x'', ni_VerifiedAt := 2 * second,
       ni_InstallationID := Some sample_uuid, ni_EncryptedEmail := sealed ''a@b.c'' (EmailIdentityAAD sample_uuid ''account'' ''product'' ''pict'')\<rparr>,
     cm_RefreshExpiresAt := 2 * second + 90 * 24 * hour\<rparr>"

lemma account_completes:
  "\<exists>r d'. CompletePublicEmailChallenge (2 * second) account_completion (queued_db Delivered) = (Inr r, d') \<and>
     er_AccountID (rg_Identity r) = sample_uuid \<and>
     pp_account_id (rg_Account r) = sample_uuid \<and> pp_product_id (rg_Account r) = ''pict'' \<and> pp_status (rg_Account r) = ''active'' \<and>
     pp_holder_role (rg_Account r) = ''self'' \<and> pp_verified_at (rg_Account r) = 2 * second"
proof -
  let ?c = "public_challenge\<lparr>pc_state := Delivered\<rparr>" and ?flow = "new_flow second sample_challenge None 1" and ?d = "queued_db Delivered"
  have f: "cm_ChallengeID account_completion = sample_uuid" "cm_ProductID account_completion = ''pict''" "cm_InstallationID account_completion = sample_uuid"
    by (simp_all add: account_completion_def sample_completion_def)
  have run: "\<exists>r d'. register_proof (2 * second) account_completion ?c ?flow ?d = Inr (r, d') \<and> er_AccountID (rg_Identity r) = sample_uuid \<and>
     pp_account_id (rg_Account r) = sample_uuid \<and> pp_product_id (rg_Account r) = ''pict'' \<and> pp_status (rg_Account r) = ''active'' \<and>
     pp_holder_role (rg_Account r) = ''self'' \<and> pp_verified_at (rg_Account r) = 2 * second"
    by (simp add: register_proof_def prove_email_def Let_def account_completion_def completion_eval queued_db_def account_db_def public_challenge_def
        public_verification_def PublicEmailQueueTTL_def readEmailVerification_def verification_of_row_def
        verifiedEmailIdentityMatches_def equalOptionalText_def cas_row_public_def cas_public_def cas_update_def cas_row_def set_proof_def
        identity_eval insert_row_eval link_optional_def linkInstallation_def link_person_def tbl_update_def update_rows_def
        open_session_def account_state_def publicAccountDeletionPending_def registerPublicProductAccount_def readProductAccount_def
        upsert_row_def tbl_upsert_def revoke_previous_def insertAccountSession_def insertAccountRefresh_def set_flow_session_def fl_key_def
        consumeEmailVerificationTx_def finishPublicChallengeTx_def finish_challenge_def appendPublicAccountAudit_def sample_product_valid
        delete_rows_def)
  have pre: "readPublicChallenge ?d sample_uuid = Inr ?c" "challenge_open account_completion ?c"
    "tfind fl_key (''pict'', sample_uuid) (public_registration_flows ?d) = Some ?flow"
    "validateSubjectWith ?d \<lparr>su_Kind = ''installation'', su_ID = sample_uuid\<rparr> ''pict'' = Inr ()"
    "fl_challenge_id ?flow = sample_uuid" "fl_version ?flow = 1" "pc_id ?c = sample_uuid" "2 * second < pc_expires_at ?c" "trunc_us (2 * second) = 2 * second"
    "pc_code_hash ?c = cm_CodeHash account_completion"
    by (simp_all add: readPublicChallenge_def scanPublicChallenge_def challenge_open_def validateSubjectWith_def account_completion_def completion_eval
        fl_key_def queued_db_def account_db_def public_challenge_def PublicEmailQueueTTL_def)
  have "length (cm_NonceHash account_completion) = 32" "length (cm_CodeHash account_completion) = 32" "cm_OTPKeyID account_completion \<noteq> ''''"
    by (simp_all add: account_completion_def sample_completion_def)
  with run pre show ?thesis
    by (auto simp: CompletePublicEmailChallenge_def commit_or_reject_def complete_challenge_def Let_def f sample_product_valid)
qed

lemma sample_verifies:
  "\<exists>token r d'. Verify sample_account (\<lambda>_. 2 * second) account_session_draws (\<lambda>_. queued_db Delivered) token sample_uuid account_verify (queued_db Delivered) = (Inr r, d')"
proof -
  let ?d = "queued_db Delivered" and ?c = "public_challenge\<lparr>pc_state := Delivered\<rparr>"
  have us: "trunc_us (2 * second) = 2 * second" by (simp add: trunc_us_def duration_defs)
  obtain token where token: "authenticateInstallation sample_account (2 * second) (\<lambda>_. ?d) token ''pict'' =
     Inr \<lparr>ic_ProductID = ''pict'', ic_InstallationID = sample_uuid, ic_InstallationKey = sample_key, ic_TelemetryAudience = ''m''\<rparr>"
  proof -
    have "subject_aliases ?d = subject_aliases account_db" "product_installations ?d = product_installations sample_db" by (simp_all add: queued_db_def account_db_def)
    moreover have "second \<le> 2 * second" "2 * second \<le> hour" by (simp_all add: duration_defs)
    ultimately show ?thesis using account_installation [of ?d] that by blast
  qed
  have read: "PublicEmailChallenge_read ?d sample_uuid = Inr ?c"
    by (simp add: PublicEmailChallenge_read_def readPublicChallenge_def scanPublicChallenge_def queued_db_def public_challenge_def sample_challenge_def)
  have code: "new_code 42 = ''000042''" by (simp add: new_code_def padded_def decimal.simps char_of_def bit_0 Let_def) (simp add: numeral_eq_Suc)
  have valid: "valid_verify account_verify"
    by (simp add: valid_verify_def account_verify_def code sample_nonce_valid sample_product_valid is_digit_def)
  have digest: "account_digest sample_account p vs = sample_mac" for p vs by (simp add: account_digest_def sample_account_def)
  have f: "vi_ProductID account_verify = ''pict''" "ab_otpKeyID sample_account = ''otp''" "ab_identity sample_account = account_service"
    "sn_service account_session_draws = uuid_draws" "sn_session account_session_draws = sample_uuid" "sn_access account_session_draws = sample_uuid"
    "sn_receipt account_session_draws = sample_uuid"
    "pc_state ?c = Delivered" "pc_code_hash ?c = sample_mac" "2 * second < pc_expires_at public_challenge"
    by (simp_all add: account_verify_def sample_account_def account_session_draws_def public_challenge_def sample_challenge_def PublicEmailQueueTTL_def duration_defs)
  have bound: "challenge_bound sample_account account_verify sample_uuid ?c"
    by (simp add: challenge_bound_def nonce_digest_def digest f) (simp add: public_challenge_def sample_challenge_def RegistrationPurpose_def)
  have ev: "EmailVerification_read ?d sample_uuid = Inr (verification_of_row (new_verification second public_verification))"
    using queued_verification by (simp add: EmailVerification_read_def)
  have cap: "\<exists>refresh. newRefreshCapability sample_account (sn_random account_session_draws) = Inr (refresh, replicate 32 CHR ''r'')"
  proof -
    have "length (b64_pack ns) = (4 * length ns + 2) div 3" for ns by (induction ns rule: b64_pack.induct) auto
    from this [of "map code (replicate 32 CHR ''b'')"] have "length (rawBase64 (replicate 32 CHR ''b'')) = 43" by (simp add: rawBase64_def)
    then have "validClientNonce (rawBase64 (replicate 32 CHR ''b''))" by (simp add: validClientNonce_def)
    then show ?thesis by (simp add: newRefreshCapability_def refreshCapabilityHash_def account_session_draws_def sample_account_def Let_def)
  qed
  then obtain refresh where cap: "newRefreshCapability sample_account (sn_random account_session_draws) = Inr (refresh, replicate 32 CHR ''r'')" ..
  have comp: "cm_CodeHash (completion_of sample_account sample_uuid account_verify sample_uuid ?c) = sample_mac"
    "completion_of sample_account sample_uuid account_verify sample_uuid ?c\<lparr>cm_Identity := cm_Identity account_completion, cm_Indexes := cm_Indexes account_completion,
       cm_SessionID := sample_uuid, cm_RefreshHash := replicate 32 CHR ''r'', cm_RefreshExpiresAt := 2 * second + 90 * 24 * hour\<rparr> = account_completion"
    by (simp_all add: completion_of_def nonce_digest_def code_digest_def digest f Let_def) (simp add: account_completion_def sample_completion_def)
  have prep: "PreparePublicIdentity account_service (2 * second) uuid_draws (verification_of_row (new_verification second public_verification)) (2 * second) =
      Inr (cm_Identity account_completion, cm_Indexes account_completion)"
    by (simp add: sample_identity_prepared account_completion_def sample_completion_def)
  from account_completes obtain reg d' where done': "CompletePublicEmailChallenge (2 * second) account_completion ?d = (Inr reg, d')"
    and acc: "er_AccountID (rg_Identity reg) = sample_uuid" "pp_account_id (rg_Account reg) = sample_uuid" "pp_product_id (rg_Account reg) = ''pict''"
      "pp_status (rg_Account reg) = ''active''" "pp_holder_role (rg_Account reg) = ''self''" "pp_verified_at (rg_Account reg) = 2 * second" by blast
  from done' obtain c flow where c: "tfind pc_id (cm_ChallengeID account_completion) (public_email_challenges ?d) = Some c"
    and "challenge_open account_completion c" "pc_code_hash c = cm_CodeHash account_completion" "trunc_us (2 * second) < pc_expires_at c"
    and run: "register_proof (2 * second) account_completion c flow ?d = Inr (reg, d')"
    by (rule completion_proof)
  have cc: "pc_product_id c = ''pict''" "pc_installation_id c = sample_uuid" "cm_SessionID account_completion = sample_uuid"
    using c by (auto simp: queued_db_def account_completion_def sample_completion_def public_challenge_def sample_challenge_def)
  note s = register_proof_session [OF run]
  obtain r where "registration sample_account (2 * second, sample_uuid) (2 * second, sample_uuid) (rg_Session reg) (rg_Account reg) refresh = Inr r"
    using sample_registration [of "rg_Session reg" "rg_Account reg" refresh] s acc cc by auto
  then have "Verify sample_account (\<lambda>_. 2 * second) account_session_draws (\<lambda>_. ?d) token sample_uuid account_verify ?d = (Inr r, d')"
    using token read bound ev cap comp prep done' s cc
    by (simp add: Verify_def Let_def sample_uuid_lower valid f us)
  then show ?thesis by blast
qed

theorem verify_opens_session_witness:
  "\<exists>token r d' s. Verify sample_account (\<lambda>_. 2 * second) account_session_draws (\<lambda>_. queued_db Delivered) token sample_uuid account_verify (queued_db Delivered) = (Inr r, d') \<and>
     tfind se_id sample_uuid (account_sessions d') = Some s \<and> se_state s = SessionActive \<and> se_installation_id s = sample_uuid"
proof -
  from sample_verifies obtain token r d' where v: "Verify sample_account (\<lambda>_. 2 * second) account_session_draws (\<lambda>_. queued_db Delivered) token sample_uuid account_verify (queued_db Delivered) = (Inr r, d')"
    by blast
  from verify_opens_session [OF v queued_db_keys] obtain c s where "tfind pc_id sample_uuid (public_email_challenges (queued_db Delivered)) = Some c"
    "tfind se_id sample_uuid (account_sessions d') = Some s" "se_state s = SessionActive" "se_installation_id s = pc_installation_id c"
    by (auto simp: sample_uuid_lower account_session_draws_def)
  moreover from this(1) have "pc_installation_id c = sample_uuid" by (auto simp: queued_db_def public_challenge_def sample_challenge_def)
  ultimately show ?thesis using v by auto
qed


definition quiet_rounds :: rounds_env where
  "quiet_rounds = \<lparr>en_ctxErr = (\<lambda>k. if 3 \<le> k then Some (ErrMessage ''deadline'') else None), en_owner = (\<lambda>_. sample_uuid),
     en_clock = (\<lambda>k _. 1000 * int k), en_others = (\<lambda>_ _ d. d), en_sender = (\<lambda>_ _ _ _. None), en_cancelled = (\<lambda>_. None), en_deadline = Some 3000\<rparr>"


end
