(* ===== verification/Json_Values.thy ===== *)
theory Json_Values
  imports Token_Codec
begin

text \<open>
  What Go's \<^verbatim>\<open>encoding/json\<close> decoder does with the bodies of requests and the JSON
  settings: which members of an object a structure reads, and how, with unknown
  fields refused.  The text syntax of JSON and of RFC 3339 and the parser of media
  types are parameters (\<open>http_lib\<close>).
\<close>

section \<open>Values\<close>

datatype jvalue =
    VNull
  | VBool bool
  | VInt int
  | VNumber
  | VStr string
  | VArr "jvalue list"
  | VObj "(string \<times> jvalue) list"

text \<open>
  \<open>js_next\<close> reads the first JSON value of a text and gives the rest of the text;
  \<open>VNumber\<close> is a number that is not an integer literal.
\<close>

record http_lib =
  media_type :: "string \<Rightarrow> string option"
  js_next :: "bytes \<Rightarrow> (jvalue \<times> bytes) option"
  parse_time :: "string \<Rightarrow> time option"

definition json_space :: "char \<Rightarrow> bool" where
  "json_space c \<longleftrightarrow> code c = 32 \<or> code c = 9 \<or> code c = 10 \<or> code c = 13"

text \<open>
  The decoder finds a field by its exact name or else by the folded name: letters
  without their case, and the Kelvin and long-s signs as the letters they fold to.
\<close>

fun fold_name :: "string \<Rightarrow> string" where
  "fold_name [] = []"
| "fold_name (a # s) =
     (if is_lower a then upper_char a # fold_name s
      else if code a = 197 \<and> map code (take 1 s) = [191] then CHR ''S'' # fold_name (drop 1 s)
      else if code a = 226 \<and> map code (take 2 s) = [132, 170] then CHR ''K'' # fold_name (drop 2 s)
      else a # fold_name s)"

definition field_named :: "string list \<Rightarrow> string \<Rightarrow> string option" where
  "field_named names n = (if n \<in> set names then Some n else List.find (\<lambda>f. fold_name f = fold_name n) names)"

definition field_values :: "string list \<Rightarrow> (string \<times> jvalue) list \<Rightarrow> string \<Rightarrow> jvalue list" where
  "field_values names ms f = map snd (filter (\<lambda>m. field_named names (fst m) = Some f) ms)"

text \<open>Every occurrence of a field is decoded over the value so far; \<^verbatim>\<open>null\<close> leaves a non-pointer as it is.\<close>

fun take_values :: "('a \<Rightarrow> jvalue \<Rightarrow> 'a option) \<Rightarrow> 'a \<Rightarrow> jvalue list \<Rightarrow> 'a option" where
  "take_values f a [] = Some a"
| "take_values f a (v # vs) = (case f a v of None \<Rightarrow> None | Some b \<Rightarrow> take_values f b vs)"

fun take_string :: "string \<Rightarrow> jvalue \<Rightarrow> string option" where
  "take_string old VNull = Some old"
| "take_string old (VStr s) = Some s"
| "take_string old _ = None"

fun take_bool :: "bool \<Rightarrow> jvalue \<Rightarrow> bool option" where
  "take_bool old VNull = Some old"
| "take_bool old (VBool b) = Some b"
| "take_bool old _ = None"

fun take_int64 :: "int \<Rightarrow> jvalue \<Rightarrow> int option" where
  "take_int64 old VNull = Some old"
| "take_int64 old (VInt i) = (if in_int64 i then Some i else None)"
| "take_int64 old _ = None"

fun take_uint64 :: "uint64 \<Rightarrow> jvalue \<Rightarrow> uint64 option" where
  "take_uint64 old VNull = Some old"
| "take_uint64 old (VInt i) = (if 0 \<le> i \<and> i < 2 ^ 64 then Some (word_of_int i) else None)"
| "take_uint64 old _ = None"

fun take_pointer :: "string option \<Rightarrow> jvalue \<Rightarrow> string option option" where
  "take_pointer old VNull = Some None"
| "take_pointer old (VStr s) = Some (Some s)"
| "take_pointer old _ = None"

fun take_time :: "http_lib \<Rightarrow> time \<Rightarrow> jvalue \<Rightarrow> time option" where
  "take_time lib old VNull = Some old"
| "take_time lib old (VStr s) = parse_time lib s"
| "take_time lib old _ = None"

fun take_time_pointer :: "http_lib \<Rightarrow> time option \<Rightarrow> jvalue \<Rightarrow> time option option" where
  "take_time_pointer lib old VNull = Some None"
| "take_time_pointer lib old (VStr s) = map_option Some (parse_time lib s)"
| "take_time_pointer lib old _ = None"

text \<open>An array is decoded over the elements of the slice that it replaces.\<close>

fun take_elements :: "string list \<Rightarrow> jvalue list \<Rightarrow> string list option" where
  "take_elements old [] = Some []"
| "take_elements old (v # vs) =
     (case take_string (case old of [] \<Rightarrow> '''' | s # _ \<Rightarrow> s) v of
        None \<Rightarrow> None | Some s \<Rightarrow> map_option (\<lambda>ss. s # ss) (take_elements (tl old) vs))"

fun take_strings :: "string list \<Rightarrow> jvalue \<Rightarrow> string list option" where
  "take_strings old VNull = Some []"
| "take_strings old (VArr vs) = take_elements old vs"
| "take_strings old _ = None"

text \<open>A structure is a list of field names and a reader of the values of each of them.\<close>

type_synonym 'a reader = "(string \<Rightarrow> jvalue list) \<Rightarrow> 'a option"

definition obind :: "'a option \<Rightarrow> ('a \<Rightarrow> 'b option) \<Rightarrow> 'b option" where
  "obind x f = (case x of None \<Rightarrow> None | Some y \<Rightarrow> f y)"

lemma obind_simps [simp]: "obind None f = None" "obind (Some y) f = f y"
  by (simp_all add: obind_def)

lemma obind_Some [simp]: "obind x f = Some z \<longleftrightarrow> (\<exists>y. x = Some y \<and> f y = Some z)"
  by (cases x) auto

definition read_object :: "string list \<Rightarrow> 'a reader \<Rightarrow> jvalue \<Rightarrow> 'a option" where
  "read_object names read v = (case v of
     VNull \<Rightarrow> read (\<lambda>_. [])
   | VObj ms \<Rightarrow> if list_all (\<lambda>m. field_named names (fst m) \<noteq> None) ms then read (field_values names ms) else None
   | _ \<Rightarrow> None)"

text \<open>Decoding into a pointer: \<^verbatim>\<open>null\<close> gives \<^verbatim>\<open>nil\<close>.\<close>

definition read_nullable :: "(jvalue \<Rightarrow> 'a option) \<Rightarrow> jvalue \<Rightarrow> 'a option option" where
  "read_nullable read v = (if v = VNull then Some None else map_option Some (read v))"

end
