(* ===== verification/Text_Laws.thy ===== *)
theory Text_Laws
  imports Domain_Rules
begin

text \<open>
  What trimming keeps of a text: it takes whole space runes off both ends, so a
  trimmed text is trimmed already, stays valid UTF-8 and gains no control character.
\<close>

lemma drop_runes_split: "\<exists>gone. set gone \<subseteq> set rs \<and> s = concat gone @ drop_runes rs n s"
proof (induction n arbitrary: s)
  case 0
  show ?case by (intro exI [of _ "[]"]) simp
next
  case (Suc n)
  show ?case
  proof (cases "List.find (\<lambda>r. prefix r s) rs")
    case None
    then show ?thesis by (intro exI [of _ "[]"]) simp
  next
    case (Some r)
    then have r: "r \<in> set rs" "prefix r s" by (auto simp: find_Some_iff)
    from Suc.IH [of "drop (length r) s"] obtain gone where
      gone: "set gone \<subseteq> set rs" "drop (length r) s = concat gone @ drop_runes rs n (drop (length r) s)" by blast
    have "s = r @ drop (length r) s" using r(2) by (auto elim: prefixE)
    with gone(2) have "s = concat (r # gone) @ drop_runes rs (Suc n) s" using Some by simp
    with gone(1) r(1) show ?thesis by (intro exI [of _ "r # gone"]) auto
  qed
qed

lemma trim_left_split: "\<exists>gone. set gone \<subseteq> set space_runes \<and> s = concat gone @ trim_left s"
  unfolding trim_left_def by (rule drop_runes_split)

lemma concat_rev_map: "rev (concat xs) = concat (rev (map rev xs))"
  by (induction xs) simp_all

lemma trim_right_split: "\<exists>gone. set gone \<subseteq> set space_runes \<and> s = trim_right s @ concat gone"
proof -
  from drop_runes_split [of "map rev space_runes" "rev s" "length s"] obtain gone where
    gone: "set gone \<subseteq> set (map rev space_runes)" "rev s = concat gone @ rev (trim_right s)" by (auto simp: trim_right_def)
  from gone(2) have "s = trim_right s @ rev (concat gone)" by (metis rev_append rev_rev_ident)
  then have "s = trim_right s @ concat (rev (map rev gone))" by (simp only: concat_rev_map)
  moreover have "set (rev (map rev gone)) \<subseteq> set space_runes" using gone(1) by auto
  ultimately show ?thesis by blast
qed

lemma trim_space_infix: "\<exists>l r. set l \<subseteq> set space_runes \<and> set r \<subseteq> set space_runes \<and> s = concat l @ trim_space s @ concat r"
proof -
  from trim_left_split [of s] obtain l where l: "set l \<subseteq> set space_runes" "s = concat l @ trim_left s" by blast
  from trim_right_split [of "trim_left s"] obtain r where r: "set r \<subseteq> set space_runes" "trim_left s = trim_space s @ concat r"
    by (auto simp: trim_space_def)
  from l r show ?thesis by (metis append.assoc)
qed

lemma trim_space_idem [simp]: "trim_space (trim_space s) = trim_space s"
proof -
  let ?t = "trim_space s"
  from trim_right_split [of "trim_left s"] obtain r where r: "trim_left s = ?t @ concat r" by (auto simp: trim_space_def)
  have "List.find (\<lambda>x. prefix x (trim_left s)) space_runes = None"
    unfolding trim_left_def by (rule drop_runes_stable) (auto dest: space_runes_nonempty)
  then have "List.find (\<lambda>x. prefix x ?t) space_runes = None" unfolding r by (auto simp: find_None_iff)
  then have left: "trim_left ?t = ?t" unfolding trim_left_def by (rule drop_runes_none)
  have "List.find (\<lambda>x. prefix x (rev ?t)) (map rev space_runes) = None"
    unfolding trim_space_def trim_right_def rev_rev_ident
    by (rule drop_runes_stable) (auto dest: space_runes_nonempty)
  then have "trim_right ?t = ?t" unfolding trim_right_def by (simp add: drop_runes_none)
  with left show ?thesis by (simp add: trim_space_def)
qed

text \<open>The four lengths of an encoded rune.\<close>

lemma utf8_ascii: "code a < 128 \<Longrightarrow> utf8_valid (a # s) = utf8_valid s"
  by simp

lemma utf8_two: "194 \<le> code a \<Longrightarrow> code a \<le> 223 \<Longrightarrow> utf8_valid (a # s) = (\<exists>b t. s = b # t \<and> cont_byte b \<and> utf8_valid t)"
  by (cases s) simp_all

lemma utf8_three: "224 \<le> code a \<Longrightarrow> code a \<le> 239 \<Longrightarrow> utf8_valid (a # s) =
    (\<exists>b c t. s = b # c # t \<and> cont_byte b \<and> cont_byte c \<and> (code a = 224 \<longrightarrow> 160 \<le> code b) \<and> (code a = 237 \<longrightarrow> code b \<le> 159) \<and> utf8_valid t)"
  by (cases s; cases "tl s") simp_all

lemma utf8_four: "240 \<le> code a \<Longrightarrow> utf8_valid (a # s) =
    (\<exists>b c d t. s = b # c # d # t \<and> code a \<le> 244 \<and> cont_byte b \<and> cont_byte c \<and> cont_byte d \<and> (code a = 240 \<longrightarrow> 144 \<le> code b) \<and>
       (code a = 244 \<longrightarrow> code b \<le> 143) \<and> utf8_valid t)"
  by (cases s; cases "tl s"; cases "tl (tl s)") simp_all

lemma utf8_lead: "utf8_valid (a # s) \<Longrightarrow> code a < 128 \<or> 194 \<le> code a"
  by (cases s; cases "tl s"; cases "tl (tl s)") (auto split: if_splits)

lemma lead_cases:
  assumes "utf8_valid (a # s)"
  obtains "code a < 128" | "194 \<le> code a" "code a \<le> 223" | "224 \<le> code a" "code a \<le> 239" | "240 \<le> code a"
  using utf8_lead [OF assms] by linarith

lemma utf8_prefix: "utf8_valid r \<Longrightarrow> utf8_valid (r @ s) = utf8_valid s"
proof (induction r rule: length_induct)
  case (1 r)
  note IH = "1.IH" [rule_format]
  show ?case
  proof (cases r)
    case (Cons a t)
    from "1.prems" [unfolded Cons] show ?thesis
    proof (cases rule: lead_cases)
      case 1
      with "1.prems" Cons IH [of t] show ?thesis by (simp add: utf8_ascii del: utf8_valid.simps(2))
    next
      case 2
      with "1.prems" Cons obtain b u where "t = b # u" "cont_byte b" "utf8_valid u" by (auto simp: utf8_two simp del: utf8_valid.simps(2))
      with 2 Cons IH [of u] show ?thesis by (simp add: utf8_two del: utf8_valid.simps(2))
    next
      case 3
      with "1.prems" Cons obtain b c u where "t = b # c # u" "cont_byte b" "cont_byte c" "code a = 224 \<longrightarrow> 160 \<le> code b" "code a = 237 \<longrightarrow> code b \<le> 159" "utf8_valid u"
        by (auto simp: utf8_three simp del: utf8_valid.simps(2))
      with 3 Cons IH [of u] show ?thesis by (simp add: utf8_three del: utf8_valid.simps(2))
    next
      case 4
      with "1.prems" Cons obtain b c d u where "t = b # c # d # u" "cont_byte b" "cont_byte c" "cont_byte d" "code a \<le> 244"
        "code a = 240 \<longrightarrow> 144 \<le> code b" "code a = 244 \<longrightarrow> code b \<le> 143" "utf8_valid u"
        by (auto simp: utf8_four simp del: utf8_valid.simps(2))
      with 4 Cons IH [of u] show ?thesis by (simp add: utf8_four del: utf8_valid.simps(2))
    qed
  qed simp
qed

text \<open>A text that ends before the first byte of a rune is complete.\<close>

lemma utf8_suffix:
  assumes r: "r \<noteq> []" "\<not> cont_byte (hd r)"
  shows "utf8_valid (s @ r) \<Longrightarrow> utf8_valid s"
proof (induction s rule: length_induct)
  case (1 s)
  note IH = "1.IH" [rule_format]
  obtain x y where xy: "r = x # y" "\<not> cont_byte x" using r by (cases r) auto
  show ?case
  proof (cases s)
    case (Cons a t)
    from "1.prems" [unfolded Cons append_Cons] show ?thesis
    proof (cases rule: lead_cases)
      case 1
      with "1.prems" Cons IH [of t] show ?thesis by (simp add: utf8_ascii del: utf8_valid.simps(2))
    next
      case 2
      with "1.prems" Cons obtain b u where u: "t @ r = b # u" "cont_byte b" "utf8_valid u" by (auto simp: utf8_two simp del: utf8_valid.simps(2))
      with xy obtain t' where "t = b # t'" "u = t' @ r" by (cases t) auto
      with u 2 Cons IH [of t'] show ?thesis by (simp add: utf8_two del: utf8_valid.simps(2))
    next
      case 3
      with "1.prems" Cons obtain b c u where u: "t @ r = b # c # u" "cont_byte b" "cont_byte c" "code a = 224 \<longrightarrow> 160 \<le> code b"
        "code a = 237 \<longrightarrow> code b \<le> 159" "utf8_valid u" by (auto simp: utf8_three simp del: utf8_valid.simps(2))
      with xy obtain t' where "t = b # c # t'" "u = t' @ r" by (cases t; cases "tl t") auto
      with u 3 Cons IH [of t'] show ?thesis by (simp add: utf8_three del: utf8_valid.simps(2))
    next
      case 4
      with "1.prems" Cons obtain b c d u where u: "t @ r = b # c # d # u" "cont_byte b" "cont_byte c" "cont_byte d" "code a \<le> 244"
        "code a = 240 \<longrightarrow> 144 \<le> code b" "code a = 244 \<longrightarrow> code b \<le> 143" "utf8_valid u" by (auto simp: utf8_four simp del: utf8_valid.simps(2))
      with xy obtain t' where "t = b # c # d # t'" "u = t' @ r" by (cases t; cases "tl t"; cases "tl (tl t)") auto
      with u 4 Cons IH [of t'] show ?thesis by (simp add: utf8_four del: utf8_valid.simps(2))
    qed
  qed simp
qed

lemma space_rune_utf8:
  assumes "r \<in> set space_runes"
  shows "utf8_valid r" "\<not> cont_byte (hd r)"
proof -
  have "utf8_valid r \<and> \<not> cont_byte (hd r)"
    using assms unfolding space_runes_def set_append Un_iff by (elim disjE) (auto simp: cont_byte_def of_char_of)
  then show "utf8_valid r" "\<not> cont_byte (hd r)" by blast+
qed

lemma utf8_trim: "utf8_valid s \<Longrightarrow> utf8_valid (trim_space s)"
proof -
  assume s: "utf8_valid s"
  from trim_space_infix [of s] obtain l r where lr: "set l \<subseteq> set space_runes" "set r \<subseteq> set space_runes" "s = concat l @ trim_space s @ concat r" by blast
  have start: "utf8_valid (concat gone @ t) \<Longrightarrow> utf8_valid t" if "set gone \<subseteq> set space_runes" for gone t
    using that
  proof (induction gone)
    case (Cons x xs)
    then have "utf8_valid x" using space_rune_utf8 by auto
    with Cons show ?case by (simp add: utf8_prefix)
  qed simp
  have ending: "utf8_valid (t @ concat gone) \<Longrightarrow> utf8_valid t" if "set gone \<subseteq> set space_runes" for gone t
    using that
  proof (induction gone rule: rev_induct)
    case (snoc x xs)
    then have x: "x \<in> set space_runes" and valid: "utf8_valid ((t @ concat xs) @ x)" by simp_all
    from utf8_suffix [OF space_runes_nonempty [OF x] space_rune_utf8(2) [OF x] valid] snoc show ?case by simp
  qed simp
  from s lr(3) have "utf8_valid (trim_space s @ concat r)" using start [OF lr(1)] by metis
  then show ?thesis using ending [OF lr(2)] by blast
qed

lemma control_prefix: "has_control x \<Longrightarrow> has_control (l @ x)"
  by (induction l) auto

lemma control_suffix: "has_control x \<Longrightarrow> has_control (x @ r)"
  by (induction x) auto

lemma control_trim: "has_control (trim_space s) \<Longrightarrow> has_control s"
  using trim_space_infix [of s] control_prefix control_suffix by metis

end
