(* ===== verification/Http_Server.thy ===== *)
theory Http_Server
  imports Complex_Main Json_Values Authz Installation_Broker Account_Broker Product_Directory Outbox_Store
begin

text \<open>
  The HTTP layer of \<^verbatim>\<open>internal/httpapi/server.go\<close>: decoding of JSON bodies, the
  answers and their headers, the token buckets in front of the public routes, the
  role check in front of the internal ones, the scope of a workload, and the health
  and readiness probes.  The \<^verbatim>\<open>float64\<close> token count of a bucket is a rational number
  here, so its arithmetic is exact.
\<close>

section \<open>Requests and answers\<close>

text \<open>
  The path is the list of its segments; header names are in canonical form and a
  header may be repeated.
\<close>

type_synonym headers = "(string \<times> string) list"

record Request =
  hr_Method :: string
  hr_Path :: "string list"
  hr_RawQuery :: string
  hr_Header :: headers
  hr_Body :: bytes

record Response =
  hp_status :: nat
  hp_header :: headers
  hp_body :: "jvalue option"

definition header_values :: "headers \<Rightarrow> string \<Rightarrow> string list" where
  "header_values h n = map snd (filter (\<lambda>x. fst x = n) h)"

definition header_get :: "headers \<Rightarrow> string \<Rightarrow> string" where
  "header_get h n = (case header_values h n of [] \<Rightarrow> '''' | v # _ \<Rightarrow> v)"

definition header_set :: "string \<Rightarrow> string \<Rightarrow> headers \<Rightarrow> headers" where
  "header_set n v h = filter (\<lambda>x. fst x \<noteq> n) h @ [(n, v)]"

lemma header_get_set [simp]: "header_get (header_set n v h) m = (if m = n then v else header_get h m)"
proof -
  have "header_values (header_set n v h) m = (if m = n then [v] else header_values h m)"
    by (auto simp: header_values_def header_set_def filter_empty_conv intro!: arg_cong [where f = "map snd"] filter_cong)
  then show ?thesis by (simp add: header_get_def)
qed

definition writeJSON :: "headers \<Rightarrow> nat \<Rightarrow> jvalue \<Rightarrow> Response" where
  "writeJSON h status v =
     (let h1 = header_set ''Content-Type'' ''application/json'' h;
          h2 = (if header_get h1 ''Cache-Control'' = '''' then header_set ''Cache-Control'' ''no-store'' h1 else h1)
      in \<lparr>hp_status = status, hp_header = h2, hp_body = Some v\<rparr>)"

definition errorResponse :: "string \<Rightarrow> jvalue" where
  "errorResponse e = VObj [(''error'', VStr e)]"

definition fail_status :: "error \<Rightarrow> nat \<times> string" where
  "fail_status e =
     (if e = ErrInvalid then (400, ''invalid_request'')
      else if e = ErrForbidden then (403, ''forbidden'')
      else if e = ErrNotFound then (404, ''not_found'')
      else if e = ErrConflict then (409, ''conflict'')
      else (500, ''internal_error''))"

definition fail :: "headers \<Rightarrow> error \<Rightarrow> Response" where
  "fail h e = writeJSON h (fst (fail_status e)) (errorResponse (snd (fail_status e)))"

definition maxRequestBody :: nat where "maxRequestBody = 64 * 1024"
definition maxPublicRequestBody :: nat where "maxPublicRequestBody = 4 * 1024"

text \<open>
  A body over the limit fails on the first or on the second value that the decoder
  is asked for; within the limit, the second one must be the end of the body.
\<close>

definition decodeJSONLimit :: "http_lib \<Rightarrow> nat \<Rightarrow> (jvalue \<Rightarrow> 'a option) \<Rightarrow> Request \<Rightarrow> 'a result" where
  "decodeJSONLimit lib limit read r =
     (if media_type lib (header_get (hr_Header r) ''Content-Type'') \<noteq> Some ''application/json'' then Inl ErrInvalid
      else if limit < length (hr_Body r) then Inl ErrInvalid
      else case js_next lib (hr_Body r) of
        None \<Rightarrow> Inl ErrInvalid
      | Some (v, rest) \<Rightarrow>
          (case read v of
             None \<Rightarrow> Inl ErrInvalid
           | Some x \<Rightarrow> if list_all json_space rest then Inr x else Inl ErrInvalid))"

definition decodeJSON :: "http_lib \<Rightarrow> (jvalue \<Rightarrow> 'a option) \<Rightarrow> Request \<Rightarrow> 'a result" where
  "decodeJSON lib = decodeJSONLimit lib maxRequestBody"

lemma decodeJSONLimit_Inl: "decodeJSONLimit lib limit read r = Inl e \<Longrightarrow> e = ErrInvalid"
  by (auto simp: decodeJSONLimit_def split: if_splits option.splits)

section \<open>Token buckets\<close>

record tokenBucket =
  tb_capacity :: rat
  tb_tokens :: rat
  tb_interval :: duration
  tb_last :: time

definition newTokenBucket :: "time \<Rightarrow> nat \<Rightarrow> duration \<Rightarrow> tokenBucket" where
  "newTokenBucket now capacity interval =
     \<lparr>tb_capacity = of_nat capacity, tb_tokens = of_nat capacity, tb_interval = interval, tb_last = now\<rparr>"

definition refill :: "time \<Rightarrow> tokenBucket \<Rightarrow> tokenBucket" where
  "refill now b =
     (let tokens = tb_tokens b + of_int (now - tb_last b) / of_int (tb_interval b) in
      b\<lparr>tb_tokens := (if tokens > tb_capacity b then tb_capacity b else tokens), tb_last := now\<rparr>)"

definition Allow :: "time \<Rightarrow> tokenBucket \<Rightarrow> bool \<times> tokenBucket" where
  "Allow now b =
     (let b1 = refill now b in
      if tb_tokens b1 < 1 then (False, b1) else (True, b1\<lparr>tb_tokens := tb_tokens b1 - 1\<rparr>))"

text \<open>What a request leaves in the bucket, and what the bucket has gained since the last one.\<close>

lemma Allow_keeps:
  assumes "Allow now b = (ok, b')"
  shows "tb_capacity b' = tb_capacity b" "tb_interval b' = tb_interval b" "tb_last b' = now"
  using assms by (auto simp: Allow_def refill_def Let_def split: if_splits)

lemma Allow_pays:
  assumes "Allow now b = (ok, b')"
  shows "tb_tokens b' + (if ok then 1 else 0) \<le> tb_tokens b + of_int (now - tb_last b) / of_int (tb_interval b)"
    and "tb_tokens b' + (if ok then 1 else 0) \<le> tb_capacity b"
  using assms by (auto simp: Allow_def refill_def Let_def split: if_splits)

definition bucket_ok :: "tokenBucket \<Rightarrow> bool" where
  "bucket_ok b \<longleftrightarrow> 0 \<le> tb_tokens b \<and> tb_tokens b \<le> tb_capacity b \<and> 0 < tb_interval b"

lemma new_bucket_ok: "0 < interval \<Longrightarrow> bucket_ok (newTokenBucket now capacity interval)"
  by (simp add: bucket_ok_def newTokenBucket_def)

lemma Allow_ok:
  assumes b: "bucket_ok b" and time: "tb_last b \<le> now" and allow: "Allow now b = (ok, b')"
  shows "bucket_ok b'"
proof -
  have gain: "0 \<le> of_int (now - tb_last b) / (of_int (tb_interval b) :: rat)"
    using b time by (simp add: bucket_ok_def)
  then have "0 \<le> tb_tokens b + of_int (now - tb_last b) / of_int (tb_interval b)"
    using b unfolding bucket_ok_def by linarith
  with allow b show ?thesis by (auto simp: Allow_def refill_def Let_def bucket_ok_def split: if_splits)
qed

text \<open>An idle interval always pays for one request.\<close>

lemma Allow_after_interval:
  assumes b: "bucket_ok b" "1 \<le> tb_capacity b" and idle: "tb_last b + tb_interval b \<le> now"
  shows "fst (Allow now b)"
proof -
  have "1 \<le> of_int (now - tb_last b) / (of_int (tb_interval b) :: rat)"
    using b idle by (simp add: bucket_ok_def le_divide_eq)
  then have "1 \<le> tb_tokens b + of_int (now - tb_last b) / of_int (tb_interval b)"
    using b unfolding bucket_ok_def by linarith
  with b show ?thesis by (simp add: Allow_def refill_def Let_def)
qed

text \<open>
  A server whose requests pass only with a token of the bucket: however the requests
  are answered otherwise, the bucket bounds how many of them pass.
\<close>

fun run_all :: "('x \<Rightarrow> 's \<Rightarrow> 'a \<times> 's) \<Rightarrow> 'x list \<Rightarrow> 's \<Rightarrow> 'a list" where
  "run_all step [] s = []"
| "run_all step (x # xs) s = (case step x s of (a, s') \<Rightarrow> a # run_all step xs s')"

locale gated =
  fixes step :: "'x \<Rightarrow> 's \<Rightarrow> 'a \<times> 's"
    and bucket :: "'s \<Rightarrow> tokenBucket"
    and arrives :: "'x \<Rightarrow> time"
    and passes :: "'x \<Rightarrow> 'a \<Rightarrow> bool"
  assumes gate: "step x s = (a, s') \<Longrightarrow>
    (bucket s' = bucket s \<and> \<not> passes x a) \<or> (\<exists>ok. Allow (arrives x) (bucket s) = (ok, bucket s') \<and> (passes x a \<longrightarrow> ok))"
begin

definition passed :: "'x list \<Rightarrow> 's \<Rightarrow> nat" where
  "passed xs s = length (filter (\<lambda>(x, a). passes x a) (zip xs (run_all step xs s)))"

lemma passed_Cons: "step x s = (a, s') \<Longrightarrow> passed (x # xs) s = (if passes x a then 1 else 0) + passed xs s'"
  by (simp add: passed_def)

lemma passed_bound:
  "bucket_ok (bucket s) \<Longrightarrow> sorted (tb_last (bucket s) # map arrives xs) \<Longrightarrow>
     of_nat (passed xs s) \<le> tb_tokens (bucket s) +
       (of_int (last (tb_last (bucket s) # map arrives xs) - tb_last (bucket s)) / of_int (tb_interval (bucket s)) :: rat)"
proof (induction xs arbitrary: s)
  case Nil
  then show ?case by (simp add: bucket_ok_def passed_def)
next
  case (Cons x xs)
  obtain a s' where x: "step x s = (a, s')" by fastforce
  let ?t = "arrives x" and ?l = "tb_last (bucket s)" and ?i = "of_int (tb_interval (bucket s)) :: rat"
  let ?e = "last (?t # map arrives xs)"
  from gate [OF x] show ?case
  proof (elim disjE conjE exE)
    assume same: "bucket s' = bucket s" and none: "\<not> passes x a"
    have "of_nat (passed xs s') \<le> tb_tokens (bucket s) + of_int (last (?l # map arrives xs) - ?l) / ?i"
      using Cons.IH [of s'] Cons.prems same by simp
    moreover have "last (?l # map arrives xs) \<le> ?e" using Cons.prems(2) by (cases xs) auto
    then have "of_int (last (?l # map arrives xs) - ?l) / ?i \<le> of_int (?e - ?l) / ?i"
      using Cons.prems(1) by (intro divide_right_mono) (simp_all add: bucket_ok_def)
    ultimately have "of_nat (passed xs s') \<le> tb_tokens (bucket s) + of_int (?e - ?l) / ?i" by linarith
    then show ?thesis using none by (simp add: passed_Cons [OF x])
  next
    fix ok assume allow: "Allow ?t (bucket s) = (ok, bucket s')" and pass: "passes x a \<longrightarrow> ok"
    note keeps = Allow_keeps [OF allow]
    have "bucket_ok (bucket s')" by (rule Allow_ok [OF Cons.prems(1) _ allow]) (use Cons.prems(2) in simp)
    then have "of_nat (passed xs s') \<le> tb_tokens (bucket s') + of_int (?e - ?t) / ?i"
      using Cons.IH [of s'] Cons.prems(2) keeps by simp
    moreover have "tb_tokens (bucket s') + (if ok then 1 else 0) \<le> tb_tokens (bucket s) + of_int (?t - ?l) / ?i"
      by (rule Allow_pays(1) [OF allow])
    moreover have "of_int (?e - ?t) / ?i + of_int (?t - ?l) / ?i = of_int (?e - ?l) / ?i"
      by (simp add: add_divide_distrib [symmetric] flip: of_int_add)
    ultimately have "of_nat (passed xs s') + (if ok then 1 else 0) \<le> tb_tokens (bucket s) + of_int (?e - ?l) / ?i" by linarith
    then show ?thesis using pass by (simp add: passed_Cons [OF x] split: if_splits)
  qed
qed

end

section \<open>The server\<close>

record Server =
  sv_lib :: token_lib
  sv_http :: http_lib
  sv_sha256 :: "string \<Rightarrow> bytes"
  sv_hmac :: hmac
  sv_identities :: IdentityService
  sv_tokens :: Signer
  sv_authenticator :: "credential list"
  sv_pairwise :: Generator
  sv_products :: "(string \<times> string) list"
  sv_publicBroker :: "Broker option"
  sv_publicAccounts :: "AccountBroker option"
  sv_directory :: "Directory option"
  sv_publicOrigins :: "string list"
  sv_requireOutbox :: bool
  sv_outboxMaxAge :: duration

text \<open>The state behind the server: the database with its schema version, and the two buckets of the public routes.\<close>

record server_state =
  st_db :: db
  st_schema :: "uint64 option"
  st_requests :: tokenBucket
  st_registers :: tokenBucket

text \<open>
  What one request sees of the world: the instants at which the buckets of the routes
  and the error answer read the clock, those at which the operation reads it, the
  identifiers and random values that it draws, the database that its read-only calls
  find, and what other requests do to the database before its \<open>k\<close>-th transaction.
\<close>

record world =
  wd_arrival :: time
  wd_admission :: time
  wd_answer :: time
  wd_clock :: "nat \<Rightarrow> time"
  wd_fresh :: "nat \<Rightarrow> string"
  wd_service :: draws
  wd_challenge :: challenge_draws
  wd_session :: session_draws
  wd_view :: "nat \<Rightarrow> db"
  wd_others :: "nat \<Rightarrow> db \<Rightarrow> db"

section \<open>Probes\<close>

definition health :: "headers \<Rightarrow> Response" where
  "health h = writeJSON h 200 (VObj [(''status'', VStr ''ok'')])"

definition schema_Version :: uint64 where "schema_Version = 2"

definition Store_Ready :: "uint64 option \<Rightarrow> unit result" where
  "Store_Ready version =
     rbind (some_or (ErrMessage ''no rows'') version) (\<lambda>v.
     if v \<noteq> schema_Version then Inl (ErrMessage ''unexpected YDB schema version'') else Inr ())"

definition ready :: "Server \<Rightarrow> world \<Rightarrow> headers \<Rightarrow> server_state \<Rightarrow> Response" where
  "ready s w h st =
     (case Store_Ready (st_schema st) of
        Inl _ \<Rightarrow> writeJSON h 503 (VObj [(''status'', VStr ''unavailable'')])
      | Inr _ \<Rightarrow>
          if sv_requireOutbox s \<and> OutboxReady (wd_clock w 0) (sv_outboxMaxAge s) (wd_view w 0) \<noteq> Inr ()
          then writeJSON h 503 (VObj [(''status'', VStr ''outbox_unavailable'')])
          else writeJSON h 200 (VObj [(''status'', VStr ''ready'')]))"

definition jwks :: "Server \<Rightarrow> headers \<Rightarrow> Response" where
  "jwks s h = writeJSON (header_set ''Cache-Control'' ''public, max-age=300'' h) 200
     (VObj [(''keys'', VArr (map (\<lambda>key. VObj (map (\<lambda>(n, v). (n, VStr v)) key)) (JWKS (sv_tokens s))))])"

section \<open>Authorization\<close>

type_synonym handler = "headers \<Rightarrow> server_state \<Rightarrow> Response \<times> server_state"

definition require :: "Server \<Rightarrow> string \<Rightarrow> Request \<Rightarrow> (Principal \<Rightarrow> handler) \<Rightarrow> handler" where
  "require s role r next_handler h st =
     (case Authenticate (sv_sha256 s) (sv_authenticator s) (header_get (hr_Header r) ''Authorization'') of
        None \<Rightarrow> (writeJSON h 401 (errorResponse ''unauthorized''), st)
      | Some p \<Rightarrow>
          if \<not> Has p role then (writeJSON h 403 (errorResponse ''forbidden''), st)
          else next_handler p h st)"

definition cors_headers :: "string \<Rightarrow> headers \<Rightarrow> headers" where
  "cors_headers origin h =
     header_set ''Vary'' ''Origin''
     (header_set ''Access-Control-Allow-Headers'' ''Authorization, Content-Type''
     (header_set ''Access-Control-Allow-Methods'' ''POST, PUT, OPTIONS''
     (header_set ''Access-Control-Allow-Origin'' origin h)))"

definition public :: "Server \<Rightarrow> time \<Rightarrow> Request \<Rightarrow> handler \<Rightarrow> handler" where
  "public s now r next_handler h st =
     (case Allow now (st_requests st) of
        (False, b) \<Rightarrow> (writeJSON (header_set ''Retry-After'' ''1'' h) 429 (errorResponse ''rate_limited''), st\<lparr>st_requests := b\<rparr>)
      | (True, b) \<Rightarrow>
          let origin = header_get (hr_Header r) ''Origin''; st1 = st\<lparr>st_requests := b\<rparr> in
          if origin \<noteq> '''' \<and> origin \<notin> set (sv_publicOrigins s)
          then (writeJSON h 403 (errorResponse ''forbidden_origin''), st1)
          else next_handler (if origin = '''' then h else cors_headers origin h) st1)"

definition authorizeProduct :: "Server \<Rightarrow> Principal \<Rightarrow> string \<Rightarrow> (string \<times> string) result" where
  "authorizeProduct s workload requested =
     rbind (if requested = '''' then some_or ErrInvalid (SingleProduct workload) else Inr requested) (\<lambda>productID.
     case map_of (sv_products s) productID of
       None \<Rightarrow> Inl ErrForbidden
     | Some audience \<Rightarrow> if \<not> AllowsProduct workload productID then Inl ErrForbidden else Inr (productID, audience))"

lemma authorizeProduct_scoped:
  assumes "authorizeProduct s workload requested = Inr (productID, audience)"
  shows "AllowsProduct workload productID" "map_of (sv_products s) productID = Some audience"
    "requested \<noteq> '''' \<Longrightarrow> productID = requested"
  using assms by (auto simp: authorizeProduct_def split: if_splits option.splits)

text \<open>
  The outermost handler: the identification of the request and the hardening headers,
  and the answer to a panic that has not written anything yet (\<open>None\<close>).
\<close>

definition base_headers :: "string \<Rightarrow> headers" where
  "base_headers requestID =
     header_set ''Referrer-Policy'' ''no-referrer'' (header_set ''X-Content-Type-Options'' ''nosniff''
       (header_set ''X-Request-Id'' requestID []))"

definition middleware :: "string \<Rightarrow> (headers \<Rightarrow> server_state \<Rightarrow> Response option \<times> server_state) \<Rightarrow> server_state \<Rightarrow> Response \<times> server_state" where
  "middleware requestID next_handler st =
     (case next_handler (base_headers requestID) st of
        (Some answer, st') \<Rightarrow> (answer, st')
      | (None, st') \<Rightarrow> (writeJSON (base_headers requestID) 500 (errorResponse ''internal_error''), st'))"

end
