(* ===== verification/Http_Handlers.thy ===== *)
theory Http_Handlers
  imports Http_Server Privacy_Store Organization_Store
begin

text \<open>
  The handlers of the internal routes: \<^verbatim>\<open>identity_handlers.go\<close>,
  \<^verbatim>\<open>subject_handlers.go\<close> and \<^verbatim>\<open>organization_handlers.go\<close> of \<^verbatim>\<open>internal/httpapi\<close>.
  A handler runs a sequence of store calls, each a transaction of its own, and ends
  in an error, which \<open>fail\<close> turns into an answer, or in a status and a JSON value.
  Before its \<open>k\<close>-th call other requests may have changed the database (\<open>wd_others\<close>).
\<close>

section \<open>Sequences of transactions\<close>

definition sbind :: "'a result \<times> db \<Rightarrow> ('a \<Rightarrow> db \<Rightarrow> 'b result \<times> db) \<Rightarrow> 'b result \<times> db" where
  "sbind m f = (case m of (Inl e, d) \<Rightarrow> (Inl e, d) | (Inr x, d) \<Rightarrow> f x d)"

definition given :: "'a result \<Rightarrow> db \<Rightarrow> 'a result \<times> db" where
  "given x d = (x, d)"

definition commit :: "(db \<Rightarrow> db result) \<Rightarrow> db \<Rightarrow> unit result \<times> db" where
  "commit body d = (case body d of Inl e \<Rightarrow> (Inl e, d) | Inr d' \<Rightarrow> (Inr (), d'))"

lemma sbind_simps [simp]:
  "sbind (Inl e, d) f = (Inl e, d)"
  "sbind (Inr x, d) f = f x d"
  by (simp_all add: sbind_def)

lemma sbind_Inr: "sbind m f = (Inr y, d') \<longleftrightarrow> (\<exists>x d. m = (Inr x, d) \<and> f x d = (Inr y, d'))"
  by (auto simp: sbind_def split: prod.splits sum.splits)

lemma given_Inr [simp]: "given x d = (Inr y, d') \<longleftrightarrow> x = Inr y \<and> d' = d"
  by (auto simp: given_def)

lemma commit_Inr [simp]: "commit body d = (Inr u, d') \<longleftrightarrow> body d = Inr d'"
  by (auto simp: commit_def split: sum.splits)

type_synonym outcome = "(nat \<times> jvalue) result \<times> db"

text \<open>A guard of the form \<^verbatim>\<open>err != nil || ...\<close> that reports \<open>err\<close> when it is set and \<open>ErrInvalid\<close> otherwise.\<close>

definition checked :: "'a result \<Rightarrow> bool \<Rightarrow> 'a result" where
  "checked m ok = rbind m (\<lambda>x. if ok then Inr x else Inl ErrInvalid)"

lemma checked_Inr [simp]: "checked m ok = Inr x \<longleftrightarrow> m = Inr x \<and> ok"
  by (auto simp: checked_def split: if_splits)

definition trimmed :: "string \<Rightarrow> nat \<Rightarrow> string" where
  "trimmed s limit = fst (TrimmedWithin s 1 limit)"

definition trims :: "string \<Rightarrow> nat \<Rightarrow> bool" where
  "trims s limit = snd (TrimmedWithin s 1 limit)"

definition timeJSON :: "time \<Rightarrow> jvalue" where "timeJSON t = VStr (format_rfc3339 t)"

section \<open>Subjects of a request\<close>

definition rootSubject :: "ResolvedAlias \<Rightarrow> Subject" where
  "rootSubject a = (if ra_PersonID a \<noteq> '''' then \<lparr>su_Kind = ''person'', su_ID = ra_PersonID a\<rparr>
     else \<lparr>su_Kind = ''installation'', su_ID = ra_SubjectID a\<rparr>)"

definition subjectTypeMatches :: "string \<Rightarrow> string \<Rightarrow> bool" where
  "subjectTypeMatches requested resolved \<longleftrightarrow> requested = resolved \<or> (requested = ''person'' \<and> resolved = ''account'')"

definition productAudience :: "Server \<Rightarrow> string \<Rightarrow> string result" where
  "productAudience s product = some_or ErrInvalid (map_of (sv_products s) product)"

text \<open>The lookup of the subject of a request: whatever goes wrong, the subject is not found.\<close>

definition resolve_subject :: "db \<Rightarrow> string \<Rightarrow> string \<Rightarrow> string \<Rightarrow> (ResolvedAlias \<Rightarrow> bool) \<Rightarrow> ResolvedAlias result" where
  "resolve_subject d key productID audience fits =
     (case ResolveSubjectAlias d key productID audience of
        Inl _ \<Rightarrow> Inl ErrNotFound
      | Inr a \<Rightarrow> if fits a then Inr a else Inl ErrNotFound)"

lemma resolve_subject_Inr [simp]:
  "resolve_subject d key productID audience fits = Inr a \<longleftrightarrow> ResolveSubjectAlias d key productID audience = Inr a \<and> fits a"
  by (auto simp: resolve_subject_def split: sum.splits)

abbreviation pairwise_key :: "Server \<Rightarrow> string \<Rightarrow> string \<Rightarrow> string \<Rightarrow> string \<Rightarrow> string" where
  "pairwise_key s \<equiv> pairwise_Subject (sv_hmac s) (sv_pairwise s)"

section \<open>Identity handlers\<close>

record installation_input =
  xi_ProductID :: string
  xi_Platform :: string

definition read_installation_input :: "jvalue \<Rightarrow> installation_input option" where
  "read_installation_input = read_object [''product_id'', ''platform''] (\<lambda>vs.
     obind (take_values take_string '''' (vs ''product_id'')) (\<lambda>product.
     obind (take_values take_string '''' (vs ''platform'')) (\<lambda>platform.
       Some \<lparr>xi_ProductID = product, xi_Platform = platform\<rparr>)))"

definition createInstallation :: "Server \<Rightarrow> world \<Rightarrow> Request \<Rightarrow> Principal \<Rightarrow> db \<Rightarrow> outcome" where
  "createInstallation s w r p d =
     sbind (given (decodeJSON (sv_http s) read_installation_input r) d) (\<lambda>input d.
     sbind (given (checked (authorizeProduct s p (xi_ProductID input)) (trims (xi_Platform input) 64)) d) (\<lambda>(productID, audience) d.
     sbind (serializable (CreateInstallation (wd_clock w 0)
         \<lparr>in_ID = wd_fresh w 0, in_ProductID = productID, in_Platform = trimmed (xi_Platform input) 64, in_CreatedAt = zero_time\<rparr>)
         (wd_others w 0 d)) (\<lambda>(inst, _) d.
     let opaqueKey = pairwise_key s productID audience ''installation'' (in_ID inst) in
     sbind (commit (EnsureSubjectAlias (wd_clock w 1) opaqueKey productID audience ''installation'' (in_ID inst)) (wd_others w 1 d)) (\<lambda>_ d.
     (Inr (201, VObj [(''installation_key'', VStr opaqueKey), (''product'', VStr productID), (''platform'', VStr (in_Platform inst)),
        (''created_at'', timeJSON (in_CreatedAt inst))]), d)))))"

record begin_verification_input =
  xb_ProductID :: string
  xb_Email :: string
  xb_IdentityNamespace :: string
  xb_AgeCategory :: string
  xb_GuardianRelationship :: "string option"
  xb_LinkAcrossProducts :: bool
  xb_InstallationKey :: "string option"

definition read_begin_verification_input :: "jvalue \<Rightarrow> begin_verification_input option" where
  "read_begin_verification_input = read_object [''product_id'', ''email'', ''identity_namespace'', ''age_category'',
       ''guardian_relationship'', ''link_across_products'', ''installation_key''] (\<lambda>vs.
     obind (take_values take_string '''' (vs ''product_id'')) (\<lambda>product.
     obind (take_values take_string '''' (vs ''email'')) (\<lambda>email.
     obind (take_values take_string '''' (vs ''identity_namespace'')) (\<lambda>namespace.
     obind (take_values take_string '''' (vs ''age_category'')) (\<lambda>age.
     obind (take_values take_pointer None (vs ''guardian_relationship'')) (\<lambda>guardian.
     obind (take_values take_bool False (vs ''link_across_products'')) (\<lambda>link.
     obind (take_values take_pointer None (vs ''installation_key'')) (\<lambda>key.
       Some \<lparr>xb_ProductID = product, xb_Email = email, xb_IdentityNamespace = namespace, xb_AgeCategory = age,
         xb_GuardianRelationship = guardian, xb_LinkAcrossProducts = link, xb_InstallationKey = key\<rparr>))))))))"

definition installation_of_key :: "world \<Rightarrow> string \<Rightarrow> string \<Rightarrow> string option \<Rightarrow> string option result" where
  "installation_of_key w productID audience key =
     (case key of
        None \<Rightarrow> Inr None
      | Some k \<Rightarrow>
          if \<not> pairwise_Valid k then Inl ErrInvalid
          else rbind (resolve_subject (wd_view w 0) k productID audience (\<lambda>a. ra_SubjectType a = ''installation'')) (\<lambda>a.
            Inr (Some (ra_SubjectID a))))"

definition beginEmailVerification :: "Server \<Rightarrow> world \<Rightarrow> Request \<Rightarrow> Principal \<Rightarrow> db \<Rightarrow> outcome" where
  "beginEmailVerification s w r p d =
     sbind (given (decodeJSON (sv_http s) read_begin_verification_input r) d) (\<lambda>input d.
     sbind (given (authorizeProduct s p (xb_ProductID input)) d) (\<lambda>(productID, audience) d.
     sbind (given (installation_of_key w productID audience (xb_InstallationKey input)) d) (\<lambda>installationID d.
     sbind (serializable (BeginEmailVerification (sv_identities s) (wd_clock w 0) (wd_service w)
         \<lparr>bg_ProductID = productID, bg_Email = xb_Email input, bg_Namespace = xb_IdentityNamespace input,
          bg_AgeCategory = xb_AgeCategory input, bg_GuardianRelationship = xb_GuardianRelationship input,
          bg_LinkAcrossProducts = xb_LinkAcrossProducts input, bg_InstallationID = installationID\<rparr>) (wd_others w 0 d)) (\<lambda>(verificationID, expiresAt) d.
     (Inr (202, VObj [(''verification_id'', VStr verificationID), (''status'', VStr ''pending''), (''expires_at'', timeJSON expiresAt)]), d)))))"

record ownership_input =
  xo_ProductID :: string
  xo_EvidenceID :: string

definition read_ownership_input :: "jvalue \<Rightarrow> ownership_input option" where
  "read_ownership_input = read_object [''product_id'', ''evidence_id''] (\<lambda>vs.
     obind (take_values take_string '''' (vs ''product_id'')) (\<lambda>product.
     obind (take_values take_string '''' (vs ''evidence_id'')) (\<lambda>evidence.
       Some \<lparr>xo_ProductID = product, xo_EvidenceID = evidence\<rparr>)))"

definition verifyEmailOwnership :: "Server \<Rightarrow> world \<Rightarrow> Request \<Rightarrow> string \<Rightarrow> Principal \<Rightarrow> db \<Rightarrow> outcome" where
  "verifyEmailOwnership s w r verificationID p d =
     sbind (given (decodeJSON (sv_http s) read_ownership_input r) d) (\<lambda>input d.
     sbind (given (checked (authorizeProduct s p (xo_ProductID input)) (ValidUUID verificationID \<and> trims (xo_EvidenceID input) 200)) d) (\<lambda>(productID, _) d.
     sbind (commit (VerifyEmailOwnership verificationID productID (pn_ID p) (trimmed (xo_EvidenceID input) 200) (wd_clock w 0)) (wd_others w 0 d)) (\<lambda>_ d.
     (Inr (200, VObj [(''verification_id'', VStr verificationID), (''status'', VStr ''verified'')]), d))))"

record register_input =
  xr_ProductID :: string
  xr_VerificationID :: string
  xr_CreateAccount :: bool

definition read_register_input :: "jvalue \<Rightarrow> register_input option" where
  "read_register_input = read_object [''product_id'', ''verification_id'', ''create_account''] (\<lambda>vs.
     obind (take_values take_string '''' (vs ''product_id'')) (\<lambda>product.
     obind (take_values take_string '''' (vs ''verification_id'')) (\<lambda>verification.
     obind (take_values take_bool False (vs ''create_account'')) (\<lambda>create.
       Some \<lparr>xr_ProductID = product, xr_VerificationID = verification, xr_CreateAccount = create\<rparr>))))"

text \<open>The transactions of the completion itself are interleaved as \<open>CompleteEmailVerification\<close> says (\<open>wd_others\<close> 1 and 2).\<close>

definition registerEmailIdentity :: "Server \<Rightarrow> world \<Rightarrow> Request \<Rightarrow> Principal \<Rightarrow> db \<Rightarrow> outcome" where
  "registerEmailIdentity s w r p d =
     sbind (given (decodeJSON (sv_http s) read_register_input r) d) (\<lambda>input d.
     sbind (given (checked (authorizeProduct s p (xr_ProductID input)) (ValidUUID (xr_VerificationID input))) d) (\<lambda>(productID, audience) d.
     sbind (CompleteEmailVerification (sv_identities s) (wd_clock w) (wd_service w) (wd_others w) (xr_VerificationID input) productID
         (xr_CreateAccount input) (wd_others w 0 d)) (\<lambda>result d.
     let (subjectType, rootID) = (if re_AccountID result \<noteq> '''' then (''account'', re_AccountID result) else (''person'', re_PersonID result));
         subjectKey = pairwise_key s productID audience subjectType rootID;
         personKey = pairwise_key s productID audience ''person'' (re_PersonID result) in
     sbind (commit (EnsureSubjectAlias (wd_clock w 2) subjectKey productID audience subjectType rootID) (wd_others w 3 d)) (\<lambda>_ d.
     sbind (commit (EnsureSubjectAlias (wd_clock w 3) personKey productID audience ''person'' (re_PersonID result)) (wd_others w 4 d)) (\<lambda>_ d.
     (Inr (if re_Created result then 201 else 200, VObj [(''subject_type'', VStr subjectType), (''subject_key'', VStr subjectKey)]), d))))))"

record token_input =
  xt_ProductID :: string
  xt_SubjectType :: string
  xt_SubjectKey :: string
  xt_TTLSeconds :: int

definition read_token_input :: "jvalue \<Rightarrow> token_input option" where
  "read_token_input = read_object [''product_id'', ''subject_type'', ''subject_key'', ''ttl_seconds''] (\<lambda>vs.
     obind (take_values take_string '''' (vs ''product_id'')) (\<lambda>product.
     obind (take_values take_string '''' (vs ''subject_type'')) (\<lambda>type.
     obind (take_values take_string '''' (vs ''subject_key'')) (\<lambda>key.
     obind (take_values take_int64 0 (vs ''ttl_seconds'')) (\<lambda>ttl.
       Some \<lparr>xt_ProductID = product, xt_SubjectType = type, xt_SubjectKey = key, xt_TTLSeconds = ttl\<rparr>)))))"

text \<open>
  The key of the person behind an account is made sure of before the token names it.
\<close>

definition person_key_of :: "Server \<Rightarrow> world \<Rightarrow> string \<Rightarrow> string \<Rightarrow> ResolvedAlias \<Rightarrow> db \<Rightarrow> string option result \<times> db" where
  "person_key_of s w productID audience alias d =
     (if ra_SubjectType alias = ''account'' then
        let key = pairwise_key s productID audience ''person'' (ra_PersonID alias) in
        sbind (commit (EnsureSubjectAlias (wd_clock w 0) key productID audience ''person'' (ra_PersonID alias)) (wd_others w 0 d)) (\<lambda>_ d.
        (Inr (Some key), d))
      else (Inr None, d))"

definition token_request :: "string \<Rightarrow> string \<Rightarrow> token_input \<Rightarrow> string option \<Rightarrow> SignInput" where
  "token_request productID audience input personKey =
     \<lparr>si_Audience = audience, si_Product = productID, si_Subject = xt_SubjectKey input, si_SubjectType = xt_SubjectType input,
      si_Scopes = [''telemetry:write''], si_PersonKey = personKey, si_OrgKey = None, si_PolicyVersion = '''',
      si_TTL = wrap64 (xt_TTLSeconds input * second)\<rparr>"

definition sign_or_invalid :: "(string \<times> time) result \<Rightarrow> (string \<times> time) result" where
  "sign_or_invalid m = (case m of Inl _ \<Rightarrow> Inl ErrInvalid | Inr x \<Rightarrow> Inr x)"

definition issueToken :: "Server \<Rightarrow> world \<Rightarrow> Request \<Rightarrow> Principal \<Rightarrow> db \<Rightarrow> outcome" where
  "issueToken s w r p d =
     sbind (given (decodeJSON (sv_http s) read_token_input r) d) (\<lambda>input d.
     sbind (given (checked (authorizeProduct s p (xt_ProductID input))
         (pairwise_Valid (xt_SubjectKey input) \<and> \<not> xt_TTLSeconds input < 0 \<and>
          (xt_SubjectType input = ''account'' \<or> xt_SubjectType input = ''installation''))) d) (\<lambda>(productID, audience) d.
     sbind (given (resolve_subject (wd_view w 0) (xt_SubjectKey input) productID audience (\<lambda>a. ra_SubjectType a = xt_SubjectType input)) d) (\<lambda>alias d.
     sbind (given (ResolveTokenSubject (wd_view w 1) productID (ra_SubjectType alias) (ra_SubjectID alias)) d) (\<lambda>_ d.
     sbind (person_key_of s w productID audience alias d) (\<lambda>personKey d.
     sbind (given (sign_or_invalid (SignClaims (sv_lib s) (sv_tokens s) (wd_clock w 1) (wd_fresh w 0) (token_request productID audience input personKey))) d)
       (\<lambda>(encoded, expiresAt) d.
     (Inr (201, VObj [(''access_token'', VStr encoded), (''token_type'', VStr ''Bearer''), (''expires_at'', timeJSON expiresAt)]), d)))))))"

section \<open>Subject handlers\<close>

record consent_input =
  xc_SubjectType :: string
  xc_SubjectKey :: string
  xc_ProductID :: string
  xc_ConsentType :: string
  xc_PolicyVersion :: string
  xc_Status :: string
  xc_RecordedAt :: time

definition read_consent_input :: "http_lib \<Rightarrow> jvalue \<Rightarrow> consent_input option" where
  "read_consent_input lib = read_object [''subject_type'', ''subject_key'', ''product_id'', ''consent_type'', ''policy_version'', ''status'',
       ''recorded_at''] (\<lambda>vs.
     obind (take_values take_string '''' (vs ''subject_type'')) (\<lambda>type.
     obind (take_values take_string '''' (vs ''subject_key'')) (\<lambda>key.
     obind (take_values take_string '''' (vs ''product_id'')) (\<lambda>product.
     obind (take_values take_string '''' (vs ''consent_type'')) (\<lambda>consentType.
     obind (take_values take_string '''' (vs ''policy_version'')) (\<lambda>policy.
     obind (take_values take_string '''' (vs ''status'')) (\<lambda>status.
     obind (take_values (take_time lib) zero_time (vs ''recorded_at'')) (\<lambda>recordedAt.
       Some \<lparr>xc_SubjectType = type, xc_SubjectKey = key, xc_ProductID = product, xc_ConsentType = consentType,
         xc_PolicyVersion = policy, xc_Status = status, xc_RecordedAt = recordedAt\<rparr>))))))))"

definition createConsent :: "Server \<Rightarrow> world \<Rightarrow> Request \<Rightarrow> Principal \<Rightarrow> db \<Rightarrow> outcome" where
  "createConsent s w r p d =
     sbind (given (decodeJSON (sv_http s) (read_consent_input (sv_http s)) r) d) (\<lambda>input d.
     sbind (given (checked (authorizeProduct s p (xc_ProductID input))
         (pairwise_Valid (xc_SubjectKey input) \<and> trims (xc_ConsentType input) 100 \<and> trims (xc_PolicyVersion input) 100 \<and>
          (xc_Status input = ''granted'' \<or> xc_Status input = ''withdrawn'') \<and> \<not> is_zero (xc_RecordedAt input))) d) (\<lambda>(productID, audience) d.
     sbind (given (resolve_subject (wd_view w 0) (xc_SubjectKey input) productID audience
         (\<lambda>a. subjectTypeMatches (xc_SubjectType input) (ra_SubjectType a))) d) (\<lambda>alias d.
     sbind (commit (CreateConsent (wd_clock w 0)
         \<lparr>cs_ID = wd_fresh w 0, cs_Subject = rootSubject alias, cs_ProductID = productID, cs_ConsentType = trimmed (xc_ConsentType input) 100,
          cs_PolicyVersion = trimmed (xc_PolicyVersion input) 100, cs_Status = xc_Status input, cs_RecordedAt = xc_RecordedAt input\<rparr>)
         (wd_others w 0 d)) (\<lambda>_ d.
     (Inr (201, VObj [(''id'', VStr (wd_fresh w 0)), (''recorded_at'', timeJSON (xc_RecordedAt input))]), d)))))"

record preference_input =
  xp_SubjectType :: string
  xp_SubjectKey :: string
  xp_ProductID :: string
  xp_Preference :: string
  xp_RecordedAt :: time

definition read_preference_input :: "http_lib \<Rightarrow> jvalue \<Rightarrow> preference_input option" where
  "read_preference_input lib = read_object [''subject_type'', ''subject_key'', ''product_id'', ''preference'', ''recorded_at''] (\<lambda>vs.
     obind (take_values take_string '''' (vs ''subject_type'')) (\<lambda>type.
     obind (take_values take_string '''' (vs ''subject_key'')) (\<lambda>key.
     obind (take_values take_string '''' (vs ''product_id'')) (\<lambda>product.
     obind (take_values take_string '''' (vs ''preference'')) (\<lambda>preference.
     obind (take_values (take_time lib) zero_time (vs ''recorded_at'')) (\<lambda>recordedAt.
       Some \<lparr>xp_SubjectType = type, xp_SubjectKey = key, xp_ProductID = product, xp_Preference = preference,
         xp_RecordedAt = recordedAt\<rparr>))))))"

definition setTelemetryPreference :: "Server \<Rightarrow> world \<Rightarrow> Request \<Rightarrow> Principal \<Rightarrow> db \<Rightarrow> outcome" where
  "setTelemetryPreference s w r p d =
     sbind (given (decodeJSON (sv_http s) (read_preference_input (sv_http s)) r) d) (\<lambda>input d.
     let now = wd_clock w 0 in
     sbind (given (checked (authorizeProduct s p (xp_ProductID input))
         (pairwise_Valid (xp_SubjectKey input) \<and> (xp_Preference input = ''allowed'' \<or> xp_Preference input = ''denied'') \<and>
          \<not> is_zero (xp_RecordedAt input) \<and> \<not> xp_RecordedAt input < now - 24 * hour \<and> \<not> xp_RecordedAt input > now + 5 * minute)) d)
       (\<lambda>(productID, audience) d.
     sbind (given (resolve_subject (wd_view w 0) (xp_SubjectKey input) productID audience
         (\<lambda>a. subjectTypeMatches (xp_SubjectType input) (ra_SubjectType a))) d) (\<lambda>alias d.
     sbind (commit (SetTelemetryPreference (wd_fresh w 0) (wd_fresh w 1) (wd_clock w 1) (rootSubject alias) (xp_SubjectKey input) productID
         (xp_Preference input) (xp_RecordedAt input) now) (wd_others w 0 d)) (\<lambda>_ d.
     (Inr (200, VObj [(''preference'', VStr (xp_Preference input)), (''recorded_at'', timeJSON (xp_RecordedAt input))]), d)))))"

record privacy_input =
  xq_SubjectType :: string
  xq_SubjectKey :: string
  xq_RequestType :: string
  xq_Scope :: string
  xq_ProductID :: "string option"
  xq_AnchorProductID :: string

definition read_privacy_input :: "jvalue \<Rightarrow> privacy_input option" where
  "read_privacy_input = read_object [''subject_type'', ''subject_key'', ''request_type'', ''scope'', ''product_id'', ''anchor_product_id''] (\<lambda>vs.
     obind (take_values take_string '''' (vs ''subject_type'')) (\<lambda>type.
     obind (take_values take_string '''' (vs ''subject_key'')) (\<lambda>key.
     obind (take_values take_string '''' (vs ''request_type'')) (\<lambda>requestType.
     obind (take_values take_string '''' (vs ''scope'')) (\<lambda>scope.
     obind (take_values take_pointer None (vs ''product_id'')) (\<lambda>product.
     obind (take_values take_string '''' (vs ''anchor_product_id'')) (\<lambda>anchor.
       Some \<lparr>xq_SubjectType = type, xq_SubjectKey = key, xq_RequestType = requestType, xq_Scope = scope, xq_ProductID = product,
         xq_AnchorProductID = anchor\<rparr>)))))))"

text \<open>The product and audience under which the subject is named, and the product that the request is limited to.\<close>

definition privacy_scope :: "Server \<Rightarrow> Principal \<Rightarrow> privacy_input \<Rightarrow> (string \<times> string \<times> string option) result" where
  "privacy_scope s p input =
     (case xq_ProductID input of
        Some requested \<Rightarrow>
          if xq_Scope input = ''product''
          then rbind (authorizeProduct s p requested) (\<lambda>(anchorProduct, audience). Inr (anchorProduct, audience, Some anchorProduct))
          else Inl ErrForbidden
      | None \<Rightarrow>
          if xq_Scope input = ''all'' \<and> Has p ''privacy_global''
          then rbind (productAudience s (xq_AnchorProductID input)) (\<lambda>audience. Inr (xq_AnchorProductID input, audience, None))
          else Inl ErrForbidden)"

definition trunc_ms :: "time \<Rightarrow> time" where "trunc_ms t = t - (t - zero_time) mod 1000000"

definition createPrivacyRequest :: "Server \<Rightarrow> world \<Rightarrow> Request \<Rightarrow> Principal \<Rightarrow> db \<Rightarrow> outcome" where
  "createPrivacyRequest s w r p d =
     sbind (given (decodeJSON (sv_http s) read_privacy_input r) d) (\<lambda>input d.
     let idempotencyKey = header_get (hr_Header r) ''Idempotency-Key'' in
     if \<not> pairwise_Valid (xq_SubjectKey input) \<or> length idempotencyKey < 16 \<or> length idempotencyKey > 128 \<or> xq_RequestType input \<noteq> ''deletion''
     then (Inl ErrInvalid, d)
     else
       sbind (given (privacy_scope s p input) d) (\<lambda>(anchorProduct, audience, productID) d.
       sbind (given (resolve_subject (wd_view w 0) (xq_SubjectKey input) anchorProduct audience
           (\<lambda>a. subjectTypeMatches (xq_SubjectType input) (ra_SubjectType a))) d) (\<lambda>alias d.
       if xq_Scope input = ''all'' \<and> ra_PersonID alias = '''' then (Inl ErrForbidden, d)
       else
         sbind (serializable (CreatePrivacyRequest (sv_sha256 s) (wd_fresh w) (wd_clock w 1)
             \<lparr>rq_Subject = rootSubject alias, rq_SubjectKey = xq_SubjectKey input, rq_RequestType = xq_RequestType input, rq_Scope = xq_Scope input,
              rq_ProductID = productID, rq_RequestedAt = trunc_ms (wd_clock w 0), rq_RequestedByWorkload = pn_ID p, rq_IdempotencyKey = idempotencyKey\<rparr>
             (map_of (sv_products s))) (wd_others w 0 d)) (\<lambda>(result, created) d.
         (Inr (if created then 202 else 200, VObj [(''id'', VStr (rs_ID result)), (''status'', VStr (rs_Status result)),
            (''requested_at'', timeJSON (rs_RequestedAt result))]), d)))))"

definition statusJSON :: "PrivacyRequestStatus \<Rightarrow> jvalue" where
  "statusJSON x = VObj (
     [(''id'', VStr (rs_ID x)), (''request_type'', VStr (rs_RequestType x)), (''scope'', VStr (rs_Scope x))]
     @ (case rs_ProductID x of None \<Rightarrow> [] | Some product \<Rightarrow> [(''product_id'', VStr product)])
     @ [(''status'', VStr (rs_Status x)), (''requested_at'', timeJSON (rs_RequestedAt x))]
     @ (case rs_CompletedAt x of None \<Rightarrow> [] | Some t \<Rightarrow> [(''completed_at'', timeJSON t)]))"

definition getPrivacyRequest :: "world \<Rightarrow> string \<Rightarrow> db \<Rightarrow> outcome" where
  "getPrivacyRequest w i d =
     (if \<not> ValidUUID i then (Inl ErrInvalid, d)
      else sbind (given (getPrivacyRequestWith (wd_view w 0) i) d) (\<lambda>result d. (Inr (200, statusJSON result), d)))"

record status_input =
  xs_Status :: string
  xs_AuditNote :: string

definition read_status_input :: "jvalue \<Rightarrow> status_input option" where
  "read_status_input = read_object [''status'', ''audit_note''] (\<lambda>vs.
     obind (take_values take_string '''' (vs ''status'')) (\<lambda>status.
     obind (take_values take_string '''' (vs ''audit_note'')) (\<lambda>note.
       Some \<lparr>xs_Status = status, xs_AuditNote = note\<rparr>)))"

definition updatePrivacyRequestStatus :: "Server \<Rightarrow> world \<Rightarrow> Request \<Rightarrow> string \<Rightarrow> Principal \<Rightarrow> db \<Rightarrow> outcome" where
  "updatePrivacyRequestStatus s w r i p d =
     sbind (given (decodeJSON (sv_http s) read_status_input r) d) (\<lambda>input d.
     let validStatus = (xs_Status input = ''processing'' \<or> xs_Status input = ''rejected'' \<or> xs_Status input = ''cancelled'') in
     if \<not> ValidUUID i \<or> \<not> trims (xs_AuditNote input) 1000 \<or> \<not> validStatus then (Inl ErrInvalid, d)
     else
       sbind (commit (UpdatePrivacyRequestStatus (wd_fresh w 0) (wd_clock w 0)
           \<lparr>us_ID = i, us_Status = xs_Status input, us_Actor = pn_ID p, us_AuditNote = trimmed (xs_AuditNote input) 1000\<rparr>) (wd_others w 0 d)) (\<lambda>_ d.
       (Inr (200, VObj [(''id'', VStr i), (''status'', VStr (xs_Status input))]), d)))"

section \<open>Organization handlers\<close>

record submission_input =
  xm_ProductID :: string
  xm_SubjectType :: string
  xm_SubjectKey :: string
  xm_SubmittedName :: string

definition read_submission_input :: "jvalue \<Rightarrow> submission_input option" where
  "read_submission_input = read_object [''product_id'', ''subject_type'', ''subject_key'', ''submitted_name''] (\<lambda>vs.
     obind (take_values take_string '''' (vs ''product_id'')) (\<lambda>product.
     obind (take_values take_string '''' (vs ''subject_type'')) (\<lambda>type.
     obind (take_values take_string '''' (vs ''subject_key'')) (\<lambda>key.
     obind (take_values take_string '''' (vs ''submitted_name'')) (\<lambda>name.
       Some \<lparr>xm_ProductID = product, xm_SubjectType = type, xm_SubjectKey = key, xm_SubmittedName = name\<rparr>)))))"

definition submission_of :: "string \<Rightarrow> string \<Rightarrow> string \<Rightarrow> ResolvedAlias \<Rightarrow> OrganizationSubmission" where
  "submission_of i productID name alias =
     \<lparr>sb_ID = i, sb_PersonID = (if ra_PersonID alias \<noteq> '''' then Some (ra_PersonID alias) else None),
      sb_InstallationID = (if ra_PersonID alias \<noteq> '''' then None else Some (ra_SubjectID alias)),
      sb_ProductID = productID, sb_SubmittedName = name\<rparr>"

definition createOrganizationSubmission :: "Server \<Rightarrow> world \<Rightarrow> Request \<Rightarrow> Principal \<Rightarrow> db \<Rightarrow> outcome" where
  "createOrganizationSubmission s w r p d =
     sbind (given (decodeJSON (sv_http s) read_submission_input r) d) (\<lambda>input d.
     sbind (given (checked (authorizeProduct s p (xm_ProductID input))
         (trims (xm_SubmittedName input) 240 \<and> pairwise_Valid (xm_SubjectKey input) \<and>
          (xm_SubjectType input = ''person'' \<or> xm_SubjectType input = ''installation''))) d) (\<lambda>(productID, audience) d.
     sbind (given (resolve_subject (wd_view w 0) (xm_SubjectKey input) productID audience
         (\<lambda>a. subjectTypeMatches (xm_SubjectType input) (ra_SubjectType a))) d) (\<lambda>alias d.
     sbind (commit (CreateOrganizationSubmission (wd_clock w 0)
         (submission_of (wd_fresh w 0) productID (trimmed (xm_SubmittedName input) 240) alias)) (wd_others w 0 d)) (\<lambda>_ d.
     (Inr (201, VObj [(''id'', VStr (wd_fresh w 0)), (''status'', VStr ''pending'')]), d)))))"

definition read_organization_input :: "jvalue \<Rightarrow> string option" where
  "read_organization_input = read_object [''canonical_name''] (\<lambda>vs. take_values take_string '''' (vs ''canonical_name''))"

definition createOrganization :: "Server \<Rightarrow> world \<Rightarrow> Request \<Rightarrow> db \<Rightarrow> outcome" where
  "createOrganization s w r d =
     sbind (given (decodeJSON (sv_http s) read_organization_input r) d) (\<lambda>name d.
     if \<not> trims name 240 then (Inl ErrInvalid, d)
     else
       sbind (commit (CreateOrganization (wd_clock w 0) (wd_fresh w 0) (trimmed name 240)) (wd_others w 0 d)) (\<lambda>_ d.
       (Inr (201, VObj [(''id'', VStr (wd_fresh w 0)), (''status'', VStr ''active'')]), d)))"

record resolution_input =
  xl_Status :: string
  xl_OrganizationID :: "string option"
  xl_AuditNote :: string

definition read_resolution_input :: "jvalue \<Rightarrow> resolution_input option" where
  "read_resolution_input = read_object [''status'', ''organization_id'', ''audit_note''] (\<lambda>vs.
     obind (take_values take_string '''' (vs ''status'')) (\<lambda>status.
     obind (take_values take_pointer None (vs ''organization_id'')) (\<lambda>organization.
     obind (take_values take_string '''' (vs ''audit_note'')) (\<lambda>note.
       Some \<lparr>xl_Status = status, xl_OrganizationID = organization, xl_AuditNote = note\<rparr>))))"

definition validResolution :: "resolution_input \<Rightarrow> bool" where
  "validResolution input \<longleftrightarrow>
     (xl_Status input = ''rejected'' \<and> xl_OrganizationID input = None) \<or>
     (xl_Status input = ''matched'' \<and> (case xl_OrganizationID input of None \<Rightarrow> False | Some i \<Rightarrow> ValidUUID i))"

definition resolveOrganizationSubmission :: "Server \<Rightarrow> world \<Rightarrow> Request \<Rightarrow> string \<Rightarrow> Principal \<Rightarrow> db \<Rightarrow> outcome" where
  "resolveOrganizationSubmission s w r i p d =
     sbind (given (decodeJSON (sv_http s) read_resolution_input r) d) (\<lambda>input d.
     if \<not> ValidUUID i \<or> \<not> trims (xl_AuditNote input) 1000 \<or> \<not> validResolution input then (Inl ErrInvalid, d)
     else
       sbind (commit (ResolveOrganizationSubmission (wd_clock w 0) i (xl_Status input) (xl_OrganizationID input) (pn_ID p)
           (trimmed (xl_AuditNote input) 1000)) (wd_others w 0 d)) (\<lambda>_ d.
       (Inr (200, VObj [(''id'', VStr i), (''status'', VStr (xl_Status input))]), d)))"

record merge_input =
  xg_TargetOrganizationID :: string
  xg_Reason :: string

definition read_merge_input :: "jvalue \<Rightarrow> merge_input option" where
  "read_merge_input = read_object [''target_organization_id'', ''reason''] (\<lambda>vs.
     obind (take_values take_string '''' (vs ''target_organization_id'')) (\<lambda>target.
     obind (take_values take_string '''' (vs ''reason'')) (\<lambda>reason.
       Some \<lparr>xg_TargetOrganizationID = target, xg_Reason = reason\<rparr>)))"

definition mergeOrganization :: "Server \<Rightarrow> world \<Rightarrow> Request \<Rightarrow> string \<Rightarrow> Principal \<Rightarrow> db \<Rightarrow> outcome" where
  "mergeOrganization s w r sourceID p d =
     sbind (given (decodeJSON (sv_http s) read_merge_input r) d) (\<lambda>input d.
     if \<not> ValidUUID sourceID \<or> \<not> ValidUUID (xg_TargetOrganizationID input) \<or> sourceID = xg_TargetOrganizationID input \<or>
        \<not> trims (xg_Reason input) 1000
     then (Inl ErrInvalid, d)
     else
       sbind (commit (MergeOrganization (wd_fresh w 0) (wd_clock w 0) sourceID (xg_TargetOrganizationID input) (pn_ID p)
           (trimmed (xg_Reason input) 1000)) (wd_others w 0 d)) (\<lambda>_ d.
       (Inr (200, VObj [(''id'', VStr sourceID), (''status'', VStr ''merged''), (''merged_into_id'', VStr (xg_TargetOrganizationID input))]), d)))"

record membership_input =
  xe_PersonKey :: string
  xe_OrganizationID :: string
  xe_ProductID :: string
  xe_RoleLabel :: "string option"
  xe_Status :: string
  xe_StartedAt :: "time option"
  xe_EndedAt :: "time option"

definition read_membership_input :: "http_lib \<Rightarrow> jvalue \<Rightarrow> membership_input option" where
  "read_membership_input lib = read_object [''person_key'', ''organization_id'', ''product_id'', ''role_label'', ''status'', ''started_at'',
       ''ended_at''] (\<lambda>vs.
     obind (take_values take_string '''' (vs ''person_key'')) (\<lambda>key.
     obind (take_values take_string '''' (vs ''organization_id'')) (\<lambda>organization.
     obind (take_values take_string '''' (vs ''product_id'')) (\<lambda>product.
     obind (take_values take_pointer None (vs ''role_label'')) (\<lambda>label.
     obind (take_values take_string '''' (vs ''status'')) (\<lambda>status.
     obind (take_values (take_time_pointer lib) None (vs ''started_at'')) (\<lambda>startedAt.
     obind (take_values (take_time_pointer lib) None (vs ''ended_at'')) (\<lambda>endedAt.
       Some \<lparr>xe_PersonKey = key, xe_OrganizationID = organization, xe_ProductID = product, xe_RoleLabel = label, xe_Status = status,
         xe_StartedAt = startedAt, xe_EndedAt = endedAt\<rparr>))))))))"

definition ordered_span :: "time option \<Rightarrow> time option \<Rightarrow> bool" where
  "ordered_span a b = (case (a, b) of (Some x, Some y) \<Rightarrow> \<not> y < x | _ \<Rightarrow> True)"

definition trimmed_label :: "string option \<Rightarrow> string option result" where
  "trimmed_label label = (case label of
     None \<Rightarrow> Inr None | Some l \<Rightarrow> if trims l 120 then Inr (Some (trimmed l 120)) else Inl ErrInvalid)"

definition createMembership :: "Server \<Rightarrow> world \<Rightarrow> Request \<Rightarrow> Principal \<Rightarrow> db \<Rightarrow> outcome" where
  "createMembership s w r p d =
     sbind (given (decodeJSON (sv_http s) (read_membership_input (sv_http s)) r) d) (\<lambda>input d.
     sbind (given (checked (authorizeProduct s p (xe_ProductID input))
         (pairwise_Valid (xe_PersonKey input) \<and> ValidUUID (xe_OrganizationID input) \<and>
          (xe_Status input = ''active'' \<or> xe_Status input = ''inactive'' \<or> xe_Status input = ''pending'') \<and>
          ordered_span (xe_StartedAt input) (xe_EndedAt input))) d) (\<lambda>(productID, audience) d.
     sbind (given (trimmed_label (xe_RoleLabel input)) d) (\<lambda>label d.
     sbind (given (resolve_subject (wd_view w 0) (xe_PersonKey input) productID audience (\<lambda>a. ra_PersonID a \<noteq> '''')) d) (\<lambda>alias d.
     sbind (commit (CreateMembership (wd_clock w 0)
         \<lparr>mb_ID = wd_fresh w 0, mb_PersonID = ra_PersonID alias, mb_OrganizationID = xe_OrganizationID input, mb_ProductID = productID,
          mb_RoleLabel = label, mb_Status = xe_Status input, mb_StartedAt = xe_StartedAt input, mb_EndedAt = xe_EndedAt input\<rparr>)
         (wd_others w 0 d)) (\<lambda>_ d.
     (Inr (201, VObj [(''id'', VStr (wd_fresh w 0)), (''status'', VStr (xe_Status input))]), d))))))"

end
