(* ===== verification/Http_Public.thy ===== *)
theory Http_Public
  imports Http_Handlers
begin

text \<open>
  The handlers of the public routes and of the product directory:
  \<^verbatim>\<open>public_installation_handlers.go\<close>, \<^verbatim>\<open>public_account_handlers.go\<close> and
  \<^verbatim>\<open>product_directory_handlers.go\<close> of \<^verbatim>\<open>internal/httpapi\<close>.  They call the brokers and
  the directory and turn each of their errors into the status of its route.
\<close>

section \<open>Credentials\<close>

definition bearerCredential :: "Request \<Rightarrow> string option" where
  "bearerCredential r =
     (let value = header_get (hr_Header r) ''Authorization'' in
      if take (length bearer) value \<noteq> bearer then None
      else let credential = trim_space (drop (length bearer) value) in
        if credential \<noteq> '''' \<and> \<not> list_ex json_space credential \<and> length credential \<le> 4096 then Some credential else None)"

section \<open>Installations\<close>

definition accessJSON :: "AccessToken \<Rightarrow> (string \<times> jvalue) list" where
  "accessJSON t = [(''access_token'', VStr (at_AccessToken t)), (''token_type'', VStr (at_TokenType t)), (''expires_at'', timeJSON (at_ExpiresAt t))]"

definition optional_access :: "AccessToken option \<Rightarrow> jvalue" where
  "optional_access t = (case t of None \<Rightarrow> VNull | Some a \<Rightarrow> VObj (accessJSON a))"

definition registrationJSON :: "Registration \<Rightarrow> jvalue" where
  "registrationJSON x = VObj
     [(''installation_key'', VStr (rn_InstallationKey x)), (''product'', VStr (rn_Product x)), (''platform'', VStr (rn_Platform x)),
      (''preference'', VStr (rn_Preference x)), (''policy_version'', VStr (rn_PolicyVersion x)), (''recorded_at'', timeJSON (rn_RecordedAt x)),
      (''refresh_token'', VStr (rn_RefreshToken x)), (''refresh_expires_at'', timeJSON (rn_RefreshExpires x)),
      (''metrics_token'', optional_access (rn_MetricsToken x))]"

definition tokenJSON :: "TokenResponse \<Rightarrow> (string \<times> jvalue) list" where
  "tokenJSON x = [(''installation_key'', VStr (tr_InstallationKey x)), (''product'', VStr (tr_Product x)),
     (''metrics_token'', VObj (accessJSON (tr_MetricsToken x)))]"

definition preferenceJSON :: "PreferenceResponse \<Rightarrow> jvalue" where
  "preferenceJSON x = VObj
     [(''installation_key'', VStr (ps_InstallationKey x)), (''product'', VStr (ps_Product x)), (''preference'', VStr (ps_Preference x)),
      (''policy_version'', VStr (ps_PolicyVersion x)), (''recorded_at'', timeJSON (ps_RecordedAt x))]"

definition read_register_public :: "http_lib \<Rightarrow> jvalue \<Rightarrow> RegisterInput option" where
  "read_register_public lib = read_object [''request_id'', ''product_id'', ''platform'', ''preference'', ''policy_version'', ''recorded_at''] (\<lambda>vs.
     obind (take_values take_string '''' (vs ''request_id'')) (\<lambda>request.
     obind (take_values take_string '''' (vs ''product_id'')) (\<lambda>product.
     obind (take_values take_string '''' (vs ''platform'')) (\<lambda>platform.
     obind (take_values take_string '''' (vs ''preference'')) (\<lambda>preference.
     obind (take_values take_string '''' (vs ''policy_version'')) (\<lambda>policy.
     obind (take_values (take_time lib) zero_time (vs ''recorded_at'')) (\<lambda>recordedAt.
       Some \<lparr>gi_RequestID = request, gi_ProductID = product, gi_Platform = platform, gi_Preference = preference, gi_Policy = policy,
         gi_RecordedAt = recordedAt\<rparr>)))))))"

definition read_preference_public :: "http_lib \<Rightarrow> jvalue \<Rightarrow> PreferenceInput option" where
  "read_preference_public lib = read_object [''preference'', ''policy_version'', ''recorded_at''] (\<lambda>vs.
     obind (take_values take_string '''' (vs ''preference'')) (\<lambda>preference.
     obind (take_values take_string '''' (vs ''policy_version'')) (\<lambda>policy.
     obind (take_values (take_time lib) zero_time (vs ''recorded_at'')) (\<lambda>recordedAt.
       Some \<lparr>pf_Preference = preference, pf_PolicyVersion = policy, pf_RecordedAt = recordedAt\<rparr>))))"

definition read_empty :: "jvalue \<Rightarrow> unit option" where
  "read_empty = read_object [] (\<lambda>_. Some ())"

definition registerPublicInstallation :: "Server \<Rightarrow> world \<Rightarrow> Broker \<Rightarrow> Request \<Rightarrow> handler" where
  "registerPublicInstallation s w b r h st =
     (case Allow (wd_admission w) (st_registers st) of
        (False, bucket) \<Rightarrow>
          (writeJSON (header_set ''Retry-After'' ''10'' h) 429 (errorResponse ''rate_limited''), st\<lparr>st_registers := bucket\<rparr>)
      | (True, bucket) \<Rightarrow>
          let st1 = st\<lparr>st_registers := bucket\<rparr> in
          (case decodeJSONLimit (sv_http s) maxPublicRequestBody (read_register_public (sv_http s)) r of
             Inl e \<Rightarrow> (fail h e, st1)
           | Inr input \<Rightarrow>
               (case Register b (wd_clock w) (wd_fresh w) input (wd_others w 0 (st_db st1)) of
                  (Inl e, d) \<Rightarrow> (fail h e, st1\<lparr>st_db := d\<rparr>)
                | (Inr result, d) \<Rightarrow> (writeJSON h 201 (registrationJSON result), st1\<lparr>st_db := d\<rparr>))))"

definition refreshPublicInstallationToken :: "Server \<Rightarrow> world \<Rightarrow> Broker \<Rightarrow> Request \<Rightarrow> headers \<Rightarrow> Response" where
  "refreshPublicInstallationToken s w b r h =
     (case decodeJSONLimit (sv_http s) maxPublicRequestBody read_empty r of
        Inl e \<Rightarrow> fail h e
      | Inr _ \<Rightarrow>
          (case bearerCredential r of
             None \<Rightarrow> writeJSON h 401 (errorResponse ''invalid_refresh_credential'')
           | Some credential \<Rightarrow>
               (case Refresh b (wd_clock w) (wd_fresh w 0) (wd_view w) credential of
                  Inl e \<Rightarrow>
                    if e = ErrInvalidCredential then writeJSON h 401 (errorResponse ''invalid_refresh_credential'')
                    else if e = ErrForbidden then writeJSON h 403 (errorResponse ''telemetry_denied'')
                    else fail h e
                | Inr result \<Rightarrow>
                    if tr_Product result = ''linka-looks''
                    then writeJSON h 200 (VObj (tokenJSON result @ accessJSON (tr_MetricsToken result)))
                    else writeJSON h 200 (VObj (tokenJSON result)))))"

definition setPublicTelemetryPreference :: "Server \<Rightarrow> world \<Rightarrow> Broker \<Rightarrow> Request \<Rightarrow> handler" where
  "setPublicTelemetryPreference s w b r h st =
     (case decodeJSONLimit (sv_http s) maxPublicRequestBody (read_preference_public (sv_http s)) r of
        Inl e \<Rightarrow> (fail h e, st)
      | Inr input \<Rightarrow>
          (case bearerCredential r of
             None \<Rightarrow> (writeJSON h 401 (errorResponse ''invalid_refresh_credential''), st)
           | Some credential \<Rightarrow>
               (case SetPreference b (wd_clock w) (wd_fresh w) (wd_view w) credential input (wd_others w 0 (st_db st)) of
                  Inl e \<Rightarrow>
                    (if e = ErrInvalidCredential then writeJSON h 401 (errorResponse ''invalid_refresh_credential'') else fail h e, st)
                | Inr (result, d) \<Rightarrow> (writeJSON h 200 (preferenceJSON result), st\<lparr>st_db := d\<rparr>))))"

definition publicPreflight :: "headers \<Rightarrow> Response" where
  "publicPreflight h = \<lparr>hp_status = 204, hp_header = h, hp_body = None\<rparr>"

section \<open>Accounts\<close>

definition publicAccountPreflight :: "Request \<Rightarrow> headers \<Rightarrow> Response" where
  "publicAccountPreflight r h0 =
     (let h = header_set ''Cache-Control'' ''no-store'' h0 in
      if hr_RawQuery r \<noteq> '''' then writeJSON h 400 (errorResponse ''invalid_request'') else publicPreflight h)"

text \<open>The credential and the body of a request, or the answer that refuses it.\<close>

definition publicAccountRequest :: "Server \<Rightarrow> Request \<Rightarrow> headers \<Rightarrow> (jvalue \<Rightarrow> 'a option) \<Rightarrow> Response + (string \<times> 'a)" where
  "publicAccountRequest s r h read =
     (case bearerCredential r of
        None \<Rightarrow> Inl (writeJSON h 401 (errorResponse ''invalid_credential''))
      | Some credential \<Rightarrow>
          if length (header_values (hr_Header r) ''Authorization'') \<noteq> 1 then Inl (writeJSON h 401 (errorResponse ''invalid_credential''))
          else if hr_RawQuery r \<noteq> '''' then Inl (writeJSON h 400 (errorResponse ''invalid_request''))
          else case decodeJSONLimit (sv_http s) maxPublicRequestBody (read_nullable read) r of
            Inr (Some input) \<Rightarrow> Inr (credential, input)
          | _ \<Rightarrow> Inl (writeJSON h 400 (errorResponse ''invalid_request'')))"

definition retry_seconds :: "time \<Rightarrow> time \<Rightarrow> nat" where
  "retry_seconds now retryAt = nat (max 1 (- ((now - retryAt) div second)))"

definition failPublicAccount :: "time \<Rightarrow> headers \<Rightarrow> error \<Rightarrow> bool \<Rightarrow> Response" where
  "failPublicAccount now h e challenge =
     (case e of
        ErrInvalidCredential \<Rightarrow> writeJSON h 401 (errorResponse ''invalid_credential'')
      | ErrAccountCredential \<Rightarrow> writeJSON h 401 (errorResponse ''invalid_credential'')
      | PublicRateLimitError retryAt \<Rightarrow>
          writeJSON (header_set ''Retry-After'' (decimal (retry_seconds now retryAt)) h) 429 (errorResponse ''rate_limited'')
      | ErrNotFound \<Rightarrow>
          if challenge then writeJSON h 400 (errorResponse ''challenge_rejected'') else writeJSON h 401 (errorResponse ''invalid_credential'')
      | ErrInvalid \<Rightarrow> writeJSON h 400 (errorResponse ''invalid_request'')
      | ErrConflict \<Rightarrow> writeJSON h 409 (errorResponse ''conflict'')
      | ErrForbidden \<Rightarrow> writeJSON h 403 (errorResponse ''forbidden'')
      | _ \<Rightarrow> writeJSON h 503 (errorResponse ''account_unavailable''))"

definition challengeJSON :: "ChallengeResponse \<Rightarrow> jvalue" where
  "challengeJSON x = VObj
     [(''contract_version'', VInt (cr_ContractVersion x)), (''challenge_id'', VStr (cr_ChallengeID x)), (''status'', VStr (cr_Status x)),
      (''expires_at'', timeJSON (cr_ExpiresAt x)), (''resend_after'', timeJSON (cr_ResendAfter x))]"

definition profileJSON :: "Profile \<Rightarrow> jvalue" where
  "profileJSON x = VObj
     [(''product'', VStr (po_Product x)), (''account_key'', VStr (po_AccountKey x)), (''version'', VInt (uint (po_Version x))),
      (''holder_role'', VStr (po_HolderRole x)), (''country'', VStr (po_Country x)), (''region'', VStr (po_Region x)),
      (''updated_at'', timeJSON (po_UpdatedAt x))]"

definition accountJSON :: "AccountRegistration \<Rightarrow> jvalue" where
  "accountJSON x = VObj
     [(''contract_version'', VInt (ar_ContractVersion x)), (''product'', VStr (ar_Product x)), (''account_key'', VStr (ar_AccountKey x)),
      (''installation_key'', VStr (ar_InstallationKey x)), (''account_profile'', profileJSON (ar_AccountProfile x)),
      (''account_token'', VObj (accessJSON (ar_AccountToken x))), (''refresh_token'', VStr (ar_RefreshToken x)),
      (''refresh_expires_at'', timeJSON (ar_RefreshExpiresAt x)), (''registration_receipt'', VStr (ar_RegistrationReceipt x)),
      (''metrics_token'', optional_access (ar_MetricsToken x))]"

definition read_challenge :: "jvalue \<Rightarrow> ChallengeInput option" where
  "read_challenge = read_object [''request_id'', ''product_id'', ''email'', ''purpose'', ''client_nonce'', ''holder_role''] (\<lambda>vs.
     obind (take_values take_string '''' (vs ''request_id'')) (\<lambda>request.
     obind (take_values take_string '''' (vs ''product_id'')) (\<lambda>product.
     obind (take_values take_string '''' (vs ''email'')) (\<lambda>email.
     obind (take_values take_string '''' (vs ''purpose'')) (\<lambda>purpose.
     obind (take_values take_string '''' (vs ''client_nonce'')) (\<lambda>nonce.
     obind (take_values take_string '''' (vs ''holder_role'')) (\<lambda>role.
       Some \<lparr>ci_RequestID = request, ci_ProductID = product, ci_Email = email, ci_Purpose = purpose, ci_ClientNonce = nonce,
         ci_HolderRole = role\<rparr>)))))))"

definition read_verify :: "jvalue \<Rightarrow> VerifyInput option" where
  "read_verify = read_object [''product_id'', ''code'', ''client_nonce''] (\<lambda>vs.
     obind (take_values take_string '''' (vs ''product_id'')) (\<lambda>product.
     obind (take_values take_string '''' (vs ''code'')) (\<lambda>digits.
     obind (take_values take_string '''' (vs ''client_nonce'')) (\<lambda>nonce.
       Some \<lparr>vi_ProductID = product, vi_Code = digits, vi_ClientNonce = nonce\<rparr>))))"

definition read_profile :: "jvalue \<Rightarrow> ProfileInput option" where
  "read_profile = read_object [''version'', ''holder_role'', ''country'', ''region''] (\<lambda>vs.
     obind (take_values take_uint64 0 (vs ''version'')) (\<lambda>version.
     obind (take_values take_string '''' (vs ''holder_role'')) (\<lambda>role.
     obind (take_values take_string '''' (vs ''country'')) (\<lambda>country.
     obind (take_values take_string '''' (vs ''region'')) (\<lambda>region.
       Some \<lparr>pi_Version = version, pi_HolderRole = role, pi_Country = country, pi_Region = region\<rparr>)))))"

definition beginPublicAccountChallenge :: "Server \<Rightarrow> world \<Rightarrow> AccountBroker \<Rightarrow> Request \<Rightarrow> handler" where
  "beginPublicAccountChallenge s w b r h st =
     (case publicAccountRequest s r h read_challenge of
        Inl refused \<Rightarrow> (refused, st)
      | Inr (credential, input) \<Rightarrow>
          (case Begin b (wd_clock w) (wd_challenge w) (wd_view w) credential input (wd_others w 0 (st_db st)) of
             Inl e \<Rightarrow> (failPublicAccount (wd_answer w) h e False, st)
           | Inr (result, d) \<Rightarrow> (writeJSON h 202 (challengeJSON result), st\<lparr>st_db := d\<rparr>)))"

definition verifyPublicAccountChallenge :: "Server \<Rightarrow> world \<Rightarrow> AccountBroker \<Rightarrow> Request \<Rightarrow> string \<Rightarrow> handler" where
  "verifyPublicAccountChallenge s w b r i h st =
     (case publicAccountRequest s r h read_verify of
        Inl refused \<Rightarrow> (refused, st)
      | Inr (credential, input) \<Rightarrow>
          (case Verify b (wd_clock w) (wd_session w) (wd_view w) credential i input (wd_others w 0 (st_db st)) of
             (Inl e, d) \<Rightarrow> (failPublicAccount (wd_answer w) h e True, st\<lparr>st_db := d\<rparr>)
           | (Inr result, d) \<Rightarrow> (writeJSON h 200 (accountJSON result), st\<lparr>st_db := d\<rparr>)))"

definition refreshPublicAccountSession :: "Server \<Rightarrow> world \<Rightarrow> AccountBroker \<Rightarrow> Request \<Rightarrow> handler" where
  "refreshPublicAccountSession s w b r h st =
     (case publicAccountRequest s r h read_empty of
        Inl refused \<Rightarrow> (refused, st)
      | Inr (credential, _) \<Rightarrow>
          (case account_Refresh b (wd_clock w) (wd_session w) credential (wd_others w 0 (st_db st)) of
             (Inl e, d) \<Rightarrow> (failPublicAccount (wd_answer w) h e False, st\<lparr>st_db := d\<rparr>)
           | (Inr result, d) \<Rightarrow> (writeJSON h 200 (accountJSON result), st\<lparr>st_db := d\<rparr>)))"

definition revokePublicAccountSession :: "Server \<Rightarrow> world \<Rightarrow> AccountBroker \<Rightarrow> Request \<Rightarrow> handler" where
  "revokePublicAccountSession s w b r h st =
     (case publicAccountRequest s r h read_empty of
        Inl refused \<Rightarrow> (refused, st)
      | Inr (credential, _) \<Rightarrow>
          (case account_Revoke b (wd_clock w) credential (wd_others w 0 (st_db st)) of
             Inl e \<Rightarrow> (failPublicAccount (wd_answer w) h e False, st)
           | Inr d \<Rightarrow> (writeJSON h 200 (VObj [(''revoked'', VBool True)]), st\<lparr>st_db := d\<rparr>)))"

definition updatePublicAccountProfile :: "Server \<Rightarrow> world \<Rightarrow> AccountBroker \<Rightarrow> Request \<Rightarrow> handler" where
  "updatePublicAccountProfile s w b r h st =
     (case publicAccountRequest s r h read_profile of
        Inl refused \<Rightarrow> (refused, st)
      | Inr (credential, input) \<Rightarrow>
          (case UpdateProfile b (wd_clock w) (wd_view w) credential input (wd_others w 0 (st_db st)) of
             Inl e \<Rightarrow> (failPublicAccount (wd_answer w) h e False, st)
           | Inr (result, d) \<Rightarrow> (writeJSON h 200 (profileJSON result), st\<lparr>st_db := d\<rparr>)))"

section \<open>Product directory\<close>

definition non_empty :: "string \<Rightarrow> string \<Rightarrow> (string \<times> jvalue) list" where
  "non_empty n v = (if v = '''' then [] else [(n, VStr v)])"

definition permissionJSON :: "Permission \<Rightarrow> jvalue" where
  "permissionJSON x = VObj ([(''status'', VStr (pm_Status x))] @ non_empty ''evidence_id'' (pm_EvidenceID x) @
     non_empty ''policy_version'' (pm_PolicyVersion x) @ [(''recorded_at'', timeJSON (pm_RecordedAt x))])"

text \<open>The categories of \<open>permissions\<close>, in the order in which the encoder writes the keys of a map.\<close>

definition permissionsJSON :: "(string \<rightharpoonup> Permission) \<Rightarrow> (string \<times> jvalue) list" where
  "permissionsJSON m = concat (map (\<lambda>category. case m category of None \<Rightarrow> [] | Some x \<Rightarrow> [(category, permissionJSON x)])
     [''news'', ''research'', ''service''])"

definition entryJSON :: "Entry \<Rightarrow> jvalue" where
  "entryJSON x = VObj
     [(''account_key'', VStr (en_AccountKey x)), (''contact_reference'', VStr (en_ContactReference x)), (''email'', VStr (en_Email x)),
      (''origin'', VStr ''identity_product_registration''), (''verified_at'', timeJSON (en_VerifiedAt x)), (''holder_role'', VStr (en_HolderRole x)),
      (''country'', VStr (en_Country x)), (''region'', VStr (en_Region x)), (''version'', VInt (uint (en_Version x))),
      (''telemetry_preference'', VStr (en_TelemetryPreference x)), (''permissions'', VObj (permissionsJSON (en_Permissions x)))]"

definition pageJSON :: "Page \<Rightarrow> jvalue" where
  "pageJSON x = VObj ([(''contract_version'', VInt 1), (''product'', VStr (pg_Product x)), (''entries'', VArr (map entryJSON (pg_Entries x)))]
     @ non_empty ''next_cursor'' (pg_NextCursor x) @ [(''data_as_of'', timeJSON (pg_DataAsOf x))])"

definition checkJSON :: "CheckResult \<Rightarrow> jvalue" where
  "checkJSON x = VObj ([(''contact_reference'', VStr (ck_ContactReference x))] @ non_empty ''account_key'' (ck_AccountKey x)
     @ [(''state'', VStr (ck_State x))] @ non_empty ''reason'' (ck_Reason x)
     @ (if ck_Version x = 0 then [] else [(''version'', VInt (uint (ck_Version x)))])
     @ (if permissionsJSON (ck_Permissions x) = [] then [] else [(''permissions'', VObj (permissionsJSON (ck_Permissions x)))]))"

definition checksJSON :: "string \<Rightarrow> CheckResult list \<Rightarrow> time \<Rightarrow> jvalue" where
  "checksJSON product results checkedAt = VObj
     [(''contract_version'', VInt 1), (''product'', VStr product), (''results'', VArr (map checkJSON results)), (''checked_at'', timeJSON checkedAt)]"

definition read_query :: "jvalue \<Rightarrow> QueryInput option" where
  "read_query = read_object [''product_id'', ''cursor'', ''limit''] (\<lambda>vs.
     obind (take_values take_string '''' (vs ''product_id'')) (\<lambda>product.
     obind (take_values take_string '''' (vs ''cursor'')) (\<lambda>cursor.
     obind (take_values take_uint64 0 (vs ''limit'')) (\<lambda>limit.
       Some \<lparr>qi_ProductID = product, qi_Cursor = cursor, qi_Limit = limit\<rparr>))))"

definition read_check :: "jvalue \<Rightarrow> (string \<times> string list) option" where
  "read_check = read_object [''product_id'', ''references''] (\<lambda>vs.
     obind (take_values take_string '''' (vs ''product_id'')) (\<lambda>product.
     obind (take_values take_strings [] (vs ''references'')) (\<lambda>references.
       Some (product, references))))"

definition failProductDirectory :: "headers \<Rightarrow> error \<Rightarrow> Response" where
  "failProductDirectory h e =
     (if e = ErrInvalid then writeJSON h 400 (errorResponse ''invalid_request'')
      else if e = ErrForbidden then writeJSON h 403 (errorResponse ''forbidden'')
      else if e = ErrConflict then writeJSON h 409 (errorResponse ''conflict'')
      else writeJSON h 503 (errorResponse ''directory_unavailable''))"

definition directory_body :: "Server \<Rightarrow> Request \<Rightarrow> (jvalue \<Rightarrow> 'a option) \<Rightarrow> 'a option" where
  "directory_body s r read =
     (if hr_RawQuery r \<noteq> '''' then None
      else case decodeJSON (sv_http s) (read_nullable read) r of Inr (Some input) \<Rightarrow> Some input | _ \<Rightarrow> None)"

definition queryProductDirectory :: "Server \<Rightarrow> world \<Rightarrow> Directory \<Rightarrow> Request \<Rightarrow> Principal \<Rightarrow> handler" where
  "queryProductDirectory s w dir r p h st =
     (case directory_body s r read_query of
        None \<Rightarrow> (writeJSON h 400 (errorResponse ''invalid_request''), st)
      | Some input \<Rightarrow>
          (case Query dir (wd_view w) (wd_clock w 0) (wd_fresh w 0) p input of
             Inl e \<Rightarrow> (failProductDirectory h e, st)
           | Inr (page, d) \<Rightarrow> (writeJSON h 200 (pageJSON page), st\<lparr>st_db := d\<rparr>)))"

definition checkProductDirectory :: "Server \<Rightarrow> world \<Rightarrow> Directory \<Rightarrow> Request \<Rightarrow> Principal \<Rightarrow> handler" where
  "checkProductDirectory s w dir r p h st =
     (case directory_body s r read_check of
        None \<Rightarrow> (writeJSON h 400 (errorResponse ''invalid_request''), st)
      | Some (requested, references) \<Rightarrow>
          (case rbind (directory_product dir p requested) (\<lambda>product.
              rbind (Check dir (wd_view w) (wd_clock w 0) (wd_fresh w 0) p requested references) (\<lambda>(results, d). Inr (product, results, d))) of
             Inl e \<Rightarrow> (failProductDirectory h e, st)
           | Inr (product, results, d) \<Rightarrow> (writeJSON h 200 (checksJSON product results (wd_clock w 0)), st\<lparr>st_db := d\<rparr>)))"

end
