(* ===== verification/Http_Routes.thy ===== *)
theory Http_Routes
  imports Http_Public
begin

text \<open>
  The route table of \<^verbatim>\<open>httpapi.New\<close> and the handling of a whole request: the match of
  the path and the method, the guard of the route (open, public behind the token
  bucket and the origin check, or internal behind a role), and the handler.
\<close>

section \<open>Routes\<close>

datatype endpoint =
    Health | Ready | Jwks
  | PublicRegister | PublicToken | PublicPreference | PublicPreflight
  | AccountBegin | AccountVerify | AccountRefresh | AccountRevoke | AccountProfile | AccountPreflight
  | DirectoryQuery | DirectoryCheck
  | CreateInstallationRoute | BeginVerificationRoute | VerifyOwnershipRoute | RegisterIdentityRoute | IssueTokenRoute
  | SubmitOrganizationRoute | MembershipRoute | ConsentRoute | PreferenceRoute
  | PrivacyRequestRoute | PrivacyGetRoute | PrivacyStatusRoute
  | OrganizationRoute | ResolveSubmissionRoute | MergeOrganizationRoute

datatype guard = Anyone | Public | Role string

record route =
  rt_Method :: string
  rt_Pattern :: "string list"
  rt_Guard :: guard
  rt_Endpoint :: endpoint

definition wildcard :: string where "wildcard = ''{id}''"

abbreviation route_to :: "string \<Rightarrow> string list \<Rightarrow> guard \<Rightarrow> endpoint \<Rightarrow> route" where
  "route_to m p g e \<equiv> \<lparr>rt_Method = m, rt_Pattern = p, rt_Guard = g, rt_Endpoint = e\<rparr>"

definition open_routes :: "route list" where
  "open_routes =
     [route_to ''GET'' [''healthz''] Anyone Health,
      route_to ''GET'' [''readyz''] Anyone Ready,
      route_to ''GET'' [''.well-known'', ''jwks.json''] Anyone Jwks]"

definition installation_routes :: "route list" where
  "installation_routes =
     [route_to ''POST'' [''v1'', ''public'', ''installations''] Public PublicRegister,
      route_to ''OPTIONS'' [''v1'', ''public'', ''installations''] Public PublicPreflight,
      route_to ''POST'' [''v1'', ''public'', ''installations'', ''token''] Public PublicToken,
      route_to ''OPTIONS'' [''v1'', ''public'', ''installations'', ''token''] Public PublicPreflight,
      route_to ''PUT'' [''v1'', ''public'', ''installations'', ''telemetry-preference''] Public PublicPreference,
      route_to ''OPTIONS'' [''v1'', ''public'', ''installations'', ''telemetry-preference''] Public PublicPreflight]"

definition account_routes :: "route list" where
  "account_routes =
     [route_to ''POST'' [''v1'', ''public'', ''email'', ''challenges''] Public AccountBegin,
      route_to ''OPTIONS'' [''v1'', ''public'', ''email'', ''challenges''] Public AccountPreflight,
      route_to ''POST'' [''v1'', ''public'', ''email'', ''challenges'', wildcard, ''verify''] Public AccountVerify,
      route_to ''OPTIONS'' [''v1'', ''public'', ''email'', ''challenges'', wildcard, ''verify''] Public AccountPreflight,
      route_to ''POST'' [''v1'', ''public'', ''account-sessions'', ''refresh''] Public AccountRefresh,
      route_to ''OPTIONS'' [''v1'', ''public'', ''account-sessions'', ''refresh''] Public AccountPreflight,
      route_to ''POST'' [''v1'', ''public'', ''account-sessions'', ''revoke''] Public AccountRevoke,
      route_to ''OPTIONS'' [''v1'', ''public'', ''account-sessions'', ''revoke''] Public AccountPreflight,
      route_to ''PUT'' [''v1'', ''public'', ''account-profile''] Public AccountProfile,
      route_to ''OPTIONS'' [''v1'', ''public'', ''account-profile''] Public AccountPreflight]"

definition directory_routes :: "route list" where
  "directory_routes =
     [route_to ''POST'' [''v1'', ''internal'', ''product-directory'', ''query''] (Role RoleProductDirectoryRead) DirectoryQuery,
      route_to ''POST'' [''v1'', ''internal'', ''product-directory'', ''check''] (Role RoleProductDirectoryRead) DirectoryCheck]"

definition internal_routes :: "route list" where
  "internal_routes =
     [route_to ''POST'' [''v1'', ''installations''] (Role RoleProduct) CreateInstallationRoute,
      route_to ''POST'' [''v1'', ''email-verifications''] (Role RoleProduct) BeginVerificationRoute,
      route_to ''POST'' [''v1'', ''internal'', ''email-verifications'', wildcard, ''verify''] (Role ''email_verifier'') VerifyOwnershipRoute,
      route_to ''POST'' [''v1'', ''email-identities''] (Role RoleProduct) RegisterIdentityRoute,
      route_to ''POST'' [''v1'', ''tokens''] (Role RoleProduct) IssueTokenRoute,
      route_to ''POST'' [''v1'', ''organization-submissions''] (Role RoleProduct) SubmitOrganizationRoute,
      route_to ''POST'' [''v1'', ''memberships''] (Role RoleProduct) MembershipRoute,
      route_to ''POST'' [''v1'', ''consents''] (Role RoleProduct) ConsentRoute,
      route_to ''PUT'' [''v1'', ''telemetry-preferences''] (Role RoleProduct) PreferenceRoute,
      route_to ''POST'' [''v1'', ''privacy-requests''] (Role RoleProduct) PrivacyRequestRoute,
      route_to ''POST'' [''v1'', ''internal'', ''privacy-requests''] (Role ''privacy_global'') PrivacyRequestRoute,
      route_to ''GET'' [''v1'', ''privacy-requests'', wildcard] (Role ''privacy_admin'') PrivacyGetRoute,
      route_to ''POST'' [''v1'', ''internal'', ''privacy-requests'', wildcard, ''status''] (Role ''privacy_admin'') PrivacyStatusRoute,
      route_to ''POST'' [''v1'', ''internal'', ''organizations''] (Role ''organization_admin'') OrganizationRoute,
      route_to ''POST'' [''v1'', ''internal'', ''organization-submissions'', wildcard, ''resolve''] (Role ''organization_admin'') ResolveSubmissionRoute,
      route_to ''POST'' [''v1'', ''internal'', ''organizations'', wildcard, ''merge''] (Role ''organization_admin'') MergeOrganizationRoute]"

definition routes :: "Server \<Rightarrow> route list" where
  "routes s = open_routes
     @ (if sv_publicBroker s = None then [] else installation_routes)
     @ (if sv_publicAccounts s = None then [] else account_routes)
     @ (if sv_directory s = None then [] else directory_routes)
     @ internal_routes"

section \<open>Requests\<close>

text \<open>
  A wildcard matches one segment, which is the path value \<^verbatim>\<open>id\<close>; a pattern for
  \<^verbatim>\<open>GET\<close> also takes \<^verbatim>\<open>HEAD\<close>.  No two patterns of the table match the same path
  and method.
\<close>

definition path_matches :: "string list \<Rightarrow> string list \<Rightarrow> bool" where
  "path_matches pattern path = list_all2 (\<lambda>x y. if x = wildcard then y \<noteq> '''' else x = y) pattern path"

definition path_value :: "string list \<Rightarrow> string list \<Rightarrow> string" where
  "path_value pattern path = (case List.find (\<lambda>x. fst x = wildcard) (zip pattern path) of None \<Rightarrow> '''' | Some x \<Rightarrow> snd x)"

definition method_matches :: "string \<Rightarrow> string \<Rightarrow> bool" where
  "method_matches m given_method \<longleftrightarrow> m = given_method \<or> (m = ''GET'' \<and> given_method = ''HEAD'')"

definition route_of :: "Server \<Rightarrow> Request \<Rightarrow> route option" where
  "route_of s r = List.find (\<lambda>t. path_matches (rt_Pattern t) (hr_Path r) \<and> method_matches (rt_Method t) (hr_Method r)) (routes s)"

definition mux_error :: "nat \<Rightarrow> headers \<Rightarrow> Response" where
  "mux_error status h = \<lparr>hp_status = status, hp_header = header_set ''Content-Type'' ''text/plain; charset=utf-8'' h, hp_body = None\<rparr>"

definition respond :: "headers \<Rightarrow> server_state \<Rightarrow> outcome \<Rightarrow> Response \<times> server_state" where
  "respond h st m = (case m of
     (Inl e, d) \<Rightarrow> (fail h e, st\<lparr>st_db := d\<rparr>)
   | (Inr (status, v), d) \<Rightarrow> (writeJSON h status v, st\<lparr>st_db := d\<rparr>))"

definition internal_handler :: "Server \<Rightarrow> world \<Rightarrow> Request \<Rightarrow> string \<Rightarrow> endpoint \<Rightarrow> Principal \<Rightarrow> db \<Rightarrow> outcome" where
  "internal_handler s w r i e p d = (case e of
     CreateInstallationRoute \<Rightarrow> createInstallation s w r p d
   | BeginVerificationRoute \<Rightarrow> beginEmailVerification s w r p d
   | VerifyOwnershipRoute \<Rightarrow> verifyEmailOwnership s w r i p d
   | RegisterIdentityRoute \<Rightarrow> registerEmailIdentity s w r p d
   | IssueTokenRoute \<Rightarrow> issueToken s w r p d
   | SubmitOrganizationRoute \<Rightarrow> createOrganizationSubmission s w r p d
   | MembershipRoute \<Rightarrow> createMembership s w r p d
   | ConsentRoute \<Rightarrow> createConsent s w r p d
   | PreferenceRoute \<Rightarrow> setTelemetryPreference s w r p d
   | PrivacyRequestRoute \<Rightarrow> createPrivacyRequest s w r p d
   | PrivacyGetRoute \<Rightarrow> getPrivacyRequest w i d
   | PrivacyStatusRoute \<Rightarrow> updatePrivacyRequestStatus s w r i p d
   | OrganizationRoute \<Rightarrow> createOrganization s w r d
   | ResolveSubmissionRoute \<Rightarrow> resolveOrganizationSubmission s w r i p d
   | MergeOrganizationRoute \<Rightarrow> mergeOrganization s w r i p d
   | _ \<Rightarrow> (Inl ErrNotFound, d))"

definition role_handler :: "Server \<Rightarrow> world \<Rightarrow> Request \<Rightarrow> string \<Rightarrow> endpoint \<Rightarrow> Principal \<Rightarrow> handler" where
  "role_handler s w r i e p h st = (case (e, sv_directory s) of
     (DirectoryQuery, Some dir) \<Rightarrow> queryProductDirectory s w dir r p h st
   | (DirectoryCheck, Some dir) \<Rightarrow> checkProductDirectory s w dir r p h st
   | _ \<Rightarrow> respond h st (internal_handler s w r i e p (st_db st)))"

definition public_handler :: "Server \<Rightarrow> world \<Rightarrow> Request \<Rightarrow> string \<Rightarrow> endpoint \<Rightarrow> handler" where
  "public_handler s w r i e h st = (case (e, sv_publicBroker s, sv_publicAccounts s) of
     (PublicRegister, Some b, _) \<Rightarrow> registerPublicInstallation s w b r h st
   | (PublicToken, Some b, _) \<Rightarrow> (refreshPublicInstallationToken s w b r h, st)
   | (PublicPreference, Some b, _) \<Rightarrow> setPublicTelemetryPreference s w b r h st
   | (PublicPreflight, _, _) \<Rightarrow> (publicPreflight h, st)
   | (AccountBegin, _, Some b) \<Rightarrow> beginPublicAccountChallenge s w b r h st
   | (AccountVerify, _, Some b) \<Rightarrow> verifyPublicAccountChallenge s w b r i h st
   | (AccountRefresh, _, Some b) \<Rightarrow> refreshPublicAccountSession s w b r h st
   | (AccountRevoke, _, Some b) \<Rightarrow> revokePublicAccountSession s w b r h st
   | (AccountProfile, _, Some b) \<Rightarrow> updatePublicAccountProfile s w b r h st
   | (AccountPreflight, _, _) \<Rightarrow> (publicAccountPreflight r h, st)
   | _ \<Rightarrow> (mux_error 404 h, st))"

definition open_handler :: "Server \<Rightarrow> world \<Rightarrow> endpoint \<Rightarrow> handler" where
  "open_handler s w e h st = (case e of
     Health \<Rightarrow> (health h, st)
   | Ready \<Rightarrow> (ready s w h st, st)
   | Jwks \<Rightarrow> (jwks s h, st)
   | _ \<Rightarrow> (mux_error 404 h, st))"

definition run_route :: "Server \<Rightarrow> world \<Rightarrow> Request \<Rightarrow> route \<Rightarrow> handler" where
  "run_route s w r t =
     (let i = path_value (rt_Pattern t) (hr_Path r) in
      case rt_Guard t of
        Anyone \<Rightarrow> open_handler s w (rt_Endpoint t)
      | Public \<Rightarrow> public s (wd_arrival w) r (public_handler s w r i (rt_Endpoint t))
      | Role role \<Rightarrow> require s role r (role_handler s w r i (rt_Endpoint t)))"

definition serve_mux :: "Server \<Rightarrow> world \<Rightarrow> Request \<Rightarrow> handler" where
  "serve_mux s w r h st = (case route_of s r of
     Some t \<Rightarrow> run_route s w r t h st
   | None \<Rightarrow>
       if list_ex (\<lambda>t. path_matches (rt_Pattern t) (hr_Path r)) (routes s) then (mux_error 405 h, st) else (mux_error 404 h, st))"

definition serve :: "Server \<Rightarrow> world \<Rightarrow> string \<Rightarrow> Request \<Rightarrow> server_state \<Rightarrow> Response \<times> server_state" where
  "serve s w requestID r = middleware requestID (\<lambda>h st. case serve_mux s w r h st of (answer, st') \<Rightarrow> (Some answer, st'))"

section \<open>Laws of the table\<close>

definition patterns_overlap :: "string list \<Rightarrow> string list \<Rightarrow> bool" where
  "patterns_overlap a b = list_all2 (\<lambda>x y. x = y \<or> x = wildcard \<or> y = wildcard) a b"

definition routes_overlap :: "route \<Rightarrow> route \<Rightarrow> bool" where
  "routes_overlap a b \<longleftrightarrow> patterns_overlap (rt_Pattern a) (rt_Pattern b) \<and> rt_Method a = rt_Method b"

fun unambiguous :: "route list \<Rightarrow> bool" where
  "unambiguous [] = True"
| "unambiguous (t # ts) = (list_all (\<lambda>u. \<not> routes_overlap t u) ts \<and> unambiguous ts)"

definition all_routes :: "route list" where
  "all_routes = open_routes @ installation_routes @ account_routes @ directory_routes @ internal_routes"

lemma all_routes_unambiguous: "unambiguous all_routes"
  by code_simp

lemma routes_all: "set (routes s) \<subseteq> set all_routes"
  by (auto simp: routes_def all_routes_def)

lemma path_matches_overlap: "path_matches a p \<Longrightarrow> path_matches b p \<Longrightarrow> patterns_overlap a b"
  unfolding path_matches_def patterns_overlap_def by (auto simp: list_all2_conv_all_nth split: if_splits) metis

lemma unambiguous_unique:
  "unambiguous ts \<Longrightarrow> t \<in> set ts \<Longrightarrow> u \<in> set ts \<Longrightarrow> routes_overlap t u \<Longrightarrow> routes_overlap u t \<Longrightarrow> t = u"
  by (induction ts) (auto simp: list_all_iff)

lemma guards_known: "list_all (\<lambda>t. rt_Method t \<noteq> ''HEAD'' \<and> (case rt_Guard t of
     Anyone \<Rightarrow> t \<in> set open_routes | Public \<Rightarrow> take 2 (rt_Pattern t) = [''v1'', ''public''] | Role role \<Rightarrow> role \<in> set known_roles)) all_routes"
  by code_simp

text \<open>At most one route of the table takes a request.\<close>

lemma route_unique:
  assumes "t \<in> set (routes s)" "u \<in> set (routes s)"
    and "path_matches (rt_Pattern t) path" "path_matches (rt_Pattern u) path"
    and "method_matches (rt_Method t) m" "method_matches (rt_Method u) m"
  shows "t = u"
proof -
  have tu: "t \<in> set all_routes" "u \<in> set all_routes" using assms routes_all by auto
  have "rt_Method t \<noteq> ''HEAD''" "rt_Method u \<noteq> ''HEAD''" using tu guards_known by (auto simp: list_all_iff)
  with assms(5,6) have "rt_Method t = rt_Method u" by (auto simp: method_matches_def)
  then show ?thesis
    using unambiguous_unique [OF all_routes_unambiguous tu] path_matches_overlap [OF assms(3,4)] path_matches_overlap [OF assms(4,3)]
    by (simp add: routes_overlap_def)
qed

lemma route_of_Some:
  "route_of s r = Some t \<longleftrightarrow> t \<in> set (routes s) \<and> path_matches (rt_Pattern t) (hr_Path r) \<and> method_matches (rt_Method t) (hr_Method r)"
proof
  assume "route_of s r = Some t"
  then show "t \<in> set (routes s) \<and> path_matches (rt_Pattern t) (hr_Path r) \<and> method_matches (rt_Method t) (hr_Method r)"
    unfolding route_of_def by (auto simp: find_Some_iff)
next
  assume t: "t \<in> set (routes s) \<and> path_matches (rt_Pattern t) (hr_Path r) \<and> method_matches (rt_Method t) (hr_Method r)"
  then obtain u where u: "route_of s r = Some u" unfolding route_of_def by (cases "route_of s r") (auto simp: route_of_def find_None_iff)
  then have "u \<in> set (routes s) \<and> path_matches (rt_Pattern u) (hr_Path r) \<and> method_matches (rt_Method u) (hr_Method r)"
    unfolding route_of_def by (auto simp: find_Some_iff)
  with t u show "route_of s r = Some t" using route_unique by blast
qed

lemma path_prefix:
  assumes "path_matches pattern path" and "take 2 pattern = [''v1'', ''public'']"
  shows "take 2 path = [''v1'', ''public'']"
proof -
  from assms(2) obtain rest where "pattern = ''v1'' # ''public'' # rest"
    by (cases pattern; cases "tl pattern") auto
  with assms(1) show ?thesis by (auto simp: path_matches_def list_all2_Cons1 wildcard_def)
qed

lemma serve_routed: "route_of s r = Some t \<Longrightarrow> serve s w requestID r st = run_route s w r t (base_headers requestID) st"
  by (simp add: serve_def middleware_def serve_mux_def split: prod.splits)

lemma serve_unrouted: "route_of s r = None \<Longrightarrow> \<exists>answer. serve s w requestID r st = (answer, st)"
  by (auto simp: serve_def middleware_def serve_mux_def)

lemma writeJSON_status [simp]: "hp_status (writeJSON h status v) = status"
  by (simp add: writeJSON_def Let_def)

lemma Authenticate_configured:
  assumes "authz_New sha256 ws = Inr credentials" and "Authenticate sha256 credentials authorization = Some p"
  shows "\<exists>w \<in> set ws. p = principal_of w \<and> sha256 (drop (length bearer) authorization) = sha256 (wl_Token w) \<and>
    take (length bearer) authorization = bearer"
  using assms by (auto simp: authz_New_Inr Authenticate_def find_Some_iff split: if_splits dest: nth_mem)

section \<open>Properties\<close>

abbreviation authorization :: "Request \<Rightarrow> string" where
  "authorization r \<equiv> header_get (hr_Header r) ''Authorization''"

text \<open>
  C7: the internal routes are closed to everyone but the workloads they are for. A
  request outside \<^verbatim>\<open>/v1/public\<close> that changes anything (the database or a bucket) is
  routed to a route with a role, and carries the token, up to its digest, of a
  configured workload that has this role. On such a route an unknown token is
  answered with 401 and a known one without the role with 403, and nothing changes.
\<close>

theorem internal_routes_guarded:
  assumes workloads: "authz_New (sv_sha256 s) ws = Inr (sv_authenticator s)"
    and internal: "take 2 (hr_Path r) \<noteq> [''v1'', ''public'']"
    and served: "serve s w requestID r st = (answer, st')"
  shows "(st' \<noteq> st \<longrightarrow> (\<exists>t role k. route_of s r = Some t \<and> rt_Guard t = Role role \<and> k \<in> set ws \<and> role \<in> set (wl_Roles k) \<and>
      take (length bearer) (authorization r) = bearer \<and> sv_sha256 s (drop (length bearer) (authorization r)) = sv_sha256 s (wl_Token k))) \<and>
    (\<forall>t role. route_of s r = Some t \<and> rt_Guard t = Role role \<longrightarrow>
      (case Authenticate (sv_sha256 s) (sv_authenticator s) (authorization r) of
         None \<Rightarrow> hp_status answer = 401 \<and> st' = st
       | Some p \<Rightarrow> \<not> Has p role \<longrightarrow> hp_status answer = 403 \<and> st' = st))"
proof -
  have refused: "case Authenticate (sv_sha256 s) (sv_authenticator s) (authorization r) of
         None \<Rightarrow> hp_status answer = 401 \<and> st' = st
       | Some p \<Rightarrow> \<not> Has p role \<longrightarrow> hp_status answer = 403 \<and> st' = st"
    if "route_of s r = Some t" "rt_Guard t = Role role" for t role
    using served serve_routed [OF that(1)] that(2) by (auto simp: run_route_def require_def split: option.splits)
  have "\<exists>t role k. route_of s r = Some t \<and> rt_Guard t = Role role \<and> k \<in> set ws \<and> role \<in> set (wl_Roles k) \<and>
      take (length bearer) (authorization r) = bearer \<and> sv_sha256 s (drop (length bearer) (authorization r)) = sv_sha256 s (wl_Token k)"
    if changed: "st' \<noteq> st"
  proof -
    from serve_unrouted [of s r w requestID st] changed served obtain t where t: "route_of s r = Some t" by (cases "route_of s r") auto
    then have member: "t \<in> set all_routes" and match: "path_matches (rt_Pattern t) (hr_Path r)" using routes_all by (auto simp: route_of_Some)
    have "rt_Guard t \<noteq> Public"
      using member match internal path_prefix guards_known by (auto simp: list_all_iff split: guard.splits)
    moreover have "rt_Guard t \<noteq> Anyone"
      using served changed serve_routed [OF t, of w requestID st] by (auto simp: run_route_def open_handler_def split: endpoint.splits)
    ultimately obtain role where role: "rt_Guard t = Role role" by (cases "rt_Guard t") auto
    from refused [OF t role] changed obtain p where p: "Authenticate (sv_sha256 s) (sv_authenticator s) (authorization r) = Some p" "Has p role"
      by (auto split: option.splits)
    from Authenticate_configured [OF workloads p(1)] p(2) t role show ?thesis
      by (auto simp: Has_def principal_of_def)
  qed
  with refused show ?thesis by blast
qed

section \<open>Rate limits\<close>

type_synonym exchange = "world \<times> string \<times> Request"

definition serve_step :: "Server \<Rightarrow> exchange \<Rightarrow> server_state \<Rightarrow> Response \<times> server_state" where
  "serve_step s x = (case x of (w, requestID, r) \<Rightarrow> serve s w requestID r)"

definition public_answer :: "Server \<Rightarrow> exchange \<Rightarrow> Response \<Rightarrow> bool" where
  "public_answer s x a = (case x of (w, requestID, r) \<Rightarrow>
     (case route_of s r of None \<Rightarrow> False | Some t \<Rightarrow> rt_Guard t = Public) \<and> hp_status a \<noteq> 429)"

definition installation_answer :: "Server \<Rightarrow> exchange \<Rightarrow> Response \<Rightarrow> bool" where
  "installation_answer s x a = (case x of (w, requestID, r) \<Rightarrow>
     (case route_of s r of None \<Rightarrow> False | Some t \<Rightarrow> rt_Endpoint t = PublicRegister) \<and> hp_status a = 201)"

lemma fail_status_values: "fst (fail_status e) \<in> {400, 403, 404, 409, 500}"
  by (simp add: fail_status_def)

lemma fail_not_created [simp]: "hp_status (fail h e) \<noteq> 201"
  using fail_status_values [of e] by (auto simp: fail_def)

lemma role_handler_buckets:
  "role_handler s w r i e p h st = (a, st') \<Longrightarrow> st_requests st' = st_requests st \<and> st_registers st' = st_registers st"
  by (auto simp: role_handler_def queryProductDirectory_def checkProductDirectory_def respond_def split: endpoint.splits option.splits prod.splits sum.splits)

lemma open_handler_state: "open_handler s w e h st = (a, st') \<Longrightarrow> st' = st"
  by (auto simp: open_handler_def split: endpoint.splits)

lemma account_handlers_buckets:
  "beginPublicAccountChallenge s w b r h st = (a, st') \<Longrightarrow> st_requests st' = st_requests st \<and> st_registers st' = st_registers st"
  "verifyPublicAccountChallenge s w b r i h st = (a, st') \<Longrightarrow> st_requests st' = st_requests st \<and> st_registers st' = st_registers st"
  "refreshPublicAccountSession s w b r h st = (a, st') \<Longrightarrow> st_requests st' = st_requests st \<and> st_registers st' = st_registers st"
  "revokePublicAccountSession s w b r h st = (a, st') \<Longrightarrow> st_requests st' = st_requests st \<and> st_registers st' = st_registers st"
  "updatePublicAccountProfile s w b r h st = (a, st') \<Longrightarrow> st_requests st' = st_requests st \<and> st_registers st' = st_registers st"
  "setPublicTelemetryPreference s w ib r h st = (a, st') \<Longrightarrow> st_requests st' = st_requests st \<and> st_registers st' = st_registers st"
  by (auto simp: beginPublicAccountChallenge_def verifyPublicAccountChallenge_def refreshPublicAccountSession_def
      revokePublicAccountSession_def updatePublicAccountProfile_def setPublicTelemetryPreference_def split: sum.splits prod.splits option.splits)

lemma register_gate:
  assumes "registerPublicInstallation s w b r h st = (a, st')"
  shows "st_requests st' = st_requests st"
    and "\<exists>ok. Allow (wd_admission w) (st_registers st) = (ok, st_registers st') \<and> (hp_status a = 201 \<longrightarrow> ok)"
  using assms by (auto simp: registerPublicInstallation_def Let_def split: prod.splits bool.splits sum.splits)

lemma public_handler_gate:
  assumes "public_handler s w r i e h st = (a, st')"
  shows "st_requests st' = st_requests st"
    and "(st_registers st' = st_registers st \<and> \<not> (e = PublicRegister \<and> hp_status a = 201)) \<or>
      (\<exists>ok. Allow (wd_admission w) (st_registers st) = (ok, st_registers st') \<and> (hp_status a = 201 \<longrightarrow> ok))"
  using assms
  by (auto simp: public_handler_def mux_error_def split: endpoint.splits option.splits
      dest!: account_handlers_buckets dest: register_gate)

lemma serve_requests:
  assumes "serve s w requestID r st = (a, st')"
  shows "(st_requests st' = st_requests st \<and> \<not> public_answer s (w, requestID, r) a) \<or>
    (\<exists>ok. Allow (wd_arrival w) (st_requests st) = (ok, st_requests st') \<and> (public_answer s (w, requestID, r) a \<longrightarrow> ok))"
proof (cases "route_of s r")
  case None
  with serve_unrouted [OF None, of w requestID st] assms show ?thesis by (auto simp: public_answer_def)
next
  case (Some t)
  note run = assms [unfolded serve_routed [OF Some] run_route_def]
  show ?thesis
  proof (cases "rt_Guard t")
    case Anyone
    with run Some show ?thesis by (auto simp: public_answer_def dest: open_handler_state)
  next
    case Public
    with run Some show ?thesis
      by (auto simp: public_answer_def public_def Let_def split: prod.splits bool.splits if_splits dest: public_handler_gate(1))
  next
    case (Role role)
    with run Some show ?thesis
      by (auto simp: public_answer_def require_def split: option.splits if_splits dest: role_handler_buckets)
  qed
qed

lemma serve_registers:
  assumes "serve s w requestID r st = (a, st')"
  shows "(st_registers st' = st_registers st \<and> \<not> installation_answer s (w, requestID, r) a) \<or>
    (\<exists>ok. Allow (wd_admission w) (st_registers st) = (ok, st_registers st') \<and> (installation_answer s (w, requestID, r) a \<longrightarrow> ok))"
proof (cases "route_of s r")
  case None
  with serve_unrouted [OF None, of w requestID st] assms show ?thesis by (auto simp: installation_answer_def)
next
  case (Some t)
  then have member: "t \<in> set all_routes" using routes_all by (auto simp: route_of_Some)
  have only: "list_all (\<lambda>t. rt_Endpoint t = PublicRegister \<longrightarrow> rt_Guard t = Public) all_routes" by code_simp
  note run = assms [unfolded serve_routed [OF Some] run_route_def]
  show ?thesis
  proof (cases "rt_Guard t")
    case Anyone
    with run Some member only show ?thesis by (auto simp: installation_answer_def list_all_iff dest: open_handler_state)
  next
    case Public
    let ?i = "path_value (rt_Pattern t) (hr_Path r)"
    have "(st_registers st' = st_registers st \<and> hp_status a \<noteq> 201) \<or>
        (\<exists>h b. public_handler s w r ?i (rt_Endpoint t) h (st\<lparr>st_requests := b\<rparr>) = (a, st'))"
      using run Public unfolding public_def by (auto simp: Let_def split: prod.splits bool.splits if_splits)
    then show ?thesis using public_handler_gate(2) [of s w r ?i "rt_Endpoint t"] Some by (fastforce simp: installation_answer_def)
  next
    case (Role role)
    with run Some member only show ?thesis
      by (auto simp: installation_answer_def list_all_iff require_def split: option.splits if_splits dest: role_handler_buckets)
  qed
qed

interpretation request_gate: gated "serve_step s" st_requests "\<lambda>x. wd_arrival (fst x)" "public_answer s" for s
proof unfold_locales
  fix x st a st' assume "serve_step s x st = (a, st')"
  then show "(st_requests st' = st_requests st \<and> \<not> public_answer s x a) \<or>
      (\<exists>ok. Allow (wd_arrival (fst x)) (st_requests st) = (ok, st_requests st') \<and> (public_answer s x a \<longrightarrow> ok))"
    using serve_requests by (cases x) (simp add: serve_step_def)
qed

interpretation register_gate: gated "serve_step s" st_registers "\<lambda>x. wd_admission (fst x)" "installation_answer s" for s
proof unfold_locales
  fix x st a st' assume "serve_step s x st = (a, st')"
  then show "(st_registers st' = st_registers st \<and> \<not> installation_answer s x a) \<or>
      (\<exists>ok. Allow (wd_admission (fst x)) (st_registers st) = (ok, st_registers st') \<and> (installation_answer s x a \<longrightarrow> ok))"
    using serve_registers by (cases x) (simp add: serve_step_def)
qed

text \<open>
  C35: the token buckets bound the public traffic whatever the clients do. From a
  server started at \<open>start\<close>, in any sequence of requests with clock readings that do
  not go back, the public routes give at most 60 answers other than 429, and one more
  for each second that has passed, and create at most 6 installations, and one more
  for each ten seconds; the internal requests in between take no token.
\<close>

theorem public_traffic_limited:
  assumes "st_requests st = newTokenBucket start 60 second" and "st_registers st = newTokenBucket start 6 (10 * second)"
    and "sorted (start # map (\<lambda>x. wd_arrival (fst x)) xs)" and "sorted (start # map (\<lambda>x. wd_admission (fst x)) xs)"
  shows "of_nat (length (filter (\<lambda>(x, a). public_answer s x a) (zip xs (run_all (serve_step s) xs st)))) \<le>
      60 + of_int (last (start # map (\<lambda>x. wd_arrival (fst x)) xs) - start) / (of_int second :: rat) \<and>
    of_nat (length (filter (\<lambda>(x, a). installation_answer s x a) (zip xs (run_all (serve_step s) xs st)))) \<le>
      6 + of_int (last (start # map (\<lambda>x. wd_admission (fst x)) xs) - start) / (of_int (10 * second) :: rat)"
  using request_gate.passed_bound [of st xs s] register_gate.passed_bound [of st xs s] assms
    new_bucket_ok [of second start 60] new_bucket_ok [of "10 * second" start 6]
  unfolding request_gate.passed_def register_gate.passed_def by (simp add: newTokenBucket_def)

end
