(* ===== verification/Http_Scope.thy ===== *)
theory Http_Scope
  imports Http_Routes
begin

text \<open>
  What the internal routes promise about the products of a workload and about the
  tokens they issue, and concrete exchanges at which the properties of the HTTP layer
  apply.
\<close>

section \<open>Tokens for products\<close>

lemma pairwise_text: "utf8_valid (pairwise_Subject hmac g p a k r)"
proof (rule ascii_utf8)
  show "list_all (\<lambda>c. code c < 128) (pairwise_Subject hmac g p a k r)"
    unfolding list_all_iff pairwise_Subject_def
    by (auto dest!: hex_encode_digits simp: char_class_defs)
qed

lemma SignClaims_Inr:
  assumes "SignClaims lib sg now tokenID input = Inr (encoded, expires)"
  obtains ttl where "ttl \<le> sg_maxTTL sg" "0 < ttl" "expires = now + ttl"
    "signClaims lib sg now tokenID (input\<lparr>si_TTL := ttl\<rparr>) = Inr (encoded, expires)" "si_TTL input = ttl \<or> si_TTL input = 0"
proof -
  define ttl where "ttl = (if si_TTL input = 0 then sg_defaultTTL sg else si_TTL input)"
  have eta: "input\<lparr>si_TTL := ttl\<rparr> = (if si_TTL input = 0 then input\<lparr>si_TTL := sg_defaultTTL sg\<rparr> else input)"
    by (simp add: ttl_def)
  from assms have sign: "signClaims lib sg now tokenID (input\<lparr>si_TTL := ttl\<rparr>) = Inr (encoded, expires)" and "0 < ttl" "ttl \<le> sg_maxTTL sg"
    unfolding eta by (auto simp: SignClaims_def ttl_def Let_def split: if_splits)
  moreover from sign have "expires = now + ttl" by (auto simp: signClaims_def Let_def)
  ultimately show ?thesis using that [of ttl] by (auto simp: ttl_def)
qed

text \<open>The access token that a signed input becomes reads back as exactly these claims.\<close>

lemma access_roundtrip:
  assumes lib: "lib_sound lib"
    and ring: "NewKeyring lib seeds active issuer dflt most = Inr sg" "distinct (map fst seeds)"
    and texts: "list_all utf8_valid ([active, issuer, si_Audience input, si_Product input, si_Subject input, si_SubjectType input, si_PolicyVersion input, tokenID] @ si_Scopes input)"
      "\<forall>k. si_PersonKey input = Some k \<longrightarrow> utf8_valid k" "\<forall>k. si_OrgKey input = Some k \<longrightarrow> utf8_valid k"
    and clock: "\<bar>unix now\<bar> < 2 ^ 62" "most < 2 ^ 63"
    and signed: "SignClaims lib sg now tokenID input = Inr (encoded, expires)"
  shows "token_verify lib sg encoded = Inr \<lparr>tc_Issuer = issuer, tc_Subject = si_Subject input, tc_Audience = si_Audience input,
      tc_Product = si_Product input, tc_SubjectType = si_SubjectType input, tc_Scopes = si_Scopes input, tc_PersonKey = si_PersonKey input,
      tc_OrgKey = si_OrgKey input, tc_PolicyVersion = si_PolicyVersion input, tc_IssuedAt = unix now, tc_ExpiresAt = unix expires, tc_TokenID = tokenID\<rparr>"
    and "now < expires \<and> expires \<le> now + most"
proof -
  note sg = NewKeyring_Inr [OF ring]
  from SignClaims_Inr [OF signed] obtain ttl where ttl: "ttl \<le> sg_maxTTL sg" "0 < ttl" "expires = now + ttl"
    and sign: "signClaims lib sg now tokenID (input\<lparr>si_TTL := ttl\<rparr>) = Inr (encoded, expires)" by blast
  define c where "c = \<lparr>tc_Issuer = issuer, tc_Subject = si_Subject input, tc_Audience = si_Audience input,
      tc_Product = si_Product input, tc_SubjectType = si_SubjectType input, tc_Scopes = si_Scopes input, tc_PersonKey = si_PersonKey input,
      tc_OrgKey = si_OrgKey input, tc_PolicyVersion = si_PolicyVersion input, tc_IssuedAt = unix now, tc_ExpiresAt = unix expires, tc_TokenID = tokenID\<rparr>"
  from sign have payload: "signPayload lib sg (claims_members c) = Inr encoded"
    using sg(4) ttl(3) by (auto simp: signClaims_def c_def Let_def)
  have "unix now \<le> unix (now + ttl)" "unix (now + ttl) \<le> unix now + 2 ^ 34"
    using unix_within [of ttl "2 ^ 34" now] ttl sg(6) clock(2) by (simp_all add: duration_defs)
  with clock(1) ttl(3) have "claims_fit c" by (auto simp: claims_fit_def in_int64_def c_def)
  moreover have "members_sendable (claims_members c)"
    using texts by (auto simp: members_sendable_def claims_members_def pointer_member_def c_def split: option.splits)
  moreover have "map_of (sg_publicKeys sg) (sg_keyID sg) = Some (ed_public lib (sg_privateKey sg))" by (rule shared_key [OF ring ring refl])
  ultimately have "token_verify lib sg encoded = Inr c"
    unfolding token_verify_def using lib payload by - (rule claims_token.sign_then_verify, use texts(1) sg in simp_all)
  then show "token_verify lib sg encoded = Inr \<lparr>tc_Issuer = issuer, tc_Subject = si_Subject input, tc_Audience = si_Audience input,
      tc_Product = si_Product input, tc_SubjectType = si_SubjectType input, tc_Scopes = si_Scopes input, tc_PersonKey = si_PersonKey input,
      tc_OrgKey = si_OrgKey input, tc_PolicyVersion = si_PolicyVersion input, tc_IssuedAt = unix now, tc_ExpiresAt = unix expires, tc_TokenID = tokenID\<rparr>"
    by (simp add: c_def)
  show "now < expires \<and> expires \<le> now + most" using ttl sg(6) by simp
qed

lemma sign_or_invalid_Inr [simp]: "sign_or_invalid m = Inr x \<longleftrightarrow> m = Inr x"
  by (cases m) (simp_all add: sign_or_invalid_def)

lemma person_key:
  "person_key_of s w productID audience resolved d = (Inr k, d') \<Longrightarrow>
     k = (if ra_SubjectType resolved = ''account'' then Some (pairwise_key s productID audience ''person'' (ra_PersonID resolved)) else None)"
  by (auto simp: person_key_of_def Let_def sbind_Inr split: if_splits)

text \<open>The calls behind a token that was issued, in their order.\<close>

lemma issueToken_Inr:
  assumes "issueToken s w r p d = (Inr (status, body), d')"
  obtains input productID audience resolved personKey encoded expires where
    "authorizeProduct s p (xt_ProductID input) = Inr (productID, audience)"
    "pairwise_Valid (xt_SubjectKey input)" "xt_SubjectType input = ''account'' \<or> xt_SubjectType input = ''installation''"
    "ResolveSubjectAlias (wd_view w 0) (xt_SubjectKey input) productID audience = Inr resolved" "ra_SubjectType resolved = xt_SubjectType input"
    "ResolveTokenSubject (wd_view w 1) productID (ra_SubjectType resolved) (ra_SubjectID resolved) = Inr ()"
    "personKey = (if ra_SubjectType resolved = ''account'' then Some (pairwise_key s productID audience ''person'' (ra_PersonID resolved)) else None)"
    "SignClaims (sv_lib s) (sv_tokens s) (wd_clock w 1) (wd_fresh w 0) (token_request productID audience input personKey) = Inr (encoded, expires)"
    "status = 201" "body = VObj [(''access_token'', VStr encoded), (''token_type'', VStr ''Bearer''), (''expires_at'', timeJSON expires)]"
proof -
  from assms obtain input productID audience resolved personKey d1 encoded expires where
    facts: "authorizeProduct s p (xt_ProductID input) = Inr (productID, audience)"
      "pairwise_Valid (xt_SubjectKey input)" "xt_SubjectType input = ''account'' \<or> xt_SubjectType input = ''installation''"
      "ResolveSubjectAlias (wd_view w 0) (xt_SubjectKey input) productID audience = Inr resolved" "ra_SubjectType resolved = xt_SubjectType input"
      "ResolveTokenSubject (wd_view w 1) productID (ra_SubjectType resolved) (ra_SubjectID resolved) = Inr ()"
    and key: "person_key_of s w productID audience resolved d = (Inr personKey, d1)"
    and signed: "SignClaims (sv_lib s) (sv_tokens s) (wd_clock w 1) (wd_fresh w 0) (token_request productID audience input personKey) = Inr (encoded, expires)"
    and answer: "status = 201" "body = VObj [(''access_token'', VStr encoded), (''token_type'', VStr ''Bearer''), (''expires_at'', timeJSON expires)]"
    unfolding issueToken_def sbind_Inr given_Inr checked_Inr resolve_subject_Inr sign_or_invalid_Inr by (elim exE conjE) (clarsimp simp: sbind_Inr)
  show ?thesis by (rule that [OF facts person_key [OF key] signed answer])
qed

section \<open>Properties\<close>

text \<open>
  C8: a token that the token route issues speaks only for what its caller may speak for.
  With a sound signature scheme and texts in UTF-8, the token in the answer verifies
  under the key of the server and names a product of the calling workload with the
  configured audience of this product, a subject key that resolved under this product
  to a live account or installation of the named type, and for an account the key of
  its person; its only scope is the writing of telemetry, it lives at most as long as
  configured, and no verifier takes it for a refresh token.
\<close>

theorem issued_token_scoped:
  assumes lib: "lib_sound (sv_lib s)"
    and ring: "NewKeyring (sv_lib s) seeds active issuer dflt most = Inr (sv_tokens s)" "distinct (map fst seeds)"
    and texts: "list_all utf8_valid [active, issuer, wd_fresh w 0]" "\<forall>(product, audience) \<in> set (sv_products s). utf8_valid product \<and> utf8_valid audience"
    and clock: "\<bar>unix (wd_clock w 1)\<bar> < 2 ^ 62" "most < 2 ^ 63"
    and issued: "issueToken s w r p d = (Inr (status, VObj body), d')"
  shows "\<exists>encoded c resolved. map_of body ''access_token'' = Some (VStr encoded) \<and> token_verify (sv_lib s) (sv_tokens s) encoded = Inr c \<and>
    AllowsProduct p (tc_Product c) \<and> map_of (sv_products s) (tc_Product c) = Some (tc_Audience c) \<and>
    ResolveSubjectAlias (wd_view w 0) (tc_Subject c) (tc_Product c) (tc_Audience c) = Inr resolved \<and> ra_SubjectType resolved = tc_SubjectType c \<and>
    ResolveTokenSubject (wd_view w 1) (tc_Product c) (tc_SubjectType c) (ra_SubjectID resolved) = Inr () \<and>
    tc_PersonKey c = (if tc_SubjectType c = ''account'' then Some (pairwise_key s (tc_Product c) (tc_Audience c) ''person'' (ra_PersonID resolved)) else None) \<and>
    tc_Scopes c = [''telemetry:write''] \<and> tc_ExpiresAt c \<le> unix (wd_clock w 1 + most) \<and>
    (\<forall>s' now. isl (VerifyRefresh (sv_lib s) s' now encoded))"
proof -
  obtain input productID audience resolved personKey encoded expires where
    scope: "authorizeProduct s p (xt_ProductID input) = Inr (productID, audience)"
    and input: "pairwise_Valid (xt_SubjectKey input)" "xt_SubjectType input = ''account'' \<or> xt_SubjectType input = ''installation''"
    and resolved: "ResolveSubjectAlias (wd_view w 0) (xt_SubjectKey input) productID audience = Inr resolved" "ra_SubjectType resolved = xt_SubjectType input"
      "ResolveTokenSubject (wd_view w 1) productID (ra_SubjectType resolved) (ra_SubjectID resolved) = Inr ()"
    and key: "personKey = (if ra_SubjectType resolved = ''account'' then Some (pairwise_key s productID audience ''person'' (ra_PersonID resolved)) else None)"
    and signed: "SignClaims (sv_lib s) (sv_tokens s) (wd_clock w 1) (wd_fresh w 0) (token_request productID audience input personKey) = Inr (encoded, expires)"
    and "status = 201" and body: "VObj body = VObj [(''access_token'', VStr encoded), (''token_type'', VStr ''Bearer''), (''expires_at'', timeJSON expires)]"
    by (rule issueToken_Inr [OF issued])
  note allowed = authorizeProduct_scoped [OF scope]
  let ?in = "token_request productID audience input personKey"
  have product: "utf8_valid productID" "utf8_valid audience" using texts(2) map_of_SomeD [OF allowed(2)] by auto
  have words: "list_all utf8_valid ([active, issuer, si_Audience ?in, si_Product ?in, si_Subject ?in, si_SubjectType ?in, si_PolicyVersion ?in, wd_fresh w 0] @ si_Scopes ?in)"
    using texts(1) product pairwise_utf8 [OF input(1)] input(2) by (auto simp: token_request_def intro: ascii_utf8)
  have "\<forall>k. si_PersonKey ?in = Some k \<longrightarrow> utf8_valid k" "\<forall>k. si_OrgKey ?in = Some k \<longrightarrow> utf8_valid k"
    using key pairwise_text by (auto simp: token_request_def)
  note verified = access_roundtrip [OF lib ring words this clock signed]
  obtain c where c: "token_verify (sv_lib s) (sv_tokens s) encoded = Inr c" "tc_Product c = productID" "tc_Audience c = audience"
    "tc_Subject c = xt_SubjectKey input" "tc_SubjectType c = xt_SubjectType input" "tc_PersonKey c = personKey" "tc_Scopes c = [''telemetry:write'']"
    "tc_ExpiresAt c = unix expires"
    using verified(1) by (simp add: token_request_def)
  have "isl (VerifyRefresh (sv_lib s) s' now encoded)" for s' now
  proof (rule ccontr)
    assume "\<not> isl (VerifyRefresh (sv_lib s) s' now encoded)"
    then obtain c' where c': "VerifyRefresh (sv_lib s) s' now encoded = Inr c'" by (cases "VerifyRefresh (sv_lib s) s' now encoded") auto
    then have "token_verify (sv_lib s) s' encoded = Inr c'" "tc_Scopes c' ! 0 = RefreshScope"
      by (auto simp: VerifyRefresh_def refresh_rejected_def split: if_splits)
    moreover have "c' = c" if "token_verify (sv_lib s) s' encoded = Inr c'"
      using verifyPayload_sound [OF that [unfolded token_verify_def]] verifyPayload_sound [OF c(1) [unfolded token_verify_def]] token_carries_unique
      by (metis sum.inject(2))
    ultimately show False using c(7) by (simp add: token_constants)
  qed
  with body c resolved allowed key unix_mono [of expires "wd_clock w 1 + most"] verified(2) show ?thesis
    by (intro exI [of _ encoded] exI [of _ c] exI [of _ resolved]) auto
qed

section \<open>Witnesses\<close>

definition sample_http :: "jvalue \<Rightarrow> http_lib" where
  "sample_http v = \<lparr>media_type = Some, js_next = (\<lambda>_. Some (v, '''')), parse_time = (\<lambda>_. None)\<rparr>"

definition sample_server :: "jvalue \<Rightarrow> Server" where
  "sample_server v = \<lparr>sv_lib = sample_lib, sv_http = sample_http v, sv_sha256 = id, sv_hmac = (\<lambda>_ _. replicate 32 (CHR 0x11)),
     sv_identities = old_service, sv_tokens = old_signer, sv_authenticator = [credential_of id sample_workload], sv_pairwise = \<lparr>secret = ''s''\<rparr>,
     sv_products = [(''pict'', ''m'')], sv_publicBroker = Some (sample_broker old_signer), sv_publicAccounts = None, sv_directory = None,
     sv_publicOrigins = [], sv_requireOutbox = False, sv_outboxMaxAge = minute\<rparr>"

definition token_db :: db where
  "token_db = sample_db\<lparr>subject_aliases := [\<lparr>sa_opaque_key = sample_key, sa_product_id = ''pict'', sa_audience = ''m'',
     sa_subject_type = ''installation'', sa_subject_id = sample_uuid, sa_person_id = None, sa_created_at = 0\<rparr>]\<rparr>"

definition sample_world :: world where
  "sample_world = \<lparr>wd_arrival = 0, wd_admission = 0, wd_answer = 0, wd_clock = (\<lambda>_. second), wd_fresh = (\<lambda>_. sample_uuid),
     wd_service = sample_draws, wd_challenge = \<lparr>cd_service = sample_draws, cd_number = 0, cd_cipher = sample_draw\<rparr>,
     wd_session = \<lparr>sn_service = sample_draws, sn_session = sample_uuid, sn_random = [], sn_access = sample_uuid, sn_receipt = sample_uuid\<rparr>,
     wd_view = (\<lambda>_. token_db), wd_others = (\<lambda>_ d. d)\<rparr>"

definition sample_request :: "string \<Rightarrow> string list \<Rightarrow> Request" where
  "sample_request m path = \<lparr>hr_Method = m, hr_Path = path, hr_RawQuery = '''', hr_Header = [(''Content-Type'', ''application/json'')], hr_Body = ''b''\<rparr>"

definition sample_state :: server_state where
  "sample_state = \<lparr>st_db = token_db, st_schema = Some schema_Version, st_requests = newTokenBucket 0 60 second, st_registers = newTokenBucket 0 6 (10 * second)\<rparr>"

lemma sample_authenticator: "authz_New (sv_sha256 (sample_server v)) [sample_workload] = Inr (sv_authenticator (sample_server v))"
  by (simp add: authz_New_Inr workload_ok_def sample_workload_def known_roles_def sample_server_def)

theorem internal_routes_guarded_witness:
  "\<exists>answer. serve (sample_server VNull) sample_world ''r'' (sample_request ''POST'' [''v1'', ''tokens'']) sample_state = (answer, sample_state) \<and> hp_status answer = 401"
proof -
  let ?s = "sample_server VNull" and ?r = "sample_request ''POST'' [''v1'', ''tokens'']"
  obtain answer st' where served: "serve ?s sample_world ''r'' ?r sample_state = (answer, st')" by fastforce
  have route: "route_of ?s ?r = Some (route_to ''POST'' [''v1'', ''tokens''] (Role RoleProduct) IssueTokenRoute)"
    unfolding route_of_Some by (simp add: routes_def internal_routes_def path_matches_def method_matches_def sample_request_def wildcard_def)
  have unknown: "Authenticate (sv_sha256 ?s) (sv_authenticator ?s) (authorization ?r) = None"
    by (simp add: Authenticate_def bearer_def sample_request_def header_get_def header_values_def)
  have "take 2 (hr_Path ?r) \<noteq> [''v1'', ''public'']" by (simp add: sample_request_def)
  from internal_routes_guarded [OF sample_authenticator this served] route unknown have "hp_status answer = 401" "st' = sample_state" by auto
  with served show ?thesis by auto
qed

theorem public_traffic_limited_witness:
  "let x = (sample_world, ''r'', sample_request ''OPTIONS'' [''v1'', ''public'', ''installations'']); s = sample_server VNull in
     of_nat (length (filter (\<lambda>(x, a). public_answer s x a) (zip (replicate 100 x) (run_all (serve_step s) (replicate 100 x) sample_state)))) \<le> (60 :: rat)"
proof -
  let ?x = "(sample_world, ''r'', sample_request ''OPTIONS'' [''v1'', ''public'', ''installations''])"
  have "st_requests sample_state = newTokenBucket 0 60 second" "st_registers sample_state = newTokenBucket 0 6 (10 * second)"
    by (simp_all add: sample_state_def)
  moreover have "sorted (0 # map (\<lambda>x. wd_arrival (fst x)) (replicate 100 ?x))" "sorted (0 # map (\<lambda>x. wd_admission (fst x)) (replicate 100 ?x))"
    by (simp_all add: sample_world_def)
  ultimately have "of_nat (length (filter (\<lambda>(x, a). public_answer (sample_server VNull) x a)
      (zip (replicate 100 ?x) (run_all (serve_step (sample_server VNull)) (replicate 100 ?x) sample_state)))) \<le>
      60 + of_int (last (0 # map (\<lambda>x. wd_arrival (fst x)) (replicate 100 ?x)) - 0) / (of_int second :: rat)"
    by (rule public_traffic_limited [THEN conjunct1])
  then show ?thesis by (simp add: sample_world_def)
qed

definition token_body :: jvalue where
  "token_body = VObj [(''Product_ID'', VStr ''pict''), (''subject_type'', VStr ''installation''), (''subject_key'', VStr sample_key)]"

theorem issued_token_scoped_witness:
  "\<exists>body d' encoded c. issueToken (sample_server token_body) sample_world (sample_request ''POST'' [''v1'', ''tokens'']) (principal_of sample_workload) empty_db =
     (Inr (201, VObj body), d') \<and> map_of body ''access_token'' = Some (VStr encoded) \<and>
     token_verify sample_lib old_signer encoded = Inr c \<and> tc_Product c = ''pict'' \<and> tc_Scopes c = [''telemetry:write'']"
proof -
  let ?s = "sample_server token_body" and ?r = "sample_request ''POST'' [''v1'', ''tokens'']" and ?p = "principal_of sample_workload"
  let ?in = "\<lparr>xt_ProductID = ''pict'', xt_SubjectType = ''installation'', xt_SubjectKey = sample_key, xt_TTLSeconds = 0\<rparr>"
  have "read_token_input token_body = Some ?in" by code_simp
  then have decode: "decodeJSON (sv_http ?s) read_token_input ?r = Inr ?in"
    by (simp add: decodeJSON_def decodeJSONLimit_def sample_server_def sample_http_def sample_request_def header_get_def header_values_def
        maxRequestBody_def)
  have scope: "authorizeProduct ?s ?p ''pict'' = Inr (''pict'', ''m'')"
    by (simp add: authorizeProduct_def sample_server_def AllowsProduct_def principal_of_def sample_workload_def)
  have live: "ResolveSubjectAlias token_db sample_key ''pict'' ''m'' = Inr \<lparr>ra_OpaqueKey = sample_key, ra_SubjectType = ''installation'',
      ra_SubjectID = sample_uuid, ra_PersonID = '''', ra_ProductID = ''pict'', ra_Audience = ''m''\<rparr>"
    "ResolveTokenSubject token_db ''pict'' ''installation'' sample_uuid = Inr ()"
    by (simp_all add: token_db_def ResolveSubjectAlias_def aliasPersonID_def ResolveTokenSubject_def sample_defs tfind_def)
  have valid: "pairwise_Valid sample_key" by code_simp
  from sample_broker_signs(2) obtain encoded expires where "SignClaims sample_lib old_signer second sample_uuid (token_request ''pict'' ''m'' ?in None) = Inr (encoded, expires)"
    by (auto simp: issueAccess_def token_request_def sample_broker_def wrap64_def)
  then have issued: "issueToken ?s sample_world ?r ?p empty_db =
      (Inr (201, VObj [(''access_token'', VStr encoded), (''token_type'', VStr ''Bearer''), (''expires_at'', timeJSON expires)]), empty_db)"
    using decode scope live valid
    by (simp add: issueToken_def given_def checked_def resolve_subject_def person_key_of_def sign_or_invalid_def)
      (simp add: sample_server_def sample_world_def resolve_subject_def given_def)
  have ring: "NewKeyring (sv_lib ?s) old_seeds ''k'' ''i'' minute hour = Inr (sv_tokens ?s)" "lib_sound (sv_lib ?s)"
    using sample_rings(1) sample_lib_sound by (simp_all add: sample_server_def)
  have texts: "list_all utf8_valid [''k'', ''i'', wd_fresh sample_world 0]" "\<forall>(product, audience) \<in> set (sv_products ?s). utf8_valid product \<and> utf8_valid audience"
    "\<bar>unix (wd_clock sample_world 1)\<bar> < 2 ^ 62" "hour < 2 ^ 63"
    by (simp_all add: sample_world_def sample_server_def unix_def duration_defs)
  from issued_token_scoped [OF ring(2) ring(1) sample_rings(2) texts issued] obtain encoded' c where
    c: "map_of [(''access_token'', VStr encoded), (''token_type'', VStr ''Bearer''), (''expires_at'', timeJSON expires)] ''access_token'' = Some (VStr encoded')"
      "token_verify (sv_lib ?s) (sv_tokens ?s) encoded' = Inr c" "AllowsProduct ?p (tc_Product c)" "tc_Scopes c = [''telemetry:write'']"
    by blast
  from c(3) have "tc_Product c = ''pict''" by (simp add: AllowsProduct_def principal_of_def sample_workload_def)
  with c issued show ?thesis by (auto simp: sample_server_def)
qed

section \<open>Overflow of the requested lifetime\<close>

text \<open>
  The requested seconds are multiplied in 64 bits before they are compared with the longest lifetime: a request for
  more than five hundred years is taken as one for less than a second.
\<close>

lemma ttl_seconds_wraps:
  "si_TTL (token_request product audience \<lparr>xt_ProductID = product, xt_SubjectType = t, xt_SubjectKey = k, xt_TTLSeconds = 18446744074\<rparr> person) = 290448384"
  by (simp add: token_request_def wrap64_def duration_defs)

end
