(* ===== verification/Config.thy ===== *)
theory Config
  imports Json_Values Authz Text_Laws "HOL-Library.AList"
begin

text \<open>
  The configuration of the service (\<^verbatim>\<open>internal/config\<close>): every setting is read from the
  environment, checked, and checked against the others.  The environment is the
  function \<open>lookup\<close>.  The syntax of durations, URLs, mail addresses and network
  addresses and the text of JSON are parameters (\<open>config_lib\<close>); a Go map is an
  association list with distinct keys, a Go set a list.
\<close>

section \<open>Library functions\<close>

record URL =
  url_Scheme :: string
  url_Host :: string
  url_Hostname :: string
  url_Path :: string
  url_RawQuery :: string
  url_Fragment :: string
  url_User :: bool

record config_lib =
  cl_json :: http_lib
  cl_sha256 :: "string \<Rightarrow> bytes"
  parse_duration :: "string \<Rightarrow> duration option"
  parse_url :: "string \<Rightarrow> URL option"
  parse_request_uri :: "string \<Rightarrow> URL option"
  parse_mail :: "string \<Rightarrow> (string \<times> string) option"
  split_host_port :: "string \<Rightarrow> (string \<times> string) option"
  is_ip :: "string \<Rightarrow> bool"

text \<open>\<^verbatim>\<open>strconv.Atoi\<close> and \<^verbatim>\<open>strconv.ParseBool\<close>.\<close>

definition digits_value :: "string \<Rightarrow> int" where
  "digits_value s = foldl (\<lambda>n c. 10 * n + (int (code c) - 48)) 0 s"

definition Atoi :: "string \<Rightarrow> int option" where
  "Atoi s =
     (let (sign, digits) = (case s of [] \<Rightarrow> (1, s) | c # t \<Rightarrow> if c = CHR ''-'' then (- 1, t) else if c = CHR ''+'' then (1, t) else (1, s));
          value = sign * digits_value digits
      in if digits = [] \<or> \<not> list_all is_digit digits \<or> \<not> in_int64 value then None else Some value)"

definition ParseBool :: "string \<Rightarrow> bool option" where
  "ParseBool s =
     (if s \<in> set [''1'', ''t'', ''T'', ''TRUE'', ''true'', ''True''] then Some True
      else if s \<in> set [''0'', ''f'', ''F'', ''FALSE'', ''false'', ''False''] then Some False else None)"

fun split_on :: "char \<Rightarrow> string \<Rightarrow> string list" where
  "split_on x [] = [[]]"
| "split_on x (c # s) =
     (if c = x then [] # split_on x s
      else case split_on x s of [] \<Rightarrow> [[c]] | p # ps \<Rightarrow> (c # p) # ps)"

definition cut :: "char \<Rightarrow> string \<Rightarrow> string \<times> string \<times> bool" where
  "cut x s = (takeWhile (\<lambda>c. c \<noteq> x) s, drop 1 (dropWhile (\<lambda>c. c \<noteq> x) s), x \<in> set s)"

text \<open>
  \<^verbatim>\<open>base64.StdEncoding\<close>: line ends are skipped, the last group is filled up with
  padding, and the unused bits of the last digit are not looked at.
\<close>

definition std_digit :: "nat \<Rightarrow> char" where
  "std_digit n = (if n = 62 then CHR ''+'' else if n = 63 then CHR ''/'' else b64_digit n)"

definition std_value :: "char \<Rightarrow> nat option" where
  "std_value c = (if c = CHR ''+'' then Some 62 else if c = CHR ''/'' then Some 63
     else if c = CHR ''-'' \<or> c = CHR ''_'' then None else b64_value c)"

definition std_encode :: "bytes \<Rightarrow> string" where
  "std_encode s = map std_digit (b64_pack (map of_char s)) @ replicate ((3 - length s mod 3) mod 3) CHR ''=''"

definition std_decode :: "string \<Rightarrow> bytes option" where
  "std_decode s0 =
     (let s = filter (\<lambda>c. code c \<noteq> 10 \<and> code c \<noteq> 13) s0;
          core = rev (dropWhile (\<lambda>c. c = CHR ''='') (rev s));
          pads = length s - length core
      in if length s mod 4 \<noteq> 0 \<or> pads > 2 then None
         else case those (map std_value core) of
           None \<Rightarrow> None | Some ds \<Rightarrow> map_option (map char_of) (b64_unpack ds))"

section \<open>Reading single settings\<close>

type_synonym environment = "string \<Rightarrow> string option"

definition required :: "environment \<Rightarrow> string \<Rightarrow> string result" where
  "required lookup name = (case lookup name of
     None \<Rightarrow> Inl (ErrMessage (name @ '' is required''))
   | Some value \<Rightarrow> if trim_space value = '''' then Inl (ErrMessage (name @ '' is required'')) else Inr value)"

definition valueOrDefault :: "environment \<Rightarrow> string \<Rightarrow> string \<Rightarrow> string" where
  "valueOrDefault lookup name fallback = (case lookup name of None \<Rightarrow> fallback | Some value \<Rightarrow> value)"

definition base64Key :: "environment \<Rightarrow> string \<Rightarrow> nat \<Rightarrow> bytes result" where
  "base64Key lookup name width =
     rbind (required lookup name) (\<lambda>encoded.
     case std_decode encoded of
       None \<Rightarrow> Inl (ErrMessage (name @ '' must be standard base64''))
     | Some decoded \<Rightarrow> if length decoded \<noteq> width then Inl (ErrMessage (name @ '' must be standard base64'')) else Inr decoded)"

text \<open>The default is written as text and read back; the text of a default reads as the default.\<close>

definition intValue :: "environment \<Rightarrow> string \<Rightarrow> int \<Rightarrow> int \<Rightarrow> int \<Rightarrow> int result" where
  "intValue lookup name fallback low high =
     (case (case lookup name of None \<Rightarrow> Some fallback | Some raw \<Rightarrow> Atoi raw) of
        None \<Rightarrow> Inl (ErrMessage (name @ '' must be an integer''))
      | Some value \<Rightarrow> if value < low \<or> value > high then Inl (ErrMessage (name @ '' must be an integer'')) else Inr value)"

definition durationValue :: "config_lib \<Rightarrow> environment \<Rightarrow> string \<Rightarrow> duration \<Rightarrow> duration result" where
  "durationValue lib lookup name fallback =
     some_or (ErrMessage (name @ '' must be a valid duration''))
       (case lookup name of None \<Rightarrow> Some fallback | Some raw \<Rightarrow> parse_duration lib raw)"

definition boolValue :: "environment \<Rightarrow> string \<Rightarrow> bool \<Rightarrow> bool result" where
  "boolValue lookup name fallback =
     some_or (ErrMessage (name @ '' must be true or false''))
       (case lookup name of None \<Rightarrow> Some fallback | Some raw \<Rightarrow> ParseBool raw)"

text \<open>A setting whose wrong value, of whatever kind, gives one message.\<close>

definition bounded_duration :: "config_lib \<Rightarrow> environment \<Rightarrow> string \<Rightarrow> duration \<Rightarrow> (duration \<Rightarrow> bool) \<Rightarrow> duration result" where
  "bounded_duration lib lookup name fallback ok =
     (case durationValue lib lookup name fallback of
        Inr value \<Rightarrow> if ok value then Inr value else Inl (ErrMessage (name @ '' is out of bounds''))
      | Inl _ \<Rightarrow> Inl (ErrMessage (name @ '' is out of bounds'')))"

lemma bounded_duration_Inr [simp]:
  "bounded_duration lib lookup name fallback ok = Inr d \<longleftrightarrow> durationValue lib lookup name fallback = Inr d \<and> ok d"
  by (auto simp: bounded_duration_def split: sum.splits)

section \<open>Maps and sets\<close>

fun read_map :: "(jvalue \<Rightarrow> 'v option) \<Rightarrow> (string \<times> jvalue) list \<Rightarrow> (string \<times> 'v) list \<Rightarrow> (string \<times> 'v) list option" where
  "read_map f [] m = Some m"
| "read_map f ((k, v) # ms) m = obind (f v) (\<lambda>x. read_map f ms (AList.update k x m))"

definition map_value :: "(jvalue \<Rightarrow> 'v option) \<Rightarrow> jvalue \<Rightarrow> (string \<times> 'v) list option" where
  "map_value f v = (case v of VNull \<Rightarrow> Some [] | VObj ms \<Rightarrow> read_map f ms [] | _ \<Rightarrow> None)"

text \<open>\<^verbatim>\<open>json.Unmarshal\<close> wants the whole text; a \<^verbatim>\<open>json.Decoder\<close> reads one value and leaves the rest.\<close>

definition unmarshal :: "config_lib \<Rightarrow> (jvalue \<Rightarrow> 'a option) \<Rightarrow> string \<Rightarrow> 'a option" where
  "unmarshal lib read raw = (case js_next (cl_json lib) raw of
     None \<Rightarrow> None | Some (v, rest) \<Rightarrow> if list_all json_space rest then read v else None)"

definition decode_first :: "config_lib \<Rightarrow> (jvalue \<Rightarrow> 'a option) \<Rightarrow> string \<Rightarrow> 'a option" where
  "decode_first lib read raw = (case js_next (cl_json lib) raw of None \<Rightarrow> None | Some (v, rest) \<Rightarrow> read v)"

definition key_of :: "string \<Rightarrow> nat \<Rightarrow> string \<times> string \<Rightarrow> (string \<times> bytes) list \<Rightarrow> (string \<times> bytes) list result" where
  "key_of name width entry keys =
     (case std_decode (snd entry) of
        None \<Rightarrow> Inl (ErrMessage (name @ '' holds an invalid key''))
      | Some decoded \<Rightarrow>
          if fst entry = '''' \<or> length decoded \<noteq> width then Inl (ErrMessage (name @ '' holds an invalid key''))
          else Inr (keys @ [(fst entry, decoded)]))"

definition namedKeys :: "config_lib \<Rightarrow> environment \<Rightarrow> string \<Rightarrow> nat \<Rightarrow> (string \<times> bytes) list result" where
  "namedKeys lib lookup name width =
     rbind (required lookup name) (\<lambda>raw.
     case unmarshal lib (map_value (take_string '''')) raw of
       None \<Rightarrow> Inl (ErrMessage (name @ '' must be a non-empty JSON object''))
     | Some encoded \<Rightarrow>
         if encoded = [] then Inl (ErrMessage (name @ '' must be a non-empty JSON object''))
         else for_each (key_of name width) encoded [])"

definition namedIDs :: "config_lib \<Rightarrow> environment \<Rightarrow> string \<Rightarrow> (string \<times> string) list result" where
  "namedIDs lib lookup name =
     rbind (required lookup name) (\<lambda>raw.
     case decode_first lib (map_value (take_string '''')) raw of
       None \<Rightarrow> Inl (ErrMessage (name @ '' must be a non-empty JSON object''))
     | Some values \<Rightarrow>
         if values = [] then Inl (ErrMessage (name @ '' must be a non-empty JSON object''))
         else if list_ex (\<lambda>(a, v). trim_space a = '''' \<or> trim_space v = '''') values
         then Inl (ErrMessage (name @ '' contains an empty alias or ID'')) else Inr values)"

definition version_key :: "string \<times> string \<Rightarrow> (int \<times> bytes) list \<Rightarrow> (int \<times> bytes) list result" where
  "version_key entry keys =
     (case Atoi (fst entry) of
        None \<Rightarrow> Inl (ErrMessage ''blind-index versions must be integers between 1 and 32767'')
      | Some version \<Rightarrow>
          if version < 1 \<or> version > 32767 then Inl (ErrMessage ''blind-index versions must be integers between 1 and 32767'')
          else case std_decode (snd entry) of
            None \<Rightarrow> Inl (ErrMessage ''invalid blind-index key'')
          | Some key \<Rightarrow> if length key < 32 then Inl (ErrMessage ''invalid blind-index key'') else Inr (AList.update version key keys))"

definition blindIndexKeys :: "config_lib \<Rightarrow> environment \<Rightarrow> (int \<times> bytes) list result" where
  "blindIndexKeys lib lookup =
     rbind (required lookup ''BLIND_INDEX_KEYS_JSON'') (\<lambda>raw.
     case unmarshal lib (map_value (take_string '''')) raw of
       None \<Rightarrow> Inl (ErrMessage ''BLIND_INDEX_KEYS_JSON must be a non-empty JSON object'')
     | Some encoded \<Rightarrow>
         if encoded = [] then Inl (ErrMessage ''BLIND_INDEX_KEYS_JSON must be a non-empty JSON object'')
         else for_each version_key encoded [])"

definition add_product :: "string \<Rightarrow> string \<Rightarrow> string list \<Rightarrow> string list result" where
  "add_product name raw found =
     (let value = trim_space raw in
      if \<not> ValidProductID value then Inl (ErrMessage (name @ '' contains an invalid product ID'')) else Inr (List.insert value found))"

definition stringSet :: "environment \<Rightarrow> string \<Rightarrow> string list result" where
  "stringSet lookup name =
     (let raw = trim_space (valueOrDefault lookup name '''') in
      if raw = '''' then Inr [] else for_each (add_product name) (split_on CHR '';'' raw) [])"

definition exact_origin :: "config_lib \<Rightarrow> string \<Rightarrow> bool" where
  "exact_origin lib value = (case parse_url lib value of
     None \<Rightarrow> False
   | Some u \<Rightarrow> url_Scheme u = ''https'' \<and> url_Host u \<noteq> '''' \<and> \<not> url_User u \<and> url_Path u = '''' \<and> url_RawQuery u = '''' \<and> url_Fragment u = '''')"

definition add_origin :: "config_lib \<Rightarrow> string \<Rightarrow> string \<Rightarrow> string list \<Rightarrow> string list result" where
  "add_origin lib name raw found =
     (let value = trim_space raw in
      if \<not> exact_origin lib value then Inl (ErrMessage (name @ '' must contain exact HTTPS origins separated by semicolons''))
      else Inr (List.insert value found))"

definition origins :: "config_lib \<Rightarrow> environment \<Rightarrow> string \<Rightarrow> string list result" where
  "origins lib lookup name =
     (let raw = trim_space (valueOrDefault lookup name '''') in
      if raw = '''' then Inr [] else for_each (add_origin lib name) (split_on CHR '';'' raw) [])"

section \<open>The configuration\<close>

record PublicAccountConfig =
  pa_Enabled :: bool
  pa_Products :: "string list"
  pa_PolicyVersion :: string
  pa_OTPKeyID :: string
  pa_OTPKey :: bytes
  pa_DailyLimit :: int
  pa_SMTPAddr :: string
  pa_SMTPUser :: string
  pa_SMTPPassword :: string
  pa_SMTPFrom :: string

record Config =
  cf_Environment :: string
  cf_HTTPAddr :: string
  cf_MaintenanceMode :: bool
  cf_YDBEndpoint :: string
  cf_YDBDatabase :: string
  cf_Workloads :: "Workload list"
  cf_Products :: "(string \<times> string) list"
  cf_PairwiseIDKey :: bytes
  cf_EmailKeyProvider :: string
  cf_EmailKeyActiveID :: string
  cf_EmailLocalKEKs :: "(string \<times> bytes) list"
  cf_EmailYandexKMSKeys :: "(string \<times> string) list"
  cf_BlindIndexKeys :: "(int \<times> bytes) list"
  cf_BlindIndexCurrentVersion :: int
  cf_TokenSigningSeeds :: "(string \<times> bytes) list"
  cf_TokenActiveKeyID :: string
  cf_TokenIssuer :: string
  cf_TokenTTL :: duration
  cf_TokenMaxTTL :: duration
  cf_PublicInstallationProducts :: "string list"
  cf_PublicAccounts :: PublicAccountConfig
  cf_PublicPolicyVersion :: string
  cf_PublicAdditionalPolicies :: "(string \<times> string list) list"
  cf_PublicRefreshTTL :: duration
  cf_PublicAllowedOrigins :: "string list"
  cf_MinorCrossProductLinking :: bool
  cf_OutboxURL :: string
  cf_OutboxPollInterval :: duration
  cf_OutboxMaxAttempts :: int
  cf_OutboxReadinessMaxAge :: duration
  cf_RequireOutboxDelivery :: bool
  cf_EmailVerificationTTL :: duration
  cf_EmailCleanupInterval :: duration
  cf_ShutdownTimeout :: duration

definition empty_accounts :: PublicAccountConfig where
  "empty_accounts = \<lparr>pa_Enabled = False, pa_Products = [], pa_PolicyVersion = '''', pa_OTPKeyID = '''', pa_OTPKey = [], pa_DailyLimit = 0,
     pa_SMTPAddr = '''', pa_SMTPUser = '''', pa_SMTPPassword = '''', pa_SMTPFrom = ''''\<rparr>"

definition empty_config :: Config where
  "empty_config = \<lparr>cf_Environment = '''', cf_HTTPAddr = '''', cf_MaintenanceMode = False, cf_YDBEndpoint = '''', cf_YDBDatabase = '''',
     cf_Workloads = [], cf_Products = [], cf_PairwiseIDKey = [], cf_EmailKeyProvider = '''', cf_EmailKeyActiveID = '''', cf_EmailLocalKEKs = [],
     cf_EmailYandexKMSKeys = [], cf_BlindIndexKeys = [], cf_BlindIndexCurrentVersion = 0, cf_TokenSigningSeeds = [], cf_TokenActiveKeyID = '''',
     cf_TokenIssuer = '''', cf_TokenTTL = 0, cf_TokenMaxTTL = 0, cf_PublicInstallationProducts = [], cf_PublicAccounts = empty_accounts,
     cf_PublicPolicyVersion = '''', cf_PublicAdditionalPolicies = [], cf_PublicRefreshTTL = 0, cf_PublicAllowedOrigins = [],
     cf_MinorCrossProductLinking = False, cf_OutboxURL = '''', cf_OutboxPollInterval = 0, cf_OutboxMaxAttempts = 0, cf_OutboxReadinessMaxAge = 0,
     cf_RequireOutboxDelivery = False, cf_EmailVerificationTTL = 0, cf_EmailCleanupInterval = 0, cf_ShutdownTimeout = 0\<rparr>"

section \<open>Workloads and products\<close>

definition read_workload :: "jvalue \<Rightarrow> Workload option" where
  "read_workload = read_object [''id'', ''token'', ''roles'', ''products''] (\<lambda>vs.
     obind (take_values take_string '''' (vs ''id'')) (\<lambda>i.
     obind (take_values take_string '''' (vs ''token'')) (\<lambda>token.
     obind (take_values take_strings [] (vs ''roles'')) (\<lambda>roles.
     obind (take_values take_strings [] (vs ''products'')) (\<lambda>products.
       Some \<lparr>wl_ID = i, wl_Token = token, wl_Roles = roles, wl_Products = products\<rparr>)))))"

definition read_workloads :: "jvalue \<Rightarrow> Workload list option" where
  "read_workloads v = (case v of VNull \<Rightarrow> Some [] | VArr vs \<Rightarrow> those (map read_workload vs) | _ \<Rightarrow> None)"

definition workloads :: "config_lib \<Rightarrow> environment \<Rightarrow> Workload list result" where
  "workloads lib lookup =
     rbind (required lookup ''WORKLOADS_JSON'') (\<lambda>raw.
     case decode_first lib read_workloads raw of
       None \<Rightarrow> Inl (ErrMessage ''WORKLOADS_JSON must be a non-empty strict JSON array'')
     | Some ws \<Rightarrow>
         if ws = [] then Inl (ErrMessage ''WORKLOADS_JSON must be a non-empty strict JSON array'')
         else rbind (authz_New (cl_sha256 lib) ws) (\<lambda>_. Inr ws))"

definition read_product :: "jvalue \<Rightarrow> string option" where
  "read_product = read_object [''telemetry_audience''] (\<lambda>vs. take_values take_string '''' (vs ''telemetry_audience''))"

definition products :: "config_lib \<Rightarrow> environment \<Rightarrow> (string \<times> string) list result" where
  "products lib lookup =
     rbind (required lookup ''PRODUCTS_JSON'') (\<lambda>raw.
     case decode_first lib (map_value read_product) raw of
       None \<Rightarrow> Inl (ErrMessage ''PRODUCTS_JSON must be a non-empty strict JSON object'')
     | Some ps \<Rightarrow>
         if ps = [] then Inl (ErrMessage ''PRODUCTS_JSON must be a non-empty strict JSON object'')
         else if list_ex (\<lambda>(i, audience). i = '''' \<or> audience = '''') ps then Inl (ErrMessage ''PRODUCTS_JSON contains an invalid product'')
         else Inr ps)"

definition knows :: "(string \<times> 'v) list \<Rightarrow> string \<Rightarrow> bool" where
  "knows m k \<longleftrightarrow> map_of m k \<noteq> None"

section \<open>Loading\<close>

text \<open>Each stage reads its settings into the configuration so far.\<close>

definition grpc_endpoint :: "URL \<Rightarrow> bool" where
  "grpc_endpoint u \<longleftrightarrow> url_Host u \<noteq> '''' \<and> (url_Scheme u = ''grpc'' \<or> url_Scheme u = ''grpcs'') \<and> url_Path u = '''' \<and> url_RawQuery u = '''' \<and>
     url_Fragment u = '''' \<and> \<not> url_User u"

definition forbidden_credential :: "environment \<Rightarrow> string \<Rightarrow> bool" where
  "forbidden_credential lookup name = (case lookup name of None \<Rightarrow> False | Some value \<Rightarrow> trim_space value \<noteq> '''')"

definition production_storage :: "environment \<Rightarrow> URL \<Rightarrow> unit result" where
  "production_storage lookup u =
     (if url_Scheme u \<noteq> ''grpcs'' then Inl (ErrMessage ''production YDB_ENDPOINT must use grpcs'')
      else if valueOrDefault lookup ''YDB_METADATA_CREDENTIALS'' '''' \<noteq> ''1'' then Inl (ErrMessage ''production runtime requires YDB_METADATA_CREDENTIALS=1'')
      else if forbidden_credential lookup ''YDB_SERVICE_ACCOUNT_KEY_FILE_CREDENTIALS''
      then Inl (ErrMessage ''service-account-key credentials are forbidden in production runtime'')
      else if forbidden_credential lookup ''YDB_SERVICE_ACCOUNT_KEY_CREDENTIALS''
      then Inl (ErrMessage ''inline service-account-key credentials are forbidden in production runtime'')
      else Inr ())"

definition load_storage :: "config_lib \<Rightarrow> environment \<Rightarrow> Config \<Rightarrow> Config result" where
  "load_storage lib lookup cfg =
     rbind (required lookup ''YDB_ENDPOINT'') (\<lambda>endpoint.
     rbind (some_or (ErrMessage ''invalid YDB_ENDPOINT'') (parse_url lib endpoint)) (\<lambda>u.
     if \<not> grpc_endpoint u then Inl (ErrMessage ''invalid YDB_ENDPOINT'')
     else rbind (required lookup ''YDB_DATABASE'') (\<lambda>database.
       if take 1 database \<noteq> ''/'' \<or> list_ex (\<lambda>c. c = CHR ''?'' \<or> c = CHR ''#'') database
       then Inl (ErrMessage ''YDB_DATABASE must be an absolute YDB database path'')
       else rbind (if cf_Environment cfg = ''production'' then production_storage lookup u else Inr ()) (\<lambda>_.
         Inr (cfg\<lparr>cf_YDBEndpoint := endpoint, cf_YDBDatabase := database\<rparr>)))))"

definition load_registry :: "config_lib \<Rightarrow> environment \<Rightarrow> Config \<Rightarrow> Config result" where
  "load_registry lib lookup cfg =
     rbind (workloads lib lookup) (\<lambda>ws.
     rbind (products lib lookup) (\<lambda>ps.
     if list_ex (\<lambda>w. list_ex (\<lambda>product. \<not> knows ps product) (wl_Products w)) ws then Inl (ErrMessage ''workload references unknown product'')
     else Inr (cfg\<lparr>cf_Workloads := ws, cf_Products := ps\<rparr>)))"

definition load_email_keys :: "config_lib \<Rightarrow> environment \<Rightarrow> Config \<Rightarrow> Config result" where
  "load_email_keys lib lookup cfg =
     rbind (base64Key lookup ''PAIRWISE_ID_KEY_BASE64'' 32) (\<lambda>pairwiseKey.
     let provider = valueOrDefault lookup ''EMAIL_KEY_PROVIDER'' ''local'' in
     rbind (required lookup ''EMAIL_KEY_ACTIVE_ID'') (\<lambda>active.
     let cfg1 = cfg\<lparr>cf_PairwiseIDKey := pairwiseKey, cf_EmailKeyProvider := provider, cf_EmailKeyActiveID := active\<rparr> in
     if provider = ''local'' then
       if cf_Environment cfg = ''production'' then Inl (ErrMessage ''local email KEK provider is forbidden in production'')
       else rbind (namedKeys lib lookup ''EMAIL_LOCAL_KEKS_JSON'' 32) (\<lambda>keks.
         if \<not> knows keks active then Inl (ErrMessage ''EMAIL_KEY_ACTIVE_ID is absent from EMAIL_LOCAL_KEKS_JSON'')
         else Inr (cfg1\<lparr>cf_EmailLocalKEKs := keks\<rparr>))
     else if provider = ''yandex-kms'' then
       rbind (namedIDs lib lookup ''EMAIL_YC_KMS_KEYS_JSON'') (\<lambda>ids.
         if \<not> knows ids active then Inl (ErrMessage ''EMAIL_KEY_ACTIVE_ID is absent from EMAIL_YC_KMS_KEYS_JSON'')
         else Inr (cfg1\<lparr>cf_EmailYandexKMSKeys := ids\<rparr>))
     else Inl (ErrMessage ''EMAIL_KEY_PROVIDER must be local or yandex-kms'')))"

definition load_tokens :: "config_lib \<Rightarrow> environment \<Rightarrow> Config \<Rightarrow> Config result" where
  "load_tokens lib lookup cfg =
     rbind (blindIndexKeys lib lookup) (\<lambda>keys.
     rbind (intValue lookup ''BLIND_INDEX_CURRENT_VERSION'' 0 1 32767) (\<lambda>current.
     if map_of keys current = None then Inl (ErrMessage ''BLIND_INDEX_CURRENT_VERSION is absent from BLIND_INDEX_KEYS_JSON'')
     else rbind (namedKeys lib lookup ''TOKEN_SIGNING_KEYS_JSON'' 32) (\<lambda>seeds.
       rbind (required lookup ''TOKEN_ACTIVE_KEY_ID'') (\<lambda>active.
       if \<not> knows seeds active then Inl (ErrMessage ''TOKEN_ACTIVE_KEY_ID is absent from TOKEN_SIGNING_KEYS_JSON'')
       else rbind (required lookup ''TOKEN_ISSUER'') (\<lambda>issuer.
         rbind (durationValue lib lookup ''TOKEN_TTL'' (5 * minute)) (\<lambda>ttl.
         rbind (durationValue lib lookup ''TOKEN_MAX_TTL'' (15 * minute)) (\<lambda>maxTTL.
         if ttl \<le> 0 \<or> maxTTL \<le> 0 \<or> ttl > maxTTL then Inl (ErrMessage ''token TTL values must be positive'')
         else Inr (cfg\<lparr>cf_BlindIndexKeys := keys, cf_BlindIndexCurrentVersion := current, cf_TokenSigningSeeds := seeds,
           cf_TokenActiveKeyID := active, cf_TokenIssuer := issuer, cf_TokenTTL := ttl, cf_TokenMaxTTL := maxTTL\<rparr>))))))))"

definition add_policy :: "string list \<Rightarrow> string \<Rightarrow> (string \<times> string list) list \<Rightarrow> (string \<times> string list) list result" where
  "add_policy enabled entry policies =
     (let (product0, policy0, ok) = cut CHR ''='' entry; product = trim_space product0; policy = trim_space policy0 in
      if \<not> ok \<or> product \<notin> set enabled \<or> length policy < 1 \<or> length policy > 100
      then Inl (ErrMessage ''invalid PUBLIC_INSTALLATION_ADDITIONAL_POLICIES'')
      else Inr (AList.update product (List.insert policy (case map_of policies product of None \<Rightarrow> [] | Some found \<Rightarrow> found)) policies))"

definition additional_policies :: "environment \<Rightarrow> string list \<Rightarrow> (string \<times> string list) list result" where
  "additional_policies lookup enabled =
     (let raw = trim_space (valueOrDefault lookup ''PUBLIC_INSTALLATION_ADDITIONAL_POLICIES'' '''') in
      if raw = '''' then Inr [] else for_each (add_policy enabled) (split_on CHR '';'' raw) [])"

definition load_public :: "config_lib \<Rightarrow> environment \<Rightarrow> Config \<Rightarrow> Config result" where
  "load_public lib lookup cfg =
     rbind (stringSet lookup ''PUBLIC_INSTALLATION_PRODUCTS'') (\<lambda>enabled.
     if list_ex (\<lambda>product. \<not> knows (cf_Products cfg) product) enabled then Inl (ErrMessage ''PUBLIC_INSTALLATION_PRODUCTS references unknown product'')
     else
       let policy = trim_space (valueOrDefault lookup ''PUBLIC_INSTALLATION_POLICY_VERSION'' '''') in
       if enabled \<noteq> [] \<and> (length policy < 1 \<or> length policy > 100) then Inl (ErrMessage ''invalid PUBLIC_INSTALLATION_POLICY_VERSION'')
       else rbind (additional_policies lookup enabled) (\<lambda>policies.
         rbind (bounded_duration lib lookup ''PUBLIC_INSTALLATION_REFRESH_TTL'' (180 * 24 * hour) (\<lambda>d. \<not> d < 24 * hour \<and> \<not> d > 365 * 24 * hour)) (\<lambda>refreshTTL.
         rbind (origins lib lookup ''PUBLIC_INSTALLATION_ALLOWED_ORIGINS'') (\<lambda>allowed.
         Inr (cfg\<lparr>cf_PublicInstallationProducts := enabled, cf_PublicPolicyVersion := policy, cf_PublicAdditionalPolicies := policies,
           cf_PublicRefreshTTL := refreshTTL, cf_PublicAllowedOrigins := allowed\<rparr>)))))"

definition outbox_url_ok :: "config_lib \<Rightarrow> string \<Rightarrow> bool" where
  "outbox_url_ok lib value = (case parse_request_uri lib value of
     None \<Rightarrow> False
   | Some u \<Rightarrow>
       let loopbackHTTP = (url_Scheme u = ''http'' \<and> url_Hostname u \<in> set [''localhost'', ''127.0.0.1'', ''::1'']) in
       url_Host u \<noteq> '''' \<and> (url_Scheme u = ''https'' \<or> loopbackHTTP) \<and> \<not> url_User u \<and> url_RawQuery u = '''' \<and> url_Fragment u = '''')"

definition load_outbox :: "config_lib \<Rightarrow> environment \<Rightarrow> Config \<Rightarrow> Config result" where
  "load_outbox lib lookup cfg =
     rbind (boolValue lookup ''MINOR_CROSS_PRODUCT_LINKING_ENABLED'' False) (\<lambda>linking.
     let url = valueOrDefault lookup ''OUTBOX_DELIVERY_URL'' '''' in
     rbind (boolValue lookup ''REQUIRE_OUTBOX_DELIVERY'' False) (\<lambda>outbox.
     if cf_Environment cfg = ''production'' \<and> \<not> outbox then Inl (ErrMessage ''REQUIRE_OUTBOX_DELIVERY must be true in production'')
     else if url \<noteq> '''' \<and> \<not> outbox_url_ok lib url then Inl (ErrMessage ''invalid OUTBOX_DELIVERY_URL'')
     else if outbox \<and> url = '''' then Inl (ErrMessage ''OUTBOX_DELIVERY_URL is required when REQUIRE_OUTBOX_DELIVERY=true'')
     else
       rbind (bounded_duration lib lookup ''OUTBOX_POLL_INTERVAL'' (2 * second) (\<lambda>d. \<not> d \<le> 0)) (\<lambda>poll.
       rbind (intValue lookup ''OUTBOX_MAX_ATTEMPTS'' 12 1 100) (\<lambda>attempts.
       rbind (bounded_duration lib lookup ''OUTBOX_READINESS_MAX_AGE'' (5 * minute) (\<lambda>d. \<not> d \<le> 0)) (\<lambda>maxAge.
       Inr (cfg\<lparr>cf_MinorCrossProductLinking := linking, cf_OutboxURL := url, cf_RequireOutboxDelivery := outbox, cf_OutboxPollInterval := poll,
         cf_OutboxMaxAttempts := attempts, cf_OutboxReadinessMaxAge := maxAge\<rparr>))))))"

definition load_timers :: "config_lib \<Rightarrow> environment \<Rightarrow> Config \<Rightarrow> Config result" where
  "load_timers lib lookup cfg =
     rbind (bounded_duration lib lookup ''EMAIL_VERIFICATION_TTL'' (15 * minute) (\<lambda>d. \<not> d \<le> 0 \<and> \<not> d > 24 * hour)) (\<lambda>verification.
     rbind (bounded_duration lib lookup ''EMAIL_VERIFICATION_CLEANUP_INTERVAL'' minute (\<lambda>d. \<not> d < second)) (\<lambda>cleanup.
     rbind (bounded_duration lib lookup ''SHUTDOWN_TIMEOUT'' (10 * second) (\<lambda>d. \<not> d \<le> 0)) (\<lambda>shutdown.
     Inr (cfg\<lparr>cf_EmailVerificationTTL := verification, cf_EmailCleanupInterval := cleanup, cf_ShutdownTimeout := shutdown\<rparr>))))"

section \<open>Public accounts\<close>

definition rune_count :: "string \<Rightarrow> nat" where
  "rune_count s = length (filter (\<lambda>c. \<not> cont_byte c) s)"

definition publicAccountIdentifier :: "environment \<Rightarrow> string \<Rightarrow> string \<Rightarrow> string result" where
  "publicAccountIdentifier lookup name fallback =
     (let raw = valueOrDefault lookup name fallback; value = trim_space raw in
      if \<not> utf8_valid raw \<or> rune_count value < 1 \<or> rune_count value > 100 \<or> CHR ''@'' \<in> set value \<or> has_control raw
      then Inl (ErrMessage (name @ '' must contain 1 to 100 UTF-8 characters without controls or @'')) else Inr value)"

definition label_ok :: "string \<Rightarrow> bool" where
  "label_ok l \<longleftrightarrow> l \<noteq> '''' \<and> length l \<le> 63 \<and> hd l \<noteq> CHR ''-'' \<and> last l \<noteq> CHR ''-'' \<and>
     list_all (\<lambda>c. is_lower c \<or> is_upper c \<or> is_digit c \<or> c = CHR ''-'') l"

definition publicAccountSMTPHost :: "config_lib \<Rightarrow> string \<Rightarrow> bool" where
  "publicAccountSMTPHost lib host \<longleftrightarrow>
     is_ip lib host \<or>
     (host \<noteq> '''' \<and> length host \<le> 253 \<and>
      list_all label_ok (split_on CHR ''.'' (if last host = CHR ''.'' then butlast host else host)))"

definition smtp_address_ok :: "config_lib \<Rightarrow> string \<Rightarrow> bool" where
  "smtp_address_ok lib addr = (case split_host_port lib addr of
     None \<Rightarrow> False
   | Some (host, port) \<Rightarrow>
       publicAccountSMTPHost lib host \<and> list_all is_digit port \<and> (case Atoi port of None \<Rightarrow> False | Some n \<Rightarrow> \<not> n < 1 \<and> \<not> n > 65535))"

definition smtp_field :: "environment \<Rightarrow> string \<Rightarrow> string result" where
  "smtp_field lookup name =
     rbind (required lookup name) (\<lambda>value.
     if list_ex (\<lambda>c. code c = 13 \<or> code c = 10) value then Inl (ErrMessage (name @ '' must not contain CR or LF'')) else Inr value)"

definition bare_address :: "config_lib \<Rightarrow> string \<Rightarrow> bool" where
  "bare_address lib from = (parse_mail lib from = Some ('''', from) \<and> \<not> has_control from)"

definition load_smtp :: "config_lib \<Rightarrow> environment \<Rightarrow> PublicAccountConfig \<Rightarrow> PublicAccountConfig result" where
  "load_smtp lib lookup cfg =
     rbind (required lookup ''PUBLIC_ACCOUNT_SMTP_ADDR'') (\<lambda>addr.
     if \<not> smtp_address_ok lib addr then Inl (ErrMessage ''PUBLIC_ACCOUNT_SMTP_ADDR must contain a valid host and port'')
     else
       rbind (smtp_field lookup ''PUBLIC_ACCOUNT_SMTP_USER'') (\<lambda>user.
       rbind (smtp_field lookup ''PUBLIC_ACCOUNT_SMTP_PASSWORD'') (\<lambda>password.
       rbind (smtp_field lookup ''PUBLIC_ACCOUNT_SMTP_FROM'') (\<lambda>from.
       if \<not> bare_address lib from then Inl (ErrMessage ''PUBLIC_ACCOUNT_SMTP_FROM must be a bare email address without controls'')
       else Inr (cfg\<lparr>pa_SMTPAddr := addr, pa_SMTPUser := user, pa_SMTPPassword := password, pa_SMTPFrom := from\<rparr>)))))"

definition otp_key :: "environment \<Rightarrow> bytes result" where
  "otp_key lookup =
     (let encoded = valueOrDefault lookup ''PUBLIC_ACCOUNT_OTP_KEY_BASE64'' '''' in
      case std_decode encoded of
        None \<Rightarrow> Inl (ErrMessage ''invalid PUBLIC_ACCOUNT_OTP_KEY_BASE64'')
      | Some key \<Rightarrow>
          if length key < 32 \<or> length key > 128 \<or> std_encode key \<noteq> encoded then Inl (ErrMessage ''invalid PUBLIC_ACCOUNT_OTP_KEY_BASE64'') else Inr key)"

definition loadPublicAccounts :: "config_lib \<Rightarrow> environment \<Rightarrow> (string \<times> string) list \<Rightarrow> string list \<Rightarrow> duration \<Rightarrow> PublicAccountConfig result" where
  "loadPublicAccounts lib lookup known installationProducts tokenMaxTTL =
     rbind (boolValue lookup ''PUBLIC_ACCOUNT_ENABLED'' False) (\<lambda>enabled.
     rbind (stringSet lookup ''PUBLIC_ACCOUNT_PRODUCTS'') (\<lambda>accounts.
     if list_ex (\<lambda>product. \<not> knows known product) accounts then Inl (ErrMessage ''PUBLIC_ACCOUNT_PRODUCTS references an unknown product'')
     else if list_ex (\<lambda>product. product \<notin> set installationProducts) accounts
     then Inl (ErrMessage ''PUBLIC_ACCOUNT_PRODUCTS must be a subset of PUBLIC_INSTALLATION_PRODUCTS'')
     else
       let cfg = empty_accounts\<lparr>pa_OTPKeyID := ''otp-v1'', pa_DailyLimit := 200, pa_Enabled := enabled, pa_Products := accounts\<rparr> in
       if \<not> enabled then Inr cfg
       else if known = [] \<or> installationProducts = []
       then Inl (ErrMessage ''PUBLIC_ACCOUNT_ENABLED requires PRODUCTS_JSON and PUBLIC_INSTALLATION_PRODUCTS'')
       else if tokenMaxTTL < 5 * minute then Inl (ErrMessage ''PUBLIC_ACCOUNT_ENABLED requires TOKEN_MAX_TTL of at least 5 minutes'')
       else
         rbind (publicAccountIdentifier lookup ''PUBLIC_ACCOUNT_POLICY_VERSION'' '''') (\<lambda>policy.
         rbind (publicAccountIdentifier lookup ''PUBLIC_ACCOUNT_OTP_KEY_ID'' ''otp-v1'') (\<lambda>keyID.
         rbind (otp_key lookup) (\<lambda>key.
         rbind (intValue lookup ''PUBLIC_ACCOUNT_DAILY_LIMIT'' 200 1 10000) (\<lambda>limit.
         load_smtp lib lookup (cfg\<lparr>pa_PolicyVersion := policy, pa_OTPKeyID := keyID, pa_OTPKey := key, pa_DailyLimit := limit\<rparr>)))))))"

definition load :: "config_lib \<Rightarrow> environment \<Rightarrow> Config result" where
  "load lib lookup =
     (let environment = valueOrDefault lookup ''DEPLOYMENT_ENVIRONMENT'' ''development'' in
      if environment \<noteq> ''development'' \<and> environment \<noteq> ''production'' then Inl (ErrMessage ''DEPLOYMENT_ENVIRONMENT must be development or production'')
      else
        rbind (boolValue lookup ''IDENTITY_MAINTENANCE_MODE'' False) (\<lambda>maintenance.
        let cfg = empty_config\<lparr>cf_Environment := environment, cf_HTTPAddr := valueOrDefault lookup ''HTTP_ADDR'' '':8080'', cf_MaintenanceMode := maintenance\<rparr> in
        if maintenance then Inr cfg
        else
          rbind (load_storage lib lookup cfg) (\<lambda>cfg.
          rbind (load_registry lib lookup cfg) (\<lambda>cfg.
          rbind (load_email_keys lib lookup cfg) (\<lambda>cfg.
          rbind (load_tokens lib lookup cfg) (\<lambda>cfg.
          rbind (load_public lib lookup cfg) (\<lambda>cfg.
          rbind (load_outbox lib lookup cfg) (\<lambda>cfg.
          rbind (load_timers lib lookup cfg) (\<lambda>cfg.
          rbind (loadPublicAccounts lib lookup (cf_Products cfg) (cf_PublicInstallationProducts cfg) (cf_TokenMaxTTL cfg)) (\<lambda>accounts.
          Inr (cfg\<lparr>cf_PublicAccounts := accounts\<rparr>)))))))))))"

section \<open>Laws\<close>

lemma required_Inr [simp]: "required lookup name = Inr v \<longleftrightarrow> lookup name = Some v \<and> trim_space v \<noteq> ''''"
  by (auto simp: required_def split: option.splits if_splits)

lemma required_nonempty: "required lookup name = Inr v \<Longrightarrow> v \<noteq> ''''"
  by auto

lemma base64Key_length: "base64Key lookup name n = Inr k \<Longrightarrow> length k = n"
  by (auto simp: base64Key_def split: option.splits if_splits)

lemma intValue_bounds: "intValue lookup name fallback low high = Inr v \<Longrightarrow> low \<le> v \<and> v \<le> high"
  by (auto simp: intValue_def split: option.splits if_splits)

lemma read_map_distinct: "read_map f ms m = Some m' \<Longrightarrow> distinct (map fst m) \<Longrightarrow> distinct (map fst m')"
  by (induction ms arbitrary: m) (auto simp: distinct_update)

lemma map_value_distinct: "map_value f v = Some m \<Longrightarrow> distinct (map fst m)"
  by (auto simp: map_value_def dest: read_map_distinct split: jvalue.splits)

lemma unmarshal_Some: "unmarshal lib read raw = Some x \<Longrightarrow> \<exists>v. read v = Some x"
  by (auto simp: unmarshal_def split: option.splits prod.splits if_splits)

lemma decode_first_Some: "decode_first lib read raw = Some x \<Longrightarrow> \<exists>v. read v = Some x"
  by (auto simp: decode_first_def split: option.splits prod.splits)

lemma key_of_Inr: "key_of name n entry keys = Inr keys' \<longleftrightarrow>
   (\<exists>k. std_decode (snd entry) = Some k \<and> fst entry \<noteq> '''' \<and> length k = n \<and> keys' = keys @ [(fst entry, k)])"
  by (auto simp: key_of_def split: option.splits if_splits)

lemma keys_of: "for_each (key_of name n) entries keys = Inr keys' \<Longrightarrow>
   \<exists>new. keys' = keys @ new \<and> map fst new = map fst entries \<and> (\<forall>(i, k) \<in> set new. i \<noteq> '''' \<and> length k = n)"
proof (induction entries arbitrary: keys)
  case (Cons e es)
  then obtain k where k: "fst e \<noteq> ''''" "length k = n" "for_each (key_of name n) es (keys @ [(fst e, k)]) = Inr keys'" by (auto simp: key_of_Inr)
  from Cons.IH [OF k(3)] obtain new where "keys' = (keys @ [(fst e, k)]) @ new" "map fst new = map fst es" "\<forall>(i, k) \<in> set new. i \<noteq> '''' \<and> length k = n"
    by blast
  with k show ?case by (intro exI [of _ "(fst e, k) # new"]) auto
qed simp

text \<open>A key ring that is accepted: not empty, with distinct names, and every key of the length asked for.\<close>

definition ring_ok :: "nat \<Rightarrow> (string \<times> bytes) list \<Rightarrow> bool" where
  "ring_ok n keys \<longleftrightarrow> keys \<noteq> [] \<and> distinct (map fst keys) \<and> (\<forall>(i, k) \<in> set keys. i \<noteq> '''' \<and> length k = n)"

lemma namedKeys_ok:
  assumes "namedKeys lib lookup name n = Inr keys"
  shows "ring_ok n keys"
proof -
  from assms obtain raw encoded where e: "unmarshal lib (map_value (take_string '''')) raw = Some encoded" "encoded \<noteq> []"
    and loop: "for_each (key_of name n) encoded [] = Inr keys"
    by (auto simp: namedKeys_def split: option.splits if_splits)
  have "distinct (map fst encoded)" using unmarshal_Some [OF e(1)] map_value_distinct by blast
  with keys_of [OF loop] e(2) show ?thesis unfolding ring_ok_def by (metis append_Nil list.map_disc_iff)
qed

lemma alist_update_subset: "set (AList.update k v m) \<subseteq> insert (k, v) (set m)"
  by (induction m) auto

lemma version_key_keeps:
  assumes "version_key entry keys = Inr keys'" and "\<forall>(v, k) \<in> set keys. 1 \<le> v \<and> 32 \<le> length k"
  shows "\<forall>(v, k) \<in> set keys'. 1 \<le> v \<and> 32 \<le> length k"
  using assms alist_update_subset [of _ _ keys] by (fastforce simp: version_key_def split: option.splits if_splits)

lemma stringSet_valid:
  assumes "stringSet lookup name = Inr found"
  shows "\<forall>product \<in> set found. ValidProductID product"
proof -
  have "\<forall>product \<in> set found. ValidProductID product" if "for_each (add_product name) xs [] = Inr found" for xs
    by (rule for_each_invariant [OF that]) (auto simp: add_product_def Let_def split: if_splits)
  then show ?thesis using assms by (auto simp: stringSet_def Let_def split: if_splits)
qed

lemma products_ok:
  assumes "products lib lookup = Inr ps"
  shows "ps \<noteq> [] \<and> distinct (map fst ps) \<and> (\<forall>(i, audience) \<in> set ps. i \<noteq> '''' \<and> audience \<noteq> '''')"
proof -
  from assms obtain raw where d: "decode_first lib (map_value read_product) raw = Some ps" and ps: "ps \<noteq> []" "\<not> list_ex (\<lambda>(i, audience). i = '''' \<or> audience = '''') ps"
    by (auto simp: products_def split: option.splits if_splits)
  from decode_first_Some [OF d] map_value_distinct have "distinct (map fst ps)" by blast
  with ps show ?thesis by (auto simp: list_ex_iff)
qed

lemma workloads_ok: "workloads lib lookup = Inr ws \<Longrightarrow> \<exists>cs. authz_New (cl_sha256 lib) ws = Inr cs"
  by (auto simp: workloads_def split: option.splits if_splits)

lemma identifier_ok:
  assumes "publicAccountIdentifier lookup name fallback = Inr v"
  shows "v \<noteq> ''''" "trim_space v = v" "utf8_valid v" "CHR ''@'' \<notin> set v" "\<not> has_control v"
  using assms utf8_trim control_trim by (auto simp: publicAccountIdentifier_def Let_def rune_count_def split: if_splits)

lemma blindIndexKeys_ok: "blindIndexKeys lib lookup = Inr keys \<Longrightarrow> \<forall>(v, k) \<in> set keys. 1 \<le> v \<and> 32 \<le> length k"
proof -
  assume "blindIndexKeys lib lookup = Inr keys"
  then obtain entries where loop: "for_each version_key entries [] = Inr keys" by (auto simp: blindIndexKeys_def split: option.splits if_splits)
  show ?thesis by (rule for_each_invariant [OF loop]) (auto dest: version_key_keeps)
qed

end
