(* ===== verification/Config_Laws.thy ===== *)
theory Config_Laws
  imports Config
begin

text \<open>
  What a configuration accepted by \<^verbatim>\<open>config.Load\<close> satisfies. Each stage of the loader has two lemmas: the condition it
  establishes on the settings it reads, and the frame of the settings it leaves alone; they compose into one condition on the
  whole configuration.
\<close>

section \<open>What an accepted configuration satisfies\<close>

definition storage_ok :: "config_lib \<Rightarrow> environment \<Rightarrow> Config \<Rightarrow> bool" where
  "storage_ok lib lookup cfg \<longleftrightarrow> (\<exists>u. parse_url lib (cf_YDBEndpoint cfg) = Some u \<and> grpc_endpoint u \<and>
     (cf_Environment cfg = ''production'' \<longrightarrow> url_Scheme u = ''grpcs'' \<and> valueOrDefault lookup ''YDB_METADATA_CREDENTIALS'' '''' = ''1'' \<and> \<not> forbidden_credential lookup ''YDB_SERVICE_ACCOUNT_KEY_FILE_CREDENTIALS'' \<and>
        \<not> forbidden_credential lookup ''YDB_SERVICE_ACCOUNT_KEY_CREDENTIALS''))"

definition registry_ok :: "config_lib \<Rightarrow> Config \<Rightarrow> bool" where
  "registry_ok lib cfg \<longleftrightarrow> (\<exists>cs. authz_New (cl_sha256 lib) (cf_Workloads cfg) = Inr cs) \<and>
     cf_Products cfg \<noteq> [] \<and> distinct (map fst (cf_Products cfg)) \<and> (\<forall>(i, audience) \<in> set (cf_Products cfg). i \<noteq> '''' \<and> audience \<noteq> '''') \<and>
     (\<forall>w \<in> set (cf_Workloads cfg). \<forall>product \<in> set (wl_Products w). knows (cf_Products cfg) product)"

definition email_keys_ok :: "Config \<Rightarrow> bool" where
  "email_keys_ok cfg \<longleftrightarrow> length (cf_PairwiseIDKey cfg) = 32 \<and> cf_EmailKeyActiveID cfg \<noteq> '''' \<and>
     ((cf_EmailKeyProvider cfg = ''local'' \<and> cf_Environment cfg \<noteq> ''production'' \<and> ring_ok 32 (cf_EmailLocalKEKs cfg) \<and>
         knows (cf_EmailLocalKEKs cfg) (cf_EmailKeyActiveID cfg)) \<or>
      (cf_EmailKeyProvider cfg = ''yandex-kms'' \<and> cf_EmailYandexKMSKeys cfg \<noteq> [] \<and> knows (cf_EmailYandexKMSKeys cfg) (cf_EmailKeyActiveID cfg) \<and>
         (\<forall>(a, i) \<in> set (cf_EmailYandexKMSKeys cfg). trim_space a \<noteq> '''' \<and> trim_space i \<noteq> '''')))"

definition tokens_ok :: "Config \<Rightarrow> bool" where
  "tokens_ok cfg \<longleftrightarrow> (\<forall>(v, k) \<in> set (cf_BlindIndexKeys cfg). 1 \<le> v \<and> 32 \<le> length k) \<and>
     map_of (cf_BlindIndexKeys cfg) (cf_BlindIndexCurrentVersion cfg) \<noteq> None \<and>
     ring_ok 32 (cf_TokenSigningSeeds cfg) \<and> knows (cf_TokenSigningSeeds cfg) (cf_TokenActiveKeyID cfg) \<and> cf_TokenIssuer cfg \<noteq> '''' \<and>
     0 < cf_TokenTTL cfg \<and> cf_TokenTTL cfg \<le> cf_TokenMaxTTL cfg"

definition public_ok :: "Config \<Rightarrow> bool" where
  "public_ok cfg \<longleftrightarrow> (\<forall>product \<in> set (cf_PublicInstallationProducts cfg). ValidProductID product \<and> knows (cf_Products cfg) product) \<and>
     (cf_PublicInstallationProducts cfg \<noteq> [] \<longrightarrow> cf_PublicPolicyVersion cfg \<noteq> '''') \<and>
     24 * hour \<le> cf_PublicRefreshTTL cfg \<and> cf_PublicRefreshTTL cfg \<le> 365 * 24 * hour"

definition outbox_ok :: "config_lib \<Rightarrow> Config \<Rightarrow> bool" where
  "outbox_ok lib cfg \<longleftrightarrow> (cf_Environment cfg = ''production'' \<longrightarrow> cf_RequireOutboxDelivery cfg) \<and>
     (cf_RequireOutboxDelivery cfg \<longrightarrow> outbox_url_ok lib (cf_OutboxURL cfg)) \<and> 0 < cf_OutboxPollInterval cfg \<and>
     1 \<le> cf_OutboxMaxAttempts cfg \<and> cf_OutboxMaxAttempts cfg \<le> 100 \<and> 0 < cf_OutboxReadinessMaxAge cfg"

definition accounts_ok :: "Config \<Rightarrow> bool" where
  "accounts_ok cfg \<longleftrightarrow> (let a = cf_PublicAccounts cfg in
     set (pa_Products a) \<subseteq> set (cf_PublicInstallationProducts cfg) \<and>
     (pa_Enabled a \<longrightarrow> cf_PublicInstallationProducts cfg \<noteq> [] \<and> 5 * minute \<le> cf_TokenMaxTTL cfg \<and>
        32 \<le> length (pa_OTPKey a) \<and> length (pa_OTPKey a) \<le> 128 \<and> 1 \<le> pa_DailyLimit a \<and> pa_DailyLimit a \<le> 10000 \<and>
        (\<forall>l \<in> {pa_PolicyVersion a, pa_OTPKeyID a}. l \<noteq> '''' \<and> trim_space l = l \<and> utf8_valid l \<and> CHR ''@'' \<notin> set l \<and> \<not> has_control l)))"

definition timers_ok :: "Config \<Rightarrow> bool" where
  "timers_ok cfg \<longleftrightarrow> 0 < cf_EmailVerificationTTL cfg \<and> cf_EmailVerificationTTL cfg \<le> 24 * hour \<and> second \<le> cf_EmailCleanupInterval cfg \<and>
     0 < cf_ShutdownTimeout cfg"

lemma load_storage_frame: "load_storage lib lookup cfg = Inr cfg' \<Longrightarrow>
   cfg' = cfg\<lparr>cf_YDBEndpoint := cf_YDBEndpoint cfg', cf_YDBDatabase := cf_YDBDatabase cfg'\<rparr>"
  by (auto simp: load_storage_def split: if_splits)

lemma load_storage_ok: "load_storage lib lookup cfg = Inr cfg' \<Longrightarrow> storage_ok lib lookup cfg'"
  by (auto simp: load_storage_def storage_ok_def production_storage_def split: if_splits)

lemma load_registry_frame: "load_registry lib lookup cfg = Inr cfg' \<Longrightarrow> cfg' = cfg\<lparr>cf_Workloads := cf_Workloads cfg', cf_Products := cf_Products cfg'\<rparr>"
  by (auto simp: load_registry_def split: if_splits)

lemma load_registry_ok:
  assumes "load_registry lib lookup cfg = Inr cfg'"
  shows "registry_ok lib cfg'"
proof -
  from assms obtain ws ps where w: "workloads lib lookup = Inr ws" and p: "products lib lookup = Inr ps"
    and k: "\<not> list_ex (\<lambda>w. list_ex (\<lambda>product. \<not> knows ps product) (wl_Products w)) ws"
    and cfg': "cfg' = cfg\<lparr>cf_Workloads := ws, cf_Products := ps\<rparr>"
    by (auto simp: load_registry_def split: if_splits)
  show ?thesis using workloads_ok [OF w] products_ok [OF p] k by (simp add: registry_ok_def cfg' list_ex_iff)
qed

lemma load_email_keys_frame: "load_email_keys lib lookup cfg = Inr cfg' \<Longrightarrow>
   cfg' = cfg\<lparr>cf_PairwiseIDKey := cf_PairwiseIDKey cfg', cf_EmailKeyProvider := cf_EmailKeyProvider cfg', cf_EmailKeyActiveID := cf_EmailKeyActiveID cfg',
     cf_EmailLocalKEKs := cf_EmailLocalKEKs cfg', cf_EmailYandexKMSKeys := cf_EmailYandexKMSKeys cfg'\<rparr>"
  by (auto simp: load_email_keys_def Let_def split: if_splits)

lemma namedIDs_ok: "namedIDs lib lookup name = Inr ids \<Longrightarrow> ids \<noteq> [] \<and> (\<forall>(a, i) \<in> set ids. trim_space a \<noteq> '''' \<and> trim_space i \<noteq> '''')"
  by (auto simp: namedIDs_def list_ex_iff split: if_splits option.splits)

lemma load_email_keys_cases:
  assumes "load_email_keys lib lookup cfg = Inr cfg'"
  obtains (local) keks where "namedKeys lib lookup ''EMAIL_LOCAL_KEKS_JSON'' 32 = Inr keks" "knows keks (cf_EmailKeyActiveID cfg')"
      "cf_EmailLocalKEKs cfg' = keks" "cf_EmailYandexKMSKeys cfg' = cf_EmailYandexKMSKeys cfg" "cf_Environment cfg \<noteq> ''production''" "cf_EmailKeyProvider cfg' = ''local''"
    | (kms) ids where "namedIDs lib lookup ''EMAIL_YC_KMS_KEYS_JSON'' = Inr ids" "knows ids (cf_EmailKeyActiveID cfg')"
      "cf_EmailYandexKMSKeys cfg' = ids" "cf_EmailLocalKEKs cfg' = cf_EmailLocalKEKs cfg" "cf_EmailKeyProvider cfg' = ''yandex-kms''"
  using assms by (auto simp: load_email_keys_def Let_def split: if_splits)

lemma load_email_keys_common: "load_email_keys lib lookup cfg = Inr cfg' \<Longrightarrow>
   length (cf_PairwiseIDKey cfg') = 32 \<and> cf_EmailKeyActiveID cfg' \<noteq> '''' \<and> cf_Environment cfg' = cf_Environment cfg"
  by (auto simp: load_email_keys_def Let_def dest: base64Key_length split: if_splits)

lemma load_email_keys_ok:
  assumes "load_email_keys lib lookup cfg = Inr cfg'"
  shows "email_keys_ok cfg'"
  using assms
proof (cases rule: load_email_keys_cases)
  case (local keks)
  then show ?thesis using load_email_keys_common [OF assms] namedKeys_ok [OF local(1)] by (simp add: email_keys_ok_def)
next
  case (kms ids)
  then show ?thesis using load_email_keys_common [OF assms] namedIDs_ok [OF kms(1)] by (simp add: email_keys_ok_def)
qed

lemma load_tokens_frame: "load_tokens lib lookup cfg = Inr cfg' \<Longrightarrow>
   cfg' = cfg\<lparr>cf_BlindIndexKeys := cf_BlindIndexKeys cfg', cf_BlindIndexCurrentVersion := cf_BlindIndexCurrentVersion cfg',
     cf_TokenSigningSeeds := cf_TokenSigningSeeds cfg', cf_TokenActiveKeyID := cf_TokenActiveKeyID cfg', cf_TokenIssuer := cf_TokenIssuer cfg',
     cf_TokenTTL := cf_TokenTTL cfg', cf_TokenMaxTTL := cf_TokenMaxTTL cfg'\<rparr>"
  by (auto simp: load_tokens_def split: if_splits)

lemma load_tokens_ok:
  assumes "load_tokens lib lookup cfg = Inr cfg'"
  shows "tokens_ok cfg'"
proof -
  from assms have b: "blindIndexKeys lib lookup = Inr (cf_BlindIndexKeys cfg')" and s: "namedKeys lib lookup ''TOKEN_SIGNING_KEYS_JSON'' 32 = Inr (cf_TokenSigningSeeds cfg')"
    by (auto simp: load_tokens_def split: if_splits)
  from assms have "map_of (cf_BlindIndexKeys cfg') (cf_BlindIndexCurrentVersion cfg') \<noteq> None" "knows (cf_TokenSigningSeeds cfg') (cf_TokenActiveKeyID cfg')"
    "cf_TokenIssuer cfg' \<noteq> ''''" "0 < cf_TokenTTL cfg'" "cf_TokenTTL cfg' \<le> cf_TokenMaxTTL cfg'"
    by (auto simp: load_tokens_def split: if_splits)
  with blindIndexKeys_ok [OF b] namedKeys_ok [OF s] show ?thesis by (simp add: tokens_ok_def)
qed

lemma load_public_frame: "load_public lib lookup cfg = Inr cfg' \<Longrightarrow>
   cfg' = cfg\<lparr>cf_PublicInstallationProducts := cf_PublicInstallationProducts cfg', cf_PublicPolicyVersion := cf_PublicPolicyVersion cfg',
     cf_PublicAdditionalPolicies := cf_PublicAdditionalPolicies cfg', cf_PublicRefreshTTL := cf_PublicRefreshTTL cfg',
     cf_PublicAllowedOrigins := cf_PublicAllowedOrigins cfg'\<rparr>"
  by (auto simp: load_public_def Let_def split: if_splits)

lemma load_public_ok:
  assumes "load_public lib lookup cfg = Inr cfg'"
  shows "public_ok cfg'"
proof -
  from assms have "stringSet lookup ''PUBLIC_INSTALLATION_PRODUCTS'' = Inr (cf_PublicInstallationProducts cfg')"
    and "\<not> list_ex (\<lambda>product. \<not> knows (cf_Products cfg) product) (cf_PublicInstallationProducts cfg')"
    and "cf_PublicInstallationProducts cfg' \<noteq> [] \<longrightarrow> cf_PublicPolicyVersion cfg' \<noteq> ''''"
    and "24 * hour \<le> cf_PublicRefreshTTL cfg'" "cf_PublicRefreshTTL cfg' \<le> 365 * 24 * hour" "cf_Products cfg' = cf_Products cfg"
    by (auto simp: load_public_def Let_def split: if_splits)
  with stringSet_valid show ?thesis by (simp add: public_ok_def list_ex_iff)
qed

lemma load_outbox_frame: "load_outbox lib lookup cfg = Inr cfg' \<Longrightarrow>
   cfg' = cfg\<lparr>cf_MinorCrossProductLinking := cf_MinorCrossProductLinking cfg', cf_OutboxURL := cf_OutboxURL cfg',
     cf_RequireOutboxDelivery := cf_RequireOutboxDelivery cfg', cf_OutboxPollInterval := cf_OutboxPollInterval cfg',
     cf_OutboxMaxAttempts := cf_OutboxMaxAttempts cfg', cf_OutboxReadinessMaxAge := cf_OutboxReadinessMaxAge cfg'\<rparr>"
  by (auto simp: load_outbox_def Let_def split: if_splits)

lemma load_outbox_ok: "load_outbox lib lookup cfg = Inr cfg' \<Longrightarrow> outbox_ok lib cfg'"
  by (auto simp: load_outbox_def outbox_ok_def Let_def dest: intValue_bounds split: if_splits)

lemma load_timers_frame: "load_timers lib lookup cfg = Inr cfg' \<Longrightarrow>
   cfg' = cfg\<lparr>cf_EmailVerificationTTL := cf_EmailVerificationTTL cfg', cf_EmailCleanupInterval := cf_EmailCleanupInterval cfg',
     cf_ShutdownTimeout := cf_ShutdownTimeout cfg'\<rparr>"
  by (auto simp: load_timers_def)

lemma load_timers_ok: "load_timers lib lookup cfg = Inr cfg' \<Longrightarrow> timers_ok cfg'"
  by (auto simp: load_timers_def timers_ok_def)

lemma load_smtp_keeps: "load_smtp lib lookup a = Inr a' \<Longrightarrow>
   pa_Enabled a' = pa_Enabled a \<and> pa_Products a' = pa_Products a \<and> pa_PolicyVersion a' = pa_PolicyVersion a \<and> pa_OTPKeyID a' = pa_OTPKeyID a \<and>
   pa_OTPKey a' = pa_OTPKey a \<and> pa_DailyLimit a' = pa_DailyLimit a"
  by (auto simp: load_smtp_def split: if_splits)

lemma otp_key_length: "otp_key lookup = Inr k \<Longrightarrow> 32 \<le> length k \<and> length k \<le> 128"
  by (auto simp: otp_key_def Let_def split: option.splits if_splits)

lemma loadPublicAccounts_products:
  "loadPublicAccounts lib lookup known installed maxTTL = Inr a \<Longrightarrow> set (pa_Products a) \<subseteq> set installed"
  by (auto simp: loadPublicAccounts_def Let_def list_ex_iff split: if_splits dest!: load_smtp_keeps)

lemma loadPublicAccounts_enabled:
  assumes load: "loadPublicAccounts lib lookup known installed maxTTL = Inr a" and on: "pa_Enabled a"
  obtains policy keyID key limit where "publicAccountIdentifier lookup ''PUBLIC_ACCOUNT_POLICY_VERSION'' '''' = Inr policy"
    "publicAccountIdentifier lookup ''PUBLIC_ACCOUNT_OTP_KEY_ID'' ''otp-v1'' = Inr keyID" "otp_key lookup = Inr key"
    "intValue lookup ''PUBLIC_ACCOUNT_DAILY_LIMIT'' 200 1 10000 = Inr limit" "installed \<noteq> []" "5 * minute \<le> maxTTL"
    "pa_PolicyVersion a = policy" "pa_OTPKeyID a = keyID" "pa_OTPKey a = key" "pa_DailyLimit a = limit"
proof (rule that)
  show "installed \<noteq> []" "5 * minute \<le> maxTTL"
    using load on by (auto simp: loadPublicAccounts_def Let_def empty_accounts_def split: if_splits)
  show "publicAccountIdentifier lookup ''PUBLIC_ACCOUNT_POLICY_VERSION'' '''' = Inr (pa_PolicyVersion a)"
    "publicAccountIdentifier lookup ''PUBLIC_ACCOUNT_OTP_KEY_ID'' ''otp-v1'' = Inr (pa_OTPKeyID a)" "otp_key lookup = Inr (pa_OTPKey a)"
    "intValue lookup ''PUBLIC_ACCOUNT_DAILY_LIMIT'' 200 1 10000 = Inr (pa_DailyLimit a)"
    using load on by (auto simp: loadPublicAccounts_def Let_def split: if_splits dest!: load_smtp_keeps)
qed simp_all

lemma loadPublicAccounts_ok:
  assumes load: "loadPublicAccounts lib lookup (cf_Products cfg) (cf_PublicInstallationProducts cfg) (cf_TokenMaxTTL cfg) = Inr a"
  shows "accounts_ok (cfg\<lparr>cf_PublicAccounts := a\<rparr>)"
proof (cases "pa_Enabled a")
  case True
  from load this show ?thesis
    by (rule loadPublicAccounts_enabled)
      (use loadPublicAccounts_products [OF load] in \<open>auto simp: accounts_ok_def Let_def dest: identifier_ok otp_key_length intValue_bounds\<close>)
qed (use loadPublicAccounts_products [OF load] in \<open>simp add: accounts_ok_def Let_def\<close>)

section \<open>Composing the stages\<close>

lemmas config_ok_defs = storage_ok_def registry_ok_def email_keys_ok_def tokens_ok_def public_ok_def outbox_ok_def

lemma load_registry_keeps:
  assumes "load_registry lib lookup cfg = Inr cfg'"
  shows "storage_ok lib lookup cfg' = storage_ok lib lookup cfg" "cf_Environment cfg' = cf_Environment cfg" "cf_MaintenanceMode cfg' = cf_MaintenanceMode cfg"
  by (subst load_registry_frame [OF assms], simp add: config_ok_defs)+

lemma load_email_keys_keeps:
  assumes "load_email_keys lib lookup cfg = Inr cfg'"
  shows "storage_ok lib lookup cfg' = storage_ok lib lookup cfg" "registry_ok lib cfg' = registry_ok lib cfg"
    "cf_Environment cfg' = cf_Environment cfg" "cf_MaintenanceMode cfg' = cf_MaintenanceMode cfg"
  by (subst load_email_keys_frame [OF assms], simp add: config_ok_defs)+

lemma load_tokens_keeps:
  assumes "load_tokens lib lookup cfg = Inr cfg'"
  shows "storage_ok lib lookup cfg' = storage_ok lib lookup cfg" "registry_ok lib cfg' = registry_ok lib cfg" "email_keys_ok cfg' = email_keys_ok cfg"
    "cf_Environment cfg' = cf_Environment cfg" "cf_MaintenanceMode cfg' = cf_MaintenanceMode cfg"
  by (subst load_tokens_frame [OF assms], simp add: config_ok_defs)+

lemma load_public_keeps:
  assumes "load_public lib lookup cfg = Inr cfg'"
  shows "storage_ok lib lookup cfg' = storage_ok lib lookup cfg" "registry_ok lib cfg' = registry_ok lib cfg" "email_keys_ok cfg' = email_keys_ok cfg"
    "tokens_ok cfg' = tokens_ok cfg" "cf_Environment cfg' = cf_Environment cfg" "cf_MaintenanceMode cfg' = cf_MaintenanceMode cfg"
  by (subst load_public_frame [OF assms], simp add: config_ok_defs)+

lemma load_outbox_keeps:
  assumes "load_outbox lib lookup cfg = Inr cfg'"
  shows "storage_ok lib lookup cfg' = storage_ok lib lookup cfg" "registry_ok lib cfg' = registry_ok lib cfg" "email_keys_ok cfg' = email_keys_ok cfg"
    "tokens_ok cfg' = tokens_ok cfg" "public_ok cfg' = public_ok cfg" "cf_Environment cfg' = cf_Environment cfg" "cf_MaintenanceMode cfg' = cf_MaintenanceMode cfg"
  by (subst load_outbox_frame [OF assms], simp add: config_ok_defs)+

lemma load_timers_keeps:
  assumes "load_timers lib lookup cfg = Inr cfg'"
  shows "storage_ok lib lookup cfg' = storage_ok lib lookup cfg" "registry_ok lib cfg' = registry_ok lib cfg" "email_keys_ok cfg' = email_keys_ok cfg"
    "tokens_ok cfg' = tokens_ok cfg" "public_ok cfg' = public_ok cfg" "outbox_ok lib cfg' = outbox_ok lib cfg"
    "cf_Environment cfg' = cf_Environment cfg" "cf_MaintenanceMode cfg' = cf_MaintenanceMode cfg"
  by (subst load_timers_frame [OF assms], simp add: config_ok_defs)+

lemma accounts_keep [simp]:
  "storage_ok lib lookup (cfg\<lparr>cf_PublicAccounts := a\<rparr>) = storage_ok lib lookup cfg" "registry_ok lib (cfg\<lparr>cf_PublicAccounts := a\<rparr>) = registry_ok lib cfg"
  "email_keys_ok (cfg\<lparr>cf_PublicAccounts := a\<rparr>) = email_keys_ok cfg" "tokens_ok (cfg\<lparr>cf_PublicAccounts := a\<rparr>) = tokens_ok cfg"
  "public_ok (cfg\<lparr>cf_PublicAccounts := a\<rparr>) = public_ok cfg" "outbox_ok lib (cfg\<lparr>cf_PublicAccounts := a\<rparr>) = outbox_ok lib cfg"
  "timers_ok (cfg\<lparr>cf_PublicAccounts := a\<rparr>) = timers_ok cfg"
  by (simp_all add: config_ok_defs timers_ok_def)

definition accepted :: "config_lib \<Rightarrow> environment \<Rightarrow> Config \<Rightarrow> bool" where
  "accepted lib lookup cfg \<longleftrightarrow> storage_ok lib lookup cfg \<and> registry_ok lib cfg \<and> email_keys_ok cfg \<and> tokens_ok cfg \<and> public_ok cfg \<and>
     outbox_ok lib cfg \<and> timers_ok cfg \<and> accounts_ok cfg"

lemma load_stages:
  assumes load: "load lib lookup = Inr cfg" and running: "\<not> cf_MaintenanceMode cfg"
  obtains c0 c1 c2 c3 c4 c5 c6 c7 a where "load_storage lib lookup c0 = Inr c1" "load_registry lib lookup c1 = Inr c2" "load_email_keys lib lookup c2 = Inr c3"
    "load_tokens lib lookup c3 = Inr c4" "load_public lib lookup c4 = Inr c5" "load_outbox lib lookup c5 = Inr c6" "load_timers lib lookup c6 = Inr c7"
    "loadPublicAccounts lib lookup (cf_Products c7) (cf_PublicInstallationProducts c7) (cf_TokenMaxTTL c7) = Inr a" "cfg = c7\<lparr>cf_PublicAccounts := a\<rparr>"
  using load running by (auto simp: load_def Let_def split: if_splits)

lemma load_accepted:
  assumes "load lib lookup = Inr cfg" and "\<not> cf_MaintenanceMode cfg"
  shows "accepted lib lookup cfg"
proof -
  from assms obtain c0 c1 c2 c3 c4 c5 c6 c7 a
    where l: "load_storage lib lookup c0 = Inr c1" "load_registry lib lookup c1 = Inr c2" "load_email_keys lib lookup c2 = Inr c3"
    "load_tokens lib lookup c3 = Inr c4" "load_public lib lookup c4 = Inr c5" "load_outbox lib lookup c5 = Inr c6" "load_timers lib lookup c6 = Inr c7"
    and a: "loadPublicAccounts lib lookup (cf_Products c7) (cf_PublicInstallationProducts c7) (cf_TokenMaxTTL c7) = Inr a" and cfg: "cfg = c7\<lparr>cf_PublicAccounts := a\<rparr>"
    by (rule load_stages)
  note keeps = load_registry_keeps [OF l(2)] load_email_keys_keeps [OF l(3)] load_tokens_keeps [OF l(4)] load_public_keeps [OF l(5)]
    load_outbox_keeps [OF l(6)] load_timers_keeps [OF l(7)]
  show ?thesis
    unfolding accepted_def cfg
    by (simp add: keeps load_storage_ok [OF l(1)] load_registry_ok [OF l(2)] load_email_keys_ok [OF l(3)] load_tokens_ok [OF l(4)] load_public_ok [OF l(5)]
        load_outbox_ok [OF l(6)] load_timers_ok [OF l(7)] loadPublicAccounts_ok [OF a])
qed

end
