(* ===== verification/Startup.thy ===== *)
theory Startup
  imports Http_Routes Config_Laws Workers
begin

text \<open>
  The two commands: how the service assembles its parts from an accepted configuration (\<^verbatim>\<open>run\<close> of
  \<^verbatim>\<open>cmd/identity/main.go\<close>), the handler of the maintenance mode (\<^verbatim>\<open>maintenance.go\<close>), the schema command
  (\<^verbatim>\<open>cmd/schema/main.go\<close>), and the token source of the key management service (\<^verbatim>\<open>yandex_kms.go\<close>). The listener,
  the goroutines of the workers and the shutdown are not modelled.
\<close>

section \<open>Assembly\<close>

text \<open>
  The libraries the parts are built over: cryptography, JSON, mail addresses, the client of the key
  management service, and the calls of the directory to the envelope and to the pairwise generator.
\<close>

record libraries =
  lb_token :: token_lib
  lb_http :: http_lib
  lb_sha256 :: "string \<Rightarrow> bytes"
  lb_hmac :: hmac
  lb_gcm :: aead
  lb_mail :: mail_lib
  lb_kms :: symmetricCryptoClient
  lb_directory :: Directory
  lb_post :: "string \<Rightarrow> string \<Rightarrow> string \<Rightarrow> payload \<Rightarrow> (int \<times> bytes) option"
  lb_receipt :: "bytes \<Rightarrow> receipt"

definition key_provider_of :: "libraries \<Rightarrow> Config \<Rightarrow> KeyProvider result" where
  "key_provider_of lb cfg =
     (if cf_EmailKeyProvider cfg = ''local'' then
        rbind (NewLocalAESKeyring (cf_EmailKeyActiveID cfg) (cf_EmailLocalKEKs cfg)) (\<lambda>p. Inr (local_provider (lb_gcm lb) p))
      else if cf_EmailKeyProvider cfg = ''yandex-kms'' then
        rbind (newYandexKMSKeyring (cf_EmailKeyActiveID cfg) (cf_EmailYandexKMSKeys cfg)) (\<lambda>p. Inr (kms_provider (lb_kms lb) p))
      else Inl (ErrMessage ''unsupported email key provider''))"

definition envelope_keys :: "Config \<Rightarrow> string list" where
  "envelope_keys cfg = map fst (cf_EmailLocalKEKs cfg) @ map fst (cf_EmailYandexKMSKeys cfg)"

definition public_products :: "Config \<Rightarrow> (string \<times> Product) list" where
  "public_products cfg = map (\<lambda>(productID, audience). (productID, \<lparr>pr_Audience = audience,
     pr_AdditionalPolicies = (case map_of (cf_PublicAdditionalPolicies cfg) productID of None \<Rightarrow> [] | Some policies \<Rightarrow> policies)\<rparr>)) (cf_Products cfg)"

definition public_broker :: "libraries \<Rightarrow> Config \<Rightarrow> Signer \<Rightarrow> Generator \<Rightarrow> Broker option result" where
  "public_broker lb cfg signer pairwiseIDs =
     (if cf_PublicInstallationProducts cfg = [] then Inr None
      else rbind (broker_New (lb_token lb) (lb_hmac lb) signer pairwiseIDs
          \<lparr>bc_Products = public_products cfg, bc_RegistrationProducts = cf_PublicInstallationProducts cfg,
           bc_PolicyVersion = cf_PublicPolicyVersion cfg, bc_RefreshTTL = cf_PublicRefreshTTL cfg\<rparr>) (\<lambda>broker. Inr (Some broker)))"

text \<open>
  The account broker is given the installation broker as it stands. When that is missing the code
  holds a nil pointer, which it would follow at the first request: an error here. No accepted
  configuration leads there, since accounts need installation products.
\<close>

definition account_broker ::
  "libraries \<Rightarrow> Config \<Rightarrow> db \<Rightarrow> time \<Rightarrow> Broker option \<Rightarrow> IdentityService \<Rightarrow> Signer \<Rightarrow> Generator \<Rightarrow> AccountBroker option result" where
  "account_broker lb cfg d now installations identities signer pairwiseIDs =
     (let accounts = cf_PublicAccounts cfg in
      if \<not> pa_Enabled accounts then Inr None
      else
        rbind (ValidatePublicOTPKeyID d (pa_OTPKeyID accounts) now) (\<lambda>_.
        rbind (some_or (ErrMessage ''nil installation broker'') installations) (\<lambda>broker.
        rbind (account_New
          \<lparr>ab_installations = broker, ab_identity = identities, ab_gcm = lb_gcm lb, ab_provider = is_provider identities, ab_lib = lb_token lb,
           ab_signer = signer, ab_hmac = lb_hmac lb, ab_pairwise = pairwiseIDs, ab_sha256 = lb_sha256 lb\<rparr>
          \<lparr>gc_Products = public_products cfg, gc_RegistrationProducts = pa_Products accounts, gc_RegistrationPolicyVersion = pa_PolicyVersion accounts,
           gc_OTPKeyID = pa_OTPKeyID accounts, gc_OTPKey = pa_OTPKey accounts, gc_DailyLimit = word_of_int (pa_DailyLimit accounts)\<rparr>) (\<lambda>b.
        Inr (Some b)))))"

definition directory_New :: "Directory \<Rightarrow> (string \<times> string) list \<Rightarrow> Directory result" where
  "directory_New services registry =
     (if registry = [] then Inl (ErrMessage ''invalid product directory configuration'')
      else if list_ex (\<lambda>(product, audience). \<not> ValidProductID product \<or> audience = '''') registry
      then Inl (ErrMessage ''invalid directory product registry'')
      else Inr (services\<lparr>dir_products := map_of registry\<rparr>))"

text \<open>
  The assembly reads the database four times: the version of the schema, and the keys still
  referenced by its rows. \<open>views k\<close> is the database at the k-th of these reads.
\<close>

definition assemble :: "libraries \<Rightarrow> Config \<Rightarrow> uint64 option \<Rightarrow> (nat \<Rightarrow> db) \<Rightarrow> time \<Rightarrow> (Server \<times> outbox_worker) result" where
  "assemble lb cfg version views now =
     rbind (Store_Ready version) (\<lambda>_.
     rbind (key_provider_of lb cfg) (\<lambda>keyProvider.
     rbind (ValidateEnvelopeKeyIDs (views 0) (envelope_keys cfg)) (\<lambda>_.
     rbind (NewBlindIndexer (cf_BlindIndexCurrentVersion cfg) (cf_BlindIndexKeys cfg)) (\<lambda>indexer.
     rbind (ValidateBlindIndexVersions (views 1) (map fst (cf_BlindIndexKeys cfg))) (\<lambda>_.
     rbind (NewKeyring (lb_token lb) (cf_TokenSigningSeeds cfg) (cf_TokenActiveKeyID cfg) (cf_TokenIssuer cfg) (cf_TokenTTL cfg) (cf_TokenMaxTTL cfg)) (\<lambda>tokenSigner.
     rbind (authz_New (lb_sha256 lb) (cf_Workloads cfg)) (\<lambda>authenticator.
     rbind (NewGenerator (cf_PairwiseIDKey cfg)) (\<lambda>pairwiseIDs.
     rbind (public_broker lb cfg tokenSigner pairwiseIDs) (\<lambda>publicBroker.
     let identityService = \<lparr>is_gcm = lb_gcm lb, is_provider = keyProvider, is_hmac = lb_hmac lb, is_indexer = indexer, is_mail = lb_mail lb,
           is_minorCrossProductLinking = cf_MinorCrossProductLinking cfg, is_emailVerificationTTL = cf_EmailVerificationTTL cfg\<rparr> in
     rbind (account_broker lb cfg (views 2) now publicBroker identityService tokenSigner pairwiseIDs) (\<lambda>publicAccounts.
     rbind (directory_New (lb_directory lb) (cf_Products cfg)) (\<lambda>directory.
     Inr (\<lparr>sv_lib = lb_token lb, sv_http = lb_http lb, sv_sha256 = lb_sha256 lb, sv_hmac = lb_hmac lb, sv_identities = identityService,
           sv_tokens = tokenSigner, sv_authenticator = authenticator, sv_pairwise = pairwiseIDs, sv_products = cf_Products cfg,
           sv_publicBroker = publicBroker, sv_publicAccounts = publicAccounts, sv_directory = Some directory,
           sv_publicOrigins = cf_PublicAllowedOrigins cfg, sv_requireOutbox = cf_RequireOutboxDelivery cfg, sv_outboxMaxAge = cf_OutboxReadinessMaxAge cfg\<rparr>,
          \<lparr>ow_url = cf_OutboxURL cfg, ow_signer = tokenSigner, ow_products = map_of (cf_Products cfg), ow_maxAttempts = cf_OutboxMaxAttempts cfg,
           ow_lib = lb_token lb, ow_post = lb_post lb, ow_receipt_of = lb_receipt lb\<rparr>))))))))))))"

section \<open>Maintenance mode and the schema command\<close>

definition maintenanceHandler :: "Request \<Rightarrow> Response" where
  "maintenanceHandler r =
     (let h = header_set ''Content-Type'' ''application/json'' (header_set ''Retry-After'' ''60'' (header_set ''Cache-Control'' ''no-store'' []));
          (status, body) =
            (if hr_Method r = ''GET'' \<and> hr_Path r = [''healthz''] then (200, VObj [(''status'', VStr ''ok''), (''mode'', VStr ''maintenance'')])
             else if hr_Method r = ''GET'' \<and> hr_Path r = [''readyz''] then (503, VObj [(''status'', VStr ''maintenance'')])
             else (503, VObj [(''error'', VStr ''identity_maintenance'')]))
      in \<lparr>hp_status = status, hp_header = h, hp_body = Some body\<rparr>)"

section \<open>The root handler\<close>

text \<open>
  The tick of the workers stands beside the API, on a path of its own and without a guard: whoever can reach the
  container directly may tick the workers, and the gateway in front of it answers the path itself.
\<close>

definition tick_New :: "'p \<Rightarrow> 'p \<Rightarrow> 'p \<Rightarrow> 'p option \<Rightarrow> 'p list" where
  "tick_New outbox privacyErasure verificationCleanup delivery =
     [outbox, privacyErasure, verificationCleanup] @ (case delivery of None \<Rightarrow> [] | Some p \<Rightarrow> [p])"

definition tick_path :: "string list" where "tick_path = [''internal'', ''workers'', ''tick'']"

definition tick_response :: "int \<times> string \<Rightarrow> Response" where
  "tick_response answer = (case answer of (status, body) \<Rightarrow>
     if status = 405 then \<lparr>hp_status = 405, hp_header = header_set ''Allow'' ''POST'' [], hp_body = None\<rparr>
     else \<lparr>hp_status = nat status, hp_header = header_set ''Content-Type'' ''application/json'' [], hp_body = Some (VObj [(''status'', VStr body)])\<rparr>)"

definition root_serve ::
  "(db \<Rightarrow> db \<times> error option) list \<Rightarrow> Server \<Rightarrow> world \<Rightarrow> string \<Rightarrow> Request \<Rightarrow> server_state \<Rightarrow> Response \<times> server_state" where
  "root_serve processors s w requestID r st =
     (if hr_Path r = tick_path then
        (case tick_ServeHTTP processors (hr_Method r) (st_db st) of (answer, d) \<Rightarrow> (tick_response answer, st\<lparr>st_db := d\<rparr>))
      else serve s w requestID r st)"

text \<open>The tick looks at the method alone, leaves the buckets alone, and changes nothing unless it is a \<^verbatim>\<open>POST\<close>.\<close>

lemma root_tick:
  assumes "hr_Path r = tick_path"
  shows "root_serve ps s w i (r\<lparr>hr_Header := h, hr_Body := b\<rparr>) st = root_serve ps s w i r st"
    and "root_serve ps s w i r st = (answer, st') \<Longrightarrow>
      st_requests st' = st_requests st \<and> st_registers st' = st_registers st \<and> (hr_Method r \<noteq> ''POST'' \<longrightarrow> hp_status answer = 405 \<and> st' = st)"
  using assms by (auto simp: root_serve_def tick_ServeHTTP_def tick_response_def split: prod.splits option.splits if_splits)

section \<open>Which accepted configurations start\<close>

definition names_valid :: "Config \<Rightarrow> bool" where
  "names_valid cfg \<longleftrightarrow> (\<forall>(product, audience) \<in> set (cf_Products cfg). ValidProductID product)"

definition labels_fit :: "Config \<Rightarrow> bool" where
  "labels_fit cfg \<longleftrightarrow> (pa_Enabled (cf_PublicAccounts cfg) \<longrightarrow>
     length (pa_PolicyVersion (cf_PublicAccounts cfg)) \<le> 100 \<and> length (pa_OTPKeyID (cf_PublicAccounts cfg)) \<le> 100)"

lemma key_provider_starts: "email_keys_ok cfg \<Longrightarrow> \<exists>p. key_provider_of lb cfg = Inr p"
  by (fastforce simp: email_keys_ok_def key_provider_of_def NewLocalAESKeyring_def newYandexKMSKeyring_def ring_ok_def knows_def list_ex_iff)

lemma indexer_starts: "tokens_ok cfg \<Longrightarrow> \<exists>b. NewBlindIndexer (cf_BlindIndexCurrentVersion cfg) (cf_BlindIndexKeys cfg) = Inr b"
  by (fastforce simp: tokens_ok_def NewBlindIndexer_def list_ex_iff)

lemma add_keys_starts:
  assumes "\<forall>(i, k) \<in> set seeds. i \<noteq> '''' \<and> length k = 32"
  shows "\<exists>pub' prv'. for_each (add_key lib active) seeds (pub, prv) = Inr (pub', prv') \<and> (prv \<noteq> None \<or> map_of seeds active \<noteq> None \<longrightarrow> prv' \<noteq> None)"
  using assms
proof (induction seeds arbitrary: pub prv)
  case (Cons x seeds)
  from Cons.prems have "add_key lib active x (pub, prv) = Inr (pub @ [(fst x, ed_public lib (snd x))], if fst x = active then Some (snd x) else prv)"
    by (cases x) (simp add: add_key_def)
  moreover from Cons.prems have "\<forall>(i, k) \<in> set seeds. i \<noteq> '''' \<and> length k = 32" by simp
  note Cons.IH [OF this, of "pub @ [(fst x, ed_public lib (snd x))]" "if fst x = active then Some (snd x) else prv"]
  ultimately show ?case by (cases x) (auto split: if_splits)
qed simp

lemma signer_starts:
  assumes "tokens_ok cfg"
  shows "\<exists>s. NewKeyring lib (cf_TokenSigningSeeds cfg) (cf_TokenActiveKeyID cfg) (cf_TokenIssuer cfg) (cf_TokenTTL cfg) (cf_TokenMaxTTL cfg) = Inr s"
proof -
  from assms have ring: "\<forall>(i, k) \<in> set (cf_TokenSigningSeeds cfg). i \<noteq> '''' \<and> length k = 32" "cf_TokenSigningSeeds cfg \<noteq> []"
    and active: "map_of (cf_TokenSigningSeeds cfg) (cf_TokenActiveKeyID cfg) \<noteq> None"
    and ttl: "cf_TokenIssuer cfg \<noteq> ''''" "0 < cf_TokenTTL cfg" "cf_TokenTTL cfg \<le> cf_TokenMaxTTL cfg"
    by (auto simp: tokens_ok_def ring_ok_def knows_def)
  from ring(1) active have "cf_TokenActiveKeyID cfg \<noteq> ''''" by (auto dest: map_of_SomeD)
  moreover obtain pub seed where "for_each (add_key lib (cf_TokenActiveKeyID cfg)) (cf_TokenSigningSeeds cfg) ([], None) = Inr (pub, Some seed)"
    using add_keys_starts [OF ring(1), of lib "cf_TokenActiveKeyID cfg" "[]" None] active by auto
  ultimately show ?thesis using ring(2) ttl by (simp add: NewKeyring_def)
qed

lemma public_products_map: "map_of (public_products cfg) p = None \<longleftrightarrow> \<not> knows (cf_Products cfg) p"
  by (simp add: public_products_def knows_def map_of_eq_None_iff image_image case_prod_unfold)

lemma registry_audience: "registry_ok lib cfg \<Longrightarrow> (i, a) \<in> set (cf_Products cfg) \<Longrightarrow> a \<noteq> ''''"
  unfolding registry_ok_def by blast

lemma invalid_names: "registry_ok lib cfg \<Longrightarrow>
   list_ex (\<lambda>(i, a). \<not> ValidProductID i \<or> a = '''') (cf_Products cfg) \<longleftrightarrow> \<not> names_valid cfg"
  unfolding list_ex_iff names_valid_def using registry_audience by blast

lemma public_products_ok: "registry_ok lib cfg \<Longrightarrow>
   list_ex (\<lambda>(i, product). \<not> ValidProductID i \<or> pr_Audience product = '''') (public_products cfg) \<longleftrightarrow> \<not> names_valid cfg"
  by (subst invalid_names [symmetric]) (simp_all add: public_products_def list_ex_iff case_prod_unfold)

lemma public_broker_starts:
  assumes "registry_ok lib cfg" "public_ok cfg"
  shows "(\<exists>b. public_broker lb cfg signer g = Inr b) \<longleftrightarrow> cf_PublicInstallationProducts cfg = [] \<or> names_valid cfg"
    and "public_broker lb cfg signer g = Inr b \<Longrightarrow> b = None \<longleftrightarrow> cf_PublicInstallationProducts cfg = []"
proof -
  have known: "\<not> list_ex (\<lambda>p. map_of (public_products cfg) p = None) (cf_PublicInstallationProducts cfg)"
    using assms(2) by (simp add: public_products_map public_ok_def list_ex_iff)
  have "public_products cfg \<noteq> []" using assms(1) by (simp add: public_products_def registry_ok_def)
  then show "(\<exists>b. public_broker lb cfg signer g = Inr b) \<longleftrightarrow> cf_PublicInstallationProducts cfg = [] \<or> names_valid cfg"
    using assms(2) public_products_ok [OF assms(1)] known by (simp add: public_broker_def broker_New_def public_ok_def)
  show "public_broker lb cfg signer g = Inr b \<Longrightarrow> b = None \<longleftrightarrow> cf_PublicInstallationProducts cfg = []"
    by (auto simp: public_broker_def split: if_splits)
qed

lemma directory_starts: "registry_ok lib cfg \<Longrightarrow> (\<exists>d. directory_New services (cf_Products cfg) = Inr d) \<longleftrightarrow> names_valid cfg"
  using invalid_names [of lib cfg] by (simp add: directory_New_def) (auto simp: registry_ok_def)

lemma daily_limit_fits: "0 \<le> i \<Longrightarrow> i \<le> 10000 \<Longrightarrow> (word_of_int i :: uint64) \<le> 10000"
  by (simp add: word_le_def uint_word_of_int)

lemma account_New_starts:
  assumes "registry_ok lib cfg" "public_ok cfg" "accounts_ok cfg" and on: "pa_Enabled (cf_PublicAccounts cfg)"
  shows "(\<exists>b. account_New deps \<lparr>gc_Products = public_products cfg, gc_RegistrationProducts = pa_Products (cf_PublicAccounts cfg),
      gc_RegistrationPolicyVersion = pa_PolicyVersion (cf_PublicAccounts cfg), gc_OTPKeyID = pa_OTPKeyID (cf_PublicAccounts cfg),
      gc_OTPKey = pa_OTPKey (cf_PublicAccounts cfg), gc_DailyLimit = word_of_int (pa_DailyLimit (cf_PublicAccounts cfg))\<rparr> = Inr b) \<longleftrightarrow>
    names_valid cfg \<and> labels_fit cfg"
proof -
  let ?a = "cf_PublicAccounts cfg"
  from assms(3) on have a: "set (pa_Products ?a) \<subseteq> set (cf_PublicInstallationProducts cfg)" "32 \<le> length (pa_OTPKey ?a)" "length (pa_OTPKey ?a) \<le> 128"
    "1 \<le> pa_DailyLimit ?a" "pa_DailyLimit ?a \<le> 10000" by (simp_all add: accounts_ok_def Let_def)
  from assms(3) on have labels: "validLabel l \<longleftrightarrow> length l \<le> 100" if "l \<in> {pa_PolicyVersion ?a, pa_OTPKeyID ?a}" for l
    using that by (auto simp: accounts_ok_def Let_def validLabel_def Suc_le_eq)
  have "public_products cfg \<noteq> []" using assms(1) by (simp add: public_products_def registry_ok_def)
  moreover have "list_ex (\<lambda>i. map_of (public_products cfg) i = None) (pa_Products ?a) \<longleftrightarrow> False"
    using a(1) assms(2) by (auto simp: public_products_map list_ex_iff public_ok_def)
  moreover have "\<not> (word_of_int (pa_DailyLimit ?a) :: uint64) > 10000" using daily_limit_fits [of "pa_DailyLimit ?a"] a by (simp add: not_less)
  ultimately show ?thesis
    using a on labels public_products_ok [OF assms(1)] by (auto simp: account_New_def labels_fit_def)
qed

lemma account_broker_starts:
  assumes "registry_ok lib cfg" "public_ok cfg" "accounts_ok cfg"
    and guard: "pa_Enabled (cf_PublicAccounts cfg) \<Longrightarrow> ValidatePublicOTPKeyID d (pa_OTPKeyID (cf_PublicAccounts cfg)) now = Inr ()"
    and broker: "b = None \<longleftrightarrow> cf_PublicInstallationProducts cfg = []"
  shows "(\<exists>a. account_broker lb cfg d now b ids signer g = Inr a) \<longleftrightarrow> (pa_Enabled (cf_PublicAccounts cfg) \<longrightarrow> names_valid cfg \<and> labels_fit cfg)"
proof (cases "pa_Enabled (cf_PublicAccounts cfg)")
  case True
  with assms(3) broker obtain x where "b = Some x" by (auto simp: accounts_ok_def Let_def)
  with True guard account_New_starts [OF assms(1-3) True] show ?thesis by (simp add: account_broker_def Let_def)
qed (simp add: account_broker_def Let_def)

section \<open>Properties\<close>


text \<open>
  C37: of the configurations the loader accepts, those start, on a database of the current schema whose rows refer to
  configured keys only, whose product names are all valid, and whose two account labels fit 100 bytes when accounts are
  enabled. Every other setting the constructors check has been checked by the loader.
\<close>

theorem accepted_config_starts:
  assumes load: "load lib lookup = Inr cfg" "\<not> cf_MaintenanceMode cfg" and sha: "lb_sha256 lb = cl_sha256 lib"
    and ready: "Store_Ready version = Inr ()" and envelope: "ValidateEnvelopeKeyIDs (views 0) (envelope_keys cfg) = Inr ()"
    and blind: "ValidateBlindIndexVersions (views 1) (map fst (cf_BlindIndexKeys cfg)) = Inr ()"
    and otp: "pa_Enabled (cf_PublicAccounts cfg) \<Longrightarrow> ValidatePublicOTPKeyID (views 2) (pa_OTPKeyID (cf_PublicAccounts cfg)) now = Inr ()"
  shows "(\<exists>started. assemble lb cfg version views now = Inr started) \<longleftrightarrow>
    (\<forall>(product, audience) \<in> set (cf_Products cfg). ValidProductID product) \<and>
    (pa_Enabled (cf_PublicAccounts cfg) \<longrightarrow> length (pa_PolicyVersion (cf_PublicAccounts cfg)) \<le> 100 \<and> length (pa_OTPKeyID (cf_PublicAccounts cfg)) \<le> 100)"
    (is "_ \<longleftrightarrow> ?names \<and> ?labels")
proof -
  from load_accepted [OF load] have ok: "registry_ok lib cfg" "email_keys_ok cfg" "tokens_ok cfg" "public_ok cfg" "accounts_ok cfg"
    by (simp_all add: accepted_def)
  obtain p where p: "key_provider_of lb cfg = Inr p" using key_provider_starts [OF ok(2)] by blast
  obtain b where b: "NewBlindIndexer (cf_BlindIndexCurrentVersion cfg) (cf_BlindIndexKeys cfg) = Inr b" using indexer_starts [OF ok(3)] by blast
  obtain s where s: "NewKeyring (lb_token lb) (cf_TokenSigningSeeds cfg) (cf_TokenActiveKeyID cfg) (cf_TokenIssuer cfg) (cf_TokenTTL cfg) (cf_TokenMaxTTL cfg) = Inr s"
    using signer_starts [OF ok(3)] by blast
  obtain w where w: "authz_New (lb_sha256 lb) (cf_Workloads cfg) = Inr w" using ok(1) by (auto simp: registry_ok_def sha)
  obtain g where g: "NewGenerator (cf_PairwiseIDKey cfg) = Inr g" using ok(2) by (auto simp: email_keys_ok_def NewGenerator_def)
  have names: "?names = names_valid cfg" "?labels = labels_fit cfg" by (simp_all add: names_valid_def labels_fit_def)
  have assemble: "(\<exists>started. assemble lb cfg version views now = Inr started) \<longleftrightarrow>
      (\<exists>x a d. public_broker lb cfg s g = Inr x \<and> account_broker lb cfg (views 2) now x
        \<lparr>is_gcm = lb_gcm lb, is_provider = p, is_hmac = lb_hmac lb, is_indexer = b, is_mail = lb_mail lb,
          is_minorCrossProductLinking = cf_MinorCrossProductLinking cfg, is_emailVerificationTTL = cf_EmailVerificationTTL cfg\<rparr> s g = Inr a \<and>
        directory_New (lb_directory lb) (cf_Products cfg) = Inr d)"
    unfolding assemble_def ready p envelope b blind s w g by (simp add: Let_def) blast
  have accounts: "(\<exists>a. account_broker lb cfg (views 2) now x i s g = Inr a) \<longleftrightarrow> (pa_Enabled (cf_PublicAccounts cfg) \<longrightarrow> names_valid cfg \<and> labels_fit cfg)"
    if "public_broker lb cfg s g = Inr x" for x i
    using account_broker_starts [OF ok(1,4,5) otp public_broker_starts(2) [OF ok(1,4) that]] by blast
  show ?thesis
    unfolding names assemble using public_broker_starts(1) [OF ok(1,4), of lb s g] accounts directory_starts [OF ok(1), of "lb_directory lb"]
    by (metis labels_fit_def)
qed

end
