(* ===== verification/Startup_Samples.thy ===== *)
theory Startup_Samples
  imports Startup Http_Scope
begin

text \<open>
  A production environment that the loader accepts, over a JSON reader that knows its five texts, and the witnesses of
  the properties of the start-up; with an invalid product name, or with an account label of more than a hundred
  bytes, the loader accepts it as well and the assembly fails.
\<close>

definition zero_key :: string where "zero_key = replicate 43 CHR ''A'' @ ''=''"

definition sample_json :: "string \<Rightarrow> string \<Rightarrow> (jvalue \<times> bytes) option" where
  "sample_json product = map_of
     [(''W'', VArr [VObj [(''id'', VStr ''w''), (''token'', VStr (replicate 32 CHR ''t'')), (''roles'', VArr [VStr ''product'']),
        (''products'', VArr [VStr product])]], ''''),
      (''P'', VObj [(product, VObj [(''telemetry_audience'', VStr ''metric'')])], ''''),
      (''K'', VObj [(''kms'', VStr ''key'')], ''''),
      (''B'', VObj [(''1'', VStr zero_key)], ''''),
      (''S'', VObj [(''k1'', VStr zero_key)], '''')]"

definition sample_url :: "string \<Rightarrow> URL" where
  "sample_url scheme = \<lparr>url_Scheme = scheme, url_Host = ''h'', url_Hostname = ''h'', url_Path = '''', url_RawQuery = '''', url_Fragment = '''', url_User = False\<rparr>"

definition sample_config_lib :: "string \<Rightarrow> config_lib" where
  "sample_config_lib product = \<lparr>cl_json = \<lparr>media_type = Some, js_next = sample_json product, parse_time = (\<lambda>_. None)\<rparr>, cl_sha256 = id,
     parse_duration = (\<lambda>_. None), parse_url = map_of [(''grpcs://h'', sample_url ''grpcs'')],
     parse_request_uri = map_of [(''https://h'', sample_url ''https'')], parse_mail = (\<lambda>from. Some ('''', from)),
     split_host_port = (\<lambda>addr. Some (''h'', ''25'')), is_ip = (\<lambda>_. False)\<rparr>"

definition sample_env :: environment where
  "sample_env = map_of
     [(''DEPLOYMENT_ENVIRONMENT'', ''production''), (''YDB_ENDPOINT'', ''grpcs://h''), (''YDB_DATABASE'', ''/d''), (''YDB_METADATA_CREDENTIALS'', ''1''),
      (''WORKLOADS_JSON'', ''W''), (''PRODUCTS_JSON'', ''P''), (''PAIRWISE_ID_KEY_BASE64'', zero_key), (''EMAIL_KEY_PROVIDER'', ''yandex-kms''),
      (''EMAIL_KEY_ACTIVE_ID'', ''kms''), (''EMAIL_YC_KMS_KEYS_JSON'', ''K''), (''BLIND_INDEX_KEYS_JSON'', ''B''), (''BLIND_INDEX_CURRENT_VERSION'', ''1''),
      (''TOKEN_SIGNING_KEYS_JSON'', ''S''), (''TOKEN_ACTIVE_KEY_ID'', ''k1''), (''TOKEN_ISSUER'', ''i''),
      (''REQUIRE_OUTBOX_DELIVERY'', ''true''), (''OUTBOX_DELIVERY_URL'', ''https://h'')]"

lemma trim_plain: "list_all (\<lambda>c. 32 < code c \<and> code c < 128) s \<Longrightarrow> trim_space s = s"
proof (rule trim_noop)
  assume plain: "list_all (\<lambda>c. 32 < code c \<and> code c < 128) s"
  then show "s \<noteq> [] \<Longrightarrow> code (hd s) < 128 \<and> code (last s) < 128" by (simp add: list_all_iff)
  show "code c \<notin> {9, 10, 11, 12, 13, 32}" if "c \<in> set s" for c
  proof -
    from plain that have "32 < code c" by (simp add: list_all_iff)
    then show ?thesis by auto
  qed
qed

lemma zero_key_decoded: "std_decode zero_key = Some (replicate 32 (CHR 0x00))" by code_simp

lemma sample_numbers: "Atoi ''1'' = Some 1" "ParseBool ''true'' = Some True" by code_simp+

lemma zero_key_plain: "trim_space zero_key \<noteq> ''''" by (simp add: trim_plain zero_key_def list_all_iff)

lemma sample_required:
  "required sample_env ''YDB_ENDPOINT'' = Inr ''grpcs://h''" "required sample_env ''YDB_DATABASE'' = Inr ''/d''"
  "required sample_env ''EMAIL_KEY_ACTIVE_ID'' = Inr ''kms''" "required sample_env ''TOKEN_ACTIVE_KEY_ID'' = Inr ''k1''" "required sample_env ''TOKEN_ISSUER'' = Inr ''i''"
  "required sample_env ''WORKLOADS_JSON'' = Inr ''W''" "required sample_env ''PRODUCTS_JSON'' = Inr ''P''" "required sample_env ''EMAIL_YC_KMS_KEYS_JSON'' = Inr ''K''"
  "required sample_env ''BLIND_INDEX_KEYS_JSON'' = Inr ''B''" "required sample_env ''TOKEN_SIGNING_KEYS_JSON'' = Inr ''S''"
  "required sample_env ''PAIRWISE_ID_KEY_BASE64'' = Inr zero_key"
  by (simp_all add: sample_env_def trim_plain zero_key_plain)

lemma sample_defaults:
  "valueOrDefault sample_env ''DEPLOYMENT_ENVIRONMENT'' ''development'' = ''production''" "valueOrDefault sample_env ''EMAIL_KEY_PROVIDER'' ''local'' = ''yandex-kms''"
  "valueOrDefault sample_env ''PUBLIC_INSTALLATION_POLICY_VERSION'' '''' = ''''" "valueOrDefault sample_env ''OUTBOX_DELIVERY_URL'' '''' = ''https://h''"
  "valueOrDefault sample_env ''HTTP_ADDR'' '':8080'' = '':8080''" "valueOrDefault sample_env ''PUBLIC_INSTALLATION_PRODUCTS'' '''' = ''''"
  "valueOrDefault sample_env ''PUBLIC_ACCOUNT_PRODUCTS'' '''' = ''''" "valueOrDefault sample_env ''PUBLIC_INSTALLATION_ADDITIONAL_POLICIES'' '''' = ''''"
  "valueOrDefault sample_env ''PUBLIC_INSTALLATION_ALLOWED_ORIGINS'' '''' = ''''" "valueOrDefault sample_env ''YDB_METADATA_CREDENTIALS'' '''' = ''1''"
  by (simp_all add: sample_env_def valueOrDefault_def trim_plain)

lemma sample_settings:
  "boolValue sample_env ''IDENTITY_MAINTENANCE_MODE'' False = Inr False" "boolValue sample_env ''MINOR_CROSS_PRODUCT_LINKING_ENABLED'' False = Inr False"
  "boolValue sample_env ''REQUIRE_OUTBOX_DELIVERY'' False = Inr True" "boolValue sample_env ''PUBLIC_ACCOUNT_ENABLED'' False = Inr False"
  "intValue sample_env ''BLIND_INDEX_CURRENT_VERSION'' 0 1 32767 = Inr 1" "intValue sample_env ''OUTBOX_MAX_ATTEMPTS'' 12 1 100 = Inr 12"
  "stringSet sample_env ''PUBLIC_INSTALLATION_PRODUCTS'' = Inr []" "stringSet sample_env ''PUBLIC_ACCOUNT_PRODUCTS'' = Inr []"
  "additional_policies sample_env [] = Inr []" "base64Key sample_env ''PAIRWISE_ID_KEY_BASE64'' 32 = Inr (replicate 32 (CHR 0x00))"
  "origins lib sample_env ''PUBLIC_INSTALLATION_ALLOWED_ORIGINS'' = Inr []"
  by (simp_all add: boolValue_def intValue_def stringSet_def additional_policies_def origins_def base64Key_def sample_defaults sample_required zero_key_decoded) (simp_all add: sample_env_def sample_numbers)

lemma durationValue_default: "lookup name = None \<Longrightarrow> durationValue lib lookup name fallback = Inr fallback"
  by (simp add: durationValue_def)

lemma sample_unset:
  "sample_env ''TOKEN_TTL'' = None" "sample_env ''TOKEN_MAX_TTL'' = None" "sample_env ''PUBLIC_INSTALLATION_REFRESH_TTL'' = None"
  "sample_env ''OUTBOX_POLL_INTERVAL'' = None" "sample_env ''OUTBOX_READINESS_MAX_AGE'' = None" "sample_env ''EMAIL_VERIFICATION_TTL'' = None"
  "sample_env ''EMAIL_VERIFICATION_CLEANUP_INTERVAL'' = None" "sample_env ''SHUTDOWN_TIMEOUT'' = None"
  by (simp_all add: sample_env_def)

lemma sample_production: "production_storage sample_env (sample_url ''grpcs'') = Inr ()"
  by (simp add: production_storage_def sample_url_def sample_defaults forbidden_credential_def) (simp add: sample_env_def)

lemma startup_rings:
  "namedIDs (sample_config_lib product) sample_env ''EMAIL_YC_KMS_KEYS_JSON'' = Inr [(''kms'', ''key'')]"
  "blindIndexKeys (sample_config_lib product) sample_env = Inr [(1, replicate 32 (CHR 0x00))]"
  "namedKeys (sample_config_lib product) sample_env ''TOKEN_SIGNING_KEYS_JSON'' 32 = Inr [(''k1'', replicate 32 (CHR 0x00))]"
  by (simp_all add: namedIDs_def blindIndexKeys_def namedKeys_def sample_required sample_config_lib_def sample_json_def decode_first_def unmarshal_def map_value_def
     key_of_def version_key_def zero_key_decoded trim_plain sample_numbers)

definition sample_workload_of :: "string \<Rightarrow> Workload" where
  "sample_workload_of product = \<lparr>wl_ID = ''w'', wl_Token = replicate 32 CHR ''t'', wl_Roles = [''product''], wl_Products = [product]\<rparr>"

lemma sample_fields:
  "field_values [''id'', ''token'', ''roles'', ''products''] [(''id'', VStr ''w''), (''token'', t), (''roles'', r), (''products'', p)] ''id'' = [VStr ''w'']"
  "field_values [''id'', ''token'', ''roles'', ''products''] [(''id'', VStr ''w''), (''token'', t), (''roles'', r), (''products'', p)] ''token'' = [t]"
  "field_values [''id'', ''token'', ''roles'', ''products''] [(''id'', VStr ''w''), (''token'', t), (''roles'', r), (''products'', p)] ''roles'' = [r]"
  "field_values [''id'', ''token'', ''roles'', ''products''] [(''id'', VStr ''w''), (''token'', t), (''roles'', r), (''products'', p)] ''products'' = [p]"
  "field_values [''telemetry_audience''] [(''telemetry_audience'', p)] ''telemetry_audience'' = [p]"
  by (simp_all add: field_values_def field_named_def)

lemma sample_registry:
  assumes "product \<noteq> ''''"
  shows "products (sample_config_lib product) sample_env = Inr [(product, ''metric'')]"
    "workloads (sample_config_lib product) sample_env = Inr [sample_workload_of product]"
proof -
  have "read_product (VObj [(''telemetry_audience'', VStr ''metric'')]) = Some ''metric''"
    by (simp add: read_product_def read_object_def sample_fields field_named_def)
  then show "products (sample_config_lib product) sample_env = Inr [(product, ''metric'')]"
    using assms by (simp add: products_def sample_required sample_config_lib_def sample_json_def decode_first_def map_value_def)
  have "read_workload (VObj [(''id'', VStr ''w''), (''token'', VStr (replicate 32 CHR ''t'')), (''roles'', VArr [VStr ''product'']), (''products'', VArr [VStr product])]) =
      Some (sample_workload_of product)"
    by (simp add: read_workload_def read_object_def sample_fields field_named_def sample_workload_of_def)
  moreover have "\<exists>cs. authz_New id [sample_workload_of product] = Inr cs"
    using assms by (simp add: authz_New_Inr workload_ok_def sample_workload_of_def known_roles_def RoleProduct_def)
  ultimately show "workloads (sample_config_lib product) sample_env = Inr [sample_workload_of product]"
    by (auto simp: workloads_def sample_required sample_config_lib_def sample_json_def decode_first_def read_workloads_def)
qed

definition sample_config :: "string \<Rightarrow> Config" where
  "sample_config product = empty_config\<lparr>cf_Environment := ''production'', cf_HTTPAddr := '':8080'', cf_YDBEndpoint := ''grpcs://h'', cf_YDBDatabase := ''/d'',
     cf_Workloads := [sample_workload_of product], cf_Products := [(product, ''metric'')], cf_PairwiseIDKey := replicate 32 (CHR 0x00),
     cf_EmailKeyProvider := ''yandex-kms'', cf_EmailKeyActiveID := ''kms'', cf_EmailYandexKMSKeys := [(''kms'', ''key'')],
     cf_BlindIndexKeys := [(1, replicate 32 (CHR 0x00))], cf_BlindIndexCurrentVersion := 1, cf_TokenSigningSeeds := [(''k1'', replicate 32 (CHR 0x00))],
     cf_TokenActiveKeyID := ''k1'', cf_TokenIssuer := ''i'', cf_TokenTTL := 5 * minute, cf_TokenMaxTTL := 15 * minute,
     cf_PublicAccounts := empty_accounts\<lparr>pa_OTPKeyID := ''otp-v1'', pa_DailyLimit := 200\<rparr>, cf_PublicRefreshTTL := 180 * 24 * hour,
     cf_OutboxURL := ''https://h'', cf_OutboxPollInterval := 2 * second, cf_OutboxMaxAttempts := 12, cf_OutboxReadinessMaxAge := 5 * minute,
     cf_RequireOutboxDelivery := True, cf_EmailVerificationTTL := 15 * minute, cf_EmailCleanupInterval := minute, cf_ShutdownTimeout := 10 * second\<rparr>"

lemma sample_loads:
  assumes "product \<noteq> ''''"
  shows "load (sample_config_lib product) sample_env = Inr (sample_config product)"
proof -
  have url: "parse_url (sample_config_lib product) ''grpcs://h'' = Some (sample_url ''grpcs'')" "outbox_url_ok (sample_config_lib product) ''https://h''"
    by (simp_all add: sample_config_lib_def outbox_url_ok_def sample_url_def)
  have grpc: "grpc_endpoint (sample_url ''grpcs'')" by (simp add: grpc_endpoint_def sample_url_def)
  show ?thesis
    by (simp add: load_def load_storage_def load_registry_def load_email_keys_def load_tokens_def load_public_def load_outbox_def load_timers_def
        loadPublicAccounts_def sample_config_def sample_defaults sample_settings sample_required durationValue_default sample_unset startup_rings sample_registry [OF assms]
        sample_production url grpc knows_def sample_workload_of_def empty_config_def empty_accounts_def Let_def duration_defs)
qed

section \<open>Witnesses\<close>


definition sample_libraries :: libraries where
  "sample_libraries = \<lparr>lb_token = sample_lib, lb_http = sample_http VNull, lb_sha256 = id, lb_hmac = (\<lambda>k m. k), lb_gcm = sample_aead,
     lb_mail = sample_mail, lb_kms = \<lparr>kms_Encrypt = (\<lambda>_ _ _. None), kms_Decrypt = (\<lambda>_ _ _. None)\<rparr>, lb_directory = sample_directory,
     lb_post = (\<lambda>_ _ _ _. None), lb_receipt = (\<lambda>_. DeliveryReceipt '''' '''')\<rparr>"

lemma sample_guards:
  "Store_Ready (Some schema_Version) = Inr ()" "ValidateEnvelopeKeyIDs empty_db keys = Inr ()" "ValidateBlindIndexVersions empty_db versions = Inr ()"
  "\<not> cf_MaintenanceMode (sample_config product)" "\<not> pa_Enabled (cf_PublicAccounts (sample_config product))" "cf_Products (sample_config product) = [(product, ''metric'')]"
  "lb_sha256 sample_libraries = cl_sha256 (sample_config_lib product)"
  by (simp_all add: Store_Ready_def ValidateEnvelopeKeyIDs_def ValidateBlindIndexVersions_def empty_db_def sample_config_def empty_config_def empty_accounts_def
      sample_libraries_def sample_config_lib_def)

theorem accepted_config_starts_witness:
  "(\<exists>started. assemble sample_libraries (sample_config ''pict'') (Some schema_Version) (\<lambda>_. empty_db) 0 = Inr started) \<and>
   \<not> (\<exists>started. assemble sample_libraries (sample_config ''Bad name'') (Some schema_Version) (\<lambda>_. empty_db) 0 = Inr started)"
proof -
  have starts: "(\<exists>started. assemble sample_libraries (sample_config product) (Some schema_Version) (\<lambda>_. empty_db) 0 = Inr started) \<longleftrightarrow> ValidProductID product"
    if "product \<noteq> ''''" for product
    by (subst accepted_config_starts [OF sample_loads [OF that] sample_guards(4) sample_guards(7)])
      (simp_all add: sample_guards)
  have "ValidProductID ''pict''" "\<not> ValidProductID ''Bad name''" by (simp_all add: ValidProductID_def char_class_defs)
  with starts [of "''pict''"] starts [of "''Bad name''"] show ?thesis by simp
qed

section \<open>Configurations that are accepted and do not start\<close>

text \<open>
  The loader asks of a product name only that it is not empty; the directory, which every start builds, asks for a
  valid product identifier.
\<close>

lemma invalid_product_name_accepted:
  "load (sample_config_lib ''Bad name'') sample_env = Inr (sample_config ''Bad name'')"
  "directory_New sample_directory (cf_Products (sample_config ''Bad name'')) = Inl (ErrMessage ''invalid directory product registry'')"
  by (rule sample_loads, simp) (simp add: directory_New_def sample_guards ValidProductID_def char_class_defs)

text \<open>
  The loader counts the characters of an account label, the broker its bytes: sixty letters of two bytes each pass the
  one and not the other.
\<close>

definition long_label :: string where
  "long_label = concat (replicate 60 [CHR 0xC3, CHR 0xA9])"

lemma long_label_trimmed: "trim_space long_label = long_label"
proof -
  have label: "long_label = CHR 0xC3 # tl long_label" "rev long_label = CHR 0xA9 # CHR 0xC3 # tl (tl (rev long_label))" by code_simp+
  have "List.find (\<lambda>r. prefix r (CHR 0xC3 # tl long_label)) space_runes = None"
    "List.find (\<lambda>r. prefix r (CHR 0xA9 # CHR 0xC3 # tl (tl (rev long_label)))) (map rev space_runes) = None"
    by (auto simp: find_None_iff space_runes_def)
  then have "List.find (\<lambda>r. prefix r long_label) space_runes = None" "List.find (\<lambda>r. prefix r (rev long_label)) (map rev space_runes) = None"
    using label by metis+
  then show ?thesis by (simp add: trim_space_def trim_left_def trim_right_def drop_runes_none)
qed

lemma long_label_accepted:
  "publicAccountIdentifier (\<lambda>_. Some long_label) name fallback = Inr long_label"
  "\<not> validLabel long_label"
proof -
  have "utf8_valid long_label" "rune_count long_label = 60" "CHR ''@'' \<notin> set long_label" "\<not> has_control long_label" "length long_label = 120"
    by code_simp+
  with long_label_trimmed show "publicAccountIdentifier (\<lambda>_. Some long_label) name fallback = Inr long_label" "\<not> validLabel long_label"
    by (simp_all add: publicAccountIdentifier_def valueOrDefault_def validLabel_def)
qed

end
