(* ===== verification/Schema_Migration.thy ===== *)
theory Schema_Migration
  imports Http_Server
begin

text \<open>
  The migration of the database schema (\<^verbatim>\<open>schema.Apply\<close>): the tables are created one statement at a time, outside any
  transaction, and the version is recorded last. A statement can fail before or after it took effect, so an
  interrupted migration leaves any prefix of its work behind.
\<close>

section \<open>Statements\<close>

text \<open>The tables the statements create, by name; every statement is a \<^verbatim>\<open>CREATE TABLE IF NOT EXISTS\<close>.\<close>

definition statements :: "string list" where
  "statements = [''schema_meta'', ''persons'', ''email_identities'', ''email_blind_indexes'', ''accounts'', ''accounts_by_person'',
     ''product_installations'', ''subject_aliases'', ''subject_alias_keys'', ''organizations'', ''organization_submissions'',
     ''organization_merge_audit'', ''memberships'', ''consents'', ''telemetry_preferences'', ''privacy_requests'', ''privacy_idempotency'',
     ''privacy_request_steps'', ''outbox_events'', ''privacy_request_status_audit'', ''email_verifications'', ''email_verification_audit'']"

definition publicAccountStatements :: "string list" where
  "publicAccountStatements = [''public_email_challenges'', ''public_registration_flows'', ''product_accounts'', ''account_sessions'',
     ''account_refresh_tokens'', ''public_auth_events'', ''public_account_audit'']"

record catalog =
  ct_tables :: "string list"
  ct_version :: "uint64 option"

text \<open>
  The answer to a statement: it took effect, it was refused, or it took effect and its answer was lost.
  A read that does not answer fails either way.
\<close>

datatype reply = Applied | Refused | Lost

definition Exec :: "reply \<Rightarrow> (catalog \<Rightarrow> catalog) \<Rightarrow> catalog \<Rightarrow> catalog \<times> error option" where
  "Exec answer effect c = (case answer of
     Applied \<Rightarrow> (effect c, None) | Refused \<Rightarrow> (c, Some (ErrMessage ''exec'')) | Lost \<Rightarrow> (effect c, Some (ErrMessage ''exec'')))"

definition create_table :: "string \<Rightarrow> catalog \<Rightarrow> catalog" where
  "create_table t c = c\<lparr>ct_tables := List.insert t (ct_tables c)\<rparr>"

fun create_all :: "string list \<Rightarrow> (nat \<Rightarrow> reply) \<Rightarrow> nat \<Rightarrow> catalog \<Rightarrow> catalog \<times> error option" where
  "create_all [] answers k c = (c, None)"
| "create_all (t # ts) answers k c = (case Exec (answers k) (create_table t) c of
     (c1, Some e) \<Rightarrow> (c1, Some e)
   | (c1, None) \<Rightarrow> create_all ts answers (Suc k) c1)"

definition promote :: "catalog \<Rightarrow> catalog" where
  "promote c = c\<lparr>ct_version := Some schema_Version\<rparr>"

definition schema_Apply :: "(nat \<Rightarrow> reply) \<Rightarrow> catalog \<Rightarrow> catalog \<times> error option" where
  "schema_Apply answers c =
     (case Exec (answers 0) (create_table (hd statements)) c of
        (c1, Some e) \<Rightarrow> (c1, Some e)
      | (c1, None) \<Rightarrow>
          if answers 1 \<noteq> Applied then (c1, Some (ErrMessage ''read YDB schema version''))
          else
            let current = (case ct_version c1 of None \<Rightarrow> 0 | Some v \<Rightarrow> v) in
            if ct_version c1 \<noteq> None \<and> current \<noteq> 1 \<and> current \<noteq> schema_Version then (c1, Some (ErrMessage ''unexpected YDB schema version''))
            else case create_all (tl statements) answers 2 c1 of
              (c2, Some e) \<Rightarrow> (c2, Some e)
            | (c2, None) \<Rightarrow>
                (case create_all publicAccountStatements answers (Suc (length statements)) c2 of
                   (c3, Some e) \<Rightarrow> (c3, Some e)
                 | (c3, None) \<Rightarrow>
                     if current = schema_Version then (c3, None)
                     else Exec (answers (Suc (length statements + length publicAccountStatements))) promote c3))"

text \<open>Repeated runs of the schema command, whatever happens to each.\<close>

inductive migrated :: "catalog \<Rightarrow> catalog \<Rightarrow> bool" where
  untouched: "migrated c c"
| attempt: "migrated c c1 \<Longrightarrow> schema_Apply answers c1 = (c2, failed) \<Longrightarrow> migrated c c2"

section \<open>Laws\<close>

definition complete :: "catalog \<Rightarrow> bool" where
  "complete c \<longleftrightarrow> set (statements @ publicAccountStatements) \<subseteq> set (ct_tables c)"

lemma Exec_create: "Exec answer (create_table t) c = (c1, failed) \<Longrightarrow>
   ct_version c1 = ct_version c \<and> set (ct_tables c) \<subseteq> set (ct_tables c1) \<and> set (ct_tables c1) \<subseteq> insert t (set (ct_tables c)) \<and>
   (failed = None \<longrightarrow> t \<in> set (ct_tables c1)) \<and> (answer = Applied \<longrightarrow> failed = None)"
  by (auto simp: Exec_def create_table_def split: reply.splits)

lemma create_all_effect: "create_all ts answers k c = (c1, failed) \<Longrightarrow>
   ct_version c1 = ct_version c \<and> set (ct_tables c) \<subseteq> set (ct_tables c1) \<and> set (ct_tables c1) \<subseteq> set ts \<union> set (ct_tables c) \<and>
   (failed = None \<longrightarrow> set ts \<subseteq> set (ct_tables c1)) \<and> ((\<forall>i. answers i = Applied) \<longrightarrow> failed = None)"
proof (induction ts arbitrary: k c)
  case (Cons t ts)
  obtain c' e where step: "Exec (answers k) (create_table t) c = (c', e)" by fastforce
  note one = Exec_create [OF step]
  show ?case
  proof (cases e)
    case None
    with Cons.prems step have "create_all ts answers (Suc k) c' = (c1, failed)" by simp
    from Cons.IH [OF this] one None show ?thesis by (simp only: set_simps) blast
  next
    case (Some x)
    with Cons.prems step have "c1 = c'" "failed = Some x" by simp_all
    with one Some show ?thesis by (simp only: set_simps) blast
  qed
qed simp

lemma statements_split: "set statements = insert (hd statements) (set (tl statements))"
  by (simp add: statements_def)

text \<open>An attempt either stops with the version unchanged, or leaves every table in place.\<close>

lemma schema_Apply_cases:
  assumes run: "schema_Apply answers c = (c', failed)"
  obtains (stopped) "failed \<noteq> None" "ct_version c' = ct_version c" "set (ct_tables c) \<subseteq> set (ct_tables c')"
    | (finished) "ct_version c \<in> {None, Some 1, Some schema_Version}" "complete c'" "ct_version c' \<in> {ct_version c, Some schema_Version}"
        "failed = None \<longrightarrow> ct_version c' = Some schema_Version"
proof -
  let ?ts = "tl statements" and ?ps = publicAccountStatements
  obtain c1 e1 where s1: "Exec (answers 0) (create_table (hd statements)) c = (c1, e1)" by fastforce
  obtain c2 e2 where s2: "create_all ?ts answers 2 c1 = (c2, e2)" by fastforce
  obtain c3 e3 where s3: "create_all ?ps answers (Suc (length statements)) c2 = (c3, e3)" by fastforce
  note e = Exec_create [OF s1] create_all_effect [OF s2] create_all_effect [OF s3]
  from e(1) have one: "ct_version c1 = ct_version c" "set (ct_tables c) \<subseteq> set (ct_tables c1)" by blast+
  from e(2) have two: "ct_version c2 = ct_version c1" "set (ct_tables c1) \<subseteq> set (ct_tables c2)" by blast+
  from e(3) have three: "ct_version c3 = ct_version c2" "set (ct_tables c2) \<subseteq> set (ct_tables c3)" by blast+
  from one two three have versions: "ct_version c1 = ct_version c" "ct_version c2 = ct_version c" "ct_version c3 = ct_version c" by metis+
  from one two three have grows: "set (ct_tables c) \<subseteq> set (ct_tables c2)" "set (ct_tables c) \<subseteq> set (ct_tables c3)" by blast+
  define known where "known \<longleftrightarrow> ct_version c \<in> {None, Some 1, Some schema_Version}"
  consider (early) "e1 \<noteq> None" | (unread) "e1 = None" "answers 1 \<noteq> Applied \<or> \<not> known" | (tables) "e1 = None" "answers 1 = Applied" known "e2 \<noteq> None"
    | (accounts) "e1 = None" "answers 1 = Applied" known "e2 = None" "e3 \<noteq> None" | (all) "e1 = None" "answers 1 = Applied" known "e2 = None" "e3 = None"
    by blast
  then show thesis
  proof cases
    case all
    with e have "complete c3" unfolding complete_def set_append statements_split by blast
    from all run have "(if ct_version c = Some schema_Version then (c3, None)
        else Exec (answers (Suc (length statements + length ?ps))) promote c3) = (c', failed)"
      by (simp add: schema_Apply_def s1 s2 s3 versions known_def Let_def split: option.splits if_splits)
        (auto simp: schema_Version_def)
    then have "complete c'" "ct_version c' \<in> {ct_version c, Some schema_Version}" "failed = None \<longrightarrow> ct_version c' = Some schema_Version"
      using \<open>complete c3\<close> versions by (auto simp: Exec_def promote_def complete_def split: reply.splits if_splits)
    with all show thesis by (intro finished) (simp_all add: known_def)
  qed (use run versions one(2) grows in \<open>auto simp: schema_Apply_def s1 s2 s3 known_def Let_def intro!: stopped split: if_splits option.splits\<close>)
qed

lemma schema_Apply_succeeds:
  assumes known: "ct_version c \<in> {None, Some 1, Some schema_Version}" and answers: "\<forall>i. answers i = Applied"
  shows "snd (schema_Apply answers c) = None"
proof -
  obtain c1 e1 where s1: "Exec (answers 0) (create_table (hd statements)) c = (c1, e1)" by fastforce
  obtain c2 e2 where s2: "create_all (tl statements) answers 2 c1 = (c2, e2)" by fastforce
  obtain c3 e3 where s3: "create_all publicAccountStatements answers (Suc (length statements)) c2 = (c3, e3)" by fastforce
  from Exec_create [OF s1] answers have one: "e1 = None" "ct_version c1 = ct_version c" by metis+
  from create_all_effect [OF s2] create_all_effect [OF s3] answers have "e2 = None" "e3 = None" by blast+
  moreover have "answers (Suc 0) = Applied" "snd (Exec (answers k) promote c3) = None" for k using answers by (simp_all add: Exec_def)
  ultimately show ?thesis using one known by (auto simp: schema_Apply_def s1 s2 s3 Let_def split: option.splits)
qed

lemma migrated_promotes:
  assumes "migrated c c'" and "ct_version c = Some schema_Version \<longrightarrow> complete c"
  shows "ct_version c' = Some schema_Version \<longrightarrow> complete c'"
  using assms
proof induction
  case (attempt c c1 answers c2 failed)
  from attempt.hyps(2) show ?case
  proof (cases rule: schema_Apply_cases)
    case stopped
    with attempt.IH attempt.prems show ?thesis by (auto simp: complete_def)
  qed simp
qed

lemma unknown_version_refused:
  assumes "ct_version c = Some v" "v \<noteq> 1" "v \<noteq> schema_Version" and "schema_Apply answers c = (c', failed)"
  shows "failed \<noteq> None" "ct_version c' = ct_version c" "set (ct_tables c') \<subseteq> insert ''schema_meta'' (set (ct_tables c))"
proof -
  obtain c1 e1 where s1: "Exec (answers 0) (create_table (hd statements)) c = (c1, e1)" by fastforce
  note one = Exec_create [OF s1]
  have "hd statements = ''schema_meta''" by (simp add: statements_def)
  moreover have "c' = c1" "failed \<noteq> None" using assms one by (auto simp: schema_Apply_def s1 Let_def split: option.splits if_splits)
  ultimately show "failed \<noteq> None" "ct_version c' = ct_version c" "set (ct_tables c') \<subseteq> insert ''schema_meta'' (set (ct_tables c))" using one by auto
qed

section \<open>Properties\<close>

text \<open>
  C36: the recorded version is the last thing a migration writes. However often the schema command ran on a
  database and wherever each run failed, with its last statement applied or not, a database that the service finds
  ready has every table of the schema; a run whose statements are all applied leaves a fresh database, one of
  version 1 and a current one ready; and a database of any other version keeps its version, gains no table but
  the one that holds the version, and the run fails.
\<close>

theorem schema_promotion_last:
  assumes "ct_version c = Some schema_Version \<longrightarrow> set (statements @ publicAccountStatements) \<subseteq> set (ct_tables c)"
    and "migrated c c'"
  shows "(Store_Ready (ct_version c') = Inr () \<longrightarrow> set (statements @ publicAccountStatements) \<subseteq> set (ct_tables c')) \<and>
    (ct_version c' \<in> {None, Some 1, Some schema_Version} \<and> (\<forall>i. answers i = Applied) \<longrightarrow>
      (\<exists>c''. schema_Apply answers c' = (c'', None) \<and> Store_Ready (ct_version c'') = Inr ())) \<and>
    (\<forall>v. ct_version c' = Some v \<and> v \<noteq> 1 \<and> v \<noteq> schema_Version \<longrightarrow>
      (\<exists>c'' e. schema_Apply answers c' = (c'', Some e) \<and> ct_version c'' = Some v \<and> set (ct_tables c'') \<subseteq> insert ''schema_meta'' (set (ct_tables c'))))"
proof -
  have ready: "Store_Ready x = Inr () \<longleftrightarrow> x = Some schema_Version" for x by (auto simp: Store_Ready_def split: option.splits if_splits)
  obtain c'' failed where run: "schema_Apply answers c' = (c'', failed)" by fastforce
  have "set (statements @ publicAccountStatements) \<subseteq> set (ct_tables c')" if "Store_Ready (ct_version c') = Inr ()"
    using that migrated_promotes [OF assms(2)] assms(1) by (simp only: ready complete_def)
  moreover have "failed = None \<and> Store_Ready (ct_version c'') = Inr ()"
    if "ct_version c' \<in> {None, Some 1, Some schema_Version}" and "\<forall>i. answers i = Applied"
  proof -
    from schema_Apply_succeeds [OF that] run have "failed = None" by simp
    with run show ?thesis by (cases rule: schema_Apply_cases) (auto simp: ready)
  qed
  moreover have "failed \<noteq> None \<and> ct_version c'' = Some v \<and> set (ct_tables c'') \<subseteq> insert ''schema_meta'' (set (ct_tables c'))"
    if "ct_version c' = Some v" "v \<noteq> 1" "v \<noteq> schema_Version" for v
    using unknown_version_refused [OF that run] that by metis
  ultimately show ?thesis unfolding run by blast
qed

theorem schema_promotion_last_witness:
  "(\<exists>c''. schema_Apply (\<lambda>_. Applied) \<lparr>ct_tables = [''schema_meta''], ct_version = Some 1\<rparr> = (c'', None) \<and>
      set (statements @ publicAccountStatements) \<subseteq> set (ct_tables c'')) \<and>
   (\<exists>c'' e. schema_Apply (\<lambda>_. Applied) \<lparr>ct_tables = [], ct_version = Some 3\<rparr> = (c'', Some e) \<and> ct_version c'' = Some 3)"
proof -
  let ?c = "\<lparr>ct_tables = [''schema_meta''], ct_version = Some 1\<rparr> :: catalog" and ?d = "\<lparr>ct_tables = [], ct_version = Some 3\<rparr> :: catalog"
  have old: "ct_version ?c = Some schema_Version \<longrightarrow> set (statements @ publicAccountStatements) \<subseteq> set (ct_tables ?c)"
    "ct_version ?d = Some schema_Version \<longrightarrow> set (statements @ publicAccountStatements) \<subseteq> set (ct_tables ?d)"
    by (simp_all add: schema_Version_def)
  from schema_promotion_last [OF old(1) migrated.untouched, of "\<lambda>_. Applied"] obtain c''
    where run: "schema_Apply (\<lambda>_. Applied) ?c = (c'', None)" and ready: "Store_Ready (ct_version c'') = Inr ()" by auto
  have "migrated ?c c''" using migrated.attempt [OF migrated.untouched run] .
  from schema_promotion_last [OF old(1) this] ready run
  have "\<exists>c''. schema_Apply (\<lambda>_. Applied) ?c = (c'', None) \<and> set (statements @ publicAccountStatements) \<subseteq> set (ct_tables c'')" by blast
  moreover have "\<exists>c'' e. schema_Apply (\<lambda>_. Applied) ?d = (c'', Some e) \<and> ct_version c'' = Some 3"
    using schema_promotion_last [OF old(2) migrated.untouched, of "\<lambda>_. Applied"] by (auto simp: schema_Version_def)
  ultimately show ?thesis by blast
qed

end
