(* ===== verification/Kms_Token.thy ===== *)
theory Kms_Token
  imports Config Envelope Tokens
begin

text \<open>
  The source of IAM tokens for the key management service (\<^verbatim>\<open>MetadataIAMTokenSource\<close> of \<^verbatim>\<open>yandex_kms.go\<close>): one cached token,
  renewed from the metadata service when less than a minute of its life is left. The answer of the metadata
  service is a parameter, and so is the JSON reader.
\<close>

record MetadataIAMTokenSource =
  ts_token :: string
  ts_expiresAt :: time

definition NewMetadataIAMTokenSource :: MetadataIAMTokenSource where
  "NewMetadataIAMTokenSource = \<lparr>ts_token = '''', ts_expiresAt = zero_time\<rparr>"

definition read_iam_token :: "jvalue \<Rightarrow> (string \<times> int) option" where
  "read_iam_token = read_object [''access_token'', ''expires_in'', ''token_type''] (\<lambda>vs.
     obind (take_values take_string '''' (vs ''access_token'')) (\<lambda>accessToken.
     obind (take_values take_int64 0 (vs ''expires_in'')) (\<lambda>expiresIn.
     obind (take_values take_string '''' (vs ''token_type'')) (\<lambda>_. Some (accessToken, expiresIn)))))"

text \<open>
  \<open>now\<close> is the time of the check, \<open>later\<close> that of the renewal. The lifetime is multiplied in 64 bits.
\<close>

definition iam_Token ::
  "http_lib \<Rightarrow> time \<Rightarrow> (nat \<times> bytes) option \<Rightarrow> time \<Rightarrow> MetadataIAMTokenSource \<Rightarrow> string result \<times> MetadataIAMTokenSource" where
  "iam_Token lib now response later s =
     (if ts_token s \<noteq> '''' \<and> ts_expiresAt s - now > minute then (Inr (ts_token s), s)
      else case response of
        None \<Rightarrow> (Inl (ErrMessage ''request IAM token from metadata service''), s)
      | Some (status, body) \<Rightarrow>
          if status \<noteq> 200 then (Inl (ErrMessage ''metadata service returned an HTTP error''), s)
          else case (case js_next lib (take (16 * 1024) body) of None \<Rightarrow> None | Some (v, _) \<Rightarrow> read_iam_token v) of
            None \<Rightarrow> (Inl (ErrMessage ''metadata service returned invalid IAM token''), s)
          | Some (accessToken, expiresIn) \<Rightarrow>
              if accessToken = '''' \<or> expiresIn < 60 then (Inl (ErrMessage ''metadata service returned invalid IAM token''), s)
              else (Inr accessToken, \<lparr>ts_token = accessToken, ts_expiresAt = later + wrap64 (expiresIn * second)\<rparr>))"

text \<open>A token that is handed out has a minute of its life left: the cached one beyond it, a new one at least, while its lifetime fits 64 bits.\<close>

lemma iam_Token_alive:
  assumes "iam_Token lib now response later s = (Inr t, s')" and "now \<le> later"
    and "\<And>v i. read_iam_token v = Some (t, i) \<Longrightarrow> in_int64 (i * second)"
  shows "t = ts_token s'" "t \<noteq> ''''" "ts_expiresAt s' - now \<ge> minute"
proof -
  have "wrap64 (i * second) \<ge> minute" if "read_iam_token v = Some (t, i)" "60 \<le> i" for v i
    using assms(3) [OF that(1)] that(2) by (simp add: wrap64_id duration_defs)
  then show "t = ts_token s'" "t \<noteq> ''''" "ts_expiresAt s' - now \<ge> minute"
    using assms(1,2) by (fastforce simp: iam_Token_def split: if_splits option.splits prod.splits)+
qed

lemma iam_Token_refused: "iam_Token lib now response later s = (Inl e, s') \<Longrightarrow> s' = s"
  by (auto simp: iam_Token_def split: if_splits option.splits prod.splits)

end
